(* ===== verification/Prelude.thy ===== *)
theory Prelude
  imports Complex_Main "HOL-Library.Product_Lexorder" "HOL-Library.List_Lexorder" "HOL-Library.Char_ord"
begin

text \<open>
  Generic vocabulary of the development: rule collections, list lemmas about searching and
  updating tables kept as lists, grouping, and the fixed-point rounding used for the
  two-decimal columns.  Nothing here mentions the program.
\<close>

section \<open>Rule collections\<close>

named_theorems keeps_intros \<open>introduction rules: an operation keeps an assertion on the session\<close>
named_theorems tx_simps \<open>execution equations of the transaction monad\<close>
named_theorems table_defs \<open>definitions of the table descriptors of the schema\<close>
named_theorems row_simps \<open>equations about rows and their updates\<close>

section \<open>Lists as tables\<close>

definition first_opt :: "'a list \<Rightarrow> 'a option" where
  "first_opt xs = (case xs of [] \<Rightarrow> None | x # _ \<Rightarrow> Some x)"

lemma first_opt_simps [simp]:
  "first_opt [] = None"
  "first_opt (x # xs) = Some x"
  by (simp_all add: first_opt_def)

lemma first_opt_None_iff [simp]: "first_opt xs = None \<longleftrightarrow> xs = []"
  by (cases xs) auto

lemma first_opt_SomeD: "first_opt xs = Some x \<Longrightarrow> x \<in> set xs"
  by (cases xs) auto

lemma first_opt_filter_SomeD:
  "first_opt (filter p xs) = Some x \<Longrightarrow> x \<in> set xs \<and> p x"
  by (drule first_opt_SomeD) auto

lemma first_opt_filter_None:
  "first_opt (filter p xs) = None \<longleftrightarrow> (\<forall>x\<in>set xs. \<not> p x)"
  by (auto simp: filter_empty_conv)

lemma first_opt_filter_unique:
  assumes "x \<in> set xs" "p x" "\<And>y. y \<in> set xs \<Longrightarrow> p y \<Longrightarrow> y = x"
  shows "first_opt (filter p xs) = Some x"
proof -
  from assms(1,2) have "filter p xs \<noteq> []" by (auto simp: filter_empty_conv)
  then obtain y ys where ys: "filter p xs = y # ys" by (cases "filter p xs") auto
  then have "y \<in> set (filter p xs)" by simp
  with assms(3) have "y = x" by simp
  with ys show ?thesis by simp
qed

definition replace_where :: "('a \<Rightarrow> bool) \<Rightarrow> ('a \<Rightarrow> 'a) \<Rightarrow> 'a list \<Rightarrow> 'a list" where
  "replace_where p f xs = map (\<lambda>x. if p x then f x else x) xs"

lemma replace_where_simps [simp]:
  "replace_where p f [] = []"
  "replace_where p f (x # xs) = (if p x then f x else x) # replace_where p f xs"
  by (simp_all add: replace_where_def)

lemma length_replace_where [simp]: "length (replace_where p f xs) = length xs"
  by (simp add: replace_where_def)

lemma set_replace_where:
  "set (replace_where p f xs) = f ` {x \<in> set xs. p x} \<union> {x \<in> set xs. \<not> p x}"
  by (auto simp: replace_where_def)

lemma replace_where_append [simp]:
  "replace_where p f (xs @ ys) = replace_where p f xs @ replace_where p f ys"
  by (simp add: replace_where_def)

lemma map_replace_where_eq:
  "(\<And>x. x \<in> set xs \<Longrightarrow> p x \<Longrightarrow> g (f x) = g x) \<Longrightarrow> map g (replace_where p f xs) = map g xs"
  by (simp add: replace_where_def)

lemma map_eq_twin:
  assumes "map g xs = map g ys" "y \<in> set ys"
  shows "\<exists>x\<in>set xs. g x = g y"
proof -
  from assms(2) have "g y \<in> set (map g ys)" by simp
  then have "g y \<in> set (map g xs)" by (simp only: assms(1))
  then show ?thesis by auto
qed

lemma filter_replace_where_out:
  assumes "\<And>x. x \<in> set xs \<Longrightarrow> p x \<Longrightarrow> \<not> q x \<and> \<not> q (f x)"
  shows "filter q (replace_where p f xs) = filter q xs"
  using assms by (induction xs) auto

lemma replace_where_id: "(\<And>x. x \<in> set xs \<Longrightarrow> \<not> p x) \<Longrightarrow> replace_where p f xs = xs"
  by (induction xs) auto

section \<open>Grouping and counting\<close>

fun count_if :: "('a \<Rightarrow> bool) \<Rightarrow> 'a list \<Rightarrow> nat" where
  "count_if p [] = 0"
| "count_if p (x # xs) = (if p x then Suc (count_if p xs) else count_if p xs)"

lemma count_if_filter: "count_if p xs = length (filter p xs)"
  by (induction xs) auto

lemma count_if_append [simp]: "count_if p (xs @ ys) = count_if p xs + count_if p ys"
  by (induction xs) auto

lemma count_if_le_length: "count_if p xs \<le> length xs"
  by (induction xs) auto

lemma count_if_mono: "(\<And>x. p x \<Longrightarrow> q x) \<Longrightarrow> count_if p xs \<le> count_if q xs"
  by (induction xs) (auto intro: le_SucI)

lemma count_if_disjoint:
  "(\<And>x. x \<in> set xs \<Longrightarrow> \<not> (p x \<and> q x)) \<Longrightarrow>
   count_if p xs + count_if q xs = count_if (\<lambda>x. p x \<or> q x) xs"
  by (induction xs) auto

lemma count_if_cong:
  "(\<And>x. x \<in> set xs \<Longrightarrow> p x = q x) \<Longrightarrow> count_if p xs = count_if q xs"
  by (induction xs) auto

lemma count_if_replace_where_le:
  assumes "\<And>x. x \<in> set xs \<Longrightarrow> p x \<Longrightarrow> q (f x) \<Longrightarrow> q x"
  shows "count_if q (replace_where p f xs) \<le> count_if q xs"
  using assms by (induction xs) (auto simp: le_Suc_eq)

section \<open>Rounding to two decimals\<close>

text \<open>
  \<open>half_up q\<close> rounds a rational to the nearest integer, halves away from zero: the rounding of
  Python's \<open>ROUND_HALF_UP\<close> and of a PostgreSQL \<open>NUMERIC\<close> column.
\<close>

definition half_up :: "rat \<Rightarrow> int" where
  "half_up q = (if 0 \<le> q then \<lfloor>q + 1/2\<rfloor> else - \<lfloor>1/2 - q\<rfloor>)"

definition quantize2 :: "rat \<Rightarrow> rat" where
  "quantize2 q = of_int (half_up (q * 100)) / 100"

definition cents :: "rat \<Rightarrow> bool" where
  "cents q \<longleftrightarrow> quantize2 q = q"

lemma half_up_of_int [simp]: "half_up (of_int k) = k"
proof -
  have "\<lfloor>(of_int k :: rat) + 1/2\<rfloor> = k" by (rule floor_unique) auto
  moreover have "\<lfloor>1/2 - (of_int k :: rat)\<rfloor> = - k" by (rule floor_unique) auto
  ultimately show ?thesis by (simp add: half_up_def)
qed

lemma quantize2_idem [simp]: "quantize2 (quantize2 q) = quantize2 q"
  by (simp add: quantize2_def)

lemma cents_quantize2 [simp]: "cents (quantize2 q)"
  by (simp add: cents_def)

lemma cents_iff: "cents q \<longleftrightarrow> (\<exists>k. q = of_int k / 100)"
  by (auto simp: cents_def quantize2_def intro: sym)

lemma cents_0 [simp]: "cents 0"
  by (auto simp: cents_iff intro: exI [of _ 0])

lemma cents_add [simp]: "cents a \<Longrightarrow> cents b \<Longrightarrow> cents (a + b)"
  by (auto simp: cents_iff add_divide_distrib [symmetric] simp flip: of_int_add)

lemma cents_minus [simp]: "cents a \<Longrightarrow> cents (- a)"
  by (auto simp: cents_iff simp flip: of_int_minus minus_divide_left)

lemma cents_sum_list: "(\<And>x. x \<in> set xs \<Longrightarrow> cents x) \<Longrightarrow> cents (sum_list xs)"
  by (induction xs) auto

lemma half_up_mono: "a \<le> b \<Longrightarrow> half_up a \<le> half_up b"
proof -
  assume ab: "a \<le> b"
  consider "0 \<le> a" | "a < 0" "0 \<le> b" | "a < 0" "b < 0" by linarith
  then show ?thesis
  proof cases
    case 1
    with ab show ?thesis by (simp add: half_up_def floor_mono)
  next
    case 2
    have "0 \<le> \<lfloor>1/2 - a\<rfloor>" "0 \<le> \<lfloor>b + 1/2\<rfloor>" using 2 by (auto simp: le_floor_iff)
    with 2 show ?thesis unfolding half_up_def by simp linarith
  next
    case 3
    with ab show ?thesis by (simp add: half_up_def floor_mono)
  qed
qed

lemma quantize2_mono: "a \<le> b \<Longrightarrow> quantize2 a \<le> quantize2 b"
  by (simp add: quantize2_def half_up_mono divide_right_mono)

lemma quantize2_of_nat [simp]: "quantize2 (of_nat n) = of_nat n"
proof -
  have "(of_nat n :: rat) * 100 = of_int (int n * 100)" by simp
  then show ?thesis unfolding quantize2_def by (metis half_up_of_int nonzero_mult_div_cancel_right
        of_int_mult of_int_numeral of_int_of_nat_eq zero_neq_numeral)
qed

end
