(* ===== verification/Py_Values.thy ===== *)
theory Py_Values
  imports Prelude
begin

text \<open>
  The Python values the services handle that HOL has no direct counterpart of: identifiers and
  their text, JSON documents, aware and naive datetimes.
\<close>

section \<open>Identifiers\<close>

type_synonym uuid = nat

text \<open>An identifier of the program is a 128-bit value.\<close>

definition uuid_ok :: "uuid \<Rightarrow> bool" where
  "uuid_ok u \<longleftrightarrow> u < 2 ^ 128"

definition hex_digit :: "nat \<Rightarrow> char" where
  "hex_digit d = (if d < 10 then char_of (48 + d) else char_of (87 + d))"

definition hex_value :: "char \<Rightarrow> nat option" where
  "hex_value c = (let n = of_char c :: nat in
     if 48 \<le> n \<and> n \<le> 57 then Some (n - 48)
     else if 97 \<le> n \<and> n \<le> 102 then Some (n - 87)
     else if 65 \<le> n \<and> n \<le> 70 then Some (n - 55)
     else None)"

fun hex_text :: "nat \<Rightarrow> nat \<Rightarrow> string" where
  "hex_text 0 n = []"
| "hex_text (Suc w) n = hex_text w (n div 16) @ [hex_digit (n mod 16)]"

fun hex_read :: "nat \<Rightarrow> string \<Rightarrow> nat option" where
  "hex_read acc [] = Some acc"
| "hex_read acc (c # cs) =
     (case hex_value c of None \<Rightarrow> None | Some d \<Rightarrow> hex_read (16 * acc + d) cs)"

text \<open>\<open>str(uuid)\<close>: 32 hexadecimal digits in groups of 8, 4, 4, 4 and 12.\<close>

definition uuid_str :: "uuid \<Rightarrow> string" where
  "uuid_str u = (let h = hex_text 32 u in
     take 8 h @ ''-'' @ take 4 (drop 8 h) @ ''-'' @ take 4 (drop 12 h) @ ''-'' @
     take 4 (drop 16 h) @ ''-'' @ drop 20 h)"

text \<open>
  \<open>uuid.UUID(text)\<close> on the hyphenated and the plain form: hyphens are dropped and 32 hexadecimal
  digits must remain, otherwise ValueError (\<open>None\<close>).
\<close>

definition uuid_parse :: "string \<Rightarrow> uuid option" where
  "uuid_parse t = (let h = filter (\<lambda>c. c \<noteq> CHR ''-'') t in
     if length h = 32 then hex_read 0 h else None)"

lemma length_hex_text [simp]: "length (hex_text w n) = w"
  by (induction w arbitrary: n) auto

lemma hex_digit_value:
  assumes "d < 16"
  shows "hex_value (hex_digit d) = Some d" "hex_digit d \<noteq> CHR ''-''" "hex_digit d \<noteq> CHR ''.''"
proof -
  let ?P = "\<lambda>d. hex_value (hex_digit d) = Some d \<and> hex_digit d \<noteq> CHR ''-''
              \<and> hex_digit d \<noteq> CHR ''.''"
  have "list_all ?P [0, 1, 2, 3, 4, 5, 6, 7, 8, 9, 10, 11, 12, 13, 14, 15]"
    by (simp add: hex_digit_def hex_value_def char_of_def Let_def bit_0)
  moreover have "d \<in> set [0, 1, 2, 3, 4, 5, 6, 7, 8, 9, 10, 11, 12, 13, 14, 15]"
    using assms by simp presburger
  ultimately have "?P d" unfolding list_all_iff by blast
  then show "hex_value (hex_digit d) = Some d" "hex_digit d \<noteq> CHR ''-''"
      "hex_digit d \<noteq> CHR ''.''"
    by auto
qed

lemma hex_text_chars: "c \<in> set (hex_text w n) \<Longrightarrow> c \<noteq> CHR ''-'' \<and> c \<noteq> CHR ''.''"
  by (induction w arbitrary: n) (auto simp: hex_digit_value)

lemma hex_read_append:
  "hex_read acc (xs @ ys) = (case hex_read acc xs of None \<Rightarrow> None | Some a \<Rightarrow> hex_read a ys)"
  by (induction xs arbitrary: acc) (auto split: option.splits)

lemma hex_read_text: "n < 16 ^ w \<Longrightarrow> hex_read acc (hex_text w n) = Some (acc * 16 ^ w + n)"
proof (induction w arbitrary: n acc)
  case 0
  then show ?case by simp
next
  case (Suc w)
  then have "n div 16 < 16 ^ w" by (simp add: less_mult_imp_div_less mult.commute)
  then have "hex_read acc (hex_text w (n div 16)) = Some (acc * 16 ^ w + n div 16)"
    by (rule Suc.IH)
  then show ?case
    by (simp add: hex_read_append hex_digit_value algebra_simps)
qed

lemma uuid_str_chars: "filter (\<lambda>c. c \<noteq> CHR ''-'') (uuid_str u) = hex_text 32 u"
proof -
  have keep: "filter (\<lambda>c. c \<noteq> CHR ''-'') xs = xs" if "set xs \<subseteq> set (hex_text 32 u)" for xs
    using that by (auto simp: filter_id_conv dest: hex_text_chars)
  let ?h = "hex_text 32 u"
  have "take 4 (drop 16 ?h) @ drop 20 ?h = drop 16 ?h"
    using append_take_drop_id [of 4 "drop 16 ?h"] by simp
  moreover have "take 4 (drop 12 ?h) @ drop 16 ?h = drop 12 ?h"
    using append_take_drop_id [of 4 "drop 12 ?h"] by simp
  moreover have "take 4 (drop 8 ?h) @ drop 12 ?h = drop 8 ?h"
    using append_take_drop_id [of 4 "drop 8 ?h"] by simp
  ultimately have "take 8 ?h @ take 4 (drop 8 ?h) @ take 4 (drop 12 ?h) @ take 4 (drop 16 ?h)
      @ drop 20 ?h = ?h"
    by simp
  then show ?thesis
    by (simp add: uuid_str_def Let_def keep set_take_subset set_drop_subset
        order_trans [OF set_take_subset set_drop_subset])
qed

lemma uuid_str_no_dot: "CHR ''.'' \<notin> set (uuid_str u)"
  by (auto simp: uuid_str_def Let_def dest!: in_set_takeD in_set_dropD hex_text_chars)

lemma uuid_parse_str: "uuid_ok u \<Longrightarrow> uuid_parse (uuid_str u) = Some u"
proof -
  assume "uuid_ok u"
  moreover have "(16::nat) ^ 32 = 2 ^ 128"
    using power_mult [of "2::nat" 4 32] by simp
  ultimately have "hex_read 0 (hex_text 32 u) = Some (0 * 16 ^ 32 + u)"
    by (intro hex_read_text) (simp only: uuid_ok_def)
  then have "hex_read 0 (hex_text 32 u) = Some u"
    by (simp only: mult_zero_left add_0_left)
  then show ?thesis
    by (simp only: uuid_parse_def uuid_str_chars Let_def length_hex_text if_True refl)
qed

lemma uuid_str_inj: "uuid_ok u \<Longrightarrow> uuid_ok v \<Longrightarrow> uuid_str u = uuid_str v \<Longrightarrow> u = v"
  by (metis option.inject uuid_parse_str)

section \<open>Slugs and codes\<close>

text \<open>
  \<open>re.sub("[^a-z0-9]+", "-", s)\<close>: every run of other characters becomes one hyphen; \<open>strip("-")\<close>.
\<close>

definition slug_char :: "char \<Rightarrow> bool" where
  "slug_char c \<longleftrightarrow> (let n = of_char c :: nat in (97 \<le> n \<and> n \<le> 122) \<or> (48 \<le> n \<and> n \<le> 57))"

fun hyphenate :: "bool \<Rightarrow> string \<Rightarrow> string" where
  "hyphenate in_run [] = []"
| "hyphenate in_run (c # cs) = (if slug_char c then c # hyphenate False cs
     else if in_run then hyphenate True cs else CHR ''-'' # hyphenate True cs)"

definition strip_hyphens :: "string \<Rightarrow> string" where
  "strip_hyphens s = rev (dropWhile (\<lambda>c. c = CHR ''-'') (rev (dropWhile (\<lambda>c. c = CHR ''-'') s)))"

text \<open>The patterns \<open>^[a-z0-9][a-z0-9...]{1,n-2}[a-z0-9]$\<close> with further characters inside.\<close>

definition code_pattern :: "nat \<Rightarrow> string \<Rightarrow> string \<Rightarrow> bool" where
  "code_pattern n inner s \<longleftrightarrow> 3 \<le> length s \<and> length s \<le> n \<and> slug_char (hd s) \<and> slug_char (last s) \<and>
     list_all (\<lambda>c. slug_char c \<or> c \<in> set inner) s"

section \<open>JSON documents\<close>

text \<open>A number keeps its printed form; an object keeps its members in order.\<close>

datatype json =
    JNull
  | JBool bool
  | JNum string
  | JStr string
  | JArr "json list"
  | JObj "(string \<times> json) list"

definition json_get :: "json \<Rightarrow> string \<Rightarrow> json \<Rightarrow> json" where
  "json_get doc k dflt = (case doc of
     JObj ms \<Rightarrow> (case map_of ms k of None \<Rightarrow> dflt | Some v \<Rightarrow> v)
   | _ \<Rightarrow> dflt)"

text \<open>\<open>{**doc, k: v}\<close>\<close>

definition json_put :: "json \<Rightarrow> string \<Rightarrow> json \<Rightarrow> json" where
  "json_put doc k v = (case doc of
     JObj ms \<Rightarrow> JObj (if k \<in> fst ` set ms
                      then map (\<lambda>m. if fst m = k then (k, v) else m) ms
                      else ms @ [(k, v)])
   | _ \<Rightarrow> JObj [(k, v)])"

text \<open>Decimal numerals, as \<open>str\<close> prints them and JSON writes them.\<close>

fun digits_of :: "nat \<Rightarrow> nat \<Rightarrow> string" where
  "digits_of 0 n = []"
| "digits_of (Suc fuel) n = (if n < 10 then [hex_digit n] else digits_of fuel (n div 10) @ [hex_digit (n mod 10)])"

definition json_int :: "int \<Rightarrow> json" where
  "json_int k = JNum (if k < 0 then CHR ''-'' # digits_of (Suc (nat (- k))) (nat (- k)) else digits_of (Suc (nat k)) (nat k))"

text \<open>Iterating a value: arrays, strings and objects iterate, the others raise TypeError.\<close>

definition json_iter :: "json \<Rightarrow> json list option" where
  "json_iter v = (case v of
     JArr xs \<Rightarrow> Some xs
   | JStr cs \<Rightarrow> Some (map (\<lambda>c. JStr [c]) cs)
   | JObj ms \<Rightarrow> Some (map (\<lambda>m. JStr (fst m)) ms)
   | _ \<Rightarrow> None)"

section \<open>Datetimes\<close>

text \<open>
  A datetime is its wall-clock reading in microseconds, with the offset from UTC when it is
  aware.  Columns of type \<open>timestamptz\<close> keep the instant alone.
\<close>

datatype datetime = Naive int | Aware int int

definition usec_per_day :: int where
  "usec_per_day = 86400000000"

definition usec_per_minute :: int where
  "usec_per_minute = 60000000"

definition coerce_datetime :: "datetime \<Rightarrow> datetime" where
  "coerce_datetime d = (case d of Naive w \<Rightarrow> Aware w 0 | Aware w off \<Rightarrow> Aware w off)"

definition instant :: "datetime \<Rightarrow> int" where
  "instant d = (case d of Naive w \<Rightarrow> w | Aware w off \<Rightarrow> w - off)"

definition local_date :: "datetime \<Rightarrow> int" where
  "local_date d = (case d of Naive w \<Rightarrow> w div usec_per_day | Aware w off \<Rightarrow> w div usec_per_day)"

lemma instant_coerce [simp]: "instant (coerce_datetime d) = instant d"
  by (cases d) (simp_all add: coerce_datetime_def instant_def)

text \<open>\<open>max(0, int((ended - started).total_seconds()))\<close>\<close>

definition duration_seconds :: "int \<Rightarrow> int \<Rightarrow> int" where
  "duration_seconds started ended =
     max 0 (if started \<le> ended then (ended - started) div 1000000
            else - ((started - ended) div 1000000))"

lemma duration_seconds_nonneg [simp]: "0 \<le> duration_seconds a b"
  by (simp add: duration_seconds_def)

lemma duration_seconds_alt: "duration_seconds a b = max 0 (b - a) div 1000000"
proof (cases "a \<le> b")
  case True
  then show ?thesis by (simp add: duration_seconds_def max_def pos_imp_zdiv_nonneg_iff)
next
  case False
  then have "0 \<le> (a - b) div 1000000" by (simp add: pos_imp_zdiv_nonneg_iff)
  with False show ?thesis by (simp add: duration_seconds_def max_def)
qed

end
