(* ===== verification/Txn.thy ===== *)
theory Txn
  imports Py_Values
begin

text \<open>
  One request against PostgreSQL through SQLAlchemy: a session holds the committed database, the
  working copy of the open transaction, the two transaction-local settings row level security
  reads, and the state of the process around the transaction.  An operation maps a session to a
  value or an exception and the next session.  Tables are descriptors: how to reach the rows,
  which rows the policies let through, which pairs of rows the unique constraints forbid.
\<close>

section \<open>Exceptions, process and session\<close>

text \<open>
  \<open>Prep_Suite_Error code status\<close> is the application error; the message is a function of the code.
  \<open>Integrity_Error\<close> is a violated unique constraint, \<open>Rls_Violation\<close> a row rejected by a
  policy's WITH CHECK, \<open>Python_Error\<close> any other exception, named.
\<close>

datatype exc =
    Prep_Suite_Error string int
  | Integrity_Error
  | Rls_Violation
  | Python_Error string

record domain_event =
  ev_type :: string
  ev_tenant :: "uuid option"
  ev_actor :: uuid
  ev_entity :: uuid

text \<open>
  What lives in the process and is not rolled back: the clock (constant during a request), the
  supply behind \<open>uuid4\<close>, the random source behind \<open>token_urlsafe\<close>, the events handed to the
  dispatcher and the failed logins the rate limiter remembers.
\<close>

record process =
  clock :: int
  uuid_supply :: uuid
  secret_source :: "nat \<Rightarrow> string"
  secrets_drawn :: nat
  event_log :: "domain_event list"
  login_attempts :: "string \<Rightarrow> int list"

record 'd session =
  committed :: 'd
  working :: 'd
  rls_tenant :: "uuid option"
  rls_user :: "uuid option"
  proc :: process

type_synonym ('d, 'a) op = "'d session \<Rightarrow> (exc + 'a) \<times> 'd session"

section \<open>The operations\<close>

definition return_tx :: "'a \<Rightarrow> ('d, 'a) op" where
  "return_tx x = (\<lambda>s. (Inr x, s))"

definition raise_tx :: "exc \<Rightarrow> ('d, 'a) op" where
  "raise_tx e = (\<lambda>s. (Inl e, s))"

definition abort :: "string \<Rightarrow> int \<Rightarrow> ('d, 'a) op" where
  "abort code status = raise_tx (Prep_Suite_Error code status)"

definition bind_tx :: "('d, 'a) op \<Rightarrow> ('a \<Rightarrow> ('d, 'b) op) \<Rightarrow> ('d, 'b) op" where
  "bind_tx m f = (\<lambda>s. case m s of (Inl e, t) \<Rightarrow> (Inl e, t) | (Inr x, t) \<Rightarrow> f x t)"

definition catch_tx :: "('d, 'a) op \<Rightarrow> (exc \<Rightarrow> ('d, 'a) op) \<Rightarrow> ('d, 'a) op" where
  "catch_tx m h = (\<lambda>s. case m s of (Inl e, t) \<Rightarrow> h e t | (Inr x, t) \<Rightarrow> (Inr x, t))"

definition when_tx :: "bool \<Rightarrow> ('d, unit) op \<Rightarrow> ('d, unit) op" where
  "when_tx b m = (if b then m else return_tx ())"

fun for_each :: "('x \<Rightarrow> ('d, 'a) op) \<Rightarrow> 'x list \<Rightarrow> ('d, 'a list) op" where
  "for_each f [] = return_tx []"
| "for_each f (x # xs) = bind_tx (f x) (\<lambda>y. bind_tx (for_each f xs) (\<lambda>ys. return_tx (y # ys)))"

definition get_proc :: "(process \<Rightarrow> 'a) \<Rightarrow> ('d, 'a) op" where
  "get_proc f = (\<lambda>s. (Inr (f (proc s)), s))"

definition put_proc :: "(process \<Rightarrow> process) \<Rightarrow> ('d, unit) op" where
  "put_proc f = (\<lambda>s. (Inr (), s\<lparr>proc := f (proc s)\<rparr>))"

definition now_utc :: "('d, int) op" where
  "now_utc = get_proc clock"

definition uuid4 :: "('d, uuid) op" where
  "uuid4 = (\<lambda>s. (Inr (uuid_supply (proc s)),
     s\<lparr>proc := (proc s)\<lparr>uuid_supply := Suc (uuid_supply (proc s))\<rparr>\<rparr>))"

definition token_urlsafe :: "('d, string) op" where
  "token_urlsafe = (\<lambda>s. (Inr (secret_source (proc s) (secrets_drawn (proc s))),
     s\<lparr>proc := (proc s)\<lparr>secrets_drawn := Suc (secrets_drawn (proc s))\<rparr>\<rparr>))"

definition publish :: "domain_event \<Rightarrow> ('d, unit) op" where
  "publish e = put_proc (\<lambda>p. p\<lparr>event_log := event_log p @ [e]\<rparr>)"

text \<open>
  \<open>set_config(..., true)\<close> is local to the transaction: COMMIT and ROLLBACK forget both settings.
\<close>

definition set_current_tenant :: "uuid \<Rightarrow> ('d, unit) op" where
  "set_current_tenant t = (\<lambda>s. (Inr (), s\<lparr>rls_tenant := Some t\<rparr>))"

definition set_current_user :: "uuid \<Rightarrow> ('d, unit) op" where
  "set_current_user u = (\<lambda>s. (Inr (), s\<lparr>rls_user := Some u\<rparr>))"

definition commit_tx :: "('d, unit) op" where
  "commit_tx = (\<lambda>s. (Inr (), s\<lparr>committed := working s, rls_tenant := None, rls_user := None\<rparr>))"

definition rollback_tx :: "('d, unit) op" where
  "rollback_tx = (\<lambda>s. (Inr (), s\<lparr>working := committed s, rls_tenant := None, rls_user := None\<rparr>))"

text \<open>\<open>try: m  except IntegrityError: rollback; raise PrepSuiteError(code, 409)\<close>\<close>

definition on_conflict :: "string \<Rightarrow> ('d, 'a) op \<Rightarrow> ('d, 'a) op" where
  "on_conflict code m = catch_tx m (\<lambda>e.
     if e = Integrity_Error then bind_tx rollback_tx (\<lambda>_. abort code 409) else raise_tx e)"

section \<open>Tables\<close>

record ('d, 'r) table =
  rows_of :: "'d \<Rightarrow> 'r list"
  upd_rows :: "('r list \<Rightarrow> 'r list) \<Rightarrow> 'd \<Rightarrow> 'd"
  key_of :: "'r \<Rightarrow> uuid"
  using_policy :: "uuid option \<Rightarrow> uuid option \<Rightarrow> 'r \<Rightarrow> bool"
  check_policy :: "uuid option \<Rightarrow> uuid option \<Rightarrow> 'r \<Rightarrow> bool"
  clashes :: "'r \<Rightarrow> 'r \<Rightarrow> bool"

definition visible :: "('d, 'r) table \<Rightarrow> 'd session \<Rightarrow> 'r \<Rightarrow> bool" where
  "visible T s r = using_policy T (rls_tenant s) (rls_user s) r"

definition writable :: "('d, 'r) table \<Rightarrow> 'd session \<Rightarrow> 'r \<Rightarrow> bool" where
  "writable T s r = check_policy T (rls_tenant s) (rls_user s) r"

definition rows :: "('d, 'r) table \<Rightarrow> 'd session \<Rightarrow> 'r list" where
  "rows T s = rows_of T (working s)"

definition select_rows :: "('d, 'r) table \<Rightarrow> ('r \<Rightarrow> bool) \<Rightarrow> ('d, 'r list) op" where
  "select_rows T p = (\<lambda>s. (Inr (filter (\<lambda>r. visible T s r \<and> p r) (rows T s)), s))"

text \<open>\<open>session.scalar\<close>: the first row of the answer, or None.\<close>

definition scalar :: "('d, 'r) table \<Rightarrow> ('r \<Rightarrow> bool) \<Rightarrow> ('d, 'r option) op" where
  "scalar T p = (\<lambda>s. (Inr (first_opt (filter (\<lambda>r. visible T s r \<and> p r) (rows T s))), s))"

text \<open>\<open>session.add\<close> and \<open>flush\<close>: the INSERT of one row.\<close>

definition insert_row :: "('d, 'r) table \<Rightarrow> 'r \<Rightarrow> ('d, 'r) op" where
  "insert_row T r = (\<lambda>s.
     if \<not> writable T s r then (Inl Rls_Violation, s)
     else if list_ex (\<lambda>q. key_of T q = key_of T r \<or> clashes T q r) (rows T s)
     then (Inl Integrity_Error, s)
     else (Inr r, s\<lparr>working := upd_rows T (\<lambda>rs. rs @ [r]) (working s)\<rparr>))"

text \<open>
  The UPDATE by primary key of a loaded row whose attributes were assigned.  A row the policy hides
  is not matched, which the unit of work reports as StaleDataError.
\<close>

definition save_row :: "('d, 'r) table \<Rightarrow> 'r \<Rightarrow> ('d, 'r) op" where
  "save_row T r = (\<lambda>s.
     if \<not> list_ex (\<lambda>q. key_of T q = key_of T r \<and> visible T s q) (rows T s)
     then (Inl (Python_Error ''StaleDataError''), s)
     else if \<not> writable T s r then (Inl Rls_Violation, s)
     else if list_ex (\<lambda>q. key_of T q \<noteq> key_of T r \<and> clashes T q r) (rows T s)
     then (Inl Integrity_Error, s)
     else (Inr r, s\<lparr>working :=
       upd_rows T (replace_where (\<lambda>q. key_of T q = key_of T r \<and> visible T s q) (\<lambda>_. r)) (working s)\<rparr>))"

text \<open>\<open>UPDATE ... WHERE p\<close> of the visible rows, on columns no unique constraint mentions.\<close>

definition update_where :: "('d, 'r) table \<Rightarrow> ('r \<Rightarrow> bool) \<Rightarrow> ('r \<Rightarrow> 'r) \<Rightarrow> ('d, unit) op" where
  "update_where T p f = (\<lambda>s.
     if list_ex (\<lambda>r. visible T s r \<and> p r \<and> \<not> writable T s (f r)) (rows T s)
     then (Inl Rls_Violation, s)
     else (Inr (), s\<lparr>working :=
       upd_rows T (replace_where (\<lambda>r. visible T s r \<and> p r) f) (working s)\<rparr>))"

text \<open>\<open>DELETE ... WHERE p\<close> of the visible rows.\<close>

definition delete_where :: "('d, 'r) table \<Rightarrow> ('r \<Rightarrow> bool) \<Rightarrow> ('d, unit) op" where
  "delete_where T p = (\<lambda>s. (Inr (), s\<lparr>working :=
     upd_rows T (filter (\<lambda>r. \<not> (visible T s r \<and> p r))) (working s)\<rparr>))"

section \<open>A request\<close>

definition open_session :: "'d \<Rightarrow> process \<Rightarrow> 'd session" where
  "open_session d p = \<lparr>committed = d, working = d, rls_tenant = None, rls_user = None, proc = p\<rparr>"

text \<open>Closing the session rolls back what was not committed.\<close>

definition serve :: "('d, 'a) op \<Rightarrow> 'd \<Rightarrow> process \<Rightarrow> (exc + 'a) \<times> 'd \<times> process" where
  "serve m d p = (case m (open_session d p) of (r, s) \<Rightarrow> (r, committed s, proc s))"

end
