(* ===== verification/Txn_Rules.thy ===== *)
theory Txn_Rules
  imports Txn
begin

text \<open>
  Reasoning about operations of a session: execution equations, inversion of a successful run,
  assertions an operation keeps, atomicity (an operation that raises has committed nothing), the
  laws of a table descriptor and of a service, both stated as locales, and the states a service
  reaches from a given one.
\<close>

section \<open>Execution\<close>

lemma return_tx_run [tx_simps]: "return_tx x s = (Inr x, s)"
  by (simp add: return_tx_def)

lemma raise_tx_run [tx_simps]: "raise_tx e s = (Inl e, s)"
  by (simp add: raise_tx_def)

lemma abort_run [tx_simps]: "abort c n s = (Inl (Prep_Suite_Error c n), s)"
  by (simp add: abort_def raise_tx_def)

lemma bind_tx_ok: "m s = (Inr x, t) \<Longrightarrow> bind_tx m f s = f x t"
  by (simp add: bind_tx_def)

lemma bind_tx_error: "m s = (Inl e, t) \<Longrightarrow> bind_tx m f s = (Inl e, t)"
  by (simp add: bind_tx_def)

lemma bind_tx_assoc: "bind_tx (bind_tx m f) g = bind_tx m (\<lambda>x. bind_tx (f x) g)"
  by (rule ext) (simp add: bind_tx_def split: prod.splits sum.splits)

lemma bind_tx_Inr_iff:
  "bind_tx m f s = (Inr y, s') \<longleftrightarrow> (\<exists>x t. m s = (Inr x, t) \<and> f x t = (Inr y, s'))"
  by (auto simp: bind_tx_def split: prod.splits sum.splits)

lemma bind_tx_InrE:
  assumes "bind_tx m f s = (Inr y, s')"
  obtains x t where "m s = (Inr x, t)" "f x t = (Inr y, s')"
  using assms by (auto simp: bind_tx_Inr_iff)

lemma bind_tx_Inl_iff:
  "bind_tx m f s = (Inl e, s') \<longleftrightarrow>
     m s = (Inl e, s') \<or> (\<exists>x t. m s = (Inr x, t) \<and> f x t = (Inl e, s'))"
  by (auto simp: bind_tx_def split: prod.splits sum.splits)

lemma return_tx_Inr_iff [simp]: "return_tx x s = (Inr y, s') \<longleftrightarrow> y = x \<and> s' = s"
  by (auto simp: return_tx_def)

lemma return_tx_Inl_iff [simp]: "return_tx x s \<noteq> (Inl e, s')"
  by (simp add: return_tx_def)

lemma abort_Inr_iff [simp]: "abort c n s \<noteq> (Inr y, s')"
  by (simp add: abort_def raise_tx_def)

lemma raise_tx_Inr_iff [simp]: "raise_tx e s \<noteq> (Inr y, s')"
  by (simp add: raise_tx_def)

lemma abort_Inl_iff [simp]:
  "abort c n s = (Inl e, s') \<longleftrightarrow> e = Prep_Suite_Error c n \<and> s' = s"
  by (auto simp: abort_def raise_tx_def)

lemma when_tx_run [tx_simps]: "when_tx b m s = (if b then m s else (Inr (), s))"
  by (simp add: when_tx_def return_tx_def)

lemma now_utc_run [tx_simps]: "now_utc s = (Inr (clock (proc s)), s)"
  by (simp add: now_utc_def get_proc_def)

lemma get_proc_run [tx_simps]: "get_proc f s = (Inr (f (proc s)), s)"
  by (simp add: get_proc_def)

lemma put_proc_run [tx_simps]: "put_proc f s = (Inr (), s\<lparr>proc := f (proc s)\<rparr>)"
  by (simp add: put_proc_def)

lemma uuid4_run [tx_simps]:
  "uuid4 s = (Inr (uuid_supply (proc s)),
     s\<lparr>proc := (proc s)\<lparr>uuid_supply := Suc (uuid_supply (proc s))\<rparr>\<rparr>)"
  by (simp add: uuid4_def)

lemma token_urlsafe_run [tx_simps]:
  "token_urlsafe s = (Inr (secret_source (proc s) (secrets_drawn (proc s))),
     s\<lparr>proc := (proc s)\<lparr>secrets_drawn := Suc (secrets_drawn (proc s))\<rparr>\<rparr>)"
  by (simp add: token_urlsafe_def)

lemma publish_run [tx_simps]:
  "publish e s = (Inr (), s\<lparr>proc := (proc s)\<lparr>event_log := event_log (proc s) @ [e]\<rparr>\<rparr>)"
  by (simp add: publish_def put_proc_def)

lemma set_current_tenant_run [tx_simps]:
  "set_current_tenant t s = (Inr (), s\<lparr>rls_tenant := Some t\<rparr>)"
  by (simp add: set_current_tenant_def)

lemma set_current_user_run [tx_simps]:
  "set_current_user u s = (Inr (), s\<lparr>rls_user := Some u\<rparr>)"
  by (simp add: set_current_user_def)

lemma commit_tx_run [tx_simps]:
  "commit_tx s = (Inr (), s\<lparr>committed := working s, rls_tenant := None, rls_user := None\<rparr>)"
  by (simp add: commit_tx_def)

lemma rollback_tx_run [tx_simps]:
  "rollback_tx s = (Inr (), s\<lparr>working := committed s, rls_tenant := None, rls_user := None\<rparr>)"
  by (simp add: rollback_tx_def)

lemma select_rows_run [tx_simps]:
  "select_rows T p s = (Inr (filter (\<lambda>r. visible T s r \<and> p r) (rows T s)), s)"
  by (simp add: select_rows_def)

text \<open>What a query finds, as a function of the session.\<close>

definition lookup :: "('d, 'r) table \<Rightarrow> ('r \<Rightarrow> bool) \<Rightarrow> 'd session \<Rightarrow> 'r option" where
  "lookup T p s = first_opt (filter (\<lambda>r. visible T s r \<and> p r) (rows T s))"

lemma scalar_run [tx_simps]: "scalar T p s = (Inr (lookup T p s), s)"
  by (simp add: scalar_def lookup_def)

lemma lookup_SomeD:
  "lookup T p s = Some r \<Longrightarrow> r \<in> set (rows T s) \<and> visible T s r \<and> p r"
  unfolding lookup_def by (drule first_opt_filter_SomeD) simp

lemma lookup_NoneD: "lookup T p s = None \<Longrightarrow> r \<in> set (rows T s) \<Longrightarrow> visible T s r \<Longrightarrow> \<not> p r"
  unfolding lookup_def first_opt_filter_None by blast

lemma lookup_None_iff: "lookup T p s = None \<longleftrightarrow> (\<forall>r\<in>set (rows T s). visible T s r \<longrightarrow> \<not> p r)"
  unfolding lookup_def first_opt_filter_None by blast

lemma lookup_unique:
  "r \<in> set (rows T s) \<Longrightarrow> visible T s r \<Longrightarrow> p r \<Longrightarrow>
   (\<And>q. q \<in> set (rows T s) \<Longrightarrow> visible T s q \<Longrightarrow> p q \<Longrightarrow> q = r) \<Longrightarrow> lookup T p s = Some r"
  unfolding lookup_def by (rule first_opt_filter_unique) blast+

lemma lookup_frame:
  "rows T s' = rows T s \<Longrightarrow> (\<And>r. visible T s' r = visible T s r) \<Longrightarrow> lookup T p s' = lookup T p s"
  by (simp add: lookup_def)

lemma session_updates [simp]:
  "rows T (s\<lparr>proc := p\<rparr>) = rows T s" "visible T (s\<lparr>proc := p\<rparr>) r = visible T s r"
  "writable T (s\<lparr>proc := p\<rparr>) r = writable T s r" "lookup T c (s\<lparr>proc := p\<rparr>) = lookup T c s"
  "rows T (s\<lparr>rls_tenant := t\<rparr>) = rows T s" "rows T (s\<lparr>rls_user := u\<rparr>) = rows T s"
  "rows T (s\<lparr>committed := d\<rparr>) = rows T s" "rows T (s\<lparr>working := d\<rparr>) = rows_of T d"
  "visible T (s\<lparr>working := d\<rparr>) r = visible T s r" "writable T (s\<lparr>working := d\<rparr>) r = writable T s r"
  "visible T (s\<lparr>committed := d\<rparr>) r = visible T s r"
  by (simp_all add: rows_def visible_def writable_def lookup_def)

lemma bind_tx_run:
  "bind_tx m f s = (case m s of (Inl e, t) \<Rightarrow> (Inl e, t) | (Inr x, t) \<Rightarrow> f x t)"
  by (simp add: bind_tx_def)

section \<open>Inversion\<close>

lemma insert_row_Inr_iff:
  "insert_row T r s = (Inr y, s') \<longleftrightarrow>
     y = r \<and> writable T s r \<and>
     (\<forall>q\<in>set (rows T s). key_of T q \<noteq> key_of T r \<and> \<not> clashes T q r) \<and>
     s' = s\<lparr>working := upd_rows T (\<lambda>rs. rs @ [r]) (working s)\<rparr>"
  by (auto simp: insert_row_def list_ex_iff)

lemma save_row_Inr_iff:
  "save_row T r s = (Inr y, s') \<longleftrightarrow>
     y = r \<and> (\<exists>q\<in>set (rows T s). key_of T q = key_of T r \<and> visible T s q) \<and>
     writable T s r \<and>
     (\<forall>q\<in>set (rows T s). key_of T q \<noteq> key_of T r \<longrightarrow> \<not> clashes T q r) \<and>
     s' = s\<lparr>working :=
       upd_rows T (replace_where (\<lambda>q. key_of T q = key_of T r \<and> visible T s q) (\<lambda>_. r)) (working s)\<rparr>"
  by (auto simp: save_row_def list_ex_iff)

lemma update_where_Inr_iff:
  "update_where T p f s = (Inr y, s') \<longleftrightarrow>
     (\<forall>r\<in>set (rows T s). visible T s r \<longrightarrow> p r \<longrightarrow> writable T s (f r)) \<and>
     s' = s\<lparr>working := upd_rows T (replace_where (\<lambda>r. visible T s r \<and> p r) f) (working s)\<rparr>"
  by (auto simp: update_where_def list_ex_iff)

lemma on_conflict_Inr_iff [simp]:
  "on_conflict code m s = (Inr x, s') \<longleftrightarrow> m s = (Inr x, s')"
  by (auto simp: on_conflict_def catch_tx_def bind_tx_run raise_tx_run abort_run rollback_tx_run
      split: prod.splits sum.splits)

text \<open>
  \<open>tx_inv\<close> turns a successful run of an operation into the facts its steps established;
  \<open>tx_exec\<close> computes a run.
\<close>

lemma basic_Inr_iff:
  "now_utc s = (Inr n, t) \<longleftrightarrow> n = clock (proc s) \<and> t = s"
  "get_proc g s = (Inr x, t) \<longleftrightarrow> x = g (proc s) \<and> t = s"
  "uuid4 s = (Inr i, t) \<longleftrightarrow> i = uuid_supply (proc s) \<and>
     t = s\<lparr>proc := (proc s)\<lparr>uuid_supply := Suc (uuid_supply (proc s))\<rparr>\<rparr>"
  "token_urlsafe s = (Inr w, t) \<longleftrightarrow> w = secret_source (proc s) (secrets_drawn (proc s)) \<and>
     t = s\<lparr>proc := (proc s)\<lparr>secrets_drawn := Suc (secrets_drawn (proc s))\<rparr>\<rparr>"
  "publish e s = (Inr u, t) \<longleftrightarrow>
     t = s\<lparr>proc := (proc s)\<lparr>event_log := event_log (proc s) @ [e]\<rparr>\<rparr>"
  "commit_tx s = (Inr u, t) \<longleftrightarrow>
     t = s\<lparr>committed := working s, rls_tenant := None, rls_user := None\<rparr>"
  "select_rows T p s = (Inr xs, t) \<longleftrightarrow> xs = filter (\<lambda>r. visible T s r \<and> p r) (rows T s) \<and> t = s"
  "scalar T p s = (Inr x, t) \<longleftrightarrow> x = lookup T p s \<and> t = s"
  "when_tx b m s = (Inr u, t) \<longleftrightarrow> (if b then m s = (Inr u, t) else t = s)"
  by (auto simp: tx_simps)

lemma insert_row_value: "insert_row T r s = (Inr y, t) \<Longrightarrow> y = r"
  by (simp add: insert_row_Inr_iff)

lemma save_row_value: "save_row T r s = (Inr y, t) \<Longrightarrow> y = r"
  by (simp add: save_row_Inr_iff)

lemma insert_row_session:
  "insert_row T r s = (x, t) \<Longrightarrow> committed t = committed s \<and> proc t = proc s \<and>
     rls_tenant t = rls_tenant s \<and> rls_user t = rls_user s"
  by (auto simp: insert_row_def split: if_splits)

lemma save_row_session:
  "save_row T r s = (x, t) \<Longrightarrow> committed t = committed s \<and> proc t = proc s \<and>
     rls_tenant t = rls_tenant s \<and> rls_user t = rls_user s"
  by (auto simp: save_row_def split: if_splits)

lemmas tx_steps = bind_tx_Inr_iff basic_Inr_iff

lemmas tx_inv = bind_tx_Inr_iff basic_Inr_iff insert_row_Inr_iff save_row_Inr_iff update_where_Inr_iff

lemmas tx_exec = tx_simps bind_tx_run

section \<open>Assertions an operation keeps\<close>

definition keeps :: "('d session \<Rightarrow> bool) \<Rightarrow> ('d, 'a) op \<Rightarrow> bool" where
  "keeps J m \<longleftrightarrow> (\<forall>s. J s \<longrightarrow> J (snd (m s)))"

lemma keepsD: "keeps J m \<Longrightarrow> J s \<Longrightarrow> m s = (r, t) \<Longrightarrow> J t"
  by (metis keeps_def snd_conv)

lemma keeps_return [keeps_intros]: "keeps J (return_tx x)"
  by (simp add: keeps_def return_tx_def)

lemma keeps_raise [keeps_intros]: "keeps J (raise_tx e)"
  by (simp add: keeps_def raise_tx_def)

lemma keeps_abort [keeps_intros]: "keeps J (abort c n)"
  by (simp add: abort_def keeps_raise)

lemma keeps_bind [keeps_intros]:
  assumes "keeps J m" "\<And>x. keeps J (f x)"
  shows "keeps J (bind_tx m f)"
  using assms by (auto simp: keeps_def bind_tx_def split: prod.splits sum.splits)

text \<open>When the rest of the operation relies on what the value of the first part satisfies.\<close>

lemma keeps_bind_post:
  assumes "keeps J m" "\<And>s x t. J s \<Longrightarrow> m s = (Inr x, t) \<Longrightarrow> Q x" "\<And>x. Q x \<Longrightarrow> keeps J (f x)"
  shows "keeps J (bind_tx m f)"
  unfolding keeps_def
proof (intro allI impI)
  fix s assume "J s"
  obtain r t where m: "m s = (r, t)" by force
  with assms(1) \<open>J s\<close> have "J t" by (rule keepsD)
  with assms(2) [OF \<open>J s\<close>] assms(3) m show "J (snd (bind_tx m f s))"
    by (cases r) (auto simp: bind_tx_def keeps_def)
qed

lemma keeps_catch [keeps_intros]:
  assumes "keeps J m" "\<And>e. keeps J (h e)"
  shows "keeps J (catch_tx m h)"
  unfolding keeps_def
proof (intro allI impI)
  fix s assume "J s"
  obtain r t where m: "m s = (r, t)" by force
  with assms(1) \<open>J s\<close> have "J t" by (rule keepsD)
  with assms(2) show "J (snd (catch_tx m h s))"
    by (cases r) (simp_all add: catch_tx_def m keeps_def)
qed

lemma keeps_if [keeps_intros]:
  "(b \<Longrightarrow> keeps J m) \<Longrightarrow> (\<not> b \<Longrightarrow> keeps J m') \<Longrightarrow> keeps J (if b then m else m')"
  by simp

lemma keeps_when [keeps_intros]: "(b \<Longrightarrow> keeps J m) \<Longrightarrow> keeps J (when_tx b m)"
  by (simp add: when_tx_def keeps_return)

lemma keeps_case_option [keeps_intros]:
  "(x = None \<Longrightarrow> keeps J m) \<Longrightarrow> (\<And>y. x = Some y \<Longrightarrow> keeps J (f y)) \<Longrightarrow>
   keeps J (case x of None \<Rightarrow> m | Some y \<Rightarrow> f y)"
  by (cases x) auto

lemma keeps_case_prod [keeps_intros]:
  "(\<And>a b. x = (a, b) \<Longrightarrow> keeps J (f a b)) \<Longrightarrow> keeps J (case x of (a, b) \<Rightarrow> f a b)"
  by (cases x) auto

lemma keeps_let [keeps_intros]: "keeps J (f x) \<Longrightarrow> keeps J (let y = x in f y)"
  by simp

lemma keeps_for_each [keeps_intros]: "(\<And>x. keeps J (f x)) \<Longrightarrow> keeps J (for_each f xs)"
  by (induction xs) (auto intro!: keeps_intros)

lemma keeps_for_each_in:
  "(\<And>x. x \<in> set xs \<Longrightarrow> keeps J (f x)) \<Longrightarrow> keeps J (for_each f xs)"
  by (induction xs) (auto intro!: keeps_intros)

lemma keeps_select [keeps_intros]: "keeps J (select_rows T p)"
  by (simp add: keeps_def select_rows_def)

lemma keeps_scalar [keeps_intros]: "keeps J (scalar T p)"
  by (simp add: keeps_def scalar_def)

lemma keeps_now [keeps_intros]: "keeps J now_utc"
  by (simp add: keeps_def now_utc_def get_proc_def)

lemma keeps_get_proc [keeps_intros]: "keeps J (get_proc f)"
  by (simp add: keeps_def get_proc_def)

section \<open>Atomicity\<close>

text \<open>
  \<open>silent m\<close>: \<open>m\<close> commits nothing and publishes nothing.  \<open>unfailing m\<close>: \<open>m\<close> never raises.
  \<open>atomic m\<close>: when \<open>m\<close> raises, the committed database is the one it started from and no event
  was published.
\<close>

definition same_outside :: "'d session \<Rightarrow> 'd session \<Rightarrow> bool" where
  "same_outside s t \<longleftrightarrow> committed t = committed s \<and> event_log (proc t) = event_log (proc s)"

definition silent :: "('d, 'a) op \<Rightarrow> bool" where
  "silent m \<longleftrightarrow> (\<forall>s. same_outside s (snd (m s)))"

definition unfailing :: "('d, 'a) op \<Rightarrow> bool" where
  "unfailing m \<longleftrightarrow> (\<forall>s e t. m s \<noteq> (Inl e, t))"

definition atomic :: "('d, 'a) op \<Rightarrow> bool" where
  "atomic m \<longleftrightarrow> (\<forall>s e t. m s = (Inl e, t) \<longrightarrow> same_outside s t)"

named_theorems atomic_intros \<open>introduction rules for silent, unfailing and atomic\<close>

lemma same_outside_trans:
  "same_outside s t \<Longrightarrow> same_outside t u \<Longrightarrow> same_outside s u"
  by (simp add: same_outside_def)

lemma silentD: "silent m \<Longrightarrow> m s = (r, t) \<Longrightarrow> same_outside s t"
  by (metis silent_def snd_conv)

lemma silent_keeps: "silent m \<longleftrightarrow> (\<forall>s. keeps (same_outside s) m)"
  unfolding silent_def keeps_def by (metis same_outside_def)

lemma silent_basic [atomic_intros]:
  "silent (return_tx x)" "silent (raise_tx e)" "silent (abort c n)" "silent (select_rows T p)"
  "silent (scalar T p)" "silent (insert_row T r)" "silent (save_row T r)"
  "silent (update_where T p f)" "silent (delete_where T p)" "silent now_utc" "silent uuid4"
  "silent token_urlsafe" "silent (get_proc g)"
  "silent (set_current_tenant u)" "silent (set_current_user u)" "silent rollback_tx"
  by (simp_all add: silent_def same_outside_def tx_simps insert_row_def save_row_def
      update_where_def delete_where_def)

lemma silent_bind [atomic_intros]:
  "silent m \<Longrightarrow> (\<And>x. silent (f x)) \<Longrightarrow> silent (bind_tx m f)"
  by (simp add: silent_keeps keeps_bind)

lemma silent_catch [atomic_intros]:
  "silent m \<Longrightarrow> (\<And>e. silent (h e)) \<Longrightarrow> silent (catch_tx m h)"
  by (simp add: silent_keeps keeps_catch)

lemma silent_if [atomic_intros]:
  "(b \<Longrightarrow> silent m) \<Longrightarrow> (\<not> b \<Longrightarrow> silent m') \<Longrightarrow> silent (if b then m else m')"
  by simp

lemma silent_when [atomic_intros]: "(b \<Longrightarrow> silent m) \<Longrightarrow> silent (when_tx b m)"
  by (simp add: silent_keeps keeps_when)

lemma silent_case_option [atomic_intros]:
  "(x = None \<Longrightarrow> silent m) \<Longrightarrow> (\<And>y. x = Some y \<Longrightarrow> silent (f y)) \<Longrightarrow>
   silent (case x of None \<Rightarrow> m | Some y \<Rightarrow> f y)"
  by (cases x) auto

lemma silent_case_prod [atomic_intros]:
  "(\<And>a b. x = (a, b) \<Longrightarrow> silent (f a b)) \<Longrightarrow> silent (case x of (a, b) \<Rightarrow> f a b)"
  by (cases x) auto

lemma silent_let [atomic_intros]: "silent (f x) \<Longrightarrow> silent (let y = x in f y)"
  by simp

lemma silent_for_each [atomic_intros]: "(\<And>x. silent (f x)) \<Longrightarrow> silent (for_each f xs)"
  by (simp add: silent_keeps keeps_for_each)

lemma unfailing_basic [atomic_intros]:
  "unfailing (return_tx x)" "unfailing (select_rows T p)" "unfailing (scalar T p)"
  "unfailing now_utc" "unfailing uuid4" "unfailing (publish ev)" "unfailing (put_proc h)"
  "unfailing (get_proc g)" "unfailing commit_tx"
  by (simp_all add: unfailing_def tx_simps)

lemma unfailing_bind [atomic_intros]:
  "unfailing m \<Longrightarrow> (\<And>x. unfailing (f x)) \<Longrightarrow> unfailing (bind_tx m f)"
  by (auto simp: unfailing_def bind_tx_Inl_iff)

lemma unfailing_case_prod [atomic_intros]:
  "(\<And>a b. x = (a, b) \<Longrightarrow> unfailing (f a b)) \<Longrightarrow> unfailing (case x of (a, b) \<Rightarrow> f a b)"
  by (cases x) auto

lemma unfailing_for_each [atomic_intros]: "(\<And>x. unfailing (f x)) \<Longrightarrow> unfailing (for_each f xs)"
  by (induction xs) (auto intro!: atomic_intros)

lemma atomic_silent: "silent m \<Longrightarrow> atomic m"
  by (auto simp: atomic_def dest: silentD)

lemma atomic_unfailing: "unfailing m \<Longrightarrow> atomic m"
  by (simp add: atomic_def unfailing_def)

lemma atomic_bind_silent:
  "silent m \<Longrightarrow> (\<And>x. atomic (f x)) \<Longrightarrow> atomic (bind_tx m f)"
  unfolding atomic_def bind_tx_Inl_iff by (blast dest: silentD intro: same_outside_trans)

lemma atomic_bind_unfailing:
  "atomic m \<Longrightarrow> (\<And>x. unfailing (f x)) \<Longrightarrow> atomic (bind_tx m f)"
  by (auto simp: atomic_def unfailing_def bind_tx_Inl_iff)

lemma atomic_if:
  "(b \<Longrightarrow> atomic m) \<Longrightarrow> (\<not> b \<Longrightarrow> atomic m') \<Longrightarrow> atomic (if b then m else m')"
  by simp

lemma atomic_case_option:
  "(x = None \<Longrightarrow> atomic m) \<Longrightarrow> (\<And>y. x = Some y \<Longrightarrow> atomic (f y)) \<Longrightarrow>
   atomic (case x of None \<Rightarrow> m | Some y \<Rightarrow> f y)"
  by (cases x) auto

lemma atomic_case_prod:
  "(\<And>a b. x = (a, b) \<Longrightarrow> atomic (f a b)) \<Longrightarrow> atomic (case x of (a, b) \<Rightarrow> f a b)"
  by (cases x) auto

lemma atomic_let: "atomic (f x) \<Longrightarrow> atomic (let y = x in f y)"
  by simp

lemma atomic_on_conflict: "atomic m \<Longrightarrow> atomic (on_conflict code m)"
  unfolding atomic_def
proof (intro allI impI)
  fix s e t
  assume m: "\<forall>s e t. m s = (Inl e, t) \<longrightarrow> same_outside s t"
    and run: "on_conflict code m s = (Inl e, t)"
  obtain r u where u: "m s = (r, u)" by force
  show "same_outside s t"
  proof (cases r)
    case (Inl e')
    with m u have "same_outside s u" by blast
    with run u Inl show ?thesis
      by (auto simp: on_conflict_def catch_tx_def tx_exec same_outside_def split: if_splits)
  next
    case (Inr x)
    with run u show ?thesis by (simp add: on_conflict_def catch_tx_def)
  qed
qed

lemma silent_on_conflict [atomic_intros]: "silent m \<Longrightarrow> silent (on_conflict code m)"
  unfolding on_conflict_def by (intro atomic_intros)

lemma unfailing_if [atomic_intros]:
  "(b \<Longrightarrow> unfailing m) \<Longrightarrow> (\<not> b \<Longrightarrow> unfailing m') \<Longrightarrow> unfailing (if b then m else m')"
  by simp

lemma atomic_commit: "atomic commit_tx"
  by (rule atomic_unfailing) (intro atomic_intros)

lemma atomic_commit_rest: "(\<And>x. unfailing (f x)) \<Longrightarrow> atomic (bind_tx commit_tx f)"
  by (rule atomic_unfailing) (intro atomic_intros)

lemmas atomic_rules = atomic_commit atomic_commit_rest atomic_if atomic_case_option atomic_case_prod
  atomic_let atomic_on_conflict

section \<open>The laws of a table\<close>

definition unique_rows :: "('d, 'r) table \<Rightarrow> 'r list \<Rightarrow> bool" where
  "unique_rows T rs \<longleftrightarrow> distinct (map (key_of T) rs) \<and>
     (\<forall>q\<in>set rs. \<forall>r\<in>set rs. key_of T q \<noteq> key_of T r \<longrightarrow> \<not> clashes T q r)"

lemma unique_rows_key:
  "unique_rows T rs \<Longrightarrow> q \<in> set rs \<Longrightarrow> r \<in> set rs \<Longrightarrow> key_of T q = key_of T r \<Longrightarrow> q = r"
  unfolding unique_rows_def distinct_map by (metis inj_onD)

text \<open>Uniqueness depends only on a projection that determines the keys and the clashes.\<close>

lemma unique_rows_projection:
  assumes "map g rs' = map g rs" "unique_rows T rs"
    and "\<And>q r. g q = g r \<Longrightarrow> key_of T q = key_of T r"
    and "\<And>q r q' r'. g q = g q' \<Longrightarrow> g r = g r' \<Longrightarrow> clashes T q r \<Longrightarrow> clashes T q' r'"
  shows "unique_rows T rs'"
proof -
  have twin: "\<exists>r\<in>set rs. g r' = g r" if "r' \<in> set rs'" for r'
    using map_eq_twin [OF assms(1) [symmetric] that] by metis
  have len: "length rs' = length rs" using assms(1) by (rule map_eq_imp_length_eq)
  have "map (key_of T) rs' = map (key_of T) rs"
  proof (rule nth_equalityI)
    fix k assume k: "k < length (map (key_of T) rs')"
    have "map g rs' ! k = map g rs ! k" by (simp only: assms(1))
    with k len have "g (rs' ! k) = g (rs ! k)" by simp
    then have "key_of T (rs' ! k) = key_of T (rs ! k)" by (rule assms(3))
    with k len show "map (key_of T) rs' ! k = map (key_of T) rs ! k" by simp
  qed (simp add: len)
  moreover have "\<not> clashes T q r" if q: "q \<in> set rs'" and r: "r \<in> set rs'"
    and keys: "key_of T q \<noteq> key_of T r" for q r
  proof -
    obtain q0 r0 where "q0 \<in> set rs" "g q = g q0" "r0 \<in> set rs" "g r = g r0"
      using twin [OF q] twin [OF r] by blast
    note twins = this
    from assms(3) [OF twins(2)] assms(3) [OF twins(4)] keys
    have "key_of T q0 \<noteq> key_of T r0" by simp
    with assms(2) twins(1,3) have "\<not> clashes T q0 r0" unfolding unique_rows_def by blast
    with assms(4) [OF twins(2,4)] show ?thesis by blast
  qed
  ultimately show ?thesis using assms(2) unfolding unique_rows_def by simp
qed

locale lawful_table =
  fixes T :: "('d, 'r) table"
  assumes rows_upd: "rows_of T (upd_rows T f d) = f (rows_of T d)"
    and clash_sym: "clashes T q r \<Longrightarrow> clashes T r q"
begin

lemma rows_insert:
  "insert_row T r s = (Inr y, s') \<Longrightarrow> rows T s' = rows T s @ [r]"
  by (simp add: insert_row_Inr_iff rows_def rows_upd)

lemma rows_save:
  "save_row T r s = (Inr y, s') \<Longrightarrow>
   rows T s' =
     replace_where (\<lambda>q. key_of T q = key_of T r \<and> visible T s q) (\<lambda>_. r) (rows T s)"
  by (simp add: save_row_Inr_iff rows_def rows_upd)

lemma rows_update:
  "update_where T p f s = (Inr y, s') \<Longrightarrow>
   rows T s' = replace_where (\<lambda>r. visible T s r \<and> p r) f (rows T s)"
  by (simp add: update_where_Inr_iff rows_def rows_upd)

lemma unique_key:
  "unique_rows T (rows T s) \<Longrightarrow> q \<in> set (rows T s) \<Longrightarrow> r \<in> set (rows T s) \<Longrightarrow>
   key_of T q = key_of T r \<Longrightarrow> q = r"
  by (auto simp: unique_rows_def distinct_map dest: inj_onD)

lemma rows_save_unique:
  assumes "save_row T r s = (Inr y, s')" "unique_rows T (rows T s)"
  shows "rows T s' = replace_where (\<lambda>q. key_of T q = key_of T r) (\<lambda>_. r) (rows T s)"
proof -
  from assms(1) obtain q where q: "q \<in> set (rows T s)" "key_of T q = key_of T r" "visible T s q"
    by (auto simp: save_row_Inr_iff)
  have "(key_of T p = key_of T r \<and> visible T s p) = (key_of T p = key_of T r)"
    if "p \<in> set (rows T s)" for p
    using unique_key [OF assms(2) that q(1)] q(2,3) by auto
  then show ?thesis
    unfolding rows_save [OF assms(1)] replace_where_def by (intro map_cong) auto
qed

lemma unique_append:
  "unique_rows T rs \<Longrightarrow> \<forall>q\<in>set rs. key_of T q \<noteq> key_of T r \<and> \<not> clashes T q r \<Longrightarrow>
   unique_rows T (rs @ [r])"
  using clash_sym unfolding unique_rows_def by auto

lemma unique_replace:
  assumes "unique_rows T rs" "\<forall>q\<in>set rs. key_of T q \<noteq> key_of T r \<longrightarrow> \<not> clashes T q r"
  shows "unique_rows T (replace_where (\<lambda>q. key_of T q = key_of T r \<and> c q) (\<lambda>_. r) rs)"
proof -
  let ?rs = "replace_where (\<lambda>q. key_of T q = key_of T r \<and> c q) (\<lambda>_. r) rs"
  have "map (key_of T) ?rs = map (key_of T) rs"
    by (rule map_replace_where_eq) simp
  moreover have "set ?rs \<subseteq> insert r (set rs)"
    by (auto simp: set_replace_where)
  ultimately show ?thesis
    using assms clash_sym unfolding unique_rows_def by (simp add: subset_iff) metis
qed

lemma unique_insert:
  assumes "insert_row T r s = (Inr y, s')" "unique_rows T (rows T s)"
  shows "unique_rows T (rows T s')"
  unfolding rows_insert [OF assms(1)]
  by (rule unique_append) (use assms in \<open>auto simp: insert_row_Inr_iff\<close>)

lemma unique_save:
  assumes "save_row T r s = (Inr y, s')" "unique_rows T (rows T s)"
  shows "unique_rows T (rows T s')"
  unfolding rows_save [OF assms(1)]
  by (rule unique_replace) (use assms in \<open>auto simp: save_row_Inr_iff\<close>)

lemma unique_update:
  assumes "update_where T p f s = (Inr y, s')" "unique_rows T (rows T s)"
    and "\<And>r. key_of T (f r) = key_of T r"
    and "\<And>q r. clashes T (f q) r = clashes T q r" "\<And>q r. clashes T q (f r) = clashes T q r"
  shows "unique_rows T (rows T s')"
proof -
  have "map (key_of T) (rows T s') = map (key_of T) (rows T s)"
    unfolding rows_update [OF assms(1)] by (rule map_replace_where_eq) (simp add: assms(3))
  with assms(2-) show ?thesis
    by (auto simp: unique_rows_def rows_update [OF assms(1)] set_replace_where)
qed

lemma lookup_key:
  assumes "unique_rows T (rows T s)" "r \<in> set (rows T s)" "visible T s r" "p r"
    and "\<And>q. p q \<Longrightarrow> key_of T q = key_of T r"
  shows "lookup T p s = Some r"
  unfolding lookup_def
  by (rule first_opt_filter_unique) (use assms unique_key in blast)+

text \<open>The rows after the replacement of one of them.\<close>

lemma mem_replaced:
  assumes "unique_rows T rs" "old \<in> set rs" "key_of T old = key_of T r" "c old"
  shows "q \<in> set (replace_where (\<lambda>x. key_of T x = key_of T r \<and> c x) (\<lambda>_. r) rs) \<longleftrightarrow>
    q = r \<or> (q \<in> set rs \<and> key_of T q \<noteq> key_of T r)"
proof -
  have "x = old" if "x \<in> set rs" "key_of T x = key_of T r" for x
    using assms(1-3) that unique_rows_key by metis
  with assms(2-4) have "{x \<in> set rs. key_of T x = key_of T r \<and> c x} = {old}"
    "{x \<in> set rs. \<not> (key_of T x = key_of T r \<and> c x)} = {x \<in> set rs. key_of T x \<noteq> key_of T r}"
    by blast+
  then show ?thesis by (simp add: set_replace_where)
qed

text \<open>Saving rows one after the other, each with the same projection as the row it replaces.\<close>

lemma save_each_projection:
  assumes "for_each (\<lambda>r. save_row T (f r)) xs s = (Inr ys, s')"
    and "set xs \<subseteq> set rs" "map g (rows T s) = map g rs" "distinct (map (key_of T) rs)"
    and f: "\<And>r. key_of T (f r) = key_of T r" "\<And>r. g (f r) = g r"
    and g: "\<And>q r. g q = g r \<Longrightarrow> key_of T q = key_of T r"
  shows "map g (rows T s') = map g rs \<and> proc s' = proc s \<and> rls_tenant s' = rls_tenant s"
  using assms(1,2,3)
proof (induction xs arbitrary: s ys)
  case Nil
  with assms(3) show ?case by simp
next
  case (Cons x xs)
  from Cons.prems(1) obtain y t zs where one: "save_row T (f x) s = (Inr y, t)"
    and rest: "for_each (\<lambda>r. save_row T (f r)) xs t = (Inr zs, s')"
    by (auto simp: bind_tx_Inr_iff)
  have "g q = g (f x)" if "q \<in> set (rows T s)" "key_of T q = key_of T (f x)" for q
  proof -
    from that(1) Cons.prems(3) have "g q \<in> g ` set rs" by (metis image_eqI list.set_map)
    then obtain r where r: "r \<in> set rs" "g q = g r" by auto
    with g that(2) f(1) have "key_of T r = key_of T x" by metis
    with r(1) Cons.prems(2) assms(4) have "r = x" by (auto simp: distinct_map dest: inj_onD)
    with r(2) f(2) show ?thesis by simp
  qed
  then have "map g (rows T t) = map g (rows T s)"
    unfolding rows_save [OF one] by (intro map_replace_where_eq) auto
  with Cons.IH [OF rest] Cons.prems save_row_session [OF one] show ?case by auto
qed

end

section \<open>The laws of a service\<close>

text \<open>
  The requests of a service are served one at a time; between two of them the clock may advance.
\<close>

inductive reaches ::
  "('q \<Rightarrow> ('d, 'a) op) \<Rightarrow> 'd \<Rightarrow> process \<Rightarrow> 'd \<Rightarrow> process \<Rightarrow> bool"
  for handle :: "'q \<Rightarrow> ('d, 'a) op" and d0 :: 'd and p0 :: process where
  start: "reaches handle d0 p0 d0 p0"
| request: "reaches handle d0 p0 d p \<Longrightarrow> serve (handle q) d p = (r, d', p') \<Longrightarrow>
    reaches handle d0 p0 d' p'"
| tick: "reaches handle d0 p0 d p \<Longrightarrow> clock p \<le> t \<Longrightarrow> reaches handle d0 p0 d (p\<lparr>clock := t\<rparr>)"

inductive_cases reaches_cases: "reaches handle d0 p0 d p"

lemma reaches_once:
  "reaches handle d p (fst (snd (serve (handle q) d p))) (snd (snd (serve (handle q) d p)))"
  by (rule reaches.request [OF reaches.start, where r = "fst (serve (handle q) d p)"]) simp

lemma reaches_next:
  "reaches handle d0 p0 d p \<Longrightarrow>
   reaches handle d0 p0 (fst (snd (serve (handle q) d p))) (snd (snd (serve (handle q) d p)))"
  by (rule reaches.request [where r = "fst (serve (handle q) d p)"]) simp_all

locale service =
  fixes handle :: "'q \<Rightarrow> ('d, 'a) op"
    and good :: "'d \<Rightarrow> process \<Rightarrow> bool"
  assumes serve_good:
      "good d p \<Longrightarrow> serve (handle q) d p = (r, d', p') \<Longrightarrow> good d' p'"
    and tick_good: "good d p \<Longrightarrow> clock p \<le> t \<Longrightarrow> good d (p\<lparr>clock := t\<rparr>)"
begin

lemma reaches_good: "reaches handle d0 p0 d p \<Longrightarrow> good d0 p0 \<Longrightarrow> good d p"
proof (induction rule: reaches.induct)
  case start
  then show ?case by simp
next
  case (request d p q r d' p')
  then show ?case by (blast intro: serve_good)
next
  case (tick d p t)
  then show ?case by (blast intro: tick_good)
qed

end

lemma serve_keeps:
  assumes "keeps J m" "J (open_session d p)" "serve m d p = (r, d', p')"
  obtains s where "J s" "committed s = d'" "proc s = p'" "m (open_session d p) = (r, s)"
  using assms by (auto simp: serve_def dest: keepsD split: prod.splits)

lemma serve_atomic:
  "atomic m \<Longrightarrow> serve m d p = (Inl e, d', p') \<Longrightarrow> d' = d \<and> event_log p' = event_log p"
  by (fastforce simp: atomic_def serve_def open_session_def same_outside_def split: prod.splits)

section \<open>Assertions on the database and the process\<close>

text \<open>\<open>both P\<close>: the committed and the working database satisfy \<open>P\<close>.\<close>

definition both :: "('d \<Rightarrow> process \<Rightarrow> bool) \<Rightarrow> 'd session \<Rightarrow> bool" where
  "both P s \<longleftrightarrow> P (committed s) (proc s) \<and> P (working s) (proc s)"

text \<open>\<open>framed T P\<close>: \<open>P\<close> does not read the table \<open>T\<close>.\<close>

definition framed :: "('d, 'r) table \<Rightarrow> ('d \<Rightarrow> process \<Rightarrow> bool) \<Rightarrow> bool" where
  "framed T P \<longleftrightarrow> (\<forall>f d p. P (upd_rows T f d) p = P d p)"

text \<open>\<open>proc_stable P\<close>: \<open>P\<close> survives what the primitives do to the process.\<close>

definition proc_stable :: "('d \<Rightarrow> process \<Rightarrow> bool) \<Rightarrow> bool" where
  "proc_stable P \<longleftrightarrow> (\<forall>d p q. P d p \<longrightarrow> uuid_supply p \<le> uuid_supply q \<longrightarrow> P d q)"

lemma proc_stableD: "proc_stable P \<Longrightarrow> P d p \<Longrightarrow> uuid_supply p \<le> uuid_supply q \<Longrightarrow> P d q"
  by (auto simp: proc_stable_def)

lemma both_open [simp]: "both P (open_session d p) \<longleftrightarrow> P d p"
  by (simp add: both_def open_session_def)

text \<open>\<open>tx_ok J\<close> and \<open>table_ok J T\<close>: the steps every operation is made of keep \<open>J\<close>.\<close>

definition tx_ok :: "('d session \<Rightarrow> bool) \<Rightarrow> bool" where
  "tx_ok J \<longleftrightarrow> keeps J commit_tx \<and> keeps J rollback_tx \<and> keeps J uuid4 \<and>
     keeps J token_urlsafe \<and> (\<forall>e. keeps J (publish e))"

definition table_ok :: "('d session \<Rightarrow> bool) \<Rightarrow> ('d, 'r) table \<Rightarrow> bool" where
  "table_ok J T \<longleftrightarrow> (\<forall>r. keeps J (insert_row T r)) \<and> (\<forall>r. keeps J (save_row T r)) \<and>
     (\<forall>c f. keeps J (update_where T c f)) \<and> (\<forall>c. keeps J (delete_where T c))"

lemma keeps_tx_ok [keeps_intros]:
  "tx_ok J \<Longrightarrow> keeps J commit_tx" "tx_ok J \<Longrightarrow> keeps J rollback_tx" "tx_ok J \<Longrightarrow> keeps J uuid4"
  "tx_ok J \<Longrightarrow> keeps J token_urlsafe" "tx_ok J \<Longrightarrow> keeps J (publish e)"
  by (simp_all add: tx_ok_def)

lemma keeps_table_ok [keeps_intros]:
  "table_ok J T \<Longrightarrow> keeps J (insert_row T r)" "table_ok J T \<Longrightarrow> keeps J (save_row T r)"
  "table_ok J T \<Longrightarrow> keeps J (update_where T c f)" "table_ok J T \<Longrightarrow> keeps J (delete_where T c)"
  by (simp_all add: table_ok_def)

lemma table_ok_both: "framed T P \<Longrightarrow> table_ok (both P) T"
  unfolding framed_def table_ok_def keeps_def both_def
  by (simp add: insert_row_def save_row_def update_where_def delete_where_def)

lemma tx_ok_both:
  assumes "proc_stable P"
  shows "tx_ok (both P)"
  unfolding tx_ok_def
  by (auto simp: keeps_def both_def tx_simps intro: proc_stableD [OF assms])

lemma keeps_both_current [keeps_intros]:
  "keeps (both P) (set_current_tenant t)" "keeps (both P) (set_current_user u)"
  by (simp_all add: keeps_def both_def tx_simps)

lemma keeps_on_conflict [keeps_intros]:
  assumes "keeps J m" "keeps J rollback_tx"
  shows "keeps J (on_conflict code m)"
  unfolding on_conflict_def
  by (intro keeps_catch keeps_if keeps_bind keeps_abort keeps_raise assms)

text \<open>The supply of identifiers never runs backwards.\<close>

definition fresh_from :: "nat \<Rightarrow> 'd session \<Rightarrow> bool" where
  "fresh_from n s \<longleftrightarrow> n \<le> uuid_supply (proc s)"

lemma table_ok_fresh: "table_ok (fresh_from n) T"
  unfolding table_ok_def keeps_def fresh_from_def
  by (simp add: insert_row_def save_row_def update_where_def delete_where_def)

lemma tx_ok_fresh: "tx_ok (fresh_from n)"
  unfolding tx_ok_def by (simp add: keeps_def fresh_from_def tx_simps)

lemma keeps_fresh_current [keeps_intros]:
  "keeps (fresh_from n) (set_current_tenant t)" "keeps (fresh_from n) (set_current_user u)"
  by (simp_all add: keeps_def fresh_from_def tx_simps)

text \<open>
  A request keeps a property of the committed database that only grows with the supply when it is
  atomic and its successful runs establish the property.
\<close>

lemma serve_establishes:
  assumes "atomic m" "keeps (fresh_from (uuid_supply p)) m" "proc_stable P" "P d p"
    and ok: "\<And>x s. m (open_session d p) = (Inr x, s) \<Longrightarrow> P (committed s) (proc s)"
    and run: "serve m d p = (r, d', p')"
  shows "P d' p'"
proof -
  obtain s where s: "m (open_session d p) = (r, s)" "d' = committed s" "p' = proc s"
    using run by (auto simp: serve_def split: prod.splits)
  show ?thesis
  proof (cases r)
    case (Inl e)
    with s run have "d' = d" by (auto dest: serve_atomic [OF assms(1)])
    moreover have "fresh_from (uuid_supply p) s"
      by (rule keepsD [OF assms(2) _ s(1)]) (simp add: fresh_from_def open_session_def)
    ultimately show ?thesis
      using assms(3,4) s(3) unfolding proc_stable_def fresh_from_def by blast
  next
    case (Inr x)
    with s ok show ?thesis by simp
  qed
qed

lemma serve_both:
  assumes "keeps (both P) m" "P d p" "serve m d p = (r, d', p')"
  shows "P d' p'"
proof -
  obtain s where "both P s" "committed s = d'" "proc s = p'"
    using serve_keeps [OF assms(1) _ assms(3)] assms(2) by auto
  then show ?thesis by (simp add: both_def)
qed

end
