(* ===== verification/Students_Model.thy ===== *)
theory Students_Model
  imports Txn
begin

text \<open>
  The enumerations and rows of PrepStudents (app/modules/students/enums.py and models.py), with the
  unique constraint of each table as a predicate on pairs of rows.  Columns of type
  \<open>timestamptz\<close> are instants in microseconds, dates are day numbers; \<open>updated_at\<close>, which no
  operation reads, is left out.
\<close>

section \<open>Enumerations\<close>

datatype student_status = SS_ACTIVE | SS_INACTIVE | SS_GRADUATED | SS_SUSPENDED | SS_DROPPED

datatype gender = FEMALE | MALE | NON_BINARY | OTHER | UNDISCLOSED

datatype batch_status = B_DRAFT | B_ACTIVE | B_COMPLETED | B_ARCHIVED

datatype batch_student_status = BS_ACTIVE | BS_TRANSFERRED | BS_REMOVED

datatype enrollment_status = EN_ACTIVE | EN_COMPLETED | EN_CANCELLED

datatype student_note_visibility = NV_INTERNAL | NV_TEACHERS | NV_GUARDIANS

section \<open>Rows\<close>

record student =
  st_id :: uuid
  st_tenant :: uuid
  st_admission_no :: string
  st_first_name :: string
  st_last_name :: "string option"
  st_email :: "string option"
  st_phone :: "string option"
  st_date_of_birth :: "int option"
  st_gender :: "gender option"
  st_status :: student_status
  st_joined_at :: "int option"
  st_deleted_at :: "int option"
  st_created_at :: int

definition student_clash :: "student \<Rightarrow> student \<Rightarrow> bool" where
  "student_clash a b \<longleftrightarrow> st_tenant a = st_tenant b \<and> st_admission_no a = st_admission_no b"

record guardian =
  gu_id :: uuid
  gu_tenant :: uuid
  gu_first_name :: string
  gu_last_name :: "string option"
  gu_email :: "string option"
  gu_phone :: "string option"
  gu_relationship_type :: "string option"
  gu_address :: "string option"
  gu_metadata :: json
  gu_deleted_at :: "int option"

record student_guardian =
  sg_id :: uuid
  sg_tenant :: uuid
  sg_student :: uuid
  sg_guardian :: uuid
  sg_relationship_type :: "string option"
  sg_is_primary :: bool
  sg_can_pickup :: bool
  sg_emergency_contact :: bool

definition student_guardian_clash :: "student_guardian \<Rightarrow> student_guardian \<Rightarrow> bool" where
  "student_guardian_clash a b \<longleftrightarrow> sg_tenant a = sg_tenant b \<and> sg_student a = sg_student b \<and>
     sg_guardian a = sg_guardian b"

record batch =
  bt_id :: uuid
  bt_tenant :: uuid
  bt_name :: string
  bt_code :: string
  bt_course :: "uuid option"
  bt_start_date :: int
  bt_end_date :: "int option"
  bt_capacity :: "int option"
  bt_status :: batch_status
  bt_deleted_at :: "int option"

definition batch_clash :: "batch \<Rightarrow> batch \<Rightarrow> bool" where
  "batch_clash a b \<longleftrightarrow> bt_tenant a = bt_tenant b \<and> bt_code a = bt_code b"

record batch_student =
  bs_id :: uuid
  bs_tenant :: uuid
  bs_batch :: uuid
  bs_student :: uuid
  bs_status :: batch_student_status
  bs_joined_at :: int
  bs_left_at :: "int option"

definition batch_student_clash :: "batch_student \<Rightarrow> batch_student \<Rightarrow> bool" where
  "batch_student_clash a b \<longleftrightarrow> bs_tenant a = bs_tenant b \<and> bs_batch a = bs_batch b \<and>
     bs_student a = bs_student b"

record student_enrollment =
  en_id :: uuid
  en_tenant :: uuid
  en_student :: uuid
  en_course :: uuid
  en_batch :: "uuid option"
  en_status :: enrollment_status
  en_enrolled_at :: int
  en_completed_at :: "int option"

record student_note =
  no_id :: uuid
  no_tenant :: uuid
  no_student :: uuid
  no_author :: "uuid option"
  no_note_type :: "string option"
  no_body :: string
  no_visibility :: student_note_visibility
  no_created_at :: int

record student_document =
  doc_id :: uuid
  doc_tenant :: uuid
  doc_student :: uuid
  doc_title :: string
  doc_document_type :: "string option"
  doc_storage_key :: string
  doc_file_name :: "string option"
  doc_mime_type :: "string option"
  doc_size_bytes :: "int option"
  doc_metadata :: json
  doc_uploaded_by :: "uuid option"
  doc_deleted_at :: "int option"
  doc_created_at :: int

record student_status_history =
  sh_id :: uuid
  sh_tenant :: uuid
  sh_student :: uuid
  sh_from_status :: "student_status option"
  sh_to_status :: student_status
  sh_reason :: "string option"
  sh_changed_by :: "uuid option"
  sh_created_at :: int

end
