(* ===== verification/People_Model.thy ===== *)
theory People_Model
  imports Txn
begin

text \<open>
  The enumerations and rows of PrepPeople (app/modules/people/enums.py and models.py).
\<close>

datatype employee_type =
    ET_TEACHER | ET_ADMIN | ET_COUNSELLOR | ET_ACCOUNTANT | ET_SUPPORT | ET_MANAGER

datatype employee_status = EM_ACTIVE | EM_INACTIVE | EM_ON_LEAVE | EM_SUSPENDED | EM_TERMINATED

datatype department_status = DP_ACTIVE | DP_INACTIVE | DP_ARCHIVED

datatype employee_note_visibility = EV_INTERNAL | EV_MANAGERS | EV_HR

datatype teacher_assignment_status = TA_SCHEDULED | TA_ACTIVE | TA_COMPLETED | TA_CANCELLED

record department =
  dp_id :: uuid
  dp_tenant :: uuid
  dp_name :: string
  dp_code :: string
  dp_description :: "string option"
  dp_status :: department_status
  dp_deleted_at :: "int option"

definition department_clash :: "department \<Rightarrow> department \<Rightarrow> bool" where
  "department_clash a b \<longleftrightarrow> dp_tenant a = dp_tenant b \<and> dp_code a = dp_code b"

record employee =
  em_id :: uuid
  em_tenant :: uuid
  em_user :: "uuid option"
  em_department :: "uuid option"
  em_employee_code :: string
  em_first_name :: string
  em_last_name :: "string option"
  em_email :: "string option"
  em_phone :: "string option"
  em_employee_type :: employee_type
  em_status :: employee_status
  em_joined_at :: "int option"
  em_deleted_at :: "int option"
  em_created_at :: int

text \<open>Two rows without a user do not clash: a unique constraint ignores NULL.\<close>

definition employee_clash :: "employee \<Rightarrow> employee \<Rightarrow> bool" where
  "employee_clash a b \<longleftrightarrow> em_tenant a = em_tenant b \<and>
     (em_employee_code a = em_employee_code b \<or> (em_user a \<noteq> None \<and> em_user a = em_user b))"

lemma employee_clash_sym: "employee_clash a b \<Longrightarrow> employee_clash b a"
  unfolding employee_clash_def by metis

record teacher_assignment =
  ta_id :: uuid
  ta_tenant :: uuid
  ta_teacher :: uuid
  ta_course :: "uuid option"
  ta_batch :: "uuid option"
  ta_assignment_type :: string
  ta_starts_at :: "int option"
  ta_ends_at :: "int option"
  ta_status :: teacher_assignment_status
  ta_created_at :: int

record employee_profile =
  ep_id :: uuid
  ep_tenant :: uuid
  ep_employee :: uuid
  ep_job_title :: "string option"
  ep_bio :: "string option"
  ep_qualifications :: json
  ep_emergency_contact :: json
  ep_profile_data :: json

definition employee_profile_clash :: "employee_profile \<Rightarrow> employee_profile \<Rightarrow> bool" where
  "employee_profile_clash a b \<longleftrightarrow> ep_employee a = ep_employee b"

record employee_document =
  ed_id :: uuid
  ed_tenant :: uuid
  ed_employee :: uuid
  ed_title :: string
  ed_document_type :: "string option"
  ed_storage_key :: string
  ed_file_name :: "string option"
  ed_mime_type :: "string option"
  ed_size_bytes :: "int option"
  ed_metadata :: json
  ed_uploaded_by :: "uuid option"
  ed_deleted_at :: "int option"
  ed_created_at :: int

record employee_status_history =
  eh_id :: uuid
  eh_tenant :: uuid
  eh_employee :: uuid
  eh_from_status :: "employee_status option"
  eh_to_status :: employee_status
  eh_reason :: "string option"
  eh_changed_by :: "uuid option"
  eh_created_at :: int

record employee_note =
  ent_id :: uuid
  ent_tenant :: uuid
  ent_employee :: uuid
  ent_author_user :: "uuid option"
  ent_note_type :: "string option"
  ent_body :: string
  ent_visibility :: employee_note_visibility
  ent_created_at :: int

end
