(* ===== verification/Learn_Model.thy ===== *)
theory Learn_Model
  imports Txn
begin

text \<open>
  The enumerations and rows of PrepLearn (app/modules/learn/enums.py and models.py).
\<close>

datatype course_status = C_DRAFT | C_PUBLISHED | C_ARCHIVED

datatype course_visibility = CV_PRIVATE | CV_TENANT | CV_STUDENTS

datatype course_assignment_status = CA_ACTIVE | CA_INACTIVE | CA_ARCHIVED

datatype lesson_type = LT_VIDEO | LT_DOCUMENT | LT_LIVE | LT_QUIZ | LT_ASSIGNMENT | LT_MIXED

datatype lesson_resource_type = LR_VIDEO | LR_DOCUMENT | LR_LINK | LR_DOWNLOAD | LR_EMBED

record course =
  co_id :: uuid
  co_tenant :: uuid
  co_title :: string
  co_slug :: string
  co_description :: "string option"
  co_category :: "string option"
  co_level :: "string option"
  co_status :: course_status
  co_visibility :: course_visibility
  co_created_by :: "uuid option"
  co_published_at :: "int option"
  co_deleted_at :: "int option"
  co_created_at :: int

definition course_clash :: "course \<Rightarrow> course \<Rightarrow> bool" where
  "course_clash a b \<longleftrightarrow> co_tenant a = co_tenant b \<and> co_slug a = co_slug b"

record course_batch =
  cb_id :: uuid
  cb_tenant :: uuid
  cb_course :: uuid
  cb_batch :: uuid
  cb_status :: course_assignment_status
  cb_created_at :: int

definition course_batch_clash :: "course_batch \<Rightarrow> course_batch \<Rightarrow> bool" where
  "course_batch_clash a b \<longleftrightarrow> cb_tenant a = cb_tenant b \<and> cb_course a = cb_course b \<and>
     cb_batch a = cb_batch b"

record course_teacher =
  ct_id :: uuid
  ct_tenant :: uuid
  ct_course :: uuid
  ct_teacher :: uuid
  ct_status :: course_assignment_status
  ct_created_at :: int

definition course_teacher_clash :: "course_teacher \<Rightarrow> course_teacher \<Rightarrow> bool" where
  "course_teacher_clash a b \<longleftrightarrow> ct_tenant a = ct_tenant b \<and> ct_course a = ct_course b \<and>
     ct_teacher a = ct_teacher b"

record course_module =
  mo_id :: uuid
  mo_tenant :: uuid
  mo_course :: uuid
  mo_title :: string
  mo_description :: "string option"
  mo_order_index :: int
  mo_deleted_at :: "int option"

definition course_module_clash :: "course_module \<Rightarrow> course_module \<Rightarrow> bool" where
  "course_module_clash a b \<longleftrightarrow> mo_tenant a = mo_tenant b \<and> mo_course a = mo_course b \<and>
     mo_order_index a = mo_order_index b"

record lesson =
  ln_id :: uuid
  ln_tenant :: uuid
  ln_module :: uuid
  ln_title :: string
  ln_lesson_type :: lesson_type
  ln_content :: json
  ln_duration_minutes :: "int option"
  ln_order_index :: int
  ln_is_preview :: bool
  ln_completion_rule :: json
  ln_deleted_at :: "int option"

definition lesson_clash :: "lesson \<Rightarrow> lesson \<Rightarrow> bool" where
  "lesson_clash a b \<longleftrightarrow> ln_tenant a = ln_tenant b \<and> ln_module a = ln_module b \<and>
     ln_order_index a = ln_order_index b"

record lesson_resource =
  lx_id :: uuid
  lx_tenant :: uuid
  lx_lesson :: uuid
  lx_title :: string
  lx_resource_type :: lesson_resource_type
  lx_url :: "string option"
  lx_storage_key :: "string option"
  lx_content_asset :: "uuid option"
  lx_metadata :: json
  lx_order_index :: int
  lx_deleted_at :: "int option"

record course_publish_history =
  ph_id :: uuid
  ph_tenant :: uuid
  ph_course :: uuid
  ph_published_by :: "uuid option"
  ph_previous_status :: "course_status option"
  ph_new_status :: course_status
  ph_published_at :: int
  ph_notes :: "string option"

record course_prerequisite =
  cp_id :: uuid
  cp_tenant :: uuid
  cp_course :: uuid
  cp_prerequisite_course :: uuid
  cp_created_at :: int

definition course_prerequisite_clash :: "course_prerequisite \<Rightarrow> course_prerequisite \<Rightarrow> bool" where
  "course_prerequisite_clash a b \<longleftrightarrow> cp_tenant a = cp_tenant b \<and> cp_course a = cp_course b \<and>
     cp_prerequisite_course a = cp_prerequisite_course b"

end
