(* ===== verification/Question_Model.thy ===== *)
theory Question_Model
  imports Txn
begin

text \<open>
  The enumerations and rows of PrepQuestion (app/modules/question/enums.py and models.py).
  Marks are \<open>NUMERIC(10,2)\<close> columns: rationals the operations round with \<open>quantize2\<close> on storing.
\<close>

datatype question_type =
    MCQ | MULTI_SELECT | TRUE_FALSE | SHORT_ANSWER | LONG_ANSWER | CODING | FILL_BLANK
  | MATCH_FOLLOWING

datatype question_difficulty = EASY | MEDIUM | HARD

datatype question_status = Q_DRAFT | Q_REVIEWED | Q_APPROVED | Q_ARCHIVED

datatype question_set_status = QS_DRAFT | QS_REVIEWED | QS_PUBLISHED | QS_ARCHIVED

datatype topic_status = TP_ACTIVE | TP_ARCHIVED

datatype ai_job_status = AI_PENDING | AI_COMPLETED | AI_APPROVED | AI_FAILED

record question_topic =
  tp_id :: uuid
  tp_tenant :: uuid
  tp_parent :: "uuid option"
  tp_name :: string
  tp_slug :: string
  tp_description :: "string option"
  tp_status :: topic_status

definition question_topic_clash :: "question_topic \<Rightarrow> question_topic \<Rightarrow> bool" where
  "question_topic_clash a b \<longleftrightarrow> tp_tenant a = tp_tenant b \<and> tp_slug a = tp_slug b"

record question =
  qu_id :: uuid
  qu_tenant :: uuid
  qu_topic :: uuid
  qu_question_type :: question_type
  qu_difficulty :: question_difficulty
  qu_bloom_level :: "string option"
  qu_body :: string
  qu_explanation :: "string option"
  qu_marks :: rat
  qu_negative_marks :: rat
  qu_metadata :: json
  qu_status :: question_status
  qu_created_by :: "uuid option"
  qu_deleted_at :: "int option"
  qu_created_at :: int

record question_option =
  qo_id :: uuid
  qo_tenant :: uuid
  qo_question :: uuid
  qo_label :: "string option"
  qo_body :: string
  qo_is_correct :: bool
  qo_explanation :: "string option"
  qo_order_index :: int

definition question_option_clash :: "question_option \<Rightarrow> question_option \<Rightarrow> bool" where
  "question_option_clash a b \<longleftrightarrow> qo_tenant a = qo_tenant b \<and> qo_question a = qo_question b \<and>
     qo_order_index a = qo_order_index b"

record question_tag =
  qt_id :: uuid
  qt_tenant :: uuid
  qt_question :: uuid
  qt_name :: string

definition question_tag_clash :: "question_tag \<Rightarrow> question_tag \<Rightarrow> bool" where
  "question_tag_clash a b \<longleftrightarrow> qt_tenant a = qt_tenant b \<and> qt_question a = qt_question b \<and>
     qt_name a = qt_name b"

record question_set =
  qs_id :: uuid
  qs_tenant :: uuid
  qs_title :: string
  qs_description :: "string option"
  qs_total_marks :: rat
  qs_difficulty_distribution :: json
  qs_topic_distribution :: json
  qs_status :: question_set_status
  qs_created_by :: "uuid option"
  qs_deleted_at :: "int option"
  qs_created_at :: int

definition question_set_clash :: "question_set \<Rightarrow> question_set \<Rightarrow> bool" where
  "question_set_clash a b \<longleftrightarrow> qs_tenant a = qs_tenant b \<and> qs_title a = qs_title b"

record question_set_item =
  qi_id :: uuid
  qi_tenant :: uuid
  qi_set :: uuid
  qi_question :: uuid
  qi_order_index :: int
  qi_marks_override :: "rat option"

definition question_set_item_clash :: "question_set_item \<Rightarrow> question_set_item \<Rightarrow> bool" where
  "question_set_item_clash a b \<longleftrightarrow> qi_tenant a = qi_tenant b \<and> qi_set a = qi_set b \<and>
     (qi_question a = qi_question b \<or> qi_order_index a = qi_order_index b)"

text \<open>An option as a payload gives it (schemas.py, \<open>QuestionOptionCreate\<close>).\<close>

record option_draft =
  od_label :: "string option"
  od_body :: string
  od_is_correct :: bool
  od_explanation :: "string option"
  od_order_index :: "int option"

text \<open>
  The output of a generation job is the JSON document the provider returned; the model keeps the
  candidates it holds, with the type the approval reads them at.  An absent body is None.
\<close>

record ai_candidate =
  ac_body :: "string option"
  ac_explanation :: "string option"
  ac_marks :: rat
  ac_negative_marks :: rat
  ac_options :: "option_draft list"
  ac_metadata :: json
  ac_tags :: "string list"

record ai_job =
  ai_id :: uuid
  ai_tenant :: uuid
  ai_requested_by :: "uuid option"
  ai_prompt :: string
  ai_topic :: string
  ai_difficulty :: question_difficulty
  ai_question_type :: question_type
  ai_count :: nat
  ai_status :: ai_job_status
  ai_output :: "ai_candidate list"
  ai_reviewed_at :: "int option"

end
