(* ===== verification/Assess_Model.thy ===== *)
theory Assess_Model
  imports Txn
begin

text \<open>
  The enumerations and rows of PrepAssess (app/modules/assess/enums.py and models.py), with the
  unique constraints of each table as a predicate on pairs of rows.
\<close>

section \<open>Enumerations\<close>

datatype assessment_type = EXAM | QUIZ | ASSIGNMENT | PRACTICE

datatype assessment_status =
    AS_DRAFT | AS_SCHEDULED | AS_LIVE | AS_CLOSED | AS_EVALUATED | AS_PUBLISHED

datatype attempt_status = AT_STARTED | AT_SUBMITTED | AT_AUTO_SUBMITTED | AT_EVALUATED

datatype answer_evaluation_status = EVAL_PENDING | AUTO_EVALUATED | MANUAL_EVALUATED

datatype result_status = R_DRAFT | R_PUBLISHED

section \<open>Rows\<close>

record assessment =
  as_id :: uuid
  as_tenant :: uuid
  as_course :: "uuid option"
  as_batch :: "uuid option"
  as_question_set :: "uuid option"
  as_title :: string
  as_type :: assessment_type
  as_status :: assessment_status
  as_starts_at :: "int option"
  as_ends_at :: "int option"
  as_duration_minutes :: "int option"
  as_total_marks :: rat
  as_settings :: json
  as_created_by :: "uuid option"
  as_published_at :: "int option"
  as_deleted_at :: "int option"
  as_created_at :: int

record assessment_section =
  sec_id :: uuid
  sec_tenant :: uuid
  sec_assessment :: uuid
  sec_title :: string
  sec_instructions :: "string option"
  sec_order_index :: int
  sec_total_marks :: rat

definition assessment_section_clash :: "assessment_section \<Rightarrow> assessment_section \<Rightarrow> bool" where
  "assessment_section_clash a b \<longleftrightarrow> sec_tenant a = sec_tenant b \<and>
     sec_assessment a = sec_assessment b \<and> sec_order_index a = sec_order_index b"

record assessment_question =
  aq_id :: uuid
  aq_tenant :: uuid
  aq_assessment :: uuid
  aq_section :: "uuid option"
  aq_question :: uuid
  aq_order_index :: int
  aq_marks :: rat
  aq_negative_marks :: rat
  aq_metadata :: json

definition assessment_question_clash :: "assessment_question \<Rightarrow> assessment_question \<Rightarrow> bool" where
  "assessment_question_clash a b \<longleftrightarrow> aq_tenant a = aq_tenant b \<and>
     aq_assessment a = aq_assessment b \<and>
     (aq_order_index a = aq_order_index b \<or> aq_question a = aq_question b)"

record assessment_attempt =
  at_id :: uuid
  at_tenant :: uuid
  at_assessment :: uuid
  at_student :: uuid
  at_status :: attempt_status
  at_started_at :: int
  at_submitted_at :: "int option"
  at_score :: "rat option"
  at_metadata :: json

definition assessment_attempt_clash :: "assessment_attempt \<Rightarrow> assessment_attempt \<Rightarrow> bool" where
  "assessment_attempt_clash a b \<longleftrightarrow> at_tenant a = at_tenant b \<and>
     at_assessment a = at_assessment b \<and> at_student a = at_student b"

record assessment_answer =
  an_id :: uuid
  an_tenant :: uuid
  an_attempt :: uuid
  an_assessment_question :: uuid
  an_question :: uuid
  an_answer :: json
  an_status :: answer_evaluation_status
  an_is_correct :: "bool option"
  an_score :: "rat option"
  an_evaluated_by :: "uuid option"
  an_evaluated_at :: "int option"
  an_idempotency_key :: "string option"
  an_created_at :: int

definition assessment_answer_clash :: "assessment_answer \<Rightarrow> assessment_answer \<Rightarrow> bool" where
  "assessment_answer_clash a b \<longleftrightarrow> an_tenant a = an_tenant b \<and> an_attempt a = an_attempt b \<and>
     an_assessment_question a = an_assessment_question b"

record assessment_evaluation =
  evl_id :: uuid
  evl_tenant :: uuid
  evl_attempt :: uuid
  evl_evaluated_by :: "uuid option"
  evl_status :: attempt_status
  evl_total_score :: rat
  evl_evaluated_at :: int

record assessment_result =
  rs_id :: uuid
  rs_tenant :: uuid
  rs_assessment :: uuid
  rs_student :: uuid
  rs_attempt :: uuid
  rs_score :: rat
  rs_percentage :: rat
  rs_status :: result_status
  rs_published_at :: "int option"

definition assessment_result_clash :: "assessment_result \<Rightarrow> assessment_result \<Rightarrow> bool" where
  "assessment_result_clash a b \<longleftrightarrow> rs_tenant a = rs_tenant b \<and>
     rs_assessment a = rs_assessment b \<and> rs_student a = rs_student b"

record evaluation_comment =
  cm_id :: uuid
  cm_tenant :: uuid
  cm_answer :: "uuid option"
  cm_evaluation :: "uuid option"
  cm_author :: "uuid option"
  cm_comment :: string
  cm_visibility :: string

end
