(* ===== verification/Attend_Model.thy ===== *)
theory Attend_Model
  imports Txn
begin

text \<open>
  The enumerations and rows of PrepAttend (app/modules/attend/enums.py and models.py).  The status
  columns of the two record tables and the requested status of a correction stay text, as in the
  code, because a correction copies one into the other without conversion.
\<close>

section \<open>Enumerations\<close>

datatype student_attendance_session_status =
    SES_DRAFT | SES_OPEN | SES_SUBMITTED | SES_LOCKED | SES_CANCELLED

datatype student_attendance_status = SA_PRESENT | SA_ABSENT | SA_LATE | SA_EXCUSED

datatype employee_attendance_status =
    EA_PRESENT | EA_ABSENT | EA_LATE | EA_HALF_DAY | EA_ON_LEAVE

datatype employee_attendance_source = SRC_MANUAL | SRC_BIOMETRIC | SRC_LIVE_CLASS | SRC_IMPORT

datatype attendance_correction_target = STUDENT_RECORD | EMPLOYEE_RECORD

datatype attendance_correction_status = COR_PENDING | COR_APPROVED | COR_REJECTED

fun student_attendance_value :: "student_attendance_status \<Rightarrow> string" where
  "student_attendance_value SA_PRESENT = ''present''"
| "student_attendance_value SA_ABSENT = ''absent''"
| "student_attendance_value SA_LATE = ''late''"
| "student_attendance_value SA_EXCUSED = ''excused''"

fun employee_attendance_value :: "employee_attendance_status \<Rightarrow> string" where
  "employee_attendance_value EA_PRESENT = ''present''"
| "employee_attendance_value EA_ABSENT = ''absent''"
| "employee_attendance_value EA_LATE = ''late''"
| "employee_attendance_value EA_HALF_DAY = ''half_day''"
| "employee_attendance_value EA_ON_LEAVE = ''on_leave''"

text \<open>The sets \<open>{item.value for item in ...}\<close>.\<close>

definition student_attendance_values :: "string list" where
  "student_attendance_values =
     map student_attendance_value [SA_PRESENT, SA_ABSENT, SA_LATE, SA_EXCUSED]"

definition employee_attendance_values :: "string list" where
  "employee_attendance_values =
     map employee_attendance_value [EA_PRESENT, EA_ABSENT, EA_LATE, EA_HALF_DAY, EA_ON_LEAVE]"

lemma student_attendance_value_in [simp]:
  "student_attendance_value v \<in> set student_attendance_values"
  by (cases v) (simp_all add: student_attendance_values_def)

lemma employee_attendance_value_in [simp]:
  "employee_attendance_value v \<in> set employee_attendance_values"
  by (cases v) (simp_all add: employee_attendance_values_def)

section \<open>Rows\<close>

record student_attendance_session =
  sas_id :: uuid
  sas_tenant :: uuid
  sas_batch :: uuid
  sas_course :: "uuid option"
  sas_live_class :: "uuid option"
  sas_date :: int
  sas_marked_by :: "uuid option"
  sas_status :: student_attendance_session_status
  sas_submitted_at :: "int option"
  sas_metadata :: json

record student_attendance_record =
  sar_id :: uuid
  sar_tenant :: uuid
  sar_session :: uuid
  sar_student :: uuid
  sar_status :: string
  sar_marked_at :: int
  sar_marked_by :: "uuid option"
  sar_remarks :: "string option"
  sar_metadata :: json
  sar_created_at :: int

definition student_attendance_record_clash ::
    "student_attendance_record \<Rightarrow> student_attendance_record \<Rightarrow> bool" where
  "student_attendance_record_clash a b \<longleftrightarrow> sar_tenant a = sar_tenant b \<and>
     sar_session a = sar_session b \<and> sar_student a = sar_student b"

record employee_attendance_record =
  ear_id :: uuid
  ear_tenant :: uuid
  ear_employee :: uuid
  ear_date :: int
  ear_check_in_at :: "int option"
  ear_check_out_at :: "int option"
  ear_status :: string
  ear_source :: employee_attendance_source
  ear_marked_by :: "uuid option"
  ear_remarks :: "string option"
  ear_idempotency_key :: "string option"
  ear_metadata :: json

definition employee_attendance_record_clash ::
    "employee_attendance_record \<Rightarrow> employee_attendance_record \<Rightarrow> bool" where
  "employee_attendance_record_clash a b \<longleftrightarrow> ear_tenant a = ear_tenant b \<and>
     ear_employee a = ear_employee b \<and> ear_date a = ear_date b"

record attendance_correction_request =
  acr_id :: uuid
  acr_tenant :: uuid
  acr_requester :: "uuid option"
  acr_target_type :: attendance_correction_target
  acr_student_record :: "uuid option"
  acr_employee_record :: "uuid option"
  acr_requested_status :: string
  acr_reason :: string
  acr_status :: attendance_correction_status
  acr_reviewed_by :: "uuid option"
  acr_reviewed_at :: "int option"
  acr_reviewer_note :: "string option"
  acr_metadata :: json

end
