(* ===== verification/Live_Model.thy ===== *)
theory Live_Model
  imports Txn
begin

text \<open>
  The enumerations and rows of PrepLive (app/modules/live/enums.py and models.py).  The only
  provider is MEDIASOUP, so the provider column is left out.
\<close>

section \<open>Enumerations\<close>

datatype live_class_status = LC_SCHEDULED | LC_OPEN | LC_LIVE | LC_ENDED | LC_CANCELLED

datatype live_participant_role =
    ROLE_INSTRUCTOR | ROLE_CO_INSTRUCTOR | ROLE_STUDENT | ROLE_ADMIN | ROLE_GUEST

datatype live_join_status = J_ALLOWED | J_BLOCKED | J_KICKED | J_COMPLETED

datatype live_recording_status = REC_PROCESSING | REC_READY | REC_FAILED

section \<open>Rows\<close>

record live_class =
  lc_id :: uuid
  lc_tenant :: uuid
  lc_class_code :: string
  lc_title :: string
  lc_description :: "string option"
  lc_course :: "uuid option"
  lc_batch :: uuid
  lc_instructor :: uuid
  lc_starts_at :: int
  lc_ends_at :: int
  lc_duration_minutes :: int
  lc_join_before_minutes :: int
  lc_join_after_minutes :: int
  lc_capacity :: int
  lc_status :: live_class_status
  lc_live_room_id :: "string option"
  lc_link :: string
  lc_settings :: json
  lc_created_by :: "uuid option"

text \<open>The class code is unique across tenants.\<close>

definition live_class_clash :: "live_class \<Rightarrow> live_class \<Rightarrow> bool" where
  "live_class_clash a b \<longleftrightarrow> lc_class_code a = lc_class_code b"

record live_class_participant =
  lp_id :: uuid
  lp_tenant :: uuid
  lp_class :: uuid
  lp_user :: "uuid option"
  lp_student :: "uuid option"
  lp_employee :: "uuid option"
  lp_role :: live_participant_role
  lp_join_status :: live_join_status
  lp_joined_at :: "int option"
  lp_left_at :: "int option"
  lp_total_duration_seconds :: int
  lp_created_at :: int

record live_class_attendance_snapshot =
  lsn_id :: uuid
  lsn_tenant :: uuid
  lsn_class :: uuid
  lsn_captured_at :: int
  lsn_participant_count :: int
  lsn_payload :: json

record live_class_recording =
  lr_id :: uuid
  lr_tenant :: uuid
  lr_class :: uuid
  lr_provider_recording_id :: "string option"
  lr_storage_key :: "string option"
  lr_playback_url :: "string option"
  lr_duration_seconds :: "int option"
  lr_status :: live_recording_status
  lr_metadata :: json
  lr_created_at :: int

record live_class_event =
  le_id :: uuid
  le_tenant :: uuid
  le_class :: uuid
  le_participant :: "uuid option"
  le_event_type :: string
  le_occurred_at :: int
  le_payload :: json

end
