(* ===== verification/Schema.thy ===== *)
theory Schema
  imports Txn_Rules Students_Model People_Model Learn_Model Question_Model Assess_Model
    Attend_Model Live_Model
begin

text \<open>
  The database: one list of rows per table, in insertion order, and one descriptor per table.  All
  tables of these modules carry the policy of their migration (alembic/versions, \<open>enable_rls\<close>): a row
  is visible and writable exactly when its \<open>tenant_id\<close> is the current tenant.  The laws of every
  descriptor are discharged here, by interpretation of the locale \<open>tenant_owned\<close>.
\<close>

section \<open>The database\<close>

record db =
  students :: "student list"
  guardians :: "guardian list"
  student_guardians :: "student_guardian list"
  batches :: "batch list"
  batch_students :: "batch_student list"
  student_enrollments :: "student_enrollment list"
  student_notes :: "student_note list"
  student_documents :: "student_document list"
  student_status_histories :: "student_status_history list"
  employees :: "employee list"
  teacher_assignments :: "teacher_assignment list"
  courses :: "course list"
  course_batches :: "course_batch list"
  course_teachers :: "course_teacher list"
  questions :: "question list"
  question_options :: "question_option list"
  question_tags :: "question_tag list"
  question_sets :: "question_set list"
  question_set_items :: "question_set_item list"
  assessments :: "assessment list"
  assessment_sections :: "assessment_section list"
  assessment_questions :: "assessment_question list"
  assessment_attempts :: "assessment_attempt list"
  assessment_answers :: "assessment_answer list"
  assessment_evaluations :: "assessment_evaluation list"
  assessment_results :: "assessment_result list"
  evaluation_comments :: "evaluation_comment list"
  student_attendance_sessions :: "student_attendance_session list"
  student_attendance_records :: "student_attendance_record list"
  employee_attendance_records :: "employee_attendance_record list"
  attendance_correction_requests :: "attendance_correction_request list"
  live_classes :: "live_class list"
  live_class_participants :: "live_class_participant list"
  live_class_attendance_snapshots :: "live_class_attendance_snapshot list"
  live_class_recordings :: "live_class_recording list"
  live_class_events :: "live_class_event list"
  departments :: "department list"
  employee_profiles :: "employee_profile list"
  employee_documents :: "employee_document list"
  employee_status_histories :: "employee_status_history list"
  employee_notes :: "employee_note list"
  course_modules :: "course_module list"
  lessons :: "lesson list"
  lesson_resources :: "lesson_resource list"
  course_publish_histories :: "course_publish_history list"
  course_prerequisites :: "course_prerequisite list"
  question_topics :: "question_topic list"
  ai_jobs :: "ai_job list"

definition empty_db :: db where
  "empty_db = \<lparr>students = [],
     guardians = [],
     student_guardians = [],
     batches = [],
     batch_students = [],
     student_enrollments = [],
     student_notes = [],
     student_documents = [],
     student_status_histories = [],
     employees = [],
     teacher_assignments = [],
     courses = [],
     course_batches = [],
     course_teachers = [],
     questions = [],
     question_options = [],
     question_tags = [],
     question_sets = [],
     question_set_items = [],
     assessments = [],
     assessment_sections = [],
     assessment_questions = [],
     assessment_attempts = [],
     assessment_answers = [],
     assessment_evaluations = [],
     assessment_results = [],
     evaluation_comments = [],
     student_attendance_sessions = [],
     student_attendance_records = [],
     employee_attendance_records = [],
     attendance_correction_requests = [],
     live_classes = [],
     live_class_participants = [],
     live_class_attendance_snapshots = [],
     live_class_recordings = [],
     live_class_events = [],
     departments = [],
     employee_profiles = [],
     employee_documents = [],
     employee_status_histories = [],
     employee_notes = [],
     course_modules = [],
     lessons = [],
     lesson_resources = [],
     course_publish_histories = [],
     course_prerequisites = [],
     question_topics = [],
     ai_jobs = []\<rparr>"

section \<open>Tables owned by a tenant\<close>

text \<open>\<open>tenant_id = NULLIF(current_setting('app.current_tenant_id', true), '')::uuid\<close>\<close>

definition tenant_policy :: "('r \<Rightarrow> uuid) \<Rightarrow> uuid option \<Rightarrow> uuid option \<Rightarrow> 'r \<Rightarrow> bool" where
  "tenant_policy tenant_of current user r \<longleftrightarrow> current = Some (tenant_of r)"

definition owned_table :: "('d \<Rightarrow> 'r list) \<Rightarrow> (('r list \<Rightarrow> 'r list) \<Rightarrow> 'd \<Rightarrow> 'd) \<Rightarrow>
    ('r \<Rightarrow> uuid) \<Rightarrow> ('r \<Rightarrow> uuid) \<Rightarrow> ('r \<Rightarrow> 'r \<Rightarrow> bool) \<Rightarrow> ('d, 'r) table" where
  "owned_table get upd key tenant_of clash =
     \<lparr>rows_of = get, upd_rows = upd, key_of = key, using_policy = tenant_policy tenant_of,
      check_policy = tenant_policy tenant_of, clashes = clash\<rparr>"

definition no_clash :: "'r \<Rightarrow> 'r \<Rightarrow> bool" where
  "no_clash a b \<longleftrightarrow> False"

lemma owned_table_sel [simp]:
  "rows_of (owned_table get upd key tenant_of clash) = get"
  "upd_rows (owned_table get upd key tenant_of clash) = upd"
  "key_of (owned_table get upd key tenant_of clash) = key"
  "using_policy (owned_table get upd key tenant_of clash) = tenant_policy tenant_of"
  "check_policy (owned_table get upd key tenant_of clash) = tenant_policy tenant_of"
  "clashes (owned_table get upd key tenant_of clash) = clash"
  by (simp_all add: owned_table_def)

lemma no_clash_False [simp]: "\<not> no_clash a b"
  by (simp add: no_clash_def)

locale tenant_owned = lawful_table T
  for T :: "('d, 'r) table" +
  fixes tenant_of :: "'r \<Rightarrow> uuid"
  assumes using_iff: "using_policy T t u r \<longleftrightarrow> t = Some (tenant_of r)"
    and check_iff: "check_policy T t u r \<longleftrightarrow> t = Some (tenant_of r)"
begin

lemma visible_iff: "visible T s r \<longleftrightarrow> rls_tenant s = Some (tenant_of r)"
  by (simp add: visible_def using_iff)

lemma writable_iff: "writable T s r \<longleftrightarrow> rls_tenant s = Some (tenant_of r)"
  by (simp add: writable_def check_iff)

lemma lookup_own:
  "lookup T p s = Some r \<Longrightarrow> r \<in> set (rows T s) \<and> rls_tenant s = Some (tenant_of r) \<and> p r"
  using lookup_SomeD [of T p s r] by (simp add: visible_iff)

lemma insert_own: "insert_row T r s = (Inr y, s') \<Longrightarrow> rls_tenant s = Some (tenant_of r)"
  by (simp add: insert_row_Inr_iff writable_iff)

text \<open>What a statement does to the rows of a tenant that is not the current one: nothing.\<close>

lemma insert_other:
  assumes "insert_row T r s = (x, s')" "rls_tenant s \<noteq> Some b"
  shows "filter (\<lambda>q. tenant_of q = b) (rows T s') = filter (\<lambda>q. tenant_of q = b) (rows T s)"
  using assms by (auto simp: insert_row_def rows_def rows_upd writable_iff split: if_splits)

lemma save_other:
  assumes "save_row T r s = (x, s')" "rls_tenant s \<noteq> Some b"
  shows "filter (\<lambda>q. tenant_of q = b) (rows T s') = filter (\<lambda>q. tenant_of q = b) (rows T s)"
proof (cases x)
  case (Inl e)
  with assms(1) show ?thesis by (auto simp: save_row_def split: if_splits)
next
  case (Inr y)
  with assms(1) have run: "save_row T r s = (Inr y, s')" by simp
  then have "writable T s r" by (simp add: save_row_Inr_iff)
  with assms(2) show ?thesis
    unfolding rows_save [OF run]
    by (intro filter_replace_where_out) (auto simp: visible_iff writable_iff)
qed

lemma update_other:
  assumes "update_where T p f s = (x, s')" "rls_tenant s \<noteq> Some b"
  shows "filter (\<lambda>q. tenant_of q = b) (rows T s') = filter (\<lambda>q. tenant_of q = b) (rows T s)"
proof (cases x)
  case (Inl e)
  with assms(1) show ?thesis by (auto simp: update_where_def split: if_splits)
next
  case (Inr y)
  with assms(1) have run: "update_where T p f s = (Inr y, s')" by simp
  then have "tenant_of r \<noteq> b \<and> tenant_of (f r) \<noteq> b"
    if "r \<in> set (rows T s)" "visible T s r \<and> p r" for r
    using that assms(2) by (auto simp: update_where_Inr_iff visible_iff writable_iff)
  then show ?thesis
    unfolding rows_update [OF run] by (intro filter_replace_where_out) auto
qed

lemma delete_other:
  assumes "delete_where T p s = (x, s')" "rls_tenant s \<noteq> Some b"
  shows "filter (\<lambda>q. tenant_of q = b) (rows T s') = filter (\<lambda>q. tenant_of q = b) (rows T s)"
proof -
  have "rows T s' = filter (\<lambda>r. \<not> (visible T s r \<and> p r)) (rows T s)"
    using assms(1) by (auto simp: delete_where_def rows_def rows_upd)
  with assms(2) show ?thesis
    by (auto simp: visible_iff intro: filter_cong)
qed

end

section \<open>The descriptors\<close>

definition students_table :: "(db, student) table" where [table_defs]:
  "students_table = owned_table students students_update st_id st_tenant student_clash"

definition guardians_table :: "(db, guardian) table" where [table_defs]:
  "guardians_table = owned_table guardians guardians_update gu_id gu_tenant no_clash"

definition student_guardians_table :: "(db, student_guardian) table" where [table_defs]:
  "student_guardians_table = owned_table student_guardians student_guardians_update sg_id sg_tenant student_guardian_clash"

definition batches_table :: "(db, batch) table" where [table_defs]:
  "batches_table = owned_table batches batches_update bt_id bt_tenant batch_clash"

definition batch_students_table :: "(db, batch_student) table" where [table_defs]:
  "batch_students_table = owned_table batch_students batch_students_update bs_id bs_tenant batch_student_clash"

definition student_enrollments_table :: "(db, student_enrollment) table" where [table_defs]:
  "student_enrollments_table = owned_table student_enrollments student_enrollments_update en_id en_tenant no_clash"

definition student_notes_table :: "(db, student_note) table" where [table_defs]:
  "student_notes_table = owned_table student_notes student_notes_update no_id no_tenant no_clash"

definition student_documents_table :: "(db, student_document) table" where [table_defs]:
  "student_documents_table = owned_table student_documents student_documents_update doc_id doc_tenant no_clash"

definition student_status_histories_table :: "(db, student_status_history) table" where [table_defs]:
  "student_status_histories_table = owned_table student_status_histories student_status_histories_update sh_id sh_tenant no_clash"

definition employees_table :: "(db, employee) table" where [table_defs]:
  "employees_table = owned_table employees employees_update em_id em_tenant employee_clash"

definition teacher_assignments_table :: "(db, teacher_assignment) table" where [table_defs]:
  "teacher_assignments_table = owned_table teacher_assignments teacher_assignments_update ta_id ta_tenant no_clash"

definition courses_table :: "(db, course) table" where [table_defs]:
  "courses_table = owned_table courses courses_update co_id co_tenant course_clash"

definition course_batches_table :: "(db, course_batch) table" where [table_defs]:
  "course_batches_table = owned_table course_batches course_batches_update cb_id cb_tenant course_batch_clash"

definition course_teachers_table :: "(db, course_teacher) table" where [table_defs]:
  "course_teachers_table = owned_table course_teachers course_teachers_update ct_id ct_tenant course_teacher_clash"

definition questions_table :: "(db, question) table" where [table_defs]:
  "questions_table = owned_table questions questions_update qu_id qu_tenant no_clash"

definition question_options_table :: "(db, question_option) table" where [table_defs]:
  "question_options_table = owned_table question_options question_options_update qo_id qo_tenant question_option_clash"

definition question_tags_table :: "(db, question_tag) table" where [table_defs]:
  "question_tags_table = owned_table question_tags question_tags_update qt_id qt_tenant question_tag_clash"

definition question_sets_table :: "(db, question_set) table" where [table_defs]:
  "question_sets_table = owned_table question_sets question_sets_update qs_id qs_tenant question_set_clash"

definition question_set_items_table :: "(db, question_set_item) table" where [table_defs]:
  "question_set_items_table = owned_table question_set_items question_set_items_update qi_id qi_tenant question_set_item_clash"

definition assessments_table :: "(db, assessment) table" where [table_defs]:
  "assessments_table = owned_table assessments assessments_update as_id as_tenant no_clash"

definition assessment_sections_table :: "(db, assessment_section) table" where [table_defs]:
  "assessment_sections_table = owned_table assessment_sections assessment_sections_update sec_id sec_tenant assessment_section_clash"

definition assessment_questions_table :: "(db, assessment_question) table" where [table_defs]:
  "assessment_questions_table = owned_table assessment_questions assessment_questions_update aq_id aq_tenant assessment_question_clash"

definition assessment_attempts_table :: "(db, assessment_attempt) table" where [table_defs]:
  "assessment_attempts_table = owned_table assessment_attempts assessment_attempts_update at_id at_tenant assessment_attempt_clash"

definition assessment_answers_table :: "(db, assessment_answer) table" where [table_defs]:
  "assessment_answers_table = owned_table assessment_answers assessment_answers_update an_id an_tenant assessment_answer_clash"

definition assessment_evaluations_table :: "(db, assessment_evaluation) table" where [table_defs]:
  "assessment_evaluations_table = owned_table assessment_evaluations assessment_evaluations_update evl_id evl_tenant no_clash"

definition assessment_results_table :: "(db, assessment_result) table" where [table_defs]:
  "assessment_results_table = owned_table assessment_results assessment_results_update rs_id rs_tenant assessment_result_clash"

definition evaluation_comments_table :: "(db, evaluation_comment) table" where [table_defs]:
  "evaluation_comments_table = owned_table evaluation_comments evaluation_comments_update cm_id cm_tenant no_clash"

definition student_attendance_sessions_table :: "(db, student_attendance_session) table" where [table_defs]:
  "student_attendance_sessions_table = owned_table student_attendance_sessions student_attendance_sessions_update sas_id sas_tenant no_clash"

definition student_attendance_records_table :: "(db, student_attendance_record) table" where [table_defs]:
  "student_attendance_records_table = owned_table student_attendance_records student_attendance_records_update sar_id sar_tenant student_attendance_record_clash"

definition employee_attendance_records_table :: "(db, employee_attendance_record) table" where [table_defs]:
  "employee_attendance_records_table = owned_table employee_attendance_records employee_attendance_records_update ear_id ear_tenant employee_attendance_record_clash"

definition attendance_correction_requests_table :: "(db, attendance_correction_request) table" where [table_defs]:
  "attendance_correction_requests_table = owned_table attendance_correction_requests attendance_correction_requests_update acr_id acr_tenant no_clash"

definition live_classes_table :: "(db, live_class) table" where [table_defs]:
  "live_classes_table = owned_table live_classes live_classes_update lc_id lc_tenant live_class_clash"

definition live_class_participants_table :: "(db, live_class_participant) table" where [table_defs]:
  "live_class_participants_table = owned_table live_class_participants live_class_participants_update lp_id lp_tenant no_clash"

definition live_class_attendance_snapshots_table :: "(db, live_class_attendance_snapshot) table" where [table_defs]:
  "live_class_attendance_snapshots_table = owned_table live_class_attendance_snapshots live_class_attendance_snapshots_update lsn_id lsn_tenant no_clash"

definition live_class_recordings_table :: "(db, live_class_recording) table" where [table_defs]:
  "live_class_recordings_table = owned_table live_class_recordings live_class_recordings_update lr_id lr_tenant no_clash"

definition live_class_events_table :: "(db, live_class_event) table" where [table_defs]:
  "live_class_events_table = owned_table live_class_events live_class_events_update le_id le_tenant no_clash"

definition departments_table :: "(db, department) table" where [table_defs]:
  "departments_table = owned_table departments departments_update dp_id dp_tenant department_clash"

definition employee_profiles_table :: "(db, employee_profile) table" where [table_defs]:
  "employee_profiles_table = owned_table employee_profiles employee_profiles_update ep_id ep_tenant employee_profile_clash"

definition employee_documents_table :: "(db, employee_document) table" where [table_defs]:
  "employee_documents_table = owned_table employee_documents employee_documents_update ed_id ed_tenant no_clash"

definition employee_status_histories_table :: "(db, employee_status_history) table" where [table_defs]:
  "employee_status_histories_table = owned_table employee_status_histories employee_status_histories_update eh_id eh_tenant no_clash"

definition employee_notes_table :: "(db, employee_note) table" where [table_defs]:
  "employee_notes_table = owned_table employee_notes employee_notes_update ent_id ent_tenant no_clash"

definition course_modules_table :: "(db, course_module) table" where [table_defs]:
  "course_modules_table = owned_table course_modules course_modules_update mo_id mo_tenant course_module_clash"

definition lessons_table :: "(db, lesson) table" where [table_defs]:
  "lessons_table = owned_table lessons lessons_update ln_id ln_tenant lesson_clash"

definition lesson_resources_table :: "(db, lesson_resource) table" where [table_defs]:
  "lesson_resources_table = owned_table lesson_resources lesson_resources_update lx_id lx_tenant no_clash"

definition course_publish_histories_table :: "(db, course_publish_history) table" where [table_defs]:
  "course_publish_histories_table = owned_table course_publish_histories course_publish_histories_update ph_id ph_tenant no_clash"

definition course_prerequisites_table :: "(db, course_prerequisite) table" where [table_defs]:
  "course_prerequisites_table = owned_table course_prerequisites course_prerequisites_update cp_id cp_tenant course_prerequisite_clash"

definition question_topics_table :: "(db, question_topic) table" where [table_defs]:
  "question_topics_table = owned_table question_topics question_topics_update tp_id tp_tenant question_topic_clash"

definition ai_jobs_table :: "(db, ai_job) table" where [table_defs]:
  "ai_jobs_table = owned_table ai_jobs ai_jobs_update ai_id ai_tenant no_clash"

lemmas clash_defs =
  student_clash_def student_guardian_clash_def batch_clash_def batch_student_clash_def
  course_clash_def course_batch_clash_def course_teacher_clash_def question_option_clash_def
  question_tag_clash_def question_set_clash_def question_set_item_clash_def
  assessment_section_clash_def assessment_question_clash_def assessment_attempt_clash_def
  assessment_answer_clash_def assessment_result_clash_def student_attendance_record_clash_def
  employee_attendance_record_clash_def live_class_clash_def department_clash_def
  employee_profile_clash_def course_module_clash_def lesson_clash_def
  course_prerequisite_clash_def question_topic_clash_def

interpretation students_tbl: tenant_owned students_table st_tenant
  by unfold_locales (auto simp: table_defs tenant_policy_def clash_defs employee_clash_sym)

interpretation guardians_tbl: tenant_owned guardians_table gu_tenant
  by unfold_locales (auto simp: table_defs tenant_policy_def clash_defs employee_clash_sym)

interpretation student_guardians_tbl: tenant_owned student_guardians_table sg_tenant
  by unfold_locales (auto simp: table_defs tenant_policy_def clash_defs employee_clash_sym)

interpretation batches_tbl: tenant_owned batches_table bt_tenant
  by unfold_locales (auto simp: table_defs tenant_policy_def clash_defs employee_clash_sym)

interpretation batch_students_tbl: tenant_owned batch_students_table bs_tenant
  by unfold_locales (auto simp: table_defs tenant_policy_def clash_defs employee_clash_sym)

interpretation student_enrollments_tbl: tenant_owned student_enrollments_table en_tenant
  by unfold_locales (auto simp: table_defs tenant_policy_def clash_defs employee_clash_sym)

interpretation student_notes_tbl: tenant_owned student_notes_table no_tenant
  by unfold_locales (auto simp: table_defs tenant_policy_def clash_defs employee_clash_sym)

interpretation student_documents_tbl: tenant_owned student_documents_table doc_tenant
  by unfold_locales (auto simp: table_defs tenant_policy_def clash_defs employee_clash_sym)

interpretation student_status_histories_tbl: tenant_owned student_status_histories_table sh_tenant
  by unfold_locales (auto simp: table_defs tenant_policy_def clash_defs employee_clash_sym)

interpretation employees_tbl: tenant_owned employees_table em_tenant
  by unfold_locales (auto simp: table_defs tenant_policy_def clash_defs employee_clash_sym)

interpretation teacher_assignments_tbl: tenant_owned teacher_assignments_table ta_tenant
  by unfold_locales (auto simp: table_defs tenant_policy_def clash_defs employee_clash_sym)

interpretation courses_tbl: tenant_owned courses_table co_tenant
  by unfold_locales (auto simp: table_defs tenant_policy_def clash_defs employee_clash_sym)

interpretation course_batches_tbl: tenant_owned course_batches_table cb_tenant
  by unfold_locales (auto simp: table_defs tenant_policy_def clash_defs employee_clash_sym)

interpretation course_teachers_tbl: tenant_owned course_teachers_table ct_tenant
  by unfold_locales (auto simp: table_defs tenant_policy_def clash_defs employee_clash_sym)

interpretation questions_tbl: tenant_owned questions_table qu_tenant
  by unfold_locales (auto simp: table_defs tenant_policy_def clash_defs employee_clash_sym)

interpretation question_options_tbl: tenant_owned question_options_table qo_tenant
  by unfold_locales (auto simp: table_defs tenant_policy_def clash_defs employee_clash_sym)

interpretation question_tags_tbl: tenant_owned question_tags_table qt_tenant
  by unfold_locales (auto simp: table_defs tenant_policy_def clash_defs employee_clash_sym)

interpretation question_sets_tbl: tenant_owned question_sets_table qs_tenant
  by unfold_locales (auto simp: table_defs tenant_policy_def clash_defs employee_clash_sym)

interpretation question_set_items_tbl: tenant_owned question_set_items_table qi_tenant
  by unfold_locales (auto simp: table_defs tenant_policy_def clash_defs employee_clash_sym)

interpretation assessments_tbl: tenant_owned assessments_table as_tenant
  by unfold_locales (auto simp: table_defs tenant_policy_def clash_defs employee_clash_sym)

interpretation assessment_sections_tbl: tenant_owned assessment_sections_table sec_tenant
  by unfold_locales (auto simp: table_defs tenant_policy_def clash_defs employee_clash_sym)

interpretation assessment_questions_tbl: tenant_owned assessment_questions_table aq_tenant
  by unfold_locales (auto simp: table_defs tenant_policy_def clash_defs employee_clash_sym)

interpretation assessment_attempts_tbl: tenant_owned assessment_attempts_table at_tenant
  by unfold_locales (auto simp: table_defs tenant_policy_def clash_defs employee_clash_sym)

interpretation assessment_answers_tbl: tenant_owned assessment_answers_table an_tenant
  by unfold_locales (auto simp: table_defs tenant_policy_def clash_defs employee_clash_sym)

interpretation assessment_evaluations_tbl: tenant_owned assessment_evaluations_table evl_tenant
  by unfold_locales (auto simp: table_defs tenant_policy_def clash_defs employee_clash_sym)

interpretation assessment_results_tbl: tenant_owned assessment_results_table rs_tenant
  by unfold_locales (auto simp: table_defs tenant_policy_def clash_defs employee_clash_sym)

interpretation evaluation_comments_tbl: tenant_owned evaluation_comments_table cm_tenant
  by unfold_locales (auto simp: table_defs tenant_policy_def clash_defs employee_clash_sym)

interpretation student_attendance_sessions_tbl: tenant_owned student_attendance_sessions_table sas_tenant
  by unfold_locales (auto simp: table_defs tenant_policy_def clash_defs employee_clash_sym)

interpretation student_attendance_records_tbl: tenant_owned student_attendance_records_table sar_tenant
  by unfold_locales (auto simp: table_defs tenant_policy_def clash_defs employee_clash_sym)

interpretation employee_attendance_records_tbl: tenant_owned employee_attendance_records_table ear_tenant
  by unfold_locales (auto simp: table_defs tenant_policy_def clash_defs employee_clash_sym)

interpretation attendance_correction_requests_tbl: tenant_owned attendance_correction_requests_table acr_tenant
  by unfold_locales (auto simp: table_defs tenant_policy_def clash_defs employee_clash_sym)

interpretation live_classes_tbl: tenant_owned live_classes_table lc_tenant
  by unfold_locales (auto simp: table_defs tenant_policy_def clash_defs employee_clash_sym)

interpretation live_class_participants_tbl: tenant_owned live_class_participants_table lp_tenant
  by unfold_locales (auto simp: table_defs tenant_policy_def clash_defs employee_clash_sym)

interpretation live_class_attendance_snapshots_tbl: tenant_owned live_class_attendance_snapshots_table lsn_tenant
  by unfold_locales (auto simp: table_defs tenant_policy_def clash_defs employee_clash_sym)

interpretation live_class_recordings_tbl: tenant_owned live_class_recordings_table lr_tenant
  by unfold_locales (auto simp: table_defs tenant_policy_def clash_defs employee_clash_sym)

interpretation live_class_events_tbl: tenant_owned live_class_events_table le_tenant
  by unfold_locales (auto simp: table_defs tenant_policy_def clash_defs employee_clash_sym)

interpretation departments_tbl: tenant_owned departments_table dp_tenant
  by unfold_locales (auto simp: table_defs tenant_policy_def clash_defs employee_clash_sym)

interpretation employee_profiles_tbl: tenant_owned employee_profiles_table ep_tenant
  by unfold_locales (auto simp: table_defs tenant_policy_def clash_defs employee_clash_sym)

interpretation employee_documents_tbl: tenant_owned employee_documents_table ed_tenant
  by unfold_locales (auto simp: table_defs tenant_policy_def clash_defs employee_clash_sym)

interpretation employee_status_histories_tbl: tenant_owned employee_status_histories_table eh_tenant
  by unfold_locales (auto simp: table_defs tenant_policy_def clash_defs employee_clash_sym)

interpretation employee_notes_tbl: tenant_owned employee_notes_table ent_tenant
  by unfold_locales (auto simp: table_defs tenant_policy_def clash_defs employee_clash_sym)

interpretation course_modules_tbl: tenant_owned course_modules_table mo_tenant
  by unfold_locales (auto simp: table_defs tenant_policy_def clash_defs employee_clash_sym)

interpretation lessons_tbl: tenant_owned lessons_table ln_tenant
  by unfold_locales (auto simp: table_defs tenant_policy_def clash_defs employee_clash_sym)

interpretation lesson_resources_tbl: tenant_owned lesson_resources_table lx_tenant
  by unfold_locales (auto simp: table_defs tenant_policy_def clash_defs employee_clash_sym)

interpretation course_publish_histories_tbl: tenant_owned course_publish_histories_table ph_tenant
  by unfold_locales (auto simp: table_defs tenant_policy_def clash_defs employee_clash_sym)

interpretation course_prerequisites_tbl: tenant_owned course_prerequisites_table cp_tenant
  by unfold_locales (auto simp: table_defs tenant_policy_def clash_defs employee_clash_sym)

interpretation question_topics_tbl: tenant_owned question_topics_table tp_tenant
  by unfold_locales (auto simp: table_defs tenant_policy_def clash_defs employee_clash_sym)

interpretation ai_jobs_tbl: tenant_owned ai_jobs_table ai_tenant
  by unfold_locales (auto simp: table_defs tenant_policy_def clash_defs employee_clash_sym)

lemma students_sel [simp]:
  "rows_of students_table = students" "upd_rows students_table = students_update"
  "key_of students_table = st_id" "clashes students_table = student_clash"
  "rows students_table s = students (working s)"
  "visible students_table s r \<longleftrightarrow> rls_tenant s = Some (st_tenant r)"
  "writable students_table s r \<longleftrightarrow> rls_tenant s = Some (st_tenant r)"
  by (simp_all add: table_defs rows_def visible_def writable_def tenant_policy_def)

lemma guardians_sel [simp]:
  "rows_of guardians_table = guardians" "upd_rows guardians_table = guardians_update"
  "key_of guardians_table = gu_id" "clashes guardians_table = no_clash"
  "rows guardians_table s = guardians (working s)"
  "visible guardians_table s r \<longleftrightarrow> rls_tenant s = Some (gu_tenant r)"
  "writable guardians_table s r \<longleftrightarrow> rls_tenant s = Some (gu_tenant r)"
  by (simp_all add: table_defs rows_def visible_def writable_def tenant_policy_def)

lemma student_guardians_sel [simp]:
  "rows_of student_guardians_table = student_guardians" "upd_rows student_guardians_table = student_guardians_update"
  "key_of student_guardians_table = sg_id" "clashes student_guardians_table = student_guardian_clash"
  "rows student_guardians_table s = student_guardians (working s)"
  "visible student_guardians_table s r \<longleftrightarrow> rls_tenant s = Some (sg_tenant r)"
  "writable student_guardians_table s r \<longleftrightarrow> rls_tenant s = Some (sg_tenant r)"
  by (simp_all add: table_defs rows_def visible_def writable_def tenant_policy_def)

lemma batches_sel [simp]:
  "rows_of batches_table = batches" "upd_rows batches_table = batches_update"
  "key_of batches_table = bt_id" "clashes batches_table = batch_clash"
  "rows batches_table s = batches (working s)"
  "visible batches_table s r \<longleftrightarrow> rls_tenant s = Some (bt_tenant r)"
  "writable batches_table s r \<longleftrightarrow> rls_tenant s = Some (bt_tenant r)"
  by (simp_all add: table_defs rows_def visible_def writable_def tenant_policy_def)

lemma batch_students_sel [simp]:
  "rows_of batch_students_table = batch_students" "upd_rows batch_students_table = batch_students_update"
  "key_of batch_students_table = bs_id" "clashes batch_students_table = batch_student_clash"
  "rows batch_students_table s = batch_students (working s)"
  "visible batch_students_table s r \<longleftrightarrow> rls_tenant s = Some (bs_tenant r)"
  "writable batch_students_table s r \<longleftrightarrow> rls_tenant s = Some (bs_tenant r)"
  by (simp_all add: table_defs rows_def visible_def writable_def tenant_policy_def)

lemma student_enrollments_sel [simp]:
  "rows_of student_enrollments_table = student_enrollments" "upd_rows student_enrollments_table = student_enrollments_update"
  "key_of student_enrollments_table = en_id" "clashes student_enrollments_table = no_clash"
  "rows student_enrollments_table s = student_enrollments (working s)"
  "visible student_enrollments_table s r \<longleftrightarrow> rls_tenant s = Some (en_tenant r)"
  "writable student_enrollments_table s r \<longleftrightarrow> rls_tenant s = Some (en_tenant r)"
  by (simp_all add: table_defs rows_def visible_def writable_def tenant_policy_def)

lemma student_notes_sel [simp]:
  "rows_of student_notes_table = student_notes" "upd_rows student_notes_table = student_notes_update"
  "key_of student_notes_table = no_id" "clashes student_notes_table = no_clash"
  "rows student_notes_table s = student_notes (working s)"
  "visible student_notes_table s r \<longleftrightarrow> rls_tenant s = Some (no_tenant r)"
  "writable student_notes_table s r \<longleftrightarrow> rls_tenant s = Some (no_tenant r)"
  by (simp_all add: table_defs rows_def visible_def writable_def tenant_policy_def)

lemma student_documents_sel [simp]:
  "rows_of student_documents_table = student_documents" "upd_rows student_documents_table = student_documents_update"
  "key_of student_documents_table = doc_id" "clashes student_documents_table = no_clash"
  "rows student_documents_table s = student_documents (working s)"
  "visible student_documents_table s r \<longleftrightarrow> rls_tenant s = Some (doc_tenant r)"
  "writable student_documents_table s r \<longleftrightarrow> rls_tenant s = Some (doc_tenant r)"
  by (simp_all add: table_defs rows_def visible_def writable_def tenant_policy_def)

lemma student_status_histories_sel [simp]:
  "rows_of student_status_histories_table = student_status_histories" "upd_rows student_status_histories_table = student_status_histories_update"
  "key_of student_status_histories_table = sh_id" "clashes student_status_histories_table = no_clash"
  "rows student_status_histories_table s = student_status_histories (working s)"
  "visible student_status_histories_table s r \<longleftrightarrow> rls_tenant s = Some (sh_tenant r)"
  "writable student_status_histories_table s r \<longleftrightarrow> rls_tenant s = Some (sh_tenant r)"
  by (simp_all add: table_defs rows_def visible_def writable_def tenant_policy_def)

lemma employees_sel [simp]:
  "rows_of employees_table = employees" "upd_rows employees_table = employees_update"
  "key_of employees_table = em_id" "clashes employees_table = employee_clash"
  "rows employees_table s = employees (working s)"
  "visible employees_table s r \<longleftrightarrow> rls_tenant s = Some (em_tenant r)"
  "writable employees_table s r \<longleftrightarrow> rls_tenant s = Some (em_tenant r)"
  by (simp_all add: table_defs rows_def visible_def writable_def tenant_policy_def)

lemma teacher_assignments_sel [simp]:
  "rows_of teacher_assignments_table = teacher_assignments" "upd_rows teacher_assignments_table = teacher_assignments_update"
  "key_of teacher_assignments_table = ta_id" "clashes teacher_assignments_table = no_clash"
  "rows teacher_assignments_table s = teacher_assignments (working s)"
  "visible teacher_assignments_table s r \<longleftrightarrow> rls_tenant s = Some (ta_tenant r)"
  "writable teacher_assignments_table s r \<longleftrightarrow> rls_tenant s = Some (ta_tenant r)"
  by (simp_all add: table_defs rows_def visible_def writable_def tenant_policy_def)

lemma courses_sel [simp]:
  "rows_of courses_table = courses" "upd_rows courses_table = courses_update"
  "key_of courses_table = co_id" "clashes courses_table = course_clash"
  "rows courses_table s = courses (working s)"
  "visible courses_table s r \<longleftrightarrow> rls_tenant s = Some (co_tenant r)"
  "writable courses_table s r \<longleftrightarrow> rls_tenant s = Some (co_tenant r)"
  by (simp_all add: table_defs rows_def visible_def writable_def tenant_policy_def)

lemma course_batches_sel [simp]:
  "rows_of course_batches_table = course_batches" "upd_rows course_batches_table = course_batches_update"
  "key_of course_batches_table = cb_id" "clashes course_batches_table = course_batch_clash"
  "rows course_batches_table s = course_batches (working s)"
  "visible course_batches_table s r \<longleftrightarrow> rls_tenant s = Some (cb_tenant r)"
  "writable course_batches_table s r \<longleftrightarrow> rls_tenant s = Some (cb_tenant r)"
  by (simp_all add: table_defs rows_def visible_def writable_def tenant_policy_def)

lemma course_teachers_sel [simp]:
  "rows_of course_teachers_table = course_teachers" "upd_rows course_teachers_table = course_teachers_update"
  "key_of course_teachers_table = ct_id" "clashes course_teachers_table = course_teacher_clash"
  "rows course_teachers_table s = course_teachers (working s)"
  "visible course_teachers_table s r \<longleftrightarrow> rls_tenant s = Some (ct_tenant r)"
  "writable course_teachers_table s r \<longleftrightarrow> rls_tenant s = Some (ct_tenant r)"
  by (simp_all add: table_defs rows_def visible_def writable_def tenant_policy_def)

lemma questions_sel [simp]:
  "rows_of questions_table = questions" "upd_rows questions_table = questions_update"
  "key_of questions_table = qu_id" "clashes questions_table = no_clash"
  "rows questions_table s = questions (working s)"
  "visible questions_table s r \<longleftrightarrow> rls_tenant s = Some (qu_tenant r)"
  "writable questions_table s r \<longleftrightarrow> rls_tenant s = Some (qu_tenant r)"
  by (simp_all add: table_defs rows_def visible_def writable_def tenant_policy_def)

lemma question_options_sel [simp]:
  "rows_of question_options_table = question_options" "upd_rows question_options_table = question_options_update"
  "key_of question_options_table = qo_id" "clashes question_options_table = question_option_clash"
  "rows question_options_table s = question_options (working s)"
  "visible question_options_table s r \<longleftrightarrow> rls_tenant s = Some (qo_tenant r)"
  "writable question_options_table s r \<longleftrightarrow> rls_tenant s = Some (qo_tenant r)"
  by (simp_all add: table_defs rows_def visible_def writable_def tenant_policy_def)

lemma question_tags_sel [simp]:
  "rows_of question_tags_table = question_tags" "upd_rows question_tags_table = question_tags_update"
  "key_of question_tags_table = qt_id" "clashes question_tags_table = question_tag_clash"
  "rows question_tags_table s = question_tags (working s)"
  "visible question_tags_table s r \<longleftrightarrow> rls_tenant s = Some (qt_tenant r)"
  "writable question_tags_table s r \<longleftrightarrow> rls_tenant s = Some (qt_tenant r)"
  by (simp_all add: table_defs rows_def visible_def writable_def tenant_policy_def)

lemma question_sets_sel [simp]:
  "rows_of question_sets_table = question_sets" "upd_rows question_sets_table = question_sets_update"
  "key_of question_sets_table = qs_id" "clashes question_sets_table = question_set_clash"
  "rows question_sets_table s = question_sets (working s)"
  "visible question_sets_table s r \<longleftrightarrow> rls_tenant s = Some (qs_tenant r)"
  "writable question_sets_table s r \<longleftrightarrow> rls_tenant s = Some (qs_tenant r)"
  by (simp_all add: table_defs rows_def visible_def writable_def tenant_policy_def)

lemma question_set_items_sel [simp]:
  "rows_of question_set_items_table = question_set_items" "upd_rows question_set_items_table = question_set_items_update"
  "key_of question_set_items_table = qi_id" "clashes question_set_items_table = question_set_item_clash"
  "rows question_set_items_table s = question_set_items (working s)"
  "visible question_set_items_table s r \<longleftrightarrow> rls_tenant s = Some (qi_tenant r)"
  "writable question_set_items_table s r \<longleftrightarrow> rls_tenant s = Some (qi_tenant r)"
  by (simp_all add: table_defs rows_def visible_def writable_def tenant_policy_def)

lemma assessments_sel [simp]:
  "rows_of assessments_table = assessments" "upd_rows assessments_table = assessments_update"
  "key_of assessments_table = as_id" "clashes assessments_table = no_clash"
  "rows assessments_table s = assessments (working s)"
  "visible assessments_table s r \<longleftrightarrow> rls_tenant s = Some (as_tenant r)"
  "writable assessments_table s r \<longleftrightarrow> rls_tenant s = Some (as_tenant r)"
  by (simp_all add: table_defs rows_def visible_def writable_def tenant_policy_def)

lemma assessment_sections_sel [simp]:
  "rows_of assessment_sections_table = assessment_sections" "upd_rows assessment_sections_table = assessment_sections_update"
  "key_of assessment_sections_table = sec_id" "clashes assessment_sections_table = assessment_section_clash"
  "rows assessment_sections_table s = assessment_sections (working s)"
  "visible assessment_sections_table s r \<longleftrightarrow> rls_tenant s = Some (sec_tenant r)"
  "writable assessment_sections_table s r \<longleftrightarrow> rls_tenant s = Some (sec_tenant r)"
  by (simp_all add: table_defs rows_def visible_def writable_def tenant_policy_def)

lemma assessment_questions_sel [simp]:
  "rows_of assessment_questions_table = assessment_questions" "upd_rows assessment_questions_table = assessment_questions_update"
  "key_of assessment_questions_table = aq_id" "clashes assessment_questions_table = assessment_question_clash"
  "rows assessment_questions_table s = assessment_questions (working s)"
  "visible assessment_questions_table s r \<longleftrightarrow> rls_tenant s = Some (aq_tenant r)"
  "writable assessment_questions_table s r \<longleftrightarrow> rls_tenant s = Some (aq_tenant r)"
  by (simp_all add: table_defs rows_def visible_def writable_def tenant_policy_def)

lemma assessment_attempts_sel [simp]:
  "rows_of assessment_attempts_table = assessment_attempts" "upd_rows assessment_attempts_table = assessment_attempts_update"
  "key_of assessment_attempts_table = at_id" "clashes assessment_attempts_table = assessment_attempt_clash"
  "rows assessment_attempts_table s = assessment_attempts (working s)"
  "visible assessment_attempts_table s r \<longleftrightarrow> rls_tenant s = Some (at_tenant r)"
  "writable assessment_attempts_table s r \<longleftrightarrow> rls_tenant s = Some (at_tenant r)"
  by (simp_all add: table_defs rows_def visible_def writable_def tenant_policy_def)

lemma assessment_answers_sel [simp]:
  "rows_of assessment_answers_table = assessment_answers" "upd_rows assessment_answers_table = assessment_answers_update"
  "key_of assessment_answers_table = an_id" "clashes assessment_answers_table = assessment_answer_clash"
  "rows assessment_answers_table s = assessment_answers (working s)"
  "visible assessment_answers_table s r \<longleftrightarrow> rls_tenant s = Some (an_tenant r)"
  "writable assessment_answers_table s r \<longleftrightarrow> rls_tenant s = Some (an_tenant r)"
  by (simp_all add: table_defs rows_def visible_def writable_def tenant_policy_def)

lemma assessment_evaluations_sel [simp]:
  "rows_of assessment_evaluations_table = assessment_evaluations" "upd_rows assessment_evaluations_table = assessment_evaluations_update"
  "key_of assessment_evaluations_table = evl_id" "clashes assessment_evaluations_table = no_clash"
  "rows assessment_evaluations_table s = assessment_evaluations (working s)"
  "visible assessment_evaluations_table s r \<longleftrightarrow> rls_tenant s = Some (evl_tenant r)"
  "writable assessment_evaluations_table s r \<longleftrightarrow> rls_tenant s = Some (evl_tenant r)"
  by (simp_all add: table_defs rows_def visible_def writable_def tenant_policy_def)

lemma assessment_results_sel [simp]:
  "rows_of assessment_results_table = assessment_results" "upd_rows assessment_results_table = assessment_results_update"
  "key_of assessment_results_table = rs_id" "clashes assessment_results_table = assessment_result_clash"
  "rows assessment_results_table s = assessment_results (working s)"
  "visible assessment_results_table s r \<longleftrightarrow> rls_tenant s = Some (rs_tenant r)"
  "writable assessment_results_table s r \<longleftrightarrow> rls_tenant s = Some (rs_tenant r)"
  by (simp_all add: table_defs rows_def visible_def writable_def tenant_policy_def)

lemma evaluation_comments_sel [simp]:
  "rows_of evaluation_comments_table = evaluation_comments" "upd_rows evaluation_comments_table = evaluation_comments_update"
  "key_of evaluation_comments_table = cm_id" "clashes evaluation_comments_table = no_clash"
  "rows evaluation_comments_table s = evaluation_comments (working s)"
  "visible evaluation_comments_table s r \<longleftrightarrow> rls_tenant s = Some (cm_tenant r)"
  "writable evaluation_comments_table s r \<longleftrightarrow> rls_tenant s = Some (cm_tenant r)"
  by (simp_all add: table_defs rows_def visible_def writable_def tenant_policy_def)

lemma student_attendance_sessions_sel [simp]:
  "rows_of student_attendance_sessions_table = student_attendance_sessions" "upd_rows student_attendance_sessions_table = student_attendance_sessions_update"
  "key_of student_attendance_sessions_table = sas_id" "clashes student_attendance_sessions_table = no_clash"
  "rows student_attendance_sessions_table s = student_attendance_sessions (working s)"
  "visible student_attendance_sessions_table s r \<longleftrightarrow> rls_tenant s = Some (sas_tenant r)"
  "writable student_attendance_sessions_table s r \<longleftrightarrow> rls_tenant s = Some (sas_tenant r)"
  by (simp_all add: table_defs rows_def visible_def writable_def tenant_policy_def)

lemma student_attendance_records_sel [simp]:
  "rows_of student_attendance_records_table = student_attendance_records" "upd_rows student_attendance_records_table = student_attendance_records_update"
  "key_of student_attendance_records_table = sar_id" "clashes student_attendance_records_table = student_attendance_record_clash"
  "rows student_attendance_records_table s = student_attendance_records (working s)"
  "visible student_attendance_records_table s r \<longleftrightarrow> rls_tenant s = Some (sar_tenant r)"
  "writable student_attendance_records_table s r \<longleftrightarrow> rls_tenant s = Some (sar_tenant r)"
  by (simp_all add: table_defs rows_def visible_def writable_def tenant_policy_def)

lemma employee_attendance_records_sel [simp]:
  "rows_of employee_attendance_records_table = employee_attendance_records" "upd_rows employee_attendance_records_table = employee_attendance_records_update"
  "key_of employee_attendance_records_table = ear_id" "clashes employee_attendance_records_table = employee_attendance_record_clash"
  "rows employee_attendance_records_table s = employee_attendance_records (working s)"
  "visible employee_attendance_records_table s r \<longleftrightarrow> rls_tenant s = Some (ear_tenant r)"
  "writable employee_attendance_records_table s r \<longleftrightarrow> rls_tenant s = Some (ear_tenant r)"
  by (simp_all add: table_defs rows_def visible_def writable_def tenant_policy_def)

lemma attendance_correction_requests_sel [simp]:
  "rows_of attendance_correction_requests_table = attendance_correction_requests" "upd_rows attendance_correction_requests_table = attendance_correction_requests_update"
  "key_of attendance_correction_requests_table = acr_id" "clashes attendance_correction_requests_table = no_clash"
  "rows attendance_correction_requests_table s = attendance_correction_requests (working s)"
  "visible attendance_correction_requests_table s r \<longleftrightarrow> rls_tenant s = Some (acr_tenant r)"
  "writable attendance_correction_requests_table s r \<longleftrightarrow> rls_tenant s = Some (acr_tenant r)"
  by (simp_all add: table_defs rows_def visible_def writable_def tenant_policy_def)

lemma live_classes_sel [simp]:
  "rows_of live_classes_table = live_classes" "upd_rows live_classes_table = live_classes_update"
  "key_of live_classes_table = lc_id" "clashes live_classes_table = live_class_clash"
  "rows live_classes_table s = live_classes (working s)"
  "visible live_classes_table s r \<longleftrightarrow> rls_tenant s = Some (lc_tenant r)"
  "writable live_classes_table s r \<longleftrightarrow> rls_tenant s = Some (lc_tenant r)"
  by (simp_all add: table_defs rows_def visible_def writable_def tenant_policy_def)

lemma live_class_participants_sel [simp]:
  "rows_of live_class_participants_table = live_class_participants" "upd_rows live_class_participants_table = live_class_participants_update"
  "key_of live_class_participants_table = lp_id" "clashes live_class_participants_table = no_clash"
  "rows live_class_participants_table s = live_class_participants (working s)"
  "visible live_class_participants_table s r \<longleftrightarrow> rls_tenant s = Some (lp_tenant r)"
  "writable live_class_participants_table s r \<longleftrightarrow> rls_tenant s = Some (lp_tenant r)"
  by (simp_all add: table_defs rows_def visible_def writable_def tenant_policy_def)

lemma live_class_attendance_snapshots_sel [simp]:
  "rows_of live_class_attendance_snapshots_table = live_class_attendance_snapshots" "upd_rows live_class_attendance_snapshots_table = live_class_attendance_snapshots_update"
  "key_of live_class_attendance_snapshots_table = lsn_id" "clashes live_class_attendance_snapshots_table = no_clash"
  "rows live_class_attendance_snapshots_table s = live_class_attendance_snapshots (working s)"
  "visible live_class_attendance_snapshots_table s r \<longleftrightarrow> rls_tenant s = Some (lsn_tenant r)"
  "writable live_class_attendance_snapshots_table s r \<longleftrightarrow> rls_tenant s = Some (lsn_tenant r)"
  by (simp_all add: table_defs rows_def visible_def writable_def tenant_policy_def)

lemma live_class_recordings_sel [simp]:
  "rows_of live_class_recordings_table = live_class_recordings" "upd_rows live_class_recordings_table = live_class_recordings_update"
  "key_of live_class_recordings_table = lr_id" "clashes live_class_recordings_table = no_clash"
  "rows live_class_recordings_table s = live_class_recordings (working s)"
  "visible live_class_recordings_table s r \<longleftrightarrow> rls_tenant s = Some (lr_tenant r)"
  "writable live_class_recordings_table s r \<longleftrightarrow> rls_tenant s = Some (lr_tenant r)"
  by (simp_all add: table_defs rows_def visible_def writable_def tenant_policy_def)

lemma live_class_events_sel [simp]:
  "rows_of live_class_events_table = live_class_events" "upd_rows live_class_events_table = live_class_events_update"
  "key_of live_class_events_table = le_id" "clashes live_class_events_table = no_clash"
  "rows live_class_events_table s = live_class_events (working s)"
  "visible live_class_events_table s r \<longleftrightarrow> rls_tenant s = Some (le_tenant r)"
  "writable live_class_events_table s r \<longleftrightarrow> rls_tenant s = Some (le_tenant r)"
  by (simp_all add: table_defs rows_def visible_def writable_def tenant_policy_def)

lemma departments_sel [simp]:
  "rows_of departments_table = departments" "upd_rows departments_table = departments_update"
  "key_of departments_table = dp_id" "clashes departments_table = department_clash"
  "rows departments_table s = departments (working s)"
  "visible departments_table s r \<longleftrightarrow> rls_tenant s = Some (dp_tenant r)"
  "writable departments_table s r \<longleftrightarrow> rls_tenant s = Some (dp_tenant r)"
  by (simp_all add: table_defs rows_def visible_def writable_def tenant_policy_def)

lemma employee_profiles_sel [simp]:
  "rows_of employee_profiles_table = employee_profiles" "upd_rows employee_profiles_table = employee_profiles_update"
  "key_of employee_profiles_table = ep_id" "clashes employee_profiles_table = employee_profile_clash"
  "rows employee_profiles_table s = employee_profiles (working s)"
  "visible employee_profiles_table s r \<longleftrightarrow> rls_tenant s = Some (ep_tenant r)"
  "writable employee_profiles_table s r \<longleftrightarrow> rls_tenant s = Some (ep_tenant r)"
  by (simp_all add: table_defs rows_def visible_def writable_def tenant_policy_def)

lemma employee_documents_sel [simp]:
  "rows_of employee_documents_table = employee_documents" "upd_rows employee_documents_table = employee_documents_update"
  "key_of employee_documents_table = ed_id" "clashes employee_documents_table = no_clash"
  "rows employee_documents_table s = employee_documents (working s)"
  "visible employee_documents_table s r \<longleftrightarrow> rls_tenant s = Some (ed_tenant r)"
  "writable employee_documents_table s r \<longleftrightarrow> rls_tenant s = Some (ed_tenant r)"
  by (simp_all add: table_defs rows_def visible_def writable_def tenant_policy_def)

lemma employee_status_histories_sel [simp]:
  "rows_of employee_status_histories_table = employee_status_histories" "upd_rows employee_status_histories_table = employee_status_histories_update"
  "key_of employee_status_histories_table = eh_id" "clashes employee_status_histories_table = no_clash"
  "rows employee_status_histories_table s = employee_status_histories (working s)"
  "visible employee_status_histories_table s r \<longleftrightarrow> rls_tenant s = Some (eh_tenant r)"
  "writable employee_status_histories_table s r \<longleftrightarrow> rls_tenant s = Some (eh_tenant r)"
  by (simp_all add: table_defs rows_def visible_def writable_def tenant_policy_def)

lemma employee_notes_sel [simp]:
  "rows_of employee_notes_table = employee_notes" "upd_rows employee_notes_table = employee_notes_update"
  "key_of employee_notes_table = ent_id" "clashes employee_notes_table = no_clash"
  "rows employee_notes_table s = employee_notes (working s)"
  "visible employee_notes_table s r \<longleftrightarrow> rls_tenant s = Some (ent_tenant r)"
  "writable employee_notes_table s r \<longleftrightarrow> rls_tenant s = Some (ent_tenant r)"
  by (simp_all add: table_defs rows_def visible_def writable_def tenant_policy_def)

lemma course_modules_sel [simp]:
  "rows_of course_modules_table = course_modules" "upd_rows course_modules_table = course_modules_update"
  "key_of course_modules_table = mo_id" "clashes course_modules_table = course_module_clash"
  "rows course_modules_table s = course_modules (working s)"
  "visible course_modules_table s r \<longleftrightarrow> rls_tenant s = Some (mo_tenant r)"
  "writable course_modules_table s r \<longleftrightarrow> rls_tenant s = Some (mo_tenant r)"
  by (simp_all add: table_defs rows_def visible_def writable_def tenant_policy_def)

lemma lessons_sel [simp]:
  "rows_of lessons_table = lessons" "upd_rows lessons_table = lessons_update"
  "key_of lessons_table = ln_id" "clashes lessons_table = lesson_clash"
  "rows lessons_table s = lessons (working s)"
  "visible lessons_table s r \<longleftrightarrow> rls_tenant s = Some (ln_tenant r)"
  "writable lessons_table s r \<longleftrightarrow> rls_tenant s = Some (ln_tenant r)"
  by (simp_all add: table_defs rows_def visible_def writable_def tenant_policy_def)

lemma lesson_resources_sel [simp]:
  "rows_of lesson_resources_table = lesson_resources" "upd_rows lesson_resources_table = lesson_resources_update"
  "key_of lesson_resources_table = lx_id" "clashes lesson_resources_table = no_clash"
  "rows lesson_resources_table s = lesson_resources (working s)"
  "visible lesson_resources_table s r \<longleftrightarrow> rls_tenant s = Some (lx_tenant r)"
  "writable lesson_resources_table s r \<longleftrightarrow> rls_tenant s = Some (lx_tenant r)"
  by (simp_all add: table_defs rows_def visible_def writable_def tenant_policy_def)

lemma course_publish_histories_sel [simp]:
  "rows_of course_publish_histories_table = course_publish_histories" "upd_rows course_publish_histories_table = course_publish_histories_update"
  "key_of course_publish_histories_table = ph_id" "clashes course_publish_histories_table = no_clash"
  "rows course_publish_histories_table s = course_publish_histories (working s)"
  "visible course_publish_histories_table s r \<longleftrightarrow> rls_tenant s = Some (ph_tenant r)"
  "writable course_publish_histories_table s r \<longleftrightarrow> rls_tenant s = Some (ph_tenant r)"
  by (simp_all add: table_defs rows_def visible_def writable_def tenant_policy_def)

lemma course_prerequisites_sel [simp]:
  "rows_of course_prerequisites_table = course_prerequisites" "upd_rows course_prerequisites_table = course_prerequisites_update"
  "key_of course_prerequisites_table = cp_id" "clashes course_prerequisites_table = course_prerequisite_clash"
  "rows course_prerequisites_table s = course_prerequisites (working s)"
  "visible course_prerequisites_table s r \<longleftrightarrow> rls_tenant s = Some (cp_tenant r)"
  "writable course_prerequisites_table s r \<longleftrightarrow> rls_tenant s = Some (cp_tenant r)"
  by (simp_all add: table_defs rows_def visible_def writable_def tenant_policy_def)

lemma question_topics_sel [simp]:
  "rows_of question_topics_table = question_topics" "upd_rows question_topics_table = question_topics_update"
  "key_of question_topics_table = tp_id" "clashes question_topics_table = question_topic_clash"
  "rows question_topics_table s = question_topics (working s)"
  "visible question_topics_table s r \<longleftrightarrow> rls_tenant s = Some (tp_tenant r)"
  "writable question_topics_table s r \<longleftrightarrow> rls_tenant s = Some (tp_tenant r)"
  by (simp_all add: table_defs rows_def visible_def writable_def tenant_policy_def)

lemma ai_jobs_sel [simp]:
  "rows_of ai_jobs_table = ai_jobs" "upd_rows ai_jobs_table = ai_jobs_update"
  "key_of ai_jobs_table = ai_id" "clashes ai_jobs_table = no_clash"
  "rows ai_jobs_table s = ai_jobs (working s)"
  "visible ai_jobs_table s r \<longleftrightarrow> rls_tenant s = Some (ai_tenant r)"
  "writable ai_jobs_table s r \<longleftrightarrow> rls_tenant s = Some (ai_tenant r)"
  by (simp_all add: table_defs rows_def visible_def writable_def tenant_policy_def)

end
