(* ===== verification/Platform.thy ===== *)
theory Platform
  imports Schema
begin

text \<open>
  What every service of the application shares: the tenant context and the principal of a request
  (app/core/tenant_context.py, app/core/permissions.py), the tenant-scoped session, the guard on
  the context, the publication of domain events, partial updates, text search and the cursor pages
  of the list endpoints (app/core/pagination.py and the repositories).
\<close>

section \<open>Request context\<close>

datatype tenant_source = UNRESOLVED | HEADER | SUBDOMAIN | AUTHENTICATED_USER

record tenant_context =
  ctx_tenant :: "uuid option"
  ctx_source :: tenant_source
  ctx_slug :: "string option"
  ctx_domain :: "string option"
  ctx_user :: "uuid option"

record principal =
  pr_user :: uuid
  pr_tenant :: "uuid option"
  pr_permissions :: "string list"

definition require_tenant_id :: "tenant_context \<Rightarrow> ('d, uuid) op" where
  "require_tenant_id ctx =
     (case ctx_tenant ctx of None \<Rightarrow> abort ''tenant_required'' 400 | Some t \<Rightarrow> return_tx t)"

definition publish_event :: "string \<Rightarrow> tenant_context \<Rightarrow> principal \<Rightarrow> uuid \<Rightarrow> ('d, unit) op" where
  "publish_event event_type ctx pr entity =
     publish \<lparr>ev_type = event_type, ev_tenant = ctx_tenant ctx, ev_actor = pr_user pr,
       ev_entity = entity\<rparr>"

text \<open>The session a handler receives: the current tenant is set before the handler runs.\<close>

definition scoped :: "uuid \<Rightarrow> ('d, 'a) op \<Rightarrow> ('d, 'a) op" where
  "scoped tenant m = bind_tx (set_current_tenant tenant) (\<lambda>_. m)"

text \<open>Raise a 404 when a query found nothing.\<close>

definition some_or_404 :: "string \<Rightarrow> ('d, 'r option) op \<Rightarrow> ('d, 'r) op" where
  "some_or_404 code m =
     bind_tx m (\<lambda>found. case found of None \<Rightarrow> abort code 404 | Some r \<Rightarrow> return_tx r)"

section \<open>Partial updates\<close>

text \<open>
  A field of \<open>model_dump(exclude_unset=True)\<close> is absent or assigned.  Assigning None to a column
  that is NOT NULL makes the flush fail.
\<close>

datatype 'a field = Unset | Assigned 'a

fun assign :: "'a field \<Rightarrow> 'a \<Rightarrow> 'a" where
  "assign Unset old = old"
| "assign (Assigned v) old = v"

fun assign_required :: "'a option field \<Rightarrow> 'a \<Rightarrow> 'a" where
  "assign_required (Assigned (Some v)) old = v"
| "assign_required _ old = old"

definition is_set :: "'a field \<Rightarrow> bool" where
  "is_set f \<longleftrightarrow> f \<noteq> Unset"

definition is_null :: "'a option field \<Rightarrow> bool" where
  "is_null f \<longleftrightarrow> f = Assigned None"

text \<open>
  The constraints of a schema on a text, on an optional member, on a member that may be absent:
  None is always accepted.
\<close>

definition text_within :: "nat \<Rightarrow> nat \<Rightarrow> string \<Rightarrow> bool" where
  "text_within lo hi t \<longleftrightarrow> lo \<le> length t \<and> length t \<le> hi"

definition if_some :: "('a \<Rightarrow> bool) \<Rightarrow> 'a option \<Rightarrow> bool" where
  "if_some ok v \<longleftrightarrow> (case v of None \<Rightarrow> True | Some x \<Rightarrow> ok x)"

fun if_given :: "('a \<Rightarrow> bool) \<Rightarrow> 'a option field \<Rightarrow> bool" where
  "if_given ok Unset = True"
| "if_given ok (Assigned v) = if_some ok v"

definition flush_update :: "('d, 'r) table \<Rightarrow> bool \<Rightarrow> 'r \<Rightarrow> ('d, 'r) op" where
  "flush_update T violates_not_null r =
     (if violates_not_null then raise_tx Integrity_Error else save_row T r)"

section \<open>Text search\<close>

definition lower_char :: "char \<Rightarrow> char" where
  "lower_char c = (let n = of_char c :: nat in
     if 65 \<le> n \<and> n \<le> 90 then char_of (n + 32) else c)"

definition lower :: "string \<Rightarrow> string" where
  "lower s = map lower_char s"

definition is_space :: "char \<Rightarrow> bool" where
  "is_space c \<longleftrightarrow> (let n = of_char c :: nat in n = 32 \<or> (9 \<le> n \<and> n \<le> 13) \<or> (28 \<le> n \<and> n \<le> 31))"

definition strip :: "string \<Rightarrow> string" where
  "strip s = rev (dropWhile is_space (rev (dropWhile is_space s)))"

text \<open>The LIKE operator: \<open>%\<close> any text, \<open>_\<close> any character, a backslash quotes the next one.\<close>

fun like_match :: "string \<Rightarrow> string \<Rightarrow> bool" where
  "like_match [] [] = True"
| "like_match [] (c # cs) = False"
| "like_match (p # ps) [] = (p = CHR ''%'' \<and> like_match ps [])"
| "like_match (p # ps) (c # cs) =
     (if p = CHR ''%'' then like_match ps (c # cs) \<or> like_match (p # ps) cs
      else if p = CHR ''_'' then like_match ps cs
      else if p = CHR 0x5C
      then (case ps of [] \<Rightarrow> False | q # qs \<Rightarrow> q = c \<and> like_match qs cs)
      else p = c \<and> like_match ps cs)"

definition ilike :: "string \<Rightarrow> string option \<Rightarrow> bool" where
  "ilike pattern v = (case v of None \<Rightarrow> False | Some t \<Rightarrow> like_match (lower pattern) (lower t))"

definition search_pattern :: "string \<Rightarrow> string" where
  "search_pattern s = ''%'' @ strip s @ ''%''"

text \<open>\<open>if search:\<close> an absent or empty search keeps every row.\<close>

definition matches_search :: "string option \<Rightarrow> string option list \<Rightarrow> bool" where
  "matches_search search columns = (case search of None \<Rightarrow> True
     | Some t \<Rightarrow> t = [] \<or> list_ex (ilike (search_pattern t)) columns)"

text \<open>\<open>if x is not None: statement.where(column == x)\<close>\<close>

definition matches_filter :: "'a option \<Rightarrow> 'a \<Rightarrow> bool" where
  "matches_filter x column = (case x of None \<Rightarrow> True | Some v \<Rightarrow> column = v)"

section \<open>Execution\<close>

lemma require_tenant_id_Inr_iff [simp]:
  "require_tenant_id ctx s = (Inr t, s') \<longleftrightarrow> ctx_tenant ctx = Some t \<and> s' = s"
  by (auto simp: require_tenant_id_def split: option.splits)

lemma require_tenant_id_run [tx_simps]:
  "require_tenant_id ctx s = (case ctx_tenant ctx of
     None \<Rightarrow> (Inl (Prep_Suite_Error ''tenant_required'' 400), s) | Some t \<Rightarrow> (Inr t, s))"
  by (simp add: require_tenant_id_def tx_simps split: option.splits)

lemma some_or_404_Inr_iff:
  "some_or_404 code m s = (Inr r, s') \<longleftrightarrow> m s = (Inr (Some r), s')"
  by (auto simp: some_or_404_def bind_tx_Inr_iff split: option.splits)

lemma some_or_404_scalar_Inr_iff [simp]:
  "some_or_404 code (scalar T p) s = (Inr r, s') \<longleftrightarrow> lookup T p s = Some r \<and> s' = s"
  by (auto simp: some_or_404_Inr_iff scalar_run)

lemma some_or_404_scalar_run [tx_simps]:
  "some_or_404 code (scalar T p) s = (case lookup T p s of
     None \<Rightarrow> (Inl (Prep_Suite_Error code 404), s) | Some r \<Rightarrow> (Inr r, s))"
  by (simp add: some_or_404_def tx_exec split: option.splits)

lemma publish_event_run [tx_simps]:
  "publish_event ty ctx pr e s = (Inr (), s\<lparr>proc := (proc s)\<lparr>event_log := event_log (proc s) @
     [\<lparr>ev_type = ty, ev_tenant = ctx_tenant ctx, ev_actor = pr_user pr, ev_entity = e\<rparr>]\<rparr>\<rparr>)"
  by (simp add: publish_event_def publish_run)

lemma publish_event_Inr_iff [simp]:
  "publish_event ty ctx pr e s = (Inr u, t) \<longleftrightarrow>
     t = s\<lparr>proc := (proc s)\<lparr>event_log := event_log (proc s) @
       [\<lparr>ev_type = ty, ev_tenant = ctx_tenant ctx, ev_actor = pr_user pr, ev_entity = e\<rparr>]\<rparr>\<rparr>"
  by (auto simp: publish_event_run)

lemma scoped_run [tx_simps]: "scoped t m s = m (s\<lparr>rls_tenant := Some t\<rparr>)"
  by (simp add: scoped_def bind_tx_run set_current_tenant_run)

lemma flush_update_Inr_iff:
  "flush_update T b r s = (Inr y, s') \<longleftrightarrow> \<not> b \<and> save_row T r s = (Inr y, s')"
  by (simp add: flush_update_def)

text \<open>
  \<open>tx_query\<close> runs the queries at the front of an operation and stops at its first effect.
\<close>

lemma bind_query:
  "bind_tx (return_tx x) f s = f x s"
  "bind_tx (scalar T c) g s = g (lookup T c s) s"
  "bind_tx (select_rows T c) h s = h (filter (\<lambda>r. visible T s r \<and> c r) (rows T s)) s"
  "bind_tx now_utc k s = k (clock (proc s)) s"
  "bind_tx (get_proc e) l s = l (e (proc s)) s"
  "bind_tx (abort code n) m s = (Inl (Prep_Suite_Error code n), s)"
  "bind_tx (raise_tx x') m s = (Inl x', s)"
  "bind_tx (some_or_404 code (scalar T d)) q s = (case lookup T d s of
     None \<Rightarrow> (Inl (Prep_Suite_Error code 404), s) | Some r \<Rightarrow> q r s)"
  "bind_tx (require_tenant_id ctx) o' s = (case ctx_tenant ctx of
     None \<Rightarrow> (Inl (Prep_Suite_Error ''tenant_required'' 400), s) | Some t \<Rightarrow> o' t s)"
  by (simp_all add: bind_tx_run tx_simps require_tenant_id_run some_or_404_scalar_run
      split: option.splits)

lemmas tx_query = bind_query bind_tx_assoc return_tx_run abort_run

section \<open>Compositional rules\<close>

lemma silent_platform [atomic_intros]:
  "silent (require_tenant_id ctx)"
  "silent m \<Longrightarrow> silent (scoped t m)" "silent q \<Longrightarrow> silent (some_or_404 code q)"
  "silent (flush_update T b r)"
  unfolding require_tenant_id_def scoped_def some_or_404_def flush_update_def
  by (intro atomic_intros | assumption)+

lemma unfailing_publish_event [atomic_intros]: "unfailing (publish_event ty ctx pr e)"
  by (simp add: unfailing_def tx_simps)

lemma atomic_scoped: "atomic m \<Longrightarrow> atomic (scoped t m)"
  unfolding scoped_def by (rule atomic_bind_silent) (auto intro: atomic_intros)

lemma keeps_require [keeps_intros]: "keeps J (require_tenant_id ctx)"
  by (auto simp: keeps_def tx_simps split: option.splits)

lemma keeps_some_or_404 [keeps_intros]: "keeps J m \<Longrightarrow> keeps J (some_or_404 code m)"
  unfolding some_or_404_def by (intro keeps_intros)

lemma keeps_publish_event [keeps_intros]:
  "(\<And>e. keeps J (publish e)) \<Longrightarrow> keeps J (publish_event ty ctx pr e)"
  by (simp add: publish_event_def)

lemma keeps_scoped [keeps_intros]:
  "keeps J (set_current_tenant t) \<Longrightarrow> keeps J m \<Longrightarrow> keeps J (scoped t m)"
  unfolding scoped_def by (intro keeps_intros)

lemma keeps_flush_update [keeps_intros]:
  "(\<not> b \<Longrightarrow> keeps J (save_row T r)) \<Longrightarrow> keeps J (flush_update T b r)"
  by (simp add: flush_update_def keeps_raise)

section \<open>Calls of a service\<close>

text \<open>
  A call carries the tenant the session is scoped to, the context, the principal and the request;
  pydantic validates the payload before the handler runs.  The answer is dropped where only the
  effect matters.
\<close>

record 'q call =
  cl_tenant :: uuid
  cl_context :: tenant_context
  cl_principal :: principal
  cl_request :: 'q

definition handle_call :: "(tenant_context \<Rightarrow> principal \<Rightarrow> 'q \<Rightarrow> ('d, unit) op) \<Rightarrow>
    'q call \<Rightarrow> ('d, unit) op" where
  "handle_call exec c =
     scoped (cl_tenant c) (exec (cl_context c) (cl_principal c) (cl_request c))"

definition validated :: "bool \<Rightarrow> ('d, 'a) op \<Rightarrow> ('d, 'a) op" where
  "validated valid m = (if valid then m else abort ''validation_error'' 422)"

definition discard :: "('d, 'a) op \<Rightarrow> ('d, unit) op" where
  "discard m = bind_tx m (\<lambda>_. return_tx ())"

lemma silent_discard [atomic_intros]: "silent m \<Longrightarrow> silent (discard m)"
  unfolding discard_def by (intro atomic_intros)

lemma atomic_discard: "atomic m \<Longrightarrow> atomic (discard m)"
  unfolding discard_def by (rule atomic_bind_unfailing) (auto intro: atomic_intros)

lemma atomic_validated: "atomic m \<Longrightarrow> atomic (validated b m)"
  unfolding validated_def by (rule atomic_if) (auto intro: atomic_silent atomic_intros)

lemma keeps_discard [keeps_intros]: "keeps J m \<Longrightarrow> keeps J (discard m)"
  unfolding discard_def by (intro keeps_intros)

lemma keeps_validated [keeps_intros]: "(b \<Longrightarrow> keeps J m) \<Longrightarrow> keeps J (validated b m)"
  unfolding validated_def by (intro keeps_intros)

lemma discard_Inr: "discard m s = (Inr u, s') \<longleftrightarrow> (\<exists>x. m s = (Inr x, s'))"
  by (simp add: discard_def bind_tx_Inr_iff)

lemma validated_Inr: "validated b m s = (Inr u, s') \<longleftrightarrow> b \<and> m s = (Inr u, s')"
  by (simp add: validated_def)

lemma open_scoped [simp]:
  "working ((open_session d p)\<lparr>rls_tenant := t\<rparr>) = d" "committed ((open_session d p)\<lparr>rls_tenant := t\<rparr>) = d"
  "proc ((open_session d p)\<lparr>rls_tenant := t\<rparr>) = p"
  by (simp_all add: open_session_def)

lemma atomic_handle_call:
  "atomic (exec (cl_context c) (cl_principal c) (cl_request c)) \<Longrightarrow> atomic (handle_call exec c)"
  unfolding handle_call_def by (rule atomic_scoped)

lemma keeps_handle_call:
  "keeps J (set_current_tenant (cl_tenant c)) \<Longrightarrow>
   keeps J (exec (cl_context c) (cl_principal c) (cl_request c)) \<Longrightarrow> keeps J (handle_call exec c)"
  unfolding handle_call_def by (rule keeps_scoped)

text \<open>Two ways to show that a call preserves a property of the committed database.\<close>

lemma serve_call_ok:
  assumes "atomic (handle_call exec c)" "keeps (fresh_from (uuid_supply p)) (handle_call exec c)"
    and "proc_stable P" "P d p"
    and "\<And>x s. exec (cl_context c) (cl_principal c) (cl_request c)
      ((open_session d p)\<lparr>rls_tenant := Some (cl_tenant c)\<rparr>) = (Inr x, s) \<Longrightarrow>
      P (committed s) (proc s)"
    and "serve (handle_call exec c) d p = (r, d', p')"
  shows "P d' p'"
  by (rule serve_establishes [where P = P, OF assms(1-4) _ assms(6)])
    (use assms(5) in \<open>simp add: handle_call_def scoped_run\<close>)

lemma serve_call_frame:
  assumes "keeps (both P) (exec (cl_context c) (cl_principal c) (cl_request c))"
    and "P d p" "serve (handle_call exec c) d p = (r, d', p')"
  shows "P d' p'"
  by (rule serve_both [where P = P, OF _ assms(2,3)])
    (auto intro: keeps_handle_call keeps_intros assms(1))

end
