(* ===== verification/Pagination.thy ===== *)
theory Pagination
  imports Platform
begin

text \<open>
  The cursor pages of the list endpoints: every repository asks for one row more than the limit,
  returns the rows up to the limit and, when there is more, a cursor naming the last row returned;
  the next request keeps the rows behind that cursor in the sort order.  The text of a cursor
  (base64 of an ISO timestamp and an identifier) is left out: a cursor is the pair it encodes.
\<close>

type_synonym cursor = "int \<times> uuid"

record 'r page =
  pg_items :: "'r list"
  pg_next :: "cursor option"
  pg_has_more :: bool

definition keyset_page :: "nat \<Rightarrow> ('r \<Rightarrow> cursor) \<Rightarrow> 'r list \<Rightarrow> 'r page" where
  "keyset_page limit cursor_of answer =
     (let fetched = take (limit + 1) answer;
          has_more = limit < length fetched;
          items = take limit fetched
      in \<lparr>pg_items = items,
          pg_next = (if has_more \<and> items \<noteq> [] then Some (cursor_of (last items)) else None),
          pg_has_more = has_more\<rparr>)"

text \<open>A client that follows \<open>next_cursor\<close> until there is none; the fuel bounds its requests.\<close>

fun follow :: "nat \<Rightarrow> (cursor option \<Rightarrow> 'r page) \<Rightarrow> cursor option \<Rightarrow> 'r list" where
  "follow 0 fetch c = []"
| "follow (Suc n) fetch c = (let p = fetch c in
     pg_items p @ (case pg_next p of None \<Rightarrow> [] | Some c' \<Rightarrow> follow n fetch (Some c')))"

lemma keyset_page_items [simp]: "pg_items (keyset_page limit f xs) = take limit xs"
  by (simp add: keyset_page_def Let_def min_def)

lemma keyset_page_has_more [simp]: "pg_has_more (keyset_page limit f xs) \<longleftrightarrow> limit < length xs"
  by (auto simp: keyset_page_def Let_def)

lemma keyset_page_next:
  assumes "0 < limit"
  shows "pg_next (keyset_page limit f xs) =
    (if limit < length xs then Some (f (xs ! (limit - 1))) else None)"
proof -
  have "take limit xs \<noteq> []" "last (take limit xs) = xs ! (limit - 1)" if "limit < length xs"
  proof -
    show "take limit xs \<noteq> []" using that assms by auto
    then show "last (take limit xs) = xs ! (limit - 1)"
      using that assms by (subst last_conv_nth) (simp_all add: min_absorb2)
  qed
  then show ?thesis by (auto simp: keyset_page_def Let_def min_def)
qed

text \<open>
  The contract of a list endpoint: the answer to a cursor is the page of the rows whose sort key
  is beyond the key the cursor stands for, in the order of the keys.
\<close>

locale keyset =
  fixes fetch :: "cursor option \<Rightarrow> 'r page"
    and table_rows :: "'r list"
    and key :: "'r \<Rightarrow> 'k :: linorder"
    and cursor_of :: "'r \<Rightarrow> cursor"
    and beyond :: "cursor \<Rightarrow> 'r \<Rightarrow> bool"
    and limit :: nat
  assumes fetch_first: "fetch None = keyset_page limit cursor_of (sort_key key table_rows)"
    and fetch_after: "fetch (Some c) =
      keyset_page limit cursor_of (sort_key key (filter (beyond c) table_rows))"
    and beyond_iff: "x \<in> set table_rows \<Longrightarrow> y \<in> set table_rows \<Longrightarrow>
      beyond (cursor_of x) y \<longleftrightarrow> key x < key y"
begin

lemma filter_beyond_sorted:
  assumes "sorted (map key xs)" "distinct (map key xs)" "k < length xs"
  shows "filter (\<lambda>y. key (xs ! k) < key y) xs = drop (Suc k) xs"
  using assms
proof (induction xs arbitrary: k)
  case Nil
  then show ?case by simp
next
  case (Cons x xs)
  have above: "key x < key y" if "y \<in> set xs" for y
    using Cons.prems(1,2) that by (force simp: order_less_le)
  show ?case
  proof (cases k)
    case 0
    with above show ?thesis by (auto simp: filter_id_conv)
  next
    case (Suc j)
    with Cons.prems have "xs ! j \<in> set xs" by simp
    then have "\<not> key (xs ! j) < key x" using above by (force dest: less_asym)
    with Suc Cons show ?thesis by simp
  qed
qed

lemma answer_after:
  assumes keys_distinct: "distinct (map key table_rows)"
    and "k < length table_rows" "xs = sort_key key table_rows"
  shows "sort_key key (filter (beyond (cursor_of (xs ! k))) table_rows) = drop (Suc k) xs"
proof -
  have xs: "sorted (map key xs)" "distinct (map key xs)" "set xs = set table_rows"
      "length xs = length table_rows"
    using keys_distinct unfolding assms(3)
    by (simp_all add: distinct_map)
  have "xs ! k \<in> set table_rows" using assms(2) xs(3,4) by (metis nth_mem)
  then have "filter (beyond (cursor_of (xs ! k))) table_rows =
      filter (\<lambda>y. key (xs ! k) < key y) table_rows"
    using beyond_iff by (intro filter_cong) auto
  then have "sort_key key (filter (beyond (cursor_of (xs ! k))) table_rows) =
      filter (\<lambda>y. key (xs ! k) < key y) xs"
    by (simp add: filter_sort assms(3))
  with filter_beyond_sorted [OF xs(1,2)] assms(2) xs(4) show ?thesis by simp
qed

lemma follow_from:
  assumes keys_distinct: "distinct (map key table_rows)" and limit_pos: "0 < limit"
    and "fetch c = keyset_page limit cursor_of (drop k (sort_key key table_rows))"
    and "length table_rows - k < n"
  shows "follow n fetch c = drop k (sort_key key table_rows)"
  using assms(3,4)
proof (induction n arbitrary: c k)
  case 0
  then show ?case by simp
next
  case (Suc n)
  let ?xs = "sort_key key table_rows"
  show ?case
  proof (cases "limit < length ?xs - k")
    case False
    then show ?thesis
      using limit_pos by (simp add: Suc.prems(1) keyset_page_next)
  next
    case True
    let ?last = "?xs ! (k + limit - 1)"
    have bound: "k + limit - 1 < length table_rows" using True limit_pos by simp
    have next_c: "pg_next (fetch c) = Some (cursor_of ?last)"
      using True limit_pos by (simp add: Suc.prems(1) keyset_page_next)
    have "fetch (Some (cursor_of ?last)) = keyset_page limit cursor_of (drop (k + limit) ?xs)"
      using answer_after [OF keys_distinct bound refl] limit_pos by (simp add: fetch_after)
    then have "follow n fetch (Some (cursor_of ?last)) = drop (k + limit) ?xs"
      using Suc.prems(2) limit_pos True by (intro Suc.IH) auto
    then show ?thesis
      using next_c append_take_drop_id [of limit "drop k ?xs"]
      by (simp add: Suc.prems(1) Let_def add.commute)
  qed
qed

text \<open>Following the cursors returns every row exactly once, in the sort order.\<close>

lemma follow_all:
  assumes "distinct (map key table_rows)" "0 < limit" "length table_rows < n"
  shows "follow n fetch None = sort_key key table_rows"
  using follow_from [of None 0 n] fetch_first assms by simp

end

end
