(* ===== verification/Students.thy ===== *)
theory Students
  imports Pagination
begin

text \<open>
  PrepStudents (app/modules/students/service.py and repository.py): students, guardians, notes,
  documents, enrollments, the status history, batches and their membership.
\<close>

section \<open>Payloads and answers\<close>

record student_create =
  scr_admission_no :: string
  scr_first_name :: string
  scr_last_name :: "string option"
  scr_email :: "string option"
  scr_phone :: "string option"
  scr_date_of_birth :: "int option"
  scr_gender :: "gender option"
  scr_status :: student_status
  scr_joined_at :: "int option"

record student_update =
  sup_admission_no :: "string option field"
  sup_first_name :: "string option field"
  sup_last_name :: "string option field"
  sup_email :: "string option field"
  sup_phone :: "string option field"
  sup_date_of_birth :: "int option field"
  sup_gender :: "gender option field"
  sup_status :: "student_status option field"
  sup_status_change_reason :: "string option field"

record import_error =
  ie_index :: nat
  ie_admission_no :: string
  ie_code :: string

record guardian_create =
  gcr_first_name :: string
  gcr_last_name :: "string option"
  gcr_email :: "string option"
  gcr_phone :: "string option"
  gcr_relationship_type :: "string option"
  gcr_address :: "string option"
  gcr_metadata :: json
  gcr_is_primary :: bool
  gcr_can_pickup :: bool
  gcr_emergency_contact :: bool

record student_note_create =
  ncr_body :: string
  ncr_note_type :: "string option"
  ncr_visibility :: student_note_visibility

record student_document_create =
  dcr_title :: string
  dcr_document_type :: "string option"
  dcr_storage_key :: string
  dcr_file_name :: "string option"
  dcr_mime_type :: "string option"
  dcr_size_bytes :: "int option"
  dcr_metadata :: json

record student_enrollment_create =
  ecr_course :: uuid
  ecr_batch :: "uuid option"
  ecr_status :: enrollment_status

record batch_create =
  bcr_name :: string
  bcr_code :: string
  bcr_course :: "uuid option"
  bcr_start_date :: int
  bcr_end_date :: "int option"
  bcr_capacity :: "int option"
  bcr_status :: batch_status

record batch_update =
  bup_name :: "string option field"
  bup_course :: "uuid option field"
  bup_start_date :: "int option field"
  bup_end_date :: "int option field"
  bup_capacity :: "int option field"
  bup_status :: "batch_status option field"

record student_profile =
  prof_student :: student
  prof_guardians :: "student_guardian list"
  prof_batches :: "batch_student list"
  prof_enrollments :: "student_enrollment list"
  prof_notes :: "student_note list"
  prof_documents :: "student_document list"
  prof_status_history :: "student_status_history list"

record timeline_event =
  tl_event_type :: string
  tl_event_id :: uuid
  tl_occurred_at :: int

section \<open>Repositories\<close>

definition student_get_for_tenant :: "uuid \<Rightarrow> uuid \<Rightarrow> (db, student option) op" where
  "student_get_for_tenant tenant student_id = scalar students_table
     (\<lambda>r. st_tenant r = tenant \<and> st_id r = student_id \<and> st_deleted_at r = None)"

definition student_get_by_admission_no :: "uuid \<Rightarrow> string \<Rightarrow> (db, student option) op" where
  "student_get_by_admission_no tenant admission_no = scalar students_table
     (\<lambda>r. st_tenant r = tenant \<and> st_admission_no r = admission_no \<and> st_deleted_at r = None)"

datatype student_sort = SORT_CREATED_AT | SORT_NAME | SORT_ADMISSION_NO

fun student_apply_sort :: "student_sort \<Rightarrow> student list \<Rightarrow> student list" where
  "student_apply_sort SORT_NAME = sort_key (\<lambda>r. (st_first_name r, st_last_name r = None,
     case st_last_name r of None \<Rightarrow> [] | Some l \<Rightarrow> l, - int (st_id r)))"
| "student_apply_sort SORT_ADMISSION_NO = sort_key (\<lambda>r. (st_admission_no r, - int (st_id r)))"
| "student_apply_sort SORT_CREATED_AT = sort_key (\<lambda>r. (- st_created_at r, - int (st_id r)))"

text \<open>\<open>created_at < c or (created_at = c and id < i)\<close>\<close>

definition student_beyond :: "cursor \<Rightarrow> student \<Rightarrow> bool" where
  "student_beyond c r \<longleftrightarrow> st_created_at r < fst c \<or> (st_created_at r = fst c \<and> st_id r < snd c)"

definition student_cursor :: "student \<Rightarrow> cursor" where
  "student_cursor r = (st_created_at r, st_id r)"

text \<open>A student joined with its active memberships of a batch, one row per membership.\<close>

definition join_active_members :: "uuid \<Rightarrow> batch_student list \<Rightarrow> student list \<Rightarrow> student list" where
  "join_active_members b links sts = concat (map (\<lambda>st. map (\<lambda>_. st)
     (filter (\<lambda>l. bs_student l = st_id st \<and> bs_batch l = b \<and> bs_status l = BS_ACTIVE) links)) sts)"

definition student_list_for_tenant :: "uuid \<Rightarrow> nat \<Rightarrow> cursor option \<Rightarrow> student_status option \<Rightarrow>
    string option \<Rightarrow> uuid option \<Rightarrow> student_sort \<Rightarrow> (db, student page) op" where
  "student_list_for_tenant tenant limit cursor status search batch_id order =
     bind_tx (select_rows students_table (\<lambda>r. st_tenant r = tenant \<and> st_deleted_at r = None \<and>
       matches_filter status (st_status r) \<and>
       matches_search search [Some (st_first_name r), st_last_name r, Some (st_admission_no r),
         st_email r, st_phone r])) (\<lambda>sts.
     bind_tx (select_rows batch_students_table (\<lambda>_. True)) (\<lambda>links.
     let joined = (case batch_id of None \<Rightarrow> sts | Some b \<Rightarrow> join_active_members b links sts);
         kept = (case cursor of None \<Rightarrow> joined | Some c \<Rightarrow> filter (student_beyond c) joined)
     in return_tx (keyset_page limit student_cursor (student_apply_sort order kept))))"

definition batch_get_for_tenant :: "uuid \<Rightarrow> uuid \<Rightarrow> (db, batch option) op" where
  "batch_get_for_tenant tenant batch_id = scalar batches_table
     (\<lambda>r. bt_tenant r = tenant \<and> bt_id r = batch_id \<and> bt_deleted_at r = None)"

definition batch_list_for_tenant ::
    "uuid \<Rightarrow> batch_status option \<Rightarrow> string option \<Rightarrow> (db, batch list) op" where
  "batch_list_for_tenant tenant status search =
     bind_tx (select_rows batches_table (\<lambda>r. bt_tenant r = tenant \<and> bt_deleted_at r = None \<and>
       matches_filter status (bt_status r) \<and>
       matches_search search [Some (bt_name r), Some (bt_code r)])) (\<lambda>found.
     return_tx (sort_key (\<lambda>r. (- bt_start_date r, bt_name r)) found))"

definition get_membership :: "uuid \<Rightarrow> uuid \<Rightarrow> uuid \<Rightarrow> (db, batch_student option) op" where
  "get_membership tenant batch_id student_id = scalar batch_students_table
     (\<lambda>r. bs_tenant r = tenant \<and> bs_batch r = batch_id \<and> bs_student r = student_id)"

definition active_member :: "uuid \<Rightarrow> uuid \<Rightarrow> batch_student \<Rightarrow> bool" where
  "active_member tenant batch_id r \<longleftrightarrow>
     bs_tenant r = tenant \<and> bs_batch r = batch_id \<and> bs_status r = BS_ACTIVE"

definition batch_active_count :: "uuid \<Rightarrow> uuid \<Rightarrow> (db, int) op" where
  "batch_active_count tenant batch_id =
     bind_tx (select_rows batch_students_table (active_member tenant batch_id)) (\<lambda>found.
     return_tx (int (length found)))"

section \<open>Shared steps\<close>

definition get_student :: "tenant_context \<Rightarrow> uuid \<Rightarrow> (db, student) op" where
  "get_student ctx student_id =
     bind_tx (require_tenant_id ctx) (\<lambda>tenant.
     some_or_404 ''student_not_found'' (student_get_for_tenant tenant student_id))"

definition get_batch_or_raise :: "uuid \<Rightarrow> uuid \<Rightarrow> (db, batch) op" where
  "get_batch_or_raise tenant batch_id =
     some_or_404 ''batch_not_found'' (batch_get_for_tenant tenant batch_id)"

definition append_status_history :: "student \<Rightarrow> student_status option \<Rightarrow> student_status \<Rightarrow>
    string option \<Rightarrow> principal \<Rightarrow> (db, unit) op" where
  "append_status_history st from_status to_status reason pr =
     bind_tx uuid4 (\<lambda>i. bind_tx now_utc (\<lambda>now.
     bind_tx (insert_row student_status_histories_table
       \<lparr>sh_id = i, sh_tenant = st_tenant st, sh_student = st_id st, sh_from_status = from_status,
        sh_to_status = to_status, sh_reason = reason, sh_changed_by = Some (pr_user pr),
        sh_created_at = now\<rparr>) (\<lambda>_.
     return_tx ())))"

definition new_student :: "uuid \<Rightarrow> uuid \<Rightarrow> int \<Rightarrow> student_create \<Rightarrow> student" where
  "new_student i tenant now p =
     \<lparr>st_id = i, st_tenant = tenant, st_admission_no = scr_admission_no p,
      st_first_name = scr_first_name p, st_last_name = scr_last_name p, st_email = scr_email p,
      st_phone = scr_phone p, st_date_of_birth = scr_date_of_birth p, st_gender = scr_gender p,
      st_status = scr_status p, st_joined_at = scr_joined_at p, st_deleted_at = None,
      st_created_at = now\<rparr>"

section \<open>Students\<close>

definition list_students :: "tenant_context \<Rightarrow> nat \<Rightarrow> cursor option \<Rightarrow> student_status option \<Rightarrow>
    string option \<Rightarrow> uuid option \<Rightarrow> student_sort \<Rightarrow> (db, student page) op" where
  "list_students ctx limit cursor status search batch_id order =
     bind_tx (require_tenant_id ctx) (\<lambda>tenant.
     student_list_for_tenant tenant limit cursor status search batch_id order)"

definition create_student ::
    "tenant_context \<Rightarrow> principal \<Rightarrow> student_create \<Rightarrow> (db, student) op" where
  "create_student ctx pr p =
     bind_tx (require_tenant_id ctx) (\<lambda>tenant.
     bind_tx (on_conflict ''student_conflict''
       (bind_tx uuid4 (\<lambda>i. bind_tx now_utc (\<lambda>now.
        bind_tx (insert_row students_table (new_student i tenant now p)) (\<lambda>st.
        bind_tx (append_status_history st None (st_status st) (Some ''student created'') pr) (\<lambda>_.
        bind_tx commit_tx (\<lambda>_.
        return_tx st))))))) (\<lambda>st.
     bind_tx (publish_event ''student.created'' ctx pr (st_id st)) (\<lambda>_.
     return_tx st)))"

definition create_student_without_commit ::
    "tenant_context \<Rightarrow> principal \<Rightarrow> student_create \<Rightarrow> (db, student) op" where
  "create_student_without_commit ctx pr p =
     bind_tx (require_tenant_id ctx) (\<lambda>tenant.
     bind_tx (student_get_by_admission_no tenant (scr_admission_no p)) (\<lambda>existing.
     if existing \<noteq> None then abort ''student_conflict'' 409
     else bind_tx uuid4 (\<lambda>i. bind_tx now_utc (\<lambda>now.
       bind_tx (insert_row students_table (new_student i tenant now p)) (\<lambda>st.
       bind_tx (append_status_history st None (st_status st) (Some ''student imported'') pr) (\<lambda>_.
       return_tx st))))))"

text \<open>\<open>try: ... except PrepSuiteError as exc\<close>: the code of the error, or the value.\<close>

definition try_op :: "('d, 'a) op \<Rightarrow> ('d, string + 'a) op" where
  "try_op m = catch_tx (bind_tx m (\<lambda>x. return_tx (Inr x)))
     (\<lambda>e. case e of Prep_Suite_Error code status \<Rightarrow> return_tx (Inl code) | _ \<Rightarrow> raise_tx e)"

fun import_items :: "tenant_context \<Rightarrow> principal \<Rightarrow> nat \<Rightarrow> string list \<Rightarrow> student_create list \<Rightarrow>
    (db, student list \<times> import_error list) op" where
  "import_items ctx pr index seen [] = return_tx ([], [])"
| "import_items ctx pr index seen (item # items) =
     (let number = scr_admission_no item;
          failed = (\<lambda>code. \<lparr>ie_index = index, ie_admission_no = number, ie_code = code\<rparr>) in
      if number \<in> set seen
      then bind_tx (import_items ctx pr (Suc index) seen items) (\<lambda>(created, errors).
        return_tx (created, failed ''duplicate_in_payload'' # errors))
      else bind_tx (try_op (create_student_without_commit ctx pr item)) (\<lambda>outcome.
        bind_tx (import_items ctx pr (Suc index) (number # seen) items) (\<lambda>(created, errors).
        return_tx (case outcome of
            Inl code \<Rightarrow> (created, failed code # errors)
          | Inr st \<Rightarrow> (st # created, errors)))))"

definition bulk_import_students :: "tenant_context \<Rightarrow> principal \<Rightarrow> student_create list \<Rightarrow>
    (db, student list \<times> import_error list) op" where
  "bulk_import_students ctx pr items =
     bind_tx (import_items ctx pr 0 [] items) (\<lambda>(created, errors).
     bind_tx commit_tx (\<lambda>_.
     bind_tx (for_each (\<lambda>st. publish_event ''student.created'' ctx pr (st_id st)) created) (\<lambda>_.
     return_tx (created, errors))))"

definition apply_student_update :: "student_update \<Rightarrow> student \<Rightarrow> student" where
  "apply_student_update p st = st
     \<lparr>st_admission_no := assign_required (sup_admission_no p) (st_admission_no st),
      st_first_name := assign_required (sup_first_name p) (st_first_name st),
      st_last_name := assign (sup_last_name p) (st_last_name st),
      st_email := assign (sup_email p) (st_email st),
      st_phone := assign (sup_phone p) (st_phone st),
      st_date_of_birth := assign (sup_date_of_birth p) (st_date_of_birth st),
      st_gender := assign (sup_gender p) (st_gender st),
      st_status := assign_required (sup_status p) (st_status st)\<rparr>"

definition student_update_null :: "student_update \<Rightarrow> bool" where
  "student_update_null p \<longleftrightarrow>
     is_null (sup_admission_no p) \<or> is_null (sup_first_name p) \<or> is_null (sup_status p)"

definition changes_status :: "student_update \<Rightarrow> student \<Rightarrow> bool" where
  "changes_status p st \<longleftrightarrow> (case sup_status p of Unset \<Rightarrow> False | Assigned None \<Rightarrow> True
     | Assigned (Some v) \<Rightarrow> v \<noteq> st_status st)"

text \<open>
  The status history is flushed before the \<open>try\<close>, together with the pending changes of the student.
\<close>

definition update_student ::
    "tenant_context \<Rightarrow> principal \<Rightarrow> uuid \<Rightarrow> student_update \<Rightarrow> (db, student) op" where
  "update_student ctx pr student_id p =
     bind_tx (get_student ctx student_id) (\<lambda>st.
     let updated = apply_student_update p st;
         reason = assign (sup_status_change_reason p) None;
         flush = bind_tx (flush_update students_table (student_update_null p) updated)
           (\<lambda>_. return_tx ())
     in bind_tx (when_tx (changes_status p st) (bind_tx flush (\<lambda>_.
          append_status_history updated (Some (st_status st)) (st_status updated) reason pr))) (\<lambda>_.
        bind_tx (on_conflict ''student_conflict''
          (bind_tx (when_tx (\<not> changes_status p st) flush) (\<lambda>_. commit_tx))) (\<lambda>_.
        bind_tx (publish_event ''student.updated'' ctx pr (st_id st)) (\<lambda>_.
        return_tx updated))))"

definition delete_student :: "tenant_context \<Rightarrow> principal \<Rightarrow> uuid \<Rightarrow> (db, unit) op" where
  "delete_student ctx pr student_id =
     bind_tx (get_student ctx student_id) (\<lambda>st. bind_tx now_utc (\<lambda>now.
     bind_tx (save_row students_table (st\<lparr>st_deleted_at := Some now\<rparr>)) (\<lambda>_.
     bind_tx commit_tx (\<lambda>_.
     publish_event ''student.deleted'' ctx pr (st_id st)))))"

definition get_profile :: "tenant_context \<Rightarrow> uuid \<Rightarrow> (db, student_profile) op" where
  "get_profile ctx student_id =
     bind_tx (get_student ctx student_id) (\<lambda>st.
     bind_tx (select_rows student_guardians_table (\<lambda>r. sg_student r = st_id st)) (\<lambda>gs.
     bind_tx (select_rows batch_students_table (\<lambda>r. bs_student r = st_id st)) (\<lambda>bs.
     bind_tx (select_rows student_enrollments_table (\<lambda>r. en_student r = st_id st)) (\<lambda>es.
     bind_tx (select_rows student_notes_table (\<lambda>r. no_student r = st_id st)) (\<lambda>ns.
     bind_tx (select_rows student_documents_table (\<lambda>r. doc_student r = st_id st)) (\<lambda>ds.
     bind_tx (select_rows student_status_histories_table (\<lambda>r. sh_student r = st_id st)) (\<lambda>hs.
     return_tx \<lparr>prof_student = st,
       prof_guardians = sort_key (\<lambda>r. \<not> sg_is_primary r) gs,
       prof_batches = sort_key (\<lambda>r. - bs_joined_at r) bs,
       prof_enrollments = sort_key (\<lambda>r. - en_enrolled_at r) es,
       prof_notes = sort_key (\<lambda>r. - no_created_at r) ns,
       prof_documents = sort_key (\<lambda>r. - doc_created_at r) ds,
       prof_status_history = sort_key (\<lambda>r. - sh_created_at r) hs\<rparr>)))))))"

definition timeline_events :: "student_profile \<Rightarrow> timeline_event list" where
  "timeline_events prof = sort_key (\<lambda>e. - tl_occurred_at e)
     (\<lparr>tl_event_type = ''student.created'', tl_event_id = st_id (prof_student prof),
        tl_occurred_at = st_created_at (prof_student prof)\<rparr>
      # map (\<lambda>h. \<lparr>tl_event_type = ''student.status_changed'', tl_event_id = sh_id h,
          tl_occurred_at = sh_created_at h\<rparr>) (prof_status_history prof)
      @ map (\<lambda>l. \<lparr>tl_event_type = ''student.batch_membership'', tl_event_id = bs_id l,
          tl_occurred_at = bs_joined_at l\<rparr>) (prof_batches prof)
      @ map (\<lambda>e. \<lparr>tl_event_type = ''student.enrolled'', tl_event_id = en_id e,
          tl_occurred_at = en_enrolled_at e\<rparr>) (prof_enrollments prof)
      @ map (\<lambda>n. \<lparr>tl_event_type = ''student.note_added'', tl_event_id = no_id n,
          tl_occurred_at = no_created_at n\<rparr>) (prof_notes prof))"

definition timeline :: "tenant_context \<Rightarrow> uuid \<Rightarrow> (db, timeline_event list) op" where
  "timeline ctx student_id =
     bind_tx (get_profile ctx student_id) (\<lambda>prof. return_tx (timeline_events prof))"

section \<open>Guardians, notes, documents, enrollments\<close>

definition add_guardian ::
    "tenant_context \<Rightarrow> principal \<Rightarrow> uuid \<Rightarrow> guardian_create \<Rightarrow> (db, student_guardian) op" where
  "add_guardian ctx pr student_id p =
     bind_tx (require_tenant_id ctx) (\<lambda>tenant.
     bind_tx (get_student ctx student_id) (\<lambda>st.
     bind_tx uuid4 (\<lambda>i.
     bind_tx (insert_row guardians_table
       \<lparr>gu_id = i, gu_tenant = tenant, gu_first_name = gcr_first_name p,
        gu_last_name = gcr_last_name p, gu_email = gcr_email p, gu_phone = gcr_phone p,
        gu_relationship_type = gcr_relationship_type p, gu_address = gcr_address p,
        gu_metadata = gcr_metadata p, gu_deleted_at = None\<rparr>) (\<lambda>g.
     bind_tx uuid4 (\<lambda>j.
     bind_tx (insert_row student_guardians_table
       \<lparr>sg_id = j, sg_tenant = tenant, sg_student = st_id st, sg_guardian = gu_id g,
        sg_relationship_type = gcr_relationship_type p, sg_is_primary = gcr_is_primary p,
        sg_can_pickup = gcr_can_pickup p, sg_emergency_contact = gcr_emergency_contact p\<rparr>) (\<lambda>link.
     bind_tx commit_tx (\<lambda>_.
     bind_tx (publish_event ''student.guardian_added'' ctx pr (st_id st)) (\<lambda>_.
     return_tx link))))))))"

definition add_note ::
    "tenant_context \<Rightarrow> principal \<Rightarrow> uuid \<Rightarrow> student_note_create \<Rightarrow> (db, student_note) op" where
  "add_note ctx pr student_id p =
     bind_tx (require_tenant_id ctx) (\<lambda>tenant.
     bind_tx (get_student ctx student_id) (\<lambda>st.
     bind_tx uuid4 (\<lambda>i. bind_tx now_utc (\<lambda>now.
     bind_tx (insert_row student_notes_table
       \<lparr>no_id = i, no_tenant = tenant, no_student = st_id st, no_author = Some (pr_user pr),
        no_note_type = ncr_note_type p, no_body = ncr_body p, no_visibility = ncr_visibility p,
        no_created_at = now\<rparr>) (\<lambda>note.
     bind_tx commit_tx (\<lambda>_.
     bind_tx (publish_event ''student.note_added'' ctx pr (st_id st)) (\<lambda>_.
     return_tx note)))))))"

definition add_document ::
    "tenant_context \<Rightarrow> principal \<Rightarrow> uuid \<Rightarrow> student_document_create \<Rightarrow> (db, student_document) op" where
  "add_document ctx pr student_id p =
     bind_tx (require_tenant_id ctx) (\<lambda>tenant.
     bind_tx (get_student ctx student_id) (\<lambda>st.
     bind_tx uuid4 (\<lambda>i. bind_tx now_utc (\<lambda>now.
     bind_tx (insert_row student_documents_table
       \<lparr>doc_id = i, doc_tenant = tenant, doc_student = st_id st, doc_title = dcr_title p,
        doc_document_type = dcr_document_type p, doc_storage_key = dcr_storage_key p,
        doc_file_name = dcr_file_name p, doc_mime_type = dcr_mime_type p,
        doc_size_bytes = dcr_size_bytes p, doc_metadata = dcr_metadata p,
        doc_uploaded_by = Some (pr_user pr), doc_deleted_at = None, doc_created_at = now\<rparr>) (\<lambda>doc.
     bind_tx commit_tx (\<lambda>_.
     bind_tx (publish_event ''student.document_added'' ctx pr (st_id st)) (\<lambda>_.
     return_tx doc)))))))"

definition enroll_student ::
    "tenant_context \<Rightarrow> principal \<Rightarrow> uuid \<Rightarrow> student_enrollment_create \<Rightarrow>
     (db, student_enrollment) op" where
  "enroll_student ctx pr student_id p =
     bind_tx (require_tenant_id ctx) (\<lambda>tenant.
     bind_tx (get_student ctx student_id) (\<lambda>st.
     bind_tx (case ecr_batch p of None \<Rightarrow> return_tx ()
       | Some b \<Rightarrow> bind_tx (get_batch_or_raise tenant b) (\<lambda>_. return_tx ())) (\<lambda>_.
     bind_tx uuid4 (\<lambda>i. bind_tx now_utc (\<lambda>now.
     bind_tx (insert_row student_enrollments_table
       \<lparr>en_id = i, en_tenant = tenant, en_student = st_id st, en_course = ecr_course p,
        en_batch = ecr_batch p, en_status = ecr_status p, en_enrolled_at = now,
        en_completed_at = None\<rparr>) (\<lambda>enrollment.
     bind_tx commit_tx (\<lambda>_.
     bind_tx (publish_event ''student.enrolled'' ctx pr (st_id st)) (\<lambda>_.
     return_tx enrollment))))))))"

section \<open>Batches\<close>

definition create_batch :: "tenant_context \<Rightarrow> principal \<Rightarrow> batch_create \<Rightarrow> (db, batch) op" where
  "create_batch ctx pr p =
     bind_tx (require_tenant_id ctx) (\<lambda>tenant.
     bind_tx (on_conflict ''batch_conflict''
       (bind_tx uuid4 (\<lambda>i.
        bind_tx (insert_row batches_table
          \<lparr>bt_id = i, bt_tenant = tenant, bt_name = bcr_name p, bt_code = bcr_code p,
           bt_course = bcr_course p, bt_start_date = bcr_start_date p, bt_end_date = bcr_end_date p,
           bt_capacity = bcr_capacity p, bt_status = bcr_status p, bt_deleted_at = None\<rparr>) (\<lambda>b.
        bind_tx commit_tx (\<lambda>_.
        return_tx b))))) (\<lambda>b.
     bind_tx (publish_event ''batch.created'' ctx pr (bt_id b)) (\<lambda>_.
     return_tx b)))"

definition list_batches :: "tenant_context \<Rightarrow> batch_status option \<Rightarrow> string option \<Rightarrow>
    (db, batch list) op" where
  "list_batches ctx status search =
     bind_tx (require_tenant_id ctx) (\<lambda>tenant. batch_list_for_tenant tenant status search)"

definition get_batch :: "tenant_context \<Rightarrow> uuid \<Rightarrow> (db, batch) op" where
  "get_batch ctx batch_id =
     bind_tx (require_tenant_id ctx) (\<lambda>tenant. get_batch_or_raise tenant batch_id)"

definition apply_batch_update :: "batch_update \<Rightarrow> batch \<Rightarrow> batch" where
  "apply_batch_update p b = b
     \<lparr>bt_name := assign_required (bup_name p) (bt_name b),
      bt_course := assign (bup_course p) (bt_course b),
      bt_start_date := assign_required (bup_start_date p) (bt_start_date b),
      bt_end_date := assign (bup_end_date p) (bt_end_date b),
      bt_capacity := assign (bup_capacity p) (bt_capacity b),
      bt_status := assign_required (bup_status p) (bt_status b)\<rparr>"

definition batch_update_null :: "batch_update \<Rightarrow> bool" where
  "batch_update_null p \<longleftrightarrow> is_null (bup_name p) \<or> is_null (bup_start_date p) \<or> is_null (bup_status p)"

text \<open>
  \<open>end_date < start_date\<close> with an explicit null start date compares a date with None: TypeError.
\<close>

definition update_batch ::
    "tenant_context \<Rightarrow> principal \<Rightarrow> uuid \<Rightarrow> batch_update \<Rightarrow> (db, batch) op" where
  "update_batch ctx pr batch_id p =
     bind_tx (require_tenant_id ctx) (\<lambda>tenant.
     bind_tx (get_batch_or_raise tenant batch_id) (\<lambda>b.
     let updated = apply_batch_update p b in
     if bt_end_date updated \<noteq> None \<and> is_null (bup_start_date p)
     then raise_tx (Python_Error ''TypeError'')
     else if (case bt_end_date updated of None \<Rightarrow> False | Some e \<Rightarrow> e < bt_start_date updated)
     then abort ''batch_date_invalid'' 422
     else bind_tx (case bt_capacity updated of None \<Rightarrow> return_tx ()
         | Some cap \<Rightarrow> bind_tx (batch_active_count tenant (bt_id b)) (\<lambda>active.
             if cap < active then abort ''batch_capacity_below_membership'' 409
             else return_tx ())) (\<lambda>_.
       bind_tx (flush_update batches_table (batch_update_null p) updated) (\<lambda>_.
       bind_tx commit_tx (\<lambda>_.
       bind_tx (publish_event ''batch.updated'' ctx pr (bt_id b)) (\<lambda>_.
       return_tx updated))))))"

definition assign_student_to_batch ::
    "tenant_context \<Rightarrow> principal \<Rightarrow> uuid \<Rightarrow> uuid \<Rightarrow> (db, batch_student) op" where
  "assign_student_to_batch ctx pr batch_id student_id =
     bind_tx (require_tenant_id ctx) (\<lambda>tenant.
     bind_tx (get_batch_or_raise tenant batch_id) (\<lambda>b.
     bind_tx (get_student ctx student_id) (\<lambda>st.
     bind_tx (batch_active_count tenant (bt_id b)) (\<lambda>active.
     bind_tx (get_membership tenant (bt_id b) (st_id st)) (\<lambda>existing.
     if (case existing of None \<Rightarrow> False | Some m \<Rightarrow> bs_status m = BS_ACTIVE)
     then return_tx (the existing)
     else if (case bt_capacity b of None \<Rightarrow> False | Some cap \<Rightarrow> cap \<le> active)
     then abort ''batch_capacity_exceeded'' 409
     else bind_tx now_utc (\<lambda>now.
       bind_tx (case existing of
           None \<Rightarrow> bind_tx uuid4 (\<lambda>i. insert_row batch_students_table
             \<lparr>bs_id = i, bs_tenant = tenant, bs_batch = bt_id b, bs_student = st_id st,
              bs_status = BS_ACTIVE, bs_joined_at = now, bs_left_at = None\<rparr>)
         | Some m \<Rightarrow> save_row batch_students_table
             (m\<lparr>bs_status := BS_ACTIVE, bs_left_at := None, bs_joined_at := now\<rparr>)) (\<lambda>m.
       bind_tx commit_tx (\<lambda>_.
       bind_tx (publish_event ''student.assigned_to_batch'' ctx pr (st_id st)) (\<lambda>_.
       return_tx m)))))))))"

definition remove_student_from_batch ::
    "tenant_context \<Rightarrow> principal \<Rightarrow> uuid \<Rightarrow> uuid \<Rightarrow> (db, unit) op" where
  "remove_student_from_batch ctx pr batch_id student_id =
     bind_tx (require_tenant_id ctx) (\<lambda>tenant.
     bind_tx (get_batch_or_raise tenant batch_id) (\<lambda>_.
     bind_tx (get_student ctx student_id) (\<lambda>_.
     bind_tx (get_membership tenant batch_id student_id) (\<lambda>membership.
     case membership of
       None \<Rightarrow> abort ''batch_membership_not_found'' 404
     | Some m \<Rightarrow>
         if bs_status m \<noteq> BS_ACTIVE then abort ''batch_membership_not_found'' 404
         else bind_tx now_utc (\<lambda>now.
           bind_tx (save_row batch_students_table
             (m\<lparr>bs_status := BS_REMOVED, bs_left_at := Some now\<rparr>)) (\<lambda>_.
           bind_tx commit_tx (\<lambda>_.
           publish_event ''student.removed_from_batch'' ctx pr student_id)))))))"

end
