(* ===== verification/Students_Facts.thy ===== *)
theory Students_Facts
  imports Students
begin

text \<open>
  What PrepStudents guarantees: every request is atomic, the active members of a batch never
  exceed its capacity, membership and numbers are unique, the history records every change of
  status.
\<close>

section \<open>Requests\<close>

definition alnum_lower :: "char \<Rightarrow> bool" where
  "alnum_lower c \<longleftrightarrow> (let n = of_char c :: nat in (97 \<le> n \<and> n \<le> 122) \<or> (48 \<le> n \<and> n \<le> 57))"

text \<open>The pattern \<open>^[a-z0-9][a-z0-9_-]{1,78}[a-z0-9]$\<close> of a batch code.\<close>

definition batch_code_ok :: "string \<Rightarrow> bool" where
  "batch_code_ok c \<longleftrightarrow> 3 \<le> length c \<and> length c \<le> 80 \<and> alnum_lower (hd c) \<and> alnum_lower (last c) \<and>
     list_all (\<lambda>x. alnum_lower x \<or> x = CHR ''_'' \<or> x = CHR ''-'') c"

definition batch_create_valid :: "batch_create \<Rightarrow> bool" where
  "batch_create_valid p \<longleftrightarrow> 1 \<le> length (bcr_name p) \<and> length (bcr_name p) \<le> 160 \<and>
     batch_code_ok (bcr_code p) \<and>
     (case bcr_capacity p of None \<Rightarrow> True | Some c \<Rightarrow> 1 \<le> c) \<and>
     (case bcr_end_date p of None \<Rightarrow> True | Some e \<Rightarrow> bcr_start_date p \<le> e)"

definition batch_update_valid :: "batch_update \<Rightarrow> bool" where
  "batch_update_valid p \<longleftrightarrow>
     (case bup_name p of Assigned (Some n) \<Rightarrow> 1 \<le> length n \<and> length n \<le> 160 | _ \<Rightarrow> True) \<and>
     (case bup_capacity p of Assigned (Some c) \<Rightarrow> 1 \<le> c | _ \<Rightarrow> True)"

datatype students_request =
    List_Students nat "cursor option" "student_status option" "string option" "uuid option"
      student_sort
  | Create_Student student_create
  | Bulk_Import_Students "student_create list"
  | Get_Student uuid
  | Update_Student uuid student_update
  | Delete_Student uuid
  | Get_Profile uuid
  | Timeline uuid
  | Add_Guardian uuid guardian_create
  | Add_Note uuid student_note_create
  | Add_Document uuid student_document_create
  | Enroll_Student uuid student_enrollment_create
  | Create_Batch batch_create
  | List_Batches "batch_status option" "string option"
  | Get_Batch uuid
  | Update_Batch uuid batch_update
  | Assign_Student uuid uuid
  | Remove_Student uuid uuid

fun students_exec :: "tenant_context \<Rightarrow> principal \<Rightarrow> students_request \<Rightarrow> (db, unit) op" where
  "students_exec ctx pr (List_Students limit c status search b order) =
     discard (list_students ctx limit c status search b order)"
| "students_exec ctx pr (Create_Student p) = discard (create_student ctx pr p)"
| "students_exec ctx pr (Bulk_Import_Students ps) = discard (bulk_import_students ctx pr ps)"
| "students_exec ctx pr (Get_Student i) = discard (get_student ctx i)"
| "students_exec ctx pr (Update_Student i p) = discard (update_student ctx pr i p)"
| "students_exec ctx pr (Delete_Student i) = discard (delete_student ctx pr i)"
| "students_exec ctx pr (Get_Profile i) = discard (get_profile ctx i)"
| "students_exec ctx pr (Timeline i) = discard (timeline ctx i)"
| "students_exec ctx pr (Add_Guardian i p) = discard (add_guardian ctx pr i p)"
| "students_exec ctx pr (Add_Note i p) = discard (add_note ctx pr i p)"
| "students_exec ctx pr (Add_Document i p) = discard (add_document ctx pr i p)"
| "students_exec ctx pr (Enroll_Student i p) = discard (enroll_student ctx pr i p)"
| "students_exec ctx pr (Create_Batch p) =
     validated (batch_create_valid p) (discard (create_batch ctx pr p))"
| "students_exec ctx pr (List_Batches status search) = discard (list_batches ctx status search)"
| "students_exec ctx pr (Get_Batch b) = discard (get_batch ctx b)"
| "students_exec ctx pr (Update_Batch b p) =
     validated (batch_update_valid p) (discard (update_batch ctx pr b p))"
| "students_exec ctx pr (Assign_Student b i) = discard (assign_student_to_batch ctx pr b i)"
| "students_exec ctx pr (Remove_Student b i) = discard (remove_student_from_batch ctx pr b i)"

definition students_handle :: "students_request call \<Rightarrow> (db, unit) op" where
  "students_handle = handle_call students_exec"

section \<open>Atomicity\<close>

lemmas students_read_defs = get_student_def student_get_for_tenant_def
  student_get_by_admission_no_def get_batch_or_raise_def batch_get_for_tenant_def
  get_membership_def batch_active_count_def append_status_history_def
  list_students_def student_list_for_tenant_def get_profile_def timeline_def list_batches_def
  batch_list_for_tenant_def get_batch_def Let_def

lemma silent_students_reads [atomic_intros]:
  "silent (get_student ctx i)" "silent (get_batch_or_raise t b)" "silent (get_membership t b i)"
  "silent (batch_active_count t b)" "silent (append_status_history st f to r pr)"
  "silent (student_get_by_admission_no t n)"
  "silent (list_students ctx limit c status search bt order)" "silent (get_profile ctx i)"
  "silent (timeline ctx i)" "silent (list_batches ctx bstatus search)" "silent (get_batch ctx b)"
  unfolding students_read_defs by (intro atomic_intros)+

lemmas students_write_defs = create_student_def create_student_without_commit_def
  bulk_import_students_def update_student_def delete_student_def add_guardian_def add_note_def
  add_document_def enroll_student_def create_batch_def update_batch_def
  assign_student_to_batch_def remove_student_from_batch_def Let_def

lemma silent_import_items [atomic_intros]: "silent (import_items ctx pr n seen ps)"
proof (induction ctx pr n seen ps rule: import_items.induct)
  case (1 ctx pr n seen)
  then show ?case by (simp add: atomic_intros)
next
  case (2 ctx pr n seen p ps)
  have "silent (create_student_without_commit ctx pr p)"
    unfolding create_student_without_commit_def by (intro atomic_intros)
  then have "silent (try_op (create_student_without_commit ctx pr p))"
    unfolding try_op_def by (intro atomic_intros) (auto intro: atomic_intros split: exc.splits)
  with 2 show ?case
    unfolding import_items.simps Let_def by (intro atomic_intros) auto
qed

lemma atomic_students:
  "atomic (create_student ctx pr scp)" "atomic (bulk_import_students ctx pr ps)"
  "atomic (update_student ctx pr i supd)" "atomic (delete_student ctx pr i)"
  "atomic (add_guardian ctx pr i gp)" "atomic (add_note ctx pr i np)"
  "atomic (add_document ctx pr i dp)" "atomic (enroll_student ctx pr i ep)"
  "atomic (create_batch ctx pr bcp)" "atomic (update_batch ctx pr b bupd)"
  "atomic (assign_student_to_batch ctx pr b i)" "atomic (remove_student_from_batch ctx pr b i)"
  unfolding students_write_defs
  apply ((rule atomic_bind_silent, (intro atomic_intros; fail)[1])
    | rule atomic_rules | (rule atomic_silent, (intro atomic_intros; fail)[1])
    | rule atomic_bind_unfailing | (intro atomic_intros; fail)[1])+
  done

lemma atomic_students_handle: "atomic (students_handle c)"
  unfolding students_handle_def
  by (rule atomic_handle_call, cases "cl_request c")
    (auto intro!: atomic_discard atomic_validated atomic_students intro: atomic_silent atomic_intros)

section \<open>What a request leaves alone\<close>

lemma keeps_import_items [keeps_intros]:
  assumes "\<And>p. keeps J (create_student_without_commit ctx pr p)"
  shows "keeps J (import_items ctx pr n seen ps)"
proof (induction ps arbitrary: n seen)
  case Nil
  then show ?case by (simp add: keeps_intros)
next
  case (Cons p ps)
  have "keeps J (try_op (create_student_without_commit ctx pr p))"
    unfolding try_op_def
    by (intro keeps_intros assms) (auto intro: keeps_intros split: exc.splits)
  with Cons show ?case
    unfolding import_items.simps Let_def by (intro keeps_intros) auto
qed

text \<open>The tables the requests on students write, and the two the requests on batches write.\<close>

definition student_tables_ok :: "(db session \<Rightarrow> bool) \<Rightarrow> bool" where
  "student_tables_ok J \<longleftrightarrow> table_ok J students_table \<and> table_ok J guardians_table \<and>
     table_ok J student_guardians_table \<and> table_ok J student_enrollments_table \<and>
     table_ok J student_notes_table \<and> table_ok J student_documents_table \<and>
     table_ok J student_status_histories_table"

definition batch_tables_ok :: "(db session \<Rightarrow> bool) \<Rightarrow> bool" where
  "batch_tables_ok J \<longleftrightarrow> table_ok J batches_table \<and> table_ok J batch_students_table"

lemma keeps_students_reads [keeps_intros]:
  "keeps J (get_student ctx i)" "keeps J (get_batch_or_raise t b)" "keeps J (get_membership t b i)"
  "keeps J (batch_active_count t b)" "keeps J (student_get_by_admission_no t n)"
  "keeps J (list_students ctx limit c status search bt order)" "keeps J (get_profile ctx i)"
  "keeps J (timeline ctx i)" "keeps J (list_batches ctx bstatus search)" "keeps J (get_batch ctx b)"
  unfolding students_read_defs by (intro keeps_intros)+

lemma keeps_students:
  assumes "tx_ok J" "student_tables_ok J"
  shows "keeps J (create_student ctx pr scp)" "keeps J (bulk_import_students ctx pr ps)"
    "keeps J (update_student ctx pr i supd)" "keeps J (delete_student ctx pr i)"
    "keeps J (add_guardian ctx pr i gp)" "keeps J (add_note ctx pr i np)"
    "keeps J (add_document ctx pr i dp)" "keeps J (enroll_student ctx pr i ep)"
proof -
  note ok = assms(1) assms(2) [unfolded student_tables_ok_def]
  have history: "keeps J (append_status_history st f to r pr)" for st f to r pr
    unfolding append_status_history_def by (intro keeps_intros) (use ok in auto)
  have "keeps J (create_student_without_commit ctx pr p)" for p
    unfolding create_student_without_commit_def
    by (intro keeps_intros history) (use ok in auto)
  then show "keeps J (bulk_import_students ctx pr ps)"
    unfolding bulk_import_students_def by (intro keeps_intros) (use ok in auto)
  show "keeps J (create_student ctx pr scp)" "keeps J (update_student ctx pr i supd)"
    "keeps J (delete_student ctx pr i)" "keeps J (add_guardian ctx pr i gp)"
    "keeps J (add_note ctx pr i np)" "keeps J (add_document ctx pr i dp)"
    "keeps J (enroll_student ctx pr i ep)"
    unfolding students_write_defs by (intro keeps_intros history; use ok in auto)+
qed

lemma keeps_batches:
  assumes "tx_ok J" "batch_tables_ok J"
  shows "keeps J (create_batch ctx pr bcp)" "keeps J (update_batch ctx pr b bupd)"
    "keeps J (assign_student_to_batch ctx pr b i)" "keeps J (remove_student_from_batch ctx pr b i)"
  unfolding students_write_defs
  by (intro keeps_intros; use assms in \<open>auto simp: batch_tables_ok_def\<close>)+

lemma keeps_students_handle:
  assumes "tx_ok J" "student_tables_ok J" "batch_tables_ok J"
    and "keeps J (set_current_tenant (cl_tenant c))"
  shows "keeps J (students_handle c)"
  unfolding students_handle_def
proof (rule keeps_handle_call [OF assms(4)])
  show "keeps J (students_exec (cl_context c) (cl_principal c) (cl_request c))"
    by (cases "cl_request c")
      (auto intro!: keeps_discard keeps_validated keeps_students_reads
        keeps_students [OF assms(1,2)] keeps_batches [OF assms(1,3)])
qed

lemma keeps_fresh_students: "keeps (fresh_from n) (students_handle c)"
  by (rule keeps_students_handle)
    (auto simp: student_tables_ok_def batch_tables_ok_def tx_ok_fresh table_ok_fresh
      intro: keeps_intros)

section \<open>Capacity\<close>

definition members :: "batch \<Rightarrow> db \<Rightarrow> nat" where
  "members b d = count_if (active_member (bt_tenant b) (bt_id b)) (batch_students d)"

definition within_capacity :: "db \<Rightarrow> bool" where
  "within_capacity d \<longleftrightarrow> (\<forall>b\<in>set (batches d). case bt_capacity b of None \<Rightarrow> True
     | Some cap \<Rightarrow> int (members b d) \<le> cap)"

definition batch_inv :: "db \<Rightarrow> process \<Rightarrow> bool" where
  "batch_inv d p \<longleftrightarrow> unique_rows batches_table (batches d) \<and>
     unique_rows batch_students_table (batch_students d) \<and>
     (\<forall>b\<in>set (batches d). bt_id b < uuid_supply p) \<and>
     (\<forall>m\<in>set (batch_students d). bs_batch m < uuid_supply p) \<and> within_capacity d"

lemma proc_stable_batch_inv: "proc_stable batch_inv"
  unfolding proc_stable_def batch_inv_def by force

lemma members_in:
  "members b d = length (filter (active_member (bt_tenant b) (bt_id b)) (batch_students d))"
  by (simp add: members_def count_if_filter)

lemma active_member_visible [simp]:
  "t = bs_tenant r \<and> active_member t i r \<longleftrightarrow> active_member t i r"
  by (auto simp: active_member_def)

lemmas students_inv = tx_inv Let_def get_student_def student_get_for_tenant_def
  get_batch_or_raise_def batch_get_for_tenant_def get_membership_def batch_active_count_def
  flush_update_Inr_iff

lemma create_batchE:
  assumes "create_batch ctx pr p s = (Inr b, s')"
  obtains "bt_id b = uuid_supply (proc s)" "bt_capacity b = bcr_capacity p"
    "ctx_tenant ctx = Some (bt_tenant b)" "rls_tenant s = Some (bt_tenant b)"
    "\<forall>q\<in>set (batches (working s)). bt_id q \<noteq> bt_id b \<and> \<not> batch_clash q b"
    "committed s' = batches_update (\<lambda>bs. bs @ [b]) (working s)"
    "uuid_supply (proc s') = Suc (uuid_supply (proc s))"
  using assms by (auto simp: create_batch_def students_inv)

lemma apply_batch_update_key [simp]:
  "bt_id (apply_batch_update p b) = bt_id b" "bt_tenant (apply_batch_update p b) = bt_tenant b"
  "members (apply_batch_update p b) d = members b d"
  by (simp_all add: apply_batch_update_def members_def)

lemma update_batchE:
  assumes "update_batch ctx pr i p s = (Inr b, s')"
  obtains old where "old \<in> set (batches (working s))" "bt_id old = i" "bt_tenant b = bt_tenant old"
    "b = apply_batch_update p old" "rls_tenant s = Some (bt_tenant old)"
    "case bt_capacity b of None \<Rightarrow> True | Some cap \<Rightarrow> int (members b (working s)) \<le> cap"
    "\<forall>q\<in>set (batches (working s)). bt_id q \<noteq> bt_id b \<longrightarrow> \<not> batch_clash q b"
    "committed s' = batches_update (replace_where
       (\<lambda>q. bt_id q = bt_id b \<and> rls_tenant s = Some (bt_tenant q)) (\<lambda>_. b)) (working s)"
    "uuid_supply (proc s') = uuid_supply (proc s)"
proof -
  from assms obtain tenant old where ctx: "ctx_tenant ctx = Some tenant" and old:
    "lookup batches_table (\<lambda>r. bt_tenant r = tenant \<and> bt_id r = i \<and> bt_deleted_at r = None) s = Some old"
    by (auto simp: update_batch_def students_inv)
  from batches_tbl.lookup_own [OF old]
  have b: "old \<in> set (batches (working s))" "bt_id old = i" "bt_tenant old = tenant"
      "rls_tenant s = Some tenant" by auto
  show thesis
    by (rule that [OF b(1,2)]; use assms ctx old b in
      \<open>auto simp: update_batch_def students_inv members_in split: if_splits option.splits\<close>)
qed

text \<open>
  A successful assignment: the student already was an active member, or it is added as a new
  member, or its former membership is reopened; the last two only below the capacity.
\<close>

definition has_room :: "batch \<Rightarrow> db \<Rightarrow> bool" where
  "has_room b d \<longleftrightarrow> (case bt_capacity b of None \<Rightarrow> True | Some cap \<Rightarrow> int (members b d) < cap)"

lemma assign_studentE:
  assumes "assign_student_to_batch ctx pr i j s = (Inr m, s')"
  obtains (already) "s' = s" "m \<in> set (batch_students (working s))" "bs_status m = BS_ACTIVE"
      "bs_batch m = i" "bs_student m = j" "ctx_tenant ctx = Some (bs_tenant m)"
    | (added) b where "b \<in> set (batches (working s))" "bt_id b = i" "bt_tenant b = bs_tenant m"
      "has_room b (working s)" "bs_batch m = i" "bs_student m = j" "bs_status m = BS_ACTIVE"
      "\<forall>q\<in>set (batch_students (working s)). bs_id q \<noteq> bs_id m \<and> \<not> batch_student_clash q m"
      "committed s' = batch_students_update (\<lambda>ms. ms @ [m]) (working s)"
      "uuid_supply (proc s') = Suc (uuid_supply (proc s))" "ctx_tenant ctx = Some (bs_tenant m)"
    | (reopened) b old where "b \<in> set (batches (working s))" "bt_id b = i"
      "bt_tenant b = bs_tenant old" "has_room b (working s)" "bs_batch old = i"
      "old \<in> set (batch_students (working s))" "bs_status old \<noteq> BS_ACTIVE" "bs_student old = j"
      "m = old\<lparr>bs_status := BS_ACTIVE, bs_left_at := None, bs_joined_at := clock (proc s)\<rparr>"
      "committed s' = batch_students_update (replace_where
         (\<lambda>q. bs_id q = bs_id m \<and> rls_tenant s = Some (bs_tenant q)) (\<lambda>_. m)) (working s)"
      "uuid_supply (proc s') = uuid_supply (proc s)"
      "rls_tenant s = Some (bs_tenant old)"
      "\<forall>q\<in>set (batch_students (working s)). bs_id q \<noteq> bs_id m \<longrightarrow> \<not> batch_student_clash q m"
      "ctx_tenant ctx = Some (bs_tenant old)"
proof -
  from assms obtain tenant b where ctx: "ctx_tenant ctx = Some tenant" and b:
    "lookup batches_table (\<lambda>r. bt_tenant r = tenant \<and> bt_id r = i \<and> bt_deleted_at r = None) s = Some b"
    by (auto simp: assign_student_to_batch_def students_inv)
  from assms ctx b obtain st where st:
    "lookup students_table (\<lambda>r. st_tenant r = tenant \<and> st_id r = j \<and> st_deleted_at r = None) s = Some st"
    by (auto simp: assign_student_to_batch_def students_inv)
  from batches_tbl.lookup_own [OF b] have own: "b \<in> set (batches (working s))" "bt_id b = i"
      "bt_tenant b = tenant" "rls_tenant s = Some tenant" by auto
  from students_tbl.lookup_own [OF st] have j: "st_id st = j" by simp
  note run = assms ctx b st own j
  let ?existing = "lookup batch_students_table
    (\<lambda>r. bs_tenant r = tenant \<and> bs_batch r = i \<and> bs_student r = j) s"
  show thesis
  proof (cases ?existing)
    case None
    show thesis
      by (rule added [OF own(1,2)]; use run None in
        \<open>auto simp: assign_student_to_batch_def students_inv members_in has_room_def
           split: if_splits option.splits\<close>)
  next
    case (Some old)
    from batch_students_tbl.lookup_own [OF Some] have old: "old \<in> set (batch_students (working s))"
      "bs_tenant old = tenant" "bs_batch old = i" "bs_student old = j" by auto
    show thesis
    proof (cases "bs_status old = BS_ACTIVE")
      case True
      then show thesis
        by (intro already; use run Some old in
          \<open>auto simp: assign_student_to_batch_def students_inv split: option.splits\<close>)
    next
      case False
      then show thesis
        by (intro reopened [OF own(1,2)]; use run Some old in
          \<open>auto simp: assign_student_to_batch_def students_inv members_in has_room_def
             split: if_splits option.splits intro: sym\<close>)
    qed
  qed
qed

lemma remove_studentE:
  assumes "remove_student_from_batch ctx pr i j s = (Inr u, s')"
  obtains old m where "old \<in> set (batch_students (working s))" "bs_status old = BS_ACTIVE"
    "bs_batch old = i" "bs_student old = j" "rls_tenant s = Some (bs_tenant old)"
    "committed s' = batch_students_update (replace_where
       (\<lambda>q. bs_id q = bs_id m \<and> rls_tenant s = Some (bs_tenant q)) (\<lambda>_. m)) (working s)" "m = old\<lparr>bs_status := BS_REMOVED, bs_left_at := Some (clock (proc s))\<rparr>"
    "\<forall>q\<in>set (batch_students (working s)). bs_id q \<noteq> bs_id m \<longrightarrow> \<not> batch_student_clash q m"
    "uuid_supply (proc s') = uuid_supply (proc s)"
proof -
  from assms obtain tenant old where ctx: "ctx_tenant ctx = Some tenant" and old:
    "lookup batch_students_table
      (\<lambda>r. bs_tenant r = tenant \<and> bs_batch r = i \<and> bs_student r = j) s = Some old"
    by (auto simp: remove_student_from_batch_def students_inv split: option.splits)
  from batch_students_tbl.lookup_own [OF old] have own: "old \<in> set (batch_students (working s))"
      "bs_tenant old = tenant" "bs_batch old = i" "bs_student old = j" "rls_tenant s = Some tenant"
    by auto
  show thesis
    by (rule that [of old "old\<lparr>bs_status := BS_REMOVED, bs_left_at := Some (clock (proc s))\<rparr>"];
      use assms ctx old own in \<open>auto simp: remove_student_from_batch_def students_inv split: if_splits option.splits\<close>)
qed

text \<open>Counting the members of a batch after a change of one membership.\<close>

lemma members_append:
  "members b (batch_students_update (\<lambda>ms. ms @ [m]) d) =
   members b d + (if active_member (bt_tenant b) (bt_id b) m then 1 else 0)"
  by (simp add: members_def)

lemma members_other [simp]:
  "members b (batches_update f d) = members b d"
  by (simp add: members_def)

lemma count_if_replace_one:
  assumes "distinct (map k xs)" "old \<in> set xs" "\<not> q old" "c old"
  shows "count_if q (replace_where (\<lambda>x. k x = k old \<and> c x) (\<lambda>_. new) xs) =
    count_if q xs + (if q new then 1 else 0)"
  using assms(1,2)
proof (induction xs)
  case Nil
  then show ?case by simp
next
  case (Cons x xs)
  show ?case
  proof (cases "x = old")
    case True
    with Cons.prems(1) have "replace_where (\<lambda>x. k x = k old \<and> c x) (\<lambda>_. new) xs = xs"
      by (intro replace_where_id) (auto simp: image_iff)
    with True assms(3,4) show ?thesis by simp
  next
    case False
    with Cons.prems have "old \<in> set xs" "k x \<noteq> k old" by auto
    with Cons show ?thesis by auto
  qed
qed

lemma within_capacityD:
  "within_capacity d \<Longrightarrow> b \<in> set (batches d) \<Longrightarrow> bt_capacity b = Some cap \<Longrightarrow> int (members b d) \<le> cap"
  unfolding within_capacity_def by force

text \<open>A batch is determined by its identifier, and no member of another batch counts for it.\<close>

lemma batch_by_id:
  "batch_inv d p \<Longrightarrow> b \<in> set (batches d) \<Longrightarrow> c \<in> set (batches d) \<Longrightarrow> bt_id b = bt_id c \<Longrightarrow> b = c"
  unfolding batch_inv_def unique_rows_def by (auto simp: distinct_map dest: inj_onD)

lemma batch_inv_capacity: "batch_inv d p \<Longrightarrow> within_capacity d"
  by (simp add: batch_inv_def)

lemma create_batch_inv:
  assumes "create_batch ctx pr p s = (Inr b, s')" "batch_create_valid p"
    "batch_inv (working s) (proc s)"
  shows "batch_inv (committed s') (proc s')"
proof -
  let ?d = "working s"
  from assms(1) obtain fresh: "bt_id b = uuid_supply (proc s)" "bt_capacity b = bcr_capacity p"
    and free: "\<forall>q\<in>set (batches ?d). bt_id q \<noteq> bt_id b \<and> \<not> batch_clash q b"
    and d': "committed s' = batches_update (\<lambda>bs. bs @ [b]) ?d"
    and n: "uuid_supply (proc s') = Suc (uuid_supply (proc s))"
    by (rule create_batchE)
  have none: "members b ?d = 0"
    using assms(3) fresh
    by (force simp: batch_inv_def members_in active_member_def filter_empty_conv)
  have "within_capacity (committed s')"
    using assms(2,3) none fresh(2)
    by (auto simp: d' within_capacity_def batch_inv_def batch_create_valid_def split: option.splits)
  moreover have "unique_rows batches_table (batches (committed s'))"
    using assms(3) free by (auto simp: d' batch_inv_def unique_rows_def batch_clash_def)
  ultimately show ?thesis
    using assms(3) fresh(1) n by (auto simp: batch_inv_def d' less_Suc_eq)
qed

lemma update_batch_inv:
  assumes "update_batch ctx pr i p s = (Inr b, s')" "batch_inv (working s) (proc s)"
  shows "batch_inv (committed s') (proc s')"
proof -
  let ?d = "working s"
  from assms(1) obtain old where old: "old \<in> set (batches ?d)" "b = apply_batch_update p old"
    and room: "case bt_capacity b of None \<Rightarrow> True | Some cap \<Rightarrow> int (members b ?d) \<le> cap"
    and free: "\<forall>q\<in>set (batches ?d). bt_id q \<noteq> bt_id b \<longrightarrow> \<not> batch_clash q b"
    and d': "committed s' = batches_update (replace_where
       (\<lambda>q. bt_id q = bt_id b \<and> rls_tenant s = Some (bt_tenant q)) (\<lambda>_. b)) ?d"
    and n: "uuid_supply (proc s') = uuid_supply (proc s)"
    by (elim update_batchE) simp
  have "set (batches (committed s')) \<subseteq> insert b (set (batches ?d))"
    by (auto simp: d' set_replace_where)
  then have "within_capacity (committed s')"
    using assms(2) room
    by (auto simp: d' batch_inv_def within_capacity_def dest!: subsetD split: option.splits)
  moreover have "unique_rows batches_table (batches (committed s'))"
    using batches_tbl.unique_replace [of "batches ?d" b] assms(2) free by (simp add: d' batch_inv_def)
  ultimately show ?thesis
    using assms(2) n old by (auto simp: batch_inv_def d' set_replace_where)
qed

lemma added_inv:
  assumes "batch_inv d p" "b \<in> set (batches d)" "has_room b d" "bs_batch m = bt_id b"
    and "\<forall>q\<in>set (batch_students d). bs_id q \<noteq> bs_id m \<and> \<not> batch_student_clash q m"
    and "d' = batch_students_update (\<lambda>ms. ms @ [m]) d" "uuid_supply p \<le> uuid_supply p'"
  shows "batch_inv d' p'"
proof -
  have "int (members c d') \<le> cap" if "c \<in> set (batches d)" "bt_capacity c = Some cap" for c cap
  proof (cases "c = b")
    case True
    with that assms(3,6) show ?thesis by (auto simp: members_append has_room_def)
  next
    case False
    with batch_by_id [OF assms(1) that(1) assms(2)] assms(4) have "bs_batch m \<noteq> bt_id c" by auto
    with within_capacityD [of d, OF _ that] assms(1,6) show ?thesis
      by (simp add: members_append active_member_def batch_inv_def)
  qed
  then have "within_capacity d'"
    by (auto simp: within_capacity_def assms(6) split: option.splits)
  moreover have "unique_rows batch_students_table (batch_students d')"
    using batch_students_tbl.unique_append [of "batch_students d" m] assms(1,5,6)
    by (simp add: batch_inv_def)
  ultimately show ?thesis
    using assms(1,2,4,6,7) by (force simp: batch_inv_def)
qed

lemma replaced_inv:
  assumes "batch_inv d p" "old \<in> set (batch_students d)"
    and m: "bs_id m = bs_id old" "bs_batch m = bs_batch old"
    and "\<forall>q\<in>set (batch_students d). bs_id q \<noteq> bs_id m \<longrightarrow> \<not> batch_student_clash q m"
    and "d' = batch_students_update (replace_where (\<lambda>q. bs_id q = bs_id m \<and> c q) (\<lambda>_. m)) d"
    and "\<And>b cap. b \<in> set (batches d) \<Longrightarrow> bt_capacity b = Some cap \<Longrightarrow> int (members b d') \<le> cap"
    and "uuid_supply p \<le> uuid_supply p'"
  shows "batch_inv d' p'"
proof -
  have "within_capacity d'"
    using assms(7) by (auto simp: within_capacity_def assms(6) split: option.splits)
  moreover have "unique_rows batch_students_table (batch_students d')"
    using batch_students_tbl.unique_replace [of "batch_students d" m c] assms(1,5,6)
    by (simp add: batch_inv_def)
  ultimately show ?thesis
    using assms(1,2,6,8) m by (force simp: batch_inv_def set_replace_where)
qed

lemma assign_student_inv:
  assumes "assign_student_to_batch ctx pr i j s = (Inr m, s')" "batch_inv (working s) (proc s)"
    and "committed s = working s"
  shows "batch_inv (committed s') (proc s')"
  using assms(1)
proof (cases rule: assign_studentE)
  case already
  with assms(2,3) show ?thesis by simp
next
  case (added b)
  then show ?thesis by (intro added_inv [OF assms(2), of b m]) simp_all
next
  case (reopened b old)
  let ?d = "working s"
  have cap: "int (members c (committed s')) \<le> cap"
    if "c \<in> set (batches ?d)" "bt_capacity c = Some cap" for c cap
  proof -
    let ?q = "active_member (bt_tenant c) (bt_id c)"
    have "\<not> ?q old" using reopened(7) by (simp add: active_member_def)
    then have "members c (committed s') = members c ?d + (if ?q m then 1 else 0)"
      using count_if_replace_one [of bs_id "batch_students ?d" old ?q
          "\<lambda>q. rls_tenant s = Some (bs_tenant q)" m] assms(2) reopened(6,9,10,12)
      by (simp add: members_def unique_rows_def batch_inv_def)
    moreover have "int (members c ?d) < cap" if "?q m"
    proof -
      from that reopened(2,5,9) have "bt_id c = bt_id b" by (simp add: active_member_def)
      then have "c = b" by (rule batch_by_id [OF assms(2) \<open>c \<in> _\<close> reopened(1)])
      with reopened(4) \<open>bt_capacity c = Some cap\<close> show ?thesis by (simp add: has_room_def)
    qed
    moreover have "int (members c ?d) \<le> cap"
      by (rule within_capacityD [OF batch_inv_capacity [OF assms(2)] that])
    ultimately show ?thesis by (cases "?q m") simp_all
  qed
  show ?thesis
    by (rule replaced_inv [OF assms(2) reopened(6) _ _ reopened(13,10) cap])
      (simp_all add: reopened(9,11))
qed

lemma remove_student_inv:
  assumes "remove_student_from_batch ctx pr i j s = (Inr u, s')" "batch_inv (working s) (proc s)"
  shows "batch_inv (committed s') (proc s')"
proof -
  from assms(1) obtain old m where old: "old \<in> set (batch_students (working s))"
    and d': "committed s' = batch_students_update (replace_where
       (\<lambda>q. bs_id q = bs_id m \<and> rls_tenant s = Some (bs_tenant q)) (\<lambda>_. m)) (working s)"
    and m: "m = old\<lparr>bs_status := BS_REMOVED, bs_left_at := Some (clock (proc s))\<rparr>"
    and free: "\<forall>q\<in>set (batch_students (working s)). bs_id q \<noteq> bs_id m \<longrightarrow> \<not> batch_student_clash q m"
    and n: "uuid_supply (proc s') = uuid_supply (proc s)"
    by (rule remove_studentE)
  have "members b (committed s') \<le> members b (working s)" for b
    unfolding d' members_def by (simp, rule count_if_replace_where_le) (simp add: m active_member_def)
  then have cap: "int (members b (committed s')) \<le> cap"
    if "b \<in> set (batches (working s))" "bt_capacity b = Some cap" for b cap
    using within_capacityD [OF batch_inv_capacity [OF assms(2)] that] by (meson of_nat_mono order_trans)
  show ?thesis
    by (rule replaced_inv [OF assms(2) old _ _ free d' cap]) (simp_all add: m n)
qed

section \<open>The service\<close>

lemma framed_batch_inv:
  "framed students_table batch_inv" "framed guardians_table batch_inv"
  "framed student_guardians_table batch_inv" "framed student_enrollments_table batch_inv"
  "framed student_notes_table batch_inv" "framed student_documents_table batch_inv"
  "framed student_status_histories_table batch_inv"
  by (simp_all add: framed_def batch_inv_def within_capacity_def members_def cong: option.case_cong)

lemma keeps_batch_inv:
  "tx_ok (both batch_inv)" "student_tables_ok (both batch_inv)"
  by (simp_all add: student_tables_ok_def tx_ok_both proc_stable_batch_inv table_ok_both
      framed_batch_inv)

text \<open>
  Every request, valid or not, successful or not, preserves the batch invariant of the committed
  database.
\<close>

lemma students_serve_inv:
  assumes "batch_inv d p" "serve (students_handle c) d p = (r, d', p')"
  shows "batch_inv d' p'"
proof -
  note run = assms(2) [unfolded students_handle_def]
  note ok = serve_call_ok [OF atomic_students_handle [unfolded students_handle_def]
      keeps_fresh_students [unfolded students_handle_def] proc_stable_batch_inv assms(1) _ run]
  note frame = serve_call_frame [where P = batch_inv, OF _ assms(1) run]
  show ?thesis
  proof (cases "cl_request c")
    case (Create_Batch q)
    then show ?thesis
      by (intro ok) (use assms(1) in \<open>auto simp: validated_Inr discard_Inr dest: create_batch_inv\<close>)
  next
    case (Update_Batch i q)
    then show ?thesis
      by (intro ok) (use assms(1) in \<open>auto simp: validated_Inr discard_Inr dest: update_batch_inv\<close>)
  next
    case (Assign_Student i j)
    then show ?thesis
      by (intro ok) (use assms(1) in \<open>auto simp: discard_Inr dest: assign_student_inv\<close>)
  next
    case (Remove_Student i j)
    then show ?thesis
      by (intro ok) (use assms(1) in \<open>auto simp: discard_Inr dest: remove_student_inv\<close>)
  qed (auto intro!: frame keeps_discard keeps_students_reads keeps_students keeps_batch_inv)
qed

interpretation students_service: service students_handle batch_inv
proof
  show "batch_inv d p \<Longrightarrow> serve (students_handle c) d p = (r, d', p') \<Longrightarrow> batch_inv d' p'"
    for d p c r d' p'
    by (rule students_serve_inv)
  show "batch_inv d p \<Longrightarrow> clock p \<le> t \<Longrightarrow> batch_inv d (p\<lparr>clock := t\<rparr>)" for d p t
    by (rule proc_stableD [OF proc_stable_batch_inv]) auto
qed

end
