(* ===== verification/Row_Rules.thy ===== *)
theory Row_Rules
  imports Platform
begin

text \<open>
  A calculus of assertions that hold between any two steps of an operation, such as those that say
  the same thing of every row of a table.  \<open>ensures J E Q m\<close>: from a session that satisfies \<open>J\<close>
  the operation \<open>m\<close> ends in one that does, with a value that satisfies \<open>Q\<close> or with an exception
  that satisfies \<open>E\<close>.  A query hands what \<open>J\<close> says of the row it found to the rest of the
  operation; an insert or a save demands it of the row it stores.
\<close>

section \<open>The judgement\<close>

named_theorems ensures_intros \<open>introduction rules for ensures\<close>

definition ensures ::
    "('d session \<Rightarrow> bool) \<Rightarrow> (exc \<Rightarrow> bool) \<Rightarrow> ('a \<Rightarrow> bool) \<Rightarrow> ('d, 'a) op \<Rightarrow> bool" where
  "ensures J E Q m \<longleftrightarrow> (\<forall>s. J s \<longrightarrow> (case m s of
     (Inl e, t) \<Rightarrow> J t \<and> E e | (Inr x, t) \<Rightarrow> J t \<and> Q x))"

lemma ensuresD:
  "ensures J E Q m \<Longrightarrow> J s \<Longrightarrow> m s = (Inl e, t) \<Longrightarrow> J t \<and> E e"
  "ensures J E Q m \<Longrightarrow> J s \<Longrightarrow> m s = (Inr x, t) \<Longrightarrow> J t \<and> Q x"
  unfolding ensures_def by (drule spec, drule mp, assumption, simp)+

lemma ensuresI:
  assumes "\<And>s e t. J s \<Longrightarrow> m s = (Inl e, t) \<Longrightarrow> J t \<and> E e"
    and "\<And>s x t. J s \<Longrightarrow> m s = (Inr x, t) \<Longrightarrow> J t \<and> Q x"
  shows "ensures J E Q m"
  unfolding ensures_def
proof (intro allI impI)
  fix s assume J: "J s"
  obtain r t where m: "m s = (r, t)" by force
  show "case m s of (Inl e, t) \<Rightarrow> J t \<and> E e | (Inr x, t) \<Rightarrow> J t \<and> Q x"
    by (cases r) (use m assms [OF J] in auto)
qed

lemma ensures_keeps:
  assumes "ensures J E Q m"
  shows "keeps J m"
  unfolding keeps_def
proof (intro allI impI)
  fix s assume J: "J s"
  obtain r t where m: "m s = (r, t)" by force
  with ensuresD [OF assms J] show "J (snd (m s))" by (cases r) auto
qed

lemma ensures_weaken:
  "ensures J E Q m \<Longrightarrow> (\<And>x. Q x \<Longrightarrow> R x) \<Longrightarrow> ensures J E R m"
  by (rule ensuresI) (auto dest: ensuresD)

lemma ensures_any: "ensures J E Q m \<Longrightarrow> ensures J E (\<lambda>_. True) m"
  by (erule ensures_weaken) simp

text \<open>An operation that keeps the assertion and raises nothing but what \<open>E\<close> allows.\<close>

lemma ensures_of_keeps:
  "keeps J m \<Longrightarrow> (\<And>s e t. m s = (Inl e, t) \<Longrightarrow> E e) \<Longrightarrow> ensures J E (\<lambda>_. True) m"
  by (rule ensuresI) (auto dest: keepsD)

lemma ensures_return: "Q x \<Longrightarrow> ensures J E Q (return_tx x)"
  by (simp add: ensures_def return_tx_def)

lemma ensures_done: "ensures J E (\<lambda>_. True) (return_tx x)"
  by (rule ensures_return) simp

lemma ensures_raise [ensures_intros]: "E e \<Longrightarrow> ensures J E Q (raise_tx e)"
  by (simp add: ensures_def raise_tx_def)

lemma ensures_abort [ensures_intros]: "E (Prep_Suite_Error c n) \<Longrightarrow> ensures J E Q (abort c n)"
  by (simp add: abort_def ensures_raise)

lemma ensures_bind:
  assumes "ensures J E Q m" "\<And>x. Q x \<Longrightarrow> ensures J E R (f x)"
  shows "ensures J E R (bind_tx m f)"
  unfolding ensures_def
proof (intro allI impI)
  fix s assume J: "J s"
  obtain r t where m: "m s = (r, t)" by force
  show "case bind_tx m f s of (Inl e, t) \<Rightarrow> J t \<and> E e | (Inr x, t) \<Rightarrow> J t \<and> R x"
  proof (cases r)
    case (Inl e)
    with m ensuresD(1) [OF assms(1) J] show ?thesis by (simp add: bind_tx_def)
  next
    case (Inr x)
    with m ensuresD(2) [OF assms(1) J] have "J t" "Q x" by simp_all
    with assms(2) [of x] m Inr show ?thesis by (simp add: bind_tx_def ensures_def)
  qed
qed

lemma ensures_if [ensures_intros]:
  "(b \<Longrightarrow> ensures J E Q m) \<Longrightarrow> (\<not> b \<Longrightarrow> ensures J E Q m') \<Longrightarrow> ensures J E Q (if b then m else m')"
  by simp

lemma ensures_when: "(b \<Longrightarrow> ensures J E (\<lambda>_. True) m) \<Longrightarrow> ensures J E (\<lambda>_. True) (when_tx b m)"
  by (simp add: when_tx_def ensures_return)

lemma ensures_case_option [ensures_intros]:
  "(x = None \<Longrightarrow> ensures J E Q m) \<Longrightarrow> (\<And>y. x = Some y \<Longrightarrow> ensures J E Q (f y)) \<Longrightarrow>
   ensures J E Q (case x of None \<Rightarrow> m | Some y \<Rightarrow> f y)"
  by (cases x) auto

lemma ensures_case_prod [ensures_intros]:
  "(\<And>a b. x = (a, b) \<Longrightarrow> ensures J E Q (f a b)) \<Longrightarrow> ensures J E Q (case x of (a, b) \<Rightarrow> f a b)"
  by (cases x) auto

lemma ensures_let [ensures_intros]: "ensures J E Q (f x) \<Longrightarrow> ensures J E Q (let y = x in f y)"
  by simp

lemma ensures_for_each:
  assumes "\<And>x. x \<in> set xs \<Longrightarrow> ensures J E Q (f x)"
  shows "ensures J E (\<lambda>ys. \<forall>y\<in>set ys. Q y) (for_each f xs)"
  using assms
proof (induction xs)
  case Nil
  then show ?case by (simp add: ensures_return)
next
  case (Cons x xs)
  then show ?case
    unfolding for_each.simps
    by (intro ensures_bind [where Q = Q] ensures_bind [where Q = "\<lambda>ys. \<forall>y\<in>set ys. Q y"] ensures_return)
      auto
qed

lemma ensures_on_conflict:
  assumes "ensures J E Q m" "keeps J rollback_tx" "E (Prep_Suite_Error code 409)"
  shows "ensures J E Q (on_conflict code m)"
  unfolding ensures_def
proof (intro allI impI)
  fix s assume J: "J s"
  obtain r t where m: "m s = (r, t)" by force
  show "case on_conflict code m s of (Inl e, t) \<Rightarrow> J t \<and> E e | (Inr x, t) \<Rightarrow> J t \<and> Q x"
  proof (cases r)
    case (Inl e)
    with m ensuresD(1) [OF assms(1) J] assms(2,3) show ?thesis
      by (simp add: on_conflict_def catch_tx_def bind_tx_run rollback_tx_run abort_run raise_tx_run
          keeps_def)
  next
    case (Inr x)
    with m ensuresD(2) [OF assms(1) J] show ?thesis by (simp add: on_conflict_def catch_tx_def)
  qed
qed

text \<open>Nothing is said of the exceptions.\<close>

abbreviation any_error :: "exc \<Rightarrow> bool" where
  "any_error \<equiv> \<lambda>_. True"

lemma ensures_keeping: "keeps J m \<Longrightarrow> ensures J any_error (\<lambda>_. True) m"
  by (rule ensures_of_keeps) simp_all

text \<open>Two assertions at once\<close>

lemma keeps_conj: "keeps A m \<Longrightarrow> keeps B m \<Longrightarrow> keeps (\<lambda>s. A s \<and> B s) m"
  by (simp add: keeps_def)

lemma table_ok_conj: "table_ok A T \<Longrightarrow> table_ok B T \<Longrightarrow> table_ok (\<lambda>s. A s \<and> B s) T"
  by (simp add: table_ok_def keeps_conj)

lemma tx_ok_conj: "tx_ok A \<Longrightarrow> keeps B commit_tx \<Longrightarrow> keeps B uuid4 \<Longrightarrow> (\<And>e. keeps B (publish e)) \<Longrightarrow>
    keeps (\<lambda>s. A s \<and> B s) commit_tx \<and> keeps (\<lambda>s. A s \<and> B s) uuid4 \<and> (\<forall>e. keeps (\<lambda>s. A s \<and> B s) (publish e))"
  by (simp add: tx_ok_def keeps_conj)

section \<open>Steps that raise nothing\<close>

lemma ensures_tx [ensures_intros]:
  "tx_ok J \<Longrightarrow> ensures J E (\<lambda>_. True) commit_tx" "tx_ok J \<Longrightarrow> ensures J E (\<lambda>_. True) uuid4"
  "tx_ok J \<Longrightarrow> ensures J E (\<lambda>_. True) token_urlsafe" "tx_ok J \<Longrightarrow> ensures J E (\<lambda>_. True) (publish ev)"
  "tx_ok J \<Longrightarrow> ensures J E (\<lambda>_. True) (publish_event ty ctx pr e)"
  "ensures J E (\<lambda>_. True) now_utc" "ensures J E (\<lambda>_. True) (get_proc g)"
  by (auto simp: ensures_def tx_ok_def keeps_def tx_simps publish_event_run)

lemma ensures_require [ensures_intros]:
  "E (Prep_Suite_Error ''tenant_required'' 400) \<Longrightarrow>
   ensures J E (\<lambda>t. ctx_tenant ctx = Some t) (require_tenant_id ctx)"
  by (auto simp: ensures_def require_tenant_id_run split: option.splits)

lemma ensures_validated [ensures_intros]:
  "E (Prep_Suite_Error ''validation_error'' 422) \<Longrightarrow> (b \<Longrightarrow> ensures J E Q m) \<Longrightarrow>
   ensures J E Q (validated b m)"
  unfolding validated_def by (intro ensures_intros)

lemma ensures_discard: "ensures J E Q m \<Longrightarrow> ensures J E (\<lambda>_. True) (discard m)"
  unfolding discard_def by (rule ensures_bind [where Q = Q]) (simp_all add: ensures_return)

lemma ensures_handle_call:
  assumes "ensures (both P) E (\<lambda>_. True) (exec (cl_context c) (cl_principal c) (cl_request c))"
  shows "ensures (both P) E (\<lambda>_. True) (handle_call exec c)"
proof -
  have "ensures (both P) E (\<lambda>_. True) (set_current_tenant (cl_tenant c))"
    by (simp add: ensures_def both_def set_current_tenant_run)
  with assms show ?thesis unfolding handle_call_def scoped_def by (blast intro: ensures_bind)
qed

section \<open>Rows that satisfy a predicate\<close>

definition rows_sat :: "('d session \<Rightarrow> bool) \<Rightarrow> ('d, 'r) table \<Rightarrow> ('r \<Rightarrow> bool) \<Rightarrow> bool" where
  "rows_sat J T Q \<longleftrightarrow> (\<forall>s. J s \<longrightarrow> (\<forall>r\<in>set (rows T s). Q r)) \<and>
     (\<forall>r. Q r \<longrightarrow> keeps J (insert_row T r) \<and> keeps J (save_row T r))"

lemma rows_satD: "rows_sat J T Q \<Longrightarrow> J s \<Longrightarrow> r \<in> set (rows T s) \<Longrightarrow> Q r"
  by (auto simp: rows_sat_def)

lemma ensures_scalar:
  "rows_sat J T Q \<Longrightarrow> ensures J E (\<lambda>x. \<forall>r. x = Some r \<longrightarrow> Q r \<and> p r) (scalar T p)"
  by (auto simp: ensures_def scalar_run dest: lookup_SomeD rows_satD)

lemma ensures_404:
  "rows_sat J T Q \<Longrightarrow> E (Prep_Suite_Error code 404) \<Longrightarrow>
   ensures J E (\<lambda>r. Q r \<and> p r) (some_or_404 code (scalar T p))"
  by (auto simp: ensures_def some_or_404_scalar_run split: option.splits dest: lookup_SomeD rows_satD)

lemma ensures_select:
  "rows_sat J T Q \<Longrightarrow> ensures J E (\<lambda>rs. \<forall>r\<in>set rs. Q r \<and> p r) (select_rows T p)"
  by (auto simp: ensures_def select_rows_run dest: rows_satD)

text \<open>What a query finds in a table the assertion does not speak of.\<close>

lemma ensures_query [ensures_intros]:
  "ensures J E (\<lambda>_. True) (scalar T p)" "ensures J E (\<lambda>_. True) (select_rows T p)"
  "E (Prep_Suite_Error code 404) \<Longrightarrow> ensures J E (\<lambda>_. True) (some_or_404 code (scalar T p))"
  by (auto simp: ensures_def tx_simps select_rows_run some_or_404_scalar_run split: option.splits)

text \<open>A query under an assertion that says something of the rows, whatever it demands of stores.\<close>

lemma ensures_found:
  assumes "\<And>s r. J s \<Longrightarrow> r \<in> set (rows T s) \<Longrightarrow> Q r"
  shows "ensures J E (\<lambda>x. \<forall>r. x = Some r \<longrightarrow> Q r \<and> p r) (scalar T p)"
    and "E (Prep_Suite_Error code 404) \<Longrightarrow>
      ensures J E (\<lambda>r. Q r \<and> p r) (some_or_404 code (scalar T p))"
  using assms by (auto simp: ensures_def scalar_run some_or_404_scalar_run split: option.splits
      dest: lookup_SomeD)

definition storage_error :: "exc \<Rightarrow> bool" where
  "storage_error e \<longleftrightarrow> e \<in> {Rls_Violation, Integrity_Error, Python_Error ''StaleDataError''}"

lemma ensures_store:
  assumes "rows_sat J T Q" "Q r" "\<And>e. storage_error e \<Longrightarrow> E e"
  shows "ensures J E (\<lambda>x. x = r) (insert_row T r)" "ensures J E (\<lambda>x. x = r) (save_row T r)"
proof -
  have "E e" if "insert_row T r s = (Inl e, t) \<or> save_row T r s = (Inl e, t)" for s e t
    by (rule assms(3)) (use that in \<open>auto simp: insert_row_def save_row_def storage_error_def split: if_splits\<close>)
  moreover have "keeps J (insert_row T r)" "keeps J (save_row T r)"
    using assms(1,2) by (auto simp: rows_sat_def)
  ultimately show "ensures J E (\<lambda>x. x = r) (insert_row T r)" "ensures J E (\<lambda>x. x = r) (save_row T r)"
    by (auto intro!: ensuresI dest: keepsD insert_row_value save_row_value)
qed

lemma unique_rows_clash:
  "unique_rows T rs \<Longrightarrow> q \<in> set rs \<Longrightarrow> r \<in> set rs \<Longrightarrow> clashes T q r \<Longrightarrow> q = r"
  unfolding unique_rows_def distinct_map by (metis inj_onD)

text \<open>How such an assertion is built from a predicate on the database.\<close>

context lawful_table begin

lemma rows_sat_both:
  assumes P: "\<And>d p. P d p \<longleftrightarrow> R d p \<and> (\<forall>r\<in>set (rows_of T d). Q r)" and R: "framed T R"
  shows "rows_sat (both P) T Q"
  unfolding rows_sat_def
proof (intro conjI allI impI)
  fix s assume "both P s" then show "\<forall>r\<in>set (rows T s). Q r" by (simp add: both_def P rows_def)
next
  fix r assume r: "Q r"
  have frame: "R (upd_rows T f d) p = R d p" for f d p using R by (simp add: framed_def)
  from r show "keeps (both P) (insert_row T r)"
    by (auto simp: keeps_def both_def P insert_row_def rows_upd frame)
  from r show "keeps (both P) (save_row T r)"
    by (auto simp: keeps_def both_def P save_row_def rows_upd frame set_replace_where)
qed

text \<open>Inserts and saves never break the uniqueness of the rows.\<close>

lemma unique_sat_both:
  assumes P: "\<And>d p. P d p \<longleftrightarrow> R d p \<and> unique_rows T (rows_of T d) \<and> (\<forall>r\<in>set (rows_of T d). Q r)"
    and R: "framed T R"
  shows "rows_sat (both P) T Q"
  unfolding rows_sat_def
proof (intro conjI allI impI)
  fix s assume "both P s" then show "\<forall>r\<in>set (rows T s). Q r" by (simp add: both_def P rows_def)
next
  fix r assume r: "Q r"
  have frame: "R (upd_rows T f d) p = R d p" for f d p using R by (simp add: framed_def)
  from r show "keeps (both P) (insert_row T r)"
    using unique_append [of _ r]
    by (auto simp: keeps_def both_def P insert_row_def rows_upd frame list_ex_iff rows_def)
  from r show "keeps (both P) (save_row T r)"
    using unique_replace [of _ r]
    by (auto simp: keeps_def both_def P save_row_def rows_upd frame list_ex_iff rows_def set_replace_where)
qed

end

text \<open>Rows that stay, under their key, related to what they were in \<open>d0\<close>.\<close>

definition rows_stay :: "('d, 'r) table \<Rightarrow> ('r \<Rightarrow> 'r \<Rightarrow> bool) \<Rightarrow> 'd \<Rightarrow> 'd \<Rightarrow> bool" where
  "rows_stay T stays d0 d \<longleftrightarrow> unique_rows T (rows_of T d) \<and>
     key_of T ` set (rows_of T d0) \<subseteq> key_of T ` set (rows_of T d) \<and>
     (\<forall>r\<in>set (rows_of T d). \<forall>q\<in>set (rows_of T d0). key_of T q = key_of T r \<longrightarrow> stays q r)"

lemma rows_stay_refl: "unique_rows T (rows_of T d) \<Longrightarrow> (\<And>r. stays r r) \<Longrightarrow> rows_stay T stays d d"
  unfolding rows_stay_def by (auto dest: unique_rows_key)

lemma rows_stayD:
  "rows_stay T stays d0 d \<Longrightarrow> q \<in> set (rows_of T d0) \<Longrightarrow> \<exists>r\<in>set (rows_of T d). key_of T r = key_of T q \<and> stays q r"
  unfolding rows_stay_def by (metis (no_types, lifting) image_iff subsetD)

context lawful_table begin

lemma keeps_rows_stay:
  assumes P: "\<And>d p. P d p \<longleftrightarrow> R d p \<and> rows_stay T stays d0 d" and R: "framed T R"
  shows "keeps (both P) (insert_row T r)"
    "\<forall>q\<in>set (rows_of T d0). key_of T q = key_of T r \<longrightarrow> stays q r \<Longrightarrow> keeps (both P) (save_row T r)"
proof -
  have frame: "R (upd_rows T f d) p = R d p" for f d p using R by (simp add: framed_def)
  show "keeps (both P) (insert_row T r)"
    using unique_append [of _ r]
    by (auto simp: keeps_def both_def P insert_row_def rows_upd frame list_ex_iff rows_def rows_stay_def
        image_subset_iff)
  assume r: "\<forall>q\<in>set (rows_of T d0). key_of T q = key_of T r \<longrightarrow> stays q r"
  show "keeps (both P) (save_row T r)"
    unfolding keeps_def
  proof (intro allI impI)
    fix s assume J: "both P s"
    obtain x t where run: "save_row T r s = (x, t)" by force
    show "both P (snd (save_row T r s))"
    proof (cases x)
      case (Inl e)
      with run J show ?thesis by (auto simp: save_row_def split: if_splits)
    next
      case (Inr y)
      note save = run [unfolded Inr]
      have "unique_rows T (rows T t)" using unique_save [OF save] J by (simp add: both_def P rows_stay_def rows_def)
      moreover have "map (key_of T) (rows T t) = map (key_of T) (rows T s)"
        unfolding rows_save [OF save] by (rule map_replace_where_eq) simp
      then have "key_of T ` set (rows T t) = key_of T ` set (rows T s)" by (metis list.set_map)
      moreover have "set (rows T t) \<subseteq> insert r (set (rows T s))"
        unfolding rows_save [OF save] by (auto simp: set_replace_where)
      moreover have "R (working t) (proc t) = R (working s) (proc s)"
        using save by (auto simp: save_row_Inr_iff frame)
      ultimately have "P (working t) (proc t)"
        using J r by (auto simp: both_def P rows_stay_def rows_def dest!: subsetD)
      with J save_row_session [OF save] run show ?thesis by (simp add: both_def)
    qed
  qed
qed

end

lemma serve_scoped_ensures:
  assumes "ensures (both P) E Q m" "P d p" "serve (scoped t m) d p = (r, d', p')"
  shows "P d' p'"
proof (rule serve_both [where P = P, OF _ assms(2,3)])
  show "keeps (both P) (scoped t m)"
    by (intro keeps_scoped keeps_both_current ensures_keeps [OF assms(1)])
qed

lemma serve_ensures:
  assumes "ensures (both P) E Q m" "P d p" "serve m d p = (r, d', p')"
  shows "P d' p'" "\<And>e. r = Inl e \<Longrightarrow> E e" "\<And>x. r = Inr x \<Longrightarrow> Q x"
proof -
  obtain s where s: "m (open_session d p) = (r, s)" "d' = committed s" "p' = proc s"
    using assms(3) by (auto simp: serve_def split: prod.splits)
  have J: "both P (open_session d p)" using assms(2) by simp
  show "P d' p'" by (rule serve_both [OF ensures_keeps [OF assms(1)] assms(2,3)])
  show "E e" if "r = Inl e" for e using ensuresD(1) [OF assms(1) J] s(1) that by simp
  show "Q x" if "r = Inr x" for x using ensuresD(2) [OF assms(1) J] s(1) that by simp
qed

end
