(* ===== verification/Sample.thy ===== *)
theory Sample
  imports Platform
begin

text \<open>
  A small world the concrete instances of the properties are evaluated in: one tenant, one
  principal, a clock and an empty database.
\<close>

definition sample_ctx :: tenant_context where
  "sample_ctx = \<lparr>ctx_tenant = Some 1, ctx_source = HEADER, ctx_slug = None, ctx_domain = None,
     ctx_user = Some 9\<rparr>"

definition sample_pr :: principal where
  "sample_pr = \<lparr>pr_user = 9, pr_tenant = Some 1, pr_permissions = []\<rparr>"

definition sample_proc :: process where
  "sample_proc = \<lparr>clock = 1000, uuid_supply = 100, secret_source = (\<lambda>_. ''abcdefghij''),
     secrets_drawn = 0, event_log = [], login_attempts = (\<lambda>_. [])\<rparr>"

definition sample_call :: "'q \<Rightarrow> 'q call" where
  "sample_call q = \<lparr>cl_tenant = 1, cl_context = sample_ctx, cl_principal = sample_pr,
     cl_request = q\<rparr>"

definition sample_session :: "db \<Rightarrow> db session" where
  "sample_session d = (open_session d sample_proc)\<lparr>rls_tenant := Some 1\<rparr>"

lemmas sample_defs = sample_ctx_def sample_pr_def sample_proc_def sample_call_def
  sample_session_def open_session_def

text \<open>A run that is not an error has a result.\<close>

lemma run_Inr: "\<not> isl (fst r) \<Longrightarrow> r = (Inr (projr (fst r)), snd r)"
  by (cases r, cases "fst r") auto

lemma serve_Inr: "\<not> isl (fst r) \<Longrightarrow> r = (Inr (projr (fst r)), fst (snd r), snd (snd r))"
  by (cases r, cases "fst r") auto

end
