(* ===== verification/Students_Props.thy ===== *)
theory Students_Props
  imports Students_Facts Row_Rules Sample
begin

text \<open>
  The properties of PrepStudents, each with a concrete instance.
\<close>

section \<open>A batch, two students\<close>

definition sample_student :: "uuid \<Rightarrow> string \<Rightarrow> student" where
  "sample_student i number = \<lparr>st_id = i, st_tenant = 1, st_admission_no = number,
     st_first_name = ''Ada'', st_last_name = None, st_email = None, st_phone = None,
     st_date_of_birth = None, st_gender = None, st_status = SS_ACTIVE, st_joined_at = None,
     st_deleted_at = None, st_created_at = int i\<rparr>"

definition sample_batch :: batch where
  "sample_batch = \<lparr>bt_id = 10, bt_tenant = 1, bt_name = ''A'', bt_code = ''batch-a'',
     bt_course = None, bt_start_date = 0, bt_end_date = None, bt_capacity = Some 1,
     bt_status = B_ACTIVE, bt_deleted_at = None\<rparr>"

definition sample_students_db :: db where
  "sample_students_db = empty_db\<lparr>batches := [sample_batch],
     students := [sample_student 20 ''S-1'', sample_student 21 ''S-2'']\<rparr>"

lemma sample_batch_inv: "batch_inv sample_students_db sample_proc"
  by (simp add: batch_inv_def within_capacity_def members_def unique_rows_def sample_students_db_def
      sample_batch_def sample_proc_def empty_db_def)

lemmas sample_students_defs = sample_students_db_def sample_student_def sample_batch_def empty_db_def
  sample_defs

section \<open>Capacity\<close>

text \<open>
  C3. No sequence of requests to the student service, from any tenants and in any order, with the
  clock advancing between them, makes a batch hold more active members than its capacity.
\<close>

theorem batch_capacity_never_exceeded:
  assumes "batch_inv d0 p0" "reaches students_handle d0 p0 d p"
    and "b \<in> set (batches d)" "bt_capacity b = Some cap"
  shows "int (members b d) \<le> cap"
  by (rule within_capacityD [OF batch_inv_capacity assms(3,4)])
    (rule students_service.reaches_good [OF assms(2,1)])

text \<open>The requests of the instance: the first student takes the only place, the second is refused.\<close>

theorem batch_capacity_never_exceeded_witness:
  "\<exists>d p. reaches students_handle sample_students_db sample_proc d p \<and>
     length (batch_students d) = 1 \<and> sample_batch \<in> set (batches d) \<and> int (members sample_batch d) \<le> 1"
proof -
  let ?r = "serve (students_handle (sample_call (Assign_Student 10 20))) sample_students_db sample_proc"
  have d: "length (batch_students (fst (snd ?r))) = 1" "batches (fst (snd ?r)) = [sample_batch]"
    by code_simp+
  have "int (members sample_batch (fst (snd ?r))) \<le> 1"
    by (rule batch_capacity_never_exceeded [OF sample_batch_inv reaches_once])
      (simp_all add: d sample_batch_def)
  with d show ?thesis using reaches_once by fastforce
qed

section \<open>Assignment\<close>

lemma assign_student_foundE:
  assumes "assign_student_to_batch ctx pr b i s = (Inr m, s')"
  obtains tenant bt st where "ctx_tenant ctx = Some tenant" "rls_tenant s = Some tenant"
    "lookup batches_table (\<lambda>r. bt_tenant r = tenant \<and> bt_id r = b \<and> bt_deleted_at r = None) s = Some bt"
    "lookup students_table (\<lambda>r. st_tenant r = tenant \<and> st_id r = i \<and> st_deleted_at r = None) s = Some st"
    "bt_id bt = b" "st_id st = i"
proof -
  from assms obtain tenant bt st where ctx: "ctx_tenant ctx = Some tenant" and found:
    "lookup batches_table (\<lambda>r. bt_tenant r = tenant \<and> bt_id r = b \<and> bt_deleted_at r = None) s = Some bt"
    "lookup students_table (\<lambda>r. st_tenant r = tenant \<and> st_id r = i \<and> st_deleted_at r = None) s = Some st"
    by (auto simp: assign_student_to_batch_def students_inv)
  from batches_tbl.lookup_own [OF found(1)] have "rls_tenant s = Some tenant" "bt_id bt = b" by auto
  moreover from students_tbl.lookup_own [OF found(2)] have "st_id st = i" by simp
  ultimately show thesis by (intro that [OF ctx _ found])
qed

text \<open>After a successful assignment the membership is stored, and nothing else has changed.\<close>

lemma assign_student_stores:
  assumes "assign_student_to_batch ctx pr b i s = (Inr m, s')" "committed s = working s"
  shows "m \<in> set (batch_students (committed s'))" "bs_status m = BS_ACTIVE"
    "batches (committed s') = batches (working s)" "students (committed s') = students (working s)"
  using assms(1)
  by (cases rule: assign_studentE; use assms(2) in \<open>force simp: set_replace_where\<close>)+

lemma assign_student_member:
  assumes "assign_student_to_batch ctx pr b i s = (Inr m, s')"
  shows "ctx_tenant ctx = Some (bs_tenant m) \<and> bs_batch m = b \<and> bs_student m = i"
  using assms by (cases rule: assign_studentE) simp_all

lemma membership_found:
  assumes "unique_rows batch_students_table (batch_students (working s))"
    and "m \<in> set (batch_students (working s))" "rls_tenant s = Some (bs_tenant m)"
  shows "lookup batch_students_table
    (\<lambda>r. bs_tenant r = bs_tenant m \<and> bs_batch r = bs_batch m \<and> bs_student r = bs_student m) s = Some m"
proof (rule lookup_unique)
  fix q assume "q \<in> set (rows batch_students_table s)"
    "bs_tenant q = bs_tenant m \<and> bs_batch q = bs_batch m \<and> bs_student q = bs_student m"
  then show "q = m"
    using assms(1,2) batch_students_tbl.unique_key [of s q m]
    by (auto simp: unique_rows_def batch_student_clash_def)
qed (use assms in simp_all)

text \<open>
  Assigning a student to a batch is idempotent: after a successful assignment the same request
  returns the same membership and changes neither the database nor the process (no second event).
\<close>

theorem assign_student_idempotent:
  assumes "batch_inv d p"
    and "serve (scoped t (assign_student_to_batch ctx pr b i)) d p = (Inr m, d', p')"
  shows "serve (scoped t (assign_student_to_batch ctx pr b i)) d' p' = (Inr m, d', p')"
proof -
  let ?s = "(open_session d p)\<lparr>rls_tenant := Some t\<rparr>"
  let ?s' = "(open_session d' p')\<lparr>rls_tenant := Some t\<rparr>"
  from assms(2) obtain s' where run: "assign_student_to_batch ctx pr b i ?s = (Inr m, s')"
    and s': "d' = committed s'" "p' = proc s'"
    by (auto simp: serve_def scoped_run split: prod.splits)
  from run obtain tenant bt st where ctx: "ctx_tenant ctx = Some tenant" "rls_tenant ?s = Some tenant"
    and found:
    "lookup batches_table (\<lambda>r. bt_tenant r = tenant \<and> bt_id r = b \<and> bt_deleted_at r = None) ?s = Some bt"
    "lookup students_table (\<lambda>r. st_tenant r = tenant \<and> st_id r = i \<and> st_deleted_at r = None) ?s = Some st"
    and ids: "bt_id bt = b" "st_id st = i"
    by (rule assign_student_foundE)
  have inv: "batch_inv d' p'"
    unfolding s' by (rule assign_student_inv [OF run]) (use assms(1) in simp_all)
  have m: "m \<in> set (batch_students d')" "bs_status m = BS_ACTIVE"
    and frame: "batches d' = batches d" "students d' = students d"
    using assign_student_stores [OF run] by (simp_all add: s')
  from assign_student_member [OF run] ctx
  have own: "bs_tenant m = tenant" "bs_batch m = b" "bs_student m = i" "t = tenant" by auto
  have "lookup batch_students_table
      (\<lambda>r. bs_tenant r = tenant \<and> bs_batch r = b \<and> bs_student r = i) ?s' = Some m"
    using membership_found [of ?s' m] inv m own by (simp add: batch_inv_def)
  moreover have "lookup batches_table c ?s' = lookup batches_table c ?s"
      "lookup students_table e ?s' = lookup students_table e ?s" for c e
    by (simp_all add: lookup_def frame open_session_def)
  ultimately show ?thesis
    using ctx found ids m by (simp add: serve_def tx_simps bind_tx_run assign_student_to_batch_def
        get_student_def student_get_for_tenant_def get_batch_or_raise_def batch_get_for_tenant_def
        get_membership_def batch_active_count_def)
qed

theorem assign_student_idempotent_witness:
  "\<exists>m d p. bs_student m = 20 \<and> batch_students d = [m] \<and>
     serve (scoped 1 (assign_student_to_batch sample_ctx sample_pr 10 20)) d p = (Inr m, d, p)"
proof -
  let ?m = "scoped 1 (assign_student_to_batch sample_ctx sample_pr 10 20)"
  let ?r = "serve ?m sample_students_db sample_proc"
  have "\<not> isl (fst ?r)" by code_simp
  then have ok: "?r = (Inr (projr (fst ?r)), fst (snd ?r), snd (snd ?r))" by (rule serve_Inr)
  have "bs_student (projr (fst ?r)) = 20" "batch_students (fst (snd ?r)) = [projr (fst ?r)]"
    by code_simp+
  with assign_student_idempotent [OF sample_batch_inv ok] show ?thesis by blast
qed

section \<open>Bulk import\<close>

lemma create_without_commitE:
  assumes "create_student_without_commit ctx pr p s = (Inr st, s')"
  obtains "st_admission_no st = scr_admission_no p" "students (working s') = students (working s) @ [st]"
    "committed s' = committed s"
  using assms by (auto simp: create_student_without_commit_def append_status_history_def
      new_student_def tx_inv student_get_by_admission_no_def split: if_splits)

lemma try_op_Inr:
  "try_op m s = (Inr y, s') \<longleftrightarrow>
     (\<exists>x. m s = (Inr x, s') \<and> y = Inr x) \<or>
     (\<exists>c n. m s = (Inl (Prep_Suite_Error c n), s') \<and> y = Inl c)"
  by (auto simp: try_op_def catch_tx_def tx_exec split: prod.splits sum.splits exc.splits)

text \<open>
  The items at the positions the errors do not name are the created students.
\<close>

definition imported :: "nat \<Rightarrow> student_create list \<Rightarrow> student list \<Rightarrow> import_error list \<Rightarrow> bool" where
  "imported n items created errors \<longleftrightarrow>
     map st_admission_no created =
       map scr_admission_no (nths items {k. n + k \<notin> set (map ie_index errors)}) \<and>
     length created + length errors = length items \<and>
     sorted_wrt (<) (map ie_index errors) \<and>
     (\<forall>e\<in>set errors. n \<le> ie_index e \<and> ie_index e < n + length items \<and>
       ie_admission_no e = scr_admission_no (items ! (ie_index e - n)))"

lemma imported_error:
  assumes "imported (Suc n) items created errors" "ie_index e = n"
    "ie_admission_no e = scr_admission_no item"
  shows "imported n (item # items) created (e # errors)"
proof -
  have "{j. n + Suc j \<notin> insert n (ie_index ` set errors)} =
      {k. Suc n + k \<notin> set (map ie_index errors)}" by auto
  then show ?thesis
    using assms by (auto simp: imported_def nths_Cons nth_Cons' Suc_le_eq)
qed

lemma imported_created:
  assumes "imported (Suc n) items created errors" "st_admission_no st = scr_admission_no item"
  shows "imported n (item # items) (st # created) errors"
proof -
  have "n \<notin> ie_index ` set errors" using assms(1) by (force simp: imported_def)
  moreover have "{j. n + Suc j \<notin> ie_index ` set errors} =
      {k. Suc n + k \<notin> set (map ie_index errors)}" by auto
  ultimately show ?thesis
    using assms by (auto simp: imported_def nths_Cons nth_Cons' Suc_le_eq)
qed

lemma create_without_commit_fails:
  assumes "create_student_without_commit ctx pr p s = (Inl (Prep_Suite_Error c k), s')"
  shows "students (working s') = students (working s)"
  using assms by (auto simp: create_student_without_commit_def append_status_history_def
      bind_tx_Inl_iff tx_steps tx_simps require_tenant_id_def student_get_by_admission_no_def
      insert_row_def split: if_splits option.splits)

lemma import_items_partition:
  assumes "import_items ctx pr n seen items s = (Inr (created, errors), s')"
  shows "imported n items created errors \<and> distinct (map st_admission_no created) \<and>
    set (map st_admission_no created) \<inter> set seen = {} \<and>
    students (working s') = students (working s) @ created"
  using assms
proof (induction items arbitrary: n seen s created errors)
  case Nil
  then show ?case by (auto simp: imported_def)
next
  case (Cons item items)
  show ?case
  proof (cases "scr_admission_no item \<in> set seen")
    case True
    with Cons.prems obtain errors' e where run:
      "import_items ctx pr (Suc n) seen items s = (Inr (created, errors'), s')"
      "errors = e # errors'" "ie_index e = n" "ie_admission_no e = scr_admission_no item"
      by (auto simp: Let_def bind_tx_Inr_iff)
    with Cons.IH [OF run(1)] show ?thesis by (simp add: imported_error)
  next
    case False
    with Cons.prems obtain outcome t created' errors' where one:
        "try_op (create_student_without_commit ctx pr item) s = (Inr outcome, t)"
      and rest: "import_items ctx pr (Suc n) (scr_admission_no item # seen) items t =
        (Inr (created', errors'), s')"
      and out: "(created, errors) = (case outcome of
          Inl code \<Rightarrow> (created', \<lparr>ie_index = n, ie_admission_no = scr_admission_no item,
            ie_code = code\<rparr> # errors')
        | Inr st \<Rightarrow> (st # created', errors'))"
      by (auto simp: Let_def bind_tx_Inr_iff)
    note IH = Cons.IH [OF rest]
    show ?thesis
    proof (cases outcome)
      case (Inl code)
      with one have "students (working t) = students (working s)"
        by (auto simp: try_op_Inr dest: create_without_commit_fails)
      with IH Inl out show ?thesis by (simp add: imported_error)
    next
      case (Inr st)
      with one have "create_student_without_commit ctx pr item s = (Inr st, t)"
        by (simp add: try_op_Inr)
      then have "st_admission_no st = scr_admission_no item"
          "students (working t) = students (working s) @ [st]"
        by (auto elim: create_without_commitE)
      with IH Inr out False show ?thesis by (auto simp: imported_created)
    qed
  qed
qed

lemma publish_each_run:
  "for_each (\<lambda>x. publish_event ty ctx pr (f x)) xs s = (Inr us, s') \<Longrightarrow>
   committed s' = committed s \<and> working s' = working s"
proof (induction xs arbitrary: s us)
  case Nil
  then show ?case by simp
next
  case (Cons x xs)
  then show ?case by (force simp: bind_tx_Inr_iff)
qed

text \<open>
  C4. A bulk import that returns reports every item exactly once: the items whose index is in no
  error are, in order, the students created; the errors carry their index and admission number in
  ascending order; the created students have different admission numbers and are exactly what the
  import appends to the table.
\<close>

theorem bulk_import_partition:
  assumes "bulk_import_students ctx pr items s = (Inr (created, errors), s')"
  shows "map st_admission_no created =
      map scr_admission_no (nths items (- set (map ie_index errors)))
    \<and> length created + length errors = length items
    \<and> sorted_wrt (<) (map ie_index errors)
    \<and> (\<forall>e\<in>set errors. ie_index e < length items \<and>
        ie_admission_no e = scr_admission_no (items ! ie_index e))
    \<and> distinct (map st_admission_no created)
    \<and> students (committed s') = students (working s) @ created"
proof -
  from assms obtain t where "import_items ctx pr 0 [] items s = (Inr (created, errors), t)"
    and "students (committed s') = students (working t)"
    by (auto simp: bulk_import_students_def bind_tx_Inr_iff basic_Inr_iff dest!: publish_each_run)
  with import_items_partition [of ctx pr 0 "[]" items s created errors t] show ?thesis
    by (simp add: imported_def Compl_eq) metis
qed

definition sample_item :: "string \<Rightarrow> student_create" where
  "sample_item number = \<lparr>scr_admission_no = number, scr_first_name = ''Bo'', scr_last_name = None,
     scr_email = None, scr_phone = None, scr_date_of_birth = None, scr_gender = None,
     scr_status = SS_ACTIVE, scr_joined_at = None\<rparr>"

text \<open>Four items: a new number, the same number again, a number in use, another new one.\<close>

theorem bulk_import_partition_witness:
  "\<exists>created errors s'.
     bulk_import_students sample_ctx sample_pr (map sample_item [''N-1'', ''N-1'', ''S-2'', ''N-2''])
       (sample_session sample_students_db) = (Inr (created, errors), s') \<and>
     map ie_index errors = [1, 2] \<and> length created + length errors = 4"
proof -
  let ?items = "map sample_item [''N-1'', ''N-1'', ''S-2'', ''N-2'']"
  let ?m = "bulk_import_students sample_ctx sample_pr ?items"
  let ?r = "?m (sample_session sample_students_db)"
  have "\<not> isl (fst ?r)" "map ie_index (snd (projr (fst ?r))) = [1, 2]" by code_simp+
  moreover from run_Inr [OF this(1)] obtain created errors s' where
    run: "?r = (Inr (created, errors), s')" by (metis surj_pair)
  moreover have "length ?items = 4" by simp
  ultimately show ?thesis using bulk_import_partition [OF run] by auto
qed

section \<open>Status history\<close>

lemma changes_status_iff:
  "\<not> student_update_null p \<Longrightarrow>
   changes_status p old \<longleftrightarrow> st_status (apply_student_update p old) \<noteq> st_status old"
  by (cases "sup_status p" rule: field.exhaust)
    (auto simp: changes_status_def student_update_null_def is_null_def apply_student_update_def
      split: option.splits)

lemma apply_student_update_key [simp]:
  "st_id (apply_student_update p old) = st_id old"
  "st_tenant (apply_student_update p old) = st_tenant old"
  by (simp_all add: apply_student_update_def)

text \<open>
  C5. An update of a student appends exactly one row to the status history when it changes the
  status, with the status before and after and the given reason, and none otherwise.
\<close>

theorem update_student_history:
  assumes "update_student ctx pr i p s = (Inr st, s')"
    and "lookup students_table (\<lambda>r. st_tenant r = tenant \<and> st_id r = i \<and> st_deleted_at r = None) s = Some old"
    and "ctx_tenant ctx = Some tenant"
  shows "st = apply_student_update p old \<and>
    student_status_histories (committed s') = student_status_histories (working s) @
      (if st_status st = st_status old then []
       else [\<lparr>sh_id = uuid_supply (proc s), sh_tenant = st_tenant old, sh_student = st_id old,
         sh_from_status = Some (st_status old), sh_to_status = st_status st,
         sh_reason = assign (sup_status_change_reason p) None,
         sh_changed_by = Some (pr_user pr), sh_created_at = clock (proc s)\<rparr>])"
proof -
  have "\<not> student_update_null p"
    using assms by (auto simp: update_student_def students_inv split: if_splits)
  note status = changes_status_iff [OF this]
  show ?thesis
  proof (cases "changes_status p old")
    case True
    with status [of old] assms show ?thesis
      by (auto simp: update_student_def append_status_history_def students_inv)
  next
    case False
    with status [of old] assms show ?thesis
      by (auto simp: update_student_def students_inv)
  qed
qed

definition sample_suspension :: student_update where
  "sample_suspension = \<lparr>sup_admission_no = Unset, sup_first_name = Unset, sup_last_name = Unset,
     sup_email = Unset, sup_phone = Unset, sup_date_of_birth = Unset, sup_gender = Unset,
     sup_status = Assigned (Some SS_SUSPENDED), sup_status_change_reason = Assigned (Some ''fees'')\<rparr>"

theorem update_student_history_witness:
  "\<exists>st s'. update_student sample_ctx sample_pr 20 sample_suspension
       (sample_session sample_students_db) = (Inr st, s') \<and> st_status st = SS_SUSPENDED \<and>
     map sh_reason (student_status_histories (committed s')) = [Some ''fees'']"
proof -
  let ?m = "update_student sample_ctx sample_pr 20 sample_suspension"
  let ?s = "sample_session sample_students_db"
  have "\<not> isl (fst (?m ?s))" by code_simp
  from run_Inr [OF this] obtain st s' where run: "?m ?s = (Inr st, s')" by blast
  have found: "lookup students_table
      (\<lambda>r. st_tenant r = 1 \<and> st_id r = 20 \<and> st_deleted_at r = None) ?s = Some (sample_student 20 ''S-1'')"
    by code_simp
  have ctx: "ctx_tenant sample_ctx = Some 1" by (simp add: sample_ctx_def)
  from update_student_history [OF run found ctx] have
    "st = apply_student_update sample_suspension (sample_student 20 ''S-1'')"
    "student_status_histories (committed s') = [] @
      (if st_status st = SS_ACTIVE then [] else
       [\<lparr>sh_id = 100, sh_tenant = 1, sh_student = 20, sh_from_status = Some SS_ACTIVE,
         sh_to_status = st_status st, sh_reason = Some ''fees'', sh_changed_by = Some 9,
         sh_created_at = 1000\<rparr>])"
    by (auto simp: sample_students_defs sample_suspension_def)
  with run show ?thesis
    by (simp add: apply_student_update_def sample_suspension_def)
qed

section \<open>Pages\<close>

text \<open>
  The rows a list request ranges over: the visible students of the tenant that match the filters,
  with a batch filter only those with an active membership of the batch. What the query selects is
  the join of the students with their memberships.
\<close>

definition member_of :: "uuid option \<Rightarrow> db session \<Rightarrow> student \<Rightarrow> bool" where
  "member_of batch_id s st \<longleftrightarrow> (\<forall>b. batch_id = Some b \<longrightarrow> (\<exists>l\<in>set (rows batch_students_table s).
     visible batch_students_table s l \<and> bs_student l = st_id st \<and> bs_batch l = b \<and>
     bs_status l = BS_ACTIVE))"

definition matching_students :: "uuid \<Rightarrow> student_status option \<Rightarrow> string option \<Rightarrow> db session \<Rightarrow>
    student list" where
  "matching_students tenant status search s =
     filter (\<lambda>r. visible students_table s r \<and> st_tenant r = tenant \<and> st_deleted_at r = None \<and>
       matches_filter status (st_status r) \<and>
       matches_search search [Some (st_first_name r), st_last_name r, Some (st_admission_no r),
         st_email r, st_phone r]) (rows students_table s)"

definition listed_students :: "uuid \<Rightarrow> student_status option \<Rightarrow> string option \<Rightarrow> uuid option \<Rightarrow>
    db session \<Rightarrow> student list" where
  "listed_students tenant status search batch_id s =
     filter (member_of batch_id s) (matching_students tenant status search s)"

definition joined_students :: "uuid \<Rightarrow> student_status option \<Rightarrow> string option \<Rightarrow> uuid option \<Rightarrow>
    db session \<Rightarrow> student list" where
  "joined_students tenant status search batch_id s =
     (case batch_id of None \<Rightarrow> matching_students tenant status search s
      | Some b \<Rightarrow> join_active_members b (filter (\<lambda>l. visible batch_students_table s l)
          (rows batch_students_table s)) (matching_students tenant status search s))"

definition student_fetch :: "uuid \<Rightarrow> nat \<Rightarrow> student_status option \<Rightarrow> string option \<Rightarrow> uuid option \<Rightarrow>
    db session \<Rightarrow> Pagination.cursor option \<Rightarrow> student page" where
  "student_fetch tenant limit status search batch_id s c =
     projr (fst (student_list_for_tenant tenant limit c status search batch_id SORT_CREATED_AT s))"

text \<open>A student has at most one membership of a batch, so the join does not repeat anybody.\<close>

lemma length_le_one:
  assumes "distinct xs" "\<forall>x\<in>set xs. \<forall>y\<in>set xs. x = y"
  shows "length xs \<le> 1"
proof (rule ccontr)
  assume "\<not> length xs \<le> 1"
  then have many: "1 < length xs" by simp
  then have "0 < length xs" by linarith
  with assms(2) many have "xs ! 0 = xs ! 1" by (blast intro: nth_mem)
  with many show False using nth_eq_iff_index_eq [OF assms(1), of 0 1] by linarith
qed

lemma join_at_most_one:
  "(\<And>x. length (ls x) \<le> 1) \<Longrightarrow> concat (map (\<lambda>x. map (\<lambda>_. x) (ls x)) xs) = filter (\<lambda>x. ls x \<noteq> []) xs"
proof (induction xs)
  case (Cons x xs)
  from Cons.prems [of x] show ?case using Cons by (cases "ls x") auto
qed simp

lemma joined_is_listed:
  assumes "unique_rows batch_students_table (rows batch_students_table s)"
  shows "joined_students tenant status search batch_id s = listed_students tenant status search batch_id s"
proof (cases batch_id)
  case (Some b)
  let ?ls = "\<lambda>st. filter (\<lambda>l. bs_student l = st_id st \<and> bs_batch l = b \<and> bs_status l = BS_ACTIVE)
    (filter (\<lambda>l. visible batch_students_table s l) (rows batch_students_table s))"
  have "length (?ls st) \<le> 1" for st
  proof (rule length_le_one)
    show "distinct (?ls st)"
      using assms by (simp add: unique_rows_def distinct_map)
    show "\<forall>x\<in>set (?ls st). \<forall>y\<in>set (?ls st). x = y"
    proof (intro ballI)
      fix x y assume "x \<in> set (?ls st)" "y \<in> set (?ls st)"
      then show "x = y"
        by (intro unique_rows_clash [OF assms]) (auto simp: batch_student_clash_def)
    qed
  qed
  then have "joined_students tenant status search batch_id s =
      filter (\<lambda>st. ?ls st \<noteq> []) (matching_students tenant status search s)"
    unfolding joined_students_def join_active_members_def Some option.case by (rule join_at_most_one)
  also have "\<dots> = listed_students tenant status search batch_id s"
    unfolding listed_students_def member_of_def Some
    by (rule filter_cong [OF refl]) (auto simp: filter_empty_conv)
  finally show ?thesis .
qed (simp add: joined_students_def listed_students_def member_of_def)

interpretation student_pages: keyset "student_fetch tenant limit status search batch_id s"
  "joined_students tenant status search batch_id s" "\<lambda>r. (- st_created_at r, - int (st_id r))"
  student_cursor student_beyond limit
  for tenant limit status search batch_id s
proof
  show "student_fetch tenant limit status search batch_id s None = keyset_page limit student_cursor
      (sort_key (\<lambda>r. (- st_created_at r, - int (st_id r)))
        (joined_students tenant status search batch_id s))"
    by (simp add: student_fetch_def student_list_for_tenant_def tx_simps bind_tx_run
        joined_students_def matching_students_def Let_def split: option.split)
  show "student_fetch tenant limit status search batch_id s (Some c) = keyset_page limit student_cursor
      (sort_key (\<lambda>r. (- st_created_at r, - int (st_id r)))
        (filter (student_beyond c) (joined_students tenant status search batch_id s)))" for c
    by (simp add: student_fetch_def student_list_for_tenant_def tx_simps bind_tx_run
        joined_students_def matching_students_def Let_def split: option.split)
  show "student_beyond (student_cursor x) y \<longleftrightarrow>
      (- st_created_at x, - int (st_id x)) < (- st_created_at y, - int (st_id y))" for x y
    by (auto simp: student_beyond_def student_cursor_def)
qed

text \<open>
  C6. Following the cursors of the list of students in its default order, newest first, returns every
  student of the tenant that matches the filters (status, search and, where one is given, active
  membership of the batch) exactly once and in order, whatever the page size.  The
  orders by name and by admission number are not covered: their cursors still compare times of
  creation, so their pages do not follow one another.
\<close>

theorem student_pages_complete:
  assumes "distinct (map st_id (rows students_table s))"
    and "unique_rows batch_students_table (rows batch_students_table s)" "0 < limit"
    and "length (listed_students tenant status search batch_id s) < n"
  shows "follow n (\<lambda>c. projr (fst (student_list_for_tenant tenant limit c status search batch_id
      SORT_CREATED_AT s))) None =
    sort_key (\<lambda>r. (- st_created_at r, - int (st_id r)))
      (listed_students tenant status search batch_id s)"
proof -
  have "distinct (map st_id (listed_students tenant status search batch_id s))"
    using assms(1) unfolding listed_students_def matching_students_def
    by (intro distinct_map_filter)
  then have "distinct (map (\<lambda>r. (- st_created_at r, - int (st_id r)))
      (joined_students tenant status search batch_id s))"
    unfolding joined_is_listed [OF assms(2)] by (auto simp: distinct_map inj_on_def)
  from student_pages.follow_all [OF this assms(3)] assms(4) show ?thesis
    by (simp add: student_fetch_def [abs_def] joined_is_listed [OF assms(2)])
qed

text \<open>Three students, two of them active in the batch asked for, one page at a time.\<close>

definition sample_links :: "batch_student list" where
  "sample_links = map (\<lambda>(i, pupil, status). \<lparr>bs_id = i, bs_tenant = 1, bs_batch = 10, bs_student = pupil,
     bs_status = status, bs_joined_at = 0, bs_left_at = None\<rparr>)
     [(30, 20, BS_ACTIVE), (31, 21, BS_ACTIVE), (32, 22, BS_REMOVED)]"

definition sample_pages_db :: db where
  "sample_pages_db = sample_students_db\<lparr>batch_students := sample_links,
     students := [sample_student 20 ''S-1'', sample_student 21 ''S-2'', sample_student 22 ''S-3'']\<rparr>"

theorem student_pages_complete_witness:
  "map st_id (follow 3 (\<lambda>c. projr (fst (student_list_for_tenant 1 1 c None None (Some 10)
     SORT_CREATED_AT (sample_session sample_pages_db)))) None) = [21, 20]"
proof -
  let ?s = "sample_session sample_pages_db"
  have "distinct (map st_id (rows students_table ?s))"
    "unique_rows batch_students_table (rows batch_students_table ?s)"
    "length (listed_students 1 None None (Some 10) ?s) < 3"
    by (simp_all add: listed_students_def matching_students_def member_of_def unique_rows_def
        matches_filter_def matches_search_def batch_student_clash_def sample_pages_db_def
        sample_links_def sample_students_defs)
  from student_pages_complete [OF this(1,2) _ this(3), of 1]
  have "follow 3 (\<lambda>c. projr (fst (student_list_for_tenant 1 1 c None None (Some 10)
      SORT_CREATED_AT ?s))) None
    = sort_key (\<lambda>r. (- st_created_at r, - int (st_id r)))
        (listed_students 1 None None (Some 10) ?s)" by simp
  moreover have "map st_id (sort_key (\<lambda>r. (- st_created_at r, - int (st_id r)))
    (listed_students 1 None None (Some 10) ?s)) = [21, 20]"
    by (simp add: listed_students_def matching_students_def member_of_def
        matches_filter_def matches_search_def sample_pages_db_def
        sample_links_def sample_students_defs)
  ultimately show ?thesis by simp
qed

end
