(* ===== verification/Assess.thy ===== *)
theory Assess
  imports Pagination
begin

text \<open>
  PrepAssess (app/modules/assess/service.py and repository.py): assessments and their questions,
  attempts, answers with automatic and manual evaluation, results.  Marks and scores are exact
  rationals in memory and are rounded to two decimals when a \<open>NUMERIC(10,2)\<close> column stores them.
\<close>

section \<open>Payloads and answers\<close>

record assessment_create =
  acp_title :: string
  acp_type :: assessment_type
  acp_course :: "uuid option"
  acp_batch :: "uuid option"
  acp_question_set :: "uuid option"
  acp_starts_at :: "int option"
  acp_ends_at :: "int option"
  acp_duration_minutes :: "int option"
  acp_settings :: json

record assessment_update =
  aup_title :: "string option field"
  aup_course :: "uuid option field"
  aup_batch :: "uuid option field"
  aup_starts_at :: "int option field"
  aup_ends_at :: "int option field"
  aup_duration_minutes :: "int option field"
  aup_settings :: "json option field"

record assessment_schedule =
  asp_starts_at :: int
  asp_ends_at :: int
  asp_duration_minutes :: "int option"

record attempt_start =
  tsp_student :: uuid
  tsp_idempotency_key :: "string option"

record answer_submit =
  nsp_assessment_question :: uuid
  nsp_answer :: json
  nsp_idempotency_key :: "string option"

record attempt_submit =
  tmp_idempotency_key :: "string option"
  tmp_auto_submit :: bool

record manual_evaluation =
  mep_score :: rat
  mep_comment :: "string option"

record question_read =
  qr_question :: question
  qr_options :: "question_option list"
  qr_tags :: "string list"

record assessment_detail =
  ad_assessment :: assessment
  ad_sections :: "assessment_section list"
  ad_questions :: "(assessment_question \<times> question_read) list"

record queue_item =
  eq_answer :: assessment_answer
  eq_assessment_question :: "assessment_question \<times> question_read"
  eq_attempt :: assessment_attempt

record assessment_analytics =
  aan_total_marks :: rat
  aan_attempts_started :: nat
  aan_attempts_submitted :: nat
  aan_attempts_evaluated :: nat
  aan_results_published :: nat
  aan_average_score :: "rat option"
  aan_highest_score :: "rat option"
  aan_lowest_score :: "rat option"

section \<open>Pure helpers\<close>

text \<open>A key that is given and not empty.\<close>

definition truthy :: "string option \<Rightarrow> bool" where
  "truthy x \<longleftrightarrow> x \<noteq> None \<and> x \<noteq> Some []"

definition auto_evaluated_types :: "question_type list" where
  "auto_evaluated_types = [MCQ, MULTI_SELECT, TRUE_FALSE]"

definition terminal_attempt :: "attempt_status \<Rightarrow> bool" where
  "terminal_attempt st \<longleftrightarrow> st = AT_SUBMITTED \<or> st = AT_AUTO_SUBMITTED \<or> st = AT_EVALUATED"

text \<open>
  \<open>str(v)\<close> of a JSON value.  The text of an array or an object starts with a bracket, so it is not
  the text of an identifier: it is represented by None.
\<close>

definition json_str :: "json \<Rightarrow> string option" where
  "json_str v = (case v of JStr s \<Rightarrow> Some s | JNum n \<Rightarrow> Some n | JBool b \<Rightarrow>
     Some (if b then ''True'' else ''False'') | JNull \<Rightarrow> Some ''None'' | _ \<Rightarrow> None)"

text \<open>\<open>{str(option_id) for option_id in answer.get("option_ids", [])}\<close>; None: not iterable.\<close>

definition submitted_option_ids :: "json \<Rightarrow> string option list option" where
  "submitted_option_ids answer =
     map_option (map json_str) (json_iter (json_get answer ''option_ids'' (JArr [])))"

definition correct_option_ids :: "question_option list \<Rightarrow> string option list" where
  "correct_option_ids options = map (\<lambda>x. Some (uuid_str (qo_id x))) (filter qo_is_correct options)"

definition same_set :: "'a list \<Rightarrow> 'a list \<Rightarrow> bool" where
  "same_set xs ys \<longleftrightarrow> list_all (\<lambda>x. x \<in> set ys) xs \<and> list_all (\<lambda>y. y \<in> set xs) ys"

definition assess_percentage :: "rat \<Rightarrow> rat \<Rightarrow> rat" where
  "assess_percentage score total_marks =
     (if total_marks \<le> 0 then 0 else quantize2 (score / total_marks * 100))"

definition decimal_average :: "rat list \<Rightarrow> rat option" where
  "decimal_average values =
     (if values = [] then None else Some (quantize2 (sum_list values / of_nat (length values))))"

definition score_or_zero :: "rat option \<Rightarrow> rat" where
  "score_or_zero s = (case s of None \<Rightarrow> 0 | Some x \<Rightarrow> x)"

definition total_of :: "assessment_answer list \<Rightarrow> rat" where
  "total_of answers = sum_list (map (\<lambda>a. score_or_zero (an_score a)) answers)"

text \<open>The answers by question: of several answers to one question the last one counts.\<close>

definition last_answer :: "assessment_answer list \<Rightarrow> uuid \<Rightarrow> assessment_answer option" where
  "last_answer answers q = map_of (rev (map (\<lambda>a. (an_assessment_question a, a)) answers)) q"

definition evaluated_answer :: "assessment_answer \<Rightarrow> bool" where
  "evaluated_answer a \<longleftrightarrow> an_status a = AUTO_EVALUATED \<or> an_status a = MANUAL_EVALUATED"

definition all_answers_evaluated :: "assessment_question list \<Rightarrow> assessment_answer list \<Rightarrow> bool" where
  "all_answers_evaluated aqs answers = (let keys = remdups (map an_assessment_question answers) in
     length aqs \<le> length keys \<and>
     list_all (\<lambda>k. case last_answer answers k of None \<Rightarrow> False | Some a \<Rightarrow> evaluated_answer a) keys)"

section \<open>Repositories\<close>

definition assessment_get_for_tenant :: "uuid \<Rightarrow> uuid \<Rightarrow> (db, assessment option) op" where
  "assessment_get_for_tenant tenant i = scalar assessments_table
     (\<lambda>r. as_tenant r = tenant \<and> as_id r = i \<and> as_deleted_at r = None)"

datatype assessment_sort = SORT_AS_CREATED_AT | SORT_AS_STARTS_AT | SORT_AS_TITLE

fun assessment_apply_sort :: "assessment_sort \<Rightarrow> assessment list \<Rightarrow> assessment list" where
  "assessment_apply_sort SORT_AS_STARTS_AT = sort_key (\<lambda>r. (as_starts_at r = None,
     case as_starts_at r of None \<Rightarrow> 0 | Some t \<Rightarrow> t, - int (as_id r)))"
| "assessment_apply_sort SORT_AS_TITLE = sort_key (\<lambda>r. (as_title r, - int (as_id r)))"
| "assessment_apply_sort SORT_AS_CREATED_AT = sort_key (\<lambda>r. (- as_created_at r, - int (as_id r)))"

definition assessment_beyond :: "cursor \<Rightarrow> assessment \<Rightarrow> bool" where
  "assessment_beyond c r \<longleftrightarrow>
     as_created_at r < fst c \<or> (as_created_at r = fst c \<and> as_id r < snd c)"

definition assessment_cursor :: "assessment \<Rightarrow> cursor" where
  "assessment_cursor r = (as_created_at r, as_id r)"

definition assessment_list_for_tenant :: "uuid \<Rightarrow> nat \<Rightarrow> cursor option \<Rightarrow> assessment_status option \<Rightarrow>
    assessment_type option \<Rightarrow> uuid option \<Rightarrow> uuid option \<Rightarrow> string option \<Rightarrow> assessment_sort \<Rightarrow>
    (db, assessment page) op" where
  "assessment_list_for_tenant tenant limit cursor status ty course_id batch_id search order =
     bind_tx (select_rows assessments_table (\<lambda>r. as_tenant r = tenant \<and> as_deleted_at r = None \<and>
       matches_filter status (as_status r) \<and> matches_filter ty (as_type r) \<and>
       matches_filter (map_option Some course_id) (as_course r) \<and>
       matches_filter (map_option Some batch_id) (as_batch r) \<and>
       matches_search search [Some (as_title r)] \<and>
       (case cursor of None \<Rightarrow> True | Some c \<Rightarrow> assessment_beyond c r))) (\<lambda>found.
     return_tx (keyset_page limit assessment_cursor (assessment_apply_sort order found)))"

definition assessment_question_get :: "uuid \<Rightarrow> uuid \<Rightarrow> (db, assessment_question option) op" where
  "assessment_question_get tenant i = scalar assessment_questions_table
     (\<lambda>r. aq_tenant r = tenant \<and> aq_id r = i)"

definition questions_for_assessment :: "uuid \<Rightarrow> uuid \<Rightarrow> (db, assessment_question list) op" where
  "questions_for_assessment tenant i =
     bind_tx (select_rows assessment_questions_table
       (\<lambda>r. aq_tenant r = tenant \<and> aq_assessment r = i)) (\<lambda>found.
     return_tx (sort_key (\<lambda>r. (aq_order_index r, aq_id r)) found))"

definition attempt_get_for_tenant :: "uuid \<Rightarrow> uuid \<Rightarrow> (db, assessment_attempt option) op" where
  "attempt_get_for_tenant tenant i = scalar assessment_attempts_table
     (\<lambda>r. at_tenant r = tenant \<and> at_id r = i)"

definition attempt_get_for_student ::
    "uuid \<Rightarrow> uuid \<Rightarrow> uuid \<Rightarrow> (db, assessment_attempt option) op" where
  "attempt_get_for_student tenant a student_id = scalar assessment_attempts_table
     (\<lambda>r. at_tenant r = tenant \<and> at_assessment r = a \<and> at_student r = student_id)"

definition attempts_for_assessment :: "uuid \<Rightarrow> uuid \<Rightarrow> (db, assessment_attempt list) op" where
  "attempts_for_assessment tenant a = select_rows assessment_attempts_table
     (\<lambda>r. at_tenant r = tenant \<and> at_assessment r = a)"

text \<open>The relationship \<open>attempt.answers\<close>.\<close>

definition answers_of_attempt :: "uuid \<Rightarrow> (db, assessment_answer list) op" where
  "answers_of_attempt i = select_rows assessment_answers_table (\<lambda>r. an_attempt r = i)"

definition answer_get_for_tenant :: "uuid \<Rightarrow> uuid \<Rightarrow> (db, assessment_answer option) op" where
  "answer_get_for_tenant tenant i = scalar assessment_answers_table
     (\<lambda>r. an_tenant r = tenant \<and> an_id r = i)"

definition answer_get_for_question ::
    "uuid \<Rightarrow> uuid \<Rightarrow> uuid \<Rightarrow> (db, assessment_answer option) op" where
  "answer_get_for_question tenant attempt q = scalar assessment_answers_table
     (\<lambda>r. an_tenant r = tenant \<and> an_attempt r = attempt \<and> an_assessment_question r = q)"

definition pending_for_assessment :: "uuid \<Rightarrow> uuid \<Rightarrow> (db, assessment_answer list) op" where
  "pending_for_assessment tenant a =
     bind_tx (select_rows assessment_questions_table (\<lambda>q. aq_assessment q = a)) (\<lambda>aqs.
     bind_tx (select_rows assessment_answers_table (\<lambda>r. an_tenant r = tenant \<and>
       an_status r = EVAL_PENDING \<and>
       list_ex (\<lambda>q. aq_id q = an_assessment_question r) aqs)) (\<lambda>found.
     return_tx (sort_key (\<lambda>r. (an_created_at r, an_id r)) found)))"

definition result_get_for_attempt :: "uuid \<Rightarrow> uuid \<Rightarrow> (db, assessment_result option) op" where
  "result_get_for_attempt tenant attempt = scalar assessment_results_table
     (\<lambda>r. rs_tenant r = tenant \<and> rs_attempt r = attempt)"

definition results_for_assessment :: "uuid \<Rightarrow> uuid \<Rightarrow> (db, assessment_result list) op" where
  "results_for_assessment tenant a = select_rows assessment_results_table
     (\<lambda>r. rs_tenant r = tenant \<and> rs_assessment r = a)"

text \<open>A question set with its items and the question of each item (None: not visible).\<close>

definition question_set_detail :: "uuid \<Rightarrow> uuid \<Rightarrow>
    (db, (question_set \<times> (question_set_item \<times> question option) list) option) op" where
  "question_set_detail tenant i =
     bind_tx (scalar question_sets_table
       (\<lambda>r. qs_tenant r = tenant \<and> qs_id r = i \<and> qs_deleted_at r = None)) (\<lambda>found.
     case found of None \<Rightarrow> return_tx None
     | Some qs \<Rightarrow>
         bind_tx (select_rows question_set_items_table (\<lambda>r. qi_set r = qs_id qs)) (\<lambda>items.
         bind_tx (for_each (\<lambda>item. bind_tx (scalar questions_table (\<lambda>q. qu_id q = qi_question item))
           (\<lambda>q. return_tx (item, q))) items) (\<lambda>loaded.
         return_tx (Some (qs, loaded)))))"

section \<open>Guards and responses\<close>

definition get_assessment_or_raise :: "uuid \<Rightarrow> uuid \<Rightarrow> (db, assessment) op" where
  "get_assessment_or_raise tenant i =
     some_or_404 ''assessment_not_found'' (assessment_get_for_tenant tenant i)"

definition get_attempt_or_raise :: "uuid \<Rightarrow> uuid \<Rightarrow> (db, assessment_attempt) op" where
  "get_attempt_or_raise tenant i =
     some_or_404 ''assessment_attempt_not_found'' (attempt_get_for_tenant tenant i)"

definition get_assessment_question_or_raise :: "uuid \<Rightarrow> uuid \<Rightarrow> (db, assessment_question) op" where
  "get_assessment_question_or_raise tenant i =
     some_or_404 ''assessment_question_not_found'' (assessment_question_get tenant i)"

definition get_answer_or_raise :: "uuid \<Rightarrow> uuid \<Rightarrow> (db, assessment_answer) op" where
  "get_answer_or_raise tenant i =
     some_or_404 ''assessment_answer_not_found'' (answer_get_for_tenant tenant i)"

definition get_question_with_options :: "uuid \<Rightarrow> uuid \<Rightarrow> (db, question \<times> question_option list) op" where
  "get_question_with_options tenant i =
     bind_tx (some_or_404 ''question_not_found'' (scalar questions_table
       (\<lambda>r. qu_tenant r = tenant \<and> qu_id r = i \<and> qu_deleted_at r = None))) (\<lambda>q.
     bind_tx (select_rows question_options_table (\<lambda>r. qo_question r = qu_id q)) (\<lambda>options.
     return_tx (q, options)))"

definition assessment_question_read ::
    "assessment_question \<Rightarrow> (db, assessment_question \<times> question_read) op" where
  "assessment_question_read aq =
     bind_tx (get_question_with_options (aq_tenant aq) (aq_question aq)) (\<lambda>(q, options).
     bind_tx (select_rows question_tags_table (\<lambda>r. qt_question r = qu_id q)) (\<lambda>tags.
     return_tx (aq, \<lparr>qr_question = q,
       qr_options = sort_key (\<lambda>r. (qo_order_index r, qo_id r)) options,
       qr_tags = map qt_name (sort_key qt_name tags)\<rparr>)))"

definition assessment_detail_response :: "uuid \<Rightarrow> uuid \<Rightarrow> (db, assessment_detail) op" where
  "assessment_detail_response tenant i =
     bind_tx (get_assessment_or_raise tenant i) (\<lambda>a.
     bind_tx (select_rows assessment_sections_table (\<lambda>r. sec_assessment r = as_id a)) (\<lambda>sections.
     bind_tx (select_rows assessment_questions_table (\<lambda>r. aq_assessment r = as_id a)) (\<lambda>qs.
     bind_tx (for_each assessment_question_read
       (sort_key (\<lambda>r. (aq_order_index r, aq_id r)) qs)) (\<lambda>read.
     return_tx \<lparr>ad_assessment = a,
       ad_sections = sort_key (\<lambda>r. (sec_order_index r, sec_id r)) sections,
       ad_questions = read\<rparr>))))"

definition validate_optional_course :: "uuid \<Rightarrow> uuid option \<Rightarrow> (db, unit) op" where
  "validate_optional_course tenant course_id = (case course_id of None \<Rightarrow> return_tx ()
     | Some c \<Rightarrow> bind_tx (some_or_404 ''course_not_found'' (scalar courses_table
         (\<lambda>r. co_tenant r = tenant \<and> co_id r = c \<and> co_deleted_at r = None))) (\<lambda>_. return_tx ()))"

definition validate_optional_batch :: "uuid \<Rightarrow> uuid option \<Rightarrow> (db, unit) op" where
  "validate_optional_batch tenant batch_id = (case batch_id of None \<Rightarrow> return_tx ()
     | Some b \<Rightarrow> bind_tx (some_or_404 ''batch_not_found'' (scalar batches_table
         (\<lambda>r. bt_tenant r = tenant \<and> bt_id r = b \<and> bt_deleted_at r = None))) (\<lambda>_. return_tx ()))"

definition assert_attempt_window :: "assessment \<Rightarrow> (db, unit) op" where
  "assert_attempt_window a =
     (if as_status a \<noteq> AS_SCHEDULED \<and> as_status a \<noteq> AS_LIVE then abort ''assessment_not_available'' 409
      else bind_tx now_utc (\<lambda>now.
        if (case as_starts_at a of None \<Rightarrow> False | Some t \<Rightarrow> now < t)
        then abort ''assessment_not_started'' 409
        else if (case as_ends_at a of None \<Rightarrow> False | Some t \<Rightarrow> t < now)
        then abort ''assessment_ended'' 409
        else return_tx ()))"

definition validate_student_access :: "uuid \<Rightarrow> assessment \<Rightarrow> uuid \<Rightarrow> (db, unit) op" where
  "validate_student_access tenant a student_id =
     bind_tx (some_or_404 ''student_not_found'' (scalar students_table
       (\<lambda>r. st_tenant r = tenant \<and> st_id r = student_id \<and> st_deleted_at r = None))) (\<lambda>_.
     case as_batch a of None \<Rightarrow> return_tx ()
     | Some b \<Rightarrow>
         bind_tx (scalar batch_students_table (\<lambda>r. bs_tenant r = tenant \<and> bs_batch r = b \<and>
           bs_student r = student_id \<and> bs_status r = BS_ACTIVE)) (\<lambda>membership.
         if membership = None then abort ''student_not_in_batch'' 403 else return_tx ()))"

section \<open>Assessments\<close>

text \<open>The questions of the set, copied into the assessment; the attributes of a question that was
  not loaded raise AttributeError before anything is flushed.\<close>

definition copied_question ::
    "uuid \<Rightarrow> uuid \<Rightarrow> uuid \<Rightarrow> uuid \<Rightarrow> question_set_item \<Rightarrow> question \<Rightarrow> assessment_question" where
  "copied_question i tenant a section item q =
     \<lparr>aq_id = i, aq_tenant = tenant, aq_assessment = a, aq_section = Some section,
      aq_question = qi_question item, aq_order_index = qi_order_index item,
      aq_marks = (case qi_marks_override item of
          Some m \<Rightarrow> if m \<noteq> 0 then m else qu_marks q | None \<Rightarrow> qu_marks q),
      aq_negative_marks = qu_negative_marks q,
      aq_metadata = JObj [(''question_set_item_id'', JStr (uuid_str (qi_id item)))]\<rparr>"

definition copy_question_set :: "uuid \<Rightarrow> assessment \<Rightarrow> question_set \<Rightarrow>
    (question_set_item \<times> question option) list \<Rightarrow> (db, unit) op" where
  "copy_question_set tenant a qs items =
     bind_tx uuid4 (\<lambda>j.
     bind_tx (insert_row assessment_sections_table
       \<lparr>sec_id = j, sec_tenant = tenant, sec_assessment = as_id a, sec_title = ''Default Section'',
        sec_instructions = None, sec_order_index = 1, sec_total_marks = qs_total_marks qs\<rparr>) (\<lambda>section.
     if list_ex (\<lambda>x. snd x = None) items then raise_tx (Python_Error ''AttributeError'')
     else bind_tx (save_row assessments_table (a\<lparr>as_total_marks := qs_total_marks qs\<rparr>)) (\<lambda>_.
       bind_tx (for_each (\<lambda>(item, q). bind_tx uuid4 (\<lambda>i.
         insert_row assessment_questions_table
           (copied_question i tenant (as_id a) (sec_id section) item (the q))))
         (sort_key (\<lambda>x. qi_order_index (fst x)) items)) (\<lambda>_.
       return_tx ()))))"

definition create_assessment ::
    "tenant_context \<Rightarrow> principal \<Rightarrow> assessment_create \<Rightarrow> (db, assessment_detail) op" where
  "create_assessment ctx pr p =
     bind_tx (require_tenant_id ctx) (\<lambda>tenant.
     bind_tx (validate_optional_course tenant (acp_course p)) (\<lambda>_.
     bind_tx (validate_optional_batch tenant (acp_batch p)) (\<lambda>_.
     bind_tx (case acp_question_set p of None \<Rightarrow> return_tx None
       | Some i \<Rightarrow> bind_tx (some_or_404 ''question_set_not_found'' (question_set_detail tenant i))
           (\<lambda>loaded. if snd loaded = [] then abort ''question_set_empty'' 422
             else return_tx (Some loaded))) (\<lambda>question_set.
     bind_tx (on_conflict ''assessment_conflict''
       (bind_tx uuid4 (\<lambda>i. bind_tx now_utc (\<lambda>now.
        bind_tx (insert_row assessments_table
          \<lparr>as_id = i, as_tenant = tenant, as_course = acp_course p, as_batch = acp_batch p,
           as_question_set = acp_question_set p, as_title = acp_title p, as_type = acp_type p,
           as_status = AS_DRAFT, as_starts_at = acp_starts_at p, as_ends_at = acp_ends_at p,
           as_duration_minutes = acp_duration_minutes p, as_total_marks = 0,
           as_settings = acp_settings p, as_created_by = Some (pr_user pr), as_published_at = None,
           as_deleted_at = None, as_created_at = now\<rparr>) (\<lambda>a.
        bind_tx (case question_set of None \<Rightarrow> return_tx ()
          | Some (qs, items) \<Rightarrow> copy_question_set tenant a qs items) (\<lambda>_.
        bind_tx (assessment_detail_response tenant (as_id a)) (\<lambda>response.
        bind_tx commit_tx (\<lambda>_.
        return_tx response)))))))) (\<lambda>response.
     bind_tx (publish_event ''assessment.created'' ctx pr (as_id (ad_assessment response))) (\<lambda>_.
     return_tx response))))))"

definition list_assessments :: "tenant_context \<Rightarrow> nat \<Rightarrow> cursor option \<Rightarrow> assessment_status option \<Rightarrow>
    assessment_type option \<Rightarrow> uuid option \<Rightarrow> uuid option \<Rightarrow> string option \<Rightarrow> assessment_sort \<Rightarrow>
    (db, assessment page) op" where
  "list_assessments ctx limit cursor status ty course_id batch_id search order =
     bind_tx (require_tenant_id ctx) (\<lambda>tenant.
     assessment_list_for_tenant tenant limit cursor status ty course_id batch_id search order)"

definition get_assessment :: "tenant_context \<Rightarrow> uuid \<Rightarrow> (db, assessment_detail) op" where
  "get_assessment ctx i = bind_tx (require_tenant_id ctx) (\<lambda>tenant. assessment_detail_response tenant i)"

text \<open>An explicit null for \<open>settings\<close> stores the JSON value null, which the response model rejects.\<close>

definition apply_assessment_update :: "assessment_update \<Rightarrow> assessment \<Rightarrow> assessment" where
  "apply_assessment_update p a = a
     \<lparr>as_title := assign_required (aup_title p) (as_title a),
      as_course := assign (aup_course p) (as_course a),
      as_batch := assign (aup_batch p) (as_batch a),
      as_starts_at := assign (aup_starts_at p) (as_starts_at a),
      as_ends_at := assign (aup_ends_at p) (as_ends_at a),
      as_duration_minutes := assign (aup_duration_minutes p) (as_duration_minutes a),
      as_settings := (case aup_settings p of Unset \<Rightarrow> as_settings a
        | Assigned None \<Rightarrow> JNull | Assigned (Some v) \<Rightarrow> v)\<rparr>"

definition update_assessment ::
    "tenant_context \<Rightarrow> principal \<Rightarrow> uuid \<Rightarrow> assessment_update \<Rightarrow> (db, assessment) op" where
  "update_assessment ctx pr i p =
     bind_tx (require_tenant_id ctx) (\<lambda>tenant.
     bind_tx (get_assessment_or_raise tenant i) (\<lambda>a.
     if as_status a \<noteq> AS_DRAFT \<and> as_status a \<noteq> AS_SCHEDULED then abort ''assessment_locked'' 409
     else bind_tx (validate_optional_course tenant (assign (aup_course p) None)) (\<lambda>_.
       bind_tx (validate_optional_batch tenant (assign (aup_batch p) None)) (\<lambda>_.
       bind_tx (flush_update assessments_table (is_null (aup_title p))
         (apply_assessment_update p a)) (\<lambda>updated.
       bind_tx (if is_null (aup_settings p) then raise_tx (Python_Error ''ValidationError'')
         else return_tx ()) (\<lambda>_.
       bind_tx commit_tx (\<lambda>_.
       bind_tx (publish_event ''assessment.updated'' ctx pr (as_id updated)) (\<lambda>_.
       return_tx updated))))))))"

text \<open>\<open>payload.duration_minutes or assessment.duration_minutes\<close>\<close>

definition or_else :: "int option \<Rightarrow> int option \<Rightarrow> int option" where
  "or_else x y = (case x of Some v \<Rightarrow> if v \<noteq> 0 then Some v else y | None \<Rightarrow> y)"

definition schedule_assessment ::
    "tenant_context \<Rightarrow> principal \<Rightarrow> uuid \<Rightarrow> assessment_schedule \<Rightarrow> (db, assessment) op" where
  "schedule_assessment ctx pr i p =
     bind_tx (require_tenant_id ctx) (\<lambda>tenant.
     bind_tx (get_assessment_or_raise tenant i) (\<lambda>a.
     bind_tx (questions_for_assessment tenant (as_id a)) (\<lambda>qs.
     if qs = [] then abort ''assessment_has_no_questions'' 409
     else bind_tx (save_row assessments_table (a\<lparr>as_starts_at := Some (asp_starts_at p),
         as_ends_at := Some (asp_ends_at p),
         as_duration_minutes := or_else (asp_duration_minutes p) (as_duration_minutes a),
         as_status := AS_SCHEDULED\<rparr>)) (\<lambda>updated.
       bind_tx commit_tx (\<lambda>_.
       bind_tx (publish_event ''assessment.scheduled'' ctx pr (as_id updated)) (\<lambda>_.
       return_tx updated))))))"

definition publish_assessment ::
    "tenant_context \<Rightarrow> principal \<Rightarrow> uuid \<Rightarrow> bool \<Rightarrow> (db, assessment) op" where
  "publish_assessment ctx pr i force =
     bind_tx (require_tenant_id ctx) (\<lambda>tenant.
     bind_tx (get_assessment_or_raise tenant i) (\<lambda>a.
     if as_status a \<noteq> AS_DRAFT \<and> as_status a \<noteq> AS_SCHEDULED \<and> as_status a \<noteq> AS_LIVE
     then abort ''assessment_publish_not_allowed'' 409
     else if \<not> force \<and> (as_starts_at a = None \<or> as_ends_at a = None)
     then abort ''assessment_schedule_required'' 409
     else bind_tx now_utc (\<lambda>now.
       bind_tx (save_row assessments_table
         (a\<lparr>as_status := AS_LIVE, as_published_at := Some now\<rparr>)) (\<lambda>updated.
       bind_tx commit_tx (\<lambda>_.
       bind_tx (publish_event ''assessment.published'' ctx pr (as_id updated)) (\<lambda>_.
       return_tx updated))))))"

section \<open>Attempts and answers\<close>

definition start_attempt ::
    "tenant_context \<Rightarrow> principal \<Rightarrow> uuid \<Rightarrow> attempt_start \<Rightarrow> (db, assessment_attempt) op" where
  "start_attempt ctx pr i p =
     bind_tx (require_tenant_id ctx) (\<lambda>tenant.
     bind_tx (get_assessment_or_raise tenant i) (\<lambda>a.
     bind_tx (assert_attempt_window a) (\<lambda>_.
     bind_tx (validate_student_access tenant a (tsp_student p)) (\<lambda>_.
     bind_tx (attempt_get_for_student tenant (as_id a) (tsp_student p)) (\<lambda>existing.
     case existing of Some t \<Rightarrow> return_tx t
     | None \<Rightarrow>
         bind_tx (on_conflict ''assessment_attempt_conflict''
           (bind_tx uuid4 (\<lambda>j. bind_tx now_utc (\<lambda>now.
            bind_tx (insert_row assessment_attempts_table
              \<lparr>at_id = j, at_tenant = tenant, at_assessment = as_id a, at_student = tsp_student p,
               at_status = AT_STARTED, at_started_at = now, at_submitted_at = None, at_score = None,
               at_metadata = JObj (if truthy (tsp_idempotency_key p)
                 then [(''start_idempotency_key'', JStr (the (tsp_idempotency_key p)))] else [])\<rparr>) (\<lambda>t.
            bind_tx commit_tx (\<lambda>_.
            return_tx t)))))) (\<lambda>t.
         bind_tx (publish_event ''assessment.attempt.started'' ctx pr (at_id t)) (\<lambda>_.
         return_tx t)))))))"

text \<open>The evaluation of a fresh answer: its status, correctness, score and time.\<close>

definition auto_evaluate :: "assessment_answer \<Rightarrow> assessment_question \<Rightarrow> (db, assessment_answer) op" where
  "auto_evaluate answer aq =
     bind_tx (get_question_with_options (aq_tenant aq) (aq_question aq)) (\<lambda>(q, options).
     if qu_question_type q \<notin> set auto_evaluated_types
     then return_tx (answer\<lparr>an_status := EVAL_PENDING\<rparr>)
     else case submitted_option_ids (an_answer answer) of
         None \<Rightarrow> raise_tx (Python_Error ''TypeError'')
       | Some submitted \<Rightarrow>
           bind_tx now_utc (\<lambda>now.
           let correct = same_set submitted (correct_option_ids options) in
           return_tx (answer\<lparr>an_is_correct := Some correct,
             an_score := Some (if correct then aq_marks aq else - aq_negative_marks aq),
             an_status := AUTO_EVALUATED, an_evaluated_at := Some now\<rparr>)))"

definition submit_answer ::
    "tenant_context \<Rightarrow> principal \<Rightarrow> uuid \<Rightarrow> answer_submit \<Rightarrow> (db, assessment_answer) op" where
  "submit_answer ctx pr i p =
     bind_tx (require_tenant_id ctx) (\<lambda>tenant.
     bind_tx (get_attempt_or_raise tenant i) (\<lambda>t.
     if at_status t \<noteq> AT_STARTED then abort ''attempt_not_open'' 409
     else bind_tx (get_assessment_question_or_raise tenant (nsp_assessment_question p)) (\<lambda>aq.
       if aq_assessment aq \<noteq> at_assessment t then abort ''assessment_question_not_found'' 404
       else bind_tx (answer_get_for_question tenant (at_id t) (aq_id aq)) (\<lambda>existing.
         case existing of
           Some a \<Rightarrow>
             if truthy (nsp_idempotency_key p) \<and> an_idempotency_key a = nsp_idempotency_key p
             then return_tx a else abort ''answer_already_submitted'' 409
         | None \<Rightarrow>
             bind_tx uuid4 (\<lambda>j. bind_tx now_utc (\<lambda>now.
             bind_tx (auto_evaluate
               \<lparr>an_id = j, an_tenant = tenant, an_attempt = at_id t, an_assessment_question = aq_id aq,
                an_question = aq_question aq, an_answer = nsp_answer p, an_status = EVAL_PENDING,
                an_is_correct = None, an_score = None, an_evaluated_by = None,
                an_evaluated_at = None, an_idempotency_key = nsp_idempotency_key p,
                an_created_at = now\<rparr> aq) (\<lambda>evaluated.
             bind_tx (insert_row assessment_answers_table evaluated) (\<lambda>answer.
             bind_tx commit_tx (\<lambda>_.
             bind_tx (publish_event ''assessment.answer.submitted'' ctx pr (an_id answer)) (\<lambda>_.
             return_tx answer))))))))))"

text \<open>
  The attempt in memory carries the exact total; the three rows store it rounded.
\<close>

definition finalize_attempt ::
    "assessment_attempt \<Rightarrow> assessment_answer list \<Rightarrow> uuid option \<Rightarrow> (db, assessment_attempt) op" where
  "finalize_attempt t answers evaluator =
     bind_tx (get_assessment_or_raise (at_tenant t) (at_assessment t)) (\<lambda>a.
     bind_tx now_utc (\<lambda>now. bind_tx uuid4 (\<lambda>j.
     let total = total_of answers;
         pct = assess_percentage total (as_total_marks a)
     in bind_tx (result_get_for_attempt (at_tenant t) (at_id t)) (\<lambda>existing.
        bind_tx (insert_row assessment_evaluations_table
          \<lparr>evl_id = j, evl_tenant = at_tenant t, evl_attempt = at_id t,
           evl_evaluated_by = evaluator, evl_status = AT_EVALUATED,
           evl_total_score = quantize2 total, evl_evaluated_at = now\<rparr>) (\<lambda>_.
        bind_tx (case existing of
            None \<Rightarrow> bind_tx uuid4 (\<lambda>k. insert_row assessment_results_table
              \<lparr>rs_id = k, rs_tenant = at_tenant t, rs_assessment = at_assessment t,
               rs_student = at_student t, rs_attempt = at_id t, rs_score = quantize2 total,
               rs_percentage = pct, rs_status = R_DRAFT, rs_published_at = None\<rparr>)
          | Some r \<Rightarrow> save_row assessment_results_table
              (r\<lparr>rs_score := quantize2 total, rs_percentage := pct\<rparr>)) (\<lambda>_.
        return_tx (t\<lparr>at_score := Some (quantize2 total), at_status := AT_EVALUATED\<rparr>)))))))"

definition submit_attempt ::
    "tenant_context \<Rightarrow> principal \<Rightarrow> uuid \<Rightarrow> attempt_submit \<Rightarrow> (db, assessment_attempt) op" where
  "submit_attempt ctx pr i p =
     bind_tx (require_tenant_id ctx) (\<lambda>tenant.
     bind_tx (get_attempt_or_raise tenant i) (\<lambda>t.
     bind_tx (answers_of_attempt (at_id t)) (\<lambda>answers.
     if terminal_attempt (at_status t) then return_tx t
     else bind_tx (questions_for_assessment tenant (at_assessment t)) (\<lambda>qs.
       if answers = [] then abort ''attempt_has_no_answers'' 409
       else bind_tx now_utc (\<lambda>now.
         let submitted = t\<lparr>at_submitted_at := Some now,
             at_metadata := (if truthy (tmp_idempotency_key p)
               then json_put (at_metadata t) ''submit_idempotency_key''
                 (JStr (the (tmp_idempotency_key p)))
               else at_metadata t),
             at_status := (if tmp_auto_submit p then AT_AUTO_SUBMITTED else AT_SUBMITTED)\<rparr>
         in bind_tx (if all_answers_evaluated qs answers
             then finalize_attempt submitted answers None else return_tx submitted) (\<lambda>final.
            bind_tx (save_row assessment_attempts_table final) (\<lambda>saved.
            bind_tx commit_tx (\<lambda>_.
            bind_tx (publish_event ''assessment.attempt.submitted'' ctx pr (at_id t)) (\<lambda>_.
            return_tx saved)))))))))"

definition evaluation_queue :: "tenant_context \<Rightarrow> uuid \<Rightarrow> (db, queue_item list) op" where
  "evaluation_queue ctx i =
     bind_tx (require_tenant_id ctx) (\<lambda>tenant.
     bind_tx (get_assessment_or_raise tenant i) (\<lambda>_.
     bind_tx (pending_for_assessment tenant i) (\<lambda>pending.
     for_each (\<lambda>a.
       bind_tx (get_assessment_question_or_raise tenant (an_assessment_question a)) (\<lambda>aq.
       bind_tx (get_attempt_or_raise tenant (an_attempt a)) (\<lambda>t.
       bind_tx (assessment_question_read aq) (\<lambda>read.
       return_tx \<lparr>eq_answer = a, eq_assessment_question = read, eq_attempt = t\<rparr>)))) pending)))"

text \<open>
  The attempt is loaded after the answer was changed in memory, and the session returns the same
  object for it: the finalisation sums the exact score of this answer and the stored scores of the
  others.
\<close>

definition evaluate_answer ::
    "tenant_context \<Rightarrow> principal \<Rightarrow> uuid \<Rightarrow> manual_evaluation \<Rightarrow> (db, assessment_answer) op" where
  "evaluate_answer ctx pr i p =
     bind_tx (require_tenant_id ctx) (\<lambda>tenant.
     bind_tx (get_answer_or_raise tenant i) (\<lambda>a.
     bind_tx (get_assessment_question_or_raise tenant (an_assessment_question a)) (\<lambda>aq.
     if aq_marks aq < mep_score p then abort ''score_exceeds_marks'' 422
     else bind_tx now_utc (\<lambda>now.
       let evaluated = a\<lparr>an_score := Some (mep_score p), an_status := MANUAL_EVALUATED,
             an_evaluated_by := Some (pr_user pr), an_evaluated_at := Some now\<rparr>
       in bind_tx (get_attempt_or_raise tenant (an_attempt a)) (\<lambda>t.
          bind_tx (answers_of_attempt (at_id t)) (\<lambda>stored.
          bind_tx (questions_for_assessment tenant (at_assessment t)) (\<lambda>qs.
          let answers = replace_where (\<lambda>x. an_id x = an_id a) (\<lambda>_. evaluated) stored in
          bind_tx (when_tx ((at_status t = AT_SUBMITTED \<or> at_status t = AT_AUTO_SUBMITTED) \<and>
              all_answers_evaluated qs answers)
            (bind_tx (finalize_attempt t answers (Some (pr_user pr))) (\<lambda>final.
             bind_tx (save_row assessment_attempts_table final) (\<lambda>_. return_tx ())))) (\<lambda>_.
          bind_tx (save_row assessment_answers_table
            (evaluated\<lparr>an_score := Some (quantize2 (mep_score p))\<rparr>)) (\<lambda>saved.
          bind_tx (when_tx (truthy (mep_comment p)) (bind_tx uuid4 (\<lambda>j.
            bind_tx (insert_row evaluation_comments_table
              \<lparr>cm_id = j, cm_tenant = tenant, cm_answer = Some (an_id a), cm_evaluation = None,
               cm_author = Some (pr_user pr), cm_comment = the (mep_comment p),
               cm_visibility = ''student''\<rparr>) (\<lambda>_. return_tx ())))) (\<lambda>_.
          bind_tx commit_tx (\<lambda>_.
          bind_tx (publish_event ''assessment.answer.evaluated'' ctx pr (an_id a)) (\<lambda>_.
          return_tx saved)))))))))))) "

section \<open>Results\<close>

definition publish_results ::
    "tenant_context \<Rightarrow> principal \<Rightarrow> uuid \<Rightarrow> (db, assessment \<times> assessment_result list) op" where
  "publish_results ctx pr i =
     bind_tx (require_tenant_id ctx) (\<lambda>tenant.
     bind_tx (get_assessment_or_raise tenant i) (\<lambda>a.
     bind_tx (results_for_assessment tenant (as_id a)) (\<lambda>results.
     if results = [] then abort ''assessment_results_not_ready'' 409
     else bind_tx now_utc (\<lambda>now.
       bind_tx (save_row assessments_table (a\<lparr>as_status := AS_PUBLISHED\<rparr>)) (\<lambda>updated.
       bind_tx (for_each (\<lambda>r. save_row assessment_results_table
         (r\<lparr>rs_status := R_PUBLISHED, rs_published_at := Some now\<rparr>)) results) (\<lambda>published.
       bind_tx commit_tx (\<lambda>_.
       bind_tx (publish_event ''assessment.results.published'' ctx pr (as_id a)) (\<lambda>_.
       return_tx (updated, published)))))))))"

definition assessment_stats :: "assessment \<Rightarrow> assessment_attempt list \<Rightarrow> assessment_result list \<Rightarrow>
    assessment_analytics" where
  "assessment_stats a attempts results = (let scores = map rs_score results in
     \<lparr>aan_total_marks = as_total_marks a,
      aan_attempts_started = length attempts,
      aan_attempts_submitted = count_if (\<lambda>t. terminal_attempt (at_status t)) attempts,
      aan_attempts_evaluated = count_if (\<lambda>t. at_status t = AT_EVALUATED) attempts,
      aan_results_published = count_if (\<lambda>r. rs_status r = R_PUBLISHED) results,
      aan_average_score = decimal_average scores,
      aan_highest_score = (if scores = [] then None else Some (Max (set scores))),
      aan_lowest_score = (if scores = [] then None else Some (Min (set scores)))\<rparr>)"

definition analytics :: "tenant_context \<Rightarrow> uuid \<Rightarrow> (db, assessment_analytics) op" where
  "analytics ctx i =
     bind_tx (require_tenant_id ctx) (\<lambda>tenant.
     bind_tx (get_assessment_or_raise tenant i) (\<lambda>a.
     bind_tx (attempts_for_assessment tenant (as_id a)) (\<lambda>attempts.
     bind_tx (results_for_assessment tenant (as_id a)) (\<lambda>results.
     return_tx (assessment_stats a attempts results)))))"

end
