(* ===== verification/Assess_Steps.thy ===== *)
theory Assess_Steps
  imports Assess_Facts
begin

text \<open>
  What the requests of PrepAssess do to attempts, answers and results: for each of them the rows a
  successful run found, the guards it passed and the rows it stored.
\<close>

section \<open>The effect of each step\<close>

lemmas assess_tx_inv = tx_inv Let_def get_assessment_or_raise_def assessment_get_for_tenant_def
  get_attempt_or_raise_def attempt_get_for_tenant_def attempt_get_for_student_def
  answers_of_attempt_def questions_for_assessment_def get_assessment_question_or_raise_def
  assessment_question_get_def get_answer_or_raise_def answer_get_for_tenant_def
  answer_get_for_question_def result_get_for_attempt_def results_for_assessment_def

text \<open>The answers and attempts of a session, and what a step may do to the rest of it.\<close>

definition same_attempts :: "db session \<Rightarrow> db session \<Rightarrow> bool" where
  "same_attempts s t \<longleftrightarrow> assessment_attempts (working t) = assessment_attempts (working s) \<and>
     assessment_answers (working t) = assessment_answers (working s) \<and>
     assessment_questions (working t) = assessment_questions (working s) \<and>
     questions (working t) = questions (working s) \<and>
     question_set_items (working t) = question_set_items (working s) \<and>
     rls_tenant t = rls_tenant s \<and> uuid_supply (proc s) \<le> uuid_supply (proc t) \<and>
     clock (proc t) = clock (proc s)"

text \<open>The results after a finalisation: one row is new or replaced, for the attempt.\<close>

definition result_recorded :: "assessment_result \<Rightarrow> db session \<Rightarrow> db session \<Rightarrow> bool" where
  "result_recorded r s t \<longleftrightarrow>
     ((\<forall>q\<in>set (assessment_results (working s)).
         rs_id q \<noteq> rs_id r \<and> \<not> assessment_result_clash q r) \<and>
       assessment_results (working t) = assessment_results (working s) @ [r]) \<or>
     (\<exists>old\<in>set (assessment_results (working s)). rs_id old = rs_id r \<and> rs_attempt old = rs_attempt r \<and>
       rls_tenant s = Some (rs_tenant old) \<and>
       (\<forall>q\<in>set (assessment_results (working s)). rs_id q \<noteq> rs_id r \<longrightarrow> \<not> assessment_result_clash q r) \<and>
       assessment_results (working t) = replace_where
         (\<lambda>q. rs_id q = rs_id r \<and> rls_tenant s = Some (rs_tenant q)) (\<lambda>_. r)
         (assessment_results (working s)))"

text \<open>It carries the keys of the attempt, or keeps those of the result the attempt had.\<close>

definition result_of :: "assessment_result \<Rightarrow> assessment_attempt \<Rightarrow> bool" where
  "result_of r t \<longleftrightarrow> rs_attempt r = at_id t \<and> rs_tenant r = at_tenant t \<and>
     rs_assessment r = at_assessment t \<and> rs_student r = at_student t"

definition result_kept :: "assessment_result \<Rightarrow> db session \<Rightarrow> bool" where
  "result_kept r s \<longleftrightarrow> (\<exists>old\<in>set (assessment_results (working s)). rs_attempt old = rs_attempt r \<and>
     rs_tenant old = rs_tenant r \<and> rs_assessment old = rs_assessment r \<and> rs_student old = rs_student r)"

lemma finalizeE:
  assumes "finalize_attempt x answers ev s = (Inr y, s')"
  obtains r where "y = x\<lparr>at_score := Some (quantize2 (total_of answers)), at_status := AT_EVALUATED\<rparr>"
    "rs_attempt r = at_id x" "rs_score r = quantize2 (total_of answers)"
    "result_recorded r s s'" "same_attempts s s'" "result_of r x \<or> result_kept r s"
proof -
  from assms obtain a where a: "lookup assessments_table
      (\<lambda>r. as_tenant r = at_tenant x \<and> as_id r = at_assessment x \<and> as_deleted_at r = None) s = Some a"
    by (auto simp: finalize_attempt_def assess_tx_inv)
  note run = assms a
  let ?existing = "lookup assessment_results_table
    (\<lambda>r. rs_tenant r = at_tenant x \<and> rs_attempt r = at_id x) s"
  show thesis
  proof (cases ?existing)
    case None
    then show thesis
      by (intro that [of "\<lparr>rs_id = Suc (uuid_supply (proc s)), rs_tenant = at_tenant x,
          rs_assessment = at_assessment x, rs_student = at_student x, rs_attempt = at_id x,
          rs_score = quantize2 (total_of answers),
          rs_percentage = assess_percentage (total_of answers) (as_total_marks a),
          rs_status = R_DRAFT, rs_published_at = None\<rparr>"];
        use run in \<open>auto simp: finalize_attempt_def assess_tx_inv result_recorded_def
          same_attempts_def result_of_def\<close>)
  next
    case (Some old)
    from assessment_results_tbl.lookup_own [OF Some] have old: "old \<in> set (assessment_results (working s))"
      "rs_tenant old = at_tenant x" "rs_attempt old = at_id x" "rls_tenant s = Some (at_tenant x)"
      by auto
    show thesis
      by (rule that [of "old\<lparr>rs_score := quantize2 (total_of answers),
          rs_percentage := assess_percentage (total_of answers) (as_total_marks a)\<rparr>"];
        use run Some old in \<open>auto simp: finalize_attempt_def assess_tx_inv result_recorded_def
          same_attempts_def result_kept_def\<close>)
  qed
qed

text \<open>
  \<open>start_attempt\<close> returns the attempt the student has, or inserts one that is open and not scored.
\<close>

definition opened :: "assessment_attempt \<Rightarrow> bool" where
  "opened t \<longleftrightarrow> at_status t = AT_STARTED \<and> at_submitted_at t = None \<and> at_score t = None"

lemma start_attemptE:
  assumes "start_attempt ctx pr i p s = (Inr t, s')"
  obtains (existing) "s' = s" "t \<in> set (assessment_attempts (working s))"
    | (fresh) "opened t" "at_id t = uuid_supply (proc s)"
      "\<forall>q\<in>set (assessment_attempts (working s)). at_id q \<noteq> at_id t \<and> \<not> assessment_attempt_clash q t"
      "committed s' = assessment_attempts_update (\<lambda>ts. ts @ [t]) (working s)"
      "uuid_supply (proc s') = Suc (uuid_supply (proc s))"
proof -
  from assms obtain tenant a u where ctx: "ctx_tenant ctx = Some tenant" and a:
    "lookup assessments_table (\<lambda>r. as_tenant r = tenant \<and> as_id r = i \<and> as_deleted_at r = None) s = Some a"
    and w: "assert_attempt_window a s = (Inr (), s)" "validate_student_access tenant a (tsp_student p) s = (Inr u, s)"
    by (auto simp: start_attempt_def assess_tx_inv assert_attempt_window_def validate_student_access_def
        split: if_splits option.splits)
  note run = assms ctx a w
  let ?existing = "lookup assessment_attempts_table
    (\<lambda>r. at_tenant r = tenant \<and> at_assessment r = as_id a \<and> at_student r = tsp_student p) s"
  show thesis
  proof (cases ?existing)
    case None
    show thesis
      by (rule fresh; use run None in \<open>auto simp: start_attempt_def assess_tx_inv opened_def\<close>)
  next
    case (Some old)
    show thesis
      by (rule existing; use run Some in
        \<open>auto simp: start_attempt_def assess_tx_inv dest: assessment_attempts_tbl.lookup_own\<close>)
  qed
qed

lemma auto_evaluate_scored:
  assumes "auto_evaluate x q s = (Inr y, s')"
  shows "s' = s \<and> an_id y = an_id x \<and> an_attempt y = an_attempt x \<and> an_tenant y = an_tenant x \<and>
    an_answer y = an_answer x \<and> an_assessment_question y = an_assessment_question x \<and>
    (an_score x = None \<longrightarrow> an_score y \<in> {None, Some (aq_marks q), Some (- aq_negative_marks q)})"
  using assms
  by (auto simp: auto_evaluate_def tx_steps get_question_with_options_def Let_def
      split: if_splits option.splits)

text \<open>
  \<open>submit_answer\<close> returns the stored answer of a replayed request, or inserts an answer of an open
  attempt; an automatic score is one of the two scores of the question.
\<close>

lemma submit_answerE:
  assumes "submit_answer ctx pr i p s = (Inr a, s')"
  obtains (replay) "s' = s" "a \<in> set (assessment_answers (working s))"
    | (fresh) t q where "t \<in> set (assessment_attempts (working s))" "at_status t = AT_STARTED"
      "at_id t = i" "an_attempt a = i" "q \<in> set (assessment_questions (working s))"
      "an_assessment_question a = aq_id q" "an_answer a = nsp_answer p"
      "aq_assessment q = at_assessment t" "an_id a = uuid_supply (proc s)"
      "an_score a \<in> {None, Some (aq_marks q), Some (- aq_negative_marks q)}"
      "\<forall>x\<in>set (assessment_answers (working s)). an_id x \<noteq> an_id a \<and> \<not> assessment_answer_clash x a"
      "committed s' = assessment_answers_update (\<lambda>xs. xs @ [a]) (working s)"
      "uuid_supply (proc s') = Suc (uuid_supply (proc s))"
      "an_tenant a = at_tenant t" "aq_tenant q = at_tenant t"
proof -
  from assms obtain tenant t q where ctx: "ctx_tenant ctx = Some tenant" and t:
    "lookup assessment_attempts_table (\<lambda>r. at_tenant r = tenant \<and> at_id r = i) s = Some t" and q:
    "lookup assessment_questions_table
       (\<lambda>r. aq_tenant r = tenant \<and> aq_id r = nsp_assessment_question p) s = Some q"
    and open_at: "at_status t = AT_STARTED" "aq_assessment q = at_assessment t"
    by (auto simp: submit_answer_def assess_tx_inv split: if_splits)
  from assessment_attempts_tbl.lookup_own [OF t] have t_own: "t \<in> set (assessment_attempts (working s))"
    "at_id t = i" "at_tenant t = tenant" by auto
  from assessment_questions_tbl.lookup_own [OF q] have q_own: "q \<in> set (assessment_questions (working s))"
    "aq_tenant q = tenant" by auto
  note run = assms ctx t q open_at t_own q_own
  let ?existing = "lookup assessment_answers_table
    (\<lambda>r. an_tenant r = tenant \<and> an_attempt r = i \<and> an_assessment_question r = aq_id q) s"
  show thesis
  proof (cases ?existing)
    case None
    with run obtain x n n' where ev: "auto_evaluate x q n = (Inr a, n')"
      and x: "an_id x = uuid_supply (proc s)" "an_attempt x = i" "an_assessment_question x = aq_id q"
        "an_answer x = nsp_answer p" "an_score x = None" "an_tenant x = tenant"
      and n: "n = s\<lparr>proc := (proc s)\<lparr>uuid_supply := Suc (uuid_supply (proc s))\<rparr>\<rparr>"
      and ins: "\<forall>z\<in>set (assessment_answers (working n')). an_id z \<noteq> an_id a \<and> \<not> assessment_answer_clash z a"
        "committed s' = assessment_answers_update (\<lambda>xs. xs @ [a]) (working n')"
        "uuid_supply (proc s') = uuid_supply (proc n')"
      by (force simp: submit_answer_def assess_tx_inv)
    from auto_evaluate_scored [OF ev] x n ins show thesis
      by (intro fresh [OF t_own(1) open_at(1) t_own(2) _ q_own(1)]) (simp_all add: open_at t_own q_own)
  next
    case (Some old)
    show thesis
      by (rule replay; use run Some in
        \<open>auto simp: submit_answer_def assess_tx_inv dest: assessment_answers_tbl.lookup_own split: if_splits\<close>)
  qed
qed

text \<open>
  What the closing of an attempt leaves for the commit: the results have a row with its score when
  it is evaluated, and are untouched when it is only submitted.
\<close>

definition closing :: "assessment_attempt \<Rightarrow> db session \<Rightarrow> db session \<Rightarrow> bool" where
  "closing t s n \<longleftrightarrow> same_attempts s n \<and>
     (if at_status t = AT_EVALUATED
      then \<exists>r. rs_attempt r = at_id t \<and> at_score t = Some (rs_score r) \<and> result_recorded r s n \<and>
        (result_of r t \<or> result_kept r s)
      else assessment_results (working n) = assessment_results (working s))"

definition stored_answers :: "uuid \<Rightarrow> db session \<Rightarrow> assessment_answer list" where
  "stored_answers i s = filter (\<lambda>r. rls_tenant s = Some (an_tenant r) \<and> an_attempt r = i)
     (assessment_answers (working s))"

definition asked :: "uuid \<Rightarrow> uuid \<Rightarrow> db session \<Rightarrow> assessment_question list" where
  "asked tenant a s = sort_key (\<lambda>r. (aq_order_index r, aq_id r))
     (filter (\<lambda>r. rls_tenant s = Some (aq_tenant r) \<and> aq_tenant r = tenant \<and> aq_assessment r = a)
       (assessment_questions (working s)))"

lemma submit_attemptE:
  assumes "submit_attempt ctx pr i p s = (Inr t, s')"
  obtains (closed) "s' = s" "t \<in> set (assessment_attempts (working s))" "terminal_attempt (at_status t)"
      "at_id t = i" "ctx_tenant ctx = Some (at_tenant t)" "rls_tenant s = Some (at_tenant t)"
    | (submitted) old n where "old \<in> set (assessment_attempts (working s))" "at_id old = i"
      "at_status old = AT_STARTED" "rls_tenant s = Some (at_tenant old)"
      "at_id t = at_id old" "at_tenant t = at_tenant old" "at_assessment t = at_assessment old"
      "at_student t = at_student old" "terminal_attempt (at_status t)"
      "at_submitted_at t = Some (clock (proc s))" "closing t s n"
      "at_status t = AT_EVALUATED \<longleftrightarrow>
         all_answers_evaluated (asked (at_tenant old) (at_assessment old) s) (stored_answers i s)"
      "at_status t = AT_EVALUATED \<Longrightarrow> at_score t = Some (quantize2 (total_of (stored_answers i s)))"
      "\<forall>q\<in>set (assessment_attempts (working s)). at_id q \<noteq> at_id t \<longrightarrow> \<not> assessment_attempt_clash q t"
      "committed s' = assessment_attempts_update (replace_where
         (\<lambda>q. at_id q = at_id t \<and> rls_tenant s = Some (at_tenant q)) (\<lambda>_. t)) (working n)"
      "uuid_supply (proc s') = uuid_supply (proc n)" "ctx_tenant ctx = Some (at_tenant old)"
proof -
  from assms obtain tenant old where ctx: "ctx_tenant ctx = Some tenant" and old:
    "lookup assessment_attempts_table (\<lambda>r. at_tenant r = tenant \<and> at_id r = i) s = Some old"
    by (auto simp: submit_attempt_def assess_tx_inv)
  from assessment_attempts_tbl.lookup_own [OF old] have own: "old \<in> set (assessment_attempts (working s))"
    "at_id old = i" "at_tenant old = tenant" "rls_tenant s = Some tenant" by auto
  let ?qs = "asked tenant (at_assessment old) s" and ?as = "stored_answers i s"
  define sub where "sub = old\<lparr>at_submitted_at := Some (clock (proc s)),
    at_metadata := (if truthy (tmp_idempotency_key p) then json_put (at_metadata old)
      ''submit_idempotency_key'' (JStr (the (tmp_idempotency_key p))) else at_metadata old),
    at_status := (if tmp_auto_submit p then AT_AUTO_SUBMITTED else AT_SUBMITTED)\<rparr>"
  note run = assms ctx old own
  show thesis
  proof (cases "terminal_attempt (at_status old)")
    case True
    with run show thesis
      by (intro closed) (auto simp: submit_attempt_def assess_tx_inv)
  next
    case False
    then have started: "at_status old = AT_STARTED"
      by (cases "at_status old") (simp_all add: terminal_attempt_def)
    have sub: "at_id sub = i" "at_tenant sub = tenant" "at_assessment sub = at_assessment old"
        "at_student sub = at_student old" "at_submitted_at sub = Some (clock (proc s))"
        "at_status sub \<noteq> AT_EVALUATED" "terminal_attempt (at_status sub)"
      by (simp_all add: sub_def own terminal_attempt_def)
    have "submit_attempt ctx pr i p s = (if ?as = [] then abort ''attempt_has_no_answers'' 409 else
        bind_tx (if all_answers_evaluated ?qs ?as then finalize_attempt sub ?as None else return_tx sub)
          (\<lambda>final. bind_tx (save_row assessment_attempts_table final) (\<lambda>saved.
            bind_tx commit_tx (\<lambda>_.
            bind_tx (publish_event ''assessment.attempt.submitted'' ctx pr i) (\<lambda>_.
            return_tx saved))))) s"
      by (cases "?as = []"; simp add: submit_attempt_def get_attempt_or_raise_def attempt_get_for_tenant_def
          answers_of_attempt_def questions_for_assessment_def tx_query ctx old own False sub_def
          asked_def stored_answers_def Let_def split del: if_split cong: if_cong)
    with assms obtain n where n: "(if all_answers_evaluated ?qs ?as
          then finalize_attempt sub ?as None else return_tx sub) s = (Inr t, n)"
      and save: "\<forall>q\<in>set (assessment_attempts (working n)). at_id q \<noteq> at_id t \<longrightarrow> \<not> assessment_attempt_clash q t"
        "committed s' = assessment_attempts_update (replace_where
           (\<lambda>q. at_id q = at_id t \<and> rls_tenant n = Some (at_tenant q)) (\<lambda>_. t)) (working n)"
        "uuid_supply (proc s') = uuid_supply (proc n)"
      by (auto simp: tx_inv simp del: if_split split: if_split_asm)
    show thesis
    proof (cases "all_answers_evaluated ?qs ?as")
      case True
      with n have "finalize_attempt sub ?as None s = (Inr t, n)" by simp
      then obtain r where "t = sub\<lparr>at_score := Some (quantize2 (total_of ?as)), at_status := AT_EVALUATED\<rparr>"
        "rs_attempt r = at_id sub" "rs_score r = quantize2 (total_of ?as)"
        "result_recorded r s n" "same_attempts s n" "result_of r sub \<or> result_kept r s" by (rule finalizeE)
      with True save sub show thesis
        by (intro submitted [OF own(1,2) started])
          (auto simp: own ctx closing_def same_attempts_def terminal_attempt_def result_of_def)
    next
      case no: False
      with n have "t = sub" "n = s" by auto
      with no save sub show thesis
        by (intro submitted [OF own(1,2) started])
          (auto simp: own ctx closing_def same_attempts_def)
    qed
  qed
qed

text \<open>The last part of \<open>evaluate_answer\<close>: the answer is stored, the comment added, the event sent.\<close>

lemma store_evaluation:
  assumes "bind_tx (save_row assessment_answers_table x) (\<lambda>saved.
      bind_tx (when_tx b (bind_tx uuid4 (\<lambda>j.
        bind_tx (insert_row evaluation_comments_table (c j)) (\<lambda>_. return_tx ())))) (\<lambda>_.
      bind_tx commit_tx (\<lambda>_.
      bind_tx (publish_event ty ctx pr i) (\<lambda>_.
      return_tx saved)))) n = (Inr y, s')"
  shows "y = x" "assessment_attempts (committed s') = assessment_attempts (working n)"
    "assessment_results (committed s') = assessment_results (working n)"
    "assessment_questions (committed s') = assessment_questions (working n)"
    "questions (committed s') = questions (working n)"
    "question_set_items (committed s') = question_set_items (working n)"
    "assessment_answers (committed s') = replace_where
       (\<lambda>r. an_id r = an_id x \<and> rls_tenant n = Some (an_tenant r)) (\<lambda>_. x)
       (assessment_answers (working n))"
    "uuid_supply (proc n) \<le> uuid_supply (proc s')"
proof -
  from assms obtain z m where saved: "save_row assessment_answers_table x n = (Inr z, m)"
    and rest: "bind_tx (when_tx b (bind_tx uuid4 (\<lambda>j.
        bind_tx (insert_row evaluation_comments_table (c j)) (\<lambda>_. return_tx ())))) (\<lambda>_.
      bind_tx commit_tx (\<lambda>_.
      bind_tx (publish_event ty ctx pr i) (\<lambda>_.
      return_tx z))) m = (Inr y, s')"
    by (rule bind_tx_InrE)
  from save_row_value [OF saved] rest have c: "y = x"
      "assessment_attempts (committed s') = assessment_attempts (working m)"
      "assessment_results (committed s') = assessment_results (working m)"
      "assessment_questions (committed s') = assessment_questions (working m)"
      "questions (committed s') = questions (working m)"
      "question_set_items (committed s') = question_set_items (working m)"
      "assessment_answers (committed s') = assessment_answers (working m)"
      "uuid_supply (proc m) \<le> uuid_supply (proc s')"
    by (auto simp: tx_steps insert_row_Inr_iff split: if_split_asm)
  from saved have m: "working m = assessment_answers_update (replace_where
      (\<lambda>r. an_id r = an_id x \<and> rls_tenant n = Some (an_tenant r)) (\<lambda>_. x)) (working n)"
    "proc m = proc n"
    by (simp_all add: save_row_Inr_iff)
  show "y = x" by (rule c(1))
  show "assessment_attempts (committed s') = assessment_attempts (working n)"
    "assessment_results (committed s') = assessment_results (working n)"
    "assessment_questions (committed s') = assessment_questions (working n)"
    "questions (committed s') = questions (working n)"
    "question_set_items (committed s') = question_set_items (working n)"
    "assessment_answers (committed s') = replace_where
       (\<lambda>r. an_id r = an_id x \<and> rls_tenant n = Some (an_tenant r)) (\<lambda>_. x)
       (assessment_answers (working n))"
    "uuid_supply (proc n) \<le> uuid_supply (proc s')"
    using c m by simp_all
qed

lemma evaluate_answerE:
  assumes "evaluate_answer ctx pr i p s = (Inr x, s')"
  obtains a q n where "a \<in> set (assessment_answers (working s))" "an_id a = i"
      "q \<in> set (assessment_questions (working s))" "an_assessment_question a = aq_id q"
      "mep_score p \<le> aq_marks q" "rls_tenant s = Some (an_tenant a)"
      "x = a\<lparr>an_score := Some (quantize2 (mep_score p)), an_status := MANUAL_EVALUATED,
         an_evaluated_by := Some (pr_user pr), an_evaluated_at := Some (clock (proc s))\<rparr>"
      "(assessment_attempts (committed s') = assessment_attempts (working s) \<and> n = s) \<or>
       (\<exists>old t. old \<in> set (assessment_attempts (working s)) \<and> at_id old = an_attempt a \<and>
         at_status old \<in> {AT_SUBMITTED, AT_AUTO_SUBMITTED} \<and>
         t = old\<lparr>at_score := at_score t, at_status := AT_EVALUATED\<rparr> \<and> closing t s n \<and>
         rls_tenant s = Some (at_tenant old) \<and>
         assessment_attempts (committed s') = replace_where
           (\<lambda>q. at_id q = at_id t \<and> rls_tenant s = Some (at_tenant q)) (\<lambda>_. t)
           (assessment_attempts (working s)))"
      "assessment_results (committed s') = assessment_results (working n)"
      "assessment_questions (committed s') = assessment_questions (working s)"
      "questions (committed s') = questions (working s)"
      "question_set_items (committed s') = question_set_items (working s)"
      "assessment_answers (committed s') = replace_where
         (\<lambda>r. an_id r = an_id x \<and> rls_tenant s = Some (an_tenant r)) (\<lambda>_. x)
         (assessment_answers (working s))"
      "uuid_supply (proc s) \<le> uuid_supply (proc s')"
proof -
  from assms obtain tenant a q t where ctx: "ctx_tenant ctx = Some tenant" and a:
    "lookup assessment_answers_table (\<lambda>r. an_tenant r = tenant \<and> an_id r = i) s = Some a" and q:
    "lookup assessment_questions_table
       (\<lambda>r. aq_tenant r = tenant \<and> aq_id r = an_assessment_question a) s = Some q" and t:
    "lookup assessment_attempts_table (\<lambda>r. at_tenant r = tenant \<and> at_id r = an_attempt a) s = Some t"
    and marks: "mep_score p \<le> aq_marks q"
    by (auto simp: evaluate_answer_def assess_tx_inv split: if_splits)
  from assessment_answers_tbl.lookup_own [OF a] have a_own: "a \<in> set (assessment_answers (working s))"
    "an_id a = i" "rls_tenant s = Some (an_tenant a)" by auto
  from assessment_questions_tbl.lookup_own [OF q] have q_own: "q \<in> set (assessment_questions (working s))"
    "aq_id q = an_assessment_question a" by auto
  from assessment_attempts_tbl.lookup_own [OF t] have t_own: "t \<in> set (assessment_attempts (working s))"
    "at_id t = an_attempt a" "rls_tenant s = Some (at_tenant t)" "at_tenant t = tenant" by auto
  define ev where "ev = a\<lparr>an_score := Some (mep_score p), an_status := MANUAL_EVALUATED,
    an_evaluated_by := Some (pr_user pr), an_evaluated_at := Some (clock (proc s))\<rparr>"
  let ?x = "ev\<lparr>an_score := Some (quantize2 (mep_score p))\<rparr>"
  let ?as = "replace_where (\<lambda>x. an_id x = an_id a) (\<lambda>_. ev) (stored_answers (at_id t) s)"
  let ?b = "(at_status t = AT_SUBMITTED \<or> at_status t = AT_AUTO_SUBMITTED) \<and>
    all_answers_evaluated (asked tenant (at_assessment t) s) ?as"
  have "evaluate_answer ctx pr i p s = bind_tx (when_tx ?b
      (bind_tx (finalize_attempt t ?as (Some (pr_user pr))) (\<lambda>final.
        bind_tx (save_row assessment_attempts_table final) (\<lambda>_. return_tx ())))) (\<lambda>_.
      bind_tx (save_row assessment_answers_table ?x) (\<lambda>saved.
      bind_tx (when_tx (truthy (mep_comment p)) (bind_tx uuid4 (\<lambda>j.
        bind_tx (insert_row evaluation_comments_table
          \<lparr>cm_id = j, cm_tenant = tenant, cm_answer = Some (an_id a), cm_evaluation = None,
           cm_author = Some (pr_user pr), cm_comment = the (mep_comment p),
           cm_visibility = ''student''\<rparr>) (\<lambda>_. return_tx ())))) (\<lambda>_.
      bind_tx commit_tx (\<lambda>_.
      bind_tx (publish_event ''assessment.answer.evaluated'' ctx pr (an_id a)) (\<lambda>_.
      return_tx saved))))) s"
    using marks by (simp add: evaluate_answer_def get_attempt_or_raise_def attempt_get_for_tenant_def
        answers_of_attempt_def questions_for_assessment_def get_answer_or_raise_def
        answer_get_for_tenant_def get_assessment_question_or_raise_def assessment_question_get_def
        tx_query ctx a q t ev_def asked_def stored_answers_def Let_def
        split del: if_split cong: if_cong)
  from this [symmetric, unfolded assms] obtain u n where n: "when_tx ?b
      (bind_tx (finalize_attempt t ?as (Some (pr_user pr))) (\<lambda>final.
        bind_tx (save_row assessment_attempts_table final) (\<lambda>_. return_tx ()))) s = (Inr u, n)"
    and rest: "bind_tx (save_row assessment_answers_table ?x) (\<lambda>saved.
      bind_tx (when_tx (truthy (mep_comment p)) (bind_tx uuid4 (\<lambda>j.
        bind_tx (insert_row evaluation_comments_table
          \<lparr>cm_id = j, cm_tenant = tenant, cm_answer = Some (an_id a), cm_evaluation = None,
           cm_author = Some (pr_user pr), cm_comment = the (mep_comment p),
           cm_visibility = ''student''\<rparr>) (\<lambda>_. return_tx ())))) (\<lambda>_.
      bind_tx commit_tx (\<lambda>_.
      bind_tx (publish_event ''assessment.answer.evaluated'' ctx pr (an_id a)) (\<lambda>_.
      return_tx saved)))) n = (Inr x, s')"
    by (rule bind_tx_InrE)
  note x = store_evaluation(1) [OF rest] and d' = store_evaluation(2-) [OF rest]
  show thesis
  proof (cases ?b)
    case False
    with n have "n = s" by (simp add: when_tx_def)
    then show thesis
      by (intro that [OF a_own(1,2) q_own(1) _ marks a_own(3), of s])
        (use d' x q_own in \<open>simp_all add: ev_def\<close>)
  next
    case True
    with n obtain y m where fin: "finalize_attempt t ?as (Some (pr_user pr)) s = (Inr y, m)"
      and save: "working n = assessment_attempts_update (replace_where
         (\<lambda>q. at_id q = at_id y \<and> rls_tenant m = Some (at_tenant q)) (\<lambda>_. y)) (working m)"
        "rls_tenant n = rls_tenant m" "uuid_supply (proc n) = uuid_supply (proc m)"
      by (auto simp: when_tx_def tx_inv)
    from fin obtain r where y: "y = t\<lparr>at_score := Some (quantize2 (total_of ?as)), at_status := AT_EVALUATED\<rparr>"
      and r: "rs_attempt r = at_id t" "rs_score r = quantize2 (total_of ?as)" "result_recorded r s m"
      and same: "same_attempts s m" and keys: "result_of r t \<or> result_kept r s" by (rule finalizeE)
    note eqs = same [unfolded same_attempts_def]
    have closed: "closing y s m" using r same keys by (auto simp: closing_def y result_of_def)
    have attempts: "assessment_attempts (committed s') = replace_where
        (\<lambda>q. at_id q = at_id y \<and> rls_tenant s = Some (at_tenant q)) (\<lambda>_. y)
        (assessment_attempts (working s))"
      using d'(1) save(1) eqs by simp
    have "y = t\<lparr>at_score := at_score y, at_status := AT_EVALUATED\<rparr>" by (simp add: y)
    with closed attempts True t_own have ex:
      "\<exists>old t. old \<in> set (assessment_attempts (working s)) \<and> at_id old = an_attempt a \<and>
         at_status old \<in> {AT_SUBMITTED, AT_AUTO_SUBMITTED} \<and>
         t = old\<lparr>at_score := at_score t, at_status := AT_EVALUATED\<rparr> \<and> closing t s m \<and>
         rls_tenant s = Some (at_tenant old) \<and>
         assessment_attempts (committed s') = replace_where
           (\<lambda>q. at_id q = at_id t \<and> rls_tenant s = Some (at_tenant q)) (\<lambda>_. t)
           (assessment_attempts (working s))"
      by (intro exI [of _ t] exI [of _ y]) simp
    have rest: "assessment_results (committed s') = assessment_results (working m)"
      "assessment_questions (committed s') = assessment_questions (working s)"
      "questions (committed s') = questions (working s)"
      "question_set_items (committed s') = question_set_items (working s)"
      "assessment_answers (committed s') = replace_where
         (\<lambda>r. an_id r = an_id x \<and> rls_tenant s = Some (an_tenant r)) (\<lambda>_. x)
         (assessment_answers (working s))"
      "uuid_supply (proc s) \<le> uuid_supply (proc s')"
      using d' save eqs x by simp_all
    have "x = a\<lparr>an_score := Some (quantize2 (mep_score p)), an_status := MANUAL_EVALUATED,
        an_evaluated_by := Some (pr_user pr), an_evaluated_at := Some (clock (proc s))\<rparr>"
      by (simp add: x ev_def)
    from that [OF a_own(1,2) q_own(1) q_own(2) [symmetric] marks a_own(3) this disjI2 [OF ex] rest]
    show thesis .
  qed
qed

end
