(* ===== verification/Assess_Inv.thy ===== *)
theory Assess_Inv
  imports Assess_Steps
begin

text \<open>
  The invariants of PrepAssess: every evaluated attempt has its result, attempts only advance and
  submitted answers stay as they are, every score lies between the marks and the negative marks of
  its question.
\<close>

section \<open>Evaluated attempts have a result\<close>

definition evaluated_ok :: "db \<Rightarrow> process \<Rightarrow> bool" where
  "evaluated_ok d p \<longleftrightarrow> unique_rows assessment_attempts_table (assessment_attempts d) \<and>
     unique_rows assessment_results_table (assessment_results d) \<and>
     (\<forall>t\<in>set (assessment_attempts d). at_status t = AT_EVALUATED \<longrightarrow>
       (\<exists>r\<in>set (assessment_results d). rs_attempt r = at_id t \<and> at_score t = Some (rs_score r)))"

lemma proc_stable_evaluated_ok: "proc_stable evaluated_ok"
  by (simp add: proc_stable_def evaluated_ok_def)

lemma result_recorded_unique:
  assumes "result_recorded r s n" "unique_rows assessment_results_table (assessment_results (working s))"
  shows "unique_rows assessment_results_table (assessment_results (working n))"
    "r \<in> set (assessment_results (working n))"
    "q \<in> set (assessment_results (working s)) \<Longrightarrow> rs_attempt q \<noteq> rs_attempt r \<Longrightarrow>
     q \<in> set (assessment_results (working n))"
  using assms(1) unfolding result_recorded_def
proof (atomize (full), elim disjE bexE conjE)
  let ?rs = "assessment_results (working s)"
  assume "\<forall>q\<in>set ?rs. rs_id q \<noteq> rs_id r \<and> \<not> assessment_result_clash q r"
    "assessment_results (working n) = ?rs @ [r]"
  then show "unique_rows assessment_results_table (assessment_results (working n)) \<and>
      r \<in> set (assessment_results (working n)) \<and> (q \<in> set ?rs \<longrightarrow> rs_attempt q \<noteq> rs_attempt r \<longrightarrow>
      q \<in> set (assessment_results (working n)))"
    using assessment_results_tbl.unique_append [OF assms(2), of r] by simp
next
  let ?rs = "assessment_results (working s)"
  fix old assume old: "old \<in> set ?rs" "rs_id old = rs_id r" "rs_attempt old = rs_attempt r"
    "rls_tenant s = Some (rs_tenant old)"
    and free: "\<forall>q\<in>set ?rs. rs_id q \<noteq> rs_id r \<longrightarrow> \<not> assessment_result_clash q r"
    and n: "assessment_results (working n) =
      replace_where (\<lambda>q. rs_id q = rs_id r \<and> rls_tenant s = Some (rs_tenant q)) (\<lambda>_. r) ?rs"
  have mem: "q \<in> set (assessment_results (working n)) \<longleftrightarrow> q = r \<or> (q \<in> set ?rs \<and> rs_id q \<noteq> rs_id r)" for q
    unfolding n using assessment_results_tbl.mem_replaced [OF assms(2) old(1), of r
        "\<lambda>q. rls_tenant s = Some (rs_tenant q)" q] old by simp
  have "rs_id q \<noteq> rs_id r" if "q \<in> set ?rs" "rs_attempt q \<noteq> rs_attempt r"
    using unique_rows_key [OF assms(2) that(1) old(1)] that(2) old by auto
  moreover have "unique_rows assessment_results_table (assessment_results (working n))"
    unfolding n using assessment_results_tbl.unique_replace [OF assms(2), of r
        "\<lambda>q. rls_tenant s = Some (rs_tenant q)"] free by simp
  ultimately show "unique_rows assessment_results_table (assessment_results (working n)) \<and>
      r \<in> set (assessment_results (working n)) \<and> (q \<in> set ?rs \<longrightarrow> rs_attempt q \<noteq> rs_attempt r \<longrightarrow>
      q \<in> set (assessment_results (working n)))"
    by (simp add: mem)
qed

lemma closing_evaluated:
  assumes inv: "evaluated_ok (working s) p" and closed: "closing t s n"
    and old: "old \<in> set (assessment_attempts (working s))" "at_id t = at_id old"
      "rls_tenant s = Some (at_tenant old)"
    and free: "\<forall>q\<in>set (assessment_attempts (working s)). at_id q \<noteq> at_id t \<longrightarrow> \<not> assessment_attempt_clash q t"
    and d': "assessment_attempts d' = replace_where
        (\<lambda>q. at_id q = at_id t \<and> rls_tenant s = Some (at_tenant q)) (\<lambda>_. t)
        (assessment_attempts (working s))" "assessment_results d' = assessment_results (working n)"
  shows "evaluated_ok d' p'"
proof -
  let ?ts = "assessment_attempts (working s)"
  from inv have uniq: "unique_rows assessment_attempts_table ?ts"
    "unique_rows assessment_results_table (assessment_results (working s))"
    by (simp_all add: evaluated_ok_def)
  have mem: "q \<in> set (assessment_attempts d') \<longleftrightarrow> q = t \<or> (q \<in> set ?ts \<and> at_id q \<noteq> at_id t)" for q
    unfolding d' using assessment_attempts_tbl.mem_replaced [OF uniq(1) old(1), of t
        "\<lambda>q. rls_tenant s = Some (at_tenant q)" q] old by simp
  have "unique_rows assessment_attempts_table (assessment_attempts d')"
    unfolding d' using assessment_attempts_tbl.unique_replace [OF uniq(1), of t
        "\<lambda>q. rls_tenant s = Some (at_tenant q)"] free by simp
  moreover have "unique_rows assessment_results_table (assessment_results d') \<and>
    (\<forall>q\<in>set (assessment_attempts d'). at_status q = AT_EVALUATED \<longrightarrow>
       (\<exists>r\<in>set (assessment_results d'). rs_attempt r = at_id q \<and> at_score q = Some (rs_score r)))"
  proof (cases "at_status t = AT_EVALUATED")
    case True
    with closed obtain r where r: "rs_attempt r = at_id t" "at_score t = Some (rs_score r)"
      and rec: "result_recorded r s n" by (auto simp: closing_def)
    note res = result_recorded_unique [OF rec uniq(2)]
    have "\<exists>r'\<in>set (assessment_results (working n)). rs_attempt r' = at_id q \<and> at_score q = Some (rs_score r')"
      if "q \<in> set ?ts" "at_id q \<noteq> at_id t" "at_status q = AT_EVALUATED" for q
    proof -
      from inv that obtain r' where r': "r' \<in> set (assessment_results (working s))"
        "rs_attempt r' = at_id q" "at_score q = Some (rs_score r')"
        by (auto simp: evaluated_ok_def)
      with that(2) r(1) have "r' \<in> set (assessment_results (working n))" by (intro res(3)) auto
      with r' show ?thesis by blast
    qed
    with res(1,2) r show ?thesis by (auto simp: d'(2) mem)
  next
    case False
    with closed have "assessment_results (working n) = assessment_results (working s)"
      by (simp add: closing_def)
    with False inv show ?thesis by (auto simp: d'(2) mem evaluated_ok_def)
  qed
  ultimately show ?thesis by (simp add: evaluated_ok_def)
qed

lemma start_attempt_evaluated:
  assumes "start_attempt ctx pr i q s = (Inr t, s')" "evaluated_ok (working s) p" "committed s = working s"
  shows "evaluated_ok (committed s') p'"
  using assms(1)
proof (cases rule: start_attemptE)
  case existing
  with assms(2,3) show ?thesis by (simp add: evaluated_ok_def)
next
  case fresh
  with assms(2) assessment_attempts_tbl.unique_append [of "assessment_attempts (working s)" t]
  show ?thesis by (auto simp: evaluated_ok_def opened_def)
qed

lemma submit_attempt_evaluated:
  assumes "submit_attempt ctx pr i q s = (Inr t, s')" "evaluated_ok (working s) p" "committed s = working s"
  shows "evaluated_ok (committed s') p'"
  using assms(1)
proof (cases rule: submit_attemptE)
  case closed
  with assms(2,3) show ?thesis by (simp add: evaluated_ok_def)
next
  case (submitted old n)
  have "assessment_attempts (working n) = assessment_attempts (working s)"
    using submitted(11) by (simp add: closing_def same_attempts_def)
  with submitted(15) show ?thesis
    by (intro closing_evaluated [OF assms(2) submitted(11,1,5,4,14)]) simp_all
qed

lemma attempt_unchanged_key:
  "unique_rows assessment_attempts_table ts \<Longrightarrow> old \<in> set ts \<Longrightarrow>
   \<forall>q\<in>set ts. at_id q \<noteq> at_id old \<longrightarrow>
     \<not> assessment_attempt_clash q (old\<lparr>at_score := sc, at_status := st\<rparr>)"
  by (auto simp: unique_rows_def assessment_attempt_clash_def)

lemma evaluate_answer_evaluated:
  assumes "evaluate_answer ctx pr i q s = (Inr x, s')" "evaluated_ok (working s) p"
  shows "evaluated_ok (committed s') p'"
  using assms(1)
proof (cases rule: evaluate_answerE)
  case (1 a q' n)
  from 1(8) show ?thesis
  proof (elim disjE exE conjE)
    assume "assessment_attempts (committed s') = assessment_attempts (working s)" "n = s"
    with 1(9) assms(2) show ?thesis by (simp add: evaluated_ok_def)
  next
    fix old t
    assume t: "old \<in> set (assessment_attempts (working s))" "t = old\<lparr>at_score := at_score t, at_status := AT_EVALUATED\<rparr>"
      "closing t s n" "rls_tenant s = Some (at_tenant old)" and d': "assessment_attempts (committed s') =
        replace_where (\<lambda>q. at_id q = at_id t \<and> rls_tenant s = Some (at_tenant q)) (\<lambda>_. t)
        (assessment_attempts (working s))"
    from t(2) have key: "at_id t = at_id old" by (metis assessment_attempt.select_convs(1)
          assessment_attempt.update_convs(5,8) assessment_attempt.surjective)
    have "\<forall>q\<in>set (assessment_attempts (working s)). at_id q \<noteq> at_id t \<longrightarrow> \<not> assessment_attempt_clash q t"
      unfolding key by (subst t(2), rule attempt_unchanged_key)
        (use assms(2) t(1) in \<open>simp_all add: evaluated_ok_def\<close>)
    then show ?thesis
      by (rule closing_evaluated [OF assms(2) t(3,1) key t(4) _ d' 1(9)])
  qed
qed

text \<open>Publishing changes the status of the results only.\<close>

abbreviation result_core :: "assessment_result \<Rightarrow> uuid \<times> uuid \<times> uuid \<times> uuid \<times> uuid \<times> rat" where
  "result_core r \<equiv> (rs_id r, rs_tenant r, rs_assessment r, rs_student r, rs_attempt r, rs_score r)"

lemma publish_results_run:
  assumes "publish_results ctx pr i s = (Inr y, s')"
    and "unique_rows assessment_results_table (assessment_results (working s))"
  shows "assessment_attempts (committed s') = assessment_attempts (working s)"
    "map result_core (assessment_results (committed s')) = map result_core (assessment_results (working s))"
proof -
  let ?f = "\<lambda>r. r\<lparr>rs_status := R_PUBLISHED, rs_published_at := Some (clock (proc s))\<rparr>"
  from assms(1) obtain tenant a where ctx: "ctx_tenant ctx = Some tenant" and a:
    "lookup assessments_table (\<lambda>r. as_tenant r = tenant \<and> as_id r = i \<and> as_deleted_at r = None) s = Some a"
    by (auto simp: publish_results_def assess_tx_inv)
  from assessments_tbl.lookup_own [OF a] have own: "as_id a = i" by simp
  let ?xs = "filter (\<lambda>r. rls_tenant s = Some (rs_tenant r) \<and> rs_tenant r = tenant \<and> rs_assessment r = i)
    (assessment_results (working s))"
  have "publish_results ctx pr i s = (if ?xs = [] then abort ''assessment_results_not_ready'' 409
      else bind_tx (save_row assessments_table (a\<lparr>as_status := AS_PUBLISHED\<rparr>)) (\<lambda>updated.
        bind_tx (for_each (\<lambda>r. save_row assessment_results_table (?f r)) ?xs) (\<lambda>published.
        bind_tx commit_tx (\<lambda>_.
        bind_tx (publish_event ''assessment.results.published'' ctx pr i) (\<lambda>_.
        return_tx (updated, published)))))) s"
    by (cases "?xs = []"; simp add: publish_results_def get_assessment_or_raise_def
        assessment_get_for_tenant_def results_for_assessment_def tx_query ctx a own Let_def)
  from this [symmetric, unfolded assms(1)] obtain u n zs m where
    "save_row assessments_table (a\<lparr>as_status := AS_PUBLISHED\<rparr>) s = (Inr u, n)"
    and each: "for_each (\<lambda>r. save_row assessment_results_table (?f r)) ?xs n = (Inr zs, m)"
    and m: "assessment_attempts (committed s') = assessment_attempts (working m)"
      "assessment_results (committed s') = assessment_results (working m)"
    by (auto simp: tx_steps split: if_split_asm)
  then have n: "assessment_attempts (working n) = assessment_attempts (working s)"
      "assessment_results (working n) = assessment_results (working s)"
    by (simp_all add: save_row_Inr_iff)
  have "keeps (\<lambda>u. assessment_attempts (working u) = assessment_attempts (working s))
    (for_each (\<lambda>r. save_row assessment_results_table (?f r)) xs)" for xs
    by (intro keeps_for_each) (simp add: keeps_def save_row_def)
  from keepsD [OF this _ each] n(1) m(1)
  show "assessment_attempts (committed s') = assessment_attempts (working s)" by simp
  from assessment_results_tbl.save_each_projection [where g = result_core, OF each, of "assessment_results (working s)"]
  show "map result_core (assessment_results (committed s')) = map result_core (assessment_results (working s))"
    using assms(2) n(2) m(2) by (auto simp: unique_rows_def)
qed

lemma publish_results_evaluated:
  assumes "publish_results ctx pr i s = (Inr y, s')" "evaluated_ok (working s) p"
  shows "evaluated_ok (committed s') p'"
proof -
  let ?rs = "assessment_results (working s)" and ?rs' = "assessment_results (committed s')"
  from assms(2) have uniq: "unique_rows assessment_results_table ?rs" by (simp add: evaluated_ok_def)
  note run = publish_results_run [OF assms(1) uniq]
  have "\<exists>r\<in>set ?rs'. rs_attempt r = rs_attempt q \<and> rs_score r = rs_score q" if "q \<in> set ?rs" for q
    using map_eq_twin [OF run(2) that] by auto
  moreover have "unique_rows assessment_results_table ?rs'"
    by (rule unique_rows_projection [OF run(2) uniq]) (auto simp: assessment_result_clash_def)
  ultimately show ?thesis
    using assms(2) run(1) unfolding evaluated_ok_def by fastforce
qed

lemma assess_serve_evaluated:
  assumes "evaluated_ok d p" "serve (assess_handle c) d p = (r, d', p')"
  shows "evaluated_ok d' p'"
proof -
  note run = assms(2) [unfolded assess_handle_def]
  note ok = serve_call_ok [OF atomic_assess_handle [unfolded assess_handle_def]
      keeps_fresh_assess [unfolded assess_handle_def] proc_stable_evaluated_ok assms(1) _ run]
  note frame = serve_call_frame [where P = evaluated_ok, OF _ assms(1) run]
  have tables: "tx_ok (both evaluated_ok)" "table_ok (both evaluated_ok) assessments_table"
    "table_ok (both evaluated_ok) assessment_sections_table"
    "table_ok (both evaluated_ok) assessment_questions_table"
    "table_ok (both evaluated_ok) assessment_answers_table"
    by (simp_all add: tx_ok_both proc_stable_evaluated_ok table_ok_both framed_def evaluated_ok_def)
  show ?thesis
  proof (cases "cl_request c")
    case (Start_Attempt i q)
    then show ?thesis by (intro ok) (use assms(1) in \<open>auto simp: discard_Inr dest: start_attempt_evaluated\<close>)
  next
    case (Submit_Attempt i q)
    then show ?thesis by (intro ok) (use assms(1) in \<open>auto simp: discard_Inr dest: submit_attempt_evaluated\<close>)
  next
    case (Evaluate_Answer i q)
    then show ?thesis
      by (intro ok) (use assms(1) in \<open>auto simp: validated_Inr discard_Inr dest: evaluate_answer_evaluated\<close>)
  next
    case (Publish_Results i)
    then show ?thesis by (intro ok) (use assms(1) in \<open>auto simp: discard_Inr dest: publish_results_evaluated\<close>)
  qed (auto intro!: frame keeps_discard keeps_validated keeps_assess_reads keeps_assess_writes tables)
qed

section \<open>Attempts only advance, answers stay\<close>

fun attempt_rank :: "attempt_status \<Rightarrow> nat" where
  "attempt_rank AT_STARTED = 0"
| "attempt_rank AT_SUBMITTED = 1"
| "attempt_rank AT_AUTO_SUBMITTED = 1"
| "attempt_rank AT_EVALUATED = 2"

lemma attempt_rank_le: "attempt_rank st \<le> 2"
  by (cases st) simp_all

lemma terminal_rank: "terminal_attempt st \<longleftrightarrow> 0 < attempt_rank st"
  by (cases st) (simp_all add: terminal_attempt_def)

text \<open>The later row of an attempt, and of an answer.\<close>

definition attempt_after :: "assessment_attempt \<Rightarrow> assessment_attempt \<Rightarrow> bool" where
  "attempt_after t0 t \<longleftrightarrow> at_id t = at_id t0 \<and> at_tenant t = at_tenant t0 \<and>
     at_assessment t = at_assessment t0 \<and> at_student t = at_student t0 \<and>
     attempt_rank (at_status t0) \<le> attempt_rank (at_status t) \<and>
     (terminal_attempt (at_status t0) \<longrightarrow> at_submitted_at t = at_submitted_at t0)"

definition answer_after :: "assessment_answer \<Rightarrow> assessment_answer \<Rightarrow> bool" where
  "answer_after a0 a \<longleftrightarrow> an_id a = an_id a0 \<and> an_tenant a = an_tenant a0 \<and>
     an_attempt a = an_attempt a0 \<and> an_assessment_question a = an_assessment_question a0 \<and>
     an_answer a = an_answer a0"

lemma attempt_after_refl [simp]: "attempt_after t t"
  by (simp add: attempt_after_def)

lemma answer_after_refl [simp]: "answer_after a a"
  by (simp add: answer_after_def)

lemma attempt_after_trans: "attempt_after t u \<Longrightarrow> attempt_after u v \<Longrightarrow> attempt_after t v"
  by (auto simp: attempt_after_def terminal_rank)

lemma answer_after_trans: "answer_after a b \<Longrightarrow> answer_after b c \<Longrightarrow> answer_after a c"
  by (simp add: answer_after_def)

text \<open>
  From \<open>d0\<close> to \<open>d\<close>: no attempt is lost or goes back, no answer is lost or rewritten, and an attempt
  that was closed in \<open>d0\<close> has no further answers.
\<close>

definition advanced :: "db \<Rightarrow> db \<Rightarrow> process \<Rightarrow> bool" where
  "advanced d0 d p \<longleftrightarrow> unique_rows assessment_attempts_table (assessment_attempts d) \<and>
     (\<forall>t0\<in>set (assessment_attempts d0). \<exists>t\<in>set (assessment_attempts d). attempt_after t0 t) \<and>
     (\<forall>a0\<in>set (assessment_answers d0). \<exists>a\<in>set (assessment_answers d). answer_after a0 a) \<and>
     (\<forall>t0\<in>set (assessment_attempts d0). terminal_attempt (at_status t0) \<longrightarrow>
       (\<forall>a\<in>set (assessment_answers d). an_attempt a = at_id t0 \<longrightarrow>
         (\<exists>a0\<in>set (assessment_answers d0). answer_after a0 a)))"

lemma advancedD:
  assumes "advanced d0 d p"
  shows "\<forall>t0\<in>set (assessment_attempts d0). \<exists>t\<in>set (assessment_attempts d). attempt_after t0 t"
    "\<forall>a0\<in>set (assessment_answers d0). \<exists>a\<in>set (assessment_answers d). answer_after a0 a"
    "\<forall>t0\<in>set (assessment_attempts d0). terminal_attempt (at_status t0) \<longrightarrow>
       (\<forall>a\<in>set (assessment_answers d). an_attempt a = at_id t0 \<longrightarrow>
         (\<exists>a0\<in>set (assessment_answers d0). answer_after a0 a))"
  using assms by (simp_all add: advanced_def)

lemma proc_stable_advanced: "proc_stable (advanced d0)"
  by (simp add: proc_stable_def advanced_def)

lemma advanced_refl: "unique_rows assessment_attempts_table (assessment_attempts d) \<Longrightarrow> advanced d d p"
  unfolding advanced_def by (auto intro: attempt_after_refl answer_after_refl)

text \<open>The attempts are replaced by later rows, the answers too.\<close>

lemma advanced_step:
  assumes "advanced d0 d p"
    and "unique_rows assessment_attempts_table (assessment_attempts d')"
    and "\<And>t. t \<in> set (assessment_attempts d) \<Longrightarrow> \<exists>t'\<in>set (assessment_attempts d'). attempt_after t t'"
    and "\<And>a. a \<in> set (assessment_answers d) \<Longrightarrow> \<exists>a'\<in>set (assessment_answers d'). answer_after a a'"
    and "\<And>a. a \<in> set (assessment_answers d') \<Longrightarrow> \<exists>a0\<in>set (assessment_answers d). answer_after a0 a"
  shows "advanced d0 d' p'"
  unfolding advanced_def
proof (intro conjI ballI impI)
  show "unique_rows assessment_attempts_table (assessment_attempts d')" by (rule assms(2))
next
  fix t0 assume "t0 \<in> set (assessment_attempts d0)"
  with assms(1,3) show "\<exists>t\<in>set (assessment_attempts d'). attempt_after t0 t"
    unfolding advanced_def by (meson attempt_after_trans)
next
  fix a0 assume "a0 \<in> set (assessment_answers d0)"
  with assms(1,4) show "\<exists>a\<in>set (assessment_answers d'). answer_after a0 a"
    unfolding advanced_def by (meson answer_after_trans)
next
  fix t0 a assume t0: "t0 \<in> set (assessment_attempts d0)" "terminal_attempt (at_status t0)"
    and a: "a \<in> set (assessment_answers d')" "an_attempt a = at_id t0"
  from assms(5) [OF a(1)] obtain a1 where a1: "a1 \<in> set (assessment_answers d)" "answer_after a1 a" ..
  with a(2) have "an_attempt a1 = at_id t0" by (simp add: answer_after_def)
  with a1 t0 assms(1) show "\<exists>a0\<in>set (assessment_answers d0). answer_after a0 a"
    unfolding advanced_def by (meson answer_after_trans)
qed

lemma replaced_attempts:
  assumes "unique_rows assessment_attempts_table ts" "old \<in> set ts" "at_id t = at_id old" "c old"
    and "\<forall>q\<in>set ts. at_id q \<noteq> at_id t \<longrightarrow> \<not> assessment_attempt_clash q t" "attempt_after old t"
  shows "unique_rows assessment_attempts_table (replace_where (\<lambda>q. at_id q = at_id t \<and> c q) (\<lambda>_. t) ts)"
    "q \<in> set ts \<Longrightarrow> \<exists>q'\<in>set (replace_where (\<lambda>q. at_id q = at_id t \<and> c q) (\<lambda>_. t) ts). attempt_after q q'"
proof -
  show "unique_rows assessment_attempts_table (replace_where (\<lambda>q. at_id q = at_id t \<and> c q) (\<lambda>_. t) ts)"
    using assessment_attempts_tbl.unique_replace [OF assms(1), of t c] assms(5) by simp
  assume q: "q \<in> set ts"
  show "\<exists>q'\<in>set (replace_where (\<lambda>q. at_id q = at_id t \<and> c q) (\<lambda>_. t) ts). attempt_after q q'"
  proof (cases "at_id q = at_id t")
    case True
    with unique_rows_key [OF assms(1) q assms(2)] assms(3) have "q = old" by simp
    with assms(2-4,6) show ?thesis by (auto simp: set_replace_where)
  next
    case False
    with q show ?thesis by (intro bexI [of _ q]) (auto simp: set_replace_where)
  qed
qed

lemma start_attempt_advanced:
  assumes "start_attempt ctx pr i q s = (Inr t, s')" "advanced d0 (working s) p" "committed s = working s"
  shows "advanced d0 (committed s') p'"
  using assms(1)
proof (cases rule: start_attemptE)
  case existing
  with assms(2,3) show ?thesis by (simp add: advanced_def)
next
  case fresh
  with assms(2) assessment_attempts_tbl.unique_append [of "assessment_attempts (working s)" t]
  show ?thesis
    by (intro advanced_step [OF assms(2)])
      (auto simp: advanced_def intro: attempt_after_refl answer_after_refl)
qed

lemma submit_answer_advanced:
  assumes "submit_answer ctx pr i q s = (Inr a, s')" "advanced d0 (working s) p" "committed s = working s"
  shows "advanced d0 (committed s') p'"
  using assms(1)
proof (cases rule: submit_answerE)
  case replay
  with assms(2,3) show ?thesis by (simp add: advanced_def)
next
  case (fresh t q)
  have uniq: "unique_rows assessment_attempts_table (assessment_attempts (working s))"
    using assms(2) by (simp add: advanced_def)
  have "an_attempt a \<noteq> at_id t0" if t0: "t0 \<in> set (assessment_attempts d0)" "terminal_attempt (at_status t0)" for t0
  proof
    assume same: "an_attempt a = at_id t0"
    from t0(1) assms(2) obtain u where u: "u \<in> set (assessment_attempts (working s))" "attempt_after t0 u"
      unfolding advanced_def by blast
    with same fresh(3,4) have "at_id u = at_id t" by (simp add: attempt_after_def)
    with unique_rows_key [OF uniq u(1) fresh(1)] have "u = t" by simp
    with u(2) t0(2) fresh(2) show False by (simp add: attempt_after_def terminal_rank)
  qed
  with assms(2) fresh(12) show ?thesis unfolding advanced_def by auto
qed

lemma submit_attempt_advanced:
  assumes "submit_attempt ctx pr i q s = (Inr t, s')" "advanced d0 (working s) p" "committed s = working s"
  shows "advanced d0 (committed s') p'"
  using assms(1)
proof (cases rule: submit_attemptE)
  case closed
  with assms(2,3) show ?thesis by (simp add: advanced_def)
next
  case (submitted old n)
  have after: "attempt_after old t"
    using submitted(3,5-8) by (simp add: attempt_after_def terminal_attempt_def)
  have n: "assessment_attempts (working n) = assessment_attempts (working s)"
    "assessment_answers (working n) = assessment_answers (working s)"
    using submitted(11) by (simp_all add: closing_def same_attempts_def)
  have uniq: "unique_rows assessment_attempts_table (assessment_attempts (working s))"
    using assms(2) by (simp add: advanced_def)
  note rep = replaced_attempts [OF uniq submitted(1,5), of "\<lambda>q. rls_tenant s = Some (at_tenant q)",
      OF submitted(4,14) after]
  show ?thesis
    by (rule advanced_step [OF assms(2)]; use submitted(15) n rep in \<open>auto intro: answer_after_refl\<close>)
qed

lemma evaluated_row:
  assumes "t = old\<lparr>at_score := sc, at_status := AT_EVALUATED\<rparr>"
  shows "at_id t = at_id old"
    "unique_rows assessment_attempts_table ts \<Longrightarrow> old \<in> set ts \<Longrightarrow>
     \<forall>q\<in>set ts. at_id q \<noteq> at_id t \<longrightarrow> \<not> assessment_attempt_clash q t"
    "attempt_after old t"
  by (auto simp: assms unique_rows_def assessment_attempt_clash_def attempt_after_def
      intro: le_trans [OF attempt_rank_le])

lemma evaluate_answer_advanced:
  assumes "evaluate_answer ctx pr i q s = (Inr x, s')" "advanced d0 (working s) p"
    and "unique_rows assessment_answers_table (assessment_answers (working s))"
  shows "advanced d0 (committed s') p'"
  using assms(1)
proof (cases rule: evaluate_answerE)
  case (1 a q' n)
  let ?ts = "assessment_attempts (working s)" and ?xs = "assessment_answers (working s)"
  have uniq: "unique_rows assessment_attempts_table ?ts"
    using assms(2) by (simp add: advanced_def)
  have x: "an_id x = an_id a" "answer_after a x" by (simp_all add: 1(7) answer_after_def)
  have mem: "y \<in> set (assessment_answers (committed s')) \<longleftrightarrow> y = x \<or> (y \<in> set ?xs \<and> an_id y \<noteq> an_id a)" for y
    using assessment_answers_tbl.mem_replaced [OF assms(3) 1(1), of x
        "\<lambda>y. rls_tenant s = Some (an_tenant y)" y] 1(6) x(1) unfolding 1(13) by simp
  have fwd: "\<exists>y'\<in>set (assessment_answers (committed s')). answer_after y y'" if "y \<in> set ?xs" for y
  proof (cases "an_id y = an_id a")
    case True
    with unique_rows_key [OF assms(3) that 1(1)] x(2) show ?thesis by (auto simp: mem)
  next
    case False
    with that show ?thesis by (intro bexI [of _ y]) (auto simp: mem)
  qed
  have bwd: "\<exists>y\<in>set ?xs. answer_after y y'" if "y' \<in> set (assessment_answers (committed s'))" for y'
    using that 1(1) x(2) by (auto simp: mem intro: answer_after_refl)
  have "unique_rows assessment_attempts_table (assessment_attempts (committed s')) \<and>
    (\<forall>u\<in>set ?ts. \<exists>u'\<in>set (assessment_attempts (committed s')). attempt_after u u')"
    using 1(8)
  proof (elim disjE exE conjE)
    assume "assessment_attempts (committed s') = ?ts"
    with uniq show ?thesis by (auto intro: attempt_after_refl)
  next
    fix old t
    assume t: "old \<in> set ?ts" "at_status old \<in> {AT_SUBMITTED, AT_AUTO_SUBMITTED}"
      "t = old\<lparr>at_score := at_score t, at_status := AT_EVALUATED\<rparr>" "rls_tenant s = Some (at_tenant old)"
      and d': "assessment_attempts (committed s') =
        replace_where (\<lambda>q. at_id q = at_id t \<and> rls_tenant s = Some (at_tenant q)) (\<lambda>_. t) ?ts"
    note row = evaluated_row [OF t(3)]
    from row(3) t(2) have "attempt_after old t" by auto
    from replaced_attempts [OF uniq t(1) row(1), of "\<lambda>q. rls_tenant s = Some (at_tenant q)",
        OF t(4) row(2) [OF uniq t(1)] this] d'
    show ?thesis by auto
  qed
  then show ?thesis
    by (intro advanced_step [OF assms(2) _ _ fwd bwd]) auto
qed

text \<open>The identifiers of the answers stay unique as well.\<close>

definition frozen :: "db \<Rightarrow> db \<Rightarrow> process \<Rightarrow> bool" where
  "frozen d0 d p \<longleftrightarrow> unique_rows assessment_answers_table (assessment_answers d) \<and> advanced d0 d p"

lemma proc_stable_frozen: "proc_stable (frozen d0)"
  by (simp add: proc_stable_def frozen_def advanced_def)

lemma submit_answer_unique:
  assumes "submit_answer ctx pr i q s = (Inr a, s')" "committed s = working s"
    and "unique_rows assessment_answers_table (assessment_answers (working s))"
  shows "unique_rows assessment_answers_table (assessment_answers (committed s'))"
  using assms(1)
proof (cases rule: submit_answerE)
  case replay
  with assms(2,3) show ?thesis by simp
next
  case (fresh t q)
  with assessment_answers_tbl.unique_append [OF assms(3), of a] show ?thesis by simp
qed

lemma evaluate_answer_unique:
  assumes "evaluate_answer ctx pr i q s = (Inr x, s')"
    and "unique_rows assessment_answers_table (assessment_answers (working s))"
  shows "unique_rows assessment_answers_table (assessment_answers (committed s'))"
  using assms(1)
proof (cases rule: evaluate_answerE)
  case (1 a q' n)
  have "\<forall>y\<in>set (assessment_answers (working s)). an_id y \<noteq> an_id x \<longrightarrow> \<not> assessment_answer_clash y x"
    using assms(2) 1(1,7) by (auto simp: unique_rows_def assessment_answer_clash_def)
  with assessment_answers_tbl.unique_replace [OF assms(2), of x "\<lambda>y. rls_tenant s = Some (an_tenant y)"]
  show ?thesis by (simp add: 1(13))
qed

lemma start_attempt_answers:
  "start_attempt ctx pr i q s = (Inr t, s') \<Longrightarrow> committed s = working s \<Longrightarrow>
   assessment_answers (committed s') = assessment_answers (working s)"
  by (erule start_attemptE) simp_all

text \<open>After a successful submission the attempt is stored, closed.\<close>

lemma submit_attempt_stored:
  assumes "submit_attempt ctx pr i q s = (Inr t, s')" "committed s = working s"
    and "unique_rows assessment_attempts_table (assessment_attempts (working s))"
  shows "t \<in> set (assessment_attempts (committed s')) \<and> at_id t = i \<and> terminal_attempt (at_status t) \<and>
    ctx_tenant ctx = Some (at_tenant t) \<and> rls_tenant s = Some (at_tenant t) \<and>
    unique_rows assessment_attempts_table (assessment_attempts (committed s'))"
  using assms(1)
proof (cases rule: submit_attemptE)
  case closed
  with assms(2,3) show ?thesis by simp
next
  case (submitted old n)
  have n: "assessment_attempts (working n) = assessment_attempts (working s)"
    using submitted(11) by (simp add: closing_def same_attempts_def)
  with assessment_attempts_tbl.mem_replaced [OF assms(3) submitted(1), of t
      "\<lambda>q. rls_tenant s = Some (at_tenant q)" t]
    assessment_attempts_tbl.unique_replace [OF assms(3), of t "\<lambda>q. rls_tenant s = Some (at_tenant q)"]
    submitted show ?thesis by simp
qed

lemma submit_attempt_answers:
  "submit_attempt ctx pr i q s = (Inr t, s') \<Longrightarrow> committed s = working s \<Longrightarrow>
   assessment_answers (committed s') = assessment_answers (working s)"
  by (erule submit_attemptE) (simp_all add: closing_def same_attempts_def)

lemma assess_serve_frozen:
  assumes "frozen d0 d p" "serve (assess_handle c) d p = (r, d', p')"
  shows "frozen d0 d' p'"
proof -
  note run = assms(2) [unfolded assess_handle_def]
  note ok = serve_call_ok [OF atomic_assess_handle [unfolded assess_handle_def]
      keeps_fresh_assess [unfolded assess_handle_def] proc_stable_frozen assms(1) _ run]
  note frame = serve_call_frame [where P = "frozen d0", OF _ assms(1) run]
  have tables: "tx_ok (both (frozen d0))" "table_ok (both (frozen d0)) assessments_table"
    "table_ok (both (frozen d0)) assessment_sections_table"
    "table_ok (both (frozen d0)) assessment_questions_table"
    "table_ok (both (frozen d0)) assessment_results_table"
    by (simp_all add: tx_ok_both proc_stable_frozen table_ok_both framed_def frozen_def advanced_def)
  show ?thesis
  proof (cases "cl_request c")
    case (Start_Attempt i q)
    then show ?thesis
      by (intro ok) (use assms(1) in \<open>auto simp: frozen_def discard_Inr start_attempt_answers
          dest: start_attempt_advanced\<close>)
  next
    case (Submit_Answer i q)
    then show ?thesis
      by (intro ok) (use assms(1) in \<open>auto simp: frozen_def discard_Inr
          dest: submit_answer_advanced submit_answer_unique\<close>)
  next
    case (Submit_Attempt i q)
    then show ?thesis
      by (intro ok) (use assms(1) in \<open>auto simp: frozen_def discard_Inr submit_attempt_answers
          dest: submit_attempt_advanced\<close>)
  next
    case (Evaluate_Answer i q)
    then show ?thesis
      by (intro ok) (use assms(1) in \<open>auto simp: frozen_def validated_Inr discard_Inr
          dest: evaluate_answer_advanced evaluate_answer_unique\<close>)
  qed (auto intro!: frame keeps_discard keeps_validated keeps_assess_reads keeps_assess_writes tables)
qed

interpretation assess_history: service assess_handle "frozen d0" for d0
proof
  show "frozen d0 d p \<Longrightarrow> serve (assess_handle c) d p = (r, d', p') \<Longrightarrow> frozen d0 d' p'" for d p c r d' p'
    by (rule assess_serve_frozen)
  show "frozen d0 d p \<Longrightarrow> clock p \<le> t \<Longrightarrow> frozen d0 d (p\<lparr>clock := t\<rparr>)" for d p t
    by (simp add: frozen_def advanced_def)
qed

section \<open>Scores are within the marks\<close>

definition marks_ok :: "rat \<Rightarrow> rat \<Rightarrow> bool" where
  "marks_ok marks negative \<longleftrightarrow> 0 \<le> marks \<and> cents marks \<and> 0 \<le> negative \<and> cents negative"

definition score_ok :: "assessment_question list \<Rightarrow> assessment_answer \<Rightarrow> bool" where
  "score_ok aqs a \<longleftrightarrow> (\<forall>q\<in>set aqs. aq_id q = an_assessment_question a \<longrightarrow>
     (case an_score a of None \<Rightarrow> True | Some sc \<Rightarrow> - aq_negative_marks q \<le> sc \<and> sc \<le> aq_marks q \<and> cents sc))"

text \<open>The bank the questions are copied from: marks of the questions and of the overrides.\<close>

definition bank_ok :: "db \<Rightarrow> bool" where
  "bank_ok d \<longleftrightarrow> (\<forall>q\<in>set (questions d). marks_ok (qu_marks q) (qu_negative_marks q)) \<and>
     (\<forall>i\<in>set (question_set_items d). case qi_marks_override i of None \<Rightarrow> True | Some m \<Rightarrow> 0 \<le> m \<and> cents m)"

definition scores_ok :: "db \<Rightarrow> process \<Rightarrow> bool" where
  "scores_ok d p \<longleftrightarrow> bank_ok d \<and> unique_rows assessment_questions_table (assessment_questions d) \<and>
     (\<forall>q\<in>set (assessment_questions d). marks_ok (aq_marks q) (aq_negative_marks q) \<and>
       aq_id q < uuid_supply p) \<and>
     (\<forall>a\<in>set (assessment_answers d). an_assessment_question a < uuid_supply p \<and>
       score_ok (assessment_questions d) a)"

lemma proc_stable_scores_ok: "proc_stable scores_ok"
  unfolding proc_stable_def scores_ok_def by (meson less_le_trans)

lemma submit_answer_scores:
  assumes "submit_answer ctx pr i q s = (Inr a, s')" "scores_ok (working s) (proc s)"
    and "committed s = working s"
  shows "scores_ok (committed s') (proc s')"
  using assms(1)
proof (cases rule: submit_answerE)
  case replay
  with assms(2,3) show ?thesis by simp
next
  case (fresh t q)
  from assms(2) have uniq: "unique_rows assessment_questions_table (assessment_questions (working s))"
    and q: "marks_ok (aq_marks q) (aq_negative_marks q)" "aq_id q < uuid_supply (proc s)"
    using fresh(5) by (auto simp: scores_ok_def)
  have "score_ok (assessment_questions (working s)) a"
    unfolding score_ok_def
  proof (intro ballI impI)
    fix x assume "x \<in> set (assessment_questions (working s))" "aq_id x = an_assessment_question a"
    with unique_rows_key [OF uniq _ fresh(5), of x] fresh(6) have "x = q" by simp
    with fresh(10) q(1) show "case an_score a of None \<Rightarrow> True
        | Some sc \<Rightarrow> - aq_negative_marks x \<le> sc \<and> sc \<le> aq_marks x \<and> cents sc"
      by (auto simp: marks_ok_def)
  qed
  with assms(2) fresh(6,12,13) q(2) show ?thesis
    by (auto simp: scores_ok_def bank_ok_def less_Suc_eq)
qed

lemma quantized_score:
  assumes "0 \<le> x" "x \<le> marks" "marks_ok marks negative"
  shows "- negative \<le> quantize2 x \<and> quantize2 x \<le> marks \<and> cents (quantize2 x)"
proof -
  have "quantize2 x \<le> quantize2 marks" by (rule quantize2_mono [OF assms(2)])
  moreover have "quantize2 0 \<le> quantize2 x" by (rule quantize2_mono [OF assms(1)])
  moreover have "quantize2 0 = 0" "quantize2 marks = marks"
    using assms(3) cents_0 by (simp_all add: marks_ok_def cents_def)
  ultimately show ?thesis using assms(3) by (simp add: marks_ok_def)
qed

lemma evaluate_answer_scores:
  assumes "evaluate_answer ctx pr i q s = (Inr x, s')" "manual_evaluation_valid q"
    and "scores_ok (working s) (proc s)"
  shows "scores_ok (committed s') (proc s')"
  using assms(1)
proof (cases rule: evaluate_answerE)
  case (1 a q' n)
  from assms(3) have uniq: "unique_rows assessment_questions_table (assessment_questions (working s))"
    and q': "marks_ok (aq_marks q') (aq_negative_marks q')"
    and a: "an_assessment_question a < uuid_supply (proc s)"
    using 1(1,3) by (auto simp: scores_ok_def)
  have "score_ok (assessment_questions (working s)) x"
    unfolding score_ok_def
  proof (intro ballI impI)
    fix y assume "y \<in> set (assessment_questions (working s))" "aq_id y = an_assessment_question x"
    with unique_rows_key [OF uniq _ 1(3), of y] 1(4,7) have "y = q'" by simp
    with quantized_score [OF _ 1(5) q'] assms(2) 1(7) show "case an_score x of None \<Rightarrow> True
        | Some sc \<Rightarrow> - aq_negative_marks y \<le> sc \<and> sc \<le> aq_marks y \<and> cents sc"
      by (simp add: manual_evaluation_valid_def)
  qed
  moreover have "an_assessment_question x < uuid_supply (proc s)" using a 1(7) by simp
  ultimately have "an_assessment_question y < uuid_supply (proc s) \<and>
      score_ok (assessment_questions (working s)) y"
    if "y \<in> set (assessment_answers (committed s'))" for y
    using that assms(3) by (auto simp: 1(13) set_replace_where scores_ok_def)
  then show ?thesis
    using assms(3) 1(10-12,14) unfolding scores_ok_def bank_ok_def by (auto intro: less_le_trans)
qed

text \<open>Copying a question set: each copy is fresh and carries marks of the bank.\<close>

definition item_ok :: "question_set_item \<times> question option \<Rightarrow> bool" where
  "item_ok x \<longleftrightarrow> (case snd x of None \<Rightarrow> True | Some q \<Rightarrow> marks_ok (qu_marks q) (qu_negative_marks q)) \<and>
     (case qi_marks_override (fst x) of None \<Rightarrow> True | Some m \<Rightarrow> 0 \<le> m \<and> cents m)"

lemma copied_question_ok:
  assumes "item_ok (item, Some q)"
  shows "marks_ok (aq_marks (copied_question i t a sec item q))
    (aq_negative_marks (copied_question i t a sec item q))"
  using assms by (auto simp: item_ok_def copied_question_def marks_ok_def split: option.splits)

lemma insert_copy_ok:
  assumes "item_ok (item, Some q)"
  shows "keeps (both scores_ok) (bind_tx uuid4 (\<lambda>i. insert_row assessment_questions_table
    (copied_question i t a sec item q)))"
  unfolding keeps_def
proof (intro allI impI)
  fix s assume s: "both scores_ok s"
  let ?c = "copied_question (uuid_supply (proc s)) t a sec item q"
  have c: "aq_id ?c = uuid_supply (proc s)" by (simp add: copied_question_def)
  have old: "score_ok (assessment_questions (working s) @ [?c]) x"
    if "x \<in> set (assessment_answers (working s))" for x
    using s that c by (force simp: both_def scores_ok_def score_ok_def)
  have uniq: "unique_rows assessment_questions_table (assessment_questions (working s) @ [?c])"
    if "\<forall>x\<in>set (assessment_questions (working s)). aq_id x \<noteq> aq_id ?c \<and> \<not> assessment_question_clash x ?c"
    using assessment_questions_tbl.unique_append [of "assessment_questions (working s)" ?c] s that
    by (simp add: both_def scores_ok_def)
  let ?s' = "snd (bind_tx uuid4 (\<lambda>i. insert_row assessment_questions_table
      (copied_question i t a sec item q)) s)"
  have "committed ?s' = committed s" "proc ?s' = (proc s)\<lparr>uuid_supply := Suc (uuid_supply (proc s))\<rparr>"
    by (auto simp: bind_tx_run uuid4_run insert_row_def)
  then have "scores_ok (committed ?s') (proc ?s')"
    using s proc_stableD [OF proc_stable_scores_ok, of "committed s" "proc s"] by (simp add: both_def)
  moreover have "scores_ok (working ?s') (proc ?s')"
    using s old uniq copied_question_ok [OF assms, of "uuid_supply (proc s)" t a sec] c
    by (auto simp: both_def scores_ok_def bank_ok_def bind_tx_run uuid4_run insert_row_def
        list_ex_iff less_Suc_eq)
  ultimately show "both scores_ok ?s'" by (simp add: both_def)
qed

lemma scores_tables:
  "tx_ok (both scores_ok)" "table_ok (both scores_ok) assessments_table"
  "table_ok (both scores_ok) assessment_sections_table"
  "table_ok (both scores_ok) assessment_attempts_table"
  "table_ok (both scores_ok) assessment_evaluations_table"
  "table_ok (both scores_ok) assessment_results_table"
  by (simp_all add: tx_ok_both proc_stable_scores_ok table_ok_both framed_def scores_ok_def bank_ok_def)

lemma keeps_copy_question_set:
  assumes "\<forall>x\<in>set items. item_ok x"
  shows "keeps (both scores_ok) (copy_question_set t a qs items)"
  unfolding copy_question_set_def
proof (intro keeps_bind keeps_if keeps_return keeps_raise keeps_for_each_in keeps_tx_ok keeps_table_ok
    scores_tables)
  fix sec x assume "\<not> list_ex (\<lambda>x. snd x = None) items"
    and "x \<in> set (sort_key (\<lambda>x. qi_order_index (fst x)) items)"
  with assms obtain item q where "x = (item, Some q)" "item_ok (item, Some q)"
    by (cases x) (auto simp: list_ex_iff)
  then show "keeps (both scores_ok) (case x of (item, q) \<Rightarrow> bind_tx uuid4 (\<lambda>i.
      insert_row assessment_questions_table (copied_question i t (as_id a) (sec_id sec) item (the q))))"
    by (simp add: insert_copy_ok)
qed

lemma for_each_query:
  "for_each (\<lambda>x. bind_tx (scalar T (c x)) (\<lambda>q. return_tx (x, q))) xs s =
   (Inr (map (\<lambda>x. (x, lookup T (c x) s)) xs), s)"
  by (induction xs) (simp_all add: bind_tx_run tx_simps)

lemma loaded_items_ok:
  assumes "question_set_detail t i s = (Inr (Some (qs, items)), s')" "bank_ok (working s)"
  shows "\<forall>x\<in>set items. item_ok x"
proof
  fix x assume "x \<in> set items"
  with assms(1) obtain item where item: "item \<in> set (question_set_items (working s))"
    "x = (item, lookup questions_table (\<lambda>q. qu_id q = qi_question item) s)"
    by (auto simp: question_set_detail_def tx_steps for_each_query split: option.splits)
  with assms(2) show "item_ok x"
    by (auto simp: item_ok_def bank_ok_def split: option.splits dest!: lookup_SomeD)
qed

lemma keeps_create_scores: "keeps (both scores_ok) (create_assessment ctx pr p)"
  unfolding create_assessment_def
proof (rule keeps_bind, rule keeps_require, rule keeps_bind, rule keeps_assess_steps, rule keeps_bind,
    rule keeps_assess_steps, rule keeps_bind_post
      [where Q = "\<lambda>loaded. case loaded of None \<Rightarrow> True | Some (qs, items) \<Rightarrow> \<forall>x\<in>set items. item_ok x"])
  fix tenant
  show "keeps (both scores_ok) (case acp_question_set p of None \<Rightarrow> return_tx None
       | Some i \<Rightarrow> bind_tx (some_or_404 ''question_set_not_found'' (question_set_detail tenant i))
           (\<lambda>loaded. if snd loaded = [] then abort ''question_set_empty'' 422
             else return_tx (Some loaded)))"
    by (intro keeps_intros)
  show "case loaded of None \<Rightarrow> True | Some (qs, items) \<Rightarrow> \<forall>x\<in>set items. item_ok x"
    if "both scores_ok s" "(case acp_question_set p of None \<Rightarrow> return_tx None
       | Some i \<Rightarrow> bind_tx (some_or_404 ''question_set_not_found'' (question_set_detail tenant i))
           (\<lambda>loaded. if snd loaded = [] then abort ''question_set_empty'' 422
             else return_tx (Some loaded))) s = (Inr loaded, t)" for s loaded t
    using that by (auto simp: both_def scores_ok_def bind_tx_Inr_iff some_or_404_Inr_iff
        split: option.splits if_splits dest: loaded_items_ok)
  show "keeps (both scores_ok) (bind_tx (on_conflict ''assessment_conflict''
       (bind_tx uuid4 (\<lambda>i. bind_tx now_utc (\<lambda>now.
        bind_tx (insert_row assessments_table
          \<lparr>as_id = i, as_tenant = tenant, as_course = acp_course p, as_batch = acp_batch p,
           as_question_set = acp_question_set p, as_title = acp_title p, as_type = acp_type p,
           as_status = AS_DRAFT, as_starts_at = acp_starts_at p, as_ends_at = acp_ends_at p,
           as_duration_minutes = acp_duration_minutes p, as_total_marks = 0,
           as_settings = acp_settings p, as_created_by = Some (pr_user pr), as_published_at = None,
           as_deleted_at = None, as_created_at = now\<rparr>) (\<lambda>a.
        bind_tx (case loaded of None \<Rightarrow> return_tx ()
          | Some (qs, items) \<Rightarrow> copy_question_set tenant a qs items) (\<lambda>_.
        bind_tx (assessment_detail_response tenant (as_id a)) (\<lambda>response.
        bind_tx commit_tx (\<lambda>_.
        return_tx response)))))))) (\<lambda>response.
     bind_tx (publish_event ''assessment.created'' ctx pr (as_id (ad_assessment response))) (\<lambda>_.
     return_tx response)))"
    if "case loaded of None \<Rightarrow> True | Some (qs, items) \<Rightarrow> \<forall>x\<in>set items. item_ok x" for loaded
    by (intro keeps_intros keeps_copy_question_set scores_tables; use that in auto)
qed

lemma assess_serve_scores:
  assumes "scores_ok d p" "serve (assess_handle c) d p = (r, d', p')"
  shows "scores_ok d' p'"
proof -
  note run = assms(2) [unfolded assess_handle_def]
  note ok = serve_call_ok [OF atomic_assess_handle [unfolded assess_handle_def]
      keeps_fresh_assess [unfolded assess_handle_def] proc_stable_scores_ok assms(1) _ run]
  note frame = serve_call_frame [where P = scores_ok, OF _ assms(1) run]
  show ?thesis
  proof (cases "cl_request c")
    case (Submit_Answer i q)
    then show ?thesis
      by (intro ok) (use assms(1) in \<open>auto simp: discard_Inr dest: submit_answer_scores\<close>)
  next
    case (Evaluate_Answer i q)
    then show ?thesis
      by (intro ok) (use assms(1) in \<open>auto simp: validated_Inr discard_Inr dest: evaluate_answer_scores\<close>)
  qed (auto intro!: frame keeps_discard keeps_validated keeps_assess_reads keeps_assessment_writes
      keeps_start_attempt keeps_submit_attempt keeps_publish_results keeps_create_scores scores_tables)
qed

section \<open>The service\<close>

definition assess_inv :: "db \<Rightarrow> process \<Rightarrow> bool" where
  "assess_inv d p \<longleftrightarrow> evaluated_ok d p \<and> scores_ok d p"

interpretation assess_service: service assess_handle assess_inv
proof
  show "assess_inv d p \<Longrightarrow> serve (assess_handle c) d p = (r, d', p') \<Longrightarrow> assess_inv d' p'" for d p c r d' p'
    unfolding assess_inv_def by (blast intro: assess_serve_evaluated assess_serve_scores)
  show "assess_inv d p \<Longrightarrow> clock p \<le> t \<Longrightarrow> assess_inv d (p\<lparr>clock := t\<rparr>)" for d p t
    by (simp add: assess_inv_def evaluated_ok_def scores_ok_def)
qed

end
