(* ===== verification/Assess_Rows.thy ===== *)
theory Assess_Rows
  imports Assess_Inv Row_Rules
begin

text \<open>
  How the rows of PrepAssess belong together: every result carries the keys of its attempt, every
  answer is to a question of the assessment its attempt is for.  With it the counts of the code are
  statements on the rows: all questions are answered when there are enough answers.
\<close>

section \<open>The invariant\<close>

definition results_matched :: "db \<Rightarrow> bool" where
  "results_matched d \<longleftrightarrow> (\<forall>r\<in>set (assessment_results d). \<exists>t\<in>set (assessment_attempts d). result_of r t)"

definition answer_placed :: "db \<Rightarrow> assessment_answer \<Rightarrow> bool" where
  "answer_placed d a \<longleftrightarrow> (\<exists>t\<in>set (assessment_attempts d). \<exists>q\<in>set (assessment_questions d).
     at_id t = an_attempt a \<and> at_tenant t = an_tenant a \<and> aq_id q = an_assessment_question a \<and>
     aq_tenant q = an_tenant a \<and> aq_assessment q = at_assessment t)"

definition answers_placed :: "db \<Rightarrow> bool" where
  "answers_placed d \<longleftrightarrow> unique_rows assessment_answers_table (assessment_answers d) \<and>
     unique_rows assessment_questions_table (assessment_questions d) \<and>
     (\<forall>a\<in>set (assessment_answers d). answer_placed d a)"

definition rows_inv :: "db \<Rightarrow> process \<Rightarrow> bool" where
  "rows_inv d p \<longleftrightarrow> evaluated_ok d p \<and> results_matched d \<and> answers_placed d"

lemma proc_stable_rows_inv: "proc_stable rows_inv"
  by (simp add: proc_stable_def rows_inv_def evaluated_ok_def)

lemma rows_inv_fewer_answers:
  "rows_inv d p \<Longrightarrow> set as \<subseteq> set (assessment_answers d) \<Longrightarrow> unique_rows assessment_answers_table as \<Longrightarrow>
   rows_inv (d\<lparr>assessment_answers := as\<rparr>) p"
  by (auto simp: rows_inv_def evaluated_ok_def results_matched_def answers_placed_def answer_placed_def)

section \<open>Attempts keep their keys\<close>

definition attempts_kept :: "db \<Rightarrow> db \<Rightarrow> bool" where
  "attempts_kept d d' \<longleftrightarrow>
     (\<forall>t\<in>set (assessment_attempts d). \<exists>t'\<in>set (assessment_attempts d'). attempt_after t t')"

lemma result_of_after: "attempt_after t t' \<Longrightarrow> result_of r t \<Longrightarrow> result_of r t'"
  by (simp add: attempt_after_def result_of_def)

lemma results_matched_later:
  assumes "results_matched d" "attempts_kept d d'"
    and "\<And>r. r \<in> set (assessment_results d') \<Longrightarrow> (\<exists>t\<in>set (assessment_attempts d'). result_of r t) \<or>
      (\<exists>q\<in>set (assessment_results d). rs_attempt q = rs_attempt r \<and> rs_tenant q = rs_tenant r \<and>
        rs_assessment q = rs_assessment r \<and> rs_student q = rs_student r)"
  shows "results_matched d'"
  unfolding results_matched_def
proof
  fix r assume "r \<in> set (assessment_results d')"
  from assms(3) [OF this] show "\<exists>t\<in>set (assessment_attempts d'). result_of r t"
  proof (elim disjE bexE conjE)
    fix q assume q: "q \<in> set (assessment_results d)" "rs_attempt q = rs_attempt r" "rs_tenant q = rs_tenant r"
      "rs_assessment q = rs_assessment r" "rs_student q = rs_student r"
    with assms(1) obtain t where t: "t \<in> set (assessment_attempts d)" "result_of q t"
      by (auto simp: results_matched_def)
    with assms(2) obtain t' where "t' \<in> set (assessment_attempts d')" "attempt_after t t'"
      by (auto simp: attempts_kept_def)
    with t(2) q(2-5) show ?thesis by (intro bexI [of _ t']) (simp_all add: result_of_def attempt_after_def)
  qed blast
qed

lemma answer_placed_later:
  assumes "answer_placed d a" "attempts_kept d d'"
    and "set (assessment_questions d) \<subseteq> set (assessment_questions d')" "answer_after a a'"
  shows "answer_placed d' a'"
proof -
  from assms(1) obtain t q where t: "t \<in> set (assessment_attempts d)" "q \<in> set (assessment_questions d)"
      "at_id t = an_attempt a" "at_tenant t = an_tenant a" "aq_id q = an_assessment_question a"
      "aq_tenant q = an_tenant a" "aq_assessment q = at_assessment t"
    by (auto simp: answer_placed_def)
  with assms(2) obtain t' where "t' \<in> set (assessment_attempts d')" "attempt_after t t'"
    by (auto simp: attempts_kept_def)
  with t assms(3,4) show ?thesis
    unfolding answer_placed_def by (intro bexI [of _ t'] bexI [of _ q]) (auto simp: attempt_after_def answer_after_def)
qed

lemma attempts_kept_same: "assessment_attempts d' = assessment_attempts d \<Longrightarrow> attempts_kept d d'"
  by (auto simp: attempts_kept_def intro: attempt_after_refl)

lemma results_matched_same:
  "results_matched d \<Longrightarrow> attempts_kept d d' \<Longrightarrow> assessment_results d' = assessment_results d \<Longrightarrow> results_matched d'"
  by (erule results_matched_later) (assumption, metis)

lemma answers_placed_same:
  assumes "answers_placed d" "attempts_kept d d'" "assessment_answers d' = assessment_answers d"
    "assessment_questions d' = assessment_questions d"
  shows "answers_placed d'"
proof -
  have "answer_placed d' a" if "answer_placed d a" for a
    by (rule answer_placed_later [OF that assms(2) _ answer_after_refl]) (simp add: assms(4))
  with assms(1,3,4) show ?thesis by (simp add: answers_placed_def)
qed

lemma closing_kept:
  assumes "unique_rows assessment_attempts_table (assessment_attempts (working s))"
    and "old \<in> set (assessment_attempts (working s))" "attempt_after old t" "rls_tenant s = Some (at_tenant old)"
    and "\<forall>q\<in>set (assessment_attempts (working s)). at_id q \<noteq> at_id t \<longrightarrow> \<not> assessment_attempt_clash q t"
    and "assessment_attempts d' = replace_where
      (\<lambda>q. at_id q = at_id t \<and> rls_tenant s = Some (at_tenant q)) (\<lambda>_. t) (assessment_attempts (working s))"
  shows "attempts_kept (working s) d'" "t \<in> set (assessment_attempts d')"
proof -
  have key: "at_id t = at_id old" using assms(3) by (simp add: attempt_after_def)
  note rep = replaced_attempts [OF assms(1,2) key, of "\<lambda>q. rls_tenant s = Some (at_tenant q)", OF assms(4,5,3)]
  show "attempts_kept (working s) d'" unfolding attempts_kept_def assms(6) by (intro ballI rep(2))
  show "t \<in> set (assessment_attempts d')"
    unfolding assms(6) using assms(2,4) key by (auto simp: set_replace_where)
qed

lemma closing_matched:
  assumes "results_matched (working s)" "closing t s n" "attempts_kept (working s) d'"
    and "t \<in> set (assessment_attempts d')" "assessment_results d' = assessment_results (working n)"
  shows "results_matched d'"
proof (rule results_matched_later [OF assms(1,3)])
  fix r assume r: "r \<in> set (assessment_results d')"
  show "(\<exists>t\<in>set (assessment_attempts d'). result_of r t) \<or>
      (\<exists>q\<in>set (assessment_results (working s)). rs_attempt q = rs_attempt r \<and> rs_tenant q = rs_tenant r \<and>
        rs_assessment q = rs_assessment r \<and> rs_student q = rs_student r)"
  proof (cases "r \<in> set (assessment_results (working s))")
    case True
    then show ?thesis by blast
  next
    case False
    with r assms(2,5) obtain x where x: "result_recorded x s n" "result_of x t \<or> result_kept x s"
      by (auto simp: closing_def split: if_splits)
    from x(1) have "set (assessment_results (working n)) \<subseteq> insert x (set (assessment_results (working s)))"
      by (auto simp: result_recorded_def set_replace_where)
    with r False assms(5) have "r = x" by auto
    with x(2) assms(4) show ?thesis by (auto simp: result_kept_def)
  qed
qed

section \<open>The requests\<close>

lemma start_attempt_rows:
  assumes "start_attempt ctx pr i q s = (Inr t, s')" "rows_inv (working s) p" "committed s = working s"
  shows "rows_inv (committed s') p'"
proof -
  have "attempts_kept (working s) (committed s') \<and> assessment_results (committed s') = assessment_results (working s) \<and>
      assessment_answers (committed s') = assessment_answers (working s) \<and>
      assessment_questions (committed s') = assessment_questions (working s)"
    using assms(1) by (cases rule: start_attemptE)
      (auto simp: assms(3) attempts_kept_def intro: attempt_after_refl)
  moreover from this have "results_matched (committed s')"
    by (elim conjE, rule_tac results_matched_same [of "working s"])
      (use assms(2) in \<open>simp_all add: rows_inv_def\<close>)
  moreover have "evaluated_ok (committed s') p'"
    using assms(2) by (intro start_attempt_evaluated [OF assms(1) _ assms(3), where p = p]) (simp add: rows_inv_def)
  ultimately show ?thesis
    using assms(2) answers_placed_same [of "working s" "committed s'"] by (simp add: rows_inv_def)
qed

lemma submit_answer_rows:
  assumes "submit_answer ctx pr i q s = (Inr a, s')" "rows_inv (working s) p" "committed s = working s"
  shows "rows_inv (committed s') p'"
  using assms(1)
proof (cases rule: submit_answerE)
  case replay
  with assms(2,3) show ?thesis by (simp add: rows_inv_def evaluated_ok_def)
next
  case (fresh t q)
  have "unique_rows assessment_answers_table (assessment_answers (committed s'))"
    by (rule submit_answer_unique [OF assms(1,3)]) (use assms(2) in \<open>simp add: rows_inv_def answers_placed_def\<close>)
  moreover have "answer_placed (committed s') a"
    using fresh by (auto simp: answer_placed_def)
  ultimately show ?thesis
    using assms(2) fresh(12) by (auto simp: rows_inv_def evaluated_ok_def results_matched_def answers_placed_def
        answer_placed_def)
qed

lemma submit_attempt_rows:
  assumes "submit_attempt ctx pr i q s = (Inr t, s')" "rows_inv (working s) p" "committed s = working s"
  shows "rows_inv (committed s') p'"
proof -
  have "evaluated_ok (committed s') p'"
    using assms(2) by (intro submit_attempt_evaluated [OF assms(1) _ assms(3), where p = p]) (simp add: rows_inv_def)
  moreover have "results_matched (committed s') \<and> answers_placed (committed s')"
    using assms(1)
  proof (cases rule: submit_attemptE)
    case closed
    with assms(2,3) show ?thesis by (simp add: rows_inv_def)
  next
    case (submitted old n)
    have after: "attempt_after old t"
      using submitted(3,5-8) by (simp add: attempt_after_def terminal_attempt_def)
    have n: "assessment_attempts (working n) = assessment_attempts (working s)"
      "assessment_answers (working n) = assessment_answers (working s)"
      "assessment_questions (working n) = assessment_questions (working s)"
      using submitted(11) by (simp_all add: closing_def same_attempts_def)
    have uniq: "unique_rows assessment_attempts_table (assessment_attempts (working s))"
      using assms(2) by (simp add: rows_inv_def evaluated_ok_def)
    have attempts: "assessment_attempts (committed s') = replace_where
        (\<lambda>q. at_id q = at_id t \<and> rls_tenant s = Some (at_tenant q)) (\<lambda>_. t) (assessment_attempts (working s))"
      and rest: "assessment_results (committed s') = assessment_results (working n)"
        "assessment_answers (committed s') = assessment_answers (working s)"
        "assessment_questions (committed s') = assessment_questions (working s)"
      by (simp_all add: submitted(15) n)
    note kept = closing_kept [OF uniq submitted(1) after submitted(4,14) attempts]
    have "results_matched (committed s')"
      by (rule closing_matched [OF _ submitted(11) kept rest(1)]) (use assms(2) in \<open>simp add: rows_inv_def\<close>)
    moreover have "answers_placed (committed s')"
      by (rule answers_placed_same [OF _ kept(1) rest(2,3)]) (use assms(2) in \<open>simp add: rows_inv_def\<close>)
    ultimately show ?thesis ..
  qed
  ultimately show ?thesis by (simp add: rows_inv_def)
qed

lemma evaluate_answer_rows:
  assumes "evaluate_answer ctx pr i q s = (Inr x, s')" "rows_inv (working s) p"
  shows "rows_inv (committed s') p'"
proof -
  have "evaluated_ok (committed s') p'"
    using assms(2) by (intro evaluate_answer_evaluated [OF assms(1), where p = p]) (simp add: rows_inv_def)
  moreover have answers: "unique_rows assessment_answers_table (assessment_answers (committed s'))"
    using assms(2) by (intro evaluate_answer_unique [OF assms(1)]) (simp add: rows_inv_def answers_placed_def)
  moreover have "results_matched (committed s') \<and> (\<forall>a\<in>set (assessment_answers (committed s')). answer_placed (committed s') a) \<and>
      unique_rows assessment_questions_table (assessment_questions (committed s'))"
    using assms(1)
  proof (cases rule: evaluate_answerE)
    case (1 a q' n)
    have uniq: "unique_rows assessment_attempts_table (assessment_attempts (working s))"
      using assms(2) by (simp add: rows_inv_def evaluated_ok_def)
    have "attempts_kept (working s) (committed s') \<and> results_matched (committed s')"
      using 1(8)
    proof (elim disjE exE conjE)
      assume "assessment_attempts (committed s') = assessment_attempts (working s)" "n = s"
      with 1(9) assms(2) show ?thesis by (simp add: rows_inv_def results_matched_def attempts_kept_same)
    next
      fix old t
      assume t: "old \<in> set (assessment_attempts (working s))" "at_status old \<in> {AT_SUBMITTED, AT_AUTO_SUBMITTED}"
        "t = old\<lparr>at_score := at_score t, at_status := AT_EVALUATED\<rparr>" "closing t s n"
        "rls_tenant s = Some (at_tenant old)" and d': "assessment_attempts (committed s') =
          replace_where (\<lambda>q. at_id q = at_id t \<and> rls_tenant s = Some (at_tenant q)) (\<lambda>_. t)
          (assessment_attempts (working s))"
      note row = evaluated_row [OF t(3)]
      note kept = closing_kept [OF uniq t(1) row(3) t(5) row(2) [OF uniq t(1)] d']
      have "results_matched (committed s')"
        by (rule closing_matched [OF _ t(4) kept 1(9)]) (use assms(2) in \<open>simp add: rows_inv_def\<close>)
      with kept(1) show ?thesis by simp
    qed
    moreover have "answer_placed (committed s') y" if y: "y \<in> set (assessment_answers (committed s'))"
      and kept: "attempts_kept (working s) (committed s')" for y
    proof -
      from y 1(1,7,13) obtain y0 where "y0 \<in> set (assessment_answers (working s))" "answer_after y0 y"
        by (auto simp: set_replace_where answer_after_def)
      with assms(2) kept 1(10) show ?thesis
        by (rule_tac answer_placed_later [of "working s" y0]) (auto simp: rows_inv_def answers_placed_def)
    qed
    ultimately show ?thesis using 1(10) assms(2) by (simp add: rows_inv_def answers_placed_def)
  qed
  ultimately show ?thesis by (simp add: rows_inv_def answers_placed_def)
qed

lemma publish_results_rows:
  assumes "publish_results ctx pr i s = (Inr y, s')" "rows_inv (working s) p" "committed s = working s"
  shows "rows_inv (committed s') p'"
proof -
  let ?same = "both (\<lambda>d p. assessment_answers d = assessment_answers (working s) \<and>
    assessment_questions d = assessment_questions (working s))"
  have "tx_ok ?same" "table_ok ?same assessments_table" "table_ok ?same assessment_results_table"
    by (simp_all add: tx_ok_both proc_stable_def table_ok_both framed_def)
  from keepsD [OF keeps_publish_results [OF this] _ assms(1)] have
    same: "assessment_answers (committed s') = assessment_answers (working s)"
      "assessment_questions (committed s') = assessment_questions (working s)"
    by (simp_all add: both_def assms(3))
  have "unique_rows assessment_results_table (assessment_results (working s))"
    using assms(2) by (simp add: rows_inv_def evaluated_ok_def)
  note run = publish_results_run [OF assms(1) this]
  have kept: "attempts_kept (working s) (committed s')" by (rule attempts_kept_same [OF run(1)])
  have "results_matched (committed s')"
  proof (rule results_matched_later [OF _ kept])
    fix r assume "r \<in> set (assessment_results (committed s'))"
    from map_eq_twin [OF run(2) [symmetric] this] show "(\<exists>t\<in>set (assessment_attempts (committed s')). result_of r t) \<or>
        (\<exists>q\<in>set (assessment_results (working s)). rs_attempt q = rs_attempt r \<and> rs_tenant q = rs_tenant r \<and>
          rs_assessment q = rs_assessment r \<and> rs_student q = rs_student r)"
      by auto
  qed (use assms(2) in \<open>simp add: rows_inv_def\<close>)
  moreover have "answers_placed (committed s')"
    by (rule answers_placed_same [OF _ kept same]) (use assms(2) in \<open>simp add: rows_inv_def\<close>)
  moreover have "evaluated_ok (committed s') p'"
    using assms(2) by (intro publish_results_evaluated [OF assms(1), where p = p]) (simp add: rows_inv_def)
  ultimately show ?thesis by (simp add: rows_inv_def)
qed

text \<open>A new assessment brings new questions, under keys of their own.\<close>

lemma keeps_create_rows: "keeps (both rows_inv) (create_assessment ctx pr p)"
proof -
  have tables: "tx_ok (both rows_inv)" "table_ok (both rows_inv) assessments_table"
    "table_ok (both rows_inv) assessment_sections_table"
    by (simp_all add: tx_ok_both proc_stable_rows_inv table_ok_both framed_def rows_inv_def evaluated_ok_def
        results_matched_def answers_placed_def answer_placed_def)
  have more: "answer_placed (assessment_questions_update (\<lambda>qs. qs @ [r]) d) a" if "answer_placed d a" for r d a
    by (rule answer_placed_later [OF that attempts_kept_same _ answer_after_refl]) auto
  have "rows_inv (assessment_questions_update (\<lambda>qs. qs @ [r]) d) p"
    if "rows_inv d p" "\<forall>q\<in>set (assessment_questions d). aq_id q \<noteq> aq_id r \<and> \<not> assessment_question_clash q r" for r d p
    using that assessment_questions_tbl.unique_append [of "assessment_questions d" r] more
    by (simp add: rows_inv_def evaluated_ok_def results_matched_def answers_placed_def)
  then have "keeps (both rows_inv) (insert_row assessment_questions_table r)" for r
    by (auto simp: keeps_def both_def insert_row_def list_ex_iff)
  then have "keeps (both rows_inv) (case x of (item, q) \<Rightarrow> bind_tx uuid4 (\<lambda>i.
      insert_row assessment_questions_table (copied_question i t a sec item (the q))))" for x t a sec
    by (cases x) (simp, intro keeps_bind keeps_tx_ok tables(1))
  then have "keeps (both rows_inv) (copy_question_set t a qs items)" for t a qs items
    unfolding copy_question_set_def
    by (intro keeps_bind keeps_if keeps_return keeps_raise keeps_for_each keeps_tx_ok keeps_table_ok tables)
  note [keeps_intros] = this
  show ?thesis
    unfolding create_assessment_def Let_def
    by (intro keeps_intros; use tables in auto)
qed

lemma assess_serve_rows:
  assumes "rows_inv d p" "serve (assess_handle c) d p = (r, d', p')"
  shows "rows_inv d' p'"
proof -
  note run = assms(2) [unfolded assess_handle_def]
  note ok = serve_call_ok [OF atomic_assess_handle [unfolded assess_handle_def]
      keeps_fresh_assess [unfolded assess_handle_def] proc_stable_rows_inv assms(1) _ run]
  note frame = serve_call_frame [where P = rows_inv, OF _ assms(1) run]
  have tables: "tx_ok (both rows_inv)" "table_ok (both rows_inv) assessments_table"
    by (simp_all add: tx_ok_both proc_stable_rows_inv table_ok_both framed_def rows_inv_def evaluated_ok_def
        results_matched_def answers_placed_def answer_placed_def)
  show ?thesis
  proof (cases "cl_request c")
    case (Start_Attempt i q)
    then show ?thesis by (intro ok) (use assms(1) in \<open>auto simp: discard_Inr dest: start_attempt_rows\<close>)
  next
    case (Submit_Answer i q)
    then show ?thesis by (intro ok) (use assms(1) in \<open>auto simp: discard_Inr dest: submit_answer_rows\<close>)
  next
    case (Submit_Attempt i q)
    then show ?thesis by (intro ok) (use assms(1) in \<open>auto simp: discard_Inr dest: submit_attempt_rows\<close>)
  next
    case (Evaluate_Answer i q)
    then show ?thesis
      by (intro ok) (use assms(1) in \<open>auto simp: validated_Inr discard_Inr dest: evaluate_answer_rows\<close>)
  next
    case (Publish_Results i)
    then show ?thesis by (intro ok) (use assms(1) in \<open>auto simp: discard_Inr dest: publish_results_rows\<close>)
  qed (auto intro!: frame keeps_discard keeps_validated keeps_assess_reads keeps_assessment_writes
      keeps_create_rows tables)
qed

interpretation assess_rows: service assess_handle rows_inv
proof
  show "rows_inv d p \<Longrightarrow> serve (assess_handle c) d p = (r, d', p') \<Longrightarrow> rows_inv d' p'" for d p c r d' p'
    by (rule assess_serve_rows)
  show "rows_inv d p \<Longrightarrow> clock p \<le> t \<Longrightarrow> rows_inv d (p\<lparr>clock := t\<rparr>)" for d p t
    by (simp add: rows_inv_def evaluated_ok_def)
qed

section \<open>What the invariant says of a result and of a submission\<close>

lemma one_result:
  assumes "rows_inv d p" "t \<in> set (assessment_attempts d)" "at_status t = AT_EVALUATED"
  shows "\<exists>!r. r \<in> set (assessment_results d) \<and> rs_attempt r = at_id t"
    "r \<in> set (assessment_results d) \<Longrightarrow> rs_attempt r = at_id t \<Longrightarrow> result_of r t \<and> at_score t = Some (rs_score r)"
proof -
  have uniq: "unique_rows assessment_attempts_table (assessment_attempts d)"
    "unique_rows assessment_results_table (assessment_results d)"
    using assms(1) by (simp_all add: rows_inv_def evaluated_ok_def)
  have own: "result_of r t" if "r \<in> set (assessment_results d)" "rs_attempt r = at_id t" for r
  proof -
    from assms(1) that(1) obtain t' where t': "t' \<in> set (assessment_attempts d)" "result_of r t'"
      by (auto simp: rows_inv_def results_matched_def)
    with that(2) unique_rows_key [OF uniq(1) t'(1) assms(2)] show ?thesis by (simp add: result_of_def)
  qed
  have same: "q = r" if "q \<in> set (assessment_results d)" "r \<in> set (assessment_results d)"
    "rs_attempt q = at_id t" "rs_attempt r = at_id t" for q r
    using own [OF that(1,3)] own [OF that(2,4)]
    by (intro unique_rows_clash [OF uniq(2) that(1,2)]) (simp add: result_of_def assessment_result_clash_def)
  from assms obtain r0 where r0: "r0 \<in> set (assessment_results d)" "rs_attempt r0 = at_id t" "at_score t = Some (rs_score r0)"
    by (auto simp: rows_inv_def evaluated_ok_def)
  show "\<exists>!r. r \<in> set (assessment_results d) \<and> rs_attempt r = at_id t"
    using r0 same by (intro ex1I [of _ r0]) auto
  show "result_of r t \<and> at_score t = Some (rs_score r)" if "r \<in> set (assessment_results d)" "rs_attempt r = at_id t"
    using own [OF that] same [OF that(1) r0(1) that(2) r0(2)] r0(3) by simp
qed

text \<open>
  On such rows the count of the code is a statement on questions: every question asked has an
  evaluated answer.
\<close>

lemma stored_answers_distinct:
  assumes "answers_placed (working s)" "rls_tenant s = Some tenant"
  shows "distinct (stored_answers i s)" "distinct (map an_assessment_question (stored_answers i s))"
proof -
  have uniq: "unique_rows assessment_answers_table (assessment_answers (working s))"
    using assms(1) by (simp add: answers_placed_def)
  then have "distinct (assessment_answers (working s))"
    by (auto simp: unique_rows_def distinct_map)
  then show d: "distinct (stored_answers i s)" by (simp add: stored_answers_def)
  have "inj_on an_assessment_question (set (stored_answers i s))"
    by (rule inj_onI, rule unique_rows_clash [OF uniq])
      (use assms(2) in \<open>auto simp: stored_answers_def assessment_answer_clash_def\<close>)
  with d show "distinct (map an_assessment_question (stored_answers i s))" by (simp add: distinct_map)
qed

lemma last_answer_of:
  assumes "distinct (map an_assessment_question xs)" "a \<in> set xs"
  shows "last_answer xs (an_assessment_question a) = Some a"
proof -
  have "distinct (map fst (rev (map (\<lambda>a. (an_assessment_question a, a)) xs)))"
    using assms(1) by (simp add: rev_map [symmetric] o_def)
  then show ?thesis
    unfolding last_answer_def by (rule map_of_is_SomeI) (use assms(2) in auto)
qed

lemma all_questions_answered:
  assumes "rows_inv (working s) p" "rls_tenant s = Some tenant"
    and "t \<in> set (assessment_attempts (working s))" "at_id t = i" "at_tenant t = tenant"
  shows "all_answers_evaluated (asked tenant (at_assessment t) s) (stored_answers i s) \<longleftrightarrow>
    (\<forall>q\<in>set (assessment_questions (working s)). aq_tenant q = tenant \<and> aq_assessment q = at_assessment t \<longrightarrow>
      (\<exists>a\<in>set (assessment_answers (working s)). an_tenant a = tenant \<and> an_attempt a = i \<and>
        an_assessment_question a = aq_id q \<and> an_status a \<in> {AUTO_EVALUATED, MANUAL_EVALUATED}))"
proof -
  let ?qs = "asked tenant (at_assessment t) s" and ?as = "stored_answers i s"
  let ?keys = "an_assessment_question ` set ?as" and ?ids = "aq_id ` set ?qs"
  have placed: "answers_placed (working s)" using assms(1) by (simp add: rows_inv_def)
  have uniq: "unique_rows assessment_attempts_table (assessment_attempts (working s))"
    "unique_rows assessment_questions_table (assessment_questions (working s))"
    using assms(1) by (simp_all add: rows_inv_def evaluated_ok_def answers_placed_def)
  note keys = stored_answers_distinct [OF placed assms(2), of i]
  have qs: "q \<in> set ?qs \<longleftrightarrow> q \<in> set (assessment_questions (working s)) \<and> aq_tenant q = tenant \<and>
      aq_assessment q = at_assessment t" for q
    using assms(2) by (auto simp: asked_def)
  have as: "a \<in> set ?as \<longleftrightarrow> a \<in> set (assessment_answers (working s)) \<and> an_tenant a = tenant \<and> an_attempt a = i" for a
    using assms(2) by (auto simp: stored_answers_def)
  have sub: "?keys \<subseteq> ?ids"
  proof
    fix k assume "k \<in> ?keys"
    then obtain a where a: "a \<in> set ?as" "k = an_assessment_question a" by auto
    with placed obtain t' q where q: "t' \<in> set (assessment_attempts (working s))" "at_id t' = i"
        "q \<in> set (assessment_questions (working s))" "aq_id q = k" "aq_tenant q = tenant" "aq_assessment q = at_assessment t'"
      by (auto simp: answers_placed_def answer_placed_def as)
    with unique_rows_key [OF uniq(1) q(1) assms(3)] assms(4) have "q \<in> set ?qs" by (simp add: qs)
    with q(4) show "k \<in> ?ids" by blast
  qed
  have "distinct (map aq_id (assessment_questions (working s)))" using uniq(2) by (simp add: unique_rows_def)
  then have "distinct (map aq_id ?qs)"
    unfolding asked_def by (auto simp: distinct_map intro: inj_on_subset)
  then have count: "length ?qs \<le> length (remdups (map an_assessment_question ?as)) \<longleftrightarrow> ?keys = ?ids"
    using keys(2) card_seteq [OF _ sub] distinct_card [of "map aq_id ?qs"] distinct_card [OF keys(2)]
    by (auto simp: distinct_remdups_id)
  have all: "list_all (\<lambda>k. case last_answer ?as k of None \<Rightarrow> False | Some a \<Rightarrow> evaluated_answer a)
      (remdups (map an_assessment_question ?as)) \<longleftrightarrow> (\<forall>a\<in>set ?as. evaluated_answer a)"
    by (simp add: list_all_iff last_answer_of [OF keys(2)] split: option.split)
  show ?thesis
  proof
    assume "all_answers_evaluated ?qs ?as"
    then have "?keys = ?ids" and ev: "\<forall>a\<in>set ?as. evaluated_answer a"
      by (simp_all add: all_answers_evaluated_def Let_def count all)
    then have "\<exists>a\<in>set ?as. an_assessment_question a = aq_id q" if "q \<in> set ?qs" for q
      using that by (metis imageE imageI)
    with ev have "\<exists>a\<in>set ?as. an_assessment_question a = aq_id q \<and> evaluated_answer a" if "q \<in> set ?qs" for q
      using that by blast
    then show "\<forall>q\<in>set (assessment_questions (working s)). aq_tenant q = tenant \<and> aq_assessment q = at_assessment t \<longrightarrow>
      (\<exists>a\<in>set (assessment_answers (working s)). an_tenant a = tenant \<and> an_attempt a = i \<and>
        an_assessment_question a = aq_id q \<and> an_status a \<in> {AUTO_EVALUATED, MANUAL_EVALUATED})"
      unfolding evaluated_answer_def qs Bex_def as by blast
  next
    assume complete: "\<forall>q\<in>set (assessment_questions (working s)). aq_tenant q = tenant \<and> aq_assessment q = at_assessment t \<longrightarrow>
      (\<exists>a\<in>set (assessment_answers (working s)). an_tenant a = tenant \<and> an_attempt a = i \<and>
        an_assessment_question a = aq_id q \<and> an_status a \<in> {AUTO_EVALUATED, MANUAL_EVALUATED})"
    then have found: "\<exists>a\<in>set ?as. an_assessment_question a = aq_id q \<and> evaluated_answer a" if "q \<in> set ?qs" for q
      using that unfolding evaluated_answer_def qs Bex_def as by blast
    have "?ids \<subseteq> ?keys"
    proof
      fix k assume "k \<in> ?ids"
      then obtain q where "q \<in> set ?qs" "k = aq_id q" by blast
      with found [of q] show "k \<in> ?keys" by (metis imageI)
    qed
    moreover have "evaluated_answer a" if a: "a \<in> set ?as" for a
    proof -
      from a sub have "an_assessment_question a \<in> ?ids" by blast
      then obtain q where q: "q \<in> set ?qs" "aq_id q = an_assessment_question a" by (metis imageE)
      from found [OF q(1)] obtain b where b: "b \<in> set ?as" "an_assessment_question b = an_assessment_question a"
          "evaluated_answer b" unfolding q(2) by blast
      with a keys(2) have "b = a" by (auto simp: distinct_map dest: inj_onD)
      with b(3) show ?thesis by simp
    qed
    ultimately show "all_answers_evaluated ?qs ?as"
      using sub by (simp add: all_answers_evaluated_def Let_def count all subset_antisym)
  qed
qed

lemma total_of_rows:
  assumes "answers_placed (working s)" "rls_tenant s = Some tenant"
  shows "total_of (stored_answers i s) = (\<Sum>a | a \<in> set (assessment_answers (working s)) \<and> an_tenant a = tenant \<and>
    an_attempt a = i. case an_score a of None \<Rightarrow> 0 | Some x \<Rightarrow> x)"
proof -
  have "set (stored_answers i s) = {a. a \<in> set (assessment_answers (working s)) \<and> an_tenant a = tenant \<and> an_attempt a = i}"
    using assms(2) by (auto simp: stored_answers_def)
  with sum_list_distinct_conv_sum_set [OF stored_answers_distinct(1) [OF assms], of "\<lambda>a. score_or_zero (an_score a)" i]
  show ?thesis by (simp add: total_of_def score_or_zero_def)
qed

end
