(* ===== verification/Assess_Props.thy ===== *)
theory Assess_Props
  imports Assess_Rows Sample
begin

text \<open>
  The properties of PrepAssess, each with a concrete instance.
\<close>

section \<open>An assessment with two questions and two attempts\<close>

definition sample_question :: "uuid \<Rightarrow> question_type \<Rightarrow> question" where
  "sample_question i ty = \<lparr>qu_id = i, qu_tenant = 1, qu_topic = 7, qu_question_type = ty,
     qu_difficulty = EASY, qu_bloom_level = None, qu_body = ''Q'', qu_explanation = None,
     qu_marks = 2, qu_negative_marks = 1 / 2, qu_metadata = JNull, qu_status = Q_APPROVED,
     qu_created_by = None, qu_deleted_at = None, qu_created_at = 0\<rparr>"

definition sample_option :: "uuid \<Rightarrow> bool \<Rightarrow> question_option" where
  "sample_option i correct = \<lparr>qo_id = i, qo_tenant = 1, qo_question = 30, qo_label = None,
     qo_body = ''O'', qo_is_correct = correct, qo_explanation = None, qo_order_index = int i\<rparr>"

definition sample_assessment :: assessment where
  "sample_assessment = \<lparr>as_id = 40, as_tenant = 1, as_course = None, as_batch = None,
     as_question_set = None, as_title = ''Test'', as_type = QUIZ, as_status = AS_LIVE,
     as_starts_at = Some 0, as_ends_at = Some 2000, as_duration_minutes = None, as_total_marks = 4,
     as_settings = JNull, as_created_by = None, as_published_at = None, as_deleted_at = None,
     as_created_at = 0\<rparr>"

definition sample_aq :: "uuid \<Rightarrow> uuid \<Rightarrow> assessment_question" where
  "sample_aq i q = \<lparr>aq_id = i, aq_tenant = 1, aq_assessment = 40, aq_section = None, aq_question = q,
     aq_order_index = int i, aq_marks = 2, aq_negative_marks = 1 / 2, aq_metadata = JNull\<rparr>"

definition sample_attempt :: "uuid \<Rightarrow> uuid \<Rightarrow> attempt_status \<Rightarrow> assessment_attempt" where
  "sample_attempt i student_id st = \<lparr>at_id = i, at_tenant = 1, at_assessment = 40, at_student = student_id,
     at_status = st, at_started_at = 0, at_submitted_at = None, at_score = None,
     at_metadata = JObj []\<rparr>"

definition sample_answer :: "uuid \<Rightarrow> uuid \<Rightarrow> uuid \<Rightarrow> rat option \<Rightarrow> assessment_answer" where
  "sample_answer i t q sc = \<lparr>an_id = i, an_tenant = 1, an_attempt = t, an_assessment_question = q,
     an_question = 30, an_answer = JObj [], an_status = (if sc = None then EVAL_PENDING else AUTO_EVALUATED),
     an_is_correct = None, an_score = sc, an_evaluated_by = None, an_evaluated_at = None,
     an_idempotency_key = None, an_created_at = int i\<rparr>"

definition sample_assess_db :: db where
  "sample_assess_db = empty_db\<lparr>
     questions := [sample_question 30 MCQ, sample_question 31 LONG_ANSWER],
     question_options := [sample_option 35 True, sample_option 36 False],
     assessments := [sample_assessment],
     assessment_questions := [sample_aq 50 30, sample_aq 51 31],
     assessment_attempts := [sample_attempt 60 20 AT_STARTED, sample_attempt 61 21 AT_STARTED],
     assessment_answers := [sample_answer 70 60 50 (Some 2), sample_answer 71 60 51 None]\<rparr>"

lemmas sample_assess_defs = sample_assess_db_def sample_question_def sample_option_def
  sample_assessment_def sample_aq_def sample_attempt_def sample_answer_def empty_db_def sample_defs

lemma sample_cents [simp]: "cents 2" "cents (1 / 2)"
  by (auto simp: cents_iff intro: exI [of _ 200] exI [of _ 50])

lemma sample_assess_inv: "assess_inv sample_assess_db sample_proc"
  by (auto simp: assess_inv_def evaluated_ok_def scores_ok_def bank_ok_def marks_ok_def score_ok_def
      unique_rows_def assessment_attempt_clash_def assessment_question_clash_def sample_assess_defs)

lemma sample_rows_inv: "rows_inv sample_assess_db sample_proc"
  using sample_assess_inv
  by (auto simp: rows_inv_def assess_inv_def results_matched_def answers_placed_def answer_placed_def
      unique_rows_def assessment_answer_clash_def assessment_question_clash_def sample_assess_defs)

lemma sample_frozen: "frozen sample_assess_db sample_assess_db sample_proc"
  unfolding frozen_def
  by (intro conjI advanced_refl) (auto simp: unique_rows_def assessment_attempt_clash_def
      assessment_answer_clash_def sample_assess_defs)

definition sample_option_answer :: json where
  "sample_option_answer = JObj [(''option_ids'', JArr [JStr (uuid_str 35)])]"

section \<open>Automatic evaluation\<close>

text \<open>
  C7. A submitted answer to a multiple choice, multi select or true/false question is evaluated on
  the spot: it is correct exactly when the set of the submitted option identifiers is the set of the
  correct options, and it then scores the marks of the question, otherwise minus its negative marks.
  Every other answer waits for an evaluator, without a score.
\<close>

theorem auto_evaluate_correct:
  assumes "auto_evaluate answer aq s = (Inr a, s')"
    and "get_question_with_options (aq_tenant aq) (aq_question aq) s = (Inr (q, options), s)"
  shows "if qu_question_type q \<in> {MCQ, MULTI_SELECT, TRUE_FALSE}
    then \<exists>ids. submitted_option_ids (an_answer answer) = Some ids \<and> an_status a = AUTO_EVALUATED \<and>
      an_is_correct a = Some (set ids = {Some (uuid_str (qo_id x)) |x. x \<in> set options \<and> qo_is_correct x}) \<and>
      an_score a = Some (if an_is_correct a = Some True then aq_marks aq else - aq_negative_marks aq)
    else a = answer\<lparr>an_status := EVAL_PENDING\<rparr>"
proof -
  have "same_set ids (correct_option_ids options) \<longleftrightarrow>
      set ids = {Some (uuid_str (qo_id x)) |x. x \<in> set options \<and> qo_is_correct x}" for ids
    by (auto simp: same_set_def correct_option_ids_def list_all_iff)
  with assms show ?thesis
    by (auto simp: auto_evaluate_def bind_tx_Inr_iff basic_Inr_iff auto_evaluated_types_def Let_def
        split: option.splits)
qed

theorem auto_evaluate_correct_witness:
  "\<exists>a s'. auto_evaluate ((sample_answer 72 61 50 None)\<lparr>an_answer := sample_option_answer\<rparr>)
      (sample_aq 50 30) (sample_session sample_assess_db) = (Inr a, s') \<and>
    an_status a = AUTO_EVALUATED \<and> an_is_correct a = Some True \<and> an_score a = Some 2"
proof -
  let ?a = "(sample_answer 72 61 50 None)\<lparr>an_answer := sample_option_answer\<rparr>"
  let ?s = "sample_session sample_assess_db"
  let ?r = "auto_evaluate ?a (sample_aq 50 30) ?s"
  let ?opts = "[sample_option 35 True, sample_option 36 False]"
  have "\<not> isl (fst ?r)" by code_simp
  from run_Inr [OF this] obtain a s' where run: "?r = (Inr a, s')" by blast
  have q: "get_question_with_options (aq_tenant (sample_aq 50 30)) (aq_question (sample_aq 50 30)) ?s =
      (Inr (sample_question 30 MCQ, ?opts), ?s)"
    by (simp add: get_question_with_options_def tx_query lookup_def sample_assess_defs)
  have ids: "submitted_option_ids (an_answer ?a) = Some [Some (uuid_str 35)]" by code_simp
  from auto_evaluate_correct [OF run q] ids
  have "an_status a = AUTO_EVALUATED \<and>
      an_is_correct a = Some (set [Some (uuid_str 35)] =
        {Some (uuid_str (qo_id x)) |x. x \<in> set ?opts \<and> qo_is_correct x}) \<and>
      an_score a = Some (if an_is_correct a = Some True then aq_marks (sample_aq 50 30)
        else - aq_negative_marks (sample_aq 50 30))"
    by (simp add: sample_question_def)
  moreover have "{Some (uuid_str (qo_id x)) |x. x \<in> set ?opts \<and> qo_is_correct x} = {Some (uuid_str 35)}"
    by (auto simp: sample_option_def intro: exI [of _ "sample_option 35 True"])
  ultimately show ?thesis using run by (simp add: sample_aq_def)
qed

section \<open>Scores\<close>

text \<open>
  C8. Whatever requests the assessment service serves, in any order and with any clock, the score of
  every stored answer stays between minus the negative marks and the marks of its question, at two
  decimals, automatic and manual evaluation alike.
\<close>

theorem answer_score_bounded:
  assumes "assess_inv d0 p0" "reaches assess_handle d0 p0 d p"
    and "a \<in> set (assessment_answers d)" "q \<in> set (assessment_questions d)"
    and "aq_id q = an_assessment_question a" "an_score a = Some sc"
  shows "- aq_negative_marks q \<le> sc \<and> sc \<le> aq_marks q \<and> cents sc"
proof -
  have "assess_inv d p" by (rule assess_service.reaches_good [OF assms(2,1)])
  with assms(3) have "score_ok (assessment_questions d) a" by (simp add: assess_inv_def scores_ok_def)
  with assms(4-6) show ?thesis by (auto simp: score_ok_def)
qed

definition sample_submission :: assess_request where
  "sample_submission = Submit_Answer 61 \<lparr>nsp_assessment_question = 50, nsp_answer = JObj [],
     nsp_idempotency_key = None\<rparr>"

text \<open>No option chosen: the answer scores minus the negative marks.\<close>

theorem answer_score_bounded_witness:
  "\<exists>d p a. reaches assess_handle sample_assess_db sample_proc d p \<and> a \<in> set (assessment_answers d) \<and>
     an_attempt a = 61 \<and> an_score a = Some (- 1 / 2) \<and> - (1 / 2) \<le> (- 1 / 2 :: rat) \<and> - 1 / 2 \<le> (2 :: rat)"
proof -
  let ?r = "serve (assess_handle (sample_call sample_submission)) sample_assess_db sample_proc"
  let ?a = "last (assessment_answers (fst (snd ?r)))"
  have reach: "reaches assess_handle sample_assess_db sample_proc (fst (snd ?r)) (snd (snd ?r))"
    by (rule reaches_once)
  have "assessment_answers (fst (snd ?r)) \<noteq> []" "an_attempt ?a = 61"
    "an_score ?a = Some (- 1 / 2)" "an_assessment_question ?a = 50"
    "assessment_questions (fst (snd ?r)) = [sample_aq 50 30, sample_aq 51 31]"
    by code_simp+
  then have a: "?a \<in> set (assessment_answers (fst (snd ?r)))" "an_attempt ?a = 61"
    "an_score ?a = Some (- 1 / 2)" "an_assessment_question ?a = 50"
    "sample_aq 50 30 \<in> set (assessment_questions (fst (snd ?r)))"
    by simp_all
  have "- aq_negative_marks (sample_aq 50 30) \<le> - 1 / 2 \<and> - 1 / 2 \<le> aq_marks (sample_aq 50 30) \<and> cents (- 1 / 2)"
    by (rule answer_score_bounded [OF sample_assess_inv reach a(1,5) _ a(3)])
      (simp add: a(4) sample_aq_def)
  with reach a show ?thesis by (auto simp: sample_aq_def)
qed

text \<open>
  C9. Whatever requests are served, an attempt in status EVALUATED has exactly one result row: it
  carries the tenant, the assessment and the student of the attempt, and the two have the same score.
\<close>

theorem evaluated_attempt_has_result:
  assumes "rows_inv d0 p0" "reaches assess_handle d0 p0 d p"
    and "t \<in> set (assessment_attempts d)" "at_status t = AT_EVALUATED"
  shows "\<exists>r. {q \<in> set (assessment_results d). rs_attempt q = at_id t} = {r} \<and> rs_tenant r = at_tenant t \<and>
    rs_assessment r = at_assessment t \<and> rs_student r = at_student t \<and> at_score t = Some (rs_score r)"
proof -
  note rows = assess_rows.reaches_good [OF assms(2,1)]
  obtain r where r: "r \<in> set (assessment_results d)" "rs_attempt r = at_id t"
    and only: "\<And>q. q \<in> set (assessment_results d) \<Longrightarrow> rs_attempt q = at_id t \<Longrightarrow> q = r"
    using one_result(1) [OF rows assms(3,4)] by blast
  from r only have "{q \<in> set (assessment_results d). rs_attempt q = at_id t} = {r}" by blast
  with one_result(2) [OF rows assms(3,4) r] show ?thesis by (auto simp: result_of_def)
qed

definition sample_evaluation :: assess_request where
  "sample_evaluation = Evaluate_Answer 71 \<lparr>mep_score = 3 / 2, mep_comment = None\<rparr>"

definition sample_closing :: assess_request where
  "sample_closing = Submit_Attempt 60 \<lparr>tmp_idempotency_key = None, tmp_auto_submit = False\<rparr>"

text \<open>The attempt is submitted with an answer to evaluate; the evaluation closes it with 2 + 3/2.\<close>

theorem evaluated_attempt_has_result_witness:
  "\<exists>d p t r. reaches assess_handle sample_assess_db sample_proc d p \<and>
     t \<in> set (assessment_attempts d) \<and> at_status t = AT_EVALUATED \<and> at_score t = Some (7 / 2) \<and>
     {q \<in> set (assessment_results d). rs_attempt q = at_id t} = {r} \<and> rs_student r = 20 \<and> rs_score r = 7 / 2"
proof -
  let ?one = "serve (assess_handle (sample_call sample_closing)) sample_assess_db sample_proc"
  let ?r = "serve (assess_handle (sample_call sample_evaluation)) (fst (snd ?one)) (snd (snd ?one))"
  let ?t = "hd (assessment_attempts (fst (snd ?r)))"
  have reach: "reaches assess_handle sample_assess_db sample_proc (fst (snd ?r)) (snd (snd ?r))"
    by (rule reaches_next [OF reaches_once])
  have t: "assessment_attempts (fst (snd ?r)) \<noteq> []" "at_status ?t = AT_EVALUATED" "at_score ?t = Some (7 / 2)"
    "at_student ?t = 20" by code_simp+
  then have "?t \<in> set (assessment_attempts (fst (snd ?r)))" by simp
  from evaluated_attempt_has_result [OF sample_rows_inv reach this t(2)] this t(2-4) reach show ?thesis
    by (intro exI [of _ "fst (snd ?r)"] exI [of _ "snd (snd ?r)"] exI [of _ ?t]) auto
qed

section \<open>Attempts\<close>

text \<open>
  C10. Whatever requests are served, no attempt disappears, changes its student or goes back from
  submitted or evaluated, a closed attempt keeps its submission time, no answer is lost or
  rewritten, and a closed attempt never gets another answer.
\<close>

theorem attempts_advance_answers_stay:
  assumes "frozen d0 d0 p0" "reaches assess_handle d0 p0 d p"
  shows "(\<forall>t0\<in>set (assessment_attempts d0). \<exists>t\<in>set (assessment_attempts d). at_id t = at_id t0 \<and>
      at_student t = at_student t0 \<and> attempt_rank (at_status t0) \<le> attempt_rank (at_status t) \<and>
      (terminal_attempt (at_status t0) \<longrightarrow> at_submitted_at t = at_submitted_at t0)) \<and>
    (\<forall>a0\<in>set (assessment_answers d0). \<exists>a\<in>set (assessment_answers d). an_id a = an_id a0 \<and>
      an_attempt a = an_attempt a0 \<and> an_answer a = an_answer a0) \<and>
    (\<forall>t0\<in>set (assessment_attempts d0). terminal_attempt (at_status t0) \<longrightarrow>
      (\<forall>a\<in>set (assessment_answers d). an_attempt a = at_id t0 \<longrightarrow>
        (\<exists>a0\<in>set (assessment_answers d0). an_id a0 = an_id a)))"
proof -
  have adv: "advanced d0 d p"
    using assess_history.reaches_good [OF assms(2,1)] by (simp add: frozen_def)
  show ?thesis
  proof (intro conjI)
    show "\<forall>t0\<in>set (assessment_attempts d0). \<exists>t\<in>set (assessment_attempts d). at_id t = at_id t0 \<and>
        at_student t = at_student t0 \<and> attempt_rank (at_status t0) \<le> attempt_rank (at_status t) \<and>
        (terminal_attempt (at_status t0) \<longrightarrow> at_submitted_at t = at_submitted_at t0)"
      using advancedD(1) [OF adv] unfolding attempt_after_def by fast
    show "\<forall>a0\<in>set (assessment_answers d0). \<exists>a\<in>set (assessment_answers d). an_id a = an_id a0 \<and>
        an_attempt a = an_attempt a0 \<and> an_answer a = an_answer a0"
      using advancedD(2) [OF adv] unfolding answer_after_def by fast
    show "\<forall>t0\<in>set (assessment_attempts d0). terminal_attempt (at_status t0) \<longrightarrow>
        (\<forall>a\<in>set (assessment_answers d). an_attempt a = at_id t0 \<longrightarrow>
          (\<exists>a0\<in>set (assessment_answers d0). an_id a0 = an_id a))"
      using advancedD(3) [OF adv] unfolding answer_after_def by fastforce
  qed
qed

theorem attempts_advance_answers_stay_witness:
  "\<exists>d p. reaches assess_handle sample_assess_db sample_proc d p \<and>
     map at_status (assessment_attempts d) = [AT_SUBMITTED, AT_STARTED] \<and>
     (\<forall>a0\<in>set (assessment_answers sample_assess_db). \<exists>a\<in>set (assessment_answers d).
       an_id a = an_id a0 \<and> an_attempt a = an_attempt a0 \<and> an_answer a = an_answer a0)"
proof -
  let ?r = "serve (assess_handle (sample_call sample_closing)) sample_assess_db sample_proc"
  have reach: "reaches assess_handle sample_assess_db sample_proc (fst (snd ?r)) (snd (snd ?r))"
    by (rule reaches_once)
  have "map at_status (assessment_attempts (fst (snd ?r))) = [AT_SUBMITTED, AT_STARTED]" by code_simp
  with attempts_advance_answers_stay [OF sample_frozen reach, THEN conjunct2, THEN conjunct1] reach
  show ?thesis by (intro exI conjI)
qed

text \<open>
  Submitting an attempt is idempotent: once it is submitted, submitting it again returns the
  same attempt and changes neither the database nor the process.
\<close>

theorem submit_attempt_idempotent:
  assumes "unique_rows assessment_attempts_table (assessment_attempts d)"
    and "serve (scoped t (submit_attempt ctx pr i q)) d p = (Inr x, d', p')"
  shows "serve (scoped t (submit_attempt ctx pr' i q')) d' p' = (Inr x, d', p')"
proof -
  let ?s = "(open_session d p)\<lparr>rls_tenant := Some t\<rparr>"
  let ?s' = "(open_session d' p')\<lparr>rls_tenant := Some t\<rparr>"
  from assms(2) obtain s' where run: "submit_attempt ctx pr i q ?s = (Inr x, s')"
    and s': "d' = committed s'" "p' = proc s'"
    by (auto simp: serve_def scoped_run split: prod.splits)
  from submit_attempt_stored [OF run] assms(1)
  have x: "x \<in> set (assessment_attempts d')" "at_id x = i" "terminal_attempt (at_status x)"
      "ctx_tenant ctx = Some (at_tenant x)" "t = at_tenant x"
    and uniq: "unique_rows assessment_attempts_table (assessment_attempts d')"
    by (simp_all add: s' open_session_def)
  have "lookup assessment_attempts_table (\<lambda>r. at_tenant r = at_tenant x \<and> at_id r = i) ?s' = Some x"
  proof (rule lookup_unique)
    fix r assume "r \<in> set (rows assessment_attempts_table ?s')" "at_tenant r = at_tenant x \<and> at_id r = i"
    then show "r = x" by (intro unique_rows_key [OF uniq _ x(1)]) (simp_all add: x(2) open_session_def)
  qed (simp_all add: x open_session_def)
  with x show ?thesis
    by (simp add: serve_def scoped_run submit_attempt_def get_attempt_or_raise_def
        attempt_get_for_tenant_def answers_of_attempt_def tx_query)
qed

theorem submit_attempt_idempotent_witness:
  "\<exists>x d p. serve (scoped 1 (submit_attempt sample_ctx sample_pr 60
      \<lparr>tmp_idempotency_key = Some ''k'', tmp_auto_submit = True\<rparr>)) d p = (Inr x, d, p) \<and>
     at_status x = AT_SUBMITTED"
proof -
  let ?m = "scoped 1 (submit_attempt sample_ctx sample_pr 60 \<lparr>tmp_idempotency_key = None, tmp_auto_submit = False\<rparr>)"
  let ?r = "serve ?m sample_assess_db sample_proc"
  have "\<not> isl (fst ?r)" "at_status (projr (fst ?r)) = AT_SUBMITTED" by code_simp+
  moreover from serve_Inr [OF this(1)] have
    ok: "?r = (Inr (projr (fst ?r)), fst (snd ?r), snd (snd ?r))" .
  moreover have "unique_rows assessment_attempts_table (assessment_attempts sample_assess_db)"
    using sample_assess_inv by (simp add: assess_inv_def evaluated_ok_def)
  ultimately show ?thesis using submit_attempt_idempotent [OF _ ok] by blast
qed

text \<open>
  C11. A submission evaluates the attempt on the spot exactly when every question of the assessment
  has an evaluated answer of the attempt; the attempt then scores the sum of the scores of its
  answers, rounded to two decimals.
\<close>

theorem submit_attempt_score:
  assumes "submit_attempt ctx pr i q s = (Inr t, s')" "lookup assessment_attempts_table
      (\<lambda>r. at_tenant r = tenant \<and> at_id r = i) s = Some old"
    and "ctx_tenant ctx = Some tenant" "at_status old = AT_STARTED" "rows_inv (working s) p"
  shows "(at_status t = AT_EVALUATED \<longleftrightarrow>
      (\<forall>x\<in>set (assessment_questions (working s)). aq_tenant x = tenant \<and> aq_assessment x = at_assessment old \<longrightarrow>
        (\<exists>a\<in>set (assessment_answers (working s)). an_tenant a = tenant \<and> an_attempt a = i \<and>
          an_assessment_question a = aq_id x \<and> an_status a \<in> {AUTO_EVALUATED, MANUAL_EVALUATED}))) \<and>
    (at_status t = AT_EVALUATED \<longrightarrow> at_score t = Some (quantize2
      (\<Sum>a | a \<in> set (assessment_answers (working s)) \<and> an_tenant a = tenant \<and> an_attempt a = i.
        case an_score a of None \<Rightarrow> 0 | Some x \<Rightarrow> x))) \<and>
    (at_status t \<noteq> AT_EVALUATED \<longrightarrow> at_status t \<in> {AT_SUBMITTED, AT_AUTO_SUBMITTED}) \<and>
    at_submitted_at t = Some (clock (proc s))"
proof -
  from assessment_attempts_tbl.lookup_own [OF assms(2)] have own:
    "old \<in> set (assessment_attempts (working s))" "at_id old = i" "at_tenant old = tenant"
    "rls_tenant s = Some tenant" by auto
  have uniq: "unique_rows assessment_attempts_table (assessment_attempts (working s))"
    and placed: "answers_placed (working s)"
    using assms(5) by (simp_all add: rows_inv_def evaluated_ok_def)
  note complete = all_questions_answered [OF assms(5) own(4,1,2,3)]
    and total = total_of_rows [OF placed own(4), of i]
  from assms(1) show ?thesis
  proof (cases rule: submit_attemptE)
    case closed
    with unique_rows_key [OF uniq own(1) closed(2)] own(2) have "t = old" by simp
    with closed(3) assms(4) show ?thesis by (simp add: terminal_attempt_def)
  next
    case (submitted old' n)
    with unique_rows_key [OF uniq own(1) submitted(1)] own(2) have "old' = old" by simp
    with submitted(9,10,12,13) own(3) show ?thesis
      unfolding complete [symmetric] total [symmetric] by (auto simp: terminal_attempt_def)
  qed
qed

text \<open>Two questions, one of them answered and evaluated: the attempt waits.\<close>

theorem submit_attempt_score_witness:
  "\<exists>t s'. submit_attempt sample_ctx sample_pr 60 \<lparr>tmp_idempotency_key = None, tmp_auto_submit = False\<rparr>
      (sample_session (sample_assess_db\<lparr>assessment_answers := [sample_answer 70 60 50 (Some 2)]\<rparr>)) = (Inr t, s') \<and>
    at_status t \<in> {AT_SUBMITTED, AT_AUTO_SUBMITTED} \<and> at_submitted_at t = Some 1000"
proof -
  let ?d = "sample_assess_db\<lparr>assessment_answers := [sample_answer 70 60 50 (Some 2)]\<rparr>"
  let ?s = "sample_session ?d"
  let ?r = "submit_attempt sample_ctx sample_pr 60 \<lparr>tmp_idempotency_key = None, tmp_auto_submit = False\<rparr> ?s"
  have "\<not> isl (fst ?r)" by code_simp
  from run_Inr [OF this] obtain t s' where run: "?r = (Inr t, s')" by blast
  have found: "lookup assessment_attempts_table (\<lambda>r. at_tenant r = 1 \<and> at_id r = 60) ?s =
      Some (sample_attempt 60 20 AT_STARTED)" by code_simp
  have s: "working ?s = ?d" "clock (proc ?s) = 1000" by (simp_all add: sample_defs)
  have rows: "assessment_questions ?d = [sample_aq 50 30, sample_aq 51 31]"
    "assessment_answers ?d = [sample_answer 70 60 50 (Some 2)]"
    by (simp_all add: sample_assess_db_def)
  have inv: "rows_inv (working ?s) sample_proc"
    unfolding s(1) by (rule rows_inv_fewer_answers [OF sample_rows_inv]) (simp_all add: sample_assess_db_def unique_rows_def)
  have ctx: "ctx_tenant sample_ctx = Some 1" by (simp add: sample_ctx_def)
  have pending: "sample_aq 51 31 \<in> set (assessment_questions ?d)" "aq_id (sample_aq 51 31) = 51"
      "aq_tenant (sample_aq 51 31) = 1" "aq_assessment (sample_aq 51 31) = 40"
      "\<forall>a\<in>set (assessment_answers ?d). an_assessment_question a \<noteq> 51"
      "at_assessment (sample_attempt 60 20 AT_STARTED) = 40" "at_status (sample_attempt 60 20 AT_STARTED) = AT_STARTED"
    unfolding rows by (simp_all add: sample_aq_def sample_answer_def sample_attempt_def)
  note sub = submit_attempt_score [OF run found ctx pending(7) inv, unfolded s pending(6)]
  from sub [THEN conjunct1] pending(1-5) have "at_status t \<noteq> AT_EVALUATED" by metis
  with sub have "at_status t \<in> {AT_SUBMITTED, AT_AUTO_SUBMITTED}" by (elim conjE) (rule mp)
  moreover have "at_submitted_at t = Some 1000" using sub by (elim conjE)
  ultimately show ?thesis using run by (intro exI conjI)
qed

section \<open>Guards\<close>

text \<open>
  C12. An attempt that is not open takes no answer: the request fails with 409 \<open>attempt_not_open\<close>
  and changes nothing.
\<close>

theorem submit_answer_closed:
  assumes "lookup assessment_attempts_table (\<lambda>r. at_tenant r = tenant \<and> at_id r = i) s = Some t"
    and "ctx_tenant ctx = Some tenant" "at_status t \<noteq> AT_STARTED"
  shows "submit_answer ctx pr i p s = (Inl (Prep_Suite_Error ''attempt_not_open'' 409), s)"
  using assms by (simp add: submit_answer_def get_attempt_or_raise_def attempt_get_for_tenant_def tx_query)

theorem submit_answer_closed_witness:
  "submit_answer sample_ctx sample_pr 60 \<lparr>nsp_assessment_question = 50, nsp_answer = JNull,
     nsp_idempotency_key = None\<rparr> (sample_session
       (sample_assess_db\<lparr>assessment_attempts := [sample_attempt 60 20 AT_SUBMITTED]\<rparr>)) =
   (Inl (Prep_Suite_Error ''attempt_not_open'' 409), sample_session
       (sample_assess_db\<lparr>assessment_attempts := [sample_attempt 60 20 AT_SUBMITTED]\<rparr>))"
  by (rule submit_answer_closed [where tenant = 1 and t = "sample_attempt 60 20 AT_SUBMITTED"])
    (code_simp, simp_all add: sample_ctx_def sample_attempt_def)

text \<open>
  C13. A new attempt is opened only for an assessment that is scheduled or live, within its window,
  and for a student of the tenant who is an active member of the batch of the assessment, when it
  has one.
\<close>

theorem start_attempt_guarded:
  assumes "start_attempt ctx pr i p s = (Inr t, s')"
    and "t \<notin> set (assessment_attempts (working s))"
  shows "\<exists>a\<in>set (assessments (working s)). as_id a = i \<and> as_status a \<in> {AS_SCHEDULED, AS_LIVE} \<and>
    (\<forall>b. as_starts_at a = Some b \<longrightarrow> b \<le> clock (proc s)) \<and>
    (\<forall>e. as_ends_at a = Some e \<longrightarrow> clock (proc s) \<le> e) \<and>
    (\<exists>st\<in>set (students (working s)). st_id st = tsp_student p \<and> st_tenant st = as_tenant a) \<and>
    (\<forall>b. as_batch a = Some b \<longrightarrow> (\<exists>m\<in>set (batch_students (working s)).
      bs_batch m = b \<and> bs_student m = tsp_student p \<and> bs_status m = BS_ACTIVE))"
proof -
  from assms(1) obtain tenant a u where a:
    "lookup assessments_table (\<lambda>r. as_tenant r = tenant \<and> as_id r = i \<and> as_deleted_at r = None) s = Some a"
    and w: "assert_attempt_window a s = (Inr (), s)"
    and v: "validate_student_access tenant a (tsp_student p) s = (Inr u, s)"
    by (auto simp: start_attempt_def assess_tx_inv assert_attempt_window_def validate_student_access_def
        split: if_splits option.splits)
  from assessments_tbl.lookup_own [OF a] have own: "a \<in> set (assessments (working s))" "as_id a = i"
    "as_tenant a = tenant" by auto
  have "as_status a \<in> {AS_SCHEDULED, AS_LIVE}" "\<forall>b. as_starts_at a = Some b \<longrightarrow> b \<le> clock (proc s)"
    "\<forall>e. as_ends_at a = Some e \<longrightarrow> clock (proc s) \<le> e"
    using w by (auto simp: assert_attempt_window_def tx_steps split: if_splits option.splits)
  moreover have "\<exists>st\<in>set (students (working s)). st_id st = tsp_student p \<and> st_tenant st = as_tenant a"
    using v own(3) by (auto simp: validate_student_access_def tx_steps dest!: students_tbl.lookup_own)
  moreover have "\<exists>m\<in>set (batch_students (working s)). bs_batch m = b \<and> bs_student m = tsp_student p \<and>
      bs_status m = BS_ACTIVE" if "as_batch a = Some b" for b
    using v that by (auto simp: validate_student_access_def tx_steps split: if_splits
        dest!: batch_students_tbl.lookup_own)
  ultimately show ?thesis using own(1,2) by blast
qed

text \<open>The student starts an attempt in the middle of the window.\<close>

definition sample_starting_db :: db where
  "sample_starting_db = sample_assess_db\<lparr>assessment_attempts := [], students := [
     \<lparr>st_id = 20, st_tenant = 1, st_admission_no = ''S'', st_first_name = ''Ada'', st_last_name = None,
      st_email = None, st_phone = None, st_date_of_birth = None, st_gender = None,
      st_status = SS_ACTIVE, st_joined_at = None, st_deleted_at = None, st_created_at = 0\<rparr>]\<rparr>"

theorem start_attempt_guarded_witness:
  "\<exists>t s'. start_attempt sample_ctx sample_pr 40 \<lparr>tsp_student = 20, tsp_idempotency_key = None\<rparr>
      (sample_session sample_starting_db) = (Inr t, s') \<and> at_id t = 100 \<and>
    (\<exists>a\<in>set (assessments sample_starting_db). as_id a = 40 \<and> as_status a \<in> {AS_SCHEDULED, AS_LIVE})"
proof -
  let ?s = "sample_session sample_starting_db"
  let ?r = "start_attempt sample_ctx sample_pr 40 \<lparr>tsp_student = 20, tsp_idempotency_key = None\<rparr> ?s"
  have "\<not> isl (fst ?r)" "at_id (projr (fst ?r)) = 100" by code_simp+
  moreover from run_Inr [OF this(1)] obtain t s' where run: "?r = (Inr t, s')" by blast
  moreover have d: "working ?s = sample_starting_db" by (simp add: sample_session_def open_session_def)
  moreover have "assessment_attempts sample_starting_db = []" by (simp add: sample_starting_db_def)
  ultimately show ?thesis using start_attempt_guarded [OF run] by fastforce
qed

section \<open>Analytics\<close>

lemma quantized_mean:
  assumes "xs \<noteq> []" "\<forall>x\<in>set xs. lo \<le> x \<and> x \<le> hi"
  shows "lo \<le> sum_list xs / of_nat (length xs) \<and> sum_list xs / of_nat (length xs) \<le> (hi :: rat)"
proof -
  have "of_nat (length xs) * lo \<le> sum_list xs \<and> sum_list xs \<le> of_nat (length xs) * hi"
    using assms(2) by (induction xs) (auto simp: algebra_simps intro: add_mono)
  moreover have "0 < (of_nat (length xs) :: rat)" using assms(1) by simp
  ultimately show ?thesis by (simp add: field_simps)
qed

text \<open>
  C14. The analytics of an assessment are consistent: no more attempts are evaluated than submitted
  and than started, and the average score lies between the lowest and the highest one although it is
  rounded; there is an average exactly when there is a result.
\<close>

theorem analytics_consistent:
  assumes "analytics ctx i s = (Inr st, s')"
    and "\<forall>r\<in>set (assessment_results (working s)). cents (rs_score r)"
  shows "aan_attempts_evaluated st \<le> aan_attempts_submitted st \<and>
    aan_attempts_submitted st \<le> aan_attempts_started st \<and>
    (case (aan_lowest_score st, aan_average_score st, aan_highest_score st) of
       (None, None, None) \<Rightarrow> aan_results_published st = 0
     | (Some lo, Some avg, Some hi) \<Rightarrow> lo \<le> avg \<and> avg \<le> hi \<and> lo \<in> rs_score ` set (assessment_results (working s))
     | _ \<Rightarrow> False)"
proof -
  from assms(1) obtain a attempts results where st: "st = assessment_stats a attempts results"
    and results: "set results \<subseteq> set (assessment_results (working s))"
    by (auto simp: analytics_def assess_tx_inv attempts_for_assessment_def)
  let ?xs = "map rs_score results"
  have "aan_attempts_evaluated st \<le> aan_attempts_submitted st"
    by (auto simp: st assessment_stats_def Let_def terminal_attempt_def intro!: count_if_mono)
  moreover have "aan_attempts_submitted st \<le> aan_attempts_started st"
    by (simp add: st assessment_stats_def Let_def count_if_le_length)
  moreover have "lo \<le> avg \<and> avg \<le> hi \<and> lo \<in> rs_score ` set (assessment_results (working s))"
    if "results \<noteq> []" and lo: "lo = Min (set ?xs)" and hi: "hi = Max (set ?xs)"
      and avg: "avg = quantize2 (sum_list ?xs / of_nat (length ?xs))" for lo hi avg
  proof -
    have mem: "lo \<in> set ?xs" "hi \<in> set ?xs" using that(1) unfolding lo hi by (auto intro: Min_in Max_in)
    then have c: "quantize2 lo = lo" "quantize2 hi = hi"
      using assms(2) results by (auto simp: cents_def)
    have "\<forall>x\<in>set ?xs. lo \<le> x \<and> x \<le> hi" unfolding lo hi by simp
    with quantized_mean [of ?xs lo hi] that(1)
    have "lo \<le> sum_list ?xs / of_nat (length ?xs)" "sum_list ?xs / of_nat (length ?xs) \<le> hi" by simp_all
    from quantize2_mono [OF this(1)] quantize2_mono [OF this(2)] c mem results show ?thesis
      by (auto simp: avg)
  qed
  ultimately show ?thesis
    by (cases "results = []") (simp_all add: st assessment_stats_def Let_def decimal_average_def)
qed

theorem analytics_consistent_witness:
  "\<exists>st s'. analytics sample_ctx 40 (sample_session (sample_assess_db\<lparr>assessment_results :=
       [\<lparr>rs_id = 90, rs_tenant = 1, rs_assessment = 40, rs_student = 20, rs_attempt = 60, rs_score = 3,
         rs_percentage = 75, rs_status = R_PUBLISHED, rs_published_at = None\<rparr>]\<rparr>)) = (Inr st, s') \<and>
     aan_average_score st = Some 3 \<and> aan_attempts_submitted st \<le> aan_attempts_started st"
proof -
  let ?rs = "[\<lparr>rs_id = 90, rs_tenant = 1, rs_assessment = 40, rs_student = 20, rs_attempt = 60, rs_score = 3,
    rs_percentage = 75, rs_status = R_PUBLISHED, rs_published_at = None\<rparr>]"
  let ?s = "sample_session (sample_assess_db\<lparr>assessment_results := ?rs\<rparr>)"
  have "\<not> isl (fst (analytics sample_ctx 40 ?s))"
    "aan_average_score (projr (fst (analytics sample_ctx 40 ?s))) = Some 3" by code_simp+
  moreover from run_Inr [OF this(1)] obtain st s' where run: "analytics sample_ctx 40 ?s = (Inr st, s')"
    by blast
  moreover have "\<forall>r\<in>set (assessment_results (working ?s)). cents (rs_score r)"
    by (auto simp: sample_session_def open_session_def cents_iff intro: exI [of _ 300])
  ultimately show ?thesis using analytics_consistent [OF run] by auto
qed

end
