(* ===== verification/Attend.thy ===== *)
theory Attend
  imports Platform
begin

text \<open>
  PrepAttend (app/modules/attend/service.py and repository.py): attendance sessions of a batch and
  the records of its students, the daily records of the employees, summaries over a range of dates,
  and correction requests with their review.
\<close>

section \<open>Payloads and answers\<close>

record student_session_create =
  ssp_batch :: uuid
  ssp_date :: int
  ssp_course :: "uuid option"
  ssp_live_class :: "uuid option"
  ssp_status :: student_attendance_session_status
  ssp_metadata :: json

record student_record_mark =
  srm_student :: uuid
  srm_status :: student_attendance_status
  srm_remarks :: "string option"
  srm_metadata :: json

record student_records_request =
  srr_records :: "student_record_mark list"
  srr_submit_session :: bool

record student_record_update =
  sru_status :: "student_attendance_status option"
  sru_remarks :: "string option"
  sru_metadata :: "json option"

record student_attendance_summary_item =
  ssi_student :: uuid
  ssi_total :: nat
  ssi_present :: nat
  ssi_absent :: nat
  ssi_late :: nat
  ssi_excused :: nat
  ssi_percentage :: rat

record check_in_request =
  cip_employee :: uuid
  cip_check_in_at :: "datetime option"
  cip_source :: employee_attendance_source
  cip_remarks :: "string option"
  cip_idempotency_key :: "string option"
  cip_metadata :: json

record check_out_request =
  cop_employee :: uuid
  cop_check_out_at :: "datetime option"
  cop_status :: "employee_attendance_status option"
  cop_remarks :: "string option"

record employee_attendance_summary_item =
  esi_employee :: uuid
  esi_total_days :: nat
  esi_present :: nat
  esi_late :: nat
  esi_absent :: nat
  esi_half_day :: nat
  esi_on_leave :: nat
  esi_percentage :: rat
  esi_work_seconds :: int

record correction_create =
  ccp_target_type :: attendance_correction_target
  ccp_student_record :: "uuid option"
  ccp_employee_record :: "uuid option"
  ccp_requested_status :: string
  ccp_reason :: string
  ccp_metadata :: json

record correction_approve =
  cap_approved :: bool
  cap_reviewer_note :: "string option"

section \<open>Repositories\<close>

definition student_session_get :: "uuid \<Rightarrow> uuid \<Rightarrow> (db, student_attendance_session option) op" where
  "student_session_get tenant i = scalar student_attendance_sessions_table
     (\<lambda>r. sas_tenant r = tenant \<and> sas_id r = i)"

definition student_record_get :: "uuid \<Rightarrow> uuid \<Rightarrow> (db, student_attendance_record option) op" where
  "student_record_get tenant i = scalar student_attendance_records_table
     (\<lambda>r. sar_tenant r = tenant \<and> sar_id r = i)"

definition record_for_session_student ::
    "uuid \<Rightarrow> uuid \<Rightarrow> uuid \<Rightarrow> (db, student_attendance_record option) op" where
  "record_for_session_student tenant i student_id = scalar student_attendance_records_table
     (\<lambda>r. sar_tenant r = tenant \<and> sar_session r = i \<and> sar_student r = student_id)"

definition student_records_for_summary :: "uuid \<Rightarrow> int \<Rightarrow> int \<Rightarrow> uuid option \<Rightarrow> uuid option \<Rightarrow>
    (db, student_attendance_record list) op" where
  "student_records_for_summary tenant start_date end_date batch_id student_id =
     bind_tx (select_rows student_attendance_sessions_table (\<lambda>x. start_date \<le> sas_date x \<and>
       sas_date x \<le> end_date \<and> matches_filter batch_id (sas_batch x))) (\<lambda>sessions.
     bind_tx (select_rows student_attendance_records_table (\<lambda>r. sar_tenant r = tenant \<and>
       list_ex (\<lambda>x. sas_id x = sar_session r) sessions \<and>
       matches_filter student_id (sar_student r))) (\<lambda>found.
     return_tx (sort_key (\<lambda>r. (sar_student r, sar_created_at r)) found)))"

definition employee_record_get :: "uuid \<Rightarrow> uuid \<Rightarrow> (db, employee_attendance_record option) op" where
  "employee_record_get tenant i = scalar employee_attendance_records_table
     (\<lambda>r. ear_tenant r = tenant \<and> ear_id r = i)"

definition record_for_employee_date ::
    "uuid \<Rightarrow> uuid \<Rightarrow> int \<Rightarrow> (db, employee_attendance_record option) op" where
  "record_for_employee_date tenant employee_id day = scalar employee_attendance_records_table
     (\<lambda>r. ear_tenant r = tenant \<and> ear_employee r = employee_id \<and> ear_date r = day)"

definition employee_records_for_summary :: "uuid \<Rightarrow> int \<Rightarrow> int \<Rightarrow> uuid option \<Rightarrow>
    (db, employee_attendance_record list) op" where
  "employee_records_for_summary tenant start_date end_date employee_id =
     bind_tx (select_rows employee_attendance_records_table (\<lambda>r. ear_tenant r = tenant \<and>
       start_date \<le> ear_date r \<and> ear_date r \<le> end_date \<and>
       matches_filter employee_id (ear_employee r))) (\<lambda>found.
     return_tx (sort_key (\<lambda>r. (ear_employee r, ear_date r)) found))"

definition correction_get :: "uuid \<Rightarrow> uuid \<Rightarrow> (db, attendance_correction_request option) op" where
  "correction_get tenant i = scalar attendance_correction_requests_table
     (\<lambda>r. acr_tenant r = tenant \<and> acr_id r = i)"

section \<open>Guards and responses\<close>

definition get_student_session_or_raise :: "uuid \<Rightarrow> uuid \<Rightarrow> (db, student_attendance_session) op" where
  "get_student_session_or_raise tenant i =
     some_or_404 ''student_attendance_session_not_found'' (student_session_get tenant i)"

definition get_student_record_or_raise :: "uuid \<Rightarrow> uuid \<Rightarrow> (db, student_attendance_record) op" where
  "get_student_record_or_raise tenant i =
     some_or_404 ''student_attendance_record_not_found'' (student_record_get tenant i)"

definition get_employee_record_or_raise :: "uuid \<Rightarrow> uuid \<Rightarrow> (db, employee_attendance_record) op" where
  "get_employee_record_or_raise tenant i =
     some_or_404 ''employee_attendance_record_not_found'' (employee_record_get tenant i)"

definition get_correction_or_raise :: "uuid \<Rightarrow> uuid \<Rightarrow> (db, attendance_correction_request) op" where
  "get_correction_or_raise tenant i =
     some_or_404 ''attendance_correction_not_found'' (correction_get tenant i)"

text \<open>\<open>LOCKED_SESSION_STATUSES\<close>\<close>

definition session_locked :: "student_attendance_session \<Rightarrow> bool" where
  "session_locked x \<longleftrightarrow> sas_status x = SES_LOCKED \<or> sas_status x = SES_CANCELLED"

definition assert_session_writable :: "student_attendance_session \<Rightarrow> (db, unit) op" where
  "assert_session_writable x =
     (if session_locked x then abort ''student_attendance_session_locked'' 409 else return_tx ())"

definition assert_date_range :: "int \<Rightarrow> int \<Rightarrow> (db, unit) op" where
  "assert_date_range start_date end_date =
     (if end_date < start_date then abort ''invalid_date_range'' 422 else return_tx ())"

text \<open>
  The response models read the status text back as a member of the enumeration: another text is a
  ValidationError.
\<close>

definition student_record_read :: "student_attendance_record \<Rightarrow> (db, student_attendance_record) op" where
  "student_record_read r = (if sar_status r \<in> set student_attendance_values then return_tx r
     else raise_tx (Python_Error ''ValidationError''))"

definition employee_record_read ::
    "employee_attendance_record \<Rightarrow> (db, employee_attendance_record) op" where
  "employee_record_read r = (if ear_status r \<in> set employee_attendance_values then return_tx r
     else raise_tx (Python_Error ''ValidationError''))"

definition attend_validate_batch :: "uuid \<Rightarrow> uuid \<Rightarrow> (db, unit) op" where
  "attend_validate_batch tenant i =
     bind_tx (some_or_404 ''batch_not_found'' (scalar batches_table
       (\<lambda>r. bt_tenant r = tenant \<and> bt_id r = i \<and> bt_deleted_at r = None))) (\<lambda>_. return_tx ())"

definition attend_validate_student :: "uuid \<Rightarrow> uuid \<Rightarrow> (db, unit) op" where
  "attend_validate_student tenant i =
     bind_tx (some_or_404 ''student_not_found'' (scalar students_table
       (\<lambda>r. st_tenant r = tenant \<and> st_id r = i \<and> st_deleted_at r = None))) (\<lambda>_. return_tx ())"

definition validate_student_membership :: "uuid \<Rightarrow> uuid \<Rightarrow> uuid \<Rightarrow> (db, unit) op" where
  "validate_student_membership tenant batch_id student_id =
     bind_tx (attend_validate_student tenant student_id) (\<lambda>_.
     bind_tx (scalar batch_students_table (\<lambda>r. bs_tenant r = tenant \<and> bs_batch r = batch_id \<and>
       bs_student r = student_id \<and> bs_status r = BS_ACTIVE)) (\<lambda>membership.
     if membership = None then abort ''student_not_in_batch'' 403 else return_tx ()))"

definition validate_employee :: "uuid \<Rightarrow> uuid \<Rightarrow> (db, unit) op" where
  "validate_employee tenant i =
     bind_tx (some_or_404 ''employee_not_found'' (scalar employees_table
       (\<lambda>r. em_tenant r = tenant \<and> em_id r = i \<and> em_deleted_at r = None))) (\<lambda>_. return_tx ())"

text \<open>\<open>_coerce_datetime\<close>: the given time, or the clock; a naive time is read as UTC.\<close>

definition given_or_now :: "datetime option \<Rightarrow> (db, datetime) op" where
  "given_or_now d = (case d of None \<Rightarrow> bind_tx now_utc (\<lambda>now. return_tx (Aware now 0))
     | Some v \<Rightarrow> return_tx (coerce_datetime v))"

definition attend_percentage :: "rat \<Rightarrow> rat \<Rightarrow> rat" where
  "attend_percentage numerator denominator =
     (if denominator \<le> 0 then 0 else quantize2 (numerator / denominator * 100))"

section \<open>Attendance sessions\<close>

definition create_student_session :: "tenant_context \<Rightarrow> principal \<Rightarrow> student_session_create \<Rightarrow>
    (db, student_attendance_session) op" where
  "create_student_session ctx pr p =
     bind_tx (require_tenant_id ctx) (\<lambda>tenant.
     bind_tx (attend_validate_batch tenant (ssp_batch p)) (\<lambda>_.
     bind_tx uuid4 (\<lambda>i.
     bind_tx (insert_row student_attendance_sessions_table
       \<lparr>sas_id = i, sas_tenant = tenant, sas_batch = ssp_batch p, sas_course = ssp_course p,
        sas_live_class = ssp_live_class p, sas_date = ssp_date p,
        sas_marked_by = Some (pr_user pr), sas_status = ssp_status p, sas_submitted_at = None,
        sas_metadata = ssp_metadata p\<rparr>) (\<lambda>x.
     bind_tx commit_tx (\<lambda>_.
     bind_tx (publish_event ''attendance.student_session.created'' ctx pr (sas_id x)) (\<lambda>_.
     return_tx x))))))"

text \<open>One item of a marking request: the record of the student is added or overwritten.\<close>

definition mark_student :: "uuid \<Rightarrow> principal \<Rightarrow> student_attendance_session \<Rightarrow>
    student_record_mark \<Rightarrow> (db, student_attendance_record) op" where
  "mark_student tenant pr x item =
     bind_tx (validate_student_membership tenant (sas_batch x) (srm_student item)) (\<lambda>_.
     bind_tx (record_for_session_student tenant (sas_id x) (srm_student item)) (\<lambda>existing.
     bind_tx now_utc (\<lambda>now.
     case existing of
       None \<Rightarrow> bind_tx uuid4 (\<lambda>i. insert_row student_attendance_records_table
         \<lparr>sar_id = i, sar_tenant = tenant, sar_session = sas_id x, sar_student = srm_student item,
          sar_status = student_attendance_value (srm_status item), sar_marked_at = now,
          sar_marked_by = Some (pr_user pr), sar_remarks = srm_remarks item,
          sar_metadata = srm_metadata item, sar_created_at = now\<rparr>)
     | Some r \<Rightarrow> save_row student_attendance_records_table
         (r\<lparr>sar_status := student_attendance_value (srm_status item), sar_marked_at := now,
            sar_marked_by := Some (pr_user pr), sar_remarks := srm_remarks item,
            sar_metadata := srm_metadata item\<rparr>))))"

definition mark_student_records :: "tenant_context \<Rightarrow> principal \<Rightarrow> uuid \<Rightarrow> student_records_request \<Rightarrow>
    (db, student_attendance_record list) op" where
  "mark_student_records ctx pr i p =
     bind_tx (require_tenant_id ctx) (\<lambda>tenant.
     bind_tx (get_student_session_or_raise tenant i) (\<lambda>x.
     bind_tx (assert_session_writable x) (\<lambda>_.
     bind_tx (on_conflict ''student_attendance_conflict''
       (bind_tx (for_each (mark_student tenant pr x) (srr_records p)) (\<lambda>records.
        bind_tx now_utc (\<lambda>now.
        bind_tx (when_tx (srr_submit_session p)
          (bind_tx (save_row student_attendance_sessions_table
             (x\<lparr>sas_status := SES_SUBMITTED, sas_submitted_at := Some now\<rparr>)) (\<lambda>_. return_tx ()))) (\<lambda>_.
        bind_tx (for_each student_record_read records) (\<lambda>response.
        bind_tx commit_tx (\<lambda>_.
        return_tx response))))))) (\<lambda>response.
     bind_tx (publish_event ''attendance.student_records.marked'' ctx pr (sas_id x)) (\<lambda>_.
     return_tx response)))))"

definition update_student_record :: "tenant_context \<Rightarrow> principal \<Rightarrow> uuid \<Rightarrow> student_record_update \<Rightarrow>
    (db, student_attendance_record) op" where
  "update_student_record ctx pr i p =
     bind_tx (require_tenant_id ctx) (\<lambda>tenant.
     bind_tx (get_student_record_or_raise tenant i) (\<lambda>r.
     bind_tx (get_student_session_or_raise tenant (sar_session r)) (\<lambda>x.
     bind_tx (assert_session_writable x) (\<lambda>_.
     bind_tx now_utc (\<lambda>now.
     bind_tx (save_row student_attendance_records_table (r
       \<lparr>sar_status := (case sru_status p of None \<Rightarrow> sar_status r | Some v \<Rightarrow> student_attendance_value v),
        sar_remarks := (case sru_remarks p of None \<Rightarrow> sar_remarks r | Some v \<Rightarrow> Some v),
        sar_metadata := (case sru_metadata p of None \<Rightarrow> sar_metadata r | Some v \<Rightarrow> v),
        sar_marked_by := Some (pr_user pr), sar_marked_at := now\<rparr>)) (\<lambda>saved.
     bind_tx (student_record_read saved) (\<lambda>response.
     bind_tx commit_tx (\<lambda>_.
     bind_tx (publish_event ''attendance.student_record.updated'' ctx pr (sar_id r)) (\<lambda>_.
     return_tx response)))))))))"

section \<open>Summaries\<close>

text \<open>
  \<open>grouped[key].append(record)\<close> for each record, then the groups by ascending key.
\<close>

definition grouped_by :: "('r \<Rightarrow> uuid) \<Rightarrow> 'r list \<Rightarrow> (uuid \<times> 'r list) list" where
  "grouped_by key rs = map (\<lambda>k. (k, filter (\<lambda>r. key r = k) rs)) (sort (remdups (map key rs)))"

definition count_student_status :: "student_attendance_record list \<Rightarrow> student_attendance_status \<Rightarrow> nat" where
  "count_student_status rs v = count_if (\<lambda>r. sar_status r = student_attendance_value v) rs"

definition count_employee_status ::
    "employee_attendance_record list \<Rightarrow> employee_attendance_status \<Rightarrow> nat" where
  "count_employee_status rs v = count_if (\<lambda>r. ear_status r = employee_attendance_value v) rs"

definition student_summary_item :: "uuid \<Rightarrow> student_attendance_record list \<Rightarrow>
    student_attendance_summary_item" where
  "student_summary_item student_id rs =
     (let total = length rs;
          present = count_student_status rs SA_PRESENT;
          late = count_student_status rs SA_LATE;
          absent = count_student_status rs SA_ABSENT;
          excused = count_student_status rs SA_EXCUSED;
          attended = present + late + excused
      in \<lparr>ssi_student = student_id, ssi_total = total, ssi_present = present, ssi_absent = absent,
          ssi_late = late, ssi_excused = excused,
          ssi_percentage = attend_percentage (of_nat attended) (of_nat total)\<rparr>)"

definition work_seconds :: "employee_attendance_record \<Rightarrow> int" where
  "work_seconds r = (case (ear_check_in_at r, ear_check_out_at r) of
     (Some i, Some out) \<Rightarrow> duration_seconds i out | _ \<Rightarrow> 0)"

definition employee_summary_item ::
    "uuid \<Rightarrow> employee_attendance_record list \<Rightarrow>
    employee_attendance_summary_item" where
  "employee_summary_item employee_id rs =
     (let total = length rs;
          present = count_employee_status rs EA_PRESENT;
          late = count_employee_status rs EA_LATE;
          absent = count_employee_status rs EA_ABSENT;
          half_day = count_if (\<lambda>r. ear_status r = employee_attendance_value EA_HALF_DAY) rs;
          on_leave = count_if (\<lambda>r. ear_status r = employee_attendance_value EA_ON_LEAVE) rs;
          attended = of_nat (present + late) + of_nat half_day * (1 / 2)
      in \<lparr>esi_employee = employee_id, esi_total_days = total, esi_present = present,
          esi_late = late, esi_absent = absent, esi_half_day = half_day, esi_on_leave = on_leave,
          esi_percentage = attend_percentage attended (of_nat total),
          esi_work_seconds = sum_list (map work_seconds rs)\<rparr>)"

definition student_summary :: "tenant_context \<Rightarrow> int \<Rightarrow> int \<Rightarrow> uuid option \<Rightarrow> uuid option \<Rightarrow>
    (db, student_attendance_summary_item list) op" where
  "student_summary ctx start_date end_date batch_id student_id =
     bind_tx (require_tenant_id ctx) (\<lambda>tenant.
     bind_tx (assert_date_range start_date end_date) (\<lambda>_.
     bind_tx (case batch_id of None \<Rightarrow> return_tx () | Some b \<Rightarrow> attend_validate_batch tenant b) (\<lambda>_.
     bind_tx (case student_id of None \<Rightarrow> return_tx () | Some i \<Rightarrow> attend_validate_student tenant i) (\<lambda>_.
     bind_tx (student_records_for_summary tenant start_date end_date batch_id student_id) (\<lambda>rs.
     return_tx (map (\<lambda>(i, rs). student_summary_item i rs) (grouped_by sar_student rs)))))))"

definition employee_summary :: "tenant_context \<Rightarrow> int \<Rightarrow> int \<Rightarrow> uuid option \<Rightarrow>
    (db, employee_attendance_summary_item list) op" where
  "employee_summary ctx start_date end_date employee_id =
     bind_tx (require_tenant_id ctx) (\<lambda>tenant.
     bind_tx (assert_date_range start_date end_date) (\<lambda>_.
     bind_tx (case employee_id of None \<Rightarrow> return_tx () | Some i \<Rightarrow> validate_employee tenant i) (\<lambda>_.
     bind_tx (employee_records_for_summary tenant start_date end_date employee_id) (\<lambda>rs.
     return_tx (map (\<lambda>(i, rs). employee_summary_item i rs) (grouped_by ear_employee rs))))))"

section \<open>Employees\<close>

definition given_key :: "string option \<Rightarrow> bool" where
  "given_key k \<longleftrightarrow> k \<noteq> None \<and> k \<noteq> Some []"

text \<open>The day of a record is the calendar day of the given time in its own offset.\<close>

definition employee_check_in :: "tenant_context \<Rightarrow> principal \<Rightarrow> check_in_request \<Rightarrow>
    (db, employee_attendance_record) op" where
  "employee_check_in ctx pr p =
     bind_tx (require_tenant_id ctx) (\<lambda>tenant.
     bind_tx (validate_employee tenant (cip_employee p)) (\<lambda>_.
     bind_tx (given_or_now (cip_check_in_at p)) (\<lambda>check_in_at.
     bind_tx (record_for_employee_date tenant (cip_employee p) (local_date check_in_at)) (\<lambda>existing.
     case existing of
       Some r \<Rightarrow>
         if given_key (cip_idempotency_key p) \<and> ear_idempotency_key r = cip_idempotency_key p
         then employee_record_read r
         else abort ''employee_attendance_already_checked_in'' 409
     | None \<Rightarrow>
         bind_tx uuid4 (\<lambda>i.
         bind_tx (insert_row employee_attendance_records_table
           \<lparr>ear_id = i, ear_tenant = tenant, ear_employee = cip_employee p,
            ear_date = local_date check_in_at, ear_check_in_at = Some (instant check_in_at),
            ear_check_out_at = None, ear_status = employee_attendance_value EA_PRESENT,
            ear_source = cip_source p, ear_marked_by = Some (pr_user pr),
            ear_remarks = cip_remarks p, ear_idempotency_key = cip_idempotency_key p,
            ear_metadata = cip_metadata p\<rparr>) (\<lambda>r.
         bind_tx (employee_record_read r) (\<lambda>response.
         bind_tx commit_tx (\<lambda>_.
         bind_tx (publish_event ''attendance.employee.checked_in'' ctx pr (ear_id r)) (\<lambda>_.
         return_tx response)))))))))"

definition employee_check_out :: "tenant_context \<Rightarrow> principal \<Rightarrow> check_out_request \<Rightarrow>
    (db, employee_attendance_record) op" where
  "employee_check_out ctx pr p =
     bind_tx (require_tenant_id ctx) (\<lambda>tenant.
     bind_tx (validate_employee tenant (cop_employee p)) (\<lambda>_.
     bind_tx (given_or_now (cop_check_out_at p)) (\<lambda>check_out_at.
     bind_tx (some_or_404 ''employee_attendance_not_found''
       (record_for_employee_date tenant (cop_employee p) (local_date check_out_at))) (\<lambda>r.
     if (case ear_check_in_at r of None \<Rightarrow> False | Some t \<Rightarrow> instant check_out_at < t)
     then abort ''employee_checkout_before_checkin'' 422
     else bind_tx (save_row employee_attendance_records_table (r
         \<lparr>ear_check_out_at := Some (instant check_out_at),
          ear_status := (case cop_status p of None \<Rightarrow> ear_status r | Some v \<Rightarrow> employee_attendance_value v),
          ear_marked_by := Some (pr_user pr),
          ear_remarks := (case cop_remarks p of None \<Rightarrow> ear_remarks r | Some v \<Rightarrow> Some v)\<rparr>)) (\<lambda>saved.
       bind_tx (employee_record_read saved) (\<lambda>response.
       bind_tx commit_tx (\<lambda>_.
       bind_tx (publish_event ''attendance.employee.checked_out'' ctx pr (ear_id r)) (\<lambda>_.
       return_tx response))))))))"

section \<open>Corrections\<close>

definition requested_status_ok :: "correction_create \<Rightarrow> bool" where
  "requested_status_ok p \<longleftrightarrow> ccp_requested_status p \<in> (case ccp_target_type p of
     STUDENT_RECORD \<Rightarrow> set student_attendance_values
   | EMPLOYEE_RECORD \<Rightarrow> set employee_attendance_values)"

definition validate_requested_status :: "correction_create \<Rightarrow> (db, unit) op" where
  "validate_requested_status p = (if requested_status_ok p then return_tx ()
     else abort ''attendance_correction_invalid_status'' 422)"

definition validate_correction_target :: "uuid \<Rightarrow> correction_create \<Rightarrow> (db, unit) op" where
  "validate_correction_target tenant p = (case ccp_target_type p of
     STUDENT_RECORD \<Rightarrow> (case ccp_student_record p of
         None \<Rightarrow> abort ''attendance_correction_target_required'' 422
       | Some i \<Rightarrow> bind_tx (get_student_record_or_raise tenant i) (\<lambda>_. return_tx ()))
   | EMPLOYEE_RECORD \<Rightarrow> (case ccp_employee_record p of
         None \<Rightarrow> abort ''attendance_correction_target_required'' 422
       | Some i \<Rightarrow> bind_tx (get_employee_record_or_raise tenant i) (\<lambda>_. return_tx ())))"

definition create_correction_request :: "tenant_context \<Rightarrow> principal \<Rightarrow> correction_create \<Rightarrow>
    (db, attendance_correction_request) op" where
  "create_correction_request ctx pr p =
     bind_tx (require_tenant_id ctx) (\<lambda>tenant.
     bind_tx (validate_requested_status p) (\<lambda>_.
     bind_tx (validate_correction_target tenant p) (\<lambda>_.
     bind_tx uuid4 (\<lambda>i.
     bind_tx (insert_row attendance_correction_requests_table
       \<lparr>acr_id = i, acr_tenant = tenant, acr_requester = Some (pr_user pr),
        acr_target_type = ccp_target_type p, acr_student_record = ccp_student_record p,
        acr_employee_record = ccp_employee_record p,
        acr_requested_status = ccp_requested_status p, acr_reason = ccp_reason p,
        acr_status = COR_PENDING, acr_reviewed_by = None, acr_reviewed_at = None,
        acr_reviewer_note = None, acr_metadata = ccp_metadata p\<rparr>) (\<lambda>c.
     bind_tx commit_tx (\<lambda>_.
     bind_tx (publish_event ''attendance.correction.requested'' ctx pr (acr_id c)) (\<lambda>_.
     return_tx c)))))))"

definition apply_correction :: "uuid \<Rightarrow> attendance_correction_request \<Rightarrow> (db, unit) op" where
  "apply_correction tenant c = (case acr_target_type c of
     STUDENT_RECORD \<Rightarrow> (case acr_student_record c of
         None \<Rightarrow> return_tx ()
       | Some i \<Rightarrow> bind_tx (get_student_record_or_raise tenant i) (\<lambda>r. bind_tx now_utc (\<lambda>now.
           bind_tx (save_row student_attendance_records_table
             (r\<lparr>sar_status := acr_requested_status c, sar_marked_at := now\<rparr>)) (\<lambda>_. return_tx ()))))
   | EMPLOYEE_RECORD \<Rightarrow> (case acr_employee_record c of
         None \<Rightarrow> return_tx ()
       | Some i \<Rightarrow> bind_tx (get_employee_record_or_raise tenant i) (\<lambda>r.
           bind_tx (save_row employee_attendance_records_table
             (r\<lparr>ear_status := acr_requested_status c\<rparr>)) (\<lambda>_. return_tx ()))))"

definition approve_correction_request :: "tenant_context \<Rightarrow> principal \<Rightarrow> uuid \<Rightarrow> correction_approve \<Rightarrow>
    (db, attendance_correction_request) op" where
  "approve_correction_request ctx pr i p =
     bind_tx (require_tenant_id ctx) (\<lambda>tenant.
     bind_tx (get_correction_or_raise tenant i) (\<lambda>c.
     if acr_status c \<noteq> COR_PENDING then abort ''attendance_correction_closed'' 409
     else bind_tx now_utc (\<lambda>now.
       let reviewed = c\<lparr>acr_status := (if cap_approved p then COR_APPROVED else COR_REJECTED),
             acr_reviewed_by := Some (pr_user pr), acr_reviewed_at := Some now,
             acr_reviewer_note := cap_reviewer_note p\<rparr>
       in bind_tx (when_tx (cap_approved p) (apply_correction tenant reviewed)) (\<lambda>_.
          bind_tx (save_row attendance_correction_requests_table reviewed) (\<lambda>saved.
          bind_tx commit_tx (\<lambda>_.
          bind_tx (publish_event ''attendance.correction.reviewed'' ctx pr (acr_id c)) (\<lambda>_.
          return_tx saved)))))))"

end
