(* ===== verification/Attend_Facts.thy ===== *)
theory Attend_Facts
  imports Attend Row_Rules
begin

text \<open>
  What PrepAttend guarantees: requests are atomic; between any two steps of a request every status
  text is one its enumeration can read back, an employee leaves no earlier than it came, a pending
  correction fits its target, and the records are unique for their student and session, or employee
  and day.
\<close>

section \<open>Requests\<close>

definition student_records_valid :: "student_records_request \<Rightarrow> bool" where
  "student_records_valid p \<longleftrightarrow> 1 \<le> length (srr_records p) \<and> length (srr_records p) \<le> 500 \<and>
     distinct (map srm_student (srr_records p))"

definition check_in_valid :: "check_in_request \<Rightarrow> bool" where
  "check_in_valid p \<longleftrightarrow> (case cip_idempotency_key p of None \<Rightarrow> True | Some k \<Rightarrow> length k \<le> 160)"

definition correction_valid :: "correction_create \<Rightarrow> bool" where
  "correction_valid p \<longleftrightarrow>
     1 \<le> length (ccp_requested_status p) \<and> length (ccp_requested_status p) \<le> 32 \<and>
     1 \<le> length (ccp_reason p) \<and>
     (case ccp_target_type p of
        STUDENT_RECORD \<Rightarrow> ccp_student_record p \<noteq> None \<and> ccp_employee_record p = None
      | EMPLOYEE_RECORD \<Rightarrow> ccp_employee_record p \<noteq> None \<and> ccp_student_record p = None)"

datatype attend_request =
    Create_Student_Session student_session_create
  | Mark_Student_Records uuid student_records_request
  | Update_Student_Record uuid student_record_update
  | Student_Summary int int "uuid option" "uuid option"
  | Employee_Check_In check_in_request
  | Employee_Check_Out check_out_request
  | Employee_Summary int int "uuid option"
  | Create_Correction correction_create
  | Approve_Correction uuid correction_approve

fun attend_exec :: "tenant_context \<Rightarrow> principal \<Rightarrow> attend_request \<Rightarrow> (db, unit) op" where
  "attend_exec ctx pr (Create_Student_Session p) = discard (create_student_session ctx pr p)"
| "attend_exec ctx pr (Mark_Student_Records i p) =
     validated (student_records_valid p) (discard (mark_student_records ctx pr i p))"
| "attend_exec ctx pr (Update_Student_Record i p) = discard (update_student_record ctx pr i p)"
| "attend_exec ctx pr (Student_Summary start_date end_date b i) =
     discard (student_summary ctx start_date end_date b i)"
| "attend_exec ctx pr (Employee_Check_In p) =
     validated (check_in_valid p) (discard (employee_check_in ctx pr p))"
| "attend_exec ctx pr (Employee_Check_Out p) = discard (employee_check_out ctx pr p)"
| "attend_exec ctx pr (Employee_Summary start_date end_date i) =
     discard (employee_summary ctx start_date end_date i)"
| "attend_exec ctx pr (Create_Correction p) =
     validated (correction_valid p) (discard (create_correction_request ctx pr p))"
| "attend_exec ctx pr (Approve_Correction i p) = discard (approve_correction_request ctx pr i p)"

definition attend_handle :: "attend_request call \<Rightarrow> (db, unit) op" where
  "attend_handle = handle_call attend_exec"

section \<open>Atomicity\<close>

lemmas attend_query_defs = student_session_get_def student_record_get_def
  record_for_session_student_def employee_record_get_def record_for_employee_date_def
  correction_get_def get_student_session_or_raise_def get_student_record_or_raise_def
  get_employee_record_or_raise_def get_correction_or_raise_def

lemmas attend_step_defs = attend_query_defs assert_session_writable_def assert_date_range_def
  student_record_read_def employee_record_read_def attend_validate_batch_def
  attend_validate_student_def validate_student_membership_def validate_employee_def
  given_or_now_def validate_requested_status_def validate_correction_target_def

lemma silent_case_target [atomic_intros]:
  "silent m \<Longrightarrow> silent m' \<Longrightarrow> silent (case t of STUDENT_RECORD \<Rightarrow> m | EMPLOYEE_RECORD \<Rightarrow> m')"
  by (cases t) auto

lemma silent_attend_steps [atomic_intros]:
  "silent (get_student_session_or_raise t i)" "silent (get_student_record_or_raise t i)"
  "silent (get_employee_record_or_raise t i)" "silent (get_correction_or_raise t i)"
  "silent (record_for_session_student t i j)" "silent (record_for_employee_date t i day)"
  "silent (assert_session_writable x)" "silent (assert_date_range b e)"
  "silent (student_record_read sr)" "silent (employee_record_read er)"
  "silent (attend_validate_batch t i)" "silent (attend_validate_student t i)"
  "silent (validate_student_membership t i j)" "silent (validate_employee t i)"
  "silent (given_or_now dt)" "silent (validate_requested_status cp)"
  "silent (validate_correction_target t cp)"
  unfolding attend_step_defs by (intro atomic_intros)+

lemma silent_attend_writes [atomic_intros]:
  "silent (mark_student t pr x item)" "silent (apply_correction t c)"
  unfolding mark_student_def apply_correction_def by (intro atomic_intros)+

lemma silent_attend_reads [atomic_intros]:
  "silent (student_summary ctx b e bi si)" "silent (employee_summary ctx b e ei)"
  unfolding student_summary_def employee_summary_def student_records_for_summary_def
    employee_records_for_summary_def
  by (intro atomic_intros)+

lemma atomic_attend:
  "atomic (create_student_session ctx pr ssp)" "atomic (mark_student_records ctx pr i srr)"
  "atomic (update_student_record ctx pr i sru)" "atomic (employee_check_in ctx pr cip)"
  "atomic (employee_check_out ctx pr cop)" "atomic (create_correction_request ctx pr ccp)"
  "atomic (approve_correction_request ctx pr i cap)"
  unfolding create_student_session_def mark_student_records_def update_student_record_def
    employee_check_in_def employee_check_out_def create_correction_request_def
    approve_correction_request_def
  apply ((rule atomic_bind_silent, (intro atomic_intros; fail)[1])
    | rule atomic_rules | (rule atomic_silent, (intro atomic_intros; fail)[1])
    | rule atomic_bind_unfailing | (intro atomic_intros; fail)[1])+
  done

lemma atomic_attend_handle: "atomic (attend_handle c)"
  unfolding attend_handle_def
  by (rule atomic_handle_call, cases "cl_request c")
    (auto intro!: atomic_discard atomic_validated atomic_attend intro: atomic_silent atomic_intros)

section \<open>What a request leaves alone\<close>

definition record_tables_ok :: "(db session \<Rightarrow> bool) \<Rightarrow> bool" where
  "record_tables_ok J \<longleftrightarrow> table_ok J student_attendance_sessions_table \<and>
     table_ok J student_attendance_records_table \<and> table_ok J employee_attendance_records_table"

lemma keeps_case_target [keeps_intros]:
  "keeps J m \<Longrightarrow> keeps J m' \<Longrightarrow> keeps J (case t of STUDENT_RECORD \<Rightarrow> m | EMPLOYEE_RECORD \<Rightarrow> m')"
  by (cases t) auto

lemma keeps_attend_steps [keeps_intros]:
  "keeps J (get_student_session_or_raise t i)" "keeps J (get_student_record_or_raise t i)"
  "keeps J (get_employee_record_or_raise t i)" "keeps J (get_correction_or_raise t i)"
  "keeps J (record_for_session_student t i j)" "keeps J (record_for_employee_date t i day)"
  "keeps J (assert_session_writable x)" "keeps J (assert_date_range b e)"
  "keeps J (student_record_read sr)" "keeps J (employee_record_read er)"
  "keeps J (attend_validate_batch t i)" "keeps J (attend_validate_student t i)"
  "keeps J (validate_student_membership t i j)" "keeps J (validate_employee t i)"
  "keeps J (given_or_now dt)" "keeps J (validate_requested_status cp)"
  "keeps J (validate_correction_target t cp)"
  unfolding attend_step_defs by (intro keeps_intros)+

lemma keeps_attend_reads [keeps_intros]:
  "keeps J (student_summary ctx b e bi si)" "keeps J (employee_summary ctx b e ei)"
  unfolding student_summary_def employee_summary_def student_records_for_summary_def
    employee_records_for_summary_def
  by (intro keeps_intros)+

lemma keeps_attend_records:
  assumes "tx_ok J" "record_tables_ok J"
  shows "keeps J (create_student_session ctx pr ssp)" "keeps J (mark_student_records ctx pr i srr)"
    "keeps J (update_student_record ctx pr i sru)" "keeps J (employee_check_in ctx pr cip)"
    "keeps J (employee_check_out ctx pr cop)" "keeps J (apply_correction t c)"
  unfolding create_student_session_def mark_student_records_def mark_student_def
    update_student_record_def employee_check_in_def employee_check_out_def apply_correction_def
  by (intro keeps_intros; use assms in \<open>auto simp: record_tables_ok_def\<close>)+

lemma keeps_attend_corrections:
  assumes "tx_ok J" "record_tables_ok J" "table_ok J attendance_correction_requests_table"
  shows "keeps J (create_correction_request ctx pr ccp)" "keeps J (approve_correction_request ctx pr i cap)"
  unfolding create_correction_request_def approve_correction_request_def Let_def
  by (intro keeps_intros keeps_attend_records; use assms in auto)+

lemma keeps_attend_handle:
  assumes "tx_ok J" "record_tables_ok J" "table_ok J attendance_correction_requests_table"
    and "keeps J (set_current_tenant (cl_tenant c))"
  shows "keeps J (attend_handle c)"
  unfolding attend_handle_def
proof (rule keeps_handle_call [OF assms(4)])
  show "keeps J (attend_exec (cl_context c) (cl_principal c) (cl_request c))"
    by (cases "cl_request c")
      (auto intro!: keeps_discard keeps_validated keeps_attend_reads
        keeps_attend_records [OF assms(1,2)] keeps_attend_corrections [OF assms(1,2,3)])
qed

lemma keeps_fresh_attend: "keeps (fresh_from n) (attend_handle c)"
  by (rule keeps_attend_handle)
    (auto simp: record_tables_ok_def tx_ok_fresh table_ok_fresh intro: keeps_intros)

section \<open>The invariant\<close>

definition student_record_ok :: "student_attendance_record \<Rightarrow> bool" where
  "student_record_ok r \<longleftrightarrow> sar_status r \<in> set student_attendance_values"

definition employee_record_ok :: "employee_attendance_record \<Rightarrow> bool" where
  "employee_record_ok r \<longleftrightarrow> ear_status r \<in> set employee_attendance_values \<and>
     (\<forall>i out. ear_check_in_at r = Some i \<longrightarrow> ear_check_out_at r = Some out \<longrightarrow> i \<le> out)"

definition correction_ok :: "attendance_correction_request \<Rightarrow> bool" where
  "correction_ok c \<longleftrightarrow> acr_requested_status c \<in> (case acr_target_type c of
     STUDENT_RECORD \<Rightarrow> set student_attendance_values
   | EMPLOYEE_RECORD \<Rightarrow> set employee_attendance_values)"

definition attend_inv :: "db \<Rightarrow> process \<Rightarrow> bool" where
  "attend_inv d p \<longleftrightarrow>
     (unique_rows student_attendance_records_table (student_attendance_records d) \<and>
      (\<forall>r\<in>set (student_attendance_records d). student_record_ok r)) \<and>
     (unique_rows employee_attendance_records_table (employee_attendance_records d) \<and>
      (\<forall>r\<in>set (employee_attendance_records d). employee_record_ok r)) \<and>
     (unique_rows attendance_correction_requests_table (attendance_correction_requests d) \<and>
      (\<forall>c\<in>set (attendance_correction_requests d). correction_ok c))"

lemma proc_stable_attend_inv: "proc_stable attend_inv"
  by (simp add: proc_stable_def attend_inv_def)

abbreviation attend_J :: "db session \<Rightarrow> bool" where
  "attend_J \<equiv> both attend_inv"

lemma attend_sat:
  "rows_sat attend_J student_attendance_records_table student_record_ok"
  "rows_sat attend_J employee_attendance_records_table employee_record_ok"
  "rows_sat attend_J attendance_correction_requests_table correction_ok"
  "rows_sat attend_J student_attendance_sessions_table (\<lambda>_. True)"
proof -
  show "rows_sat attend_J student_attendance_records_table student_record_ok"
    by (rule student_attendance_records_tbl.unique_sat_both [where
        R = "\<lambda>d p. attend_inv (d\<lparr>student_attendance_records := []\<rparr>) p"])
      (auto simp: attend_inv_def framed_def unique_rows_def)
  show "rows_sat attend_J employee_attendance_records_table employee_record_ok"
    by (rule employee_attendance_records_tbl.unique_sat_both [where
        R = "\<lambda>d p. attend_inv (d\<lparr>employee_attendance_records := []\<rparr>) p"])
      (auto simp: attend_inv_def framed_def unique_rows_def)
  show "rows_sat attend_J attendance_correction_requests_table correction_ok"
    by (rule attendance_correction_requests_tbl.unique_sat_both [where
        R = "\<lambda>d p. attend_inv (d\<lparr>attendance_correction_requests := []\<rparr>) p"])
      (auto simp: attend_inv_def framed_def unique_rows_def)
  show "rows_sat attend_J student_attendance_sessions_table (\<lambda>_. True)"
    by (rule student_attendance_sessions_tbl.rows_sat_both [where R = attend_inv])
      (auto simp: attend_inv_def framed_def)
qed

lemma attend_tx: "tx_ok attend_J" "keeps attend_J rollback_tx"
  using tx_ok_both [OF proc_stable_attend_inv] by (simp_all add: tx_ok_def)

text \<open>The responses can be read back.\<close>

definition readable :: "exc \<Rightarrow> bool" where
  "readable e \<longleftrightarrow> e \<noteq> Python_Error ''ValidationError''"

lemma readable_simps [simp]:
  "readable (Prep_Suite_Error c n)" "readable Integrity_Error" "storage_error e \<Longrightarrow> readable e"
  by (auto simp: readable_def storage_error_def)


lemma attend_guards:
  "ensures attend_J readable (\<lambda>_. True) (get_student_session_or_raise t i)"
  "ensures attend_J readable (\<lambda>_. True) (assert_session_writable x)"
  "ensures attend_J readable (\<lambda>_. True) (assert_date_range b e)"
  "ensures attend_J readable (\<lambda>_. True) (attend_validate_batch t i)"
  "ensures attend_J readable (\<lambda>_. True) (attend_validate_student t i)"
  "ensures attend_J readable (\<lambda>_. True) (validate_student_membership t i j)"
  "ensures attend_J readable (\<lambda>_. True) (validate_employee t i)"
  "ensures attend_J readable (\<lambda>_. True) (given_or_now dt)"
  "ensures attend_J readable (\<lambda>_. requested_status_ok cp) (validate_requested_status cp)"
  "ensures attend_J readable (\<lambda>_. True) (validate_correction_target t cp)"
  unfolding attend_step_defs
  by (auto intro!: ensures_bind ensures_intros ensures_done ensures_return
      split: attendance_correction_target.split)

text \<open>What a query finds satisfies the invariant of its table.\<close>

lemma attend_found:
  "ensures attend_J readable student_record_ok (get_student_record_or_raise t i)"
  "ensures attend_J readable employee_record_ok (get_employee_record_or_raise t i)"
  "ensures attend_J readable correction_ok (get_correction_or_raise t i)"
  "ensures attend_J readable (\<lambda>x. \<forall>r. x = Some r \<longrightarrow> student_record_ok r)
     (record_for_session_student t i j)"
  "ensures attend_J readable (\<lambda>x. \<forall>r. x = Some r \<longrightarrow> employee_record_ok r)
     (record_for_employee_date t i day)"
  "ensures attend_J readable employee_record_ok (some_or_404 code (record_for_employee_date t i day))"
  unfolding attend_query_defs
  by (rule ensures_weaken, rule ensures_404 ensures_scalar, rule attend_sat, simp_all)+

lemma attend_read:
  "student_record_ok r \<Longrightarrow> ensures attend_J readable (\<lambda>_. True) (student_record_read r)"
  "employee_record_ok q \<Longrightarrow> ensures attend_J readable (\<lambda>_. True) (employee_record_read q)"
  by (simp_all add: student_record_read_def employee_record_read_def student_record_ok_def
      employee_record_ok_def ensures_done)

lemma attend_store:
  "student_record_ok r \<Longrightarrow>
   ensures attend_J readable (\<lambda>x. x = r) (insert_row student_attendance_records_table r)"
  "student_record_ok r \<Longrightarrow>
   ensures attend_J readable (\<lambda>x. x = r) (save_row student_attendance_records_table r)"
  "employee_record_ok q \<Longrightarrow>
   ensures attend_J readable (\<lambda>x. x = q) (insert_row employee_attendance_records_table q)"
  "employee_record_ok q \<Longrightarrow>
   ensures attend_J readable (\<lambda>x. x = q) (save_row employee_attendance_records_table q)"
  "correction_ok c \<Longrightarrow>
   ensures attend_J readable (\<lambda>x. x = c) (insert_row attendance_correction_requests_table c)"
  "correction_ok c \<Longrightarrow>
   ensures attend_J readable (\<lambda>x. x = c) (save_row attendance_correction_requests_table c)"
  "ensures attend_J readable (\<lambda>x. True) (insert_row student_attendance_sessions_table z)"
  "ensures attend_J readable (\<lambda>x. True) (save_row student_attendance_sessions_table z)"
  by (auto intro!: ensures_store attend_sat
      ensures_any [OF ensures_store(1)] ensures_any [OF ensures_store(2)])

lemmas attend_rules = attend_guards attend_found attend_read attend_store
  ensures_intros attend_tx ensures_done

lemma ensures_mark_student:
  "ensures attend_J readable student_record_ok (mark_student t pr x item)"
  unfolding mark_student_def
  apply (rule ensures_bind, rule attend_rules)+
  apply (rule ensures_case_option)
   apply (rule ensures_bind, rule attend_rules, rule attend_rules)
   apply (rule ensures_weaken, rule attend_store; simp add: student_record_ok_def)
  apply (rule ensures_weaken, rule attend_store; simp add: student_record_ok_def)
  done


lemma ensures_attend_sessions:
  "ensures attend_J readable (\<lambda>_. True) (create_student_session ctx pr ssp)"
  "ensures attend_J readable (\<lambda>_. True) (update_student_record ctx pr i sru)"
  unfolding create_student_session_def update_student_record_def
  apply ((rule ensures_bind, rule attend_rules) | rule ensures_done
    | (simp add: attend_tx student_record_ok_def split: option.split; fail))+
  done

lemma ensures_mark_student_records:
  "ensures attend_J readable (\<lambda>_. True) (mark_student_records ctx pr i srr)"
  unfolding mark_student_records_def
  apply ((rule ensures_bind, rule attend_rules ensures_mark_student ensures_on_conflict
        ensures_for_each ensures_when) | rule ensures_done ensures_mark_student
        attend_read | (simp add: attend_tx; fail) | (blast; fail))+
  done

lemma ensures_check_in:
  "ensures attend_J readable (\<lambda>_. True) (employee_check_in ctx pr cip)"
  unfolding employee_check_in_def
  apply ((rule ensures_bind, rule attend_rules) | rule ensures_done ensures_case_option ensures_if
      attend_read ensures_abort
      | (simp add: attend_tx employee_record_ok_def del: employee_attendance_value.simps; fail))+
  done

lemma ensures_check_out:
  "ensures attend_J readable (\<lambda>_. True) (employee_check_out ctx pr cop)"
  unfolding employee_check_out_def
  apply ((rule ensures_bind, rule attend_rules) | rule ensures_done ensures_if ensures_abort
      | (simp add: attend_tx employee_record_ok_def split: option.splits; fail))+
  done

text \<open>A correction is applied to a record of its own kind, so the requested text fits.\<close>

lemma ensures_apply_correction:
  assumes "correction_ok c"
  shows "ensures attend_J readable (\<lambda>_. True) (apply_correction t c)"
  using assms unfolding apply_correction_def
  apply (cases "acr_target_type c"; simp)
   apply ((rule ensures_bind, rule attend_rules) | rule ensures_done ensures_case_option
      | (simp add: student_record_ok_def employee_record_ok_def correction_ok_def; fail))+
  done

lemma ensures_corrections:
  "ensures attend_J readable (\<lambda>_. True) (create_correction_request ctx pr ccp)"
  "ensures attend_J readable (\<lambda>_. True) (approve_correction_request ctx pr i cap)"
proof -
  show "ensures attend_J readable (\<lambda>_. True) (create_correction_request ctx pr ccp)"
    unfolding create_correction_request_def
    apply ((rule ensures_bind, rule attend_rules) | rule ensures_done
      | (simp add: attend_tx correction_ok_def requested_status_ok_def; fail))+
    done
  show "ensures attend_J readable (\<lambda>_. True) (approve_correction_request ctx pr i cap)"
    unfolding approve_correction_request_def Let_def
    apply ((rule ensures_bind, rule attend_rules ensures_when) | rule ensures_done ensures_if ensures_abort
      ensures_apply_correction | (simp add: attend_tx correction_ok_def; fail))+
    done
qed

section \<open>The service\<close>

lemma ensures_attend_reads:
  "ensures attend_J readable (\<lambda>_. True) (student_summary ctx b e bi si)"
  "ensures attend_J readable (\<lambda>_. True) (employee_summary ctx b e ei)"
  unfolding student_summary_def employee_summary_def student_records_for_summary_def
    employee_records_for_summary_def
  apply ((rule ensures_bind, rule attend_rules) | rule ensures_done ensures_bind attend_guards
      ensures_case_option | (simp; fail))+
  done

lemma ensures_attend_handle: "ensures attend_J readable (\<lambda>_. True) (attend_handle c)"
  unfolding attend_handle_def
  by (rule ensures_handle_call, cases "cl_request c")
    (auto intro!: ensures_discard ensures_validated ensures_attend_sessions
      ensures_mark_student_records ensures_attend_reads ensures_check_in ensures_check_out
      ensures_corrections)

interpretation attend_service: service attend_handle attend_inv
proof
  show "attend_inv d p \<Longrightarrow> serve (attend_handle c) d p = (r, d', p') \<Longrightarrow> attend_inv d' p'"
    for d p c r d' p'
    by (rule serve_ensures(1) [OF ensures_attend_handle])
  show "attend_inv d p \<Longrightarrow> clock p \<le> t \<Longrightarrow> attend_inv d (p\<lparr>clock := t\<rparr>)" for d p t
    by (simp add: attend_inv_def)
qed

end
