(* ===== verification/Attend_Props.thy ===== *)
theory Attend_Props
  imports Attend_Facts Sample
begin

text \<open>
  The properties of PrepAttend, each with a concrete instance.
\<close>

section \<open>A session, two students, an employee\<close>

definition sample_sas :: "student_attendance_session_status \<Rightarrow> student_attendance_session" where
  "sample_sas st = \<lparr>sas_id = 40, sas_tenant = 1, sas_batch = 10, sas_course = None,
     sas_live_class = None, sas_date = 5, sas_marked_by = None, sas_status = st,
     sas_submitted_at = None, sas_metadata = JObj []\<rparr>"

definition sample_sar :: "uuid \<Rightarrow> uuid \<Rightarrow> student_attendance_status \<Rightarrow> student_attendance_record" where
  "sample_sar i j st = \<lparr>sar_id = i, sar_tenant = 1, sar_session = 40, sar_student = j,
     sar_status = student_attendance_value st, sar_marked_at = 0, sar_marked_by = None,
     sar_remarks = None, sar_metadata = JObj [], sar_created_at = int i\<rparr>"

definition sample_member :: "uuid \<Rightarrow> uuid \<Rightarrow> batch_student" where
  "sample_member i j = \<lparr>bs_id = i, bs_tenant = 1, bs_batch = 10, bs_student = j, bs_status = BS_ACTIVE,
     bs_joined_at = 0, bs_left_at = None\<rparr>"

definition sample_pupil :: "uuid \<Rightarrow> student" where
  "sample_pupil i = \<lparr>st_id = i, st_tenant = 1, st_admission_no = ''S'', st_first_name = ''Ada'',
     st_last_name = None, st_email = None, st_phone = None, st_date_of_birth = None,
     st_gender = None, st_status = SS_ACTIVE, st_joined_at = None, st_deleted_at = None,
     st_created_at = int i\<rparr>"

definition sample_attend_db :: db where
  "sample_attend_db = empty_db\<lparr>students := [sample_pupil 20, sample_pupil 21],
     batch_students := [sample_member 30 20, sample_member 31 21],
     student_attendance_sessions := [sample_sas SES_OPEN],
     student_attendance_records := [sample_sar 50 20 SA_ABSENT]\<rparr>"

lemmas sample_attend_defs = sample_attend_db_def sample_sas_def sample_sar_def sample_member_def
  sample_pupil_def empty_db_def sample_defs

lemma sample_attend_inv: "attend_inv sample_attend_db sample_proc"
  by (simp add: attend_inv_def unique_rows_def student_record_ok_def student_attendance_values_def
      sample_attend_defs)

section \<open>The attendance sheet\<close>

text \<open>
  What the records of the students say, as a map: the status of a student in a session of a tenant.
\<close>

definition sheet_entry :: "student_attendance_record \<Rightarrow> (uuid \<times> uuid \<times> uuid) \<times> string" where
  "sheet_entry r = ((sar_tenant r, sar_session r, sar_student r), sar_status r)"

definition sheet :: "db \<Rightarrow> (uuid \<times> uuid \<times> uuid) \<rightharpoonup> string" where
  "sheet d = map_of (map sheet_entry (student_attendance_records d))"

text \<open>Replacing the row of a key in a list of entries.\<close>

lemma map_of_replace_where:
  assumes "\<And>x. x \<in> set xs \<Longrightarrow> c x \<longleftrightarrow> fst (e x) = fst (e r)" "\<exists>x\<in>set xs. c x"
  shows "map_of (map e (replace_where c (\<lambda>_. r) xs)) = (map_of (map e xs))(fst (e r) \<mapsto> snd (e r))"
proof
  fix k show "map_of (map e (replace_where c (\<lambda>_. r) xs)) k =
      ((map_of (map e xs))(fst (e r) \<mapsto> snd (e r))) k"
    using assms
  proof (induction xs)
    case Nil
    then show ?case by simp
  next
    case (Cons x xs)
    have IH: "map_of (map e (replace_where c (\<lambda>_. r) xs)) k =
        ((map_of (map e xs))(fst (e r) \<mapsto> snd (e r))) k" if "\<exists>x\<in>set xs. c x"
      by (rule Cons.IH [OF _ that]) (use Cons.prems(1) in auto)
    have none: "replace_where c (\<lambda>_. r) xs = xs" if "\<not> (\<exists>x\<in>set xs. c x)"
      using that by (intro replace_where_id) auto
    obtain a b where r: "e r = (a, b)" by force
    obtain a' b' where x: "e x = (a', b')" by force
    have c: "c x \<longleftrightarrow> a' = a" using Cons.prems(1) [of x] r x by simp
    show ?case
      using IH none c Cons.prems(2) r x by (cases "\<exists>x\<in>set xs. c x") auto
  qed
qed

lemma mark_student_sheet:
  assumes "mark_student tenant pr x item s = (Inr r, s')"
    and "unique_rows student_attendance_records_table (student_attendance_records (working s))"
  shows "sheet (working s') = (sheet (working s))
      ((tenant, sas_id x, srm_student item) \<mapsto> student_attendance_value (srm_status item)) \<and>
    unique_rows student_attendance_records_table (student_attendance_records (working s'))"
proof -
  let ?key = "\<lambda>r. sar_tenant r = tenant \<and> sar_session r = sas_id x \<and> sar_student r = srm_student item"
  obtain u t where guard: "validate_student_membership tenant (sas_batch x) (srm_student item) s = (Inr u, t)"
    and rest: "bind_tx (record_for_session_student tenant (sas_id x) (srm_student item)) (\<lambda>existing.
     bind_tx now_utc (\<lambda>now.
     case existing of
       None \<Rightarrow> bind_tx uuid4 (\<lambda>i. insert_row student_attendance_records_table
         \<lparr>sar_id = i, sar_tenant = tenant, sar_session = sas_id x, sar_student = srm_student item,
          sar_status = student_attendance_value (srm_status item), sar_marked_at = now,
          sar_marked_by = Some (pr_user pr), sar_remarks = srm_remarks item,
          sar_metadata = srm_metadata item, sar_created_at = now\<rparr>)
     | Some r \<Rightarrow> save_row student_attendance_records_table
         (r\<lparr>sar_status := student_attendance_value (srm_status item), sar_marked_at := now,
            sar_marked_by := Some (pr_user pr), sar_remarks := srm_remarks item,
            sar_metadata := srm_metadata item\<rparr>))) t = (Inr r, s')"
    by (rule bind_tx_InrE [OF assms(1) [unfolded mark_student_def]])
  have "t = s"
    using guard by (auto simp: validate_student_membership_def attend_validate_student_def tx_steps
        split: if_splits)
  note rest = rest [unfolded \<open>t = s\<close> record_for_session_student_def, simplified bind_query]
  show ?thesis
  proof (cases "lookup student_attendance_records_table ?key s")
    case None
    with rest obtain i where run: "insert_row student_attendance_records_table
         \<lparr>sar_id = uuid_supply (proc s), sar_tenant = tenant, sar_session = sas_id x, sar_student = srm_student item,
          sar_status = student_attendance_value (srm_status item), sar_marked_at = clock (proc s),
          sar_marked_by = Some (pr_user pr), sar_remarks = srm_remarks item,
          sar_metadata = srm_metadata item, sar_created_at = clock (proc s)\<rparr>
         (s\<lparr>proc := (proc s)\<lparr>uuid_supply := Suc (uuid_supply (proc s))\<rparr>\<rparr>) = (Inr r, s')"
      by (simp add: bind_tx_run uuid4_run)
    have own: "rls_tenant s = Some tenant" using run by (simp add: insert_row_Inr_iff writable_def table_defs tenant_policy_def)
    from None own have absent: "\<not> ?key q" if "q \<in> set (student_attendance_records (working s))" for q
      using that by (auto simp: lookup_None_iff)
    have "(tenant, sas_id x, srm_student item) \<notin> dom (sheet (working s))"
    proof
      assume "(tenant, sas_id x, srm_student item) \<in> dom (sheet (working s))"
      then obtain q where "q \<in> set (student_attendance_records (working s))" "?key q"
        by (auto simp: sheet_def sheet_entry_def dom_map_of_conv_image_fst)
      with absent show False by blast
    qed
    with student_attendance_records_tbl.rows_insert [OF run]
      student_attendance_records_tbl.unique_insert [OF run] assms(2) show ?thesis
      by (auto simp: sheet_def sheet_entry_def map_add_def fun_eq_iff dom_def split: option.splits)
  next
    case (Some old)
    from student_attendance_records_tbl.lookup_own [OF Some]
    have old: "old \<in> set (student_attendance_records (working s))" "?key old" "rls_tenant s = Some tenant"
      by auto
    let ?r = "old\<lparr>sar_status := student_attendance_value (srm_status item), sar_marked_at := clock (proc s),
        sar_marked_by := Some (pr_user pr), sar_remarks := srm_remarks item, sar_metadata := srm_metadata item\<rparr>"
    from rest Some have run: "save_row student_attendance_records_table ?r s = (Inr r, s')" by simp
    have same: "sar_id q = sar_id old \<longleftrightarrow> fst (sheet_entry q) = fst (sheet_entry ?r)"
      if "q \<in> set (student_attendance_records (working s))" for q
      using that old(1) assms(2) unique_rows_key [OF assms(2) that old(1)]
      by (auto simp: unique_rows_def sheet_entry_def student_attendance_record_clash_def)
    have "student_attendance_records (working s') = replace_where (\<lambda>q. sar_id q = sar_id old) (\<lambda>_. ?r)
        (student_attendance_records (working s))"
      using student_attendance_records_tbl.rows_save_unique [OF run] assms(2) by simp
    moreover have "map_of (map sheet_entry (replace_where (\<lambda>q. sar_id q = sar_id old) (\<lambda>_. ?r)
        (student_attendance_records (working s)))) =
      (map_of (map sheet_entry (student_attendance_records (working s))))
        (fst (sheet_entry ?r) \<mapsto> snd (sheet_entry ?r))"
      by (rule map_of_replace_where) (use same old(1) in auto)
    moreover have "unique_rows student_attendance_records_table (student_attendance_records (working s'))"
      using student_attendance_records_tbl.unique_save [OF run] assms(2) by simp
    ultimately show ?thesis using old(2) by (simp add: sheet_def sheet_entry_def)
  qed
qed

definition marked :: "uuid \<Rightarrow> uuid \<Rightarrow> student_record_mark list \<Rightarrow>
    ((uuid \<times> uuid \<times> uuid) \<rightharpoonup> string) \<Rightarrow> (uuid \<times> uuid \<times> uuid) \<rightharpoonup> string" where
  "marked tenant i items m = fold
     (\<lambda>item m. m((tenant, i, srm_student item) \<mapsto> student_attendance_value (srm_status item))) items m"

lemma marked_simps:
  "marked tenant i [] m = m"
  "marked tenant i (item # items) m = marked tenant i items
     (m((tenant, i, srm_student item) \<mapsto> student_attendance_value (srm_status item)))"
  by (simp_all add: marked_def)

lemma mark_all_sheet:
  assumes "for_each (mark_student tenant pr x) items s = (Inr rs, s')"
    and "unique_rows student_attendance_records_table (student_attendance_records (working s))"
  shows "sheet (working s') = marked tenant (sas_id x) items (sheet (working s))"
  using assms
proof (induction items arbitrary: s rs)
  case Nil
  then show ?case by (simp add: marked_simps)
next
  case (Cons item items)
  from Cons.prems(1) obtain r t rs' where one: "mark_student tenant pr x item s = (Inr r, t)"
    and rest: "for_each (mark_student tenant pr x) items t = (Inr rs', s')"
    by (auto simp: bind_tx_Inr_iff)
  from mark_student_sheet [OF one Cons.prems(2)] Cons.IH [OF rest] show ?case
    by (simp only: marked_simps)
qed

lemma read_records_same:
  "for_each student_record_read rs s = (Inr rs', s') \<Longrightarrow> s' = s"
  by (induction rs arbitrary: rs') (auto simp: bind_tx_Inr_iff student_record_read_def split: if_splits)

text \<open>
  C15. Marking the students of a session is, on the sheet, the assignment of the requested statuses one
  after the other: each listed student of the session gets its status, a repeated mark replaces the
  earlier one, and every other entry of the sheet, of any session, student or tenant, stays.
\<close>

theorem mark_student_records_refines:
  assumes "mark_student_records ctx pr i p s = (Inr rs, s')" "ctx_tenant ctx = Some tenant"
    and "unique_rows student_attendance_records_table (student_attendance_records (working s))"
  shows "sheet (committed s') = marked tenant i (srr_records p) (sheet (working s))"
proof -
  from assms(1,2) obtain x where x: "lookup student_attendance_sessions_table
      (\<lambda>r. sas_tenant r = tenant \<and> sas_id r = i) s = Some x"
    by (auto simp: mark_student_records_def get_student_session_or_raise_def student_session_get_def tx_steps)
  from student_attendance_sessions_tbl.lookup_own [OF x] have id: "sas_id x = i" by simp
  from assms(1,2) x obtain records t u where
    marks: "for_each (mark_student tenant pr x) (srr_records p) s = (Inr records, t)"
    and submit: "when_tx (srr_submit_session p)
      (bind_tx (save_row student_attendance_sessions_table
        (x\<lparr>sas_status := SES_SUBMITTED, sas_submitted_at := Some (clock (proc t))\<rparr>)) (\<lambda>_. return_tx ())) t = (Inr (), u)"
    and c: "committed s' = working u"
    by (auto simp: mark_student_records_def get_student_session_or_raise_def student_session_get_def
        assert_session_writable_def bind_tx_Inr_iff basic_Inr_iff split: if_splits dest!: read_records_same)
  have "student_attendance_records (working u) = student_attendance_records (working t)"
    using submit by (auto simp: when_tx_def bind_tx_Inr_iff save_row_Inr_iff split: if_splits)
  with mark_all_sheet [OF marks assms(3)] c id show ?thesis by (simp add: sheet_def)
qed

theorem mark_student_records_refines_witness:
  "\<exists>rs s'. mark_student_records sample_ctx sample_pr 40 \<lparr>srr_records =
       [\<lparr>srm_student = 20, srm_status = SA_PRESENT, srm_remarks = None, srm_metadata = JNull\<rparr>,
        \<lparr>srm_student = 21, srm_status = SA_LATE, srm_remarks = None, srm_metadata = JNull\<rparr>],
       srr_submit_session = True\<rparr> (sample_session sample_attend_db) = (Inr rs, s') \<and>
     sheet (working (sample_session sample_attend_db)) = [(1, 40, 20) \<mapsto> ''absent''] \<and>
     sheet (committed s') = [(1, 40, 20) \<mapsto> ''present'', (1, 40, 21) \<mapsto> ''late'']"
proof -
  let ?s = "sample_session sample_attend_db"
  let ?p = "\<lparr>srr_records = [\<lparr>srm_student = 20, srm_status = SA_PRESENT, srm_remarks = None, srm_metadata = JNull\<rparr>,
        \<lparr>srm_student = 21, srm_status = SA_LATE, srm_remarks = None, srm_metadata = JNull\<rparr>],
       srr_submit_session = True\<rparr>"
  let ?r = "mark_student_records sample_ctx sample_pr 40 ?p ?s"
  have "\<not> isl (fst ?r)" by code_simp
  from run_Inr [OF this] obtain rs s' where run: "?r = (Inr rs, s')" by blast
  have old: "sheet (working ?s) = [(1, 40, 20) \<mapsto> ''absent'']"
    by (simp add: sheet_def sheet_entry_def sample_attend_defs)
  have "unique_rows student_attendance_records_table (student_attendance_records (working ?s))"
    using sample_attend_inv by (simp add: attend_inv_def sample_session_def open_session_def)
  from mark_student_records_refines [OF run _ this, of 1]
  have "sheet (committed s') = [(1, 40, 20) \<mapsto> ''present'', (1, 40, 21) \<mapsto> ''late'']"
    by (simp add: old sample_ctx_def marked_def)
  with run old show ?thesis by blast
qed

section \<open>Locked sessions\<close>

text \<open>
  C16. Once a session is locked or cancelled, marking its students and updating one of its records both
  fail with 409 \<open>student_attendance_session_locked\<close> and write nothing, whoever asks and
  whatever the marks are.  (An approved correction can still change a record of such a session:
  C20 says what it does.)
\<close>

theorem locked_session_unwritable:
  assumes "lookup student_attendance_sessions_table (\<lambda>r. sas_tenant r = tenant \<and> sas_id r = i) s = Some x"
    and "ctx_tenant ctx = Some tenant" "sas_status x \<in> {SES_LOCKED, SES_CANCELLED}"
  shows "mark_student_records ctx pr i p s = (Inl (Prep_Suite_Error ''student_attendance_session_locked'' 409), s) \<and>
    (\<forall>j r. lookup student_attendance_records_table (\<lambda>r. sar_tenant r = tenant \<and> sar_id r = j) s = Some r \<longrightarrow>
       sar_session r = i \<longrightarrow> update_student_record ctx pr j q s =
         (Inl (Prep_Suite_Error ''student_attendance_session_locked'' 409), s))"
proof -
  have "session_locked x" using assms(3) by (auto simp: session_locked_def)
  with assms(1,2) show ?thesis
    by (simp add: mark_student_records_def update_student_record_def get_student_session_or_raise_def
        get_student_record_or_raise_def student_session_get_def student_record_get_def
        assert_session_writable_def tx_query)
qed

text \<open>Both closed states: marking a cancelled session, updating a record of a locked one.\<close>

definition sample_closed :: "student_attendance_session_status \<Rightarrow> db session" where
  "sample_closed status =
     sample_session (sample_attend_db\<lparr>student_attendance_sessions := [sample_sas status]\<rparr>)"

lemma sample_closed_rows:
  "lookup student_attendance_sessions_table (\<lambda>r. sas_tenant r = 1 \<and> sas_id r = 40) (sample_closed status) =
     Some (sample_sas status)"
  "lookup student_attendance_records_table (\<lambda>r. sar_tenant r = 1 \<and> sar_id r = 50) (sample_closed status) =
     Some (sample_sar 50 20 SA_ABSENT)"
  by (simp_all add: lookup_def sample_closed_def sample_attend_defs)

theorem locked_session_unwritable_witness:
  "mark_student_records sample_ctx sample_pr 40 \<lparr>srr_records = [\<lparr>srm_student = 20,
       srm_status = SA_PRESENT, srm_remarks = None, srm_metadata = JNull\<rparr>], srr_submit_session = True\<rparr>
       (sample_closed SES_CANCELLED) =
     (Inl (Prep_Suite_Error ''student_attendance_session_locked'' 409), sample_closed SES_CANCELLED) \<and>
   update_student_record sample_ctx sample_pr 50 \<lparr>sru_status = Some SA_PRESENT, sru_remarks = None,
       sru_metadata = None\<rparr> (sample_closed SES_LOCKED) =
     (Inl (Prep_Suite_Error ''student_attendance_session_locked'' 409), sample_closed SES_LOCKED)"
proof -
  have ctx: "ctx_tenant sample_ctx = Some 1" by (simp add: sample_ctx_def)
  have "sas_status (sample_sas SES_CANCELLED) \<in> {SES_LOCKED, SES_CANCELLED}"
    "sas_status (sample_sas SES_LOCKED) \<in> {SES_LOCKED, SES_CANCELLED}" by (simp_all add: sample_sas_def)
  note refused = this [THEN locked_session_unwritable [OF sample_closed_rows(1) ctx]]
  have "sar_session (sample_sar 50 20 SA_ABSENT) = 40" by (simp add: sample_sar_def)
  with refused sample_closed_rows(2) show ?thesis by blast
qed

section \<open>Well-formed attendance\<close>

lemma employee_day_unique:
  assumes "attend_inv d p" "q \<in> set (employee_attendance_records d)" "r \<in> set (employee_attendance_records d)"
    and "ear_tenant q = ear_tenant r" "ear_employee q = ear_employee r" "ear_date q = ear_date r"
  shows "q = r"
  by (rule unique_rows_clash [of employee_attendance_records_table "employee_attendance_records d"])
    (use assms in \<open>simp_all add: attend_inv_def employee_attendance_record_clash_def\<close>)

lemma student_session_unique:
  assumes "attend_inv d p" "q \<in> set (student_attendance_records d)" "r \<in> set (student_attendance_records d)"
    and "sar_tenant q = sar_tenant r" "sar_session q = sar_session r" "sar_student q = sar_student r"
  shows "q = r"
  by (rule unique_rows_clash [of student_attendance_records_table "student_attendance_records d"])
    (use assms in \<open>simp_all add: attend_inv_def student_attendance_record_clash_def\<close>)

text \<open>
  C17. Whatever requests the attendance service serves, in any order, for any tenants and with any
  clock: an employee has at most one record a day and leaves no earlier than it came, a student at
  most one record in a session, and every stored status is a value of its enumeration.
\<close>

theorem attendance_well_formed:
  assumes "attend_inv d0 p0" "reaches attend_handle d0 p0 d p"
  shows "(\<forall>q\<in>set (employee_attendance_records d). \<forall>r\<in>set (employee_attendance_records d).
      ear_tenant q = ear_tenant r \<and> ear_employee q = ear_employee r \<and> ear_date q = ear_date r \<longrightarrow> q = r) \<and>
    (\<forall>q\<in>set (student_attendance_records d). \<forall>r\<in>set (student_attendance_records d).
      sar_tenant q = sar_tenant r \<and> sar_session q = sar_session r \<and> sar_student q = sar_student r \<longrightarrow> q = r) \<and>
    (\<forall>r\<in>set (employee_attendance_records d). \<forall>i out. ear_check_in_at r = Some i \<longrightarrow>
      ear_check_out_at r = Some out \<longrightarrow> i \<le> out) \<and>
    (\<forall>r\<in>set (employee_attendance_records d). ear_status r \<in> set employee_attendance_values) \<and>
    (\<forall>r\<in>set (student_attendance_records d). sar_status r \<in> set student_attendance_values)"
proof -
  have inv: "attend_inv d p" by (rule attend_service.reaches_good [OF assms(2,1)])
  from employee_day_unique [OF inv] student_session_unique [OF inv] inv show ?thesis
    unfolding attend_inv_def employee_record_ok_def student_record_ok_def by blast
qed

text \<open>An employee checks in and out.\<close>

definition sample_worker :: employee where
  "sample_worker = \<lparr>em_id = 70, em_tenant = 1, em_user = None, em_department = None,
     em_employee_code = ''E'', em_first_name = ''Eve'', em_last_name = None, em_email = None,
     em_phone = None, em_employee_type = ET_TEACHER, em_status = EM_ACTIVE, em_joined_at = None,
     em_deleted_at = None, em_created_at = 0\<rparr>"

definition sample_check_in :: "string option \<Rightarrow> check_in_request" where
  "sample_check_in k = \<lparr>cip_employee = 70, cip_check_in_at = None, cip_source = SRC_MANUAL,
     cip_remarks = None, cip_idempotency_key = k, cip_metadata = JObj []\<rparr>"

definition sample_worker_db :: db where
  "sample_worker_db = sample_attend_db\<lparr>employees := [sample_worker]\<rparr>"

lemma sample_worker_inv: "attend_inv sample_worker_db sample_proc"
  using sample_attend_inv by (simp add: sample_worker_db_def attend_inv_def)

theorem attendance_well_formed_witness:
  "\<exists>d p. reaches attend_handle sample_worker_db sample_proc d p \<and>
     (\<exists>r\<in>set (employee_attendance_records d). ear_check_in_at r = Some 1000 \<and>
        ear_check_out_at r = Some 1000) \<and>
     (\<forall>r\<in>set (employee_attendance_records d). ear_status r \<in> set employee_attendance_values)"
proof -
  let ?m = "serve (attend_handle (sample_call (Employee_Check_In (sample_check_in None)))) sample_worker_db sample_proc"
  let ?q = "sample_call (Employee_Check_Out \<lparr>cop_employee = 70, cop_check_out_at = Some (Aware 1000 0),
     cop_status = Some EA_LATE, cop_remarks = None\<rparr>)"
  let ?n = "serve (attend_handle ?q) (fst (snd ?m)) (snd (snd ?m))"
  have "list_ex (\<lambda>r. ear_check_in_at r = Some 1000 \<and> ear_check_out_at r = Some 1000)
      (employee_attendance_records (fst (snd ?n)))" by code_simp
  moreover have "reaches attend_handle sample_worker_db sample_proc (fst (snd ?n)) (snd (snd ?n))"
    by (rule reaches_next [OF reaches_once])
  moreover note attendance_well_formed [OF sample_worker_inv this]
  ultimately show ?thesis unfolding list_ex_iff by blast
qed

section \<open>Checking in\<close>

definition check_in_time :: "check_in_request \<Rightarrow> int \<Rightarrow> datetime" where
  "check_in_time q now = (case cip_check_in_at q of None \<Rightarrow> Aware now 0 | Some v \<Rightarrow> coerce_datetime v)"

lemma given_or_now_run: "given_or_now (cip_check_in_at q) s = (Inr (check_in_time q (clock (proc s))), s)"
  by (simp add: given_or_now_def check_in_time_def tx_exec split: option.split)

lemma bind_given_or_now:
  "bind_tx (given_or_now (cip_check_in_at q)) f s = f (check_in_time q (clock (proc s))) s"
  by (simp add: bind_tx_run given_or_now_run)

lemma employee_check_inE:
  assumes "employee_check_in ctx pr q s = (Inr r, s')"
  obtains (again) em where "ctx_tenant ctx = Some (ear_tenant r)" "s' = s"
      "lookup employees_table (\<lambda>e. em_tenant e = ear_tenant r \<and> em_id e = cip_employee q \<and> em_deleted_at e = None) s = Some em"
      "given_key (cip_idempotency_key q)" "ear_idempotency_key r = cip_idempotency_key q"
      "r \<in> set (employee_attendance_records (working s))" "ear_employee r = cip_employee q"
      "ear_date r = local_date (check_in_time q (clock (proc s)))"
    | (fresh) em where "ctx_tenant ctx = Some (ear_tenant r)"
      "lookup employees_table (\<lambda>e. em_tenant e = ear_tenant r \<and> em_id e = cip_employee q \<and> em_deleted_at e = None) s = Some em"
      "ear_employee r = cip_employee q" "ear_idempotency_key r = cip_idempotency_key q"
      "ear_date r = local_date (check_in_time q (clock (proc s)))"
      "ear_status r = ''present''"
      "committed s' = employee_attendance_records_update (\<lambda>rs. rs @ [r]) (working s)"
      "clock (proc s') = clock (proc s)"
      "\<forall>p\<in>set (employee_attendance_records (working s)). ear_id p \<noteq> ear_id r \<and>
         \<not> employee_attendance_record_clash p r"
proof -
  let ?at = "check_in_time q (clock (proc s))"
  from assms obtain tenant em where ctx: "ctx_tenant ctx = Some tenant" and em:
    "lookup employees_table (\<lambda>e. em_tenant e = tenant \<and> em_id e = cip_employee q \<and> em_deleted_at e = None) s = Some em"
    by (auto simp: employee_check_in_def validate_employee_def tx_steps)
  let ?found = "lookup employee_attendance_records_table (\<lambda>r. ear_tenant r = tenant \<and>
    ear_employee r = cip_employee q \<and> ear_date r = local_date ?at) s"
  note run = assms [unfolded employee_check_in_def validate_employee_def bind_tx_assoc]
  show thesis
  proof (cases ?found)
    case (Some old)
    with run ctx em have "r = old \<and> s' = s \<and> given_key (cip_idempotency_key q) \<and>
        ear_idempotency_key r = cip_idempotency_key q"
      by (auto simp: bind_tx_Inr_iff record_for_employee_date_def basic_Inr_iff employee_record_read_def
          given_or_now_run split: if_splits)
    with employee_attendance_records_tbl.lookup_own [OF Some] ctx em show thesis
      by (intro again [of em]) auto
  next
    case None
    with run ctx em show thesis
      by (intro fresh [of em]) (auto simp: tx_inv record_for_employee_date_def
          employee_record_read_def given_or_now_run split: if_splits)
  qed
qed

text \<open>
  Checking in is idempotent by its key: after a successful check-in the same request with a key
  returns the same record, the same request without one fails with 409
  \<open>employee_attendance_already_checked_in\<close>, and either way nothing changes.
\<close>

theorem check_in_idempotent:
  assumes "attend_inv d p"
    and "serve (scoped t (employee_check_in ctx pr q)) d p = (Inr r, d', p')"
  shows "fst (serve (scoped t (employee_check_in ctx pr q)) d' p') =
      (if given_key (cip_idempotency_key q) then Inr r
       else Inl (Prep_Suite_Error ''employee_attendance_already_checked_in'' 409)) \<and>
    snd (serve (scoped t (employee_check_in ctx pr q)) d' p') = (d', p')"
proof -
  let ?s = "(open_session d p)\<lparr>rls_tenant := Some t\<rparr>"
  let ?s' = "(open_session d' p')\<lparr>rls_tenant := Some t\<rparr>"
  from assms(2) obtain s' where run: "employee_check_in ctx pr q ?s = (Inr r, s')"
    and s': "d' = committed s'" "p' = proc s'"
    by (auto simp: serve_def scoped_run split: prod.splits)
  let ?in = "\<lambda>e. em_tenant e = ear_tenant r \<and> em_id e = cip_employee q \<and> em_deleted_at e = None"
  from run obtain em where ctx: "ctx_tenant ctx = Some (ear_tenant r)"
    and em: "lookup employees_table ?in ?s = Some em"
    and r: "r \<in> set (employee_attendance_records d')" "ear_employee r = cip_employee q"
      "ear_date r = local_date (check_in_time q (clock p'))"
      "ear_idempotency_key r = cip_idempotency_key q"
    and same: "employees d' = employees d" "clock p' = clock p"
    by (cases rule: employee_check_inE) (auto simp: s' open_session_def)
  from employees_tbl.lookup_own [OF em] have t: "t = ear_tenant r" by (auto simp: open_session_def)
  from same have em': "lookup employees_table ?in ?s' = Some em"
    using em by (simp add: lookup_def open_session_def)
  have inv: "attend_inv d' p'"
    by (rule serve_scoped_ensures [OF ensures_check_in assms])
  have "lookup employee_attendance_records_table (\<lambda>x. ear_tenant x = ear_tenant r \<and>
      ear_employee x = cip_employee q \<and> ear_date x = local_date (check_in_time q (clock p'))) ?s' = Some r"
    by (rule lookup_unique) (use employee_day_unique [OF inv] r t in \<open>auto simp: open_session_def\<close>)
  moreover have "employee_record_ok r" using inv r(1) by (simp add: attend_inv_def)
  ultimately show ?thesis
    using ctx em' r(4)
    by (simp add: serve_def scoped_run employee_check_in_def validate_employee_def tx_query
        record_for_employee_date_def bind_given_or_now employee_record_read_def employee_record_ok_def
        open_session_def)
qed

theorem check_in_idempotent_witness:
  "\<exists>r d p. serve (scoped 1 (employee_check_in sample_ctx sample_pr (sample_check_in (Some ''k'')))) d p = (Inr r, d, p) \<and>
     length (employee_attendance_records d) = 1"
proof -
  let ?m = "scoped 1 (employee_check_in sample_ctx sample_pr (sample_check_in (Some ''k'')))"
  let ?r = "serve ?m sample_worker_db sample_proc"
  have "\<not> isl (fst ?r)" "length (employee_attendance_records (fst (snd ?r))) = 1" by code_simp+
  moreover from serve_Inr [OF this(1)] have
    ok: "?r = (Inr (projr (fst ?r)), fst (snd ?r), snd (snd ?r))" .
  moreover have "given_key (cip_idempotency_key (sample_check_in (Some ''k'')))"
    by (simp add: given_key_def sample_check_in_def)
  moreover note check_in_idempotent [OF sample_worker_inv ok]
  ultimately show ?thesis by (metis prod.collapse)
qed

section \<open>Answers that can be read back\<close>

text \<open>
  C18. A request to the attendance service never ends in a ValidationError of its own response, the
  error that turns into a 500: in every state the service can reach, a request that fails raises an
  application or a storage error, and leaves the committed database and the event log as they were.
\<close>

theorem attendance_always_readable:
  assumes "attend_inv d0 p0" "reaches attend_handle d0 p0 d p"
    and "serve (attend_handle c) d p = (Inl e, d', p')"
  shows "e \<noteq> Python_Error ''ValidationError'' \<and> d' = d \<and> event_log p' = event_log p"
proof -
  have inv: "attend_inv d p" by (rule attend_service.reaches_good [OF assms(2,1)])
  have "readable e"
    by (rule serve_ensures(2) [where P = attend_inv, OF ensures_attend_handle inv assms(3) refl])
  with serve_atomic [OF atomic_attend_handle assms(3)] show ?thesis by (simp add: readable_def)
qed

theorem attendance_always_readable_witness:
  "serve (attend_handle (sample_call (Approve_Correction 99 \<lparr>cap_approved = True, cap_reviewer_note = None\<rparr>)))
     sample_worker_db sample_proc =
   (Inl (Prep_Suite_Error ''attendance_correction_not_found'' 404), sample_worker_db, sample_proc) \<and>
   Prep_Suite_Error ''attendance_correction_not_found'' 404 \<noteq> Python_Error ''ValidationError''"
proof -
  let ?c = "sample_call (Approve_Correction 99 \<lparr>cap_approved = True, cap_reviewer_note = None\<rparr>)"
  have run: "serve (attend_handle ?c) sample_worker_db sample_proc =
      (Inl (Prep_Suite_Error ''attendance_correction_not_found'' 404), sample_worker_db, sample_proc)"
    by (simp add: serve_def attend_handle_def handle_call_def sample_call_def scoped_run discard_def
        approve_correction_request_def get_correction_or_raise_def correction_get_def tx_query lookup_def
        sample_worker_db_def sample_attend_db_def sample_ctx_def open_session_def empty_db_def)
  from attendance_always_readable [OF sample_worker_inv reaches.start run] run show ?thesis by blast
qed

section \<open>Corrections\<close>

definition status_of_target :: "attendance_correction_request \<Rightarrow> db \<Rightarrow> string set" where
  "status_of_target c d = (case acr_target_type c of
     STUDENT_RECORD \<Rightarrow> sar_status ` {r \<in> set (student_attendance_records d). Some (sar_id r) = acr_student_record c}
   | EMPLOYEE_RECORD \<Rightarrow> ear_status ` {r \<in> set (employee_attendance_records d). Some (ear_id r) = acr_employee_record c})"

lemma approve_correctionE:
  assumes "approve_correction_request ctx pr i p s = (Inr c, s')"
  obtains old t where "old \<in> set (attendance_correction_requests (working s))" "acr_id old = i"
    "acr_status old = COR_PENDING" "rls_tenant s = Some (acr_tenant old)"
    "c = old\<lparr>acr_status := (if cap_approved p then COR_APPROVED else COR_REJECTED),
             acr_reviewed_by := Some (pr_user pr), acr_reviewed_at := Some (clock (proc s)),
             acr_reviewer_note := cap_reviewer_note p\<rparr>"
    "when_tx (cap_approved p) (apply_correction (acr_tenant old) c) s = (Inr (), t)"
    "save_row attendance_correction_requests_table c t = (Inr c, t\<lparr>working := working s'\<rparr>)"
    "committed s' = working s'"
proof -
  from assms obtain tenant old where ctx: "ctx_tenant ctx = Some tenant" and old:
    "lookup attendance_correction_requests_table (\<lambda>r. acr_tenant r = tenant \<and> acr_id r = i) s = Some old"
    by (auto simp: approve_correction_request_def get_correction_or_raise_def correction_get_def tx_steps)
  from attendance_correction_requests_tbl.lookup_own [OF old] have own:
    "old \<in> set (attendance_correction_requests (working s))" "acr_id old = i" "acr_tenant old = tenant"
    "rls_tenant s = Some tenant" by auto
  let ?c = "old\<lparr>acr_status := (if cap_approved p then COR_APPROVED else COR_REJECTED),
             acr_reviewed_by := Some (pr_user pr), acr_reviewed_at := Some (clock (proc s)),
             acr_reviewer_note := cap_reviewer_note p\<rparr>"
  from assms ctx old have pending: "acr_status old = COR_PENDING"
    by (auto simp: approve_correction_request_def get_correction_or_raise_def correction_get_def tx_steps
        split: if_splits)
  from assms ctx old pending obtain t saved u where
    1: "when_tx (cap_approved p) (apply_correction tenant ?c) s = (Inr (), t)"
    and 2: "save_row attendance_correction_requests_table ?c t = (Inr saved, u)"
    and 3: "c = saved" "committed s' = working u" "working s' = working u"
    by (auto simp: approve_correction_request_def get_correction_or_raise_def correction_get_def
        bind_tx_Inr_iff basic_Inr_iff(1,2,3,4,5,6,8) Let_def)
  from save_row_value [OF 2] have c: "saved = ?c" .
  show thesis
    by (rule that [OF own(1,2) pending]) (use own 1 2 3 c in \<open>auto simp: save_row_Inr_iff\<close>)
qed

text \<open>The reviewed corrections of an earlier database are still there, as they were.\<close>

definition reviewed_stay :: "db \<Rightarrow> db \<Rightarrow> process \<Rightarrow> bool" where
  "reviewed_stay d0 d p \<longleftrightarrow>
     unique_rows attendance_correction_requests_table (attendance_correction_requests d) \<and>
     (\<forall>c\<in>set (attendance_correction_requests d0). acr_status c \<noteq> COR_PENDING \<longrightarrow>
        c \<in> set (attendance_correction_requests d))"

lemma proc_stable_reviewed_stay: "proc_stable (reviewed_stay d0)"
  by (simp add: proc_stable_def reviewed_stay_def)

lemma reviewed_stay_frames: "tx_ok (both (reviewed_stay d0))" "record_tables_ok (both (reviewed_stay d0))"
  by (auto simp: record_tables_ok_def reviewed_stay_def framed_def intro!: table_ok_both
      tx_ok_both proc_stable_reviewed_stay)

lemma create_correction_stay: "keeps (both (reviewed_stay d0)) (create_correction_request ctx pr q)"
proof -
  let ?J = "both (reviewed_stay d0)"
  note ok = attendance_correction_requests_tbl.unique_append
  have "keeps ?J (insert_row attendance_correction_requests_table r)" for r
    using ok [of _ r] by (auto simp: keeps_def both_def insert_row_def list_ex_iff reviewed_stay_def)
  then show ?thesis
    unfolding create_correction_request_def
    by (intro keeps_bind keeps_require keeps_attend_steps keeps_tx_ok reviewed_stay_frames keeps_return
        keeps_publish_event)
qed

lemma approve_correction_stay:
  assumes "approve_correction_request ctx pr i q s = (Inr c, s')" "reviewed_stay d0 (working s) p"
  shows "reviewed_stay d0 (committed s') p'"
proof -
  from assms(1) obtain old t where old: "old \<in> set (attendance_correction_requests (working s))"
    "acr_status old = COR_PENDING" and c: "acr_id c = acr_id old"
    and applied: "when_tx (cap_approved q) (apply_correction (acr_tenant old) c) s = (Inr (), t)"
    and saved: "save_row attendance_correction_requests_table c t = (Inr c, t\<lparr>working := working s'\<rparr>)"
    and d': "committed s' = working s'"
    by (elim approve_correctionE) auto
  let ?K = "\<lambda>u. attendance_correction_requests (working u) = attendance_correction_requests (working s)"
  have "keeps ?K (when_tx (cap_approved q) (apply_correction (acr_tenant old) c))"
    unfolding apply_correction_def get_student_record_or_raise_def get_employee_record_or_raise_def
      student_record_get_def employee_record_get_def
    by (intro keeps_intros)
      (auto simp: table_ok_def keeps_def insert_row_def save_row_def update_where_def delete_where_def)
  from keepsD [OF this refl applied] have t: "?K t" .
  have rows: "attendance_correction_requests (working s') =
      replace_where (\<lambda>x. acr_id x = acr_id c) (\<lambda>_. c) (attendance_correction_requests (working s))"
    using attendance_correction_requests_tbl.rows_save_unique [OF saved] assms(2) t
    by (simp add: reviewed_stay_def)
  have "x \<in> set (attendance_correction_requests (working s'))"
    if "x \<in> set (attendance_correction_requests d0)" "acr_status x \<noteq> COR_PENDING" for x
  proof -
    have x: "x \<in> set (attendance_correction_requests (working s))"
      using assms(2) that by (simp add: reviewed_stay_def)
    have "acr_id x \<noteq> acr_id old"
      using unique_rows_key [of attendance_correction_requests_table _ x old] assms(2) x old that(2)
      by (auto simp: reviewed_stay_def)
    with x c show ?thesis by (auto simp: rows set_replace_where)
  qed
  moreover have "unique_rows attendance_correction_requests_table (attendance_correction_requests (working s'))"
    using attendance_correction_requests_tbl.unique_save [OF saved] assms(2) t by (simp add: reviewed_stay_def)
  ultimately show ?thesis by (simp add: reviewed_stay_def d')
qed

interpretation attend_history: service attend_handle "reviewed_stay d0" for d0
proof
  fix d p c r d' p'
  assume start: "reviewed_stay d0 d p" and run: "serve (attend_handle c) d p = (r, d', p')"
  note run = run [unfolded attend_handle_def]
  note ok = serve_call_ok [OF atomic_attend_handle [unfolded attend_handle_def]
      keeps_fresh_attend [unfolded attend_handle_def] proc_stable_reviewed_stay start _ run]
  note frame = serve_call_frame [where P = "reviewed_stay d0", OF _ start run]
  show "reviewed_stay d0 d' p'"
  proof (cases "cl_request c")
    case (Approve_Correction i q)
    then show ?thesis
      by (intro ok) (use start in \<open>auto simp: discard_Inr dest: approve_correction_stay\<close>)
  qed (auto intro!: frame keeps_discard keeps_validated keeps_attend_reads create_correction_stay
      keeps_attend_records reviewed_stay_frames)
next
  show "reviewed_stay d0 d p \<Longrightarrow> clock p \<le> t \<Longrightarrow> reviewed_stay d0 d (p\<lparr>clock := t\<rparr>)" for d p t
    by (simp add: reviewed_stay_def)
qed

text \<open>
  C19. A correction is reviewed at most once: whatever requests follow, a correction that was approved or
  rejected keeps its decision, its reviewer and its note for ever.
\<close>

theorem correction_reviewed_once:
  assumes "unique_rows attendance_correction_requests_table (attendance_correction_requests d0)"
    and "reaches attend_handle d0 p0 d p"
    and "c \<in> set (attendance_correction_requests d0)" "acr_status c \<noteq> COR_PENDING"
  shows "c \<in> set (attendance_correction_requests d)"
proof -
  have "reviewed_stay d0 d0 p0" using assms(1) by (simp add: reviewed_stay_def)
  from attend_history.reaches_good [OF assms(2) this] assms(3,4) show ?thesis
    by (simp add: reviewed_stay_def)
qed

definition sample_correction :: "uuid \<Rightarrow> attendance_correction_status \<Rightarrow> attendance_correction_request" where
  "sample_correction i st = \<lparr>acr_id = i, acr_tenant = 1, acr_requester = None,
     acr_target_type = STUDENT_RECORD, acr_student_record = Some 50, acr_employee_record = None,
     acr_requested_status = ''excused'', acr_reason = ''ill'', acr_status = st,
     acr_reviewed_by = None, acr_reviewed_at = None, acr_reviewer_note = None, acr_metadata = JNull\<rparr>"

definition sample_correction_db :: db where
  "sample_correction_db = sample_worker_db\<lparr>attendance_correction_requests :=
     [sample_correction 80 COR_REJECTED, sample_correction 81 COR_PENDING]\<rparr>"

lemma sample_correction_inv: "attend_inv sample_correction_db sample_proc"
  using sample_worker_inv by (simp add: sample_correction_db_def attend_inv_def unique_rows_def
      sample_correction_def correction_ok_def student_attendance_values_def no_clash_def)

theorem correction_reviewed_once_witness:
  "\<exists>d p. reaches attend_handle sample_correction_db sample_proc d p \<and>
     sample_correction 80 COR_REJECTED \<in> set (attendance_correction_requests d) \<and>
     (\<exists>c\<in>set (attendance_correction_requests d). acr_id c = 81 \<and> acr_status c = COR_APPROVED)"
proof -
  let ?q = "sample_call (Approve_Correction 81 \<lparr>cap_approved = True, cap_reviewer_note = None\<rparr>)"
  let ?r = "serve (attend_handle ?q) sample_correction_db sample_proc"
  have "list_ex (\<lambda>c. acr_id c = 81 \<and> acr_status c = COR_APPROVED)
      (attendance_correction_requests (fst (snd ?r)))" by code_simp
  moreover have "unique_rows attendance_correction_requests_table
      (attendance_correction_requests sample_correction_db)"
    using sample_correction_inv by (simp add: attend_inv_def)
  from correction_reviewed_once [OF this reaches_once, of "sample_correction 80 COR_REJECTED" ?q]
  have "sample_correction 80 COR_REJECTED \<in> set (attendance_correction_requests (fst (snd ?r)))"
    by (simp add: sample_correction_db_def sample_correction_def)
  ultimately show ?thesis
    using reaches_once [of attend_handle sample_correction_db sample_proc ?q] unfolding list_ex_iff by blast
qed

lemma replaced_image:
  assumes "r \<in> set xs" "k r = i" "k new = i"
  shows "f ` {q \<in> set (replace_where (\<lambda>q. k q = i) (\<lambda>_. new) xs). k q = i} = {f new}"
proof -
  have "{q \<in> set (replace_where (\<lambda>q. k q = i) (\<lambda>_. new) xs). k q = i} = {new}"
    using assms by (auto simp: set_replace_where)
  then show ?thesis by simp
qed

lemma apply_student_correction:
  assumes "apply_correction tenant c s = (Inr (), t)" "acr_target_type c = STUDENT_RECORD"
    and "acr_student_record c = Some i"
    and "unique_rows student_attendance_records_table (student_attendance_records (working s))"
  shows "status_of_target c (working t) = {acr_requested_status c} \<and>
    employee_attendance_records (working t) = employee_attendance_records (working s)"
proof -
  from assms(1-3) obtain r where r: "lookup student_attendance_records_table
      (\<lambda>r. sar_tenant r = tenant \<and> sar_id r = i) s = Some r"
    and run: "save_row student_attendance_records_table
      (r\<lparr>sar_status := acr_requested_status c, sar_marked_at := clock (proc s)\<rparr>) s = (Inr
      (r\<lparr>sar_status := acr_requested_status c, sar_marked_at := clock (proc s)\<rparr>), t)"
    by (auto simp: apply_correction_def get_student_record_or_raise_def student_record_get_def tx_steps
        save_row_Inr_iff)
  from student_attendance_records_tbl.lookup_own [OF r] have own:
    "r \<in> set (student_attendance_records (working s))" "sar_id r = i" by auto
  from student_attendance_records_tbl.rows_save_unique [OF run] assms(4) own(2)
  have "student_attendance_records (working t) = replace_where (\<lambda>q. sar_id q = i)
      (\<lambda>_. r\<lparr>sar_status := acr_requested_status c, sar_marked_at := clock (proc s)\<rparr>)
      (student_attendance_records (working s))" by simp
  moreover have "employee_attendance_records (working t) = employee_attendance_records (working s)"
    using run by (auto simp: save_row_Inr_iff)
  ultimately show ?thesis
    using replaced_image [where k = sar_id, OF own, of "r\<lparr>sar_status := acr_requested_status c, sar_marked_at := clock (proc s)\<rparr>" sar_status]
      own assms(2,3) by (simp add: status_of_target_def)
qed

lemma apply_employee_correction:
  assumes "apply_correction tenant c s = (Inr (), t)" "acr_target_type c = EMPLOYEE_RECORD"
    and "acr_employee_record c = Some i"
    and "unique_rows employee_attendance_records_table (employee_attendance_records (working s))"
  shows "status_of_target c (working t) = {acr_requested_status c} \<and>
    student_attendance_records (working t) = student_attendance_records (working s)"
proof -
  from assms(1-3) obtain r where r: "lookup employee_attendance_records_table
      (\<lambda>r. ear_tenant r = tenant \<and> ear_id r = i) s = Some r"
    and run: "save_row employee_attendance_records_table (r\<lparr>ear_status := acr_requested_status c\<rparr>) s =
      (Inr (r\<lparr>ear_status := acr_requested_status c\<rparr>), t)"
    by (auto simp: apply_correction_def get_employee_record_or_raise_def employee_record_get_def tx_steps
        save_row_Inr_iff)
  from employee_attendance_records_tbl.lookup_own [OF r] have own:
    "r \<in> set (employee_attendance_records (working s))" "ear_id r = i" by auto
  from employee_attendance_records_tbl.rows_save_unique [OF run] assms(4) own(2)
  have "employee_attendance_records (working t) = replace_where (\<lambda>q. ear_id q = i)
      (\<lambda>_. r\<lparr>ear_status := acr_requested_status c\<rparr>) (employee_attendance_records (working s))" by simp
  moreover have "student_attendance_records (working t) = student_attendance_records (working s)"
    using run by (auto simp: save_row_Inr_iff)
  ultimately show ?thesis
    using replaced_image [where k = ear_id, OF own, of "r\<lparr>ear_status := acr_requested_status c\<rparr>" ear_status]
      own assms(2,3) by (simp add: status_of_target_def)
qed

definition target_given :: "attendance_correction_request \<Rightarrow> bool" where
  "target_given c \<longleftrightarrow> (case acr_target_type c of STUDENT_RECORD \<Rightarrow> acr_student_record c \<noteq> None
     | EMPLOYEE_RECORD \<Rightarrow> acr_employee_record c \<noteq> None)"

text \<open>
  C20. Only a pending correction can be reviewed.  Approving it gives the record it points to the
  requested status; rejecting it leaves the records as they are.
\<close>

theorem approve_correction_applies:
  assumes "approve_correction_request ctx pr i q s = (Inr c, s')" "attend_inv (working s) (proc s)"
  shows "acr_status c = (if cap_approved q then COR_APPROVED else COR_REJECTED) \<and>
    (\<exists>old\<in>set (attendance_correction_requests (working s)). acr_id old = i \<and> acr_status old = COR_PENDING) \<and>
    (if cap_approved q \<and> target_given c then status_of_target c (committed s') = {acr_requested_status c}
     else student_attendance_records (committed s') = student_attendance_records (working s) \<and>
       employee_attendance_records (committed s') = employee_attendance_records (working s))"
proof -
  from assms(1) obtain old t where old: "old \<in> set (attendance_correction_requests (working s))"
    "acr_id old = i" "acr_status old = COR_PENDING"
    and c: "acr_status c = (if cap_approved q then COR_APPROVED else COR_REJECTED)"
    and applied: "when_tx (cap_approved q) (apply_correction (acr_tenant old) c) s = (Inr (), t)"
    and saved: "save_row attendance_correction_requests_table c t = (Inr c, t\<lparr>working := working s'\<rparr>)"
    and d': "committed s' = working s'"
    by (elim approve_correctionE) auto
  from saved have same: "student_attendance_records (committed s') = student_attendance_records (working t)"
    "employee_attendance_records (committed s') = employee_attendance_records (working t)"
    by (auto simp: save_row_Inr_iff d' dest!: arg_cong [of _ _ working])
  then have target: "status_of_target c (committed s') = status_of_target c (working t)"
    by (simp add: status_of_target_def split: attendance_correction_target.split)
  have unchanged: "t = s" if "\<not> (cap_approved q \<and> target_given c)"
    using applied that by (auto simp: when_tx_def apply_correction_def target_given_def
        split: if_splits attendance_correction_target.splits option.splits)
  have "status_of_target c (working t) = {acr_requested_status c}" if "cap_approved q" "target_given c"
  proof -
    from applied that(1) have run: "apply_correction (acr_tenant old) c s = (Inr (), t)"
      by (simp add: when_tx_def)
    show ?thesis
      using that(2) apply_student_correction [OF run] apply_employee_correction [OF run] assms(2)
      by (auto simp: target_given_def attend_inv_def split: attendance_correction_target.splits)
  qed
  with old c same target unchanged show ?thesis by auto
qed

theorem approve_correction_applies_witness:
  "\<exists>c s'. approve_correction_request sample_ctx sample_pr 81 \<lparr>cap_approved = True, cap_reviewer_note = None\<rparr>
      (sample_session sample_correction_db) = (Inr c, s') \<and> acr_status c = COR_APPROVED \<and>
    status_of_target c (committed s') = {''excused''}"
proof -
  let ?r = "approve_correction_request sample_ctx sample_pr 81 \<lparr>cap_approved = True, cap_reviewer_note = None\<rparr>
    (sample_session sample_correction_db)"
  have "\<not> isl (fst ?r)" "target_given (projr (fst ?r))" "acr_requested_status (projr (fst ?r)) = ''excused''"
    by code_simp+
  moreover from run_Inr [OF this(1)] obtain c s' where run: "?r = (Inr c, s')" by blast
  moreover have "attend_inv (working (sample_session sample_correction_db)) (proc (sample_session sample_correction_db))"
    using sample_correction_inv by (simp add: sample_session_def open_session_def)
  from approve_correction_applies [OF run this]
  have "acr_status c = COR_APPROVED" "target_given c \<longrightarrow> status_of_target c (committed s') = {acr_requested_status c}"
    by (auto split: if_splits)
  ultimately show ?thesis by auto
qed

section \<open>Summaries\<close>

text \<open>The records a summary over a range of dates is about.\<close>

definition summarised :: "uuid \<Rightarrow> int \<Rightarrow> int \<Rightarrow> uuid option \<Rightarrow> uuid option \<Rightarrow> db \<Rightarrow>
    student_attendance_record \<Rightarrow> bool" where
  "summarised tenant start_date end_date batch_id student_id d r \<longleftrightarrow> sar_tenant r = tenant \<and>
     (\<exists>x\<in>set (student_attendance_sessions d). sas_tenant x = tenant \<and> sas_id x = sar_session r \<and>
        start_date \<le> sas_date x \<and> sas_date x \<le> end_date \<and> matches_filter batch_id (sas_batch x)) \<and>
     matches_filter student_id (sar_student r)"

lemma student_records_found:
  assumes "student_records_for_summary tenant b e bi si s = (Inr rs, s')" "rls_tenant s = Some tenant"
  shows "s' = s \<and> rs = sort_key (\<lambda>r. (sar_student r, sar_created_at r))
    (filter (summarised tenant b e bi si (working s)) (student_attendance_records (working s)))"
proof -
  have "(\<lambda>r. tenant = sar_tenant r \<and> sar_tenant r = tenant \<and>
      (\<exists>x\<in>{x \<in> set (student_attendance_sessions (working s)). tenant = sas_tenant x \<and> b \<le> sas_date x \<and>
         sas_date x \<le> e \<and> matches_filter bi (sas_batch x)}. sas_id x = sar_session r) \<and>
      matches_filter si (sar_student r)) = summarised tenant b e bi si (working s)"
    by (auto simp: summarised_def fun_eq_iff)
  with assms show ?thesis
    by (simp add: student_records_for_summary_def bind_tx_Inr_iff basic_Inr_iff list_ex_iff)
qed

lemma status_counts:
  assumes "\<forall>r\<in>set rs. sar_status r \<in> set student_attendance_values"
  shows "count_student_status rs SA_PRESENT + count_student_status rs SA_ABSENT +
    count_student_status rs SA_LATE + count_student_status rs SA_EXCUSED = length rs"
  using assms by (induction rs) (auto simp: count_student_status_def student_attendance_values_def)

lemma attend_percentage_bounds:
  assumes "0 \<le> n" "n \<le> m"
  shows "0 \<le> attend_percentage n m \<and> attend_percentage n m \<le> 100"
proof (cases "m \<le> 0")
  case False
  with assms have "0 \<le> n / m * 100" "n / m * 100 \<le> 100" by (simp_all add: field_simps)
  then have "quantize2 (of_nat 0) \<le> quantize2 (n / m * 100)" "quantize2 (n / m * 100) \<le> quantize2 (of_nat 100)"
    by (simp_all only: quantize2_mono of_nat_0 of_nat_numeral)
  then show ?thesis using False by (simp add: attend_percentage_def del: quantize2_of_nat)
      (metis of_nat_0 of_nat_numeral quantize2_of_nat)
qed (simp add: attend_percentage_def)

lemma grouped_by_mem:
  "(k, g) \<in> set (grouped_by key rs) \<longleftrightarrow> g = filter (\<lambda>r. key r = k) rs \<and> (\<exists>r\<in>set rs. key r = k)"
  by (auto simp: grouped_by_def)

lemma grouped_by_keys: "map fst (grouped_by key rs) = sort (remdups (map key rs))"
  by (simp add: grouped_by_def comp_def)

text \<open>
  C21. The attendance summary lists each student with a record in the range exactly once, by ascending
  identifier.  Its total is the number of those records, the four counts add up to it, and the
  percentage lies between 0 and 100.
\<close>

theorem student_summary_exact:
  assumes "student_summary ctx b e bi si s = (Inr items, s')" "ctx_tenant ctx = Some tenant"
    and "rls_tenant s = Some tenant" "attend_inv (working s) (proc s)"
  shows "s' = s \<and> b \<le> e \<and> sorted (map ssi_student items) \<and> distinct (map ssi_student items) \<and>
    set (map ssi_student items) = sar_student ` {r \<in> set (student_attendance_records (working s)).
      summarised tenant b e bi si (working s) r} \<and>
    (\<forall>x\<in>set items. ssi_total x = count_if (\<lambda>r. summarised tenant b e bi si (working s) r \<and>
        sar_student r = ssi_student x) (student_attendance_records (working s)) \<and>
      ssi_present x + ssi_absent x + ssi_late x + ssi_excused x = ssi_total x \<and>
      0 \<le> ssi_percentage x \<and> ssi_percentage x \<le> 100)"
proof -
  let ?P = "summarised tenant b e bi si (working s)"
  let ?found = "sort_key (\<lambda>r. (sar_student r, sar_created_at r))
    (filter ?P (student_attendance_records (working s)))"
  from assms(1,2) obtain rs where found: "student_records_for_summary tenant b e bi si s = (Inr rs, s')"
    and items: "items = map (\<lambda>(i, rs). student_summary_item i rs) (grouped_by sar_student rs)" and "b \<le> e"
    by (auto simp: student_summary_def assert_date_range_def attend_validate_batch_def
        attend_validate_student_def bind_tx_Inr_iff basic_Inr_iff split: if_splits option.splits)
  from student_records_found [OF found assms(3)] have s': "s' = s" and rs: "rs = ?found" by auto
  have keys: "map ssi_student items = map fst (grouped_by sar_student rs)"
    by (auto simp: items student_summary_item_def Let_def)
  have "ssi_total x = count_if (\<lambda>r. ?P r \<and> sar_student r = ssi_student x) (student_attendance_records (working s)) \<and>
      ssi_present x + ssi_absent x + ssi_late x + ssi_excused x = ssi_total x \<and>
      0 \<le> ssi_percentage x \<and> ssi_percentage x \<le> 100" if "x \<in> set items" for x
  proof -
    from that obtain i where x: "x = student_summary_item i (filter (\<lambda>r. sar_student r = i) rs)"
      by (auto simp: items grouped_by_def)
    let ?g = "filter (\<lambda>r. sar_student r = i) rs"
    have g: "\<forall>r\<in>set ?g. sar_status r \<in> set student_attendance_values"
      using assms(4) by (auto simp: rs attend_inv_def student_record_ok_def)
    have "length ?g = count_if (\<lambda>r. ?P r \<and> sar_student r = i) (student_attendance_records (working s))"
      unfolding rs by (simp add: filter_sort count_if_filter conj_commute)
    moreover note status_counts [OF g]
    moreover from this have "of_nat (count_student_status ?g SA_PRESENT + count_student_status ?g SA_LATE +
        count_student_status ?g SA_EXCUSED) \<le> (of_nat (length ?g) :: rat)"
      by (intro of_nat_mono) linarith
    then have "0 \<le> attend_percentage (of_nat (count_student_status ?g SA_PRESENT +
          count_student_status ?g SA_LATE + count_student_status ?g SA_EXCUSED)) (of_nat (length ?g)) \<and>
        attend_percentage (of_nat (count_student_status ?g SA_PRESENT +
          count_student_status ?g SA_LATE + count_student_status ?g SA_EXCUSED)) (of_nat (length ?g)) \<le> 100"
      by (intro attend_percentage_bounds of_nat_0_le_iff)
    ultimately show ?thesis by (simp add: x student_summary_item_def Let_def)
  qed
  moreover have "set (map ssi_student items) = sar_student ` {r \<in> set (student_attendance_records (working s)). ?P r}"
    unfolding keys grouped_by_keys rs by auto
  moreover have "sorted (map ssi_student items)" "distinct (map ssi_student items)"
    unfolding keys grouped_by_keys by simp_all
  ultimately show ?thesis using s' \<open>b \<le> e\<close> by blast
qed

theorem student_summary_exact_witness:
  "\<exists>items. student_summary sample_ctx 0 9 None None (sample_session sample_attend_db) =
      (Inr items, sample_session sample_attend_db) \<and> map ssi_student items = [20] \<and>
    sorted (map ssi_student items)"
proof -
  let ?s = "sample_session sample_attend_db"
  let ?r = "student_summary sample_ctx 0 9 None None ?s"
  have "\<not> isl (fst ?r)" "map ssi_student (projr (fst ?r)) = [20]" by code_simp+
  moreover from run_Inr [OF this(1)] obtain items s' where run: "?r = (Inr items, s')" by blast
  moreover from student_summary_exact [OF run, of 1] sample_attend_inv
  have "s' = ?s" "sorted (map ssi_student items)"
    by (simp_all add: sample_ctx_def sample_session_def open_session_def)
  ultimately show ?thesis by simp
qed

end
