(* ===== verification/Live.thy ===== *)
theory Live
  imports Pagination
begin

text \<open>
  PrepLive (app/modules/live/service.py and repository.py): live classes of a batch, their state
  machine, who may join them and when, the attendance the live runtime reports, recordings.
\<close>

section \<open>Payloads and answers\<close>

record live_class_create =
  lcr_title :: string
  lcr_description :: "string option"
  lcr_course :: "uuid option"
  lcr_batch :: uuid
  lcr_instructor :: uuid
  lcr_starts_at :: datetime
  lcr_ends_at :: datetime
  lcr_duration_minutes :: int
  lcr_join_before_minutes :: int
  lcr_join_after_minutes :: int
  lcr_capacity :: int
  lcr_settings :: json
  lcr_admin_override :: bool

record live_class_update =
  lup_title :: "string option field"
  lup_description :: "string option field"
  lup_course :: "uuid option field"
  lup_batch :: "uuid option field"
  lup_instructor :: "uuid option field"
  lup_starts_at :: "datetime option field"
  lup_ends_at :: "datetime option field"
  lup_duration_minutes :: "int option field"
  lup_join_before_minutes :: "int option field"
  lup_join_after_minutes :: "int option field"
  lup_capacity :: "int option field"
  lup_settings :: "json option field"
  lup_admin_override :: bool

record live_access_request =
  lap_user :: "uuid option"
  lap_student :: "uuid option"
  lap_employee :: "uuid option"
  lap_role :: "live_participant_role option"
  lap_now :: "datetime option"

record live_access =
  lac_allowed :: bool
  lac_reason :: "string option"
  lac_class :: live_class
  lac_participant :: "live_class_participant option"
  lac_window_starts_at :: int
  lac_window_ends_at :: int

record live_event_item =
  lei_event_type :: string
  lei_user :: "uuid option"
  lei_student :: "uuid option"
  lei_employee :: "uuid option"
  lei_role :: live_participant_role
  lei_occurred_at :: "datetime option"
  lei_total_duration_seconds :: "int option"
  lei_payload :: json

record live_events_request =
  ler_events :: "live_event_item list"
  ler_snapshot :: "json option"

record live_events_answer =
  lea_processed :: nat
  lea_events :: "live_class_event list"
  lea_participants :: "live_class_participant list"

record live_recording_create =
  lrp_provider_recording_id :: "string option"
  lrp_storage_key :: "string option"
  lrp_playback_url :: "string option"
  lrp_duration_seconds :: "int option"
  lrp_status :: live_recording_status
  lrp_metadata :: json

record live_detail =
  ld_class :: live_class
  ld_participants :: "live_class_participant list"
  ld_recordings :: "live_class_recording list"
  ld_events :: "live_class_event list"

section \<open>Event types and statuses\<close>

text \<open>\<open>LiveClassEventType\<close>\<close>

definition class_scheduled :: string where "class_scheduled = ''live.class.scheduled''"
definition class_cancelled :: string where "class_cancelled = ''live.class.cancelled''"
definition class_started :: string where "class_started = ''live.class.started''"
definition class_ended :: string where "class_ended = ''live.class.ended''"
definition participant_joined :: string where "participant_joined = ''live.participant.joined''"
definition participant_left :: string where "participant_left = ''live.participant.left''"
definition recording_added :: string where "recording_added = ''live.recording.added''"

lemmas event_type_defs = class_scheduled_def class_cancelled_def class_started_def class_ended_def
  participant_joined_def participant_left_def recording_added_def

text \<open>\<open>SCHEDULABLE_STATUSES\<close> and \<open>JOINABLE_STATUSES\<close>\<close>

definition schedulable :: "live_class_status \<Rightarrow> bool" where
  "schedulable st \<longleftrightarrow> st = LC_SCHEDULED \<or> st = LC_OPEN"

definition joinable :: "live_class_status \<Rightarrow> bool" where
  "joinable st \<longleftrightarrow> st = LC_SCHEDULED \<or> st = LC_OPEN \<or> st = LC_LIVE"

section \<open>Repositories\<close>

definition live_class_get :: "uuid \<Rightarrow> uuid \<Rightarrow> (db, live_class option) op" where
  "live_class_get tenant i = scalar live_classes_table (\<lambda>r. lc_tenant r = tenant \<and> lc_id r = i)"

definition live_get_by_code :: "string \<Rightarrow> (db, live_class option) op" where
  "live_get_by_code code = scalar live_classes_table (\<lambda>r. lc_class_code r = code)"

definition live_beyond :: "cursor \<Rightarrow> live_class \<Rightarrow> bool" where
  "live_beyond c r \<longleftrightarrow> (case c of (starts_at, i) \<Rightarrow>
     starts_at < lc_starts_at r \<or> (lc_starts_at r = starts_at \<and> i < lc_id r))"

definition live_cursor :: "live_class \<Rightarrow> cursor" where
  "live_cursor r = (lc_starts_at r, lc_id r)"

text \<open>The join with the participants yields a class once for each row of the student in it.\<close>

definition joined_with :: "uuid option \<Rightarrow> live_class_participant list \<Rightarrow> live_class list \<Rightarrow>
    live_class list" where
  "joined_with student_id ps classes = (case student_id of None \<Rightarrow> classes
     | Some j \<Rightarrow> concat (map (\<lambda>c. map (\<lambda>_. c)
         (filter (\<lambda>p. lp_class p = lc_id c \<and> lp_student p = Some j) ps)) classes))"

definition live_list_for_tenant :: "uuid \<Rightarrow> nat \<Rightarrow> cursor option \<Rightarrow> live_class_status option \<Rightarrow>
    uuid option \<Rightarrow> uuid option \<Rightarrow> uuid option \<Rightarrow> int option \<Rightarrow> int option \<Rightarrow> (db, live_class page) op" where
  "live_list_for_tenant tenant limit cursor status batch_id student_id teacher_id starts_from starts_to =
     bind_tx (select_rows live_classes_table (\<lambda>r. lc_tenant r = tenant \<and>
       matches_filter status (lc_status r) \<and> matches_filter batch_id (lc_batch r) \<and>
       matches_filter teacher_id (lc_instructor r) \<and>
       (case starts_from of None \<Rightarrow> True | Some t \<Rightarrow> t \<le> lc_starts_at r) \<and>
       (case starts_to of None \<Rightarrow> True | Some t \<Rightarrow> lc_starts_at r \<le> t) \<and>
       (case cursor of None \<Rightarrow> True | Some c \<Rightarrow> live_beyond c r))) (\<lambda>found.
     bind_tx (select_rows live_class_participants_table (\<lambda>_. True)) (\<lambda>ps.
     return_tx (keyset_page limit live_cursor
       (sort_key live_cursor (joined_with student_id ps found)))))"

definition participants_for_class :: "uuid \<Rightarrow> uuid \<Rightarrow> (db, live_class_participant list) op" where
  "participants_for_class tenant i =
     bind_tx (select_rows live_class_participants_table (\<lambda>r. lp_tenant r = tenant \<and> lp_class r = i)) (\<lambda>found.
     return_tx (sort_key (\<lambda>r. (lp_created_at r, lp_id r)) found))"

definition same_identity :: "uuid option \<Rightarrow> uuid option \<Rightarrow> uuid option \<Rightarrow> live_class_participant \<Rightarrow> bool" where
  "same_identity user_id student_id employee_id r \<longleftrightarrow>
     (user_id \<noteq> None \<and> lp_user r = user_id) \<or> (student_id \<noteq> None \<and> lp_student r = student_id) \<or>
     (employee_id \<noteq> None \<and> lp_employee r = employee_id)"

definition find_identity :: "uuid \<Rightarrow> uuid \<Rightarrow> uuid option \<Rightarrow> uuid option \<Rightarrow> uuid option \<Rightarrow>
    (db, live_class_participant option) op" where
  "find_identity tenant i user_id student_id employee_id =
     (if user_id = None \<and> student_id = None \<and> employee_id = None then return_tx None
      else scalar live_class_participants_table (\<lambda>r. lp_tenant r = tenant \<and> lp_class r = i \<and>
        same_identity user_id student_id employee_id r))"

definition active_count :: "uuid \<Rightarrow> uuid \<Rightarrow> (db, nat) op" where
  "active_count tenant i = bind_tx (participants_for_class tenant i) (\<lambda>ps.
     return_tx (count_if (\<lambda>p. lp_left_at p = None) ps))"

section \<open>Guards\<close>

definition get_class_or_raise :: "uuid \<Rightarrow> uuid \<Rightarrow> (db, live_class) op" where
  "get_class_or_raise tenant i = some_or_404 ''live_class_not_found'' (live_class_get tenant i)"

definition get_detail_or_raise :: "uuid \<Rightarrow> uuid \<Rightarrow> (db, live_detail) op" where
  "get_detail_or_raise tenant i =
     bind_tx (get_class_or_raise tenant i) (\<lambda>c.
     bind_tx (select_rows live_class_participants_table (\<lambda>r. lp_class r = lc_id c)) (\<lambda>ps.
     bind_tx (select_rows live_class_recordings_table (\<lambda>r. lr_class r = lc_id c)) (\<lambda>rs.
     bind_tx (select_rows live_class_events_table (\<lambda>r. le_class r = lc_id c)) (\<lambda>es.
     return_tx \<lparr>ld_class = c, ld_participants = sort_key lp_created_at ps,
       ld_recordings = sort_key lr_created_at rs, ld_events = sort_key le_occurred_at es\<rparr>))))"

text \<open>A class is found by its code, but only in the tenant of the context.\<close>

definition class_by_code_or_raise :: "uuid \<Rightarrow> string \<Rightarrow> (db, live_class) op" where
  "class_by_code_or_raise tenant code =
     bind_tx (live_get_by_code code) (\<lambda>found. case found of
       None \<Rightarrow> abort ''live_class_not_found'' 404
     | Some c \<Rightarrow> if lc_tenant c \<noteq> tenant then abort ''live_class_not_found'' 404 else return_tx c)"

definition has_live_admin :: "principal \<Rightarrow> bool" where
  "has_live_admin pr \<longleftrightarrow> ''preplive.class.manage'' \<in> set (pr_permissions pr)"

definition assert_admin_override_allowed :: "principal \<Rightarrow> bool \<Rightarrow> (db, unit) op" where
  "assert_admin_override_allowed pr admin_override =
     (if admin_override \<and> \<not> has_live_admin pr then abort ''permission_denied'' 403 else return_tx ())"

definition assert_live_class_time_window :: "int \<Rightarrow> int \<Rightarrow> (db, unit) op" where
  "assert_live_class_time_window starts_at ends_at =
     (if ends_at \<le> starts_at then abort ''invalid_live_class_window'' 422 else return_tx ())"

definition live_validate_batch :: "uuid \<Rightarrow> uuid option \<Rightarrow> (db, unit) op" where
  "live_validate_batch tenant i =
     bind_tx (some_or_404 ''batch_not_found'' (scalar batches_table
       (\<lambda>r. bt_tenant r = tenant \<and> Some (bt_id r) = i \<and> bt_deleted_at r = None))) (\<lambda>_. return_tx ())"

text \<open>The course is assigned to the batch, by a mapping that is active or by the batch itself.\<close>

definition validate_optional_course_batch :: "uuid \<Rightarrow> uuid option \<Rightarrow> uuid \<Rightarrow> (db, unit) op" where
  "validate_optional_course_batch tenant course_id batch_id = (case course_id of None \<Rightarrow> return_tx ()
     | Some c \<Rightarrow>
       bind_tx (some_or_404 ''course_not_found'' (scalar courses_table
         (\<lambda>r. co_tenant r = tenant \<and> co_id r = c \<and> co_deleted_at r = None))) (\<lambda>_.
       bind_tx (scalar course_batches_table (\<lambda>r. cb_tenant r = tenant \<and> cb_course r = c \<and>
         cb_batch r = batch_id \<and> cb_status r = CA_ACTIVE)) (\<lambda>mapped.
       bind_tx (scalar batches_table (\<lambda>r. bt_tenant r = tenant \<and> bt_id r = batch_id)) (\<lambda>b.
       if mapped = None \<and> (case b of None \<Rightarrow> None | Some r \<Rightarrow> bt_course r) \<noteq> Some c
       then abort ''course_batch_not_assigned'' 422 else return_tx ()))))"

definition live_get_employee :: "uuid \<Rightarrow> uuid option \<Rightarrow> (db, employee option) op" where
  "live_get_employee tenant i = scalar employees_table (\<lambda>r. em_tenant r = tenant \<and>
     Some (em_id r) = i \<and> em_status r = EM_ACTIVE \<and> em_deleted_at r = None)"

definition teacher_has_assignment :: "uuid \<Rightarrow> uuid \<Rightarrow> uuid option \<Rightarrow> uuid \<Rightarrow> (db, bool) op" where
  "teacher_has_assignment tenant teacher_id course_id batch_id =
     bind_tx (case course_id of None \<Rightarrow> return_tx None
       | Some c \<Rightarrow> scalar course_teachers_table (\<lambda>r. ct_tenant r = tenant \<and>
           ct_teacher r = teacher_id \<and> ct_course r = c \<and> ct_status r = CA_ACTIVE)) (\<lambda>course_teacher.
     bind_tx (scalar teacher_assignments_table (\<lambda>r. ta_tenant r = tenant \<and>
       ta_teacher r = teacher_id \<and> ta_status r = TA_ACTIVE \<and>
       (ta_batch r = Some batch_id \<or> (course_id \<noteq> None \<and> ta_course r = course_id)))) (\<lambda>assignment.
     return_tx (course_teacher \<noteq> None \<or> assignment \<noteq> None)))"

definition validate_instructor ::
    "uuid \<Rightarrow> uuid option \<Rightarrow> uuid option \<Rightarrow> uuid \<Rightarrow> bool \<Rightarrow> (db, unit) op" where
  "validate_instructor tenant instructor_id course_id batch_id admin_override =
     bind_tx (some_or_404 ''instructor_not_found'' (live_get_employee tenant instructor_id)) (\<lambda>e.
     if em_employee_type e \<noteq> ET_TEACHER then abort ''instructor_not_teacher'' 422
     else if admin_override then return_tx ()
     else bind_tx (teacher_has_assignment tenant (em_id e) course_id batch_id) (\<lambda>assigned.
       if assigned then return_tx () else abort ''instructor_not_assigned'' 422))"

definition live_student_in_batch :: "uuid \<Rightarrow> uuid \<Rightarrow> uuid \<Rightarrow> (db, bool) op" where
  "live_student_in_batch tenant batch_id student_id =
     bind_tx (scalar students_table
       (\<lambda>r. st_tenant r = tenant \<and> st_id r = student_id \<and> st_deleted_at r = None)) (\<lambda>student.
     if student = None then return_tx False
     else bind_tx (scalar batch_students_table (\<lambda>r. bs_tenant r = tenant \<and> bs_batch r = batch_id \<and>
       bs_student r = student_id \<and> bs_status r = BS_ACTIVE)) (\<lambda>membership.
       return_tx (membership \<noteq> None)))"

section \<open>Class codes\<close>

text \<open>
  The stem of a class code: the lowered title with every run of other characters replaced by one
  hyphen, without hyphens at its ends, cut after 24 characters, or \<open>class\<close>.
\<close>

definition code_stem :: "string \<Rightarrow> string" where
  "code_stem title = (let s = take 24 (strip_hyphens (hyphenate False (lower title)))
     in if s = [] then ''class'' else s)"

definition code_suffix :: "string \<Rightarrow> string" where
  "code_suffix token = take 10 (lower (filter (\<lambda>c. c \<noteq> CHR ''_'' \<and> c \<noteq> CHR ''-'') token))"

text \<open>\<open>for _ in range(8)\<close>: a code no visible class has, or a 500.\<close>

fun try_class_codes :: "nat \<Rightarrow> string \<Rightarrow> (db, string) op" where
  "try_class_codes 0 stem = abort ''live_class_code_generation_failed'' 500"
| "try_class_codes (Suc n) stem =
     bind_tx token_urlsafe (\<lambda>token.
     let code = stem @ ''-'' @ code_suffix token
     in bind_tx (live_get_by_code code) (\<lambda>taken.
        if taken = None then return_tx code else try_class_codes n stem))"

definition generate_class_code :: "string \<Rightarrow> (db, string) op" where
  "generate_class_code title = try_class_codes 8 (code_stem title)"

definition live_link :: "string \<Rightarrow> string" where
  "live_link code = ''https://live.prepsuite.in/'' @ code"

section \<open>Steps the operations share\<close>

definition record_class_event :: "uuid \<Rightarrow> uuid \<Rightarrow> string \<Rightarrow> json \<Rightarrow> uuid option \<Rightarrow> int option \<Rightarrow>
    (db, live_class_event) op" where
  "record_class_event tenant i event_type payload participant occurred_at =
     bind_tx now_utc (\<lambda>now.
     bind_tx uuid4 (\<lambda>e.
     insert_row live_class_events_table
       \<lparr>le_id = e, le_tenant = tenant, le_class = i, le_participant = participant,
        le_event_type = event_type,
        le_occurred_at = (case occurred_at of None \<Rightarrow> now | Some t \<Rightarrow> t), le_payload = payload\<rparr>))"

definition join_window :: "live_class \<Rightarrow> int \<times> int" where
  "join_window c = (lc_starts_at c - lc_join_before_minutes c * usec_per_minute,
     lc_ends_at c + lc_join_after_minutes c * usec_per_minute)"

definition infer_role :: "live_class \<Rightarrow> live_access_request \<Rightarrow> live_participant_role" where
  "infer_role c p = (if lap_student p \<noteq> None then ROLE_STUDENT
     else if lap_employee p = Some (lc_instructor c) then ROLE_INSTRUCTOR
     else if lap_employee p \<noteq> None then ROLE_CO_INSTRUCTOR else ROLE_ADMIN)"

definition validation_user_id :: "principal \<Rightarrow> live_access_request \<Rightarrow> uuid option" where
  "validation_user_id pr p = (if lap_student p \<noteq> None \<or> lap_employee p \<noteq> None then lap_user p
     else case lap_user p of None \<Rightarrow> Some (pr_user pr) | Some u \<Rightarrow> Some u)"

definition employee_denial_reason :: "uuid \<Rightarrow> live_class \<Rightarrow> uuid \<Rightarrow> (db, string option) op" where
  "employee_denial_reason tenant c employee_id =
     bind_tx (live_get_employee tenant (Some employee_id)) (\<lambda>found. case found of
       None \<Rightarrow> return_tx (Some ''employee_not_found'')
     | Some e \<Rightarrow>
         if em_id e = lc_instructor c then return_tx None
         else if em_employee_type e = ET_ADMIN \<or> em_employee_type e = ET_MANAGER then return_tx None
         else bind_tx (teacher_has_assignment tenant (em_id e) (lc_course c) (lc_batch c)) (\<lambda>assigned.
           return_tx (if assigned then None else Some ''employee_not_assigned'')))"

definition access_denial_reason :: "uuid \<Rightarrow> principal \<Rightarrow> live_class \<Rightarrow> live_access_request \<Rightarrow> int \<Rightarrow>
    int \<Rightarrow> int \<Rightarrow> (db, string option) op" where
  "access_denial_reason tenant pr c p now join_start join_end =
     (if \<not> joinable (lc_status c) then return_tx (Some ''class_not_joinable'')
      else if now < join_start then return_tx (Some ''join_window_not_open'')
      else if join_end < now then return_tx (Some ''join_window_closed'')
      else bind_tx (find_identity tenant (lc_id c) (validation_user_id pr p) (lap_student p)
          (lap_employee p)) (\<lambda>existing.
        bind_tx (active_count tenant (lc_id c)) (\<lambda>active.
        if existing = None \<and> lc_capacity c \<le> int active
        then return_tx (Some ''class_capacity_full'')
        else case lap_student p of
            Some j \<Rightarrow> bind_tx (live_student_in_batch tenant (lc_batch c) j) (\<lambda>ok.
              return_tx (if ok then None else Some ''student_not_in_batch''))
          | None \<Rightarrow> (case lap_employee p of
              Some e \<Rightarrow> employee_denial_reason tenant c e
            | None \<Rightarrow> return_tx (if lap_role p = Some ROLE_ADMIN \<and> has_live_admin pr then None
                else Some ''participant_not_allowed'')))))"

text \<open>The participant with one of the identities, or a new one, is allowed in.\<close>

definition upsert_allowed_participant :: "uuid \<Rightarrow> live_class \<Rightarrow> uuid option \<Rightarrow> uuid option \<Rightarrow>
    uuid option \<Rightarrow> live_participant_role \<Rightarrow> int option \<Rightarrow> (db, live_class_participant) op" where
  "upsert_allowed_participant tenant c user_id student_id employee_id role joined_at =
     bind_tx (find_identity tenant (lc_id c) user_id student_id employee_id) (\<lambda>found. case found of
       None \<Rightarrow>
         bind_tx now_utc (\<lambda>now.
         bind_tx uuid4 (\<lambda>i. insert_row live_class_participants_table
           \<lparr>lp_id = i, lp_tenant = tenant, lp_class = lc_id c, lp_user = user_id,
            lp_student = student_id, lp_employee = employee_id, lp_role = role,
            lp_join_status = J_ALLOWED, lp_joined_at = joined_at, lp_left_at = None,
            lp_total_duration_seconds = 0, lp_created_at = now\<rparr>))
     | Some p \<Rightarrow> save_row live_class_participants_table (p
         \<lparr>lp_join_status := J_ALLOWED, lp_role := role,
          lp_joined_at := (if joined_at = None then lp_joined_at p else joined_at),
          lp_left_at := (if joined_at = None then lp_left_at p else None)\<rparr>))"

section \<open>The operations\<close>

definition schedule_class :: "tenant_context \<Rightarrow> principal \<Rightarrow> live_class_create \<Rightarrow> (db, live_class) op" where
  "schedule_class ctx pr p =
     bind_tx (require_tenant_id ctx) (\<lambda>tenant.
     bind_tx (assert_admin_override_allowed pr (lcr_admin_override p)) (\<lambda>_.
     bind_tx (live_validate_batch tenant (Some (lcr_batch p))) (\<lambda>_.
     bind_tx (validate_optional_course_batch tenant (lcr_course p) (lcr_batch p)) (\<lambda>_.
     bind_tx (validate_instructor tenant (Some (lcr_instructor p)) (lcr_course p) (lcr_batch p)
       (lcr_admin_override p)) (\<lambda>_.
     bind_tx (generate_class_code (lcr_title p)) (\<lambda>code.
     bind_tx (on_conflict ''live_class_conflict''
       (bind_tx uuid4 (\<lambda>i.
        bind_tx (insert_row live_classes_table
          \<lparr>lc_id = i, lc_tenant = tenant, lc_class_code = code, lc_title = lcr_title p,
           lc_description = lcr_description p, lc_course = lcr_course p, lc_batch = lcr_batch p,
           lc_instructor = lcr_instructor p, lc_starts_at = instant (lcr_starts_at p),
           lc_ends_at = instant (lcr_ends_at p), lc_duration_minutes = lcr_duration_minutes p,
           lc_join_before_minutes = lcr_join_before_minutes p,
           lc_join_after_minutes = lcr_join_after_minutes p, lc_capacity = lcr_capacity p,
           lc_status = LC_SCHEDULED, lc_live_room_id = None, lc_link = live_link code,
           lc_settings = lcr_settings p, lc_created_by = Some (pr_user pr)\<rparr>) (\<lambda>c.
        bind_tx now_utc (\<lambda>now.
        bind_tx uuid4 (\<lambda>k.
        bind_tx (insert_row live_class_participants_table
          \<lparr>lp_id = k, lp_tenant = tenant, lp_class = lc_id c, lp_user = Some (pr_user pr),
           lp_student = None, lp_employee = Some (lcr_instructor p), lp_role = ROLE_INSTRUCTOR,
           lp_join_status = J_ALLOWED, lp_joined_at = None, lp_left_at = None,
           lp_total_duration_seconds = 0, lp_created_at = now\<rparr>) (\<lambda>_.
        bind_tx (record_class_event tenant (lc_id c) class_scheduled
          (JObj [(''created_by'', JStr (uuid_str (pr_user pr)))]) None None) (\<lambda>_.
        bind_tx commit_tx (\<lambda>_.
        return_tx c))))))))) (\<lambda>c.
     bind_tx (publish_event class_scheduled ctx pr (lc_id c)) (\<lambda>_.
     return_tx c))))))))"

definition list_classes :: "tenant_context \<Rightarrow> nat \<Rightarrow> cursor option \<Rightarrow> live_class_status option \<Rightarrow>
    uuid option \<Rightarrow> uuid option \<Rightarrow> uuid option \<Rightarrow> datetime option \<Rightarrow> datetime option \<Rightarrow>
    (db, live_class page) op" where
  "list_classes ctx limit cursor status batch_id student_id teacher_id starts_from starts_to =
     bind_tx (require_tenant_id ctx) (\<lambda>tenant.
     live_list_for_tenant tenant limit cursor status batch_id student_id teacher_id
       (map_option instant starts_from) (map_option instant starts_to))"

definition get_class :: "tenant_context \<Rightarrow> uuid \<Rightarrow> (db, live_detail) op" where
  "get_class ctx i = bind_tx (require_tenant_id ctx) (\<lambda>tenant. get_detail_or_raise tenant i)"

definition get_by_code :: "tenant_context \<Rightarrow> string \<Rightarrow> (db, live_detail) op" where
  "get_by_code ctx code =
     bind_tx (require_tenant_id ctx) (\<lambda>tenant.
     bind_tx (class_by_code_or_raise tenant code) (\<lambda>c.
     get_detail_or_raise tenant (lc_id c)))"

text \<open>
  \<open>_coerce_datetime(None)\<close> raises an AttributeError; the other nulls are rejected by the columns
  when the row is flushed, and a null for \<open>settings\<close> by the response model.
\<close>

definition apply_live_update :: "live_class_update \<Rightarrow> live_class \<Rightarrow> live_class" where
  "apply_live_update p c = c
     \<lparr>lc_title := assign_required (lup_title p) (lc_title c),
      lc_description := assign (lup_description p) (lc_description c),
      lc_course := assign (lup_course p) (lc_course c),
      lc_batch := assign_required (lup_batch p) (lc_batch c),
      lc_instructor := assign_required (lup_instructor p) (lc_instructor c),
      lc_starts_at := (case lup_starts_at p of Assigned (Some t) \<Rightarrow> instant t | _ \<Rightarrow> lc_starts_at c),
      lc_ends_at := (case lup_ends_at p of Assigned (Some t) \<Rightarrow> instant t | _ \<Rightarrow> lc_ends_at c),
      lc_duration_minutes := assign_required (lup_duration_minutes p) (lc_duration_minutes c),
      lc_join_before_minutes := assign_required (lup_join_before_minutes p) (lc_join_before_minutes c),
      lc_join_after_minutes := assign_required (lup_join_after_minutes p) (lc_join_after_minutes c),
      lc_capacity := assign_required (lup_capacity p) (lc_capacity c),
      lc_settings := (case lup_settings p of Unset \<Rightarrow> lc_settings c
        | Assigned None \<Rightarrow> JNull | Assigned (Some v) \<Rightarrow> v)\<rparr>"

definition live_update_nulls :: "live_class_update \<Rightarrow> bool" where
  "live_update_nulls p \<longleftrightarrow> is_null (lup_title p) \<or> is_null (lup_duration_minutes p) \<or>
     is_null (lup_join_before_minutes p) \<or> is_null (lup_join_after_minutes p) \<or>
     is_null (lup_capacity p)"

definition validate_live_update :: "uuid \<Rightarrow> live_class \<Rightarrow> live_class_update \<Rightarrow> (db, unit) op" where
  "validate_live_update tenant c p =
     (let next_batch = assign_required (lup_batch p) (lc_batch c);
          next_course = assign (lup_course p) (lc_course c);
          next_instructor = assign (lup_instructor p) (Some (lc_instructor c))
      in bind_tx (when_tx (is_set (lup_batch p))
           (live_validate_batch tenant (assign (lup_batch p) None))) (\<lambda>_.
         bind_tx (when_tx (is_set (lup_course p) \<or> is_set (lup_batch p))
           (validate_optional_course_batch tenant next_course next_batch)) (\<lambda>_.
         when_tx (is_set (lup_instructor p) \<or> is_set (lup_course p) \<or> is_set (lup_batch p))
           (validate_instructor tenant next_instructor next_course next_batch
             (lup_admin_override p)))))"

definition update_class :: "tenant_context \<Rightarrow> principal \<Rightarrow> uuid \<Rightarrow> live_class_update \<Rightarrow> (db, live_class) op" where
  "update_class ctx pr i p =
     bind_tx (require_tenant_id ctx) (\<lambda>tenant.
     bind_tx (get_class_or_raise tenant i) (\<lambda>c.
     if \<not> schedulable (lc_status c) then abort ''live_class_locked'' 409
     else bind_tx (assert_admin_override_allowed pr (lup_admin_override p)) (\<lambda>_.
       bind_tx (validate_live_update tenant c p) (\<lambda>_.
       bind_tx (if is_null (lup_starts_at p) \<or> is_null (lup_ends_at p)
         then raise_tx (Python_Error ''AttributeError'') else return_tx ()) (\<lambda>_.
       let updated = apply_live_update p c
       in bind_tx (assert_live_class_time_window (lc_starts_at updated) (lc_ends_at updated)) (\<lambda>_.
          bind_tx (flush_update live_classes_table (live_update_nulls p) updated) (\<lambda>saved.
          bind_tx (if is_null (lup_settings p) then raise_tx (Python_Error ''ValidationError'')
            else return_tx ()) (\<lambda>_.
          bind_tx commit_tx (\<lambda>_.
          bind_tx (publish_event ''live.class.updated'' ctx pr (lc_id saved)) (\<lambda>_.
          return_tx saved))))))))))"

definition cancel_class :: "tenant_context \<Rightarrow> principal \<Rightarrow> uuid \<Rightarrow> string option \<Rightarrow> (db, live_class) op" where
  "cancel_class ctx pr i reason =
     bind_tx (require_tenant_id ctx) (\<lambda>tenant.
     bind_tx (get_class_or_raise tenant i) (\<lambda>c.
     if lc_status c = LC_ENDED \<or> lc_status c = LC_CANCELLED then abort ''live_class_closed'' 409
     else bind_tx (save_row live_classes_table (c\<lparr>lc_status := LC_CANCELLED\<rparr>)) (\<lambda>saved.
       bind_tx (record_class_event tenant (lc_id c) class_cancelled
         (JObj [(''reason'', case reason of None \<Rightarrow> JNull | Some r \<Rightarrow> JStr r)]) None None) (\<lambda>_.
       bind_tx commit_tx (\<lambda>_.
       bind_tx (publish_event class_cancelled ctx pr (lc_id c)) (\<lambda>_.
       return_tx saved))))))"

definition open_class :: "tenant_context \<Rightarrow> principal \<Rightarrow> uuid \<Rightarrow> (db, live_class) op" where
  "open_class ctx pr i =
     bind_tx (require_tenant_id ctx) (\<lambda>tenant.
     bind_tx (get_class_or_raise tenant i) (\<lambda>c.
     if lc_status c \<noteq> LC_SCHEDULED then abort ''live_class_open_not_allowed'' 409
     else bind_tx (save_row live_classes_table (c\<lparr>lc_status := LC_OPEN\<rparr>)) (\<lambda>saved.
       bind_tx (record_class_event tenant (lc_id c) class_started
         (JObj [(''status'', JStr ''open'')]) None None) (\<lambda>_.
       bind_tx commit_tx (\<lambda>_.
       bind_tx (publish_event class_started ctx pr (lc_id c)) (\<lambda>_.
       return_tx saved))))))"

text \<open>
  \<open>total_duration_seconds\<close> is an INTEGER column of 32 bits, while the sums of Python are unbounded and
  the times of the events are the client's: a value out of range makes the driver raise when the row is
  flushed.
\<close>

definition int32 :: "int \<Rightarrow> bool" where
  "int32 n \<longleftrightarrow> - (2 ^ 31) \<le> n \<and> n < 2 ^ 31"

definition flush_participant :: "live_class_participant \<Rightarrow> (db, live_class_participant) op" where
  "flush_participant p = (if int32 (lp_total_duration_seconds p)
     then save_row live_class_participants_table p else raise_tx (Python_Error ''DBAPIError''))"

text \<open>A participant who joined and did not leave leaves when the class ends.\<close>

definition complete_participant :: "int \<Rightarrow> live_class_participant \<Rightarrow> (db, live_class_participant) op" where
  "complete_participant now p = (case (lp_joined_at p, lp_left_at p) of
     (Some joined, None) \<Rightarrow> flush_participant (p
       \<lparr>lp_left_at := Some now, lp_join_status := J_COMPLETED,
        lp_total_duration_seconds := lp_total_duration_seconds p + duration_seconds joined now\<rparr>)
   | _ \<Rightarrow> return_tx p)"

definition end_class :: "tenant_context \<Rightarrow> principal \<Rightarrow> uuid \<Rightarrow> (db, live_class) op" where
  "end_class ctx pr i =
     bind_tx (require_tenant_id ctx) (\<lambda>tenant.
     bind_tx (get_class_or_raise tenant i) (\<lambda>c.
     if lc_status c = LC_ENDED then return_tx c
     else if lc_status c = LC_CANCELLED then abort ''live_class_cancelled'' 409
     else bind_tx (save_row live_classes_table (c\<lparr>lc_status := LC_ENDED\<rparr>)) (\<lambda>saved.
       bind_tx (participants_for_class tenant (lc_id c)) (\<lambda>ps.
       bind_tx now_utc (\<lambda>now.
       bind_tx (for_each (complete_participant now) ps) (\<lambda>_.
       bind_tx (record_class_event tenant (lc_id c) class_ended (JObj []) None None) (\<lambda>_.
       bind_tx commit_tx (\<lambda>_.
       bind_tx (publish_event class_ended ctx pr (lc_id c)) (\<lambda>_.
       return_tx saved)))))))))"

definition validate_access :: "tenant_context \<Rightarrow> principal \<Rightarrow> string \<Rightarrow> live_access_request \<Rightarrow>
    (db, live_access) op" where
  "validate_access ctx pr code p =
     bind_tx (require_tenant_id ctx) (\<lambda>tenant.
     bind_tx (class_by_code_or_raise tenant code) (\<lambda>c.
     bind_tx now_utc (\<lambda>clock_now.
     case join_window c of (join_start, join_end) \<Rightarrow>
     let now = (case lap_now p of None \<Rightarrow> clock_now | Some t \<Rightarrow> instant t)
     in bind_tx (access_denial_reason tenant pr c p now join_start join_end) (\<lambda>denied.
        case denied of
          Some reason \<Rightarrow> return_tx \<lparr>lac_allowed = False, lac_reason = Some reason, lac_class = c,
            lac_participant = None, lac_window_starts_at = join_start, lac_window_ends_at = join_end\<rparr>
        | None \<Rightarrow>
            bind_tx (upsert_allowed_participant tenant c (validation_user_id pr p) (lap_student p)
              (lap_employee p) (case lap_role p of None \<Rightarrow> infer_role c p | Some r \<Rightarrow> r) (Some now)) (\<lambda>joined.
            bind_tx (record_class_event tenant (lc_id c) participant_joined
              (JObj [(''participant_id'', JStr (uuid_str (lp_id joined)))]) (Some (lp_id joined))
              (Some now)) (\<lambda>_.
            bind_tx commit_tx (\<lambda>_.
            return_tx \<lparr>lac_allowed = True, lac_reason = None, lac_class = c,
              lac_participant = Some joined, lac_window_starts_at = join_start,
              lac_window_ends_at = join_end\<rparr>)))))))"

text \<open>One item of a report of the live runtime.\<close>

definition departed :: "live_event_item \<Rightarrow> int \<Rightarrow> live_class_participant \<Rightarrow> live_class_participant" where
  "departed item occurred_at p = p
     \<lparr>lp_total_duration_seconds := (case lei_total_duration_seconds item of
          Some n \<Rightarrow> n
        | None \<Rightarrow> (case lp_joined_at p of None \<Rightarrow> lp_total_duration_seconds p
            | Some joined \<Rightarrow> lp_total_duration_seconds p + duration_seconds joined occurred_at)),
      lp_left_at := Some occurred_at, lp_join_status := J_COMPLETED\<rparr>"

definition leave_participant :: "live_event_item \<Rightarrow> int \<Rightarrow> live_class_participant \<Rightarrow>
    (db, live_class_participant) op" where
  "leave_participant item occurred_at p = flush_participant (departed item occurred_at p)"

definition ends_with :: "string \<Rightarrow> string \<Rightarrow> bool" where
  "ends_with s suffix \<longleftrightarrow> drop (length s - length suffix) s = suffix"

definition capture_event :: "uuid \<Rightarrow> live_class \<Rightarrow> live_event_item \<Rightarrow> (db, live_class_event) op" where
  "capture_event tenant c item =
     bind_tx now_utc (\<lambda>now.
     let occurred_at = (case lei_occurred_at item of None \<Rightarrow> now | Some t \<Rightarrow> instant t)
     in bind_tx (upsert_allowed_participant tenant c (lei_user item) (lei_student item)
          (lei_employee item) (lei_role item)
          (if ends_with (lei_event_type item) ''.joined'' then Some occurred_at else None)) (\<lambda>p.
        bind_tx (if lei_event_type item = participant_left
          then leave_participant item occurred_at p
          else return_tx p) (\<lambda>q.
        record_class_event tenant (lc_id c) (lei_event_type item) (lei_payload item)
          (Some (lp_id q)) (Some occurred_at))))"

text \<open>\<open>session.refresh\<close> of the participant of an event\<close>

definition refresh_participant :: "live_class_event \<Rightarrow> (db, live_class_participant) op" where
  "refresh_participant e =
     bind_tx (scalar live_class_participants_table (\<lambda>r. Some (lp_id r) = le_participant e)) (\<lambda>found.
     case found of None \<Rightarrow> raise_tx (Python_Error ''InvalidRequestError'') | Some r \<Rightarrow> return_tx r)"

definition capture_attendance_events :: "tenant_context \<Rightarrow> principal \<Rightarrow> uuid \<Rightarrow> live_events_request \<Rightarrow>
    (db, live_events_answer) op" where
  "capture_attendance_events ctx pr i p =
     bind_tx (require_tenant_id ctx) (\<lambda>tenant.
     bind_tx (get_class_or_raise tenant i) (\<lambda>c.
     bind_tx (for_each (capture_event tenant c) (ler_events p)) (\<lambda>events.
     bind_tx now_utc (\<lambda>now.
     bind_tx (case ler_snapshot p of None \<Rightarrow> return_tx ()
       | Some payload \<Rightarrow> bind_tx uuid4 (\<lambda>k. bind_tx (insert_row live_class_attendance_snapshots_table
           \<lparr>lsn_id = k, lsn_tenant = tenant, lsn_class = lc_id c, lsn_captured_at = now,
            lsn_participant_count = int (length events), lsn_payload = payload\<rparr>) (\<lambda>_. return_tx ()))) (\<lambda>_.
     bind_tx (for_each refresh_participant events) (\<lambda>participants.
     bind_tx commit_tx (\<lambda>_.
     bind_tx (publish_event ''live.attendance_events.captured'' ctx pr (lc_id c)) (\<lambda>_.
     return_tx \<lparr>lea_processed = length events, lea_events = events,
       lea_participants = participants\<rparr>))))))))"

definition add_recording :: "tenant_context \<Rightarrow> principal \<Rightarrow> uuid \<Rightarrow> live_recording_create \<Rightarrow>
    (db, live_class_recording) op" where
  "add_recording ctx pr i p =
     bind_tx (require_tenant_id ctx) (\<lambda>tenant.
     bind_tx (get_class_or_raise tenant i) (\<lambda>c.
     bind_tx now_utc (\<lambda>now.
     bind_tx uuid4 (\<lambda>k.
     bind_tx (if if_some int32 (lrp_duration_seconds p) then return_tx ()
       else raise_tx (Python_Error ''DBAPIError'')) (\<lambda>_.
     bind_tx (insert_row live_class_recordings_table
       \<lparr>lr_id = k, lr_tenant = tenant, lr_class = lc_id c,
        lr_provider_recording_id = lrp_provider_recording_id p, lr_storage_key = lrp_storage_key p,
        lr_playback_url = lrp_playback_url p, lr_duration_seconds = lrp_duration_seconds p,
        lr_status = lrp_status p, lr_metadata = lrp_metadata p, lr_created_at = now\<rparr>) (\<lambda>r.
     bind_tx (record_class_event tenant (lc_id c) recording_added
       (JObj [(''recording_id'', JStr (uuid_str (lr_id r)))]) None None) (\<lambda>_.
     bind_tx commit_tx (\<lambda>_.
     bind_tx (publish_event recording_added ctx pr (lr_id r)) (\<lambda>_.
     return_tx r)))))))))"

end
