(* ===== verification/Live_Facts.thy ===== *)
theory Live_Facts
  imports Live Row_Rules
begin

text \<open>
  What PrepLive guarantees: requests are atomic; a class starts before it ends and has room for
  somebody, the time a participant spent is never negative; a class moves only forward through its
  statuses; an identity has at most one participant row in a class.
\<close>

section \<open>Requests\<close>

text \<open>Two datetimes that are both naive or both aware are compared; a mixture is a TypeError.\<close>

fun payload_less :: "datetime \<Rightarrow> datetime \<Rightarrow> bool" where
  "payload_less (Naive a) (Naive b) = (a < b)"
| "payload_less (Aware a x) (Aware b y) = (instant (Aware a x) < instant (Aware b y))"
| "payload_less _ _ = False"

lemma payload_less_instant: "payload_less a b \<Longrightarrow> instant a < instant b"
  by (cases a; cases b) (simp_all add: instant_def)

definition given_in :: "int \<Rightarrow> int \<Rightarrow> int option field \<Rightarrow> bool" where
  "given_in lo hi f \<longleftrightarrow> (case f of Assigned (Some v) \<Rightarrow> lo \<le> v \<and> v \<le> hi | _ \<Rightarrow> True)"

definition live_class_create_valid :: "live_class_create \<Rightarrow> bool" where
  "live_class_create_valid p \<longleftrightarrow> 1 \<le> length (lcr_title p) \<and> length (lcr_title p) \<le> 240 \<and>
     1 \<le> lcr_duration_minutes p \<and> lcr_duration_minutes p \<le> 1440 \<and>
     0 \<le> lcr_join_before_minutes p \<and> lcr_join_before_minutes p \<le> 240 \<and>
     0 \<le> lcr_join_after_minutes p \<and> lcr_join_after_minutes p \<le> 240 \<and>
     1 \<le> lcr_capacity p \<and> lcr_capacity p \<le> 10000 \<and> payload_less (lcr_starts_at p) (lcr_ends_at p)"

definition live_class_update_valid :: "live_class_update \<Rightarrow> bool" where
  "live_class_update_valid p \<longleftrightarrow>
     (case lup_title p of Assigned (Some t) \<Rightarrow> 1 \<le> length t \<and> length t \<le> 240 | _ \<Rightarrow> True) \<and>
     given_in 1 1440 (lup_duration_minutes p) \<and> given_in 0 240 (lup_join_before_minutes p) \<and>
     given_in 0 240 (lup_join_after_minutes p) \<and> given_in 1 10000 (lup_capacity p)"

definition live_access_valid :: "live_access_request \<Rightarrow> bool" where
  "live_access_valid p \<longleftrightarrow> \<not> (lap_student p = None \<and> lap_employee p = None \<and> lap_user p = None)"

definition live_event_item_valid :: "live_event_item \<Rightarrow> bool" where
  "live_event_item_valid p \<longleftrightarrow>
     (lei_event_type p = participant_joined \<or> lei_event_type p = participant_left) \<and>
     (case lei_total_duration_seconds p of None \<Rightarrow> True | Some n \<Rightarrow> 0 \<le> n)"

definition live_events_valid :: "live_events_request \<Rightarrow> bool" where
  "live_events_valid p \<longleftrightarrow> 1 \<le> length (ler_events p) \<and> length (ler_events p) \<le> 500 \<and>
     list_all live_event_item_valid (ler_events p)"

definition live_recording_valid :: "live_recording_create \<Rightarrow> bool" where
  "live_recording_valid p \<longleftrightarrow>
     (case lrp_provider_recording_id p of None \<Rightarrow> True | Some s \<Rightarrow> length s \<le> 160) \<and>
     (case lrp_duration_seconds p of None \<Rightarrow> True | Some n \<Rightarrow> 0 \<le> n)"

datatype live_request =
    Schedule_Class live_class_create
  | List_Classes nat "cursor option" "live_class_status option" "uuid option" "uuid option"
      "uuid option" "datetime option" "datetime option"
  | Get_Class uuid
  | Get_By_Code string
  | Update_Class uuid live_class_update
  | Cancel_Class uuid "string option"
  | Open_Class uuid
  | End_Class uuid
  | Validate_Access string live_access_request
  | Capture_Events uuid live_events_request
  | Add_Recording uuid live_recording_create

fun live_exec :: "tenant_context \<Rightarrow> principal \<Rightarrow> live_request \<Rightarrow> (db, unit) op" where
  "live_exec ctx pr (Schedule_Class p) =
     validated (live_class_create_valid p) (discard (schedule_class ctx pr p))"
| "live_exec ctx pr (List_Classes limit c status b j t starts_from starts_to) =
     discard (list_classes ctx limit c status b j t starts_from starts_to)"
| "live_exec ctx pr (Get_Class i) = discard (get_class ctx i)"
| "live_exec ctx pr (Get_By_Code code) = discard (get_by_code ctx code)"
| "live_exec ctx pr (Update_Class i p) =
     validated (live_class_update_valid p) (discard (update_class ctx pr i p))"
| "live_exec ctx pr (Cancel_Class i reason) = discard (cancel_class ctx pr i reason)"
| "live_exec ctx pr (Open_Class i) = discard (open_class ctx pr i)"
| "live_exec ctx pr (End_Class i) = discard (end_class ctx pr i)"
| "live_exec ctx pr (Validate_Access code p) =
     validated (live_access_valid p) (discard (validate_access ctx pr code p))"
| "live_exec ctx pr (Capture_Events i p) =
     validated (live_events_valid p) (discard (capture_attendance_events ctx pr i p))"
| "live_exec ctx pr (Add_Recording i p) =
     validated (live_recording_valid p) (discard (add_recording ctx pr i p))"

definition live_handle :: "live_request call \<Rightarrow> (db, unit) op" where
  "live_handle = handle_call live_exec"

section \<open>Atomicity and frames\<close>

lemmas live_query_defs = live_class_get_def live_get_by_code_def participants_for_class_def
  find_identity_def active_count_def get_class_or_raise_def get_detail_or_raise_def
  class_by_code_or_raise_def assert_admin_override_allowed_def assert_live_class_time_window_def
  live_validate_batch_def validate_optional_course_batch_def live_get_employee_def
  teacher_has_assignment_def validate_instructor_def live_student_in_batch_def
  employee_denial_reason_def access_denial_reason_def validate_live_update_def refresh_participant_def
  Let_def

lemma silent_live_queries [atomic_intros]:
  "silent (live_get_by_code code)" "silent (participants_for_class t i)"
  "silent (find_identity t i u j e)" "silent (get_class_or_raise t i)" "silent (get_detail_or_raise t i)"
  "silent (class_by_code_or_raise t code)" "silent (assert_admin_override_allowed pr b)"
  "silent (assert_live_class_time_window x y)" "silent (live_validate_batch t bi)"
  "silent (validate_optional_course_batch t ci k)" "silent (validate_instructor t ii ci k b)"
  "silent (access_denial_reason t pr c p now x y)" "silent (validate_live_update t c lup)"
  "silent (refresh_participant ev)"
  unfolding live_query_defs by (intro atomic_intros)+

lemma keeps_live_queries [keeps_intros]:
  "keeps J (live_get_by_code code)" "keeps J (participants_for_class t i)"
  "keeps J (find_identity t i u j e)" "keeps J (get_class_or_raise t i)" "keeps J (get_detail_or_raise t i)"
  "keeps J (class_by_code_or_raise t code)" "keeps J (assert_admin_override_allowed pr b)"
  "keeps J (assert_live_class_time_window x y)" "keeps J (live_validate_batch t bi)"
  "keeps J (validate_optional_course_batch t ci k)" "keeps J (validate_instructor t ii ci k b)"
  "keeps J (access_denial_reason t pr c p now x y)" "keeps J (validate_live_update t c lup)"
  "keeps J (refresh_participant ev)"
  unfolding live_query_defs by (intro keeps_intros)+

lemma silent_try_codes [atomic_intros]: "silent (try_class_codes n stem)"
  by (induction n) (auto simp: Let_def intro!: atomic_intros)

lemma keeps_try_codes [keeps_intros]: "tx_ok J \<Longrightarrow> keeps J (try_class_codes n stem)"
  by (induction n) (auto simp: Let_def intro!: keeps_intros)

lemma silent_live_steps [atomic_intros]:
  "silent (generate_class_code title)" "silent (record_class_event t i ty pl pa oc)"
  "silent (upsert_allowed_participant t c u j e r x)" "silent (complete_participant now p)"
  "silent (capture_event t c item)"
  unfolding generate_class_code_def record_class_event_def upsert_allowed_participant_def
    complete_participant_def leave_participant_def flush_participant_def capture_event_def Let_def
  by (intro atomic_intros)+

lemma keeps_live_steps [keeps_intros]:
  assumes "tx_ok J"
  shows "keeps J (generate_class_code title)"
    "table_ok J live_class_events_table \<Longrightarrow> keeps J (record_class_event t i ty pl pa oc)"
    "table_ok J live_class_participants_table \<Longrightarrow> keeps J (upsert_allowed_participant t c u j e r x)"
    "table_ok J live_class_participants_table \<Longrightarrow> keeps J (complete_participant now p)"
    "table_ok J live_class_events_table \<Longrightarrow> table_ok J live_class_participants_table \<Longrightarrow>
     keeps J (capture_event t c item)"
  unfolding generate_class_code_def record_class_event_def upsert_allowed_participant_def
    complete_participant_def leave_participant_def flush_participant_def capture_event_def Let_def
  by (intro keeps_intros; use assms in auto)+

lemma silent_live_reads [atomic_intros]:
  "silent (list_classes ctx limit cur st b j t f g)" "silent (get_class ctx i)"
  "silent (get_by_code ctx code)"
  unfolding list_classes_def live_list_for_tenant_def get_class_def get_by_code_def
  by (intro atomic_intros)+

lemma keeps_live_reads [keeps_intros]:
  "keeps J (list_classes ctx limit cur st b j t f g)" "keeps J (get_class ctx i)"
  "keeps J (get_by_code ctx code)"
  unfolding list_classes_def live_list_for_tenant_def get_class_def get_by_code_def
  by (intro keeps_intros)+

lemmas live_write_defs = schedule_class_def update_class_def cancel_class_def open_class_def
  end_class_def validate_access_def capture_attendance_events_def add_recording_def Let_def

lemma atomic_live:
  "atomic (schedule_class ctx pr lcr)" "atomic (update_class ctx pr i lup)"
  "atomic (cancel_class ctx pr i reason)" "atomic (open_class ctx pr i)" "atomic (end_class ctx pr i)"
  "atomic (validate_access ctx pr code lap)" "atomic (capture_attendance_events ctx pr i ler)"
  "atomic (add_recording ctx pr i lrp)"
  unfolding live_write_defs
  apply ((rule atomic_bind_silent, (intro atomic_intros; fail)[1])
    | rule atomic_rules | (rule atomic_silent, (intro atomic_intros; fail)[1])
    | rule atomic_bind_unfailing | (intro atomic_intros; fail)[1])+
  done

lemma atomic_live_handle: "atomic (live_handle c)"
  unfolding live_handle_def
  by (rule atomic_handle_call, cases "cl_request c")
    (auto intro!: atomic_discard atomic_validated atomic_live intro: atomic_silent atomic_intros)

definition live_tables_ok :: "(db session \<Rightarrow> bool) \<Rightarrow> bool" where
  "live_tables_ok J \<longleftrightarrow> table_ok J live_classes_table \<and> table_ok J live_class_participants_table \<and>
     table_ok J live_class_attendance_snapshots_table \<and> table_ok J live_class_recordings_table \<and>
     table_ok J live_class_events_table"

lemma keeps_live:
  assumes "tx_ok J" "live_tables_ok J"
  shows "keeps J (schedule_class ctx pr lcr)" "keeps J (update_class ctx pr i lup)"
    "keeps J (cancel_class ctx pr i reason)" "keeps J (open_class ctx pr i)" "keeps J (end_class ctx pr i)"
    "keeps J (validate_access ctx pr code lap)" "keeps J (capture_attendance_events ctx pr i ler)"
    "keeps J (add_recording ctx pr i lrp)"
  unfolding live_write_defs by (intro keeps_intros; use assms in \<open>auto simp: live_tables_ok_def\<close>)+

lemma keeps_live_handle:
  assumes "tx_ok J" "live_tables_ok J" "keeps J (set_current_tenant (cl_tenant c))"
  shows "keeps J (live_handle c)"
  unfolding live_handle_def
proof (rule keeps_handle_call [OF assms(3)])
  show "keeps J (live_exec (cl_context c) (cl_principal c) (cl_request c))"
    by (cases "cl_request c")
      (auto intro!: keeps_discard keeps_validated keeps_live_reads keeps_live [OF assms(1,2)])
qed

lemma keeps_fresh_live: "keeps (fresh_from n) (live_handle c)"
  by (rule keeps_live_handle)
    (auto simp: live_tables_ok_def tx_ok_fresh table_ok_fresh intro: keeps_intros)

end
