(* ===== verification/Live_Inv.thy ===== *)
theory Live_Inv
  imports Live_Facts
begin

text \<open>
  The invariants of PrepLive: well-formed classes and participants, the state machine of a class,
  one participant row for an identity.
\<close>

section \<open>Well-formed rows\<close>

definition class_ok :: "live_class \<Rightarrow> bool" where
  "class_ok c \<longleftrightarrow> lc_starts_at c < lc_ends_at c \<and> 1 \<le> lc_capacity c \<and>
     0 \<le> lc_join_before_minutes c \<and> 0 \<le> lc_join_after_minutes c \<and>
     lc_link c = live_link (lc_class_code c)"

definition participant_ok :: "live_class_participant \<Rightarrow> bool" where
  "participant_ok p \<longleftrightarrow> 0 \<le> lp_total_duration_seconds p"

definition live_inv :: "db \<Rightarrow> process \<Rightarrow> bool" where
  "live_inv d p \<longleftrightarrow> (unique_rows live_classes_table (live_classes d) \<and>
      (\<forall>c\<in>set (live_classes d). class_ok c)) \<and>
     (unique_rows live_class_participants_table (live_class_participants d) \<and>
      (\<forall>q\<in>set (live_class_participants d). participant_ok q))"

lemma proc_stable_live_inv: "proc_stable live_inv"
  by (simp add: proc_stable_def live_inv_def)

abbreviation live_J :: "db session \<Rightarrow> bool" where
  "live_J \<equiv> both live_inv"

lemma live_sat:
  "rows_sat live_J live_classes_table class_ok"
  "rows_sat live_J live_class_participants_table participant_ok"
proof -
  show "rows_sat live_J live_classes_table class_ok"
    by (rule live_classes_tbl.unique_sat_both [where R = "\<lambda>d p. live_inv (d\<lparr>live_classes := []\<rparr>) p"])
      (auto simp: live_inv_def framed_def unique_rows_def)
  show "rows_sat live_J live_class_participants_table participant_ok"
    by (rule live_class_participants_tbl.unique_sat_both [where
        R = "\<lambda>d p. live_inv (d\<lparr>live_class_participants := []\<rparr>) p"])
      (auto simp: live_inv_def framed_def unique_rows_def)
qed

lemma live_tx: "tx_ok live_J" "keeps live_J rollback_tx"
  using tx_ok_both [OF proc_stable_live_inv] by (simp_all add: tx_ok_def)

lemma live_frames:
  "table_ok live_J live_class_events_table" "table_ok live_J live_class_recordings_table"
  "table_ok live_J live_class_attendance_snapshots_table"
  by (simp_all add: table_ok_both framed_def live_inv_def)

lemma live_found:
  "ensures live_J any_error class_ok (get_class_or_raise t i)"
  "ensures live_J any_error class_ok (class_by_code_or_raise t code)"
  "ensures live_J any_error (\<lambda>x. \<forall>r. x = Some r \<longrightarrow> participant_ok r) (find_identity t i u j e)"
  "ensures live_J any_error (\<lambda>ps. \<forall>r\<in>set ps. participant_ok r) (participants_for_class t i)"
  "ensures live_J any_error (\<lambda>_. lo < hi) (assert_live_class_time_window lo hi)"
proof -
  show "ensures live_J any_error class_ok (get_class_or_raise t i)"
    unfolding get_class_or_raise_def live_class_get_def
    by (rule ensures_weaken, rule ensures_404 [OF live_sat(1)]) simp_all
  show "ensures live_J any_error class_ok (class_by_code_or_raise t code)"
    unfolding class_by_code_or_raise_def live_get_by_code_def
    by (rule ensures_bind [OF ensures_scalar [OF live_sat(1)]])
      (auto intro!: ensures_abort ensures_return split: option.split)
  show "ensures live_J any_error (\<lambda>x. \<forall>r. x = Some r \<longrightarrow> participant_ok r) (find_identity t i u j e)"
    unfolding find_identity_def
    by (auto intro!: ensures_return ensures_weaken [OF ensures_scalar [OF live_sat(2)]])
  show "ensures live_J any_error (\<lambda>ps. \<forall>r\<in>set ps. participant_ok r) (participants_for_class t i)"
    unfolding participants_for_class_def
    by (rule ensures_bind [OF ensures_select [OF live_sat(2)]]) (auto intro!: ensures_return)
  show "ensures live_J any_error (\<lambda>_. lo < hi) (assert_live_class_time_window lo hi)"
    unfolding assert_live_class_time_window_def by (auto intro!: ensures_abort ensures_return)
qed

lemma live_store:
  "class_ok c \<Longrightarrow> ensures live_J any_error (\<lambda>x. x = c) (insert_row live_classes_table c)"
  "class_ok c \<Longrightarrow> ensures live_J any_error (\<lambda>x. x = c) (save_row live_classes_table c)"
  "participant_ok q \<Longrightarrow> ensures live_J any_error (\<lambda>x. x = q) (insert_row live_class_participants_table q)"
  "participant_ok q \<Longrightarrow> ensures live_J any_error (\<lambda>x. x = q) (save_row live_class_participants_table q)"
  by (auto intro!: ensures_store live_sat)

lemma live_flush: "participant_ok q \<Longrightarrow> ensures live_J any_error (\<lambda>_. True) (flush_participant q)"
  unfolding flush_participant_def
  by (intro ensures_if ensures_raise ensures_any [OF live_store(4)]) simp_all

lemma live_steps:
  "ensures live_J any_error (\<lambda>_. True) (record_class_event t i ty pl pa oc)"
  "ensures live_J any_error (\<lambda>_. True) (generate_class_code title)"
  "ensures live_J any_error (\<lambda>_. True) (if b then return_tx () else raise_tx e)"
  "ensures live_J any_error (\<lambda>_. True) (assert_admin_override_allowed pr b)"
  "ensures live_J any_error (\<lambda>_. True) (live_validate_batch t bi)"
  "ensures live_J any_error (\<lambda>_. True) (validate_optional_course_batch t ci k)"
  "ensures live_J any_error (\<lambda>_. True) (validate_instructor t ii ci k b)"
  "ensures live_J any_error (\<lambda>_. True) (validate_live_update t c lup)"
  "ensures live_J any_error (\<lambda>_. True) (access_denial_reason t pr c lap now x y)"
  "ensures live_J any_error (\<lambda>_. True) (refresh_participant ev)"
  "ensures live_J any_error (\<lambda>_. True) (insert_row live_class_recordings_table rec)"
  "ensures live_J any_error (\<lambda>_. True) (insert_row live_class_attendance_snapshots_table snap)"
  by (rule ensures_keeping, (intro keeps_intros live_tx live_frames))+

lemmas live_rules = live_found live_store live_steps ensures_intros ensures_done

lemma ensures_upsert:
  "ensures live_J any_error participant_ok (upsert_allowed_participant t c u j e r x)"
  unfolding upsert_allowed_participant_def
  apply (rule ensures_bind, rule live_found)
  apply (rule ensures_case_option)
   apply ((rule ensures_bind, rule live_rules) | (simp add: live_tx; fail)
     | (rule ensures_weaken, rule live_store; simp add: participant_ok_def))+
  done

lemma ensures_capture_event:
  assumes "live_event_item_valid item"
  shows "ensures live_J any_error (\<lambda>_. True) (capture_event t c item)"
proof -
  have left: "participant_ok (departed item n q)" if "participant_ok q" for n q
    using assms that by (auto simp: participant_ok_def departed_def live_event_item_valid_def
        split: option.split)
  show ?thesis
    unfolding capture_event_def leave_participant_def Let_def
    apply (rule ensures_bind, rule ensures_tx)
    apply (rule ensures_bind, rule ensures_upsert)
    apply (rule ensures_bind [where Q = "\<lambda>_. True"])
     apply (rule ensures_if)
      apply (rule live_flush, rule left, assumption)
     apply (rule ensures_done, rule live_steps)
    done
qed

lemma ensures_schedule_class:
  assumes "live_class_create_valid p"
  shows "ensures live_J any_error (\<lambda>_. True) (schedule_class ctx pr p)"
proof -
  have ok: "class_ok \<lparr>lc_id = i, lc_tenant = t, lc_class_code = code, lc_title = lcr_title p,
           lc_description = lcr_description p, lc_course = lcr_course p, lc_batch = lcr_batch p,
           lc_instructor = lcr_instructor p, lc_starts_at = instant (lcr_starts_at p),
           lc_ends_at = instant (lcr_ends_at p), lc_duration_minutes = lcr_duration_minutes p,
           lc_join_before_minutes = lcr_join_before_minutes p,
           lc_join_after_minutes = lcr_join_after_minutes p, lc_capacity = lcr_capacity p,
           lc_status = LC_SCHEDULED, lc_live_room_id = None, lc_link = live_link code,
           lc_settings = lcr_settings p, lc_created_by = Some (pr_user pr)\<rparr>" for i t code
    using assms by (simp add: class_ok_def live_class_create_valid_def payload_less_instant)
  show ?thesis
    unfolding schedule_class_def
    apply ((rule ensures_bind, rule live_rules ensures_on_conflict) | rule ensures_done
      | (simp add: live_tx ok participant_ok_def; fail))+
    done
qed

lemma class_ok_update:
  assumes "class_ok c" "live_class_update_valid p"
    and "lc_starts_at (apply_live_update p c) < lc_ends_at (apply_live_update p c)"
  shows "class_ok (apply_live_update p c)"
proof -
  have "lo \<le> assign_required f old" if "given_in lo hi f" "lo \<le> old" for lo hi f and old :: int
    using that by (cases "(f, old)" rule: assign_required.cases) (auto simp: given_in_def)
  with assms show ?thesis
    by (auto simp: class_ok_def live_class_update_valid_def apply_live_update_def)
qed

lemma ensures_update_class:
  assumes "live_class_update_valid p"
  shows "ensures live_J any_error (\<lambda>_. True) (update_class ctx pr i p)"
  unfolding update_class_def Let_def flush_update_def
  apply (rule ensures_bind, rule ensures_require, simp)
  apply (rule ensures_bind, rule live_found)
  apply (rule ensures_if, rule ensures_abort, simp)
  apply (rule ensures_bind, rule live_steps)+
  apply (rule ensures_bind [where Q = "\<lambda>_. True"])
   apply (rule ensures_if, rule ensures_raise, simp, rule ensures_done)
  apply (rule ensures_bind, rule live_found(5))
  apply (rule ensures_bind [where Q = "\<lambda>_. True"])
   apply (rule ensures_if, rule ensures_raise, simp, rule ensures_any, rule live_store, rule class_ok_update,
      assumption, rule assms, assumption)
  apply (rule ensures_bind [where Q = "\<lambda>_. True"])
   apply (rule ensures_if, rule ensures_raise, simp, rule ensures_done)
  apply ((rule ensures_bind, rule live_rules, rule live_tx) | rule ensures_done)+
  done

lemma ensures_class_steps:
  "ensures live_J any_error (\<lambda>_. True) (cancel_class ctx pr i reason)"
  "ensures live_J any_error (\<lambda>_. True) (open_class ctx pr i)"
  "ensures live_J any_error (\<lambda>_. True) (add_recording ctx pr i lrp)"
  unfolding cancel_class_def open_class_def add_recording_def
  apply ((rule ensures_bind, rule live_rules) | rule ensures_done ensures_if ensures_abort
      | (simp add: live_tx class_ok_def; fail))+
  done

lemma ensures_end_class:
  "ensures live_J any_error (\<lambda>_. True) (end_class ctx pr i)"
proof -
  have complete: "ensures live_J any_error (\<lambda>_. True) (complete_participant now q)" if "participant_ok q" for now q
    using that unfolding complete_participant_def
    by (auto intro!: ensures_case_option ensures_done live_flush simp: participant_ok_def
        split: option.split)
  show ?thesis
    unfolding end_class_def
    apply ((rule ensures_bind, rule live_rules ensures_for_each) | rule ensures_done ensures_if ensures_abort
        complete | (simp add: live_tx class_ok_def; fail) | (blast; fail))+
    done
qed

lemma ensures_validate_access:
  "ensures live_J any_error (\<lambda>_. True) (validate_access ctx pr code p)"
  unfolding validate_access_def Let_def
  apply ((rule ensures_bind, rule live_rules ensures_upsert) | rule ensures_done ensures_case_prod
      ensures_case_option | (simp add: live_tx; fail))+
  done

lemma ensures_capture_events:
  assumes "live_events_valid p"
  shows "ensures live_J any_error (\<lambda>_. True) (capture_attendance_events ctx pr i p)"
proof -
  have items: "ensures live_J any_error (\<lambda>_. True) (capture_event t c item)" if "item \<in> set (ler_events p)" for t c item
    using assms that by (intro ensures_capture_event) (simp add: live_events_valid_def list_all_iff)
  show ?thesis
    unfolding capture_attendance_events_def
    apply ((rule ensures_bind, rule live_found ensures_require ensures_tx live_steps ensures_for_each
          ensures_case_option)
        | rule ensures_done ensures_case_option items live_steps | (simp add: live_tx; fail))+
    done
qed

lemma ensures_live_reads:
  "ensures J any_error (\<lambda>_. True) (list_classes ctx limit cur st b j t f g)"
  "ensures J any_error (\<lambda>_. True) (get_class ctx i)"
  "ensures J any_error (\<lambda>_. True) (get_by_code ctx code)"
  by (rule ensures_keeping, rule keeps_live_reads)+

lemma ensures_live_handle: "ensures live_J any_error (\<lambda>_. True) (live_handle c)"
  unfolding live_handle_def
  by (rule ensures_handle_call, cases "cl_request c")
    (auto intro!: ensures_live_reads ensures_discard ensures_validated ensures_schedule_class
      ensures_update_class ensures_class_steps ensures_end_class ensures_validate_access
      ensures_capture_events)

interpretation live_service: service live_handle live_inv
proof
  show "live_inv d p \<Longrightarrow> serve (live_handle c) d p = (r, d', p') \<Longrightarrow> live_inv d' p'"
    for d p c r d' p'
    by (rule serve_ensures(1) [OF ensures_live_handle])
  show "live_inv d p \<Longrightarrow> clock p \<le> t \<Longrightarrow> live_inv d (p\<lparr>clock := t\<rparr>)" for d p t
    by (simp add: live_inv_def)
qed

section \<open>The state machine of a class\<close>

inductive class_step :: "live_class_status \<Rightarrow> live_class_status \<Rightarrow> bool" where
  opened: "class_step LC_SCHEDULED LC_OPEN"
| ended: "st \<noteq> LC_ENDED \<Longrightarrow> st \<noteq> LC_CANCELLED \<Longrightarrow> class_step st LC_ENDED"
| cancelled: "st \<noteq> LC_ENDED \<Longrightarrow> st \<noteq> LC_CANCELLED \<Longrightarrow> class_step st LC_CANCELLED"

inductive_cases class_stepE: "class_step st st'"
inductive_simps class_step_from_ended [simp]: "class_step LC_ENDED st"
inductive_simps class_step_from_cancelled [simp]: "class_step LC_CANCELLED st"

lemma class_steps_closed:
  assumes "class_step\<^sup>*\<^sup>* st st'" "st = LC_ENDED \<or> st = LC_CANCELLED"
  shows "st' = st"
  using assms by (induction rule: rtranclp_induct) auto

lemma class_steps_start: "class_step\<^sup>*\<^sup>* st st' \<Longrightarrow> st' = LC_SCHEDULED \<Longrightarrow> st = LC_SCHEDULED"
  by (induction rule: rtranclp_induct) (auto elim: class_stepE)

text \<open>The class is one that was not there, or a later state of the one that was.\<close>

definition later :: "db \<Rightarrow> live_class \<Rightarrow> bool" where
  "later d0 c \<longleftrightarrow> (\<forall>c0\<in>set (live_classes d0). lc_id c0 = lc_id c \<longrightarrow> lc_tenant c = lc_tenant c0 \<and>
     lc_class_code c = lc_class_code c0 \<and> lc_link c = lc_link c0 \<and>
     class_step\<^sup>*\<^sup>* (lc_status c0) (lc_status c) \<and> (\<not> schedulable (lc_status c0) \<longrightarrow>
       lc_starts_at c = lc_starts_at c0 \<and> lc_ends_at c = lc_ends_at c0 \<and> lc_capacity c = lc_capacity c0))"

definition progressed :: "db \<Rightarrow> db \<Rightarrow> process \<Rightarrow> bool" where
  "progressed d0 d p \<longleftrightarrow> lc_id ` set (live_classes d0) \<subseteq> lc_id ` set (live_classes d) \<and>
     (\<forall>c\<in>set (live_classes d). later d0 c)"

lemma class_step_schedulable: "class_step st st' \<Longrightarrow> schedulable st' \<Longrightarrow> schedulable st"
  by (auto simp: schedulable_def elim: class_stepE)

lemma class_steps_schedulable: "class_step\<^sup>*\<^sup>* st st' \<Longrightarrow> schedulable st' \<Longrightarrow> schedulable st"
  by (induction rule: rtranclp_induct) (auto dest: class_step_schedulable)

lemma later_step:
  "later d0 c \<Longrightarrow> class_step (lc_status c) st \<Longrightarrow> later d0 (c\<lparr>lc_status := st\<rparr>)"
  by (auto simp: later_def intro: rtranclp.rtrancl_into_rtrancl)

lemma later_update: "later d0 c \<Longrightarrow> schedulable (lc_status c) \<Longrightarrow> later d0 (apply_live_update p c)"
  by (auto simp: later_def apply_live_update_def dest: class_steps_schedulable)

abbreviation progress_J :: "db \<Rightarrow> db session \<Rightarrow> bool" where
  "progress_J d0 \<equiv> both (progressed d0)"

lemma proc_stable_progressed: "proc_stable (progressed d0)"
  by (simp add: proc_stable_def progressed_def)

lemma progress_tx: "tx_ok (progress_J d0)" "keeps (progress_J d0) rollback_tx"
  using tx_ok_both [OF proc_stable_progressed] by (simp_all add: tx_ok_def)

lemma progress_frames:
  "table_ok (progress_J d0) live_class_events_table" "table_ok (progress_J d0) live_class_recordings_table"
  "table_ok (progress_J d0) live_class_attendance_snapshots_table"
  "table_ok (progress_J d0) live_class_participants_table"
  by (simp_all add: table_ok_both framed_def progressed_def)

lemma progress_insert: "keeps (progress_J d0) (insert_row live_classes_table c)"
  by (auto simp: keeps_def both_def progressed_def insert_row_def list_ex_iff later_def image_subset_iff)

lemma progress_save:
  "later d0 c \<Longrightarrow> keeps (progress_J d0) (save_row live_classes_table c)"
  unfolding keeps_def
proof (intro allI impI)
  fix s assume c: "later d0 c" and J: "progress_J d0 s"
  obtain r t where run: "save_row live_classes_table c s = (r, t)" by force
  show "progress_J d0 (snd (save_row live_classes_table c s))"
  proof (cases r)
    case (Inl e)
    with run J show ?thesis by (auto simp: save_row_def split: if_splits)
  next
    case (Inr x)
    note rows = live_classes_tbl.rows_save [OF run [unfolded Inr], simplified]
    have "lc_id ` set (live_classes (working t)) = lc_id ` set (live_classes (working s))"
    proof -
      have "map lc_id (live_classes (working t)) = map lc_id (live_classes (working s))"
        unfolding rows by (rule map_replace_where_eq) simp
      then show ?thesis by (metis list.set_map)
    qed
    moreover have "set (live_classes (working t)) \<subseteq> insert c (set (live_classes (working s)))"
      unfolding rows by (auto simp: set_replace_where)
    ultimately have "progressed d0 (working t) (proc t)"
      using J c by (auto simp: both_def progressed_def dest!: subsetD)
    with J save_row_session [OF run] run show ?thesis by (simp add: both_def progressed_def)
  qed
qed

lemma progress_found:
  "ensures (progress_J d0) any_error (\<lambda>c. later d0 c) (get_class_or_raise t i)"
  unfolding get_class_or_raise_def live_class_get_def
  by (rule ensures_weaken, rule ensures_found(2) [where Q = "later d0"])
    (auto simp: both_def progressed_def)

lemma progress_store:
  "later d0 c \<Longrightarrow> ensures (progress_J d0) any_error (\<lambda>x. x = c) (save_row live_classes_table c)"
  "ensures (progress_J d0) any_error (\<lambda>_. True) (insert_row live_classes_table c)"
proof -
  show "ensures (progress_J d0) any_error (\<lambda>x. x = c) (save_row live_classes_table c)" if "later d0 c"
    by (rule ensuresI) (auto dest: keepsD [OF progress_save [OF that]] save_row_value)
  show "ensures (progress_J d0) any_error (\<lambda>_. True) (insert_row live_classes_table c)"
    by (rule ensures_keeping [OF progress_insert])
qed

lemma progress_steps:
  "ensures (progress_J d0) any_error (\<lambda>_. True) (record_class_event t i ty pl pa oc)"
  "ensures (progress_J d0) any_error (\<lambda>_. True) (assert_admin_override_allowed pr b)"
  "ensures (progress_J d0) any_error (\<lambda>_. True) (validate_live_update t k lup)"
  "ensures (progress_J d0) any_error (\<lambda>_. True) (assert_live_class_time_window lo hi)"
  "ensures (progress_J d0) any_error (\<lambda>_. True) (participants_for_class t i)"
  "ensures (progress_J d0) any_error (\<lambda>_. True) (for_each (complete_participant now) ps)"
  by (rule ensures_keeping, (intro keeps_intros progress_tx progress_frames))+

lemmas progress_rules = progress_found progress_steps ensures_intros ensures_done

lemma progress_changes:
  "ensures (progress_J d0) any_error (\<lambda>_. True) (cancel_class ctx pr i reason)"
  "ensures (progress_J d0) any_error (\<lambda>_. True) (open_class ctx pr i)"
  "ensures (progress_J d0) any_error (\<lambda>_. True) (end_class ctx pr i)"
  unfolding cancel_class_def open_class_def end_class_def
  apply ((rule ensures_bind, rule progress_rules progress_store(1)) | rule ensures_done ensures_if
      ensures_abort later_step | (simp add: progress_tx; fail) | (simp add: class_step.simps; fail))+
  done

lemma progress_update:
  "ensures (progress_J d0) any_error (\<lambda>_. True) (update_class ctx pr i p)"
  unfolding update_class_def Let_def flush_update_def
  apply (rule ensures_bind, rule ensures_require, simp)
  apply (rule ensures_bind, rule progress_found)
  apply (rule ensures_if, rule ensures_abort, simp)
  apply (rule ensures_bind, rule progress_steps)+
  apply (rule ensures_bind [where Q = "\<lambda>_. True"])
   apply (rule ensures_if, rule ensures_raise, simp, rule ensures_done)
  apply (rule ensures_bind, rule progress_steps)
  apply (rule ensures_bind [where Q = "\<lambda>_. True"])
   apply (rule ensures_if, rule ensures_raise, simp, rule ensures_any, rule progress_store, rule later_update,
      assumption, simp)
  apply (rule ensures_bind [where Q = "\<lambda>_. True"])
   apply (rule ensures_if, rule ensures_raise, simp, rule ensures_done)
  apply ((rule ensures_bind, rule ensures_tx, rule progress_tx) | rule ensures_done)+
  done

lemma progress_others:
  "keeps (progress_J d0) (schedule_class ctx pr lcr)" "keeps (progress_J d0) (validate_access ctx pr code lap)"
  "keeps (progress_J d0) (capture_attendance_events ctx pr i ler)"
  "keeps (progress_J d0) (add_recording ctx pr i lrp)"
proof -
  show "keeps (progress_J d0) (schedule_class ctx pr lcr)"
    unfolding schedule_class_def
    by (intro keeps_bind keeps_on_conflict keeps_require keeps_live_queries keeps_live_steps keeps_tx_ok
        progress_insert keeps_return keeps_publish_event keeps_now keeps_table_ok progress_tx progress_frames)
  show "keeps (progress_J d0) (validate_access ctx pr code lap)"
    "keeps (progress_J d0) (capture_attendance_events ctx pr i ler)"
    "keeps (progress_J d0) (add_recording ctx pr i lrp)"
    unfolding validate_access_def capture_attendance_events_def add_recording_def Let_def
    by (intro keeps_intros progress_tx progress_frames)+
qed

lemma progress_handle: "keeps (progress_J d0) (live_handle c)"
  unfolding live_handle_def
  by (rule keeps_handle_call, intro keeps_intros, cases "cl_request c")
    (auto intro!: keeps_discard keeps_validated keeps_live_reads progress_others
      ensures_keeps [OF progress_changes(1)] ensures_keeps [OF progress_changes(2)]
      ensures_keeps [OF progress_changes(3)] ensures_keeps [OF progress_update])

interpretation live_history: service live_handle "progressed d0" for d0
proof
  show "progressed d0 d p \<Longrightarrow> serve (live_handle c) d p = (r, d', p') \<Longrightarrow> progressed d0 d' p'"
    for d p c r d' p'
    by (rule serve_both [OF progress_handle])
  show "progressed d0 d p \<Longrightarrow> clock p \<le> t \<Longrightarrow> progressed d0 d (p\<lparr>clock := t\<rparr>)" for d p t
    by (simp add: progressed_def)
qed

section \<open>One participant row for an identity\<close>

definition identity_clash :: "live_class_participant \<Rightarrow> live_class_participant \<Rightarrow> bool" where
  "identity_clash q r \<longleftrightarrow> lp_tenant q = lp_tenant r \<and> lp_class q = lp_class r \<and>
     ((lp_user q \<noteq> None \<and> lp_user q = lp_user r) \<or> (lp_student q \<noteq> None \<and> lp_student q = lp_student r) \<or>
      (lp_employee q \<noteq> None \<and> lp_employee q = lp_employee r))"

definition identities_ok :: "db \<Rightarrow> process \<Rightarrow> bool" where
  "identities_ok d p \<longleftrightarrow> unique_rows live_class_participants_table (live_class_participants d) \<and>
     (\<forall>q\<in>set (live_class_participants d). \<forall>r\<in>set (live_class_participants d).
        lp_id q \<noteq> lp_id r \<longrightarrow> \<not> identity_clash q r) \<and>
     lp_class ` set (live_class_participants d) \<subseteq> lc_id ` set (live_classes d)"

lemma proc_stable_identities: "proc_stable identities_ok"
  by (simp add: proc_stable_def identities_ok_def)

lemma identity_clash_sym: "identity_clash q r \<Longrightarrow> identity_clash r q"
  unfolding identity_clash_def by metis

lemma identities_append:
  assumes "identities_ok d p" "d' = live_class_participants_update (\<lambda>ps. ps @ [r]) d"
    and "\<forall>q\<in>set (live_class_participants d). lp_id q \<noteq> lp_id r \<and> \<not> identity_clash q r"
    and "lp_class r \<in> lc_id ` set (live_classes d)"
  shows "identities_ok d' p'"
proof -
  have "unique_rows live_class_participants_table (live_class_participants d @ [r])"
    by (rule live_class_participants_tbl.unique_append) (use assms in \<open>auto simp: identities_ok_def no_clash_def\<close>)
  moreover have "\<not> identity_clash q x" if "q \<in> set (live_class_participants d @ [r])"
    "x \<in> set (live_class_participants d @ [r])" "lp_id q \<noteq> lp_id x" for q x
  proof (cases "q = r")
    case True
    with that have "x \<in> set (live_class_participants d)" by auto
    with assms(3) have "\<not> identity_clash x r" by blast
    with True show ?thesis by (blast dest: identity_clash_sym)
  next
    case False
    with that have "q \<in> set (live_class_participants d)" by auto
    with that assms(1,3) show ?thesis unfolding identities_ok_def by auto
  qed
  ultimately show ?thesis
    using assms(1,4) unfolding identities_ok_def assms(2) by auto
qed

lemma identities_replace:
  assumes "identities_ok d p" "old \<in> set (live_class_participants d)"
    and same: "lp_id r = lp_id old" "lp_tenant r = lp_tenant old" "lp_class r = lp_class old"
      "lp_user r = lp_user old" "lp_student r = lp_student old" "lp_employee r = lp_employee old"
    and d': "d' = live_class_participants_update (replace_where (\<lambda>q. lp_id q = lp_id r \<and> c q) (\<lambda>_. r)) d"
  shows "identities_ok d' p'"
proof -
  let ?g = "\<lambda>q. (lp_id q, lp_tenant q, lp_class q, lp_user q, lp_student q, lp_employee q)"
  have "?g r = ?g q" if "q \<in> set (live_class_participants d)" "lp_id q = lp_id r" for q
  proof -
    have "q = old" using assms(1,2) that same(1)
      by (intro unique_rows_key [of live_class_participants_table "live_class_participants d"])
        (auto simp: identities_ok_def)
    with same show ?thesis by simp
  qed
  then have same': "map ?g (live_class_participants d') = map ?g (live_class_participants d)"
    unfolding d' by simp (rule map_replace_where_eq, auto)
  have twin: "\<exists>r\<in>set (live_class_participants d). ?g r = ?g q" if "q \<in> set (live_class_participants d')" for q
    using map_eq_twin [OF same' [symmetric] that] by blast
  have "unique_rows live_class_participants_table (live_class_participants d')"
    by (rule unique_rows_projection [OF same']) (use assms(1) in \<open>auto simp: identities_ok_def no_clash_def\<close>)
  moreover have "\<not> identity_clash q x" if "q \<in> set (live_class_participants d')"
    "x \<in> set (live_class_participants d')" "lp_id q \<noteq> lp_id x" for q x
  proof -
    from twin [OF that(1)] obtain q0 where "q0 \<in> set (live_class_participants d)" "?g q0 = ?g q" by blast
    moreover from twin [OF that(2)] obtain x0 where "x0 \<in> set (live_class_participants d)" "?g x0 = ?g x"
      by blast
    ultimately have "identity_clash q x = identity_clash q0 x0" by (simp add: identity_clash_def)
    with \<open>q0 \<in> _\<close> \<open>x0 \<in> _\<close> \<open>?g q0 = ?g q\<close> \<open>?g x0 = ?g x\<close> assms(1) that(3) show ?thesis
      by (simp add: identities_ok_def)
  qed
  moreover have "lp_class ` set (live_class_participants d') \<subseteq> lc_id ` set (live_classes d')"
  proof
    fix i assume "i \<in> lp_class ` set (live_class_participants d')"
    then obtain q where "q \<in> set (live_class_participants d')" "i = lp_class q" by auto
    with twin [OF this(1)] obtain r where "r \<in> set (live_class_participants d)" "i = lp_class r" by auto
    with assms(1) have "i \<in> lc_id ` set (live_classes d)" by (auto simp: identities_ok_def)
    then show "i \<in> lc_id ` set (live_classes d')" by (simp add: d')
  qed
  ultimately show ?thesis unfolding identities_ok_def by blast
qed

text \<open>The assertion between the steps of a request that adds no class.\<close>

definition identities_J :: "uuid set \<Rightarrow> db session \<Rightarrow> bool" where
  "identities_J C = (\<lambda>s. both identities_ok s \<and> lc_id ` set (live_classes (working s)) = C)"

lemma identities_ok_any: "identities_ok d p \<Longrightarrow> identities_ok d q"
  by (simp add: identities_ok_def)

lemma identities_JD:
  "identities_J C s \<Longrightarrow> identities_ok (working s) q"
  "identities_J C s \<Longrightarrow> lc_id ` set (live_classes (working s)) = C"
  by (auto simp: identities_J_def both_def intro: identities_ok_any)

lemma identities_JI:
  assumes "identities_J C s" "committed t = committed s" "identities_ok (working t) q"
    "lc_id ` set (live_classes (working t)) = C"
  shows "identities_J C t"
  using assms identities_ok_any unfolding identities_J_def both_def by metis

lemma identities_tx: "keeps (identities_J C) commit_tx" "keeps (identities_J C) uuid4"
  "keeps (identities_J C) (publish ev)"
  unfolding identities_J_def
  using tx_ok_conj [OF tx_ok_both [OF proc_stable_identities], of "\<lambda>s. lc_id ` set (live_classes (working s)) = C"]
  by (simp_all add: keeps_def tx_simps)

lemma identities_frames:
  "table_ok (identities_J C) live_class_events_table" "table_ok (identities_J C) live_class_recordings_table"
  "table_ok (identities_J C) live_class_attendance_snapshots_table"
  unfolding identities_J_def
  by (rule table_ok_conj, simp add: table_ok_both framed_def identities_ok_def,
      simp add: table_ok_def keeps_def insert_row_def save_row_def update_where_def delete_where_def)+

lemma find_identity_run:
  "find_identity t i u j e s = (Inr (if u = None \<and> j = None \<and> e = None then None
     else lookup live_class_participants_table (\<lambda>r. lp_tenant r = t \<and> lp_class r = i \<and>
       same_identity u j e r) s), s)"
  by (simp add: find_identity_def tx_simps)

lemma insert_row_cases:
  assumes "insert_row T r s = (x, s')"
  obtains (failed) "s' = s" | (stored) "insert_row T r s = (Inr r, s')"
  using assms by (auto simp: insert_row_def split: if_splits)

lemma save_row_cases:
  assumes "save_row T r s = (x, s')"
  obtains (failed) "s' = s" | (stored) "save_row T r s = (Inr r, s')"
  using assms by (auto simp: save_row_def split: if_splits)

lemma identities_insert:
  assumes "identities_J C s" "find_identity (lp_tenant r) (lp_class r) (lp_user r) (lp_student r) (lp_employee r) s = (Inr None, s)"
    and "lp_class r \<in> C" "insert_row live_class_participants_table r s = (x, s')"
  shows "identities_J C s'"
  using assms(4)
proof (cases rule: insert_row_cases)
  case failed
  with assms(1) show ?thesis by simp
next
  case stored
  note run = stored [unfolded insert_row_Inr_iff, simplified]
  have "\<not> identity_clash q r" if "q \<in> set (live_class_participants (working s))" for q
  proof
    assume clash: "identity_clash q r"
    then have "\<not> (lp_user r = None \<and> lp_student r = None \<and> lp_employee r = None)"
      by (auto simp: identity_clash_def)
    with assms(2) have "lookup live_class_participants_table (\<lambda>x. lp_tenant x = lp_tenant r \<and>
        lp_class x = lp_class r \<and> same_identity (lp_user r) (lp_student r) (lp_employee r) x) s = None"
      by (auto simp: find_identity_run split: if_splits)
    from lookup_NoneD [OF this, of q] that run clash show False
      by (auto simp: identity_clash_def same_identity_def)
  qed
  then have "identities_ok (working s') (proc s)"
    by (intro identities_append [OF identities_JD(1) [OF assms(1)]])
      (use assms(3) identities_JD(2) [OF assms(1)] run in auto)
  then show ?thesis
    by (intro identities_JI [OF assms(1)]) (use identities_JD(2) [OF assms(1)] run in auto)
qed

lemma identities_save:
  assumes "identities_J C s" "old \<in> set (live_class_participants (working s))"
    and "lp_id r = lp_id old" "lp_tenant r = lp_tenant old" "lp_class r = lp_class old"
      "lp_user r = lp_user old" "lp_student r = lp_student old" "lp_employee r = lp_employee old"
    and "save_row live_class_participants_table r s = (x, s')"
  shows "identities_J C s'"
  using assms(9)
proof (cases rule: save_row_cases)
  case failed
  with assms(1) show ?thesis by simp
next
  case stored
  note run = stored [unfolded save_row_Inr_iff, simplified]
  have "identities_ok (working s') (proc s)"
    by (rule identities_replace [OF identities_JD(1) [OF assms(1)] assms(2-8),
          where c = "\<lambda>q. rls_tenant s = Some (lp_tenant q)"])
      (use run in simp)
  then show ?thesis
    by (intro identities_JI [OF assms(1)]) (use identities_JD(2) [OF assms(1)] run in auto)
qed

lemma identities_upsert:
  assumes "lc_id c \<in> C"
  shows "ensures (identities_J C) any_error (\<lambda>_. True) (upsert_allowed_participant t c u j e r x)"
proof (rule ensures_keeping, unfold keeps_def, intro allI impI)
  fix s assume J: "identities_J C s"
  let ?s = "s\<lparr>proc := (proc s)\<lparr>uuid_supply := Suc (uuid_supply (proc s))\<rparr>\<rparr>"
  obtain f where find: "find_identity t (lc_id c) u j e s = (Inr f, s)" by (simp add: find_identity_run)
  show "identities_J C (snd (upsert_allowed_participant t c u j e r x s))"
  proof (cases f)
    case None
    let ?r = "\<lparr>lp_id = uuid_supply (proc s), lp_tenant = t, lp_class = lc_id c, lp_user = u,
            lp_student = j, lp_employee = e, lp_role = r, lp_join_status = J_ALLOWED, lp_joined_at = x,
            lp_left_at = None, lp_total_duration_seconds = 0, lp_created_at = clock (proc s)\<rparr>"
    have "upsert_allowed_participant t c u j e r x s = insert_row live_class_participants_table ?r ?s"
      using find None by (simp add: upsert_allowed_participant_def tx_exec)
    moreover have "identities_J C (snd (insert_row live_class_participants_table ?r ?s))"
    proof (rule identities_insert)
      show "identities_J C ?s"
        by (rule identities_JI [OF J]) (use identities_JD [OF J] in simp_all)
      show "find_identity (lp_tenant ?r) (lp_class ?r) (lp_user ?r) (lp_student ?r) (lp_employee ?r) ?s = (Inr None, ?s)"
        using find None by (simp add: find_identity_run split: if_splits)
      show "insert_row live_class_participants_table ?r ?s = (fst (insert_row live_class_participants_table ?r ?s),
          snd (insert_row live_class_participants_table ?r ?s))" by simp
    qed (simp add: assms)
    ultimately show ?thesis by simp
  next
    case (Some p)
    with find have p: "lookup live_class_participants_table (\<lambda>r. lp_tenant r = t \<and> lp_class r = lc_id c \<and>
       same_identity u j e r) s = Some p" by (auto simp: find_identity_run split: if_splits)
    from live_class_participants_tbl.lookup_own [OF p] have own: "p \<in> set (live_class_participants (working s))"
      by simp
    let ?r = "p\<lparr>lp_join_status := J_ALLOWED, lp_role := r, lp_joined_at := (if x = None then lp_joined_at p else x),
          lp_left_at := (if x = None then lp_left_at p else None)\<rparr>"
    have "upsert_allowed_participant t c u j e r x s = save_row live_class_participants_table ?r s"
      using find Some by (simp add: upsert_allowed_participant_def tx_exec)
    moreover have "identities_J C (snd (save_row live_class_participants_table ?r s))"
      by (rule identities_save [OF J own, of ?r, OF _ _ _ _ _ _ prod.collapse [symmetric]]) simp_all
    ultimately show ?thesis by simp
  qed
qed

lemma upsert_stored:
  assumes "upsert_allowed_participant t c u j e r x s = (Inr q, s')"
  shows "q \<in> set (live_class_participants (working s'))"
proof -
  obtain f where find: "find_identity t (lc_id c) u j e s = (Inr f, s)" by (simp add: find_identity_run)
  show ?thesis
  proof (cases f)
    case None
    with assms find obtain y z where run: "insert_row live_class_participants_table y z = (Inr q, s')"
      by (auto simp: upsert_allowed_participant_def bind_tx_Inr_iff)
    from insert_row_value [OF run] live_class_participants_tbl.rows_insert [OF run] show ?thesis by simp
  next
    case (Some p)
    with assms find obtain y where run: "save_row live_class_participants_table y s = (Inr q, s')"
      by (auto simp: upsert_allowed_participant_def bind_tx_Inr_iff)
    then show ?thesis by (auto simp: save_row_Inr_iff set_replace_where)
  qed
qed

lemma departed_identity [simp]:
  "lp_id (departed item n p) = lp_id p" "lp_tenant (departed item n p) = lp_tenant p"
  "lp_class (departed item n p) = lp_class p" "lp_user (departed item n p) = lp_user p"
  "lp_student (departed item n p) = lp_student p" "lp_employee (departed item n p) = lp_employee p"
  by (simp_all add: departed_def)

lemma flush_participant_run: "flush_participant p s = (if int32 (lp_total_duration_seconds p)
    then save_row live_class_participants_table p s else (Inl (Python_Error ''DBAPIError''), s))"
  by (simp add: flush_participant_def raise_tx_run)

lemma identities_capture_event:
  assumes "lc_id c \<in> C"
  shows "ensures (identities_J C) any_error (\<lambda>_. True) (capture_event t c item)"
proof (rule ensures_keeping)
  have core: "keeps (identities_J C) (bind_tx (upsert_allowed_participant t c u j e r x) (\<lambda>p.
      if b then leave_participant item n p else return_tx p))"
    for u j e r x b n
    unfolding keeps_def
  proof (intro allI impI)
    fix s assume J: "identities_J C s"
    obtain y t' where run: "upsert_allowed_participant t c u j e r x s = (y, t')" by force
    with keepsD [OF ensures_keeps [OF identities_upsert [OF assms]] J] have J': "identities_J C t'" by blast
    show "identities_J C (snd (bind_tx (upsert_allowed_participant t c u j e r x) (\<lambda>p.
      if b then leave_participant item n p else return_tx p) s))"
    proof (cases y)
      case (Inl z)
      with run J' show ?thesis by (simp add: bind_tx_run)
    next
      case (Inr q)
      from upsert_stored [OF run [unfolded Inr]] have q: "q \<in> set (live_class_participants (working t'))" .
      have "identities_J C (snd (save_row live_class_participants_table (departed item n q) t'))"
        by (rule identities_save [OF J' q, of "departed item n q", OF _ _ _ _ _ _ prod.collapse [symmetric]])
          simp_all
      with J' have "identities_J C (snd (leave_participant item n q t'))"
        by (simp add: leave_participant_def flush_participant_run)
      with run Inr J' show ?thesis by (simp add: bind_tx_run return_tx_run)
    qed
  qed
  show "keeps (identities_J C) (capture_event t c item)"
    unfolding capture_event_def Let_def record_class_event_def bind_tx_assoc [symmetric]
    by (intro keeps_bind core keeps_now identities_tx keeps_table_ok identities_frames)
qed

lemma identities_complete:
  assumes "for_each (complete_participant now) ps s = (x, s')" "identities_J C s"
    and "(\<lambda>q. (lp_id q, lp_tenant q, lp_class q, lp_user q, lp_student q, lp_employee q)) ` set ps \<subseteq>
      (\<lambda>q. (lp_id q, lp_tenant q, lp_class q, lp_user q, lp_student q, lp_employee q)) `
        set (live_class_participants (working s))"
  shows "identities_J C s'"
  using assms
proof (induction ps arbitrary: s x s')
  case Nil
  then show ?case by (simp add: return_tx_run)
next
  case (Cons p ps)
  let ?g = "\<lambda>q. (lp_id q, lp_tenant q, lp_class q, lp_user q, lp_student q, lp_employee q)"
  obtain y t where one: "complete_participant now p s = (y, t)" by force
  from Cons.prems(3) obtain q where q: "q \<in> set (live_class_participants (working s))" "?g p = ?g q" by auto
  have step: "identities_J C t \<and> map ?g (live_class_participants (working t)) =
      map ?g (live_class_participants (working s))"
  proof (cases "\<exists>joined. lp_joined_at p = Some joined \<and> lp_left_at p = None \<and>
      int32 (lp_total_duration_seconds p + duration_seconds joined now)")
    case False
    with one Cons.prems(2) show ?thesis
      by (auto simp: complete_participant_def flush_participant_run return_tx_run split: option.splits)
  next
    case True
    then obtain joined where "lp_joined_at p = Some joined" "lp_left_at p = None"
      and fits: "int32 (lp_total_duration_seconds p + duration_seconds joined now)" by blast
    define r where "r = p\<lparr>lp_left_at := Some now, lp_join_status := J_COMPLETED,
        lp_total_duration_seconds := lp_total_duration_seconds p + duration_seconds joined now\<rparr>"
    have r: "?g r = ?g p" "save_row live_class_participants_table r s = (y, t)"
      using one \<open>lp_joined_at p = _\<close> \<open>lp_left_at p = _\<close> fits by (simp_all add: complete_participant_def flush_participant_run r_def)
    have "identities_J C t"
      by (rule identities_save [OF Cons.prems(2) q(1), of r]) (use r q(2) in auto)
    moreover have "map ?g (live_class_participants (working t)) = map ?g (live_class_participants (working s))"
      using r(2)
    proof (cases rule: save_row_cases)
      case stored
      have same: "?g r = ?g x" if "x \<in> set (live_class_participants (working s))" "lp_id x = lp_id r" for x
      proof -
        have "x = q"
          by (rule unique_rows_key [of live_class_participants_table "live_class_participants (working s)"])
            (use identities_JD(1) [OF Cons.prems(2)] that q r(1) in \<open>auto simp: identities_ok_def\<close>)
        with r(1) q(2) show ?thesis by simp
      qed
      have "live_class_participants (working t) = replace_where (\<lambda>q. lp_id q = lp_id r \<and>
          rls_tenant s = Some (lp_tenant q)) (\<lambda>_. r) (live_class_participants (working s))"
        using live_class_participants_tbl.rows_save [OF stored] by simp
      note rows = this
      show ?thesis unfolding rows by (rule map_replace_where_eq) (use same in blast)
    qed simp
    ultimately show ?thesis by simp
  qed
  then have "set (map ?g (live_class_participants (working t))) = set (map ?g (live_class_participants (working s)))"
    by (simp only:)
  then have sets: "?g ` set (live_class_participants (working t)) = ?g ` set (live_class_participants (working s))"
    by (simp only: list.set_map)
  show ?case
  proof (cases y)
    case (Inl e)
    with one Cons.prems(1) step show ?thesis by (simp add: bind_tx_run)
  next
    case (Inr z)
    obtain w u where rest: "for_each (complete_participant now) ps t = (w, u)" by force
    have "identities_J C u"
      by (rule Cons.IH [OF rest]) (use step sets Cons.prems(3) in auto)
    with one Inr rest Cons.prems(1) show ?thesis
      by (cases w) (auto simp: bind_tx_run return_tx_run)
  qed
qed

lemma identities_classes:
  "keeps (identities_J C) (save_row live_classes_table c)"
proof (unfold keeps_def, intro allI impI)
  fix s assume J: "identities_J C s"
  obtain x t where run: "save_row live_classes_table c s = (x, t)" by force
  then show "identities_J C (snd (save_row live_classes_table c s))"
  proof (cases rule: save_row_cases)
    case failed
    with J run show ?thesis by simp
  next
    case stored
    have "map lc_id (live_classes (working t)) = map lc_id (live_classes (working s))"
      using live_classes_tbl.rows_save [OF stored]
      by (simp only: live_classes_sel) (rule map_replace_where_eq, simp)
    then have ids: "lc_id ` set (live_classes (working t)) = lc_id ` set (live_classes (working s))"
      by (metis list.set_map)
    moreover have "live_class_participants (working t) = live_class_participants (working s)"
      using stored by (auto simp: save_row_Inr_iff)
    ultimately have "identities_ok (working t) (proc t)"
      using identities_JD(1) [OF J, of "proc t"] by (simp add: identities_ok_def)
    then have "identities_J C t"
      by (intro identities_JI [OF J]) (use save_row_session [OF run] identities_JD(2) [OF J] ids in auto)
    with run show ?thesis by simp
  qed
qed

lemma identities_found:
  "ensures (identities_J C) any_error (\<lambda>c. lc_id c \<in> C) (get_class_or_raise t i)"
  "ensures (identities_J C) any_error (\<lambda>c. lc_id c \<in> C) (class_by_code_or_raise t code)"
proof -
  have mem: "lc_id r \<in> C" if "identities_J C s" "r \<in> set (rows live_classes_table s)" for s r
    using that by (auto simp: identities_J_def)
  show "ensures (identities_J C) any_error (\<lambda>c. lc_id c \<in> C) (get_class_or_raise t i)"
    unfolding get_class_or_raise_def live_class_get_def
    by (rule ensures_weaken, rule ensures_found(2) [OF mem]) auto
  show "ensures (identities_J C) any_error (\<lambda>c. lc_id c \<in> C) (class_by_code_or_raise t code)"
    unfolding class_by_code_or_raise_def live_get_by_code_def
    by (rule ensures_bind, rule ensures_found(1) [OF mem])
      (auto intro!: ensures_abort ensures_return split: option.split)
qed

lemma identities_steps:
  "ensures (identities_J C) any_error (\<lambda>_. True) (record_class_event t i ty pl pa oc)"
  "ensures (identities_J C) any_error (\<lambda>_. True) (access_denial_reason t pr k p now x y)"
  "ensures (identities_J C) any_error (\<lambda>_. True) (refresh_participant ev)"
  "ensures (identities_J C) any_error (\<lambda>_. True) (assert_admin_override_allowed pr b)"
  "ensures (identities_J C) any_error (\<lambda>_. True) (validate_live_update t k lup)"
  "ensures (identities_J C) any_error (\<lambda>_. True) (assert_live_class_time_window lo hi)"
  "ensures (identities_J C) any_error (\<lambda>_. True) (insert_row live_class_recordings_table rec)"
  "ensures (identities_J C) any_error (\<lambda>_. True) (insert_row live_class_attendance_snapshots_table snap)"
  "ensures (identities_J C) any_error (\<lambda>_. True) (save_row live_classes_table c)"
  "ensures (identities_J C) any_error (\<lambda>_. True) commit_tx" "ensures (identities_J C) any_error (\<lambda>_. True) uuid4"
  "ensures (identities_J C) any_error (\<lambda>_. True) (publish_event ty ctx pr en)"
  "ensures (identities_J C) any_error (\<lambda>_. True) now_utc"
  unfolding record_class_event_def
  by (rule ensures_keeping, (intro keeps_bind keeps_now identities_tx keeps_table_ok identities_frames
      keeps_live_queries identities_classes keeps_publish_event)+)+

lemma identities_operations:
  "ensures (identities_J C) any_error (\<lambda>_. True) (validate_access ctx pr code lap)"
  "ensures (identities_J C) any_error (\<lambda>_. True) (capture_attendance_events ctx pr i ler)"
  "ensures (identities_J C) any_error (\<lambda>_. True) (add_recording ctx pr i lrp)"
  "ensures (identities_J C) any_error (\<lambda>_. True) (cancel_class ctx pr i reason)"
  "ensures (identities_J C) any_error (\<lambda>_. True) (open_class ctx pr i)"
  "ensures (identities_J C) any_error (\<lambda>_. True) (update_class ctx pr i p)"
  unfolding validate_access_def capture_attendance_events_def add_recording_def cancel_class_def
    open_class_def update_class_def Let_def flush_update_def
  apply ((rule ensures_bind, rule identities_found identities_steps ensures_require ensures_if
        ensures_case_option identities_upsert ensures_for_each)
      | rule ensures_done ensures_case_prod ensures_case_option ensures_if ensures_abort ensures_raise
        identities_capture_event identities_steps
      | (assumption) | (simp; fail))+
  done

lemma identities_end_class: "keeps (identities_J C) (end_class ctx pr i)"
proof -
  have complete: "keeps (identities_J C) (bind_tx (participants_for_class tenant j) (\<lambda>ps.
      bind_tx now_utc (\<lambda>now. for_each (complete_participant now) ps)))" for tenant j
    unfolding keeps_def
  proof (intro allI impI)
    fix s assume J: "identities_J C s"
    let ?ps = "sort_key (\<lambda>r. (lp_created_at r, lp_id r)) (filter (\<lambda>r. rls_tenant s = Some (lp_tenant r) \<and>
      lp_tenant r = tenant \<and> lp_class r = j) (live_class_participants (working s)))"
    have run: "bind_tx (participants_for_class tenant j) (\<lambda>ps. bind_tx now_utc (\<lambda>now.
        for_each (complete_participant now) ps)) s = for_each (complete_participant (clock (proc s))) ?ps s"
      by (simp add: participants_for_class_def tx_query)
    obtain x t where all: "for_each (complete_participant (clock (proc s))) ?ps s = (x, t)" by force
    have "identities_J C t" by (rule identities_complete [OF all J]) auto
    with run all show "identities_J C (snd (bind_tx (participants_for_class tenant j) (\<lambda>ps.
      bind_tx now_utc (\<lambda>now. for_each (complete_participant now) ps)) s))" by simp
  qed
  have assoc: "bind_tx (participants_for_class tenant j) (\<lambda>ps. bind_tx now_utc (\<lambda>now.
      bind_tx (for_each (complete_participant now) ps) f)) =
    bind_tx (bind_tx (participants_for_class tenant j) (\<lambda>ps. bind_tx now_utc (\<lambda>now.
      for_each (complete_participant now) ps))) f" for tenant j f
    by (simp add: bind_tx_assoc)
  show ?thesis
    unfolding end_class_def assoc record_class_event_def
    by (intro keeps_bind keeps_if keeps_require keeps_live_queries keeps_return keeps_abort complete
        identities_classes identities_tx keeps_publish_event keeps_now keeps_table_ok identities_frames)
qed

text \<open>A new class has no participants, so its first one clashes with nobody.\<close>

lemma keeps_bind_via:
  assumes "\<And>s r t. J s \<Longrightarrow> m s = (r, t) \<Longrightarrow> (case r of Inl e \<Rightarrow> J t | Inr x \<Rightarrow> K x t)"
    and "\<And>x s. K x s \<Longrightarrow> J (snd (f x s))"
  shows "keeps J (bind_tx m f)"
  unfolding keeps_def
proof (intro allI impI)
  fix s assume J: "J s"
  obtain r t where m: "m s = (r, t)" by force
  with assms(1) [OF J m] assms(2) show "J (snd (bind_tx m f s))"
    by (cases r) (auto simp: bind_tx_run)
qed

definition fresh_class :: "live_class \<Rightarrow> db session \<Rightarrow> bool" where
  "fresh_class c s \<longleftrightarrow> both identities_ok s \<and> lc_id c \<in> lc_id ` set (live_classes (working s)) \<and>
     lc_id c \<notin> lp_class ` set (live_class_participants (working s))"

lemma fresh_class_insert:
  assumes "both identities_ok s" "insert_row live_classes_table c s = (r, t)"
  shows "case r of Inl e \<Rightarrow> both identities_ok t | Inr x \<Rightarrow> fresh_class x t"
proof (cases r)
  case (Inl e)
  with assms show ?thesis by (auto simp: insert_row_def split: if_splits)
next
  case (Inr x)
  with assms show ?thesis
    by (auto simp: insert_row_Inr_iff fresh_class_def both_def identities_ok_def)
qed

lemma fresh_class_participant:
  assumes "fresh_class c s" "lp_class r = lc_id c"
  shows "both identities_ok (snd (insert_row live_class_participants_table r s))"
proof -
  obtain x t where run: "insert_row live_class_participants_table r s = (x, t)" by force
  then show ?thesis
  proof (cases rule: insert_row_cases)
    case failed
    with run assms(1) show ?thesis by (simp add: fresh_class_def)
  next
    case stored
    note ins = stored [unfolded insert_row_Inr_iff, simplified]
    from assms(1) have out: "lc_id c \<notin> lp_class ` set (live_class_participants (working s))"
      by (simp add: fresh_class_def)
    have "lp_class q \<noteq> lp_class r" if "q \<in> set (live_class_participants (working s))" for q
      using out imageI [OF that, of lp_class] assms(2) by auto
    then have "\<not> identity_clash q r" if "q \<in> set (live_class_participants (working s))" for q
      using that by (auto simp: identity_clash_def)
    note no_clash = this
    from assms(1) have ok: "identities_ok (working s) (proc s)" "identities_ok (committed s) (proc s)"
      "lp_class r \<in> lc_id ` set (live_classes (working s))"
      by (simp_all add: fresh_class_def both_def assms(2))
    have "identities_ok (working t) (proc t)"
      by (rule identities_append [OF ok(1) _ _ ok(3)]) (use ins no_clash in simp_all)
    moreover have "identities_ok (committed t) (proc t)" "proc t = proc s"
      using ins ok(2) by simp_all
    ultimately show ?thesis using run by (simp add: both_def)
  qed
qed

lemma identities_session:
  "tx_ok (both identities_ok)" "keeps (both identities_ok) rollback_tx"
  "table_ok (both identities_ok) live_class_events_table"
  using tx_ok_both [OF proc_stable_identities]
  by (simp_all add: tx_ok_def table_ok_both framed_def identities_ok_def)

lemma identities_first_participant:
  assumes "\<And>x. keeps (both identities_ok) (h x)" "\<And>x now k. lp_class (r x now k) = lc_id x"
  shows "keeps (both identities_ok) (bind_tx (insert_row live_classes_table c) (\<lambda>x.
    bind_tx now_utc (\<lambda>now. bind_tx uuid4 (\<lambda>k.
    bind_tx (insert_row live_class_participants_table (r x now k)) (\<lambda>_. h x)))))"
proof (rule keeps_bind_via [where K = fresh_class])
  fix x s assume fresh: "fresh_class x s"
  let ?s = "s\<lparr>proc := (proc s)\<lparr>uuid_supply := Suc (uuid_supply (proc s))\<rparr>\<rparr>"
  let ?r = "r x (clock (proc s)) (uuid_supply (proc s))"
  from fresh have fresh': "fresh_class x ?s" by (auto simp: fresh_class_def both_def identities_ok_def)
  obtain y t where ins: "insert_row live_class_participants_table ?r ?s = (y, t)" by force
  with fresh_class_participant [OF fresh' assms(2), of "clock (proc s)" "uuid_supply (proc s)"]
  have "both identities_ok t" by simp
  with assms(1) [of x] ins show "both identities_ok (snd (bind_tx now_utc (\<lambda>now. bind_tx uuid4 (\<lambda>k.
      bind_tx (insert_row live_class_participants_table (r x now k)) (\<lambda>_. h x))) s))"
    by (cases y) (auto simp: bind_tx_run now_utc_run uuid4_run keeps_def)
qed (rule fresh_class_insert)

lemma identities_schedule: "keeps (both identities_ok) (schedule_class ctx pr p)"
  unfolding schedule_class_def record_class_event_def
  by (intro keeps_bind keeps_on_conflict keeps_require keeps_live_queries keeps_live_steps
      identities_first_participant keeps_return keeps_publish_event keeps_now keeps_tx_ok keeps_table_ok
      identities_session) simp_all

lemma identities_serve:
  assumes "\<And>C. keeps (identities_J C) m"
  shows "keeps (both identities_ok) m"
  unfolding keeps_def
proof (intro allI impI)
  fix s :: "db session" assume "both identities_ok s"
  then have "identities_J (lc_id ` set (live_classes (working s))) s" by (simp add: identities_J_def)
  with assms have "identities_J (lc_id ` set (live_classes (working s))) (snd (m s))"
    unfolding keeps_def by blast
  then show "both identities_ok (snd (m s))" by (simp add: identities_J_def)
qed

lemmas identities_kept = identities_schedule identities_serve [OF identities_end_class]
  identities_operations [THEN ensures_keeps, THEN identities_serve]

lemma identities_handle: "keeps (both identities_ok) (live_handle c)"
  unfolding live_handle_def
  by (rule keeps_handle_call, intro keeps_intros, cases "cl_request c")
    (auto intro!: keeps_discard keeps_validated keeps_live_reads identities_kept)

interpretation live_identities: service live_handle identities_ok
proof
  show "identities_ok d p \<Longrightarrow> serve (live_handle c) d p = (r, d', p') \<Longrightarrow> identities_ok d' p'"
    for d p c r d' p'
    by (rule serve_both [OF identities_handle])
  show "identities_ok d p \<Longrightarrow> clock p \<le> t \<Longrightarrow> identities_ok d (p\<lparr>clock := t\<rparr>)" for d p t
    by (simp add: identities_ok_def)
qed

end
