(* ===== verification/Live_Access.thy ===== *)
theory Live_Access
  imports Live_Inv
begin

text \<open>
  Who enters a live class: the admission rule as a predicate on the database, and the decision of
  \<open>validate_access\<close> against it; the participants after an admission; the code of a class; how a
  class ends.
\<close>

section \<open>The admission rule\<close>

definition enrolled :: "db \<Rightarrow> uuid \<Rightarrow> uuid \<Rightarrow> uuid \<Rightarrow> bool" where
  "enrolled d t b j \<longleftrightarrow>
     (\<exists>x\<in>set (students d). st_tenant x = t \<and> st_id x = j \<and> st_deleted_at x = None) \<and>
     (\<exists>m\<in>set (batch_students d). bs_tenant m = t \<and> bs_batch m = b \<and> bs_student m = j \<and> bs_status m = BS_ACTIVE)"

definition teaches :: "db \<Rightarrow> uuid \<Rightarrow> uuid \<Rightarrow> uuid option \<Rightarrow> uuid \<Rightarrow> bool" where
  "teaches d t e course_id b \<longleftrightarrow>
     (\<exists>r\<in>set (course_teachers d). ct_tenant r = t \<and> ct_teacher r = e \<and> Some (ct_course r) = course_id \<and>
        ct_status r = CA_ACTIVE) \<or>
     (\<exists>r\<in>set (teacher_assignments d). ta_tenant r = t \<and> ta_teacher r = e \<and> ta_status r = TA_ACTIVE \<and>
        (ta_batch r = Some b \<or> (course_id \<noteq> None \<and> ta_course r = course_id)))"

definition staff_of :: "db \<Rightarrow> uuid \<Rightarrow> live_class \<Rightarrow> uuid \<Rightarrow> bool" where
  "staff_of d t c e \<longleftrightarrow>
     (\<exists>x\<in>set (employees d). em_tenant x = t \<and> em_id x = e \<and> em_status x = EM_ACTIVE \<and> em_deleted_at x = None \<and>
        (e = lc_instructor c \<or> em_employee_type x = ET_ADMIN \<or> em_employee_type x = ET_MANAGER \<or>
         teaches d t e (lc_course c) (lc_batch c)))"

definition inside :: "db \<Rightarrow> uuid \<Rightarrow> uuid \<Rightarrow> nat" where
  "inside d t i = count_if (\<lambda>q. lp_tenant q = t \<and> lp_class q = i \<and> lp_left_at q = None) (live_class_participants d)"

definition known_identity :: "db \<Rightarrow> uuid \<Rightarrow> uuid \<Rightarrow> principal \<Rightarrow> live_access_request \<Rightarrow> bool" where
  "known_identity d t i pr p \<longleftrightarrow> (\<exists>q\<in>set (live_class_participants d). lp_tenant q = t \<and> lp_class q = i \<and>
     same_identity (validation_user_id pr p) (lap_student p) (lap_employee p) q)"

definition may_enter :: "db \<Rightarrow> uuid \<Rightarrow> principal \<Rightarrow> live_class \<Rightarrow> live_access_request \<Rightarrow> int \<Rightarrow> bool" where
  "may_enter d t pr c p now \<longleftrightarrow> joinable (lc_status c) \<and>
     lc_starts_at c - lc_join_before_minutes c * usec_per_minute \<le> now \<and>
     now \<le> lc_ends_at c + lc_join_after_minutes c * usec_per_minute \<and>
     (known_identity d t (lc_id c) pr p \<or> int (inside d t (lc_id c)) < lc_capacity c) \<and>
     (case lap_student p of Some j \<Rightarrow> enrolled d t (lc_batch c) j
      | None \<Rightarrow> (case lap_employee p of Some e \<Rightarrow> staff_of d t c e
        | None \<Rightarrow> lap_role p = Some ROLE_ADMIN \<and> has_live_admin pr))"

section \<open>The queries decide the rule\<close>

context tenant_owned
begin

lemma lookup_current:
  assumes "rls_tenant s = Some t"
  shows "lookup T (\<lambda>r. tenant_of r = t \<and> p r) s = None \<longleftrightarrow> \<not> (\<exists>r\<in>set (rows T s). tenant_of r = t \<and> p r)"
  unfolding lookup_None_iff visible_iff using assms by auto

end

lemmas lookups_current = course_teachers_tbl.lookup_current teacher_assignments_tbl.lookup_current
  students_tbl.lookup_current batch_students_tbl.lookup_current employees_tbl.lookup_current
  live_class_participants_tbl.lookup_current

lemma rows_of_tables:
  "rows course_teachers_table s = course_teachers (working s)"
  "rows teacher_assignments_table s = teacher_assignments (working s)"
  "rows students_table s = students (working s)" "rows batch_students_table s = batch_students (working s)"
  "rows employees_table s = employees (working s)"
  "rows live_class_participants_table s = live_class_participants (working s)"
  by (simp_all add: rows_def table_defs)

lemma teacher_has_assignment_run:
  assumes "rls_tenant s = Some t"
  shows "teacher_has_assignment t e course_id b s = (Inr (teaches (working s) t e course_id b), s)"
  unfolding teacher_has_assignment_def teaches_def
  by (cases course_id) (simp add: tx_exec lookups_current [OF assms] rows_of_tables del: not_None_eq; blast)+

lemma live_student_in_batch_run:
  assumes "rls_tenant s = Some t"
  shows "live_student_in_batch t b j s = (Inr (enrolled (working s) t b j), s)"
  unfolding live_student_in_batch_def enrolled_def
  by (simp add: tx_exec lookups_current [OF assms] rows_of_tables del: not_None_eq) blast

lemma employee_denial_run:
  assumes "rls_tenant s = Some t" "unique_rows employees_table (employees (working s))"
  shows "\<exists>r. employee_denial_reason t c e s = (Inr r, s) \<and> (r = None \<longleftrightarrow> staff_of (working s) t c e)"
proof (cases "lookup employees_table (\<lambda>r. em_tenant r = t \<and> Some (em_id r) = Some e \<and>
    em_status r = EM_ACTIVE \<and> em_deleted_at r = None) s")
  case None
  then show ?thesis
    using lookups_current(5) [OF assms(1), THEN iffD1, OF None]
    by (auto simp: employee_denial_reason_def live_get_employee_def tx_exec staff_of_def rows_of_tables)
next
  case (Some x)
  from lookup_SomeD [OF this] have x: "x \<in> set (employees (working s))" "em_tenant x = t" "em_id x = e"
    "em_status x = EM_ACTIVE" "em_deleted_at x = None" by (auto simp: rows_of_tables)
  have "y = x" if "y \<in> set (employees (working s))" "em_id y = e" for y
    by (rule unique_rows_key [OF assms(2)]) (use that x in \<open>auto simp: table_defs\<close>)
  then have "staff_of (working s) t c e \<longleftrightarrow> e = lc_instructor c \<or> em_employee_type x = ET_ADMIN \<or>
      em_employee_type x = ET_MANAGER \<or> teaches (working s) t e (lc_course c) (lc_batch c)"
    unfolding staff_of_def using x by blast
  then show ?thesis
    using Some x(3) teacher_has_assignment_run [OF assms(1)]
    by (auto simp: employee_denial_reason_def live_get_employee_def tx_exec)
qed

lemma count_if_of_filter: "count_if p (filter q xs) = count_if (\<lambda>x. q x \<and> p x) xs"
  by (induction xs) auto

lemma count_if_sort_key: "count_if p (sort_key k xs) = count_if p xs"
  unfolding count_if_filter filter_sort by simp

lemma active_count_run:
  assumes "rls_tenant s = Some t"
  shows "active_count t i s = (Inr (inside (working s) t i), s)"
proof -
  have "count_if (\<lambda>q. lp_left_at q = None) (filter (\<lambda>q. visible live_class_participants_table s q \<and>
      lp_tenant q = t \<and> lp_class q = i) (live_class_participants (working s))) = inside (working s) t i"
    unfolding inside_def count_if_of_filter live_class_participants_tbl.visible_iff assms
    by (rule count_if_cong) auto
  then show ?thesis
    by (simp add: active_count_def participants_for_class_def tx_exec rows_of_tables count_if_sort_key)
qed

lemma find_identity_None:
  assumes "rls_tenant s = Some t"
  shows "\<exists>f. find_identity t i (validation_user_id pr p) (lap_student p) (lap_employee p) s = (Inr f, s) \<and>
    (f = None \<longleftrightarrow> \<not> known_identity (working s) t i pr p)"
  using lookups_current(6) [OF assms] unfolding find_identity_run known_identity_def
  by (auto simp: same_identity_def rows_of_tables split: if_splits)

lemma access_denial_run:
  assumes "rls_tenant s = Some t" "unique_rows employees_table (employees (working s))"
  shows "\<exists>r. access_denial_reason t pr c p now (fst (join_window c)) (snd (join_window c)) s = (Inr r, s) \<and>
    (r = None \<longleftrightarrow> may_enter (working s) t pr c p now)"
proof -
  obtain f where f: "find_identity t (lc_id c) (validation_user_id pr p) (lap_student p) (lap_employee p) s = (Inr f, s)"
    "f = None \<longleftrightarrow> \<not> known_identity (working s) t (lc_id c) pr p"
    using find_identity_None [OF assms(1)] by blast
  note runs = f(1) active_count_run [OF assms(1)] live_student_in_batch_run [OF assms(1)]
  show ?thesis
  proof (cases "joinable (lc_status c) \<and> fst (join_window c) \<le> now \<and> now \<le> snd (join_window c) \<and>
      (known_identity (working s) t (lc_id c) pr p \<or> int (inside (working s) t (lc_id c)) < lc_capacity c)")
    case False
    then show ?thesis
      using f(2) by (auto simp: access_denial_reason_def may_enter_def join_window_def tx_exec runs)
  next
    case True
    then have go: "access_denial_reason t pr c p now (fst (join_window c)) (snd (join_window c)) s =
      (case lap_student p of
            Some j \<Rightarrow> bind_tx (live_student_in_batch t (lc_batch c) j) (\<lambda>ok.
              return_tx (if ok then None else Some ''student_not_in_batch''))
          | None \<Rightarrow> (case lap_employee p of
              Some e \<Rightarrow> employee_denial_reason t c e
            | None \<Rightarrow> return_tx (if lap_role p = Some ROLE_ADMIN \<and> has_live_admin pr then None
                else Some ''participant_not_allowed''))) s"
      using f(2) by (auto simp: access_denial_reason_def tx_exec runs)
    from True have rest: "may_enter (working s) t pr c p now \<longleftrightarrow> (case lap_student p of Some j \<Rightarrow> enrolled (working s) t (lc_batch c) j
      | None \<Rightarrow> (case lap_employee p of Some e \<Rightarrow> staff_of (working s) t c e
        | None \<Rightarrow> lap_role p = Some ROLE_ADMIN \<and> has_live_admin pr))"
      by (simp add: may_enter_def join_window_def)
    show ?thesis
      unfolding go rest using employee_denial_run [OF assms]
      by (cases "lap_student p"; cases "lap_employee p") (auto simp: tx_exec runs)
  qed
qed

section \<open>The effect of an admission\<close>

lemma record_event_participants:
  "record_class_event t i ty pl pa oc s = (Inr e, s') \<Longrightarrow>
   live_class_participants (working s') = live_class_participants (working s)"
  by (auto simp: record_class_event_def tx_inv table_defs)

lemma upsert_effect:
  assumes "upsert_allowed_participant t c u j e r (Some now) s = (Inr q, s')" "rls_tenant s = Some t"
  shows "q \<in> set (live_class_participants (working s')) \<and> lp_tenant q = t \<and> lp_class q = lc_id c \<and>
    lp_join_status q = J_ALLOWED \<and> lp_joined_at q = Some now \<and> lp_left_at q = None"
    "find_identity t (lc_id c) u j e s = (Inr None, s) \<Longrightarrow>
     inside (working s') t (lc_id c) = Suc (inside (working s) t (lc_id c))"
proof -
  obtain f where f: "find_identity t (lc_id c) u j e s = (Inr f, s)" by (simp add: find_identity_run)
  have q: "q \<in> set (live_class_participants (working s'))" using upsert_stored [OF assms(1)] .
  show "q \<in> set (live_class_participants (working s')) \<and> lp_tenant q = t \<and> lp_class q = lc_id c \<and>
    lp_join_status q = J_ALLOWED \<and> lp_joined_at q = Some now \<and> lp_left_at q = None"
  proof (cases f)
    case None
    with q f assms show ?thesis
      by (auto simp: upsert_allowed_participant_def tx_inv)
  next
    case (Some x)
    with f have "lp_tenant x = t" "lp_class x = lc_id c"
      by (auto simp: find_identity_run split: if_splits dest: lookup_SomeD)
    with Some q f assms show ?thesis
      by (auto simp: upsert_allowed_participant_def tx_inv)
  qed
  assume "find_identity t (lc_id c) u j e s = (Inr None, s)"
  with assms show "inside (working s') t (lc_id c) = Suc (inside (working s) t (lc_id c))"
    by (auto simp: upsert_allowed_participant_def tx_inv inside_def table_defs)
qed

text \<open>A decision in full: the rest of the operation once the class and the time are known.\<close>

definition decide_access :: "uuid \<Rightarrow> principal \<Rightarrow> live_class \<Rightarrow> live_access_request \<Rightarrow> int \<Rightarrow> (db, live_access) op" where
  "decide_access t pr c p now = (case join_window c of (js, je) \<Rightarrow>
     bind_tx (access_denial_reason t pr c p now js je) (\<lambda>denied. case denied of
       Some reason \<Rightarrow> return_tx \<lparr>lac_allowed = False, lac_reason = Some reason, lac_class = c,
         lac_participant = None, lac_window_starts_at = js, lac_window_ends_at = je\<rparr>
     | None \<Rightarrow>
         bind_tx (upsert_allowed_participant t c (validation_user_id pr p) (lap_student p)
           (lap_employee p) (case lap_role p of None \<Rightarrow> infer_role c p | Some r \<Rightarrow> r) (Some now)) (\<lambda>joined.
         bind_tx (record_class_event t (lc_id c) participant_joined
           (JObj [(''participant_id'', JStr (uuid_str (lp_id joined)))]) (Some (lp_id joined)) (Some now)) (\<lambda>_.
         bind_tx commit_tx (\<lambda>_.
         return_tx \<lparr>lac_allowed = True, lac_reason = None, lac_class = c,
           lac_participant = Some joined, lac_window_starts_at = js, lac_window_ends_at = je\<rparr>)))))"

lemma validate_access_decides:
  "validate_access ctx pr code p = bind_tx (require_tenant_id ctx) (\<lambda>t.
     bind_tx (class_by_code_or_raise t code) (\<lambda>c. bind_tx now_utc (\<lambda>n.
     decide_access t pr c p (case lap_now p of None \<Rightarrow> n | Some x \<Rightarrow> instant x))))"
  by (simp add: validate_access_def decide_access_def Let_def case_prod_beta)

lemma class_by_code_Inr:
  "class_by_code_or_raise t code s = (Inr c, s') \<Longrightarrow>
   s' = s \<and> c \<in> set (live_classes (working s)) \<and> lc_tenant c = t \<and> lc_class_code c = code"
  by (auto simp: class_by_code_or_raise_def live_get_by_code_def tx_exec rows_def table_defs
      split: option.splits if_splits dest!: lookup_SomeD)

lemma validate_access_cases:
  assumes "validate_access ctx pr code p s = (Inr a, s')" "ctx_tenant ctx = Some t" "rls_tenant s = Some t"
    and "unique_rows employees_table (employees (working s))"
    and "now = (case lap_now p of None \<Rightarrow> clock (proc s) | Some x \<Rightarrow> instant x)"
  obtains c where "c \<in> set (live_classes (working s))" "lc_tenant c = t" "lc_class_code c = code" "lac_class a = c"
    "lac_allowed a \<longleftrightarrow> may_enter (working s) t pr c p now"
    "\<not> lac_allowed a \<Longrightarrow> s' = s \<and> lac_reason a \<noteq> None \<and> lac_participant a = None"
    "lac_allowed a \<Longrightarrow> lac_reason a = None \<and> committed s' = working s' \<and> (\<exists>q r s1.
       upsert_allowed_participant t c (validation_user_id pr p) (lap_student p) (lap_employee p) r (Some now) s = (Inr q, s1) \<and>
       live_class_participants (working s') = live_class_participants (working s1) \<and> lac_participant a = Some q)"
proof -
  from assms(1,2) obtain c where c: "class_by_code_or_raise t code s = (Inr c, s)"
    and run: "decide_access t pr c p now s = (Inr a, s')"
    unfolding validate_access_decides assms(5) by (auto simp: bind_tx_Inr_iff now_utc_run dest: class_by_code_Inr)
  note cs = class_by_code_Inr [OF c]
  obtain r where r: "access_denial_reason t pr c p now (fst (join_window c)) (snd (join_window c)) s = (Inr r, s)"
    "r = None \<longleftrightarrow> may_enter (working s) t pr c p now" using access_denial_run [OF assms(3,4)] by blast
  show ?thesis
  proof (rule that [of c])
    show "lac_class a = c" "lac_allowed a \<longleftrightarrow> may_enter (working s) t pr c p now"
      using run r by (auto simp: decide_access_def case_prod_beta bind_tx_run tx_simps split: option.splits prod.splits sum.splits)
    show "\<not> lac_allowed a \<Longrightarrow> s' = s \<and> lac_reason a \<noteq> None \<and> lac_participant a = None"
      using run r by (auto simp: decide_access_def case_prod_beta bind_tx_run tx_simps split: option.splits prod.splits sum.splits)
    show "lac_reason a = None \<and> committed s' = working s' \<and> (\<exists>q r s1.
       upsert_allowed_participant t c (validation_user_id pr p) (lap_student p) (lap_employee p) r (Some now) s = (Inr q, s1) \<and>
       live_class_participants (working s') = live_class_participants (working s1) \<and> lac_participant a = Some q)"
      if "lac_allowed a"
    proof -
      have "r = None" using run r that
        by (auto simp: decide_access_def case_prod_beta bind_tx_run tx_simps split: option.splits prod.splits sum.splits)
      with run r obtain q s1 e s2 where up: "upsert_allowed_participant t c (validation_user_id pr p) (lap_student p)
          (lap_employee p) (case lap_role p of None \<Rightarrow> infer_role c p | Some r \<Rightarrow> r) (Some now) s = (Inr q, s1)"
        and ev: "record_class_event t (lc_id c) participant_joined
              (JObj [(''participant_id'', JStr (uuid_str (lp_id q)))]) (Some (lp_id q)) (Some now) s1 = (Inr e, s2)"
        and fin: "s' = s2\<lparr>committed := working s2, rls_tenant := None, rls_user := None\<rparr>"
          "lac_reason a = None" "lac_participant a = Some q"
        by (auto simp: decide_access_def case_prod_beta bind_tx_Inr_iff basic_Inr_iff)
      with record_event_participants [OF ev] show ?thesis by auto
    qed
  qed (use cs in simp_all)
qed

section \<open>The code of a class\<close>

definition drawn_codes :: "string \<Rightarrow> process \<Rightarrow> nat \<Rightarrow> string list" where
  "drawn_codes stem p n =
     map (\<lambda>k. stem @ ''-'' @ code_suffix (secret_source p k)) [secrets_drawn p ..< secrets_drawn p + n]"

definition code_taken :: "db session \<Rightarrow> string \<Rightarrow> bool" where
  "code_taken s code \<longleftrightarrow>
     list_ex (\<lambda>c. visible live_classes_table s c \<and> lc_class_code c = code) (live_classes (working s))"

lemma drawn_codes_Suc:
  "drawn_codes stem p (Suc n) = (stem @ ''-'' @ code_suffix (secret_source p (secrets_drawn p))) #
     drawn_codes stem (p\<lparr>secrets_drawn := Suc (secrets_drawn p)\<rparr>) n"
proof -
  have "[secrets_drawn p ..< secrets_drawn p + Suc n] =
      secrets_drawn p # [Suc (secrets_drawn p) ..< Suc (secrets_drawn p) + n]"
    by (simp add: upt_rec)
  then show ?thesis by (simp add: drawn_codes_def)
qed

lemma try_class_codes_run:
  "fst (try_class_codes n stem s) = (case find (\<lambda>code. \<not> code_taken s code) (drawn_codes stem (proc s) n) of
      None \<Rightarrow> Inl (Prep_Suite_Error ''live_class_code_generation_failed'' 500) | Some code \<Rightarrow> Inr code) \<and>
   committed (snd (try_class_codes n stem s)) = committed s \<and> working (snd (try_class_codes n stem s)) = working s \<and>
   secrets_drawn (proc (snd (try_class_codes n stem s))) \<le> secrets_drawn (proc s) + n"
proof (induction n arbitrary: s)
  case 0
  show ?case by (simp add: drawn_codes_def abort_run)
next
  case (Suc n)
  let ?code = "stem @ ''-'' @ code_suffix (secret_source (proc s) (secrets_drawn (proc s)))"
  let ?s = "s\<lparr>proc := (proc s)\<lparr>secrets_drawn := Suc (secrets_drawn (proc s))\<rparr>\<rparr>"
  have same: "code_taken ?s = code_taken s" by (simp add: code_taken_def fun_eq_iff)
  have "lookup live_classes_table (\<lambda>r. lc_class_code r = ?code) s = None \<longleftrightarrow> \<not> code_taken s ?code"
    unfolding lookup_None_iff code_taken_def list_ex_iff by (auto simp: rows_def table_defs)
  then have step: "try_class_codes (Suc n) stem s =
      (if code_taken s ?code then try_class_codes n stem ?s else (Inr ?code, ?s))"
    by (simp add: tx_exec live_get_by_code_def Let_def)
  show ?case
    unfolding step drawn_codes_Suc using Suc.IH [of ?s] by (simp add: same)
qed

section \<open>A scheduled class is found by its code\<close>

text \<open>The part of \<open>schedule_class\<close> after its checks.\<close>

definition store_class :: "uuid \<Rightarrow> principal \<Rightarrow> live_class_create \<Rightarrow> string \<Rightarrow> (db, live_class) op" where
  "store_class t pr p code =
     bind_tx uuid4 (\<lambda>i.
     bind_tx (insert_row live_classes_table
       \<lparr>lc_id = i, lc_tenant = t, lc_class_code = code, lc_title = lcr_title p,
        lc_description = lcr_description p, lc_course = lcr_course p, lc_batch = lcr_batch p,
        lc_instructor = lcr_instructor p, lc_starts_at = instant (lcr_starts_at p),
        lc_ends_at = instant (lcr_ends_at p), lc_duration_minutes = lcr_duration_minutes p,
        lc_join_before_minutes = lcr_join_before_minutes p,
        lc_join_after_minutes = lcr_join_after_minutes p, lc_capacity = lcr_capacity p,
        lc_status = LC_SCHEDULED, lc_live_room_id = None, lc_link = live_link code,
        lc_settings = lcr_settings p, lc_created_by = Some (pr_user pr)\<rparr>) (\<lambda>c.
     bind_tx now_utc (\<lambda>now.
     bind_tx uuid4 (\<lambda>k.
     bind_tx (insert_row live_class_participants_table
       \<lparr>lp_id = k, lp_tenant = t, lp_class = lc_id c, lp_user = Some (pr_user pr),
        lp_student = None, lp_employee = Some (lcr_instructor p), lp_role = ROLE_INSTRUCTOR,
        lp_join_status = J_ALLOWED, lp_joined_at = None, lp_left_at = None,
        lp_total_duration_seconds = 0, lp_created_at = now\<rparr>) (\<lambda>_.
     bind_tx (record_class_event t (lc_id c) class_scheduled
       (JObj [(''created_by'', JStr (uuid_str (pr_user pr)))]) None None) (\<lambda>_.
     bind_tx commit_tx (\<lambda>_.
     return_tx c)))))))"

lemma schedule_class_stores:
  assumes "schedule_class ctx pr p s = (Inr c, s')" "ctx_tenant ctx = Some t"
  obtains code s1 u where "store_class t pr p code s1 = (Inr c, u)" "committed s' = committed u"
  using assms that unfolding schedule_class_def store_class_def [symmetric]
  by (elim bind_tx_InrE) force

lemma store_class_inserts:
  assumes "store_class t pr p code s = (Inr c, u)"
  obtains s1 s2 s3 s4 q where "insert_row live_classes_table c s1 = (Inr c, s2)"
    "insert_row live_class_participants_table q s3 = (Inr q, s4)"
    "live_classes (committed u) = live_classes (working s2)"
    "live_class_participants (committed u) = live_class_participants (working s4)"
    "lp_tenant q = t" "lp_class q = lc_id c" "lp_employee q = Some (lcr_instructor p)" "lp_role q = ROLE_INSTRUCTOR"
    "lc_tenant c = t" "lc_class_code c = code" "lc_title c = lcr_title p" "lc_status c = LC_SCHEDULED"
    "lc_starts_at c = instant (lcr_starts_at p)" "lc_ends_at c = instant (lcr_ends_at p)"
    "lc_capacity c = lcr_capacity p"
proof -
  from assms obtain i s1 s2 now s3 k s4 q s5 e s6 where run:
    "insert_row live_classes_table
       \<lparr>lc_id = i, lc_tenant = t, lc_class_code = code, lc_title = lcr_title p,
        lc_description = lcr_description p, lc_course = lcr_course p, lc_batch = lcr_batch p,
        lc_instructor = lcr_instructor p, lc_starts_at = instant (lcr_starts_at p),
        lc_ends_at = instant (lcr_ends_at p), lc_duration_minutes = lcr_duration_minutes p,
        lc_join_before_minutes = lcr_join_before_minutes p,
        lc_join_after_minutes = lcr_join_after_minutes p, lc_capacity = lcr_capacity p,
        lc_status = LC_SCHEDULED, lc_live_room_id = None, lc_link = live_link code,
        lc_settings = lcr_settings p, lc_created_by = Some (pr_user pr)\<rparr> s1 = (Inr c, s2)"
    "uuid4 s2 = (Inr k, s4)"
    "insert_row live_class_participants_table
       \<lparr>lp_id = k, lp_tenant = t, lp_class = lc_id c, lp_user = Some (pr_user pr),
        lp_student = None, lp_employee = Some (lcr_instructor p), lp_role = ROLE_INSTRUCTOR,
        lp_join_status = J_ALLOWED, lp_joined_at = None, lp_left_at = None,
        lp_total_duration_seconds = 0, lp_created_at = now\<rparr> s4 = (Inr q, s5)"
    "record_class_event t (lc_id c) class_scheduled
       (JObj [(''created_by'', JStr (uuid_str (pr_user pr)))]) None None s5 = (Inr e, s6)"
    "committed u = working s6"
    unfolding store_class_def by (elim bind_tx_InrE) (simp only: basic_Inr_iff return_tx_Inr_iff, fastforce)
  note rows = insert_row_value [OF run(1)] insert_row_value [OF run(3)]
  from run(3) have "live_classes (working s5) = live_classes (working s2)"
    using run(2) by (auto simp: tx_inv table_defs)
  moreover from run(4) have "live_classes (working s6) = live_classes (working s5)"
    "live_class_participants (working s6) = live_class_participants (working s5)"
    by (auto simp: record_class_event_def tx_inv table_defs)
  ultimately show ?thesis
    by (intro that [of s1 s2 q s4 s5]) (use run rows in simp_all)
qed

lemma schedule_stored:
  assumes "schedule_class ctx pr p s = (Inr c, s')" "ctx_tenant ctx = Some t"
  shows "c \<in> set (live_classes (committed s'))" "lc_tenant c = t"
    "\<And>d. d \<in> set (live_classes (committed s')) \<Longrightarrow> lc_id d = lc_id c \<or> lc_class_code d = lc_class_code c \<Longrightarrow> d = c"
    "lc_title c = lcr_title p" "lc_capacity c = lcr_capacity p"
    "lc_starts_at c = instant (lcr_starts_at p)" "lc_ends_at c = instant (lcr_ends_at p)"
    "lc_status c = LC_SCHEDULED"
    "\<exists>q\<in>set (live_class_participants (committed s')). lp_tenant q = t \<and> lp_class q = lc_id c \<and>
       lp_employee q = Some (lcr_instructor p) \<and> lp_role q = ROLE_INSTRUCTOR"
proof -
  obtain code s0 u where st: "store_class t pr p code s0 = (Inr c, u)" "committed s' = committed u"
    by (rule schedule_class_stores [OF assms])
  obtain s1 s2 s3 s4 q where ins: "insert_row live_classes_table c s1 = (Inr c, s2)"
      "insert_row live_class_participants_table q s3 = (Inr q, s4)"
      "live_classes (committed u) = live_classes (working s2)"
      "live_class_participants (committed u) = live_class_participants (working s4)"
      "lp_tenant q = t" "lp_class q = lc_id c" "lp_employee q = Some (lcr_instructor p)" "lp_role q = ROLE_INSTRUCTOR"
    and c: "lc_tenant c = t" "lc_class_code c = code" "lc_title c = lcr_title p" "lc_status c = LC_SCHEDULED"
      "lc_starts_at c = instant (lcr_starts_at p)" "lc_ends_at c = instant (lcr_ends_at p)"
      "lc_capacity c = lcr_capacity p" by (rule store_class_inserts [OF st(1)])
  have cs: "live_classes (committed s') = live_classes (working s1) @ [c]"
    using live_classes_tbl.rows_insert [OF ins(1)] ins(3) st(2) by (simp add: rows_def table_defs)
  then show "c \<in> set (live_classes (committed s'))" by simp
  show "\<And>d. d \<in> set (live_classes (committed s')) \<Longrightarrow> lc_id d = lc_id c \<or> lc_class_code d = lc_class_code c \<Longrightarrow> d = c"
    using ins(1) unfolding cs by (auto simp: insert_row_Inr_iff rows_def table_defs live_class_clash_def)
  show "\<exists>q\<in>set (live_class_participants (committed s')). lp_tenant q = t \<and> lp_class q = lc_id c \<and>
       lp_employee q = Some (lcr_instructor p) \<and> lp_role q = ROLE_INSTRUCTOR"
    using live_class_participants_tbl.rows_insert [OF ins(2)] ins(4-8) st(2) by (auto simp: rows_def table_defs)
  show "lc_tenant c = t" "lc_title c = lcr_title p" "lc_capacity c = lcr_capacity p"
    "lc_starts_at c = instant (lcr_starts_at p)" "lc_ends_at c = instant (lcr_ends_at p)"
    "lc_status c = LC_SCHEDULED" by (fact c)+
qed

lemma get_by_code_run:
  assumes "c \<in> set (live_classes (working s))" "lc_tenant c = t" "ctx_tenant ctx = Some t" "rls_tenant s = Some t"
    and "\<And>d. d \<in> set (live_classes (working s)) \<Longrightarrow> lc_id d = lc_id c \<or> lc_class_code d = lc_class_code c \<Longrightarrow> d = c"
  shows "\<exists>det. get_by_code ctx (lc_class_code c) s = (Inr det, s) \<and> ld_class det = c \<and>
    set (ld_participants det) = {q \<in> set (live_class_participants (working s)). lp_tenant q = t \<and> lp_class q = lc_id c}"
proof -
  have vis: "visible live_classes_table s c" "c \<in> set (rows live_classes_table s)"
    using assms live_classes_tbl.visible_iff [of s c] by (simp, simp add: rows_def table_defs)
  have code: "lookup live_classes_table (\<lambda>r. lc_class_code r = lc_class_code c) s = Some c"
    by (rule lookup_unique [OF vis(2,1)]) (use assms(5) in \<open>auto simp: rows_def table_defs\<close>)
  have key: "lookup live_classes_table (\<lambda>r. lc_tenant r = t \<and> lc_id r = lc_id c) s = Some c"
    by (rule lookup_unique [OF vis(2,1)]) (use assms(2,5) in \<open>auto simp: rows_def table_defs\<close>)
  show ?thesis
    using assms(2-4) by (auto simp: get_by_code_def class_by_code_or_raise_def live_get_by_code_def
        get_detail_or_raise_def get_class_or_raise_def live_class_get_def tx_exec require_tenant_id_run
        some_or_404_scalar_run code key rows_of_tables
        live_class_participants_tbl.visible_iff)
qed

section \<open>The end of a class\<close>

definition completed :: "int \<Rightarrow> live_class_participant \<Rightarrow> live_class_participant" where
  "completed now p = (case (lp_joined_at p, lp_left_at p) of
     (Some joined, None) \<Rightarrow> p\<lparr>lp_left_at := Some now, lp_join_status := J_COMPLETED,
       lp_total_duration_seconds := lp_total_duration_seconds p + duration_seconds joined now\<rparr>
   | _ \<Rightarrow> p)"

lemma completed_sel [simp]:
  "lp_id (completed now p) = lp_id p" "lp_tenant (completed now p) = lp_tenant p"
  "lp_class (completed now p) = lp_class p" "lp_joined_at (completed now p) = lp_joined_at p"
  "lp_joined_at p \<noteq> None \<Longrightarrow> lp_left_at (completed now p) \<noteq> None"
  by (auto simp: completed_def split: option.splits)

text \<open>The time a participant who is inside will have spent can be stored.\<close>

definition stay_fits :: "int \<Rightarrow> live_class_participant \<Rightarrow> bool" where
  "stay_fits now p \<longleftrightarrow> (\<forall>joined. lp_joined_at p = Some joined \<longrightarrow> lp_left_at p = None \<longrightarrow>
     int32 (lp_total_duration_seconds p + duration_seconds joined now))"

lemma complete_participant_overflow:
  "\<not> stay_fits now p \<Longrightarrow> complete_participant now p s = (Inl (Python_Error ''DBAPIError''), s)"
  by (auto simp: stay_fits_def complete_participant_def flush_participant_def raise_tx_run)

lemma complete_participant_run:
  assumes "stay_fits now p" "p \<in> set (live_class_participants (working s))" "rls_tenant s = Some (lp_tenant p)"
    and "distinct (map lp_id (live_class_participants (working s)))"
  shows "\<exists>y s'. complete_participant now p s = (Inr y, s') \<and> live_class_participants (working s') =
      map (\<lambda>q. if q = p then completed now q else q) (live_class_participants (working s)) \<and>
    live_classes (working s') = live_classes (working s) \<and>
    live_class_events (working s') = live_class_events (working s) \<and>
    rls_tenant s' = rls_tenant s \<and> proc s' = proc s \<and> committed s' = committed s"
proof -
  have same: "q = p" if "q \<in> set (live_class_participants (working s))" "lp_id q = lp_id p" for q
    using that assms(2,4) by (auto simp: distinct_map dest: inj_onD)
  then have upd: "replace_where (\<lambda>q. lp_id q = lp_id p \<and> rls_tenant s = Some (lp_tenant q)) (\<lambda>_. completed now p)
        (live_class_participants (working s)) =
      map (\<lambda>q. if q = p then completed now q else q) (live_class_participants (working s))"
    using assms(3) unfolding replace_where_def by (intro map_cong refl) auto
  show ?thesis
  proof (cases "lp_joined_at p \<noteq> None \<and> lp_left_at p = None")
    case True
    with assms(1) have "complete_participant now p = save_row live_class_participants_table (completed now p)"
      by (auto simp: complete_participant_def flush_participant_def stay_fits_def completed_def)
    moreover have "save_row live_class_participants_table (completed now p) s = (Inr (completed now p),
        s\<lparr>working := live_class_participants_update (\<lambda>_. map (\<lambda>q. if q = p then completed now q else q)
          (live_class_participants (working s))) (working s)\<rparr>)"
      unfolding save_row_Inr_iff using assms(2,3) upd
      by (auto simp: table_defs rows_def visible_def writable_def tenant_policy_def)
    ultimately show ?thesis by simp
  next
    case False
    then have "complete_participant now p = return_tx p" "completed now p = p"
      by (auto simp: complete_participant_def completed_def split: option.splits)
    moreover have "map (\<lambda>q. if q = p then p else q) xs = xs" for xs :: "live_class_participant list"
      by (induction xs) auto
    ultimately show ?thesis by (simp add: tx_exec cong: if_cong)
  qed
qed

text \<open>
  All the participants of a list leave and nobody else changes; one whose time cannot be stored makes
  the whole fail, before anything is committed.
\<close>

lemma complete_participants_run:
  assumes "set ps \<subseteq> set (live_class_participants (working s))" "distinct ps"
    and "\<And>p. p \<in> set ps \<Longrightarrow> rls_tenant s = Some (lp_tenant p)"
    and "distinct (map lp_id (live_class_participants (working s)))"
  shows "if list_all (stay_fits now) ps
    then \<exists>ys s'. for_each (complete_participant now) ps s = (Inr ys, s') \<and> live_class_participants (working s') =
        map (\<lambda>q. if q \<in> set ps then completed now q else q) (live_class_participants (working s)) \<and>
      live_classes (working s') = live_classes (working s) \<and>
      live_class_events (working s') = live_class_events (working s) \<and>
      rls_tenant s' = rls_tenant s \<and> proc s' = proc s \<and> committed s' = committed s
    else \<exists>s'. for_each (complete_participant now) ps s = (Inl (Python_Error ''DBAPIError''), s') \<and>
      committed s' = committed s"
  using assms
proof (induction ps arbitrary: s)
  case Nil
  then show ?case by (simp add: tx_exec)
next
  case (Cons p ps)
  let ?rs = "live_class_participants (working s)"
  have p: "p \<in> set ?rs" "rls_tenant s = Some (lp_tenant p)" using Cons.prems by simp_all
  show ?case
  proof (cases "stay_fits now p")
    case False
    then show ?thesis by (simp add: tx_exec complete_participant_overflow)
  next
    case fits: True
    obtain y s1 where one: "complete_participant now p s = (Inr y, s1)"
      "live_class_participants (working s1) = map (\<lambda>q. if q = p then completed now q else q) ?rs"
      "live_classes (working s1) = live_classes (working s)"
      "live_class_events (working s1) = live_class_events (working s)"
      "rls_tenant s1 = rls_tenant s" "proc s1 = proc s" "committed s1 = committed s"
      using complete_participant_run [OF fits p Cons.prems(4)] by blast
    have fixed: "q \<noteq> completed now p" if "q \<in> set ps" for q
    proof
      assume "q = completed now p"
      then have "lp_id q = lp_id p" by simp
      moreover have "q \<in> set ?rs" "inj_on lp_id (set ?rs)" using that Cons.prems(1,4) by (auto simp: distinct_map)
      ultimately have "q = p" using p(1) by (auto dest: inj_onD)
      with that Cons.prems(2) show False by simp
    qed
    have ids: "map lp_id (live_class_participants (working s1)) = map lp_id ?rs"
      unfolding one(2) by simp
    have sub: "set ps \<subseteq> set (live_class_participants (working s1))"
      using Cons.prems(1,2) unfolding one(2) by force
    have rest: "if list_all (stay_fits now) ps
      then \<exists>ys s'. for_each (complete_participant now) ps s1 = (Inr ys, s') \<and> live_class_participants (working s') =
          map (\<lambda>q. if q \<in> set ps then completed now q else q) (live_class_participants (working s1)) \<and>
        live_classes (working s') = live_classes (working s1) \<and>
        live_class_events (working s') = live_class_events (working s1) \<and>
        rls_tenant s' = rls_tenant s1 \<and> proc s' = proc s1 \<and> committed s' = committed s1
      else \<exists>s'. for_each (complete_participant now) ps s1 = (Inl (Python_Error ''DBAPIError''), s') \<and>
        committed s' = committed s1"
      by (rule Cons.IH [OF sub]) (use Cons.prems(2-4) one(5) ids in auto)
    show ?thesis
    proof (cases "list_all (stay_fits now) ps")
      case True
      with rest obtain ys s2 where two: "for_each (complete_participant now) ps s1 = (Inr ys, s2)"
        "live_class_participants (working s2) =
          map (\<lambda>q. if q \<in> set ps then completed now q else q) (live_class_participants (working s1))"
        "live_classes (working s2) = live_classes (working s1)"
        "live_class_events (working s2) = live_class_events (working s1)"
        "rls_tenant s2 = rls_tenant s1" "proc s2 = proc s1" "committed s2 = committed s1" by auto
      have "live_class_participants (working s2) = map (\<lambda>q. if q \<in> set (p # ps) then completed now q else q) ?rs"
        unfolding two(2) one(2) using fixed Cons.prems(2) by auto
      with one two fits True show ?thesis by (auto simp: tx_exec)
    next
      case False
      with rest obtain s2 where "for_each (complete_participant now) ps s1 = (Inl (Python_Error ''DBAPIError''), s2)"
        "committed s2 = committed s1" by auto
      with one False show ?thesis by (auto simp: tx_exec)
    qed
  qed
qed

lemma record_event_succeeds:
  assumes "rls_tenant s = Some t" "\<And>e. e \<in> set (live_class_events (working s)) \<Longrightarrow> le_id e < uuid_supply (proc s)"
  shows "\<exists>e s'. record_class_event t i ty pl pa oc s = (Inr e, s') \<and>
    live_classes (working s') = live_classes (working s) \<and>
    live_class_participants (working s') = live_class_participants (working s)"
  using assms(1) by (auto simp: record_class_event_def tx_exec insert_row_def list_ex_iff table_defs rows_def
      writable_def tenant_policy_def dest!: assms(2))

text \<open>
  A class that is not over is ended, and then nobody is inside any more, when the time of everybody
  inside can be stored; otherwise nothing happens.
\<close>

lemma end_class_run:
  assumes "c \<in> set (live_classes (working s))" "lc_tenant c = t" "lc_status c \<noteq> LC_CANCELLED" "lc_status c \<noteq> LC_ENDED"
    and "ctx_tenant ctx = Some t" "rls_tenant s = Some t"
    and "unique_rows live_classes_table (live_classes (working s))"
    and "unique_rows live_class_participants_table (live_class_participants (working s))"
    and "\<forall>e\<in>set (live_class_events (working s)). le_id e < uuid_supply (proc s)"
  shows "if \<forall>q\<in>set (live_class_participants (working s)). lp_tenant q = t \<and> lp_class q = lc_id c \<longrightarrow>
      stay_fits (clock (proc s)) q
    then \<exists>s'. end_class ctx pr (lc_id c) s = (Inr (c\<lparr>lc_status := LC_ENDED\<rparr>), s') \<and>
      c\<lparr>lc_status := LC_ENDED\<rparr> \<in> set (live_classes (committed s')) \<and>
      live_class_participants (committed s') = map (\<lambda>q. if lp_tenant q = t \<and> lp_class q = lc_id c
        then completed (clock (proc s)) q else q) (live_class_participants (working s))
    else \<exists>s'. end_class ctx pr (lc_id c) s = (Inl (Python_Error ''DBAPIError''), s') \<and> committed s' = committed s"
proof -
  let ?c = "c\<lparr>lc_status := LC_ENDED\<rparr>"
  have key: "lookup live_classes_table (\<lambda>r. lc_tenant r = t \<and> lc_id r = lc_id c) s = Some c"
    by (rule live_classes_tbl.lookup_key) (use assms(1,2,6,7) live_classes_tbl.visible_iff [of s c] in
        \<open>auto simp: rows_def table_defs\<close>)
  have save: "save_row live_classes_table ?c s = (Inr ?c, s\<lparr>working := live_classes_update
      (replace_where (\<lambda>q. lc_id q = lc_id c \<and> rls_tenant s = Some (lc_tenant q)) (\<lambda>_. ?c)) (working s)\<rparr>)"
    unfolding save_row_Inr_iff using assms(1,2,6,7)
    by (auto simp: table_defs rows_def visible_def writable_def tenant_policy_def unique_rows_def live_class_clash_def)
  let ?s1 = "s\<lparr>working := live_classes_update
      (replace_where (\<lambda>q. lc_id q = lc_id c \<and> rls_tenant s = Some (lc_tenant q)) (\<lambda>_. ?c)) (working s)\<rparr>"
  have stored: "?c \<in> set (live_classes (working ?s1))"
    using assms(1,2,6) by (auto simp: set_replace_where)
  let ?in = "\<lambda>q. lp_tenant q = t \<and> lp_class q = lc_id c"
  let ?ps = "sort_key (\<lambda>r. (lp_created_at r, lp_id r)) (filter ?in (live_class_participants (working s)))"
  have ps: "participants_for_class t (lc_id c) ?s1 = (Inr ?ps, ?s1)"
    using assms(6) by (auto simp: participants_for_class_def tx_exec rows_of_tables
        live_class_participants_tbl.visible_iff intro!: arg_cong [where f = "sort_key _"] filter_cong)
  have uniq: "distinct (map lp_id (live_class_participants (working s)))"
    using assms(8) by (simp add: unique_rows_def table_defs)
  then have "distinct ?ps" by (simp add: distinct_map)
  note each = complete_participants_run [of ?ps ?s1 "clock (proc s)", OF _ this]
  have fits: "list_all (stay_fits (clock (proc s))) ?ps \<longleftrightarrow>
      (\<forall>q\<in>set (live_class_participants (working s)). ?in q \<longrightarrow> stay_fits (clock (proc s)) q)"
    by (auto simp: list_all_iff)
  show ?thesis
  proof (cases "list_all (stay_fits (clock (proc s))) ?ps")
    case True
    with each uniq assms(6) obtain ys s2 where two:
      "for_each (complete_participant (clock (proc s))) ?ps ?s1 = (Inr ys, s2)"
      "live_class_participants (working s2) = map (\<lambda>q. if q \<in> set ?ps then completed (clock (proc s)) q else q)
         (live_class_participants (working s))"
      "live_classes (working s2) = live_classes (working ?s1)" "live_class_events (working s2) = live_class_events (working s)"
      "rls_tenant s2 = Some t" "proc s2 = proc s"
      by auto
    obtain e s3 where ev: "record_class_event t (lc_id c) class_ended (JObj []) None None s2 = (Inr e, s3)"
      "live_classes (working s3) = live_classes (working ?s1)"
      "live_class_participants (working s3) = live_class_participants (working s2)"
      using record_event_succeeds [OF two(5), of "lc_id c" class_ended "JObj []" None None] two(3,4,6) assms(9) by auto
    have ran: "end_class ctx pr (lc_id c) s = (Inr ?c, (s3\<lparr>committed := working s3, rls_tenant := None, rls_user := None\<rparr>)
        \<lparr>proc := (proc s3)\<lparr>event_log := event_log (proc s3) @
         [\<lparr>ev_type = class_ended, ev_tenant = ctx_tenant ctx, ev_actor = pr_user pr, ev_entity = lc_id c\<rparr>]\<rparr>\<rparr>)"
      using assms(3-5) by (simp add: end_class_def get_class_or_raise_def live_class_get_def tx_exec
          require_tenant_id_run some_or_404_scalar_run publish_event_run key save ps two(1) ev(1))
    have "(if q \<in> set ?ps then completed n q else q) = (if ?in q then completed n q else q)"
      if "q \<in> set (live_class_participants (working s))" for q n using that by simp
    then have "live_class_participants (working s3) = map (\<lambda>q. if ?in q then completed (clock (proc s)) q else q)
        (live_class_participants (working s))"
      unfolding ev(3) two(2) by (intro map_cong refl) simp
    with ran stored ev(2) True show ?thesis unfolding fits by simp
  next
    case False
    with each uniq assms(6) obtain s2 where two:
      "for_each (complete_participant (clock (proc s))) ?ps ?s1 = (Inl (Python_Error ''DBAPIError''), s2)"
      "committed s2 = committed s"
      by auto
    have "end_class ctx pr (lc_id c) s = (Inl (Python_Error ''DBAPIError''), s2)"
      using assms(3-5) by (simp add: end_class_def get_class_or_raise_def live_class_get_def tx_exec
          require_tenant_id_run some_or_404_scalar_run key save ps two(1))
    with two(2) False show ?thesis unfolding fits by simp
  qed
qed

end
