(* ===== verification/Live_Props.thy ===== *)
theory Live_Props
  imports Live_Access Sample
begin

text \<open>
  The properties of PrepLive, each with a concrete instance.
\<close>

section \<open>A class, its teacher and a student\<close>

definition sample_class :: "live_class_status \<Rightarrow> int \<Rightarrow> live_class" where
  "sample_class st cap = \<lparr>lc_id = 40, lc_tenant = 1, lc_class_code = ''maths-x'', lc_title = ''Maths'',
     lc_description = None, lc_course = None, lc_batch = 10, lc_instructor = 70, lc_starts_at = 500,
     lc_ends_at = 2000, lc_duration_minutes = 25, lc_join_before_minutes = 0, lc_join_after_minutes = 0,
     lc_capacity = cap, lc_status = st, lc_live_room_id = None, lc_link = live_link ''maths-x'',
     lc_settings = JObj [], lc_created_by = None\<rparr>"

definition sample_participant :: "uuid \<Rightarrow> uuid option \<Rightarrow> int option \<Rightarrow> live_class_participant" where
  "sample_participant i student joined = \<lparr>lp_id = i, lp_tenant = 1, lp_class = 40, lp_user = None,
     lp_student = student, lp_employee = None, lp_role = ROLE_STUDENT, lp_join_status = J_ALLOWED,
     lp_joined_at = joined, lp_left_at = None, lp_total_duration_seconds = 0, lp_created_at = int i\<rparr>"

definition sample_teacher :: employee where
  "sample_teacher = \<lparr>em_id = 70, em_tenant = 1, em_user = None, em_department = None,
     em_employee_code = ''E'', em_first_name = ''Eve'', em_last_name = None, em_email = None,
     em_phone = None, em_employee_type = ET_TEACHER, em_status = EM_ACTIVE, em_joined_at = None,
     em_deleted_at = None, em_created_at = 0\<rparr>"

definition sample_learner :: "uuid \<Rightarrow> student" where
  "sample_learner i = \<lparr>st_id = i, st_tenant = 1, st_admission_no = ''S'', st_first_name = ''Ada'',
     st_last_name = None, st_email = None, st_phone = None, st_date_of_birth = None,
     st_gender = None, st_status = SS_ACTIVE, st_joined_at = None, st_deleted_at = None,
     st_created_at = int i\<rparr>"

definition sample_room :: batch where
  "sample_room = \<lparr>bt_id = 10, bt_tenant = 1, bt_name = ''A'', bt_code = ''batch-a'',
     bt_course = None, bt_start_date = 0, bt_end_date = None, bt_capacity = None,
     bt_status = B_ACTIVE, bt_deleted_at = None\<rparr>"

definition sample_live_db :: "live_class_status \<Rightarrow> db" where
  "sample_live_db st = empty_db\<lparr>students := [sample_learner 20, sample_learner 21],
     batches := [sample_room], employees := [sample_teacher],
     batch_students := [\<lparr>bs_id = 30, bs_tenant = 1, bs_batch = 10, bs_student = 21,
       bs_status = BS_ACTIVE, bs_joined_at = 0, bs_left_at = None\<rparr>],
     live_classes := [sample_class st 2],
     live_class_participants := [sample_participant 50 (Some 20) (Some 600)]\<rparr>"

lemmas sample_live_defs = sample_live_db_def sample_class_def sample_participant_def sample_teacher_def
  sample_learner_def sample_room_def empty_db_def sample_defs

lemma sample_live_inv: "live_inv (sample_live_db st) sample_proc"
  by (simp add: live_inv_def unique_rows_def class_ok_def participant_ok_def sample_live_defs)

lemma sample_identities: "identities_ok (sample_live_db st) sample_proc"
  by (simp add: identities_ok_def unique_rows_def sample_live_defs)

section \<open>The life of a class\<close>

text \<open>
  C22. A live class moves only forward: whatever requests are served, it stays in its tenant with its code
  and its link, its status follows the steps scheduled - open - ended or cancelled, and once it is
  ended or cancelled neither its status nor its window nor its capacity changes any more.
\<close>

theorem live_class_progress:
  assumes "reaches live_handle d0 p0 d p" "c0 \<in> set (live_classes d0)"
    and "unique_rows live_classes_table (live_classes d0)"
  shows "\<exists>c\<in>set (live_classes d). lc_id c = lc_id c0 \<and> lc_tenant c = lc_tenant c0 \<and>
    lc_class_code c = lc_class_code c0 \<and> lc_link c = lc_link c0 \<and>
    class_step\<^sup>*\<^sup>* (lc_status c0) (lc_status c) \<and>
    (lc_status c0 = LC_ENDED \<or> lc_status c0 = LC_CANCELLED \<longrightarrow> lc_status c = lc_status c0 \<and>
       lc_starts_at c = lc_starts_at c0 \<and> lc_ends_at c = lc_ends_at c0 \<and> lc_capacity c = lc_capacity c0)"
proof -
  have "later d0 c" if "c \<in> set (live_classes d0)" for c
    unfolding later_def using unique_rows_key [OF assms(3) _ that] by auto
  then have "progressed d0 d0 p0" by (simp add: progressed_def)
  from live_history.reaches_good [OF assms(1) this]
  have "lc_id ` set (live_classes d0) \<subseteq> lc_id ` set (live_classes d)"
    "\<forall>c\<in>set (live_classes d). later d0 c" by (simp_all add: progressed_def)
  note kept = this
  from subsetD [OF kept(1) imageI [OF assms(2)]] obtain c where
    c: "c \<in> set (live_classes d)" "lc_id c = lc_id c0" by (metis imageE)
  from bspec [OF kept(2) c(1)] have "later d0 c" .
  with c have c: "c \<in> set (live_classes d)" "lc_id c = lc_id c0" "later d0 c" by simp_all
  from c(3) assms(2) c(2) have l: "lc_tenant c = lc_tenant c0" "lc_class_code c = lc_class_code c0"
    "lc_link c = lc_link c0" "class_step\<^sup>*\<^sup>* (lc_status c0) (lc_status c)"
    "\<not> schedulable (lc_status c0) \<longrightarrow> lc_starts_at c = lc_starts_at c0 \<and> lc_ends_at c = lc_ends_at c0 \<and>
      lc_capacity c = lc_capacity c0"
    unfolding later_def by metis+
  have "lc_status c0 = LC_ENDED \<or> lc_status c0 = LC_CANCELLED \<longrightarrow> \<not> schedulable (lc_status c0)"
    by (auto simp: schedulable_def)
  with class_steps_closed [OF l(4)] l(5) have stay: "lc_status c0 = LC_ENDED \<or> lc_status c0 = LC_CANCELLED \<longrightarrow>
      lc_status c = lc_status c0 \<and> lc_starts_at c = lc_starts_at c0 \<and> lc_ends_at c = lc_ends_at c0 \<and>
      lc_capacity c = lc_capacity c0" by auto
  show ?thesis by (rule bexI [OF _ c(1)]) (intro conjI c(2) l(1-4) stay)
qed

theorem live_class_progress_witness:
  "\<exists>d p. reaches live_handle (sample_live_db LC_SCHEDULED) sample_proc d p \<and>
     (\<exists>c\<in>set (live_classes d). lc_id c = 40 \<and> lc_class_code c = ''maths-x'' \<and>
        class_step\<^sup>*\<^sup>* LC_SCHEDULED (lc_status c)) \<and> map lc_status (live_classes d) = [LC_ENDED]"
proof -
  let ?d0 = "sample_live_db LC_SCHEDULED"
  let ?m = "serve (live_handle (sample_call (Open_Class 40))) ?d0 sample_proc"
  let ?n = "serve (live_handle (sample_call (End_Class 40))) (fst (snd ?m)) (snd (snd ?m))"
  obtain d p where n: "d = fst (snd ?n)" "p = snd (snd ?n)" by blast
  have "map lc_status (live_classes d) = [LC_ENDED]" unfolding n by code_simp
  moreover have "reaches live_handle ?d0 sample_proc d p"
    unfolding n by (rule reaches_next [OF reaches_once])
  moreover from live_class_progress [OF this, of "sample_class LC_SCHEDULED 2"] sample_live_inv
  have "\<exists>c\<in>set (live_classes d). lc_id c = 40 \<and> lc_class_code c = ''maths-x'' \<and>
      class_step\<^sup>*\<^sup>* LC_SCHEDULED (lc_status c)"
    by (auto simp: live_inv_def sample_live_db_def sample_class_def)
  ultimately show ?thesis by (intro exI [of _ d] exI [of _ p] conjI)
qed

text \<open>
  C23. In every state the live service reaches, a class starts before it ends, has room for somebody and
  carries the link of its code, and the time a participant spent is not negative.
\<close>

theorem live_classes_well_formed:
  assumes "live_inv d0 p0" "reaches live_handle d0 p0 d p"
  shows "(\<forall>c\<in>set (live_classes d). lc_starts_at c < lc_ends_at c \<and> 1 \<le> lc_capacity c \<and>
      lc_link c = live_link (lc_class_code c)) \<and>
    (\<forall>q\<in>set (live_class_participants d). 0 \<le> lp_total_duration_seconds q)"
  using live_service.reaches_good [OF assms(2,1)]
  by (simp add: live_inv_def class_ok_def participant_ok_def)

theorem live_classes_well_formed_witness:
  "\<exists>d p. reaches live_handle (sample_live_db LC_OPEN) sample_proc d p \<and>
     map lc_ends_at (live_classes d) = [900] \<and> (\<forall>c\<in>set (live_classes d). lc_starts_at c < lc_ends_at c)"
proof -
  let ?q = "sample_call (Update_Class 40 \<lparr>lup_title = Unset, lup_description = Unset, lup_course = Unset,
    lup_batch = Unset, lup_instructor = Unset, lup_starts_at = Unset, lup_ends_at = Assigned (Some (Naive 900)),
    lup_duration_minutes = Unset, lup_join_before_minutes = Unset, lup_join_after_minutes = Unset,
    lup_capacity = Unset, lup_settings = Unset, lup_admin_override = False\<rparr>)"
  let ?r = "serve (live_handle ?q) (sample_live_db LC_OPEN) sample_proc"
  obtain d p where n: "d = fst (snd ?r)" "p = snd (snd ?r)" by blast
  have "map lc_ends_at (live_classes d) = [900]" unfolding n by code_simp
  moreover have "reaches live_handle (sample_live_db LC_OPEN) sample_proc d p"
    unfolding n by (rule reaches_once)
  moreover from live_classes_well_formed [OF sample_live_inv this]
  have "\<forall>c\<in>set (live_classes d). lc_starts_at c < lc_ends_at c" by simp
  ultimately show ?thesis by (intro exI [of _ d] exI [of _ p] conjI)
qed

section \<open>Participants\<close>

text \<open>
  C24. In every state the live service reaches, a user, a student and an employee has at most one row
  among the participants of a class, however often it joined.
\<close>

theorem one_participant_per_identity:
  assumes "identities_ok d0 p0" "reaches live_handle d0 p0 d p"
    and "q \<in> set (live_class_participants d)" "r \<in> set (live_class_participants d)"
    and "lp_tenant q = lp_tenant r" "lp_class q = lp_class r"
    and "(lp_user q \<noteq> None \<and> lp_user q = lp_user r) \<or> (lp_student q \<noteq> None \<and> lp_student q = lp_student r) \<or>
      (lp_employee q \<noteq> None \<and> lp_employee q = lp_employee r)"
  shows "q = r"
proof -
  have ok: "identities_ok d p" by (rule live_identities.reaches_good [OF assms(2,1)])
  have "identity_clash q r" using assms(5-7) by (simp add: identity_clash_def)
  with ok assms(3,4) have "lp_id q = lp_id r" unfolding identities_ok_def by blast
  then show ?thesis
    using unique_rows_key [of live_class_participants_table "live_class_participants d" q r] ok assms(3,4)
    by (simp add: identities_ok_def)
qed

definition sample_joins :: "uuid \<Rightarrow> live_events_request" where
  "sample_joins i = \<lparr>ler_events = [\<lparr>lei_event_type = participant_joined, lei_user = None,
     lei_student = Some i, lei_employee = None, lei_role = ROLE_STUDENT, lei_occurred_at = None,
     lei_total_duration_seconds = None, lei_payload = JObj []\<rparr>], ler_snapshot = None\<rparr>"

theorem one_participant_per_identity_witness:
  "\<exists>d p q. reaches live_handle (sample_live_db LC_OPEN) sample_proc d p \<and>
     length (live_class_participants d) = 2 \<and> q \<in> set (live_class_participants d) \<and> lp_student q = Some 21 \<and>
     (\<forall>r\<in>set (live_class_participants d). lp_student r = Some 21 \<and> lp_tenant r = 1 \<and> lp_class r = 40 \<longrightarrow> r = q)"
proof -
  let ?d0 = "sample_live_db LC_OPEN"
  let ?c = "sample_call (Capture_Events 40 (sample_joins 21))"
  let ?m = "serve (live_handle ?c) ?d0 sample_proc"
  let ?n = "serve (live_handle ?c) (fst (snd ?m)) (snd (snd ?m))"
  obtain d p where n: "d = fst (snd ?n)" "p = snd (snd ?n)" by blast
  let ?P = "\<lambda>q. lp_student q = Some 21 \<and> lp_tenant q = 1 \<and> lp_class q = 40"
  have ps: "length (live_class_participants d) = 2" "list_ex ?P (live_class_participants d)"
    unfolding n by code_simp+
  from ps(2) obtain q where q: "q \<in> set (live_class_participants d)" "?P q" unfolding list_ex_iff by (elim bexE)
  have run: "reaches live_handle ?d0 sample_proc d p"
    unfolding n by (rule reaches_next [OF reaches_once])
  have "r = q" if "r \<in> set (live_class_participants d)" "?P r" for r
    by (rule one_participant_per_identity [OF sample_identities run that(1) q(1)]) (use q that in simp_all)
  then have one: "\<forall>r\<in>set (live_class_participants d). ?P r \<longrightarrow> r = q" by (intro ballI impI)
  have him: "lp_student q = Some 21" using q(2) by simp
  show ?thesis
    by (rule exI [of _ d], rule exI [of _ p], rule exI [of _ q]) (intro conjI run ps(1) q(1) him one)
qed

section \<open>Admission\<close>

text \<open>
  C25. The access check admits exactly those the rule admits: a joinable class of the tenant with that
  code, a time within its join window, a known participant or a free place, and a student of the
  batch, its staff or an administrator. Who is admitted is stored as inside since that time; a refusal
  names a reason and changes nothing.
\<close>

theorem access_decision:
  assumes "validate_access ctx pr code p s = (Inr a, s')" "ctx_tenant ctx = Some t" "rls_tenant s = Some t"
    and "unique_rows employees_table (employees (working s))"
    and "now = (case lap_now p of None \<Rightarrow> clock (proc s) | Some x \<Rightarrow> instant x)"
  shows "lac_class a \<in> set (live_classes (working s)) \<and> lc_tenant (lac_class a) = t \<and>
    lc_class_code (lac_class a) = code \<and>
    (lac_allowed a \<longleftrightarrow> may_enter (working s) t pr (lac_class a) p now) \<and>
    (\<not> lac_allowed a \<longrightarrow> s' = s \<and> lac_reason a \<noteq> None \<and> lac_participant a = None) \<and>
    (lac_allowed a \<longrightarrow> lac_reason a = None \<and> (\<exists>q\<in>set (live_class_participants (committed s')).
       lac_participant a = Some q \<and> lp_tenant q = t \<and> lp_class q = lc_id (lac_class a) \<and>
       lp_join_status q = J_ALLOWED \<and> lp_joined_at q = Some now \<and> lp_left_at q = None))"
  by (rule validate_access_cases [OF assms])
    (use upsert_effect(1) [OF _ assms(3)] in \<open>simp; fastforce\<close>)

definition sample_access :: "uuid \<Rightarrow> live_access_request" where
  "sample_access i = \<lparr>lap_user = None, lap_student = Some i, lap_employee = None, lap_role = None,
     lap_now = None\<rparr>"

lemmas access_run_defs = validate_access_decides decide_access_def class_by_code_or_raise_def
  live_get_by_code_def access_denial_reason_def joinable_def join_window_def find_identity_def
  active_count_def participants_for_class_def live_student_in_batch_def upsert_allowed_participant_def
  record_class_event_def insert_row_def validation_user_id_def same_identity_def infer_role_def
  require_tenant_id_run lookup_def

text \<open>Student 21 of the batch joins the open class, in which student 20 already is.\<close>

lemma sample_admission:
  "\<exists>a s'. validate_access sample_ctx sample_pr ''maths-x'' (sample_access 21)
      (sample_session (sample_live_db LC_OPEN)) = (Inr a, s') \<and> lac_allowed a \<and> lc_id (lac_class a) = 40"
  by (simp add: access_run_defs tx_exec sample_access_def sample_live_defs rows_def visible_def writable_def
      table_defs tenant_policy_def)

lemma sample_employees: "unique_rows employees_table (employees (working (sample_session (sample_live_db st))))"
  by (simp add: unique_rows_def sample_live_defs)

theorem access_decision_witness:
  "\<exists>a s'. validate_access sample_ctx sample_pr ''maths-x'' (sample_access 21)
      (sample_session (sample_live_db LC_OPEN)) = (Inr a, s') \<and>
     may_enter (sample_live_db LC_OPEN) 1 sample_pr (lac_class a) (sample_access 21) 1000 \<and>
     (\<exists>q\<in>set (live_class_participants (committed s')). lp_class q = 40 \<and> lp_joined_at q = Some 1000)"
proof -
  from sample_admission obtain a s' where run: "validate_access sample_ctx sample_pr ''maths-x'' (sample_access 21)
      (sample_session (sample_live_db LC_OPEN)) = (Inr a, s')" "lac_allowed a" "lc_id (lac_class a) = 40" by blast
  have sess: "1000 = (case lap_now (sample_access 21) of None \<Rightarrow> clock (proc (sample_session (sample_live_db LC_OPEN))) | Some x \<Rightarrow> instant x)"
    "ctx_tenant sample_ctx = Some 1" "rls_tenant (sample_session (sample_live_db LC_OPEN)) = Some 1"
    "working (sample_session (sample_live_db LC_OPEN)) = sample_live_db LC_OPEN"
    by (simp_all add: sample_defs sample_access_def)
  note d = access_decision [OF run(1) sess(2,3) sample_employees sess(1), unfolded sess(4)]
  have "may_enter (sample_live_db LC_OPEN) 1 sample_pr (lac_class a) (sample_access 21) 1000"
    using d run(2) by blast
  moreover have "\<exists>q\<in>set (live_class_participants (committed s')). lp_class q = 40 \<and> lp_joined_at q = Some 1000"
    using d run(2) unfolding run(3) by blast
  ultimately show ?thesis using run(1) by (intro exI conjI)
qed

text \<open>
  C26. A newcomer is admitted only into a free place: afterwards one more participant is inside, and no more
  than the capacity of the class.
\<close>

theorem newcomers_within_capacity:
  assumes "validate_access ctx pr code p s = (Inr a, s')" "ctx_tenant ctx = Some t" "rls_tenant s = Some t"
    and "unique_rows employees_table (employees (working s))"
    and "lac_allowed a" "\<not> known_identity (working s) t (lc_id (lac_class a)) pr p"
  shows "inside (committed s') t (lc_id (lac_class a)) = Suc (inside (working s) t (lc_id (lac_class a))) \<and>
    int (inside (committed s') t (lc_id (lac_class a))) \<le> lc_capacity (lac_class a)"
proof (rule validate_access_cases [OF assms(1-4) refl], goal_cases)
  case (1 c)
  from find_identity_None [OF assms(3), of "lc_id c" pr p] assms(6) 1(4)
  have "find_identity t (lc_id c) (validation_user_id pr p) (lap_student p) (lap_employee p) s = (Inr None, s)"
    by auto
  from upsert_effect(2) [OF _ assms(3) this] 1(4,7) assms(5)
  have "inside (committed s') t (lc_id c) = Suc (inside (working s) t (lc_id c))"
    by (auto simp: inside_def)
  moreover from 1(4,5) assms(5,6) have "int (inside (working s) t (lc_id c)) < lc_capacity c"
    by (simp add: may_enter_def)
  ultimately show ?case using 1(4) by simp
qed

theorem newcomers_within_capacity_witness:
  "\<exists>a s'. validate_access sample_ctx sample_pr ''maths-x'' (sample_access 21)
      (sample_session (sample_live_db LC_OPEN)) = (Inr a, s') \<and>
     inside (sample_live_db LC_OPEN) 1 40 = 1 \<and> inside (committed s') 1 40 = 2"
proof -
  from sample_admission obtain a s' where run: "validate_access sample_ctx sample_pr ''maths-x'' (sample_access 21)
      (sample_session (sample_live_db LC_OPEN)) = (Inr a, s')" "lac_allowed a" "lc_id (lac_class a) = 40" by blast
  have new: "\<not> known_identity (working (sample_session (sample_live_db LC_OPEN))) 1 (lc_id (lac_class a)) sample_pr (sample_access 21)"
    "inside (sample_live_db LC_OPEN) 1 40 = 1"
    unfolding run(3) by (simp_all add: known_identity_def inside_def same_identity_def validation_user_id_def
        sample_access_def sample_live_defs)
  from newcomers_within_capacity [OF run(1) _ _ sample_employees run(2) new(1)] run(3) new(2)
  show ?thesis by (intro exI [of _ a] exI [of _ s'] conjI run(1) new(2)) (simp add: sample_defs)
qed

section \<open>Codes\<close>

text \<open>
  C27. The search for a class code always ends: it returns the first of eight drawn codes no class the
  session sees has, or the 500 error when all eight are taken; it draws at most eight and writes nothing.
\<close>

theorem class_code_generation:
  "fst (generate_class_code title s) =
     (case find (\<lambda>code. \<not> code_taken s code) (drawn_codes (code_stem title) (proc s) 8) of
        None \<Rightarrow> Inl (Prep_Suite_Error ''live_class_code_generation_failed'' 500)
      | Some code \<Rightarrow> Inr code) \<and>
   secrets_drawn (proc (snd (generate_class_code title s))) \<le> secrets_drawn (proc s) + 8 \<and>
   committed (snd (generate_class_code title s)) = committed s \<and>
   working (snd (generate_class_code title s)) = working s"
  using try_class_codes_run [of 8 "code_stem title" s] by (simp add: generate_class_code_def)

text \<open>
  C28. A class that was scheduled is found again by its code, as it was announced, with its instructor among
  the participants.
\<close>

theorem scheduled_class_found_by_code:
  assumes "schedule_class ctx pr p s = (Inr c, s')" "ctx_tenant ctx = Some t"
  shows "\<exists>det. get_by_code ctx (lc_class_code c) ((open_session (committed s') q)\<lparr>rls_tenant := Some t\<rparr>) =
      (Inr det, (open_session (committed s') q)\<lparr>rls_tenant := Some t\<rparr>) \<and> ld_class det = c \<and>
    lc_title c = lcr_title p \<and> lc_starts_at c = instant (lcr_starts_at p) \<and>
    lc_ends_at c = instant (lcr_ends_at p) \<and> lc_capacity c = lcr_capacity p \<and> lc_status c = LC_SCHEDULED \<and>
    (\<exists>i\<in>set (ld_participants det). lp_employee i = Some (lcr_instructor p) \<and> lp_role i = ROLE_INSTRUCTOR)"
proof -
  note st = schedule_stored [OF assms]
  obtain det where det: "get_by_code ctx (lc_class_code c) ((open_session (committed s') q)\<lparr>rls_tenant := Some t\<rparr>) =
      (Inr det, (open_session (committed s') q)\<lparr>rls_tenant := Some t\<rparr>)" "ld_class det = c"
    "set (ld_participants det) = {q \<in> set (live_class_participants (committed s')). lp_tenant q = t \<and> lp_class q = lc_id c}"
    using get_by_code_run [of c "(open_session (committed s') q)\<lparr>rls_tenant := Some t\<rparr>" t ctx] st(1-3) assms(2) by auto
  from st(9) det(3) have "\<exists>i\<in>set (ld_participants det). lp_employee i = Some (lcr_instructor p) \<and> lp_role i = ROLE_INSTRUCTOR"
    by blast
  with det(1,2) st(4-8) show ?thesis by blast
qed

definition sample_lesson :: live_class_create where
  "sample_lesson = \<lparr>lcr_title = ''Art 1'', lcr_description = None, lcr_course = None, lcr_batch = 10,
     lcr_instructor = 70, lcr_starts_at = Naive 5000, lcr_ends_at = Naive 6000, lcr_duration_minutes = 1,
     lcr_join_before_minutes = 0, lcr_join_after_minutes = 0, lcr_capacity = 3, lcr_settings = JObj [],
     lcr_admin_override = True\<rparr>"

theorem scheduled_class_found_by_code_witness:
  "\<exists>c s' det. schedule_class sample_ctx (sample_pr\<lparr>pr_permissions := [''preplive.class.manage'']\<rparr>) sample_lesson
      (sample_session (sample_live_db LC_OPEN)) = (Inr c, s') \<and>
     lc_class_code c = ''art-1-abcdefghij'' \<and>
     fst (get_by_code sample_ctx (lc_class_code c) ((open_session (committed s') sample_proc)\<lparr>rls_tenant := Some 1\<rparr>)) = Inr det \<and>
     ld_class det = c"
proof -
  let ?r = "schedule_class sample_ctx (sample_pr\<lparr>pr_permissions := [''preplive.class.manage'']\<rparr>) sample_lesson
      (sample_session (sample_live_db LC_OPEN))"
  have ok: "\<not> isl (fst ?r)" "lc_class_code (projr (fst ?r)) = ''art-1-abcdefghij''" by code_simp+
  note run = run_Inr [OF ok(1)]
  have "ctx_tenant sample_ctx = Some 1" by (simp add: sample_defs)
  from scheduled_class_found_by_code [OF run this, of sample_proc] run ok(2) show ?thesis
    by (metis fst_conv)
qed

section \<open>The end of a class\<close>

text \<open>
  C29. A class that is neither ended nor cancelled is ended by the request, provided that the seconds
  everybody inside will have spent fit the column of 32 bits: the class is stored as ended and every
  participant who had joined has left, with the time spent added.  If somebody's seconds do not fit, the
  request fails and leaves the database as it was.
\<close>

theorem class_can_be_ended:
  assumes "c \<in> set (live_classes (working s))" "lc_tenant c = t" "lc_status c \<noteq> LC_CANCELLED" "lc_status c \<noteq> LC_ENDED"
    and "ctx_tenant ctx = Some t" "rls_tenant s = Some t" "live_inv (working s) (proc s)"
    and "\<And>e. e \<in> set (live_class_events (working s)) \<Longrightarrow> le_id e < uuid_supply (proc s)"
  shows "if \<forall>q\<in>set (live_class_participants (working s)). lp_tenant q = t \<and> lp_class q = lc_id c \<longrightarrow>
      (\<forall>joined. lp_joined_at q = Some joined \<and> lp_left_at q = None \<longrightarrow>
         lp_total_duration_seconds q + max 0 (clock (proc s) - joined) div 1000000 < 2147483648)
    then \<exists>s'. end_class ctx pr (lc_id c) s = (Inr (c\<lparr>lc_status := LC_ENDED\<rparr>), s') \<and>
      c\<lparr>lc_status := LC_ENDED\<rparr> \<in> set (live_classes (committed s')) \<and>
      live_class_participants (committed s') = map (\<lambda>q. if lp_tenant q = t \<and> lp_class q = lc_id c
        then completed (clock (proc s)) q else q) (live_class_participants (working s)) \<and>
      (\<forall>q\<in>set (live_class_participants (committed s')). lp_tenant q = t \<and> lp_class q = lc_id c \<and>
         lp_joined_at q \<noteq> None \<longrightarrow> lp_left_at q \<noteq> None)
    else \<exists>s'. end_class ctx pr (lc_id c) s = (Inl (Python_Error ''DBAPIError''), s') \<and> committed s' = committed s"
    (is "if ?fits then _ else _")
proof -
  have u: "unique_rows live_classes_table (live_classes (working s))"
    "unique_rows live_class_participants_table (live_class_participants (working s))"
    using assms(7) by (simp_all add: live_inv_def)
  have "stay_fits (clock (proc s)) q \<longleftrightarrow> (\<forall>joined. lp_joined_at q = Some joined \<and> lp_left_at q = None \<longrightarrow>
      lp_total_duration_seconds q + max 0 (clock (proc s) - joined) div 1000000 < 2147483648)"
    if "q \<in> set (live_class_participants (working s))" for q
  proof -
    have "0 \<le> lp_total_duration_seconds q"
      using assms(7) that by (auto simp: live_inv_def participant_ok_def)
    then show ?thesis by (auto simp: stay_fits_def int32_def duration_seconds_alt)
  qed
  then have fits: "(\<forall>q\<in>set (live_class_participants (working s)). lp_tenant q = t \<and> lp_class q = lc_id c \<longrightarrow>
      stay_fits (clock (proc s)) q) \<longleftrightarrow> ?fits" by blast
  have "\<forall>e\<in>set (live_class_events (working s)). le_id e < uuid_supply (proc s)" using assms(8) by blast
  note run = end_class_run [OF assms(1-6) u this, of pr, unfolded fits]
  show ?thesis
  proof (cases ?fits)
    case False
    show ?thesis unfolding if_not_P [OF False] by (rule run [unfolded if_not_P [OF False]])
  next
    case True
    obtain s' where s': "end_class ctx pr (lc_id c) s = (Inr (c\<lparr>lc_status := LC_ENDED\<rparr>), s')"
      "c\<lparr>lc_status := LC_ENDED\<rparr> \<in> set (live_classes (committed s'))"
      "live_class_participants (committed s') = map (\<lambda>q. if lp_tenant q = t \<and> lp_class q = lc_id c
        then completed (clock (proc s)) q else q) (live_class_participants (working s))"
      using run [unfolded if_P [OF True]] by blast
    have gone: "\<forall>q\<in>set (live_class_participants (committed s')). lp_tenant q = t \<and> lp_class q = lc_id c \<and>
         lp_joined_at q \<noteq> None \<longrightarrow> lp_left_at q \<noteq> None"
    proof (intro ballI impI, elim conjE)
      fix q assume q: "q \<in> set (live_class_participants (committed s'))"
        and inside: "lp_tenant q = t" "lp_class q = lc_id c" "lp_joined_at q \<noteq> None"
      from q obtain q0 where q0: "q = (if lp_tenant q0 = t \<and> lp_class q0 = lc_id c
          then completed (clock (proc s)) q0 else q0)" unfolding s'(3) set_map by (elim imageE)
      then have "lp_tenant q0 = t \<and> lp_class q0 = lc_id c" using inside(1,2) by (simp split: if_splits)
      with q0 inside(3) show "lp_left_at q \<noteq> None" by (simp del: not_None_eq)
    qed
    show ?thesis unfolding if_P [OF True] by (rule exI [of _ s'], intro conjI s' gone)
  qed
qed

theorem class_can_be_ended_witness:
  "\<exists>s'. end_class sample_ctx sample_pr 40 (sample_session (sample_live_db LC_OPEN)) =
      (Inr (sample_class LC_ENDED 2), s') \<and> map lp_left_at (live_class_participants (committed s')) = [Some 1000]"
proof -
  let ?s = "sample_session (sample_live_db LC_OPEN)"
  have s: "working ?s = sample_live_db LC_OPEN" "rls_tenant ?s = Some 1" "ctx_tenant sample_ctx = Some 1"
    "clock (proc ?s) = 1000" "live_class_events (sample_live_db LC_OPEN) = []"
    "live_class_participants (sample_live_db LC_OPEN) = [sample_participant 50 (Some 20) (Some 600)]"
    by (simp_all add: sample_defs sample_live_db_def empty_db_def)
  have inv: "live_inv (working ?s) (proc ?s)"
    unfolding s(1) using sample_live_inv proc_stable_live_inv by (simp add: live_inv_def)
  have c: "sample_class LC_OPEN 2 \<in> set (live_classes (working ?s))" "lc_tenant (sample_class LC_OPEN 2) = 1"
    "lc_status (sample_class LC_OPEN 2) \<noteq> LC_CANCELLED" "lc_status (sample_class LC_OPEN 2) \<noteq> LC_ENDED"
    "lc_id (sample_class LC_OPEN 2) = 40" "(sample_class LC_OPEN 2)\<lparr>lc_status := LC_ENDED\<rparr> = sample_class LC_ENDED 2"
    unfolding s(1) by (simp_all add: sample_live_db_def sample_class_def)
  have "\<And>e. e \<in> set (live_class_events (working ?s)) \<Longrightarrow> le_id e < uuid_supply (proc ?s)" by (simp add: s)
  from class_can_be_ended [OF c(1-4) s(3,2) inv this, of sample_pr] show ?thesis
    unfolding c(5,6) s by (auto simp: completed_def sample_participant_def split: if_splits)
qed

end
