(* ===== verification/Identity_Model.thy ===== *)
theory Identity_Model
  imports Txn_Rules
begin

text \<open>
  The tables of tenancy, access and settings (app/modules/tenancy, app/modules/access and
  app/modules/settings: enums.py, models.py; alembic/versions/202604280002 to 202604280004): rows, unique constraints, row level security
  policies.  They form a database of their own: from outside only PrepPeople looks
  an account up.  A unique
  constraint does not see rows with a NULL in one of its columns.
\<close>

section \<open>Enumerations\<close>

datatype tenant_status = TN_ACTIVE | TN_SUSPENDED | TN_TRIAL | TN_CANCELLED

datatype tenant_domain_verification_status = TDV_PENDING | TDV_VERIFIED | TDV_FAILED

datatype tenant_app_status = APP_ENABLED | APP_DISABLED | APP_LOCKED | APP_TRIAL

datatype subscription_status = SUB_ACTIVE | SUB_TRIAL | SUB_PAST_DUE | SUB_CANCELLED | SUB_EXPIRED

datatype tenant_user_status = TU_ACTIVE | TU_INVITED | TU_SUSPENDED | TU_DISABLED

datatype user_status = U_ACTIVE | U_INVITED | U_SUSPENDED | U_DISABLED

datatype user_type = PLATFORM_ADMIN | INSTITUTION_ADMIN | EMPLOYEE_USER | TEACHER_USER | STUDENT_USER | GUARDIAN_USER

datatype refresh_token_status = RT_ACTIVE | RT_ROTATED | RT_REVOKED | RT_REUSED

datatype login_session_status = LS_ACTIVE | LS_ENDED | LS_REVOKED

datatype academic_year_status = AY_DRAFT | AY_ACTIVE | AY_CLOSED | AY_ARCHIVED

datatype rule_status = RULE_ACTIVE | RULE_INACTIVE

datatype invitation_status = IV_PENDING | IV_ACCEPTED | IV_REVOKED | IV_EXPIRED

section \<open>Rows\<close>

record tenant =
  tn_id :: uuid
  tn_name :: string
  tn_legal_name :: "string option"
  tn_slug :: string
  tn_status :: tenant_status
  tn_plan_type :: "string option"
  tn_deleted_at :: "int option"

record tenant_domain =
  td_id :: uuid
  td_tenant :: uuid
  td_domain :: string
  td_is_primary :: bool
  td_verification_status :: tenant_domain_verification_status

record catalog_app =
  ca_id :: uuid
  ca_code :: string
  ca_name :: string
  ca_description :: "string option"
  ca_category :: string
  ca_is_core :: bool
  ca_is_active :: bool

record tenant_app =
  tap_id :: uuid
  tap_tenant :: uuid
  tap_app_code :: string
  tap_status :: tenant_app_status
  tap_subscription_status :: subscription_status
  tap_starts_at :: "int option"
  tap_ends_at :: "int option"
  tap_config :: json

record tenant_settings =
  tst_id :: uuid
  tst_tenant :: uuid
  tst_timezone :: string
  tst_locale :: string
  tst_general_settings :: json
  tst_notification_preferences :: json

record tenant_branding =
  tb_id :: uuid
  tb_tenant :: uuid
  tb_logo_url :: "string option"
  tb_primary_color :: "string option"
  tb_secondary_color :: "string option"
  tb_accent_color :: "string option"
  tb_branding_settings :: json

record tenant_user =
  tu_id :: uuid
  tu_tenant :: uuid
  tu_user :: uuid
  tu_status :: tenant_user_status
  tu_is_primary_admin :: bool
  tu_created_at :: int

record user =
  us_id :: uuid
  us_tenant :: "uuid option"
  us_email :: string
  us_phone :: "string option"
  us_password_hash :: string
  us_status :: user_status
  us_user_type :: user_type
  us_last_login_at :: "int option"
  us_deleted_at :: "int option"

record user_profile =
  uf_id :: uuid
  uf_tenant :: "uuid option"
  uf_user :: uuid
  uf_first_name :: "string option"
  uf_last_name :: "string option"
  uf_display_name :: "string option"

record role =
  ro_id :: uuid
  ro_tenant :: "uuid option"
  ro_code :: string
  ro_name :: string
  ro_description :: "string option"
  ro_is_system :: bool
  ro_is_default :: bool
  ro_deleted_at :: "int option"

record permission =
  pm_id :: uuid
  pm_code :: string
  pm_app_code :: string
  pm_resource :: string
  pm_action :: string
  pm_is_active :: bool

record role_permission =
  rp_id :: uuid
  rp_tenant :: "uuid option"
  rp_role :: uuid
  rp_permission :: uuid

record user_role =
  ur_id :: uuid
  ur_tenant :: "uuid option"
  ur_user :: uuid
  ur_role :: uuid
  ur_assigned_by :: "uuid option"
  ur_assigned_at :: int

record refresh_token =
  rt_id :: uuid
  rt_tenant :: "uuid option"
  rt_user :: uuid
  rt_token_hash :: string
  rt_family :: uuid
  rt_parent :: "uuid option"
  rt_status :: refresh_token_status
  rt_expires_at :: int
  rt_revoked_at :: "int option"
  rt_replaced_by :: "uuid option"

record login_session =
  lgs_id :: uuid
  lgs_tenant :: "uuid option"
  lgs_user :: uuid
  lgs_refresh_token :: "uuid option"
  lgs_ip_address :: "string option"
  lgs_user_agent :: "string option"
  lgs_last_seen_at :: "int option"
  lgs_status :: login_session_status

record login_history =
  lh_id :: uuid
  lh_tenant :: "uuid option"
  lh_user :: "uuid option"
  lh_email :: string
  lh_success :: bool
  lh_failure_reason :: "string option"
  lh_ip_address :: "string option"
  lh_user_agent :: "string option"

record password_reset_token =
  pw_id :: uuid
  pw_tenant :: "uuid option"
  pw_user :: uuid
  pw_token_hash :: string
  pw_expires_at :: int
  pw_used_at :: "int option"

record academic_year =
  ay_id :: uuid
  ay_tenant :: uuid
  ay_name :: string
  ay_code :: string
  ay_starts_on :: int
  ay_ends_on :: int
  ay_status :: academic_year_status
  ay_is_current :: bool
  ay_settings :: json
  ay_deleted_at :: "int option"

record grading_rule =
  gr_id :: uuid
  gr_tenant :: uuid
  gr_code :: string
  gr_name :: string
  gr_grade_scale :: json
  gr_pass_percentage :: "rat option"
  gr_rounding_strategy :: "string option"
  gr_status :: rule_status
  gr_is_default :: bool
  gr_deleted_at :: "int option"

record attendance_rule =
  ar_id :: uuid
  ar_tenant :: uuid
  ar_code :: string
  ar_name :: string
  ar_minimum_percentage :: "rat option"
  ar_late_threshold_minutes :: "int option"
  ar_absent_after_minutes :: "int option"
  ar_rules :: json
  ar_status :: rule_status
  ar_is_default :: bool
  ar_deleted_at :: "int option"

record app_setting =
  ast_id :: uuid
  ast_tenant :: uuid
  ast_app_code :: string
  ast_enabled_by_tenant :: bool
  ast_settings :: json
  ast_updated_by :: "uuid option"

record invitation_token =
  iv_id :: uuid
  iv_tenant :: uuid
  iv_email :: string
  iv_role :: "uuid option"
  iv_token_hash :: string
  iv_invited_by :: "uuid option"
  iv_accepted_user :: "uuid option"
  iv_status :: invitation_status
  iv_expires_at :: int
  iv_accepted_at :: "int option"

section \<open>Unique constraints\<close>

definition tenant_clash :: "tenant \<Rightarrow> tenant \<Rightarrow> bool" where
  "tenant_clash a b \<longleftrightarrow> tn_slug a = tn_slug b"

definition tenant_domain_clash :: "tenant_domain \<Rightarrow> tenant_domain \<Rightarrow> bool" where
  "tenant_domain_clash a b \<longleftrightarrow> td_domain a = td_domain b"

definition catalog_app_clash :: "catalog_app \<Rightarrow> catalog_app \<Rightarrow> bool" where
  "catalog_app_clash a b \<longleftrightarrow> ca_code a = ca_code b"

definition tenant_app_clash :: "tenant_app \<Rightarrow> tenant_app \<Rightarrow> bool" where
  "tenant_app_clash a b \<longleftrightarrow> tap_tenant a = tap_tenant b \<and> tap_app_code a = tap_app_code b"

definition tenant_settings_clash :: "tenant_settings \<Rightarrow> tenant_settings \<Rightarrow> bool" where
  "tenant_settings_clash a b \<longleftrightarrow> tst_tenant a = tst_tenant b"

definition tenant_branding_clash :: "tenant_branding \<Rightarrow> tenant_branding \<Rightarrow> bool" where
  "tenant_branding_clash a b \<longleftrightarrow> tb_tenant a = tb_tenant b"

definition tenant_user_clash :: "tenant_user \<Rightarrow> tenant_user \<Rightarrow> bool" where
  "tenant_user_clash a b \<longleftrightarrow> tu_tenant a = tu_tenant b \<and> tu_user a = tu_user b"

definition user_clash :: "user \<Rightarrow> user \<Rightarrow> bool" where
  "user_clash a b \<longleftrightarrow> us_tenant a \<noteq> None \<and> us_tenant a = us_tenant b \<and> us_email a = us_email b"

definition user_profile_clash :: "user_profile \<Rightarrow> user_profile \<Rightarrow> bool" where
  "user_profile_clash a b \<longleftrightarrow> uf_user a = uf_user b"

definition role_clash :: "role \<Rightarrow> role \<Rightarrow> bool" where
  "role_clash a b \<longleftrightarrow> ro_tenant a \<noteq> None \<and> ro_tenant a = ro_tenant b \<and> ro_code a = ro_code b"

definition permission_clash :: "permission \<Rightarrow> permission \<Rightarrow> bool" where
  "permission_clash a b \<longleftrightarrow> pm_code a = pm_code b"

definition role_permission_clash :: "role_permission \<Rightarrow> role_permission \<Rightarrow> bool" where
  "role_permission_clash a b \<longleftrightarrow> rp_role a = rp_role b \<and> rp_permission a = rp_permission b"

definition user_role_clash :: "user_role \<Rightarrow> user_role \<Rightarrow> bool" where
  "user_role_clash a b \<longleftrightarrow> ur_tenant a \<noteq> None \<and> ur_tenant a = ur_tenant b \<and> ur_user a = ur_user b \<and> ur_role a = ur_role b"

definition refresh_token_clash :: "refresh_token \<Rightarrow> refresh_token \<Rightarrow> bool" where
  "refresh_token_clash a b \<longleftrightarrow> rt_token_hash a = rt_token_hash b"

definition password_reset_clash :: "password_reset_token \<Rightarrow> password_reset_token \<Rightarrow> bool" where
  "password_reset_clash a b \<longleftrightarrow> pw_token_hash a = pw_token_hash b"

definition invitation_clash :: "invitation_token \<Rightarrow> invitation_token \<Rightarrow> bool" where
  "invitation_clash a b \<longleftrightarrow> iv_token_hash a = iv_token_hash b"

definition academic_year_clash :: "academic_year \<Rightarrow> academic_year \<Rightarrow> bool" where
  "academic_year_clash a b \<longleftrightarrow> ay_tenant a = ay_tenant b \<and> ay_code a = ay_code b"

definition grading_rule_clash :: "grading_rule \<Rightarrow> grading_rule \<Rightarrow> bool" where
  "grading_rule_clash a b \<longleftrightarrow> gr_tenant a = gr_tenant b \<and> gr_code a = gr_code b"

definition attendance_rule_clash :: "attendance_rule \<Rightarrow> attendance_rule \<Rightarrow> bool" where
  "attendance_rule_clash a b \<longleftrightarrow> ar_tenant a = ar_tenant b \<and> ar_code a = ar_code b"

definition app_setting_clash :: "app_setting \<Rightarrow> app_setting \<Rightarrow> bool" where
  "app_setting_clash a b \<longleftrightarrow> ast_tenant a = ast_tenant b \<and> ast_app_code a = ast_app_code b"

definition never_clash :: "'r \<Rightarrow> 'r \<Rightarrow> bool" where
  "never_clash a b \<longleftrightarrow> False"

lemmas identity_clash_defs = tenant_clash_def tenant_domain_clash_def catalog_app_clash_def tenant_app_clash_def
  tenant_settings_clash_def tenant_branding_clash_def tenant_user_clash_def user_clash_def user_profile_clash_def
  role_clash_def permission_clash_def role_permission_clash_def user_role_clash_def refresh_token_clash_def
  password_reset_clash_def invitation_clash_def academic_year_clash_def grading_rule_clash_def
  attendance_rule_clash_def app_setting_clash_def never_clash_def

section \<open>Policies\<close>

text \<open>\<open>open_policy\<close>: no row level security; \<open>own\<close>: the row of the current tenant; \<open>own_or_platform\<close>: or
  of no tenant; \<open>own_or_self\<close>: or of the current user.\<close>

definition open_policy :: "uuid option \<Rightarrow> uuid option \<Rightarrow> 'r \<Rightarrow> bool" where
  "open_policy t u r \<longleftrightarrow> True"

definition own :: "('r \<Rightarrow> uuid) \<Rightarrow> uuid option \<Rightarrow> uuid option \<Rightarrow> 'r \<Rightarrow> bool" where
  "own tenant_of t u r \<longleftrightarrow> t = Some (tenant_of r)"

definition own_or_platform :: "('r \<Rightarrow> uuid option) \<Rightarrow> uuid option \<Rightarrow> uuid option \<Rightarrow> 'r \<Rightarrow> bool" where
  "own_or_platform tenant_of t u r \<longleftrightarrow> tenant_of r = None \<or> tenant_of r = t"

definition own_or_self :: "('r \<Rightarrow> uuid option) \<Rightarrow> ('r \<Rightarrow> uuid) \<Rightarrow> uuid option \<Rightarrow> uuid option \<Rightarrow> 'r \<Rightarrow> bool" where
  "own_or_self tenant_of user_of t u r \<longleftrightarrow> tenant_of r = None \<or> tenant_of r = t \<or> u = Some (user_of r)"

definition member_policy :: "uuid option \<Rightarrow> uuid option \<Rightarrow> tenant_user \<Rightarrow> bool" where
  "member_policy t u r \<longleftrightarrow> t = Some (tu_tenant r) \<or> u = Some (tu_user r)"

lemmas policy_defs = open_policy_def own_def own_or_platform_def own_or_self_def member_policy_def

section \<open>The database\<close>

record identity_db =
  tenants :: "tenant list"
  tenant_domains :: "tenant_domain list"
  app_catalog :: "catalog_app list"
  tenant_apps :: "tenant_app list"
  tenant_settings_rows :: "tenant_settings list"
  tenant_brandings :: "tenant_branding list"
  tenant_users :: "tenant_user list"
  users :: "user list"
  user_profiles :: "user_profile list"
  roles :: "role list"
  permissions :: "permission list"
  role_permissions :: "role_permission list"
  user_roles :: "user_role list"
  refresh_tokens :: "refresh_token list"
  login_sessions :: "login_session list"
  login_histories :: "login_history list"
  password_reset_tokens :: "password_reset_token list"
  academic_years :: "academic_year list"
  grading_rules :: "grading_rule list"
  attendance_rules :: "attendance_rule list"
  app_settings :: "app_setting list"
  invitation_tokens :: "invitation_token list"

definition empty_identity_db :: identity_db where
  "empty_identity_db = \<lparr>tenants = [], tenant_domains = [], app_catalog = [], tenant_apps = [], tenant_settings_rows = [], tenant_brandings = [], tenant_users = [], users = [], user_profiles = [], roles = [], permissions = [], role_permissions = [], user_roles = [], refresh_tokens = [], login_sessions = [], login_histories = [], password_reset_tokens = [], academic_years = [], grading_rules = [], attendance_rules = [], app_settings = [], invitation_tokens = []\<rparr>"

text \<open>The descriptors; a select-only policy and the others are one predicate where rows are only read and
  inserted.\<close>

named_theorems identity_tables \<open>definitions of the descriptors\<close>

definition tenants_table :: "(identity_db, tenant) table" where [identity_tables]:
  "tenants_table = \<lparr>rows_of = tenants, upd_rows = tenants_update, key_of = tn_id,
     using_policy = open_policy, check_policy = open_policy, clashes = tenant_clash\<rparr>"

definition tenant_domains_table :: "(identity_db, tenant_domain) table" where [identity_tables]:
  "tenant_domains_table = \<lparr>rows_of = tenant_domains, upd_rows = tenant_domains_update, key_of = td_id,
     using_policy = open_policy, check_policy = own td_tenant, clashes = tenant_domain_clash\<rparr>"

definition app_catalog_table :: "(identity_db, catalog_app) table" where [identity_tables]:
  "app_catalog_table = \<lparr>rows_of = app_catalog, upd_rows = app_catalog_update, key_of = ca_id,
     using_policy = open_policy, check_policy = open_policy, clashes = catalog_app_clash\<rparr>"

definition tenant_apps_table :: "(identity_db, tenant_app) table" where [identity_tables]:
  "tenant_apps_table = \<lparr>rows_of = tenant_apps, upd_rows = tenant_apps_update, key_of = tap_id,
     using_policy = own tap_tenant, check_policy = own tap_tenant, clashes = tenant_app_clash\<rparr>"

definition tenant_settings_rows_table :: "(identity_db, tenant_settings) table" where [identity_tables]:
  "tenant_settings_rows_table = \<lparr>rows_of = tenant_settings_rows, upd_rows = tenant_settings_rows_update, key_of = tst_id,
     using_policy = own tst_tenant, check_policy = own tst_tenant, clashes = tenant_settings_clash\<rparr>"

definition tenant_brandings_table :: "(identity_db, tenant_branding) table" where [identity_tables]:
  "tenant_brandings_table = \<lparr>rows_of = tenant_brandings, upd_rows = tenant_brandings_update, key_of = tb_id,
     using_policy = own tb_tenant, check_policy = own tb_tenant, clashes = tenant_branding_clash\<rparr>"

definition tenant_users_table :: "(identity_db, tenant_user) table" where [identity_tables]:
  "tenant_users_table = \<lparr>rows_of = tenant_users, upd_rows = tenant_users_update, key_of = tu_id,
     using_policy = member_policy, check_policy = own tu_tenant, clashes = tenant_user_clash\<rparr>"

definition users_table :: "(identity_db, user) table" where [identity_tables]:
  "users_table = \<lparr>rows_of = users, upd_rows = users_update, key_of = us_id,
     using_policy = own_or_self us_tenant us_id, check_policy = own_or_platform us_tenant, clashes = user_clash\<rparr>"

definition user_profiles_table :: "(identity_db, user_profile) table" where [identity_tables]:
  "user_profiles_table = \<lparr>rows_of = user_profiles, upd_rows = user_profiles_update, key_of = uf_id,
     using_policy = own_or_self uf_tenant uf_user, check_policy = own_or_platform uf_tenant, clashes = user_profile_clash\<rparr>"

definition roles_table :: "(identity_db, role) table" where [identity_tables]:
  "roles_table = \<lparr>rows_of = roles, upd_rows = roles_update, key_of = ro_id,
     using_policy = own_or_platform ro_tenant, check_policy = own_or_platform ro_tenant, clashes = role_clash\<rparr>"

definition permissions_table :: "(identity_db, permission) table" where [identity_tables]:
  "permissions_table = \<lparr>rows_of = permissions, upd_rows = permissions_update, key_of = pm_id,
     using_policy = open_policy, check_policy = open_policy, clashes = permission_clash\<rparr>"

definition role_permissions_table :: "(identity_db, role_permission) table" where [identity_tables]:
  "role_permissions_table = \<lparr>rows_of = role_permissions, upd_rows = role_permissions_update, key_of = rp_id,
     using_policy = own_or_platform rp_tenant, check_policy = own_or_platform rp_tenant, clashes = role_permission_clash\<rparr>"

definition user_roles_table :: "(identity_db, user_role) table" where [identity_tables]:
  "user_roles_table = \<lparr>rows_of = user_roles, upd_rows = user_roles_update, key_of = ur_id,
     using_policy = own_or_self ur_tenant ur_user, check_policy = own_or_self ur_tenant ur_user, clashes = user_role_clash\<rparr>"

definition refresh_tokens_table :: "(identity_db, refresh_token) table" where [identity_tables]:
  "refresh_tokens_table = \<lparr>rows_of = refresh_tokens, upd_rows = refresh_tokens_update, key_of = rt_id,
     using_policy = own_or_self rt_tenant rt_user, check_policy = own_or_self rt_tenant rt_user, clashes = refresh_token_clash\<rparr>"

definition login_sessions_table :: "(identity_db, login_session) table" where [identity_tables]:
  "login_sessions_table = \<lparr>rows_of = login_sessions, upd_rows = login_sessions_update, key_of = lgs_id,
     using_policy = own_or_self lgs_tenant lgs_user, check_policy = own_or_self lgs_tenant lgs_user, clashes = never_clash\<rparr>"

definition login_histories_table :: "(identity_db, login_history) table" where [identity_tables]:
  "login_histories_table = \<lparr>rows_of = login_histories, upd_rows = login_histories_update, key_of = lh_id,
     using_policy = own_or_platform lh_tenant, check_policy = own_or_platform lh_tenant, clashes = never_clash\<rparr>"

definition password_reset_tokens_table :: "(identity_db, password_reset_token) table" where [identity_tables]:
  "password_reset_tokens_table = \<lparr>rows_of = password_reset_tokens, upd_rows = password_reset_tokens_update, key_of = pw_id,
     using_policy = own_or_self pw_tenant pw_user, check_policy = own_or_self pw_tenant pw_user, clashes = password_reset_clash\<rparr>"

definition academic_years_table :: "(identity_db, academic_year) table" where [identity_tables]:
  "academic_years_table = \<lparr>rows_of = academic_years, upd_rows = academic_years_update, key_of = ay_id,
     using_policy = own ay_tenant, check_policy = own ay_tenant, clashes = academic_year_clash\<rparr>"

definition grading_rules_table :: "(identity_db, grading_rule) table" where [identity_tables]:
  "grading_rules_table = \<lparr>rows_of = grading_rules, upd_rows = grading_rules_update, key_of = gr_id,
     using_policy = own gr_tenant, check_policy = own gr_tenant, clashes = grading_rule_clash\<rparr>"

definition attendance_rules_table :: "(identity_db, attendance_rule) table" where [identity_tables]:
  "attendance_rules_table = \<lparr>rows_of = attendance_rules, upd_rows = attendance_rules_update, key_of = ar_id,
     using_policy = own ar_tenant, check_policy = own ar_tenant, clashes = attendance_rule_clash\<rparr>"

definition app_settings_table :: "(identity_db, app_setting) table" where [identity_tables]:
  "app_settings_table = \<lparr>rows_of = app_settings, upd_rows = app_settings_update, key_of = ast_id,
     using_policy = own ast_tenant, check_policy = own ast_tenant, clashes = app_setting_clash\<rparr>"

definition invitation_tokens_table :: "(identity_db, invitation_token) table" where [identity_tables]:
  "invitation_tokens_table = \<lparr>rows_of = invitation_tokens, upd_rows = invitation_tokens_update, key_of = iv_id,
     using_policy = own iv_tenant, check_policy = own iv_tenant, clashes = invitation_clash\<rparr>"

interpretation tenants_tbl: lawful_table tenants_table
  by unfold_locales (auto simp: identity_tables identity_clash_defs)

interpretation tenant_domains_tbl: lawful_table tenant_domains_table
  by unfold_locales (auto simp: identity_tables identity_clash_defs)

interpretation app_catalog_tbl: lawful_table app_catalog_table
  by unfold_locales (auto simp: identity_tables identity_clash_defs)

interpretation tenant_apps_tbl: lawful_table tenant_apps_table
  by unfold_locales (auto simp: identity_tables identity_clash_defs)

interpretation tenant_settings_rows_tbl: lawful_table tenant_settings_rows_table
  by unfold_locales (auto simp: identity_tables identity_clash_defs)

interpretation tenant_brandings_tbl: lawful_table tenant_brandings_table
  by unfold_locales (auto simp: identity_tables identity_clash_defs)

interpretation tenant_users_tbl: lawful_table tenant_users_table
  by unfold_locales (auto simp: identity_tables identity_clash_defs)

interpretation users_tbl: lawful_table users_table
  by unfold_locales (auto simp: identity_tables identity_clash_defs)

interpretation user_profiles_tbl: lawful_table user_profiles_table
  by unfold_locales (auto simp: identity_tables identity_clash_defs)

interpretation roles_tbl: lawful_table roles_table
  by unfold_locales (auto simp: identity_tables identity_clash_defs)

interpretation permissions_tbl: lawful_table permissions_table
  by unfold_locales (auto simp: identity_tables identity_clash_defs)

interpretation role_permissions_tbl: lawful_table role_permissions_table
  by unfold_locales (auto simp: identity_tables identity_clash_defs)

interpretation user_roles_tbl: lawful_table user_roles_table
  by unfold_locales (auto simp: identity_tables identity_clash_defs)

interpretation refresh_tokens_tbl: lawful_table refresh_tokens_table
  by unfold_locales (auto simp: identity_tables identity_clash_defs)

interpretation login_sessions_tbl: lawful_table login_sessions_table
  by unfold_locales (auto simp: identity_tables identity_clash_defs)

interpretation login_histories_tbl: lawful_table login_histories_table
  by unfold_locales (auto simp: identity_tables identity_clash_defs)

interpretation password_reset_tokens_tbl: lawful_table password_reset_tokens_table
  by unfold_locales (auto simp: identity_tables identity_clash_defs)

interpretation academic_years_tbl: lawful_table academic_years_table
  by unfold_locales (auto simp: identity_tables identity_clash_defs)

interpretation grading_rules_tbl: lawful_table grading_rules_table
  by unfold_locales (auto simp: identity_tables identity_clash_defs)

interpretation attendance_rules_tbl: lawful_table attendance_rules_table
  by unfold_locales (auto simp: identity_tables identity_clash_defs)

interpretation app_settings_tbl: lawful_table app_settings_table
  by unfold_locales (auto simp: identity_tables identity_clash_defs)

interpretation invitation_tokens_tbl: lawful_table invitation_tokens_table
  by unfold_locales (auto simp: identity_tables identity_clash_defs)

lemma identity_rows:
  "rows tenants_table s = tenants (working s)"
  "rows tenant_domains_table s = tenant_domains (working s)"
  "rows app_catalog_table s = app_catalog (working s)"
  "rows tenant_apps_table s = tenant_apps (working s)"
  "rows tenant_settings_rows_table s = tenant_settings_rows (working s)"
  "rows tenant_brandings_table s = tenant_brandings (working s)"
  "rows tenant_users_table s = tenant_users (working s)"
  "rows users_table s = users (working s)"
  "rows user_profiles_table s = user_profiles (working s)"
  "rows roles_table s = roles (working s)"
  "rows permissions_table s = permissions (working s)"
  "rows role_permissions_table s = role_permissions (working s)"
  "rows user_roles_table s = user_roles (working s)"
  "rows refresh_tokens_table s = refresh_tokens (working s)"
  "rows login_sessions_table s = login_sessions (working s)"
  "rows login_histories_table s = login_histories (working s)"
  "rows password_reset_tokens_table s = password_reset_tokens (working s)"
  "rows academic_years_table s = academic_years (working s)"
  "rows grading_rules_table s = grading_rules (working s)"
  "rows attendance_rules_table s = attendance_rules (working s)"
  "rows app_settings_table s = app_settings (working s)"
  "rows invitation_tokens_table s = invitation_tokens (working s)"
  by (simp_all add: rows_def identity_tables)

lemma identity_visible:
  "visible tenants_table s r0 = open_policy (rls_tenant s) (rls_user s) r0"
  "visible tenant_domains_table s r1 = open_policy (rls_tenant s) (rls_user s) r1"
  "visible app_catalog_table s r2 = open_policy (rls_tenant s) (rls_user s) r2"
  "visible tenant_apps_table s r3 = own tap_tenant (rls_tenant s) (rls_user s) r3"
  "visible tenant_settings_rows_table s r4 = own tst_tenant (rls_tenant s) (rls_user s) r4"
  "visible tenant_brandings_table s r5 = own tb_tenant (rls_tenant s) (rls_user s) r5"
  "visible tenant_users_table s r6 = member_policy (rls_tenant s) (rls_user s) r6"
  "visible users_table s r7 = own_or_self us_tenant us_id (rls_tenant s) (rls_user s) r7"
  "visible user_profiles_table s r8 = own_or_self uf_tenant uf_user (rls_tenant s) (rls_user s) r8"
  "visible roles_table s r9 = own_or_platform ro_tenant (rls_tenant s) (rls_user s) r9"
  "visible permissions_table s r10 = open_policy (rls_tenant s) (rls_user s) r10"
  "visible role_permissions_table s r11 = own_or_platform rp_tenant (rls_tenant s) (rls_user s) r11"
  "visible user_roles_table s r12 = own_or_self ur_tenant ur_user (rls_tenant s) (rls_user s) r12"
  "visible refresh_tokens_table s r13 = own_or_self rt_tenant rt_user (rls_tenant s) (rls_user s) r13"
  "visible login_sessions_table s r14 = own_or_self lgs_tenant lgs_user (rls_tenant s) (rls_user s) r14"
  "visible login_histories_table s r15 = own_or_platform lh_tenant (rls_tenant s) (rls_user s) r15"
  "visible password_reset_tokens_table s r16 = own_or_self pw_tenant pw_user (rls_tenant s) (rls_user s) r16"
  "visible academic_years_table s r17 = own ay_tenant (rls_tenant s) (rls_user s) r17"
  "visible grading_rules_table s r18 = own gr_tenant (rls_tenant s) (rls_user s) r18"
  "visible attendance_rules_table s r19 = own ar_tenant (rls_tenant s) (rls_user s) r19"
  "visible app_settings_table s r20 = own ast_tenant (rls_tenant s) (rls_user s) r20"
  "visible invitation_tokens_table s r21 = own iv_tenant (rls_tenant s) (rls_user s) r21"
  by (simp_all add: visible_def identity_tables)

lemma identity_writable:
  "writable tenants_table s r0 = open_policy (rls_tenant s) (rls_user s) r0"
  "writable tenant_domains_table s r1 = own td_tenant (rls_tenant s) (rls_user s) r1"
  "writable app_catalog_table s r2 = open_policy (rls_tenant s) (rls_user s) r2"
  "writable tenant_apps_table s r3 = own tap_tenant (rls_tenant s) (rls_user s) r3"
  "writable tenant_settings_rows_table s r4 = own tst_tenant (rls_tenant s) (rls_user s) r4"
  "writable tenant_brandings_table s r5 = own tb_tenant (rls_tenant s) (rls_user s) r5"
  "writable tenant_users_table s r6 = own tu_tenant (rls_tenant s) (rls_user s) r6"
  "writable users_table s r7 = own_or_platform us_tenant (rls_tenant s) (rls_user s) r7"
  "writable user_profiles_table s r8 = own_or_platform uf_tenant (rls_tenant s) (rls_user s) r8"
  "writable roles_table s r9 = own_or_platform ro_tenant (rls_tenant s) (rls_user s) r9"
  "writable permissions_table s r10 = open_policy (rls_tenant s) (rls_user s) r10"
  "writable role_permissions_table s r11 = own_or_platform rp_tenant (rls_tenant s) (rls_user s) r11"
  "writable user_roles_table s r12 = own_or_self ur_tenant ur_user (rls_tenant s) (rls_user s) r12"
  "writable refresh_tokens_table s r13 = own_or_self rt_tenant rt_user (rls_tenant s) (rls_user s) r13"
  "writable login_sessions_table s r14 = own_or_self lgs_tenant lgs_user (rls_tenant s) (rls_user s) r14"
  "writable login_histories_table s r15 = own_or_platform lh_tenant (rls_tenant s) (rls_user s) r15"
  "writable password_reset_tokens_table s r16 = own_or_self pw_tenant pw_user (rls_tenant s) (rls_user s) r16"
  "writable academic_years_table s r17 = own ay_tenant (rls_tenant s) (rls_user s) r17"
  "writable grading_rules_table s r18 = own gr_tenant (rls_tenant s) (rls_user s) r18"
  "writable attendance_rules_table s r19 = own ar_tenant (rls_tenant s) (rls_user s) r19"
  "writable app_settings_table s r20 = own ast_tenant (rls_tenant s) (rls_user s) r20"
  "writable invitation_tokens_table s r21 = own iv_tenant (rls_tenant s) (rls_user s) r21"
  by (simp_all add: writable_def identity_tables)

lemma identity_keys [simp]:
  "key_of tenants_table = tn_id"
  "key_of tenant_domains_table = td_id"
  "key_of app_catalog_table = ca_id"
  "key_of tenant_apps_table = tap_id"
  "key_of tenant_settings_rows_table = tst_id"
  "key_of tenant_brandings_table = tb_id"
  "key_of tenant_users_table = tu_id"
  "key_of users_table = us_id"
  "key_of user_profiles_table = uf_id"
  "key_of roles_table = ro_id"
  "key_of permissions_table = pm_id"
  "key_of role_permissions_table = rp_id"
  "key_of user_roles_table = ur_id"
  "key_of refresh_tokens_table = rt_id"
  "key_of login_sessions_table = lgs_id"
  "key_of login_histories_table = lh_id"
  "key_of password_reset_tokens_table = pw_id"
  "key_of academic_years_table = ay_id"
  "key_of grading_rules_table = gr_id"
  "key_of attendance_rules_table = ar_id"
  "key_of app_settings_table = ast_id"
  "key_of invitation_tokens_table = iv_id"
  by (simp_all add: identity_tables)

lemma identity_clashes [simp]:
  "clashes tenants_table = tenant_clash"
  "clashes tenant_domains_table = tenant_domain_clash"
  "clashes app_catalog_table = catalog_app_clash"
  "clashes tenant_apps_table = tenant_app_clash"
  "clashes tenant_settings_rows_table = tenant_settings_clash"
  "clashes tenant_brandings_table = tenant_branding_clash"
  "clashes tenant_users_table = tenant_user_clash"
  "clashes users_table = user_clash"
  "clashes user_profiles_table = user_profile_clash"
  "clashes roles_table = role_clash"
  "clashes permissions_table = permission_clash"
  "clashes role_permissions_table = role_permission_clash"
  "clashes user_roles_table = user_role_clash"
  "clashes refresh_tokens_table = refresh_token_clash"
  "clashes login_sessions_table = never_clash"
  "clashes login_histories_table = never_clash"
  "clashes password_reset_tokens_table = password_reset_clash"
  "clashes academic_years_table = academic_year_clash"
  "clashes grading_rules_table = grading_rule_clash"
  "clashes attendance_rules_table = attendance_rule_clash"
  "clashes app_settings_table = app_setting_clash"
  "clashes invitation_tokens_table = invitation_clash"
  by (simp_all add: identity_tables)

lemma identity_upd [simp]:
  "upd_rows tenants_table = tenants_update"
  "upd_rows tenant_domains_table = tenant_domains_update"
  "upd_rows app_catalog_table = app_catalog_update"
  "upd_rows tenant_apps_table = tenant_apps_update"
  "upd_rows tenant_settings_rows_table = tenant_settings_rows_update"
  "upd_rows tenant_brandings_table = tenant_brandings_update"
  "upd_rows tenant_users_table = tenant_users_update"
  "upd_rows users_table = users_update"
  "upd_rows user_profiles_table = user_profiles_update"
  "upd_rows roles_table = roles_update"
  "upd_rows permissions_table = permissions_update"
  "upd_rows role_permissions_table = role_permissions_update"
  "upd_rows user_roles_table = user_roles_update"
  "upd_rows refresh_tokens_table = refresh_tokens_update"
  "upd_rows login_sessions_table = login_sessions_update"
  "upd_rows login_histories_table = login_histories_update"
  "upd_rows password_reset_tokens_table = password_reset_tokens_update"
  "upd_rows academic_years_table = academic_years_update"
  "upd_rows grading_rules_table = grading_rules_update"
  "upd_rows attendance_rules_table = attendance_rules_update"
  "upd_rows app_settings_table = app_settings_update"
  "upd_rows invitation_tokens_table = invitation_tokens_update"
  by (simp_all add: identity_tables)

end
