(* ===== verification/Security.thy ===== *)
theory Security
  imports Identity_Model Platform
begin

text \<open>
  Hashes and tokens (app/core/security.py).

  Code outside the repository enters as the record \<open>auth\<close>: SHA-256 (hashlib) as a hexadecimal string,
  Argon2 (argon2-cffi; a hash that is malformed makes \<open>verify\<close> raise, the value None), RS256 JSON web
  tokens (PyJWT; \<open>jwt_decode\<close> takes the clock in seconds, the audience and the issuer, and yields None for
  every PyJWTError), with the settings of app/core/config.py the operations read.
\<close>

section \<open>Parameters\<close>

record auth =
  sha256_hex :: "string \<Rightarrow> string"
  argon_hash :: "string \<Rightarrow> string \<Rightarrow> string"
  argon_verify :: "string \<Rightarrow> string \<Rightarrow> bool option"
  jwt_encode :: "json \<Rightarrow> string"
  jwt_decode :: "int \<Rightarrow> string \<Rightarrow> string \<Rightarrow> string \<Rightarrow> json option"
  jwt_issuer :: string
  jwt_audience :: string
  access_token_ttl_minutes :: int
  refresh_token_ttl_days :: int
  password_reset_token_ttl_minutes :: int
  invitation_token_ttl_days :: int
  login_rate_limit_attempts :: nat
  login_rate_limit_window_seconds :: int

definition usec_per_second :: int where
  "usec_per_second = 1000000"

definition set_tenant_if :: "uuid option \<Rightarrow> ('d, unit) op" where
  "set_tenant_if tenant = (case tenant of None \<Rightarrow> return_tx () | Some t \<Rightarrow> set_current_tenant t)"

section \<open>Secrets and access tokens\<close>

definition hash_password :: "auth \<Rightarrow> string \<Rightarrow> ('d, string) op" where
  "hash_password A password = bind_tx token_urlsafe (\<lambda>salt. return_tx (argon_hash A salt password))"

definition verify_password :: "auth \<Rightarrow> string \<Rightarrow> string \<Rightarrow> ('d, bool) op" where
  "verify_password A password password_hash = (case argon_verify A password_hash password of
     None \<Rightarrow> raise_tx (Python_Error ''VerificationError'') | Some b \<Rightarrow> return_tx b)"

text \<open>\<open>int(now.timestamp())\<close>: the whole seconds since the epoch, which is where the clock starts.\<close>

definition timestamp :: "int \<Rightarrow> int" where
  "timestamp usec = usec div usec_per_second"

definition user_type_value :: "user_type \<Rightarrow> string" where
  "user_type_value ty = (case ty of PLATFORM_ADMIN \<Rightarrow> ''platform_admin'' | INSTITUTION_ADMIN \<Rightarrow> ''institution_admin''
     | EMPLOYEE_USER \<Rightarrow> ''employee'' | TEACHER_USER \<Rightarrow> ''teacher'' | STUDENT_USER \<Rightarrow> ''student''
     | GUARDIAN_USER \<Rightarrow> ''guardian'')"

definition access_claims :: "auth \<Rightarrow> uuid \<Rightarrow> uuid option \<Rightarrow> user_type \<Rightarrow> uuid \<Rightarrow> int \<Rightarrow> json" where
  "access_claims A subject tenant ty jti now =
     JObj ([(''iss'', JStr (jwt_issuer A)), (''aud'', JStr (jwt_audience A)), (''sub'', JStr (uuid_str subject)),
       (''typ'', JStr ''access''), (''jti'', JStr (uuid_str jti)), (''user_type'', JStr (user_type_value ty)),
       (''iat'', json_int (timestamp now)), (''nbf'', json_int (timestamp now)),
       (''exp'', json_int (timestamp (now + access_token_ttl_minutes A * usec_per_minute)))] @
       (case tenant of None \<Rightarrow> [] | Some t \<Rightarrow> [(''tid'', JStr (uuid_str t))]))"

definition create_access_token :: "auth \<Rightarrow> uuid \<Rightarrow> uuid option \<Rightarrow> user_type \<Rightarrow> ('d, string) op" where
  "create_access_token A subject tenant ty =
     bind_tx now_utc (\<lambda>now. bind_tx uuid4 (\<lambda>jti.
     return_tx (jwt_encode A (access_claims A subject tenant ty jti now))))"

definition decode_access_token :: "auth \<Rightarrow> string \<Rightarrow> ('d, json) op" where
  "decode_access_token A token = bind_tx now_utc (\<lambda>now.
     case jwt_decode A (timestamp now) (jwt_audience A) (jwt_issuer A) token of
       None \<Rightarrow> abort ''invalid_token'' 401
     | Some payload \<Rightarrow> if json_get payload ''typ'' JNull \<noteq> JStr ''access''
         then abort ''invalid_token_type'' 401 else return_tx payload)"

text \<open>\<open>header.partition(' ')\<close>\<close>

definition get_bearer_token :: "string option \<Rightarrow> ('d, string option) op" where
  "get_bearer_token header = (case header of None \<Rightarrow> return_tx None | Some h \<Rightarrow>
     if h = [] then return_tx None
     else let scheme = takeWhile (\<lambda>c. c \<noteq> CHR '' '') h; token = drop (Suc (length scheme)) h
       in if lower scheme \<noteq> ''bearer'' \<or> token = [] then abort ''invalid_authorization_header'' 401
          else return_tx (Some token))"

end
