(* ===== verification/Tenancy.thy ===== *)
theory Tenancy
  imports Security
begin

text \<open>
  Tenants (app/modules/tenancy/service.py, repository.py, dependencies.py; app/core/feature_gates.py):
  their domains, settings and branding, the applications they subscribed to, the resolution of the tenant
  of a request and the gate that keeps the requests of a disabled application out.
\<close>

section \<open>Payloads\<close>

record tenant_create =
  tcr_name :: string
  tcr_legal_name :: "string option"
  tcr_slug :: string
  tcr_status :: tenant_status
  tcr_plan_type :: "string option"
  tcr_primary_domain :: "string option"

record tenant_domain_create =
  dcr_domain :: string
  dcr_is_primary :: bool
  dcr_verification_status :: tenant_domain_verification_status

record catalog_create =
  kcr_code :: string
  kcr_name :: string
  kcr_description :: "string option"
  kcr_category :: string
  kcr_is_core :: bool
  kcr_is_active :: bool

record tenant_app_upsert =
  tau_status :: tenant_app_status
  tau_subscription_status :: subscription_status
  tau_starts_at :: "datetime option"
  tau_ends_at :: "datetime option"
  tau_config :: json

record tenant_settings_update =
  tsu_timezone :: "string option field"
  tsu_locale :: "string option field"
  tsu_general_settings :: "json option field"
  tsu_notification_preferences :: "json option field"

record tenant_branding_update =
  tbu_logo_url :: "string option field"
  tbu_primary_color :: "string option field"
  tbu_secondary_color :: "string option field"
  tbu_accent_color :: "string option field"
  tbu_branding_settings :: "json option field"

record resolution_hints =
  rh_tenant :: "uuid option"
  rh_slug :: "string option"
  rh_domain :: "string option"
  rh_subdomain :: "string option"
  rh_user :: "uuid option"

record request_headers =
  hd_host :: "string option"
  hd_authorization :: "string option"
  hd_tenant_id :: "string option"
  hd_user_id :: "string option"
  hd_tenant_slug :: "string option"
  hd_tenant_domain :: "string option"

section \<open>Repositories\<close>

definition tenant_get_active :: "uuid \<Rightarrow> (identity_db, tenant option) op" where
  "tenant_get_active i = scalar tenants_table (\<lambda>r. tn_id r = i \<and> tn_deleted_at r = None)"

definition tenant_get_by_slug :: "string \<Rightarrow> (identity_db, tenant option) op" where
  "tenant_get_by_slug slug = scalar tenants_table (\<lambda>r. tn_slug r = slug \<and> tn_deleted_at r = None)"

definition tenant_get_by_domain :: "string \<Rightarrow> (identity_db, tenant option) op" where
  "tenant_get_by_domain domain =
     bind_tx (select_rows tenant_domains_table (\<lambda>d. td_domain d = domain)) (\<lambda>ds.
     scalar tenants_table (\<lambda>r. tn_deleted_at r = None \<and> list_ex (\<lambda>d. td_tenant d = tn_id r) ds))"

definition catalog_get_by_code :: "string \<Rightarrow> (identity_db, catalog_app option) op" where
  "catalog_get_by_code code = scalar app_catalog_table (\<lambda>r. ca_code r = code)"

definition list_app_catalog :: "(identity_db, catalog_app list) op" where
  "list_app_catalog = bind_tx (select_rows app_catalog_table (\<lambda>_. True)) (\<lambda>rs. return_tx (sort_key ca_code rs))"

definition tenant_app_get :: "uuid \<Rightarrow> string \<Rightarrow> (identity_db, tenant_app option) op" where
  "tenant_app_get tenant code = scalar tenant_apps_table (\<lambda>r. tap_tenant r = tenant \<and> tap_app_code r = code)"

definition get_active_membership :: "uuid \<Rightarrow> (identity_db, tenant_user option) op" where
  "get_active_membership user_id =
     bind_tx (select_rows tenant_users_table (\<lambda>r. tu_user r = user_id \<and> tu_status r = TU_ACTIVE)) (\<lambda>rs.
     return_tx (first_opt (sort_key tu_created_at rs)))"

section \<open>Tenants\<close>

definition get_tenant :: "uuid \<Rightarrow> (identity_db, tenant) op" where
  "get_tenant i = some_or_404 ''tenant_not_found'' (tenant_get_active i)"

definition create_tenant :: "tenant_create \<Rightarrow> (identity_db, tenant) op" where
  "create_tenant p = on_conflict ''tenant_conflict''
     (bind_tx uuid4 (\<lambda>i.
      bind_tx (insert_row tenants_table
        \<lparr>tn_id = i, tn_name = tcr_name p, tn_legal_name = tcr_legal_name p, tn_slug = tcr_slug p,
         tn_status = tcr_status p, tn_plan_type = tcr_plan_type p, tn_deleted_at = None\<rparr>) (\<lambda>tenant.
      bind_tx (set_current_tenant (tn_id tenant)) (\<lambda>_.
      bind_tx uuid4 (\<lambda>j.
      bind_tx (insert_row tenant_settings_rows_table
        \<lparr>tst_id = j, tst_tenant = tn_id tenant, tst_timezone = ''UTC'', tst_locale = ''en'',
         tst_general_settings = JObj [], tst_notification_preferences = JObj []\<rparr>) (\<lambda>_.
      bind_tx uuid4 (\<lambda>k.
      bind_tx (insert_row tenant_brandings_table
        \<lparr>tb_id = k, tb_tenant = tn_id tenant, tb_logo_url = None, tb_primary_color = None,
         tb_secondary_color = None, tb_accent_color = None, tb_branding_settings = JObj []\<rparr>) (\<lambda>_.
      bind_tx (case tcr_primary_domain p of None \<Rightarrow> return_tx () | Some d \<Rightarrow>
        if d = [] then return_tx ()
        else bind_tx uuid4 (\<lambda>l. bind_tx (insert_row tenant_domains_table
          \<lparr>td_id = l, td_tenant = tn_id tenant, td_domain = d, td_is_primary = True,
           td_verification_status = TDV_PENDING\<rparr>) (\<lambda>_. return_tx ()))) (\<lambda>_.
      bind_tx commit_tx (\<lambda>_.
      return_tx tenant))))))))))"

definition create_domain :: "uuid \<Rightarrow> tenant_domain_create \<Rightarrow> (identity_db, tenant_domain) op" where
  "create_domain tenant p =
     bind_tx (get_tenant tenant) (\<lambda>_.
     bind_tx (set_current_tenant tenant) (\<lambda>_.
     on_conflict ''tenant_domain_conflict''
       (bind_tx uuid4 (\<lambda>i.
        bind_tx (insert_row tenant_domains_table
          \<lparr>td_id = i, td_tenant = tenant, td_domain = dcr_domain p, td_is_primary = dcr_is_primary p,
           td_verification_status = dcr_verification_status p\<rparr>) (\<lambda>d.
        bind_tx commit_tx (\<lambda>_.
        return_tx d))))))"

definition add_tenant_user :: "uuid \<Rightarrow> uuid \<Rightarrow> tenant_user_status \<Rightarrow> bool \<Rightarrow> (identity_db, tenant_user) op" where
  "add_tenant_user tenant user_id st primary_admin =
     bind_tx (get_tenant tenant) (\<lambda>_.
     bind_tx (set_current_tenant tenant) (\<lambda>_.
     on_conflict ''tenant_user_conflict''
       (bind_tx now_utc (\<lambda>now.
        bind_tx uuid4 (\<lambda>i.
        bind_tx (insert_row tenant_users_table
          \<lparr>tu_id = i, tu_tenant = tenant, tu_user = user_id, tu_status = st,
           tu_is_primary_admin = primary_admin, tu_created_at = now\<rparr>) (\<lambda>u.
        bind_tx commit_tx (\<lambda>_.
        return_tx u)))))))"

section \<open>Applications\<close>

definition upsert_app_catalog :: "catalog_create \<Rightarrow> (identity_db, catalog_app) op" where
  "upsert_app_catalog p =
     bind_tx (catalog_get_by_code (kcr_code p)) (\<lambda>found.
     bind_tx (case found of
         None \<Rightarrow> bind_tx uuid4 (\<lambda>i. insert_row app_catalog_table
           \<lparr>ca_id = i, ca_code = kcr_code p, ca_name = kcr_name p, ca_description = kcr_description p,
            ca_category = kcr_category p, ca_is_core = kcr_is_core p, ca_is_active = kcr_is_active p\<rparr>)
       | Some r \<Rightarrow> save_row app_catalog_table (r\<lparr>ca_name := kcr_name p, ca_description := kcr_description p,
           ca_category := kcr_category p, ca_is_core := kcr_is_core p, ca_is_active := kcr_is_active p\<rparr>)) (\<lambda>app.
     bind_tx commit_tx (\<lambda>_.
     return_tx app)))"

text \<open>\<open>DEFAULT_APP_CATALOG\<close>: code, name, description, category and whether it is a core application.\<close>

definition default_app_catalog :: "(string \<times> string \<times> string option \<times> string \<times> bool) list" where
  "default_app_catalog =
    [(''prepaccess'', ''PrepAccess'', Some ''Authentication, IAM, RBAC, permissions, and audit-friendly security.'', ''core'', True),
     (''prepsettings'', ''PrepSettings'', Some ''Tenant settings, branding, app toggles, and institution configuration.'', ''core'', True),
     (''prepstudents'', ''PrepStudents'', Some ''Student lifecycle, guardians, batches, enrollments, and documents.'', ''learning'', False),
     (''preppeople'', ''PrepPeople'', Some ''Employees, teachers, departments, workload, and staff records.'', ''operations'', False),
     (''preplearn'', ''PrepLearn'', Some ''Courses, modules, lessons, content mapping, and publishing.'', ''learning'', False),
     (''prepquestion'', ''PrepQuestion'', Some ''Question bank, question sets, topics, and AI generation metadata.'', ''learning'', False),
     (''prepassess'', ''PrepAssess'', Some ''Assessments, assignments, evaluations, grading, and results.'', ''learning'', False),
     (''prepattend'', ''PrepAttend'', Some ''Student and employee attendance, corrections, and reports.'', ''operations'', False),
     (''preppayroll'', ''PrepPayroll'', Some ''Salary structures, payroll cycles, payslips, and payment status.'', ''finance'', False),
     (''preplive'', ''PrepLive'', Some ''Live class scheduling, access validation, and live service integration.'', ''learning'', False),
     (''prepprogress'', ''PrepProgress'', Some ''Student progress, teacher tracking, risk scoring, and analytics.'', ''analytics'', False),
     (''prepnotify'', ''PrepNotify'', Some ''Templates, campaigns, preferences, and delivery logs.'', ''communication'', False),
     (''prepbilling'', ''PrepBilling'', Some ''Tenant subscriptions, student subscriptions, invoices, and payments.'', ''finance'', False),
     (''prepadmissions'', ''PrepAdmissions'', Some ''Enquiries, leads, admission pipeline, and trial class booking.'', ''growth'', False),
     (''prepcrm'', ''PrepCRM'', Some ''Communication history, follow-ups, counsellor notes, and retention risk.'', ''growth'', False),
     (''prepcontent'', ''PrepContent'', Some ''Media library, learning resources, foldering, and access control.'', ''content'', False),
     (''prepreports'', ''PrepReports'', Some ''Custom reports, scheduled reports, exports, and report runs.'', ''analytics'', False),
     (''prepaudit'', ''PrepAudit'', Some ''Audit trail, data change history, and system activity.'', ''governance'', True),
     (''prepsupport'', ''PrepSupport'', Some ''Helpdesk tickets, messages, assignments, and SLA tracking.'', ''support'', False),
     (''prepmobile'', ''PrepMobile'', Some ''Mobile app configuration, menus, banners, and release rules.'', ''mobile'', False)]"

definition seed_default_app_catalog :: "(identity_db, catalog_app list) op" where
  "seed_default_app_catalog = for_each (\<lambda>(code, name, description, category, is_core).
     upsert_app_catalog \<lparr>kcr_code = code, kcr_name = name, kcr_description = description,
       kcr_category = category, kcr_is_core = is_core, kcr_is_active = True\<rparr>) default_app_catalog"

text \<open>An aware end in the past disables the application at once; comparing a naive one raises TypeError.\<close>

definition app_ended :: "datetime option \<Rightarrow> int \<Rightarrow> (identity_db, bool) op" where
  "app_ended ends_at now = (case ends_at of None \<Rightarrow> return_tx False
     | Some (Naive w) \<Rightarrow> raise_tx (Python_Error ''TypeError'')
     | Some (Aware w off) \<Rightarrow> return_tx (instant (Aware w off) < now))"

definition upsert_tenant_app :: "uuid \<Rightarrow> string \<Rightarrow> tenant_app_upsert \<Rightarrow> (identity_db, tenant_app) op" where
  "upsert_tenant_app tenant code p =
     bind_tx (get_tenant tenant) (\<lambda>_.
     bind_tx (catalog_get_by_code code) (\<lambda>entry.
     if (case entry of None \<Rightarrow> True | Some a \<Rightarrow> \<not> ca_is_active a) then abort ''app_not_found'' 404
     else bind_tx now_utc (\<lambda>now.
       bind_tx (app_ended (tau_ends_at p) now) (\<lambda>ended.
       let st = (if ended then APP_DISABLED else tau_status p)
       in bind_tx (set_current_tenant tenant) (\<lambda>_.
          bind_tx (tenant_app_get tenant code) (\<lambda>found.
          bind_tx (case found of
              None \<Rightarrow> bind_tx uuid4 (\<lambda>i. insert_row tenant_apps_table
                \<lparr>tap_id = i, tap_tenant = tenant, tap_app_code = code, tap_status = st,
                 tap_subscription_status = tau_subscription_status p,
                 tap_starts_at = map_option instant (tau_starts_at p),
                 tap_ends_at = map_option instant (tau_ends_at p), tap_config = tau_config p\<rparr>)
            | Some r \<Rightarrow> save_row tenant_apps_table (r\<lparr>tap_status := st,
                tap_subscription_status := tau_subscription_status p,
                tap_starts_at := map_option instant (tau_starts_at p),
                tap_ends_at := map_option instant (tau_ends_at p), tap_config := tau_config p\<rparr>)) (\<lambda>app.
          bind_tx commit_tx (\<lambda>_.
          return_tx app))))))))"

definition list_tenant_apps :: "tenant_context \<Rightarrow> (identity_db, tenant_app list) op" where
  "list_tenant_apps ctx = bind_tx (require_tenant_id ctx) (\<lambda>tenant.
     bind_tx (select_rows tenant_apps_table (\<lambda>r. tap_tenant r = tenant)) (\<lambda>rs.
     return_tx (sort_key tap_app_code rs)))"

definition app_usable :: "tenant_app \<Rightarrow> int \<Rightarrow> bool" where
  "app_usable a now \<longleftrightarrow> (tap_status a = APP_ENABLED \<or> tap_status a = APP_TRIAL) \<and>
     (tap_subscription_status a = SUB_ACTIVE \<or> tap_subscription_status a = SUB_TRIAL) \<and>
     (case tap_ends_at a of None \<Rightarrow> True | Some e \<Rightarrow> now \<le> e)"

definition is_app_enabled :: "tenant_context \<Rightarrow> string \<Rightarrow> (identity_db, bool) op" where
  "is_app_enabled ctx code = (case ctx_tenant ctx of None \<Rightarrow> return_tx False
     | Some tenant \<Rightarrow> bind_tx (tenant_app_get tenant code) (\<lambda>found. case found of
         None \<Rightarrow> return_tx False
       | Some a \<Rightarrow> bind_tx now_utc (\<lambda>now. return_tx (app_usable a now))))"

definition require_app_enabled :: "tenant_context \<Rightarrow> string \<Rightarrow> (identity_db, unit) op" where
  "require_app_enabled ctx code = bind_tx (is_app_enabled ctx code) (\<lambda>enabled.
     if enabled then return_tx () else abort ''app_disabled'' 403)"

section \<open>Settings and branding\<close>

definition ensure_tenant_access :: "uuid \<Rightarrow> tenant_context \<Rightarrow> (identity_db, unit) op" where
  "ensure_tenant_access owner ctx = bind_tx (require_tenant_id ctx) (\<lambda>tenant.
     if owner \<noteq> tenant then abort ''tenant_access_denied'' 403 else return_tx ())"

definition get_tenant_settings :: "tenant_context \<Rightarrow> (identity_db, tenant_settings) op" where
  "get_tenant_settings ctx = bind_tx (require_tenant_id ctx) (\<lambda>tenant.
     bind_tx (some_or_404 ''tenant_settings_not_found''
       (scalar tenant_settings_rows_table (\<lambda>r. tst_tenant r = tenant))) (\<lambda>r.
     bind_tx (ensure_tenant_access (tst_tenant r) ctx) (\<lambda>_. return_tx r)))"

definition json_assign :: "json option field \<Rightarrow> json \<Rightarrow> json" where
  "json_assign f old = (case f of Unset \<Rightarrow> old | Assigned None \<Rightarrow> JNull | Assigned (Some v) \<Rightarrow> v)"

definition update_tenant_settings :: "tenant_context \<Rightarrow> tenant_settings_update \<Rightarrow> (identity_db, tenant_settings) op" where
  "update_tenant_settings ctx p = bind_tx (get_tenant_settings ctx) (\<lambda>r.
     bind_tx (flush_update tenant_settings_rows_table (is_null (tsu_timezone p) \<or> is_null (tsu_locale p))
       (r\<lparr>tst_timezone := assign_required (tsu_timezone p) (tst_timezone r),
         tst_locale := assign_required (tsu_locale p) (tst_locale r),
         tst_general_settings := json_assign (tsu_general_settings p) (tst_general_settings r),
         tst_notification_preferences :=
           json_assign (tsu_notification_preferences p) (tst_notification_preferences r)\<rparr>)) (\<lambda>saved.
     bind_tx commit_tx (\<lambda>_. return_tx saved)))"

definition get_tenant_branding :: "tenant_context \<Rightarrow> (identity_db, tenant_branding) op" where
  "get_tenant_branding ctx = bind_tx (require_tenant_id ctx) (\<lambda>tenant.
     bind_tx (some_or_404 ''tenant_branding_not_found''
       (scalar tenant_brandings_table (\<lambda>r. tb_tenant r = tenant))) (\<lambda>r.
     bind_tx (ensure_tenant_access (tb_tenant r) ctx) (\<lambda>_. return_tx r)))"

definition update_tenant_branding :: "tenant_context \<Rightarrow> tenant_branding_update \<Rightarrow> (identity_db, tenant_branding) op" where
  "update_tenant_branding ctx p = bind_tx (get_tenant_branding ctx) (\<lambda>r.
     bind_tx (save_row tenant_brandings_table
       (r\<lparr>tb_logo_url := assign (tbu_logo_url p) (tb_logo_url r),
         tb_primary_color := assign (tbu_primary_color p) (tb_primary_color r),
         tb_secondary_color := assign (tbu_secondary_color p) (tb_secondary_color r),
         tb_accent_color := assign (tbu_accent_color p) (tb_accent_color r),
         tb_branding_settings := json_assign (tbu_branding_settings p) (tb_branding_settings r)\<rparr>)) (\<lambda>saved.
     bind_tx commit_tx (\<lambda>_. return_tx saved)))"

section \<open>The tenant of a request\<close>

definition unresolved :: tenant_context where
  "unresolved = \<lparr>ctx_tenant = None, ctx_source = UNRESOLVED, ctx_slug = None, ctx_domain = None, ctx_user = None\<rparr>"

definition context_from_tenant :: "tenant option \<Rightarrow> tenant_source \<Rightarrow> string option \<Rightarrow> string option \<Rightarrow> tenant_context" where
  "context_from_tenant found source slug domain = (case found of None \<Rightarrow> unresolved
     | Some t \<Rightarrow> \<lparr>ctx_tenant = Some (tn_id t), ctx_source = source, ctx_slug = slug, ctx_domain = domain,
         ctx_user = None\<rparr>)"

definition given :: "string option \<Rightarrow> bool" where
  "given v \<longleftrightarrow> v \<noteq> None \<and> v \<noteq> Some []"

definition resolve_member :: "resolution_hints \<Rightarrow> (identity_db, tenant_context) op" where
  "resolve_member h = (case rh_user h of None \<Rightarrow> return_tx unresolved
     | Some u \<Rightarrow> bind_tx (get_active_membership u) (\<lambda>found. return_tx (case found of None \<Rightarrow> unresolved
         | Some m \<Rightarrow> \<lparr>ctx_tenant = Some (tu_tenant m), ctx_source = AUTHENTICATED_USER, ctx_slug = None,
             ctx_domain = None, ctx_user = Some u\<rparr>)))"

definition resolve_subdomain :: "resolution_hints \<Rightarrow> (identity_db, tenant_context) op" where
  "resolve_subdomain h = (if \<not> given (rh_subdomain h) then resolve_member h
     else bind_tx (tenant_get_by_slug (the (rh_subdomain h))) (\<lambda>found.
       if found = None then resolve_member h
       else return_tx (context_from_tenant found SUBDOMAIN (rh_subdomain h) None)))"

definition resolve_tenant :: "resolution_hints \<Rightarrow> (identity_db, tenant_context) op" where
  "resolve_tenant h = (case rh_tenant h of
       Some i \<Rightarrow> bind_tx (tenant_get_active i) (\<lambda>found.
         return_tx (context_from_tenant found HEADER (rh_slug h) (rh_domain h)))
     | None \<Rightarrow> if given (rh_slug h)
         then bind_tx (tenant_get_by_slug (the (rh_slug h))) (\<lambda>found.
           return_tx (context_from_tenant found HEADER (rh_slug h) (rh_domain h)))
         else if given (rh_domain h)
         then bind_tx (tenant_get_by_domain (the (rh_domain h))) (\<lambda>found.
           if found = None then resolve_subdomain h
           else return_tx (context_from_tenant found SUBDOMAIN None (rh_domain h)))
         else resolve_subdomain h)"

definition parse_uuid_header :: "string option \<Rightarrow> (identity_db, uuid option) op" where
  "parse_uuid_header v = (if \<not> given v then return_tx None
     else case uuid_parse (the v) of None \<Rightarrow> abort ''invalid_header'' 400 | Some u \<Rightarrow> return_tx (Some u))"

definition request_host :: "request_headers \<Rightarrow> string option" where
  "request_host hs = (if \<not> given (hd_host hs) then None
     else Some (lower (takeWhile (\<lambda>c. c \<noteq> CHR '':'') (the (hd_host hs)))))"

fun split_dots :: "string \<Rightarrow> string list" where
  "split_dots [] = [[]]"
| "split_dots (c # cs) = (if c = CHR ''.'' then [] # split_dots cs
     else case split_dots cs of [] \<Rightarrow> [[c]] | part # parts \<Rightarrow> (c # part) # parts)"

definition extract_subdomain :: "string option \<Rightarrow> string option" where
  "extract_subdomain host = (case host of None \<Rightarrow> None
     | Some h \<Rightarrow> let parts = split_dots h; candidate = lower (hd parts)
         in if length parts < 3 \<or> candidate \<in> {''api'', ''app'', ''admin'', ''www'', ''localhost''} then None
            else Some candidate)"

definition claimed_uuid :: "uuid option \<Rightarrow> json \<Rightarrow> (identity_db, uuid option) op" where
  "claimed_uuid header claim = (case (header, claim) of
     (None, JStr t) \<Rightarrow> parse_uuid_header (Some t) | _ \<Rightarrow> return_tx header)"

definition lower_header :: "string option \<Rightarrow> string option" where
  "lower_header v = (if given v then map_option lower v else None)"

text \<open>The headers name the tenant first, then the claims of the token.\<close>

definition get_tenant_context :: "auth \<Rightarrow> request_headers \<Rightarrow> (identity_db, tenant_context) op" where
  "get_tenant_context A hs =
     (let host = request_host hs in
      bind_tx (get_bearer_token (hd_authorization hs)) (\<lambda>token.
      bind_tx (case token of None \<Rightarrow> return_tx (JObj []) | Some t \<Rightarrow> decode_access_token A t) (\<lambda>payload.
      bind_tx (parse_uuid_header (hd_tenant_id hs)) (\<lambda>header_tenant.
      bind_tx (parse_uuid_header (hd_user_id hs)) (\<lambda>header_user.
      bind_tx (claimed_uuid header_tenant (json_get payload ''tid'' JNull)) (\<lambda>tenant.
      bind_tx (claimed_uuid header_user (json_get payload ''sub'' JNull)) (\<lambda>user_id.
      bind_tx (case user_id of None \<Rightarrow> return_tx () | Some u \<Rightarrow> set_current_user u) (\<lambda>_.
      resolve_tenant \<lparr>rh_tenant = tenant, rh_slug = lower_header (hd_tenant_slug hs),
        rh_domain = (if given (hd_tenant_domain hs) then lower_header (hd_tenant_domain hs)
          else if given host then map_option lower host else None),
        rh_subdomain = extract_subdomain host, rh_user = user_id\<rparr>))))))))"

text \<open>The session of a request: its tenant must be known, and the session is scoped to it.\<close>

definition with_tenant_session :: "auth \<Rightarrow> request_headers \<Rightarrow> (tenant_context \<Rightarrow> (identity_db, 'a) op) \<Rightarrow>
    (identity_db, 'a) op" where
  "with_tenant_session A hs handler =
     bind_tx (get_tenant_context A hs) (\<lambda>ctx.
     bind_tx (require_tenant_id ctx) (\<lambda>tenant.
     bind_tx (set_current_tenant tenant) (\<lambda>_.
     handler ctx)))"

end
