(* ===== verification/Access.thy ===== *)
theory Access
  imports Tenancy
begin

text \<open>
  PrepAccess (app/modules/access/service.py, repository.py, dependencies.py):
  users, roles and permissions, logins and their rate limit, scoped opaque tokens, the rotation of
  refresh tokens, password resets, invitations, the principal of a request.
\<close>

section \<open>Payloads and answers\<close>

record register_request =
  rgr_tenant :: uuid
  rgr_email :: string
  rgr_password :: string
  rgr_first_name :: string
  rgr_last_name :: "string option"
  rgr_phone :: "string option"

record login_request =
  lgr_email :: string
  lgr_password :: string
  lgr_tenant :: "uuid option"

record request_metadata =
  md_ip_address :: "string option"
  md_user_agent :: "string option"

record invitation_accept =
  iva_token :: string
  iva_password :: string
  iva_first_name :: string
  iva_last_name :: "string option"

record role_create =
  rcr_tenant :: "uuid option"
  rcr_code :: string
  rcr_name :: string
  rcr_description :: "string option"
  rcr_permission_codes :: "string list"

record token_pair =
  tkp_access_token :: string
  tkp_refresh_token :: string
  tkp_expires_in :: int
  tkp_refresh_expires_at :: int

section \<open>Repositories\<close>

text \<open>\<open>tenant_filter\<close>: IS NULL or equality.\<close>

definition tenant_filter :: "uuid option \<Rightarrow> uuid option \<Rightarrow> bool" where
  "tenant_filter column tenant \<longleftrightarrow> column = tenant"

definition user_get :: "uuid \<Rightarrow> (identity_db, user option) op" where
  "user_get i = scalar users_table (\<lambda>r. us_id r = i \<and> us_deleted_at r = None)"

definition user_get_by_email :: "string \<Rightarrow> uuid option \<Rightarrow> (identity_db, user option) op" where
  "user_get_by_email email tenant = scalar users_table (\<lambda>r. us_email r = email \<and>
     tenant_filter (us_tenant r) tenant \<and> us_deleted_at r = None)"

definition users_by_email :: "string \<Rightarrow> (identity_db, user list) op" where
  "users_by_email email = select_rows users_table (\<lambda>r. us_email r = email \<and> us_deleted_at r = None)"

definition permission_get_by_code :: "string \<Rightarrow> (identity_db, permission option) op" where
  "permission_get_by_code code = scalar permissions_table (\<lambda>r. pm_code r = code)"

definition permissions_all :: "(identity_db, permission list) op" where
  "permissions_all = bind_tx (select_rows permissions_table (\<lambda>_. True)) (\<lambda>ps.
     return_tx (sort_key (\<lambda>p. (pm_app_code p, pm_resource p, pm_action p)) ps))"

definition permissions_by_codes :: "string list \<Rightarrow> (identity_db, permission list) op" where
  "permissions_by_codes codes = (if codes = [] then return_tx []
     else select_rows permissions_table (\<lambda>r. pm_code r \<in> set codes))"

definition role_get_by_code :: "string \<Rightarrow> uuid option \<Rightarrow> (identity_db, role option) op" where
  "role_get_by_code code tenant = scalar roles_table (\<lambda>r. ro_code r = code \<and>
     tenant_filter (ro_tenant r) tenant \<and> ro_deleted_at r = None)"

definition role_get :: "uuid \<Rightarrow> (identity_db, role option) op" where
  "role_get i = scalar roles_table (\<lambda>r. ro_id r = i \<and> ro_deleted_at r = None)"

text \<open>Roles of no tenant come first (NULLS FIRST), then by code.\<close>

definition roles_for_tenant :: "uuid option \<Rightarrow> (identity_db, role list) op" where
  "roles_for_tenant tenant = bind_tx (select_rows roles_table (\<lambda>r. ro_deleted_at r = None \<and>
       ((tenant \<noteq> None \<and> ro_tenant r = tenant) \<or> ro_tenant r = None))) (\<lambda>rs.
     return_tx (sort_key (\<lambda>r. (case ro_tenant r of None \<Rightarrow> 0 | Some t \<Rightarrow> Suc t, ro_code r)) rs))"

definition user_role_get :: "uuid option \<Rightarrow> uuid \<Rightarrow> uuid \<Rightarrow> (identity_db, user_role option) op" where
  "user_role_get tenant user_id role_id = scalar user_roles_table (\<lambda>r.
     tenant_filter (ur_tenant r) tenant \<and> ur_user r = user_id \<and> ur_role r = role_id)"

text \<open>The join of permissions, role permissions, roles and user roles, each under its policy.\<close>

definition list_permission_codes :: "uuid \<Rightarrow> uuid option \<Rightarrow> (identity_db, string list) op" where
  "list_permission_codes user_id tenant =
     bind_tx (select_rows user_roles_table (\<lambda>r. ur_user r = user_id \<and> tenant_filter (ur_tenant r) tenant)) (\<lambda>urs.
     bind_tx (select_rows roles_table (\<lambda>r. ro_deleted_at r = None)) (\<lambda>rs.
     bind_tx (select_rows role_permissions_table (\<lambda>_. True)) (\<lambda>rps.
     bind_tx (select_rows permissions_table (\<lambda>r. pm_is_active r)) (\<lambda>ps.
     return_tx (remdups (map pm_code (filter (\<lambda>p. list_ex (\<lambda>rp. rp_permission rp = pm_id p \<and>
       list_ex (\<lambda>r. ro_id r = rp_role rp \<and> list_ex (\<lambda>ur. ur_role ur = ro_id r) urs) rs) rps) ps)))))))"

definition refresh_token_by_hash :: "string \<Rightarrow> (identity_db, refresh_token option) op" where
  "refresh_token_by_hash h = scalar refresh_tokens_table (\<lambda>r. rt_token_hash r = h)"

definition revoke_family :: "uuid \<Rightarrow> refresh_token_status \<Rightarrow> (identity_db, unit) op" where
  "revoke_family family st = bind_tx now_utc (\<lambda>now.
     update_where refresh_tokens_table (\<lambda>r. rt_family r = family)
       (\<lambda>r. r\<lparr>rt_status := st, rt_revoked_at := Some now\<rparr>))"

definition revoke_for_user :: "uuid \<Rightarrow> (identity_db, unit) op" where
  "revoke_for_user user_id = bind_tx now_utc (\<lambda>now.
     update_where refresh_tokens_table (\<lambda>r. rt_user r = user_id \<and> rt_status r = RT_ACTIVE)
       (\<lambda>r. r\<lparr>rt_status := RT_REVOKED, rt_revoked_at := Some now\<rparr>))"

definition reset_by_hash :: "string \<Rightarrow> (identity_db, password_reset_token option) op" where
  "reset_by_hash h = scalar password_reset_tokens_table (\<lambda>r. pw_token_hash r = h)"

definition invitation_by_hash :: "string \<Rightarrow> (identity_db, invitation_token option) op" where
  "invitation_by_hash h = scalar invitation_tokens_table (\<lambda>r. iv_token_hash r = h)"

section \<open>Scoped tokens\<close>

text \<open>A token names the tenant and the user it belongs to, so that its row can be found under the policies.\<close>

definition build_scoped_token :: "uuid option \<Rightarrow> uuid option \<Rightarrow> (identity_db, string) op" where
  "build_scoped_token tenant user_id = bind_tx token_urlsafe (\<lambda>secret.
     return_tx ((case tenant of None \<Rightarrow> ''platform'' | Some t \<Rightarrow> uuid_str t) @ ''.'' @
       (case user_id of None \<Rightarrow> ''public'' | Some u \<Rightarrow> uuid_str u) @ ''.'' @ secret))"

text \<open>\<open>token.split('.', maxsplit=2)\<close> into three parts; fewer are a ValueError.\<close>

definition split_scoped_token :: "string \<Rightarrow> (string \<times> string \<times> string) option" where
  "split_scoped_token token =
     (let a = takeWhile (\<lambda>c. c \<noteq> CHR ''.'') token; rest = dropWhile (\<lambda>c. c \<noteq> CHR ''.'') token
      in if rest = [] then None
         else let b = takeWhile (\<lambda>c. c \<noteq> CHR ''.'') (tl rest); rest' = dropWhile (\<lambda>c. c \<noteq> CHR ''.'') (tl rest)
           in if rest' = [] then None else Some (a, b, tl rest'))"

definition token_part :: "string \<Rightarrow> string \<Rightarrow> uuid option option" where
  "token_part absent part = (if part = absent then Some None
     else case uuid_parse part of None \<Rightarrow> None | Some u \<Rightarrow> Some (Some u))"

definition apply_scope_from_token :: "string \<Rightarrow> (identity_db, uuid option \<times> uuid option) op" where
  "apply_scope_from_token token = (case split_scoped_token token of
       None \<Rightarrow> abort ''invalid_token'' 401
     | Some (tenant_part, user_part, _) \<Rightarrow>
         (case (token_part ''platform'' tenant_part, token_part ''public'' user_part) of
            (Some tenant, Some user_id) \<Rightarrow>
              bind_tx (case user_id of None \<Rightarrow> return_tx () | Some u \<Rightarrow> set_current_user u) (\<lambda>_.
              bind_tx (case tenant of None \<Rightarrow> return_tx () | Some t \<Rightarrow> set_current_tenant t) (\<lambda>_.
              return_tx (tenant, user_id)))
          | _ \<Rightarrow> abort ''invalid_token'' 401))"

section \<open>The login rate limit\<close>

text \<open>The attempts of a key, oldest first; those before the window are forgotten.\<close>

definition assert_allowed :: "auth \<Rightarrow> string \<Rightarrow> (identity_db, unit) op" where
  "assert_allowed A key = bind_tx now_utc (\<lambda>now.
     bind_tx (put_proc (\<lambda>p. p\<lparr>login_attempts := (login_attempts p)(key :=
       dropWhile (\<lambda>x. x < now - login_rate_limit_window_seconds A * usec_per_second) (login_attempts p key))\<rparr>)) (\<lambda>_.
     bind_tx (get_proc (\<lambda>p. login_attempts p key)) (\<lambda>attempts.
     if login_rate_limit_attempts A \<le> length attempts then abort ''login_rate_limited'' 429 else return_tx ())))"

definition record_failure :: "string \<Rightarrow> (identity_db, unit) op" where
  "record_failure key = bind_tx now_utc (\<lambda>now.
     put_proc (\<lambda>p. p\<lparr>login_attempts := (login_attempts p)(key := login_attempts p key @ [now])\<rparr>))"

definition reset_attempts :: "string \<Rightarrow> (identity_db, unit) op" where
  "reset_attempts key = put_proc (\<lambda>p. p\<lparr>login_attempts := (login_attempts p)(key := [])\<rparr>)"

section \<open>Permissions and roles\<close>

text \<open>\<open>DEFAULT_PERMISSIONS\<close>: code, application, resource and action.\<close>

definition default_permissions :: "(string \<times> string \<times> string \<times> string) list" where
  "default_permissions =
    [(''prepaccess.user.read'', ''prepaccess'', ''user'', ''read''),
     (''prepaccess.user.invite'', ''prepaccess'', ''user'', ''invite''),
     (''prepaccess.role.manage'', ''prepaccess'', ''role'', ''manage''),
     (''prepaccess.permission.read'', ''prepaccess'', ''permission'', ''read''),
     (''prepsettings.settings.manage'', ''prepsettings'', ''settings'', ''manage''),
     (''prepstudents.student.read'', ''prepstudents'', ''student'', ''read''),
     (''prepstudents.student.create'', ''prepstudents'', ''student'', ''create''),
     (''prepstudents.student.update'', ''prepstudents'', ''student'', ''update''),
     (''prepstudents.student.delete'', ''prepstudents'', ''student'', ''delete''),
     (''prepstudents.student.import'', ''prepstudents'', ''student'', ''import''),
     (''prepstudents.batch.manage'', ''prepstudents'', ''batch'', ''manage''),
     (''preppeople.employee.read'', ''preppeople'', ''employee'', ''read''),
     (''preppeople.employee.create'', ''preppeople'', ''employee'', ''create''),
     (''preppeople.employee.update'', ''preppeople'', ''employee'', ''update''),
     (''preppeople.department.manage'', ''preppeople'', ''department'', ''manage''),
     (''preppeople.teacher_assignment.manage'', ''preppeople'', ''teacher_assignment'', ''manage''),
     (''preplearn.course.read'', ''preplearn'', ''course'', ''read''),
     (''preplearn.course.create'', ''preplearn'', ''course'', ''create''),
     (''preplearn.course.update'', ''preplearn'', ''course'', ''update''),
     (''preplearn.course.delete'', ''preplearn'', ''course'', ''delete''),
     (''preplearn.course.publish'', ''preplearn'', ''course'', ''publish''),
     (''preplearn.course.assign'', ''preplearn'', ''course'', ''assign''),
     (''prepquestion.question.manage'', ''prepquestion'', ''question'', ''manage''),
     (''prepquestion.question.read'', ''prepquestion'', ''question'', ''read''),
     (''prepquestion.question_set.manage'', ''prepquestion'', ''question_set'', ''manage''),
     (''prepquestion.ai_generation.manage'', ''prepquestion'', ''ai_generation'', ''manage''),
     (''prepassess.assessment.read'', ''prepassess'', ''assessment'', ''read''),
     (''prepassess.assessment.create'', ''prepassess'', ''assessment'', ''create''),
     (''prepassess.assessment.update'', ''prepassess'', ''assessment'', ''update''),
     (''prepassess.assessment.schedule'', ''prepassess'', ''assessment'', ''schedule''),
     (''prepassess.assessment.publish'', ''prepassess'', ''assessment'', ''publish''),
     (''prepassess.attempt.manage'', ''prepassess'', ''attempt'', ''manage''),
     (''prepassess.evaluation.manage'', ''prepassess'', ''evaluation'', ''manage''),
     (''prepassess.result.publish'', ''prepassess'', ''result'', ''publish''),
     (''prepattend.attendance.manage'', ''prepattend'', ''attendance'', ''manage''),
     (''prepattend.attendance.read'', ''prepattend'', ''attendance'', ''read''),
     (''prepattend.student.manage'', ''prepattend'', ''student'', ''manage''),
     (''prepattend.employee.manage'', ''prepattend'', ''employee'', ''manage''),
     (''prepattend.correction.manage'', ''prepattend'', ''correction'', ''manage''),
     (''preppayroll.payroll.manage'', ''preppayroll'', ''payroll'', ''manage''),
     (''preplive.class.read'', ''preplive'', ''class'', ''read''),
     (''preplive.class.schedule'', ''preplive'', ''class'', ''schedule''),
     (''preplive.class.manage'', ''preplive'', ''class'', ''manage''),
     (''preplive.access.validate'', ''preplive'', ''access'', ''validate''),
     (''preplive.attendance.sync'', ''preplive'', ''attendance'', ''sync''),
     (''preplive.recording.manage'', ''preplive'', ''recording'', ''manage''),
     (''prepprogress.progress.read'', ''prepprogress'', ''progress'', ''read''),
     (''prepnotify.notification.manage'', ''prepnotify'', ''notification'', ''manage''),
     (''prepbilling.subscription.manage'', ''prepbilling'', ''subscription'', ''manage''),
     (''prepadmissions.lead.manage'', ''prepadmissions'', ''lead'', ''manage''),
     (''prepcrm.contact.manage'', ''prepcrm'', ''contact'', ''manage''),
     (''prepcontent.asset.manage'', ''prepcontent'', ''asset'', ''manage''),
     (''prepreports.report.read'', ''prepreports'', ''report'', ''read''),
     (''prepaudit.audit.read'', ''prepaudit'', ''audit'', ''read''),
     (''prepsupport.ticket.manage'', ''prepsupport'', ''ticket'', ''manage''),
     (''prepmobile.config.manage'', ''prepmobile'', ''config'', ''manage'')]"

definition ensure_permission :: "string \<times> string \<times> string \<times> string \<Rightarrow> (identity_db, unit) op" where
  "ensure_permission item = (case item of (code, app, resource, action) \<Rightarrow>
     bind_tx (permission_get_by_code code) (\<lambda>found.
     when_tx (found = None) (bind_tx uuid4 (\<lambda>i. bind_tx (insert_row permissions_table
       \<lparr>pm_id = i, pm_code = code, pm_app_code = app, pm_resource = resource, pm_action = action,
        pm_is_active = True\<rparr>) (\<lambda>_. return_tx ())))))"

definition ensure_default_permissions :: "(identity_db, unit) op" where
  "ensure_default_permissions = bind_tx (for_each ensure_permission default_permissions) (\<lambda>_. return_tx ())"

text \<open>The permissions of a role are replaced by those of the codes, all of which must exist.\<close>

definition replace_role_permissions :: "role \<Rightarrow> string list \<Rightarrow> (identity_db, unit) op" where
  "replace_role_permissions role codes =
     bind_tx (permissions_by_codes codes) (\<lambda>ps.
     if \<not> set codes \<subseteq> pm_code ` set ps then abort ''permission_not_found'' 404
     else bind_tx (delete_where role_permissions_table (\<lambda>r. rp_role r = ro_id role)) (\<lambda>_.
       bind_tx (for_each (\<lambda>p. bind_tx uuid4 (\<lambda>i. insert_row role_permissions_table
         \<lparr>rp_id = i, rp_tenant = ro_tenant role, rp_role = ro_id role, rp_permission = pm_id p\<rparr>)) ps) (\<lambda>_.
       return_tx ())))"

definition ensure_system_role :: "uuid option \<Rightarrow> string \<Rightarrow> string \<Rightarrow> string list \<Rightarrow> bool \<Rightarrow> (identity_db, role) op" where
  "ensure_system_role tenant code name codes is_default =
     bind_tx (set_tenant_if tenant) (\<lambda>_.
     bind_tx (role_get_by_code code tenant) (\<lambda>found.
     bind_tx (case found of Some r \<Rightarrow> return_tx r
       | None \<Rightarrow> bind_tx uuid4 (\<lambda>i. insert_row roles_table
           \<lparr>ro_id = i, ro_tenant = tenant, ro_code = code, ro_name = name, ro_description = None,
            ro_is_system = True, ro_is_default = is_default, ro_deleted_at = None\<rparr>)) (\<lambda>role.
     bind_tx (replace_role_permissions role codes) (\<lambda>_.
     return_tx role))))"

definition create_custom_role :: "role_create \<Rightarrow> (identity_db, role) op" where
  "create_custom_role p =
     bind_tx (set_tenant_if (rcr_tenant p)) (\<lambda>_.
     bind_tx ensure_default_permissions (\<lambda>_.
     bind_tx (role_get_by_code (rcr_code p) (rcr_tenant p)) (\<lambda>existing.
     if existing \<noteq> None then abort ''role_conflict'' 409
     else bind_tx uuid4 (\<lambda>i.
       bind_tx (insert_row roles_table
         \<lparr>ro_id = i, ro_tenant = rcr_tenant p, ro_code = rcr_code p, ro_name = rcr_name p,
          ro_description = rcr_description p, ro_is_system = False, ro_is_default = False,
          ro_deleted_at = None\<rparr>) (\<lambda>role.
       bind_tx (replace_role_permissions role (rcr_permission_codes p)) (\<lambda>_.
       bind_tx commit_tx (\<lambda>_.
       return_tx role)))))))"

text \<open>The assignment without its commit, which the callers inside a larger transaction leave out.\<close>

definition assign_role :: "uuid \<Rightarrow> uuid option \<Rightarrow> uuid \<Rightarrow> uuid option \<Rightarrow> bool \<Rightarrow> (identity_db, user_role) op" where
  "assign_role user_id tenant role_id actor commit =
     bind_tx (set_tenant_if tenant) (\<lambda>_.
     bind_tx (user_get user_id) (\<lambda>user.
     bind_tx (role_get role_id) (\<lambda>role.
     case user of None \<Rightarrow> abort ''user_not_found'' 404 | Some u \<Rightarrow> (case role of
       None \<Rightarrow> abort ''role_not_found'' 404
     | Some r \<Rightarrow> if us_tenant u \<noteq> tenant \<or> ro_tenant r \<noteq> tenant then abort ''tenant_access_denied'' 403
       else bind_tx (user_role_get tenant user_id role_id) (\<lambda>existing. case existing of
           Some a \<Rightarrow> return_tx a
         | None \<Rightarrow>
             bind_tx now_utc (\<lambda>now.
             bind_tx uuid4 (\<lambda>i.
             bind_tx (insert_row user_roles_table
               \<lparr>ur_id = i, ur_tenant = tenant, ur_user = user_id, ur_role = role_id, ur_assigned_by = actor,
                ur_assigned_at = now\<rparr>) (\<lambda>a.
             bind_tx (when_tx commit commit_tx) (\<lambda>_.
             return_tx a)))))))))"

definition remove_role :: "uuid \<Rightarrow> uuid \<Rightarrow> uuid option \<Rightarrow> (identity_db, unit) op" where
  "remove_role user_id role_id tenant =
     bind_tx (set_tenant_if tenant) (\<lambda>_.
     bind_tx (user_role_get tenant user_id role_id) (\<lambda>found. case found of
       None \<Rightarrow> abort ''role_assignment_not_found'' 404
     | Some a \<Rightarrow> bind_tx (delete_where user_roles_table (\<lambda>r. ur_id r = ur_id a)) (\<lambda>_. commit_tx)))"

definition permission_matrix :: "uuid option \<Rightarrow> (identity_db, permission list \<times> role list) op" where
  "permission_matrix tenant =
     bind_tx (set_tenant_if tenant) (\<lambda>_.
     bind_tx ensure_default_permissions (\<lambda>_.
     bind_tx permissions_all (\<lambda>ps.
     bind_tx (roles_for_tenant tenant) (\<lambda>rs.
     return_tx (ps, rs)))))"

definition current_permissions :: "uuid \<Rightarrow> uuid option \<Rightarrow> (identity_db, string list) op" where
  "current_permissions user_id tenant =
     bind_tx (set_tenant_if tenant) (\<lambda>_. list_permission_codes user_id tenant)"

section \<open>Token pairs\<close>

definition record_login_session :: "user \<Rightarrow> refresh_token \<Rightarrow> request_metadata \<Rightarrow> (identity_db, unit) op" where
  "record_login_session user token md =
     bind_tx now_utc (\<lambda>now.
     bind_tx uuid4 (\<lambda>i.
     bind_tx (insert_row login_sessions_table
       \<lparr>lgs_id = i, lgs_tenant = us_tenant user, lgs_user = us_id user, lgs_refresh_token = Some (rt_id token),
        lgs_ip_address = md_ip_address md, lgs_user_agent = md_user_agent md, lgs_last_seen_at = Some now,
        lgs_status = LS_ACTIVE\<rparr>) (\<lambda>_.
     return_tx ())))"

text \<open>The refresh token a rotation replaces learns the identifier of its successor.\<close>

definition link_parent :: "uuid option \<Rightarrow> uuid \<Rightarrow> (identity_db, unit) op" where
  "link_parent parent successor = (case parent of None \<Rightarrow> return_tx ()
     | Some i \<Rightarrow> bind_tx (scalar refresh_tokens_table (\<lambda>r. rt_id r = i)) (\<lambda>found. case found of
         None \<Rightarrow> return_tx ()
       | Some r \<Rightarrow> bind_tx (save_row refresh_tokens_table (r\<lparr>rt_replaced_by := Some successor\<rparr>)) (\<lambda>_.
           return_tx ())))"

definition issue_token_pair :: "auth \<Rightarrow> user \<Rightarrow> request_metadata option \<Rightarrow> uuid option \<Rightarrow> uuid option \<Rightarrow>
    (identity_db, token_pair) op" where
  "issue_token_pair A user md family parent =
     bind_tx (build_scoped_token (us_tenant user) (Some (us_id user))) (\<lambda>raw.
     bind_tx now_utc (\<lambda>now.
     let expires_at = now + refresh_token_ttl_days A * usec_per_day
     in bind_tx (create_access_token A (us_id user) (us_tenant user) (us_user_type user)) (\<lambda>access.
        bind_tx (case family of Some f \<Rightarrow> return_tx f | None \<Rightarrow> uuid4) (\<lambda>f.
        bind_tx uuid4 (\<lambda>i.
        bind_tx (insert_row refresh_tokens_table
          \<lparr>rt_id = i, rt_tenant = us_tenant user, rt_user = us_id user, rt_token_hash = sha256_hex A raw,
           rt_family = f, rt_parent = parent, rt_status = RT_ACTIVE, rt_expires_at = expires_at,
           rt_revoked_at = None, rt_replaced_by = None\<rparr>) (\<lambda>token.
        bind_tx (link_parent parent (rt_id token)) (\<lambda>_.
        bind_tx (case md of None \<Rightarrow> return_tx () | Some m \<Rightarrow> record_login_session user token m) (\<lambda>_.
        return_tx \<lparr>tkp_access_token = access, tkp_refresh_token = raw,
          tkp_expires_in = access_token_ttl_minutes A * 60, tkp_refresh_expires_at = expires_at\<rparr>))))))))"

section \<open>Logins\<close>

definition find_login_user :: "string \<Rightarrow> uuid option \<Rightarrow> (identity_db, user option) op" where
  "find_login_user email tenant = (case tenant of
       Some t \<Rightarrow> user_get_by_email email (Some t)
     | None \<Rightarrow> bind_tx (users_by_email email) (\<lambda>candidates.
         if 1 < length candidates then abort ''tenant_required'' 400 else return_tx (first_opt candidates)))"

definition record_login_history :: "string \<Rightarrow> uuid option \<Rightarrow> uuid option \<Rightarrow> bool \<Rightarrow> string option \<Rightarrow>
    request_metadata \<Rightarrow> (identity_db, unit) op" where
  "record_login_history email tenant user_id success failure md =
     bind_tx uuid4 (\<lambda>i.
     bind_tx (insert_row login_histories_table
       \<lparr>lh_id = i, lh_tenant = tenant, lh_user = user_id, lh_email = email, lh_success = success,
        lh_failure_reason = failure, lh_ip_address = md_ip_address md, lh_user_agent = md_user_agent md\<rparr>) (\<lambda>_.
     return_tx ()))"

definition user_status_value :: "user_status \<Rightarrow> string" where
  "user_status_value st = (case st of U_ACTIVE \<Rightarrow> ''active'' | U_INVITED \<Rightarrow> ''invited''
     | U_SUSPENDED \<Rightarrow> ''suspended'' | U_DISABLED \<Rightarrow> ''disabled'')"

definition login_key :: "login_request \<Rightarrow> request_metadata \<Rightarrow> string" where
  "login_key p md = lgr_email p @ '':'' @
     (case md_ip_address md of None \<Rightarrow> ''unknown'' | Some ip \<Rightarrow> if ip = [] then ''unknown'' else ip)"

definition reject_login :: "string \<Rightarrow> string \<Rightarrow> uuid option \<Rightarrow> uuid option \<Rightarrow> string \<Rightarrow> request_metadata \<Rightarrow>
    string \<Rightarrow> int \<Rightarrow> (identity_db, user \<times> token_pair) op" where
  "reject_login key email tenant user_id reason md code status =
     bind_tx (record_failure key) (\<lambda>_.
     bind_tx (record_login_history email tenant user_id False (Some reason) md) (\<lambda>_.
     bind_tx commit_tx (\<lambda>_.
     abort code status)))"

definition credentials_ok :: "auth \<Rightarrow> string \<Rightarrow> user option \<Rightarrow> (identity_db, bool) op" where
  "credentials_ok A password user = (case user of None \<Rightarrow> return_tx False
     | Some u \<Rightarrow> verify_password A password (us_password_hash u))"

definition login :: "auth \<Rightarrow> login_request \<Rightarrow> uuid option \<Rightarrow> request_metadata \<Rightarrow>
    (identity_db, user \<times> token_pair) op" where
  "login A p context_tenant md =
     (let tenant = (case lgr_tenant p of Some t \<Rightarrow> Some t | None \<Rightarrow> context_tenant);
          key = login_key p md
      in bind_tx (set_tenant_if tenant) (\<lambda>_.
         bind_tx (assert_allowed A key) (\<lambda>_.
         bind_tx (find_login_user (lgr_email p) tenant) (\<lambda>found.
         bind_tx (credentials_ok A (lgr_password p) found) (\<lambda>ok.
         case (if ok then found else None) of
           None \<Rightarrow> reject_login key (lgr_email p) tenant (map_option us_id found) ''invalid_credentials'' md
             ''invalid_credentials'' 401
         | Some u \<Rightarrow>
           if us_status u \<noteq> U_ACTIVE
           then reject_login key (lgr_email p) (us_tenant u) (Some (us_id u))
             (''user_'' @ user_status_value (us_status u)) md ''user_not_active'' 403
           else bind_tx (set_current_user (us_id u)) (\<lambda>_.
             bind_tx (set_tenant_if (us_tenant u)) (\<lambda>_.
             bind_tx now_utc (\<lambda>now.
             bind_tx (save_row users_table (u\<lparr>us_last_login_at := Some now\<rparr>)) (\<lambda>saved.
             bind_tx (issue_token_pair A saved (Some md) None None) (\<lambda>tokens.
             bind_tx (record_login_history (lgr_email p) (us_tenant u) (Some (us_id u)) True None md) (\<lambda>_.
             bind_tx commit_tx (\<lambda>_.
             bind_tx (reset_attempts key) (\<lambda>_.
             return_tx (saved, tokens))))))))))))))"

section \<open>Refresh and logout\<close>

definition refresh :: "auth \<Rightarrow> string \<Rightarrow> request_metadata \<Rightarrow> (identity_db, user \<times> token_pair) op" where
  "refresh A payload md =
     bind_tx (apply_scope_from_token payload) (\<lambda>(tenant, user_id).
     case user_id of None \<Rightarrow> abort ''invalid_refresh_token'' 401 | Some uid \<Rightarrow>
     bind_tx (refresh_token_by_hash (sha256_hex A payload)) (\<lambda>found. case found of
       None \<Rightarrow> abort ''invalid_refresh_token'' 401
     | Some r \<Rightarrow>
       if rt_user r \<noteq> uid \<or> rt_tenant r \<noteq> tenant then abort ''invalid_refresh_token'' 401
       else if rt_status r \<noteq> RT_ACTIVE then
         bind_tx (revoke_family (rt_family r) RT_REUSED) (\<lambda>_.
         bind_tx commit_tx (\<lambda>_.
         abort ''refresh_token_reuse_detected'' 401))
       else bind_tx now_utc (\<lambda>now.
         if rt_expires_at r \<le> now then
           bind_tx (save_row refresh_tokens_table (r\<lparr>rt_status := RT_REVOKED, rt_revoked_at := Some now\<rparr>)) (\<lambda>_.
           bind_tx commit_tx (\<lambda>_.
           abort ''refresh_token_expired'' 401))
         else bind_tx (scalar users_table (\<lambda>u. us_id u = rt_user r)) (\<lambda>owner. case owner of
             None \<Rightarrow> raise_tx (Python_Error ''AttributeError'')
           | Some u \<Rightarrow>
               if us_status u \<noteq> U_ACTIVE then abort ''user_not_active'' 403
               else bind_tx (save_row refresh_tokens_table (r\<lparr>rt_status := RT_ROTATED, rt_revoked_at := Some now\<rparr>)) (\<lambda>_.
                 bind_tx (issue_token_pair A u (Some md) (Some (rt_family r)) (Some (rt_id r))) (\<lambda>tokens.
                 bind_tx commit_tx (\<lambda>_.
                 return_tx (u, tokens))))))))"

definition logout :: "auth \<Rightarrow> uuid \<Rightarrow> string option \<Rightarrow> bool \<Rightarrow> (identity_db, unit) op" where
  "logout A user_id token all_sessions =
     bind_tx (set_current_user user_id) (\<lambda>_.
     if all_sessions then bind_tx (revoke_for_user user_id) (\<lambda>_. commit_tx)
     else case token of None \<Rightarrow> abort ''refresh_token_required'' 400 | Some t \<Rightarrow>
       bind_tx (apply_scope_from_token t) (\<lambda>_.
       bind_tx (refresh_token_by_hash (sha256_hex A t)) (\<lambda>found. case found of
         None \<Rightarrow> abort ''invalid_refresh_token'' 401
       | Some r \<Rightarrow> if rt_user r \<noteq> user_id then abort ''invalid_refresh_token'' 401
         else bind_tx now_utc (\<lambda>now.
           bind_tx (save_row refresh_tokens_table (r\<lparr>rt_status := RT_REVOKED, rt_revoked_at := Some now\<rparr>)) (\<lambda>_.
           commit_tx)))))"

section \<open>Password resets\<close>

definition request_password_reset :: "auth \<Rightarrow> string \<Rightarrow> uuid option \<Rightarrow> (identity_db, string option) op" where
  "request_password_reset A email tenant =
     bind_tx (set_tenant_if tenant) (\<lambda>_.
     bind_tx (find_login_user email tenant) (\<lambda>found. case found of
       None \<Rightarrow> return_tx None
     | Some u \<Rightarrow>
         bind_tx (build_scoped_token (us_tenant u) (Some (us_id u))) (\<lambda>raw.
         bind_tx now_utc (\<lambda>now.
         bind_tx uuid4 (\<lambda>i.
         bind_tx (insert_row password_reset_tokens_table
           \<lparr>pw_id = i, pw_tenant = us_tenant u, pw_user = us_id u, pw_token_hash = sha256_hex A raw,
            pw_expires_at = now + password_reset_token_ttl_minutes A * usec_per_minute, pw_used_at = None\<rparr>) (\<lambda>_.
         bind_tx commit_tx (\<lambda>_.
         return_tx (Some raw))))))))"

definition confirm_password_reset :: "auth \<Rightarrow> string \<Rightarrow> string \<Rightarrow> (identity_db, unit) op" where
  "confirm_password_reset A token new_password =
     bind_tx (apply_scope_from_token token) (\<lambda>_.
     bind_tx (reset_by_hash (sha256_hex A token)) (\<lambda>found.
     bind_tx now_utc (\<lambda>now. case found of
       None \<Rightarrow> abort ''invalid_reset_token'' 401
     | Some r \<Rightarrow>
       if pw_used_at r \<noteq> None \<or> pw_expires_at r \<le> now then abort ''invalid_reset_token'' 401
       else bind_tx (set_current_user (pw_user r)) (\<lambda>_.
         bind_tx (set_tenant_if (pw_tenant r)) (\<lambda>_.
         bind_tx (user_get (pw_user r)) (\<lambda>user. case user of
           None \<Rightarrow> abort ''user_not_found'' 404
         | Some u \<Rightarrow>
             bind_tx (hash_password A new_password) (\<lambda>h.
             bind_tx (revoke_for_user (us_id u)) (\<lambda>_.
             bind_tx (save_row users_table (u\<lparr>us_password_hash := h\<rparr>)) (\<lambda>_.
             bind_tx (save_row password_reset_tokens_table (r\<lparr>pw_used_at := Some now\<rparr>)) (\<lambda>_.
             commit_tx))))))))))"

section \<open>Registration and invitations\<close>

definition display_name :: "string \<Rightarrow> string option \<Rightarrow> string" where
  "display_name first_name last_name = strip (case last_name of
     None \<Rightarrow> first_name | Some l \<Rightarrow> if l = [] then first_name
       else if first_name = [] then l else first_name @ '' '' @ l)"

definition add_user :: "uuid \<Rightarrow> string \<Rightarrow> string option \<Rightarrow> string \<Rightarrow> user_type \<Rightarrow> string \<Rightarrow> string option \<Rightarrow>
    (identity_db, user) op" where
  "add_user tenant email phone password_hash ty first_name last_name =
     bind_tx uuid4 (\<lambda>i.
     bind_tx (insert_row users_table
       \<lparr>us_id = i, us_tenant = Some tenant, us_email = email, us_phone = phone, us_password_hash = password_hash,
        us_status = U_ACTIVE, us_user_type = ty, us_last_login_at = None, us_deleted_at = None\<rparr>) (\<lambda>u.
     bind_tx uuid4 (\<lambda>k.
     bind_tx (insert_row user_profiles_table
       \<lparr>uf_id = k, uf_tenant = Some tenant, uf_user = us_id u, uf_first_name = Some first_name,
        uf_last_name = last_name, uf_display_name = Some (display_name first_name last_name)\<rparr>) (\<lambda>_.
     return_tx u))))"

definition add_membership :: "uuid \<Rightarrow> uuid \<Rightarrow> bool \<Rightarrow> (identity_db, unit) op" where
  "add_membership tenant user_id primary_admin =
     bind_tx now_utc (\<lambda>now.
     bind_tx uuid4 (\<lambda>i.
     bind_tx (insert_row tenant_users_table
       \<lparr>tu_id = i, tu_tenant = tenant, tu_user = user_id, tu_status = TU_ACTIVE,
        tu_is_primary_admin = primary_admin, tu_created_at = now\<rparr>) (\<lambda>_.
     return_tx ())))"

definition register_institution_admin :: "auth \<Rightarrow> register_request \<Rightarrow> (identity_db, user \<times> token_pair) op" where
  "register_institution_admin A p =
     bind_tx (get_tenant (rgr_tenant p)) (\<lambda>_.
     bind_tx (set_current_tenant (rgr_tenant p)) (\<lambda>_.
     bind_tx ensure_default_permissions (\<lambda>_.
     bind_tx (ensure_system_role (Some (rgr_tenant p)) ''institution_admin'' ''Institution Admin''
       (map fst default_permissions) True) (\<lambda>role.
     bind_tx (hash_password A (rgr_password p)) (\<lambda>h.
     on_conflict ''user_conflict''
       (bind_tx (add_user (rgr_tenant p) (rgr_email p) (rgr_phone p) h INSTITUTION_ADMIN (rgr_first_name p)
          (rgr_last_name p)) (\<lambda>u.
        bind_tx (add_membership (rgr_tenant p) (us_id u) True) (\<lambda>_.
        bind_tx (assign_role (us_id u) (Some (rgr_tenant p)) (ro_id role) (Some (us_id u)) False) (\<lambda>_.
        bind_tx (issue_token_pair A u None None None) (\<lambda>tokens.
        bind_tx commit_tx (\<lambda>_.
        return_tx (u, tokens))))))))))))"

definition invite_user :: "auth \<Rightarrow> uuid \<Rightarrow> string \<Rightarrow> uuid option \<Rightarrow> uuid option \<Rightarrow>
    (identity_db, invitation_token \<times> string) op" where
  "invite_user A tenant email role_id actor =
     bind_tx (get_tenant tenant) (\<lambda>_.
     bind_tx (set_current_tenant tenant) (\<lambda>_.
     bind_tx (case role_id of None \<Rightarrow> return_tx () | Some i \<Rightarrow>
       bind_tx (role_get i) (\<lambda>role. case role of None \<Rightarrow> abort ''role_not_found'' 404
         | Some r \<Rightarrow> if ro_tenant r \<noteq> Some tenant then abort ''role_not_found'' 404 else return_tx ())) (\<lambda>_.
     bind_tx (build_scoped_token (Some tenant) None) (\<lambda>raw.
     bind_tx now_utc (\<lambda>now.
     bind_tx uuid4 (\<lambda>i.
     bind_tx (insert_row invitation_tokens_table
       \<lparr>iv_id = i, iv_tenant = tenant, iv_email = email, iv_role = role_id, iv_token_hash = sha256_hex A raw,
        iv_invited_by = actor, iv_accepted_user = None, iv_status = IV_PENDING,
        iv_expires_at = now + invitation_token_ttl_days A * usec_per_day, iv_accepted_at = None\<rparr>) (\<lambda>iv.
     bind_tx commit_tx (\<lambda>_.
     return_tx (iv, raw)))))))))"

definition accept_invitation :: "auth \<Rightarrow> invitation_accept \<Rightarrow> (identity_db, user \<times> token_pair) op" where
  "accept_invitation A p =
     bind_tx (apply_scope_from_token (iva_token p)) (\<lambda>_.
     bind_tx (invitation_by_hash (sha256_hex A (iva_token p))) (\<lambda>found. case found of
       None \<Rightarrow> abort ''invalid_invitation'' 401
     | Some iv \<Rightarrow>
       bind_tx (set_current_tenant (iv_tenant iv)) (\<lambda>_.
       bind_tx now_utc (\<lambda>now.
       if iv_status iv \<noteq> IV_PENDING \<or> iv_expires_at iv \<le> now then abort ''invalid_invitation'' 401
       else bind_tx (hash_password A (iva_password p)) (\<lambda>h.
         on_conflict ''user_conflict''
           (bind_tx (add_user (iv_tenant iv) (iv_email iv) None h EMPLOYEE_USER (iva_first_name p)
              (iva_last_name p)) (\<lambda>u.
            bind_tx (add_membership (iv_tenant iv) (us_id u) False) (\<lambda>_.
            bind_tx (case iv_role iv of None \<Rightarrow> return_tx () | Some r \<Rightarrow>
              bind_tx (assign_role (us_id u) (Some (iv_tenant iv)) r (iv_invited_by iv) False) (\<lambda>_. return_tx ())) (\<lambda>_.
            bind_tx (save_row invitation_tokens_table (iv\<lparr>iv_accepted_user := Some (us_id u),
              iv_accepted_at := Some now, iv_status := IV_ACCEPTED\<rparr>)) (\<lambda>_.
            bind_tx (issue_token_pair A u None None None) (\<lambda>tokens.
            bind_tx commit_tx (\<lambda>_.
            return_tx (u, tokens)))))))))))))"

section \<open>The principal of a request\<close>

text \<open>
  \<open>get_current_user\<close> and \<open>get_current_principal\<close>: the claims name a user and a tenant, the session is
  scoped to them, and the stored user must agree.  A subject that is text but no UUID raises ValueError.
\<close>

definition claim_uuid :: "json \<Rightarrow> (identity_db, uuid option) op" where
  "claim_uuid v = (case v of JStr t \<Rightarrow> (case uuid_parse t of
       None \<Rightarrow> raise_tx (Python_Error ''ValueError'') | Some u \<Rightarrow> return_tx (Some u))
     | _ \<Rightarrow> return_tx None)"

definition get_current_user :: "auth \<Rightarrow> string option \<Rightarrow> (identity_db, user) op" where
  "get_current_user A credentials = (case credentials of None \<Rightarrow> abort ''authentication_required'' 401
     | Some token \<Rightarrow>
       bind_tx (decode_access_token A token) (\<lambda>payload.
       bind_tx (claim_uuid (json_get payload ''sub'' JNull)) (\<lambda>subject. case subject of
         None \<Rightarrow> abort ''invalid_token'' 401
       | Some uid \<Rightarrow>
         bind_tx (set_current_user uid) (\<lambda>_.
         bind_tx (claim_uuid (json_get payload ''tid'' JNull)) (\<lambda>tenant.
         bind_tx (set_tenant_if tenant) (\<lambda>_.
         bind_tx (user_get uid) (\<lambda>found. case found of
           None \<Rightarrow> abort ''user_not_found'' 401
         | Some u \<Rightarrow>
             if us_deleted_at u \<noteq> None then abort ''user_not_found'' 401
             else if us_status u \<noteq> U_ACTIVE then abort ''user_not_active'' 403
             else if us_tenant u \<noteq> tenant then abort ''tenant_access_denied'' 403
             else return_tx u)))))))"

definition get_current_principal :: "auth \<Rightarrow> string option \<Rightarrow> (identity_db, principal) op" where
  "get_current_principal A credentials =
     bind_tx (get_current_user A credentials) (\<lambda>u.
     bind_tx (set_tenant_if (us_tenant u)) (\<lambda>_.
     bind_tx (current_permissions (us_id u) (us_tenant u)) (\<lambda>codes.
     return_tx \<lparr>pr_user = us_id u, pr_tenant = us_tenant u, pr_permissions = codes\<rparr>)))"

definition require_permission :: "auth \<Rightarrow> string \<Rightarrow> string option \<Rightarrow> (identity_db, principal) op" where
  "require_permission A code credentials =
     bind_tx (get_current_principal A credentials) (\<lambda>pr.
     if code \<notin> set (pr_permissions pr) then abort ''permission_denied'' 403 else return_tx pr)"

end
