(* ===== verification/Access_Facts.thy ===== *)
theory Access_Facts
  imports Access Row_Rules
begin

text \<open>
  PrepAccess: what the principal of a request is allowed, as a relation on the database; the scopes
  written into tokens; the life of a refresh token; the window of failed logins.
\<close>

text \<open>A successful run passes every guard.\<close>

lemma guard_Inr:
  "(case x of None \<Rightarrow> abort c n | Some y \<Rightarrow> f y) s = (Inr v, s') \<longleftrightarrow> (\<exists>y. x = Some y \<and> f y s = (Inr v, s'))"
  "(case x of None \<Rightarrow> raise_tx e | Some y \<Rightarrow> f y) s = (Inr v, s') \<longleftrightarrow> (\<exists>y. x = Some y \<and> f y s = (Inr v, s'))"
  "(if b then abort c n else m) s = (Inr v, s') \<longleftrightarrow> \<not> b \<and> m s = (Inr v, s')"
  "(if b then m else abort c n) s = (Inr v, s') \<longleftrightarrow> b \<and> m s = (Inr v, s')"
  by (auto split: option.splits)

lemma serve_iff:
  "serve m d p = (r, d', p') \<longleftrightarrow> (\<exists>s. m (open_session d p) = (r, s) \<and> committed s = d' \<and> proc s = p')"
  by (auto simp: serve_def split: prod.splits)

section \<open>The principal\<close>

text \<open>The account a claim names, and the permissions its roles grant it, on the rows alone.\<close>

definition account :: "identity_db \<Rightarrow> uuid \<Rightarrow> user option" where
  "account d i = first_opt (filter (\<lambda>u. us_id u = i \<and> us_deleted_at u = None) (users d))"

definition granted :: "identity_db \<Rightarrow> user \<Rightarrow> string \<Rightarrow> bool" where
  "granted d u code \<longleftrightarrow>
     (\<exists>a\<in>set (user_roles d). ur_user a = us_id u \<and> ur_tenant a = us_tenant u \<and>
     (\<exists>r\<in>set (roles d). ur_role a = ro_id r \<and> ro_deleted_at r = None \<and> ro_tenant r \<in> {None, us_tenant u} \<and>
     (\<exists>g\<in>set (role_permissions d). ro_id r = rp_role g \<and> rp_tenant g \<in> {None, us_tenant u} \<and>
     (\<exists>p\<in>set (permissions d). rp_permission g = pm_id p \<and> pm_is_active p \<and> code = pm_code p))))"

definition claimed :: "json \<Rightarrow> uuid option option" where
  "claimed v = (case v of JStr t \<Rightarrow> map_option Some (uuid_parse t) | _ \<Rightarrow> Some None)"

definition authenticates :: "auth \<Rightarrow> identity_db \<Rightarrow> int \<Rightarrow> string \<Rightarrow> user \<Rightarrow> bool" where
  "authenticates A d now token u \<longleftrightarrow>
     (case jwt_decode A (timestamp now) (jwt_audience A) (jwt_issuer A) token of None \<Rightarrow> False
      | Some payload \<Rightarrow> json_get payload ''typ'' JNull = JStr ''access'' \<and>
          claimed (json_get payload ''sub'' JNull) = Some (Some (us_id u)) \<and>
          claimed (json_get payload ''tid'' JNull) = Some (us_tenant u) \<and>
          account d (us_id u) = Some u \<and> us_status u = U_ACTIVE)"

lemma accountD:
  "account d i = Some u \<Longrightarrow> u \<in> set (users d) \<and> us_id u = i \<and> us_deleted_at u = None"
  unfolding account_def by (drule first_opt_filter_SomeD) simp

lemma claim_uuid_Inr_iff [simp]:
  "claim_uuid v s = (Inr x, s') \<longleftrightarrow> claimed v = Some x \<and> s' = s"
  by (auto simp: claim_uuid_def claimed_def split: json.splits option.splits)

lemma set_tenant_if_run [tx_simps]:
  "set_tenant_if t s = (Inr (), s\<lparr>rls_tenant := (case t of None \<Rightarrow> rls_tenant s | Some _ \<Rightarrow> t)\<rparr>)"
  by (simp add: set_tenant_if_def tx_simps split: option.splits)

lemma decode_access_token_Inr_iff:
  "decode_access_token A token s = (Inr payload, s') \<longleftrightarrow>
     jwt_decode A (timestamp (clock (proc s))) (jwt_audience A) (jwt_issuer A) token = Some payload \<and>
     json_get payload ''typ'' JNull = JStr ''access'' \<and> s' = s"
  by (auto simp: decode_access_token_def tx_exec split: option.splits if_splits)

text \<open>Everybody sees the own account.\<close>

lemma user_get_self:
  assumes "rls_user s = Some i"
  shows "user_get i s = (Inr (account (working s) i), s)"
proof -
  have "filter (\<lambda>r. visible users_table s r \<and> us_id r = i \<and> us_deleted_at r = None) (users (working s)) =
    filter (\<lambda>r. us_id r = i \<and> us_deleted_at r = None) (users (working s))"
    by (rule filter_cong) (auto simp: visible_def users_table_def own_or_self_def assms)
  then show ?thesis
    by (simp add: user_get_def scalar_def account_def rows_def users_table_def)
qed

lemma get_current_user_Inr_iff:
  assumes "rls_tenant s = None"
  shows "get_current_user A credentials s = (Inr u, s') \<longleftrightarrow>
    (\<exists>token. credentials = Some token \<and> authenticates A (working s) (clock (proc s)) token u) \<and>
    s' = s\<lparr>rls_user := Some (us_id u), rls_tenant := us_tenant u\<rparr>"
proof (cases credentials)
  case None
  then show ?thesis by (simp add: get_current_user_def)
next
  case (Some token)
  have eq: "s\<lparr>rls_user := v, rls_tenant := None\<rparr> = s\<lparr>rls_user := v\<rparr>" for v
    using assms by (cases s) simp
  have scope: "set_tenant_if t (s\<lparr>rls_user := v\<rparr>) = (Inr (), s\<lparr>rls_user := v, rls_tenant := t\<rparr>)" for t v
    by (cases t) (simp_all add: set_tenant_if_run assms eq)
  have own: "user_get i (s\<lparr>rls_user := Some i, rls_tenant := t\<rparr>) =
      (Inr (account (working s) i), s\<lparr>rls_user := Some i, rls_tenant := t\<rparr>)" for i t
    by (subst user_get_self) simp_all
  have run: "get_current_user A credentials s = (Inr u, s') \<longleftrightarrow> (\<exists>payload i t.
      jwt_decode A (timestamp (clock (proc s))) (jwt_audience A) (jwt_issuer A) token = Some payload \<and>
      json_get payload ''typ'' JNull = JStr ''access'' \<and>
      claimed (json_get payload ''sub'' JNull) = Some (Some i) \<and>
      claimed (json_get payload ''tid'' JNull) = Some t \<and>
      account (working s) i = Some u \<and> us_deleted_at u = None \<and> us_status u = U_ACTIVE \<and> us_tenant u = t \<and>
      s' = s\<lparr>rls_user := Some i, rls_tenant := t\<rparr>)"
    unfolding Some get_current_user_def
    by (auto simp add: bind_tx_Inr_iff decode_access_token_Inr_iff set_current_user_run scope own guard_Inr)
  show ?thesis
    unfolding run authenticates_def by (auto simp: Some dest: accountD split: option.splits)
qed

definition permission_codes :: "identity_db \<Rightarrow> user \<Rightarrow> string list" where
  "permission_codes d u =
     (let urs = filter (\<lambda>r. ur_user r = us_id u \<and> ur_tenant r = us_tenant u) (user_roles d);
          rs = filter (\<lambda>r. ro_tenant r \<in> {None, us_tenant u} \<and> ro_deleted_at r = None) (roles d);
          rps = filter (\<lambda>r. rp_tenant r \<in> {None, us_tenant u}) (role_permissions d)
      in remdups (map pm_code (filter (\<lambda>p. list_ex (\<lambda>rp. rp_permission rp = pm_id p \<and>
        list_ex (\<lambda>r. ro_id r = rp_role rp \<and> list_ex (\<lambda>ur. ur_role ur = ro_id r) urs) rs) rps)
        (filter pm_is_active (permissions d)))))"

lemma permission_codes_granted: "code \<in> set (permission_codes d u) \<longleftrightarrow> granted d u code"
  unfolding permission_codes_def granted_def Let_def set_remdups set_map set_filter list_ex_iff image_iff
  by blast

lemma current_permissions_run:
  assumes "rls_user s = Some (us_id u)" "rls_tenant s = us_tenant u"
  shows "current_permissions (us_id u) (us_tenant u) s = (Inr (permission_codes (working s) u), s)"
proof -
  have "s\<lparr>rls_tenant := us_tenant u\<rparr> = s" using assms(2) by (cases s) simp
  then have scope: "set_tenant_if (us_tenant u) s = (Inr (), s)"
    by (cases "us_tenant u") (simp_all add: set_tenant_if_run assms)
  have own: "filter (\<lambda>r. visible user_roles_table s r \<and> ur_user r = us_id u \<and> ur_tenant r = us_tenant u)
      (user_roles (working s)) =
    filter (\<lambda>r. ur_user r = us_id u \<and> ur_tenant r = us_tenant u) (user_roles (working s))"
    by (rule filter_cong) (auto simp: visible_def identity_tables policy_defs assms)
  have rows: "rows user_roles_table s = user_roles (working s)" "rows roles_table s = roles (working s)"
    "rows role_permissions_table s = role_permissions (working s)"
    "rows permissions_table s = permissions (working s)"
    by (simp_all add: rows_def identity_tables)
  have see: "visible roles_table s r \<longleftrightarrow> ro_tenant r \<in> {None, us_tenant u}"
    "visible role_permissions_table s = (\<lambda>g. rp_tenant g \<in> {None, us_tenant u})"
    "visible permissions_table s x" for r x
    by (auto simp: visible_def identity_tables policy_defs assms)
  show ?thesis
    unfolding current_permissions_def list_permission_codes_def permission_codes_def tenant_filter_def Let_def
    by (simp only: bind_tx_run scope select_rows_run return_tx_run own rows see prod.case sum.case simp_thms)
qed

lemma require_permission_serve:
  "serve (require_permission A code credentials) d p = (Inr pr, d', p') \<longleftrightarrow> d' = d \<and> p' = p \<and>
    (\<exists>token u. credentials = Some token \<and> authenticates A d (clock p) token u \<and> granted d u code \<and>
      pr = \<lparr>pr_user = us_id u, pr_tenant = us_tenant u, pr_permissions = permission_codes d u\<rparr>)"
proof -
  let ?s = "open_session d p"
  have s: "rls_tenant ?s = None" "working ?s = d" "committed ?s = d" "proc ?s = p"
    by (simp_all add: open_session_def)
  have principal: "get_current_principal A credentials ?s = (Inr q, t) \<longleftrightarrow>
    (\<exists>token u. credentials = Some token \<and> authenticates A d (clock p) token u \<and>
      t = ?s\<lparr>rls_user := Some (us_id u), rls_tenant := us_tenant u\<rparr> \<and>
      q = \<lparr>pr_user = us_id u, pr_tenant = us_tenant u, pr_permissions = permission_codes d u\<rparr>)" for q t
  proof -
    have scope: "set_tenant_if (us_tenant u) (?s\<lparr>rls_user := v, rls_tenant := us_tenant u\<rparr>) =
        (Inr (), ?s\<lparr>rls_user := v, rls_tenant := us_tenant u\<rparr>)" for u v
      by (cases "us_tenant u") (simp_all add: set_tenant_if_run)
    show ?thesis
      unfolding get_current_principal_def bind_tx_Inr_iff get_current_user_Inr_iff [OF s(1)]
      by (auto simp: scope current_permissions_run s)
  qed
  have run: "require_permission A code credentials ?s = (Inr pr, t) \<longleftrightarrow>
    get_current_principal A credentials ?s = (Inr pr, t) \<and> code \<in> set (pr_permissions pr)" for t
    unfolding require_permission_def by (auto simp: bind_tx_Inr_iff guard_Inr)
  show ?thesis
    unfolding serve_iff run principal
    by (auto simp: permission_codes_granted [symmetric] s) (intro exI conjI, assumption, auto simp: s)
qed

section \<open>Issuing tokens\<close>

lemma link_parent_frame:
  assumes "link_parent parent i s = (Inr x, s')"
  shows "users (working s') = users (working s)" "committed s' = committed s" "proc s' = proc s"
    "rls_tenant s' = rls_tenant s" "rls_user s' = rls_user s"
  using assms by (auto simp: link_parent_def tx_inv split: option.splits)

lemma record_login_session_frame:
  assumes "record_login_session u r md s = (Inr x, s')"
  shows "users (working s') = users (working s)" "committed s' = committed s" "clock (proc s') = clock (proc s)"
    "login_attempts (proc s') = login_attempts (proc s)"
    "rls_tenant s' = rls_tenant s" "rls_user s' = rls_user s"
  using assms by (auto simp: record_login_session_def tx_inv)

lemma record_login_history_frame:
  assumes "record_login_history e t i ok f md s = (Inr x, s')"
  shows "users (working s') = users (working s)" "committed s' = committed s" "clock (proc s') = clock (proc s)"
    "login_attempts (proc s') = login_attempts (proc s)"
    "rls_tenant s' = rls_tenant s" "rls_user s' = rls_user s"
  using assms by (auto simp: record_login_history_def tx_inv)

text \<open>The text of a scoped token.\<close>

definition scoped_token :: "uuid option \<Rightarrow> uuid option \<Rightarrow> string \<Rightarrow> string" where
  "scoped_token tenant user_id secret = (case tenant of None \<Rightarrow> ''platform'' | Some t \<Rightarrow> uuid_str t) @ ''.'' @
     (case user_id of None \<Rightarrow> ''public'' | Some u \<Rightarrow> uuid_str u) @ ''.'' @ secret"

lemma build_scoped_token_run [tx_simps]:
  "build_scoped_token t u s = (Inr (scoped_token t u (secret_source (proc s) (secrets_drawn (proc s)))),
     s\<lparr>proc := (proc s)\<lparr>secrets_drawn := Suc (secrets_drawn (proc s))\<rparr>\<rparr>)"
  by (simp add: build_scoped_token_def scoped_token_def tx_exec)

definition issued_token :: "auth \<Rightarrow> user \<Rightarrow> uuid option \<Rightarrow> uuid \<Rightarrow> uuid \<Rightarrow> process \<Rightarrow> refresh_token" where
  "issued_token A u parent f i p =
     \<lparr>rt_id = i, rt_tenant = us_tenant u, rt_user = us_id u,
      rt_token_hash = sha256_hex A (scoped_token (us_tenant u) (Some (us_id u))
        (secret_source p (secrets_drawn p))),
      rt_family = f, rt_parent = parent, rt_status = RT_ACTIVE,
      rt_expires_at = clock p + refresh_token_ttl_days A * usec_per_day, rt_revoked_at = None, rt_replaced_by = None\<rparr>"

text \<open>\<open>bind_step\<close> runs the steps that change nothing but the process.\<close>

lemma bind_step:
  "bind_tx uuid4 f s = f (uuid_supply (proc s)) (s\<lparr>proc := (proc s)\<lparr>uuid_supply := Suc (uuid_supply (proc s))\<rparr>\<rparr>)"
  "bind_tx (build_scoped_token t u) g s =
     g (scoped_token t u (secret_source (proc s) (secrets_drawn (proc s))))
       (s\<lparr>proc := (proc s)\<lparr>secrets_drawn := Suc (secrets_drawn (proc s))\<rparr>\<rparr>)"
  "bind_tx (set_current_user i) h s = h () (s\<lparr>rls_user := Some i\<rparr>)"
  "bind_tx (set_tenant_if t) k s =
     k () (s\<lparr>rls_tenant := (case t of None \<Rightarrow> rls_tenant s | Some _ \<Rightarrow> t)\<rparr>)"
  by (simp_all add: bind_tx_run uuid4_run build_scoped_token_run set_current_user_run set_tenant_if_run)

lemma bind_store:
  "bind_tx (insert_row T r) f s = (Inr y, s') \<longleftrightarrow> (\<exists>t. insert_row T r s = (Inr r, t) \<and> f r t = (Inr y, s'))"
  "bind_tx (save_row T r) f s = (Inr y, s') \<longleftrightarrow> (\<exists>t. save_row T r s = (Inr r, t) \<and> f r t = (Inr y, s'))"
  by (auto simp: bind_tx_Inr_iff dest: insert_row_value save_row_value)

text \<open>A pair is issued by one insert, the link from the parent and the record of the session.\<close>

definition log_session :: "user \<Rightarrow> refresh_token \<Rightarrow> request_metadata option \<Rightarrow> (identity_db, unit) op" where
  "log_session u r md = (case md of None \<Rightarrow> return_tx () | Some m \<Rightarrow> record_login_session u r m)"

definition pick_family :: "uuid option \<Rightarrow> (identity_db, uuid) op" where
  "pick_family family = (case family of Some f \<Rightarrow> return_tx f | None \<Rightarrow> uuid4)"

lemma pick_family_Inr:
  "pick_family family s = (Inr f, t) \<Longrightarrow>
     \<exists>n. uuid_supply (proc s) \<le> n \<and> t = s\<lparr>proc := (proc s)\<lparr>uuid_supply := n\<rparr>\<rparr> \<and>
       (\<forall>g. family = Some g \<longrightarrow> f = g) \<and> (family = None \<longrightarrow> f = uuid_supply (proc s))"
  by (cases family; cases s; cases "proc s") (auto simp: pick_family_def uuid4_run le_Suc_eq)

lemma issue_token_pair_steps:
  assumes "issue_token_pair A u md family parent s = (Inr pair, s')"
  obtains f n s2 s3 where
    "uuid_supply (proc s) < n" "\<And>g. family = Some g \<Longrightarrow> f = g"
    "family = None \<Longrightarrow> f = Suc (uuid_supply (proc s))"
    "insert_row refresh_tokens_table (issued_token A u parent f n (proc s))
        (s\<lparr>proc := (proc s)\<lparr>secrets_drawn := Suc (secrets_drawn (proc s)), uuid_supply := Suc n\<rparr>\<rparr>) =
      (Inr (issued_token A u parent f n (proc s)), s2)"
    "link_parent parent n s2 = (Inr (), s3)"
    "log_session u (issued_token A u parent f n (proc s)) md s3 = (Inr (), s')"
    "tkp_access_token pair = jwt_encode A (access_claims A (us_id u) (us_tenant u) (us_user_type u)
      (uuid_supply (proc s)) (clock (proc s)))"
    "tkp_refresh_token pair = scoped_token (us_tenant u) (Some (us_id u))
      (secret_source (proc s) (secrets_drawn (proc s)))"
proof -
  let ?s0 = "s\<lparr>proc := (proc s)\<lparr>secrets_drawn := Suc (secrets_drawn (proc s)),
    uuid_supply := Suc (uuid_supply (proc s))\<rparr>\<rparr>"
  from assms obtain f t s2 s3 where F: "pick_family family ?s0 = (Inr f, t)"
    and ins: "insert_row refresh_tokens_table (issued_token A u parent f (uuid_supply (proc t)) (proc s))
        (t\<lparr>proc := (proc t)\<lparr>uuid_supply := Suc (uuid_supply (proc t))\<rparr>\<rparr>) =
        (Inr (issued_token A u parent f (uuid_supply (proc t)) (proc s)), s2)"
    and rest: "link_parent parent (uuid_supply (proc t)) s2 = (Inr (), s3)"
      "log_session u (issued_token A u parent f (uuid_supply (proc t)) (proc s)) md s3 = (Inr (), s')"
    and pair: "tkp_access_token pair = jwt_encode A (access_claims A (us_id u) (us_tenant u) (us_user_type u)
        (uuid_supply (proc s)) (clock (proc s)))"
      "tkp_refresh_token pair = scoped_token (us_tenant u) (Some (us_id u))
        (secret_source (proc s) (secrets_drawn (proc s)))"
    unfolding issue_token_pair_def create_access_token_def Let_def pick_family_def [symmetric]
      log_session_def [symmetric] bind_step tx_query
    apply (subst (asm) bind_tx_Inr_iff, elim exE conjE, simp only: bind_step bind_store)
    apply (auto simp: bind_tx_Inr_iff issued_token_def)
    done
  from pick_family_Inr [OF F] obtain n where "Suc (uuid_supply (proc s)) \<le> n"
    and t: "t = ?s0\<lparr>proc := (proc ?s0)\<lparr>uuid_supply := n\<rparr>\<rparr>"
    and "\<And>g. family = Some g \<Longrightarrow> f = g" "family = None \<Longrightarrow> f = Suc (uuid_supply (proc s))"
    by auto
  moreover have "uuid_supply (proc t) = n" by (simp add: t)
  ultimately show thesis using ins rest pair by (intro that [of n f s2 s3]) (auto simp: t)
qed

lemma log_session_frame:
  assumes "log_session u r md s = (Inr x, s')"
  shows "users (working s') = users (working s)" "refresh_tokens (working s') = refresh_tokens (working s)"
    "committed s' = committed s" "clock (proc s') = clock (proc s)"
    "login_attempts (proc s') = login_attempts (proc s)"
    "rls_tenant s' = rls_tenant s" "rls_user s' = rls_user s"
  using assms by (auto simp: log_session_def record_login_session_def tx_inv split: option.splits)

lemma issue_token_pair_frame:
  assumes "issue_token_pair A u md family parent s = (Inr pair, s')"
  shows "users (working s') = users (working s)" "committed s' = committed s" "clock (proc s') = clock (proc s)"
    "login_attempts (proc s') = login_attempts (proc s)"
    "rls_tenant s' = rls_tenant s" "rls_user s' = rls_user s"
    "tkp_access_token pair = jwt_encode A (access_claims A (us_id u) (us_tenant u) (us_user_type u)
      (uuid_supply (proc s)) (clock (proc s)))"
proof -
  obtain f n s2 s3 where ins: "insert_row refresh_tokens_table (issued_token A u parent f n (proc s))
        (s\<lparr>proc := (proc s)\<lparr>secrets_drawn := Suc (secrets_drawn (proc s)), uuid_supply := Suc n\<rparr>\<rparr>) =
      (Inr (issued_token A u parent f n (proc s)), s2)"
    and link: "link_parent parent n s2 = (Inr (), s3)"
    and log: "log_session u (issued_token A u parent f n (proc s)) md s3 = (Inr (), s')"
    and access: "tkp_access_token pair = jwt_encode A (access_claims A (us_id u) (us_tenant u) (us_user_type u)
      (uuid_supply (proc s)) (clock (proc s)))"
    by (rule issue_token_pair_steps [OF assms], rule that)
  have s2: "users (working s2) = users (working s)"
    using ins by (simp add: insert_row_Inr_iff)
  show "users (working s') = users (working s)" "committed s' = committed s" "clock (proc s') = clock (proc s)"
    "login_attempts (proc s') = login_attempts (proc s)"
    "rls_tenant s' = rls_tenant s" "rls_user s' = rls_user s"
    using insert_row_session [OF ins]
    by (simp_all add: s2 link_parent_frame [OF link] log_session_frame [OF log])
  show "tkp_access_token pair = jwt_encode A (access_claims A (us_id u) (us_tenant u) (us_user_type u)
      (uuid_supply (proc s)) (clock (proc s)))" by (rule access)
qed

section \<open>Logins\<close>

definition recent :: "auth \<Rightarrow> int \<Rightarrow> int list \<Rightarrow> int list" where
  "recent A now xs = dropWhile (\<lambda>x. x < now - login_rate_limit_window_seconds A * usec_per_second) xs"

lemma assert_allowed_run:
  "assert_allowed A key s =
     (let xs = recent A (clock (proc s)) (login_attempts (proc s) key);
          t = s\<lparr>proc := (proc s)\<lparr>login_attempts := (login_attempts (proc s))(key := xs)\<rparr>\<rparr>
      in if login_rate_limit_attempts A \<le> length xs
         then (Inl (Prep_Suite_Error ''login_rate_limited'' 429), t) else (Inr (), t))"
  by (simp add: assert_allowed_def recent_def tx_exec Let_def)

lemma find_login_user_Inr:
  "find_login_user email tenant s = (Inr found, s') \<Longrightarrow> s' = s \<and>
     (\<forall>u. found = Some u \<longrightarrow> u \<in> set (users (working s)) \<and> us_email u = email \<and> us_deleted_at u = None \<and>
        (\<forall>t. tenant = Some t \<longrightarrow> us_tenant u = Some t) \<and> visible users_table s u)"
  by (auto simp: find_login_user_def user_get_by_email_def users_by_email_def tenant_filter_def bind_tx_Inr_iff
      guard_Inr basic_Inr_iff identity_rows first_opt_def split: option.splits list.splits
      dest!: lookup_SomeD arg_cong [where f = set])

lemma reject_login_Inr [simp]: "reject_login key email tenant i reason md code n s \<noteq> (Inr x, s')"
  by (auto simp: reject_login_def bind_tx_Inr_iff)

lemma credentials_ok_Inr_iff [simp]:
  "credentials_ok A pw found s = (Inr b, s') \<longleftrightarrow> s' = s \<and>
     (case found of None \<Rightarrow> \<not> b | Some u \<Rightarrow> argon_verify A (us_password_hash u) pw = Some b)"
  by (auto simp: credentials_ok_def verify_password_def split: option.splits)

lemma record_failure_run [tx_simps]:
  "record_failure key s = (Inr (), s\<lparr>proc := (proc s)\<lparr>login_attempts :=
     (login_attempts (proc s))(key := login_attempts (proc s) key @ [clock (proc s)])\<rparr>\<rparr>)"
  by (simp add: record_failure_def tx_exec)

lemma reset_attempts_run [tx_simps]:
  "reset_attempts key s = (Inr (), s\<lparr>proc := (proc s)\<lparr>login_attempts := (login_attempts (proc s))(key := [])\<rparr>\<rparr>)"
  by (simp add: reset_attempts_def tx_exec)

definition login_tenant :: "login_request \<Rightarrow> uuid option \<Rightarrow> uuid option" where
  "login_tenant p context_tenant = (case lgr_tenant p of Some t \<Rightarrow> Some t | None \<Rightarrow> context_tenant)"

lemma login_steps:
  assumes "login A p ctx md s = (Inr (u, pair), s')"
  obtains u0 xs sa sb sc sd se where
    "xs = recent A (clock (proc s)) (login_attempts (proc s) (login_key p md))" "length xs < login_rate_limit_attempts A"
    "working sa = working s" "committed sa = committed s" "clock (proc sa) = clock (proc s)"
    "uuid_supply (proc sa) = uuid_supply (proc s)"
    "login_attempts (proc sa) = (login_attempts (proc s))(login_key p md := xs)"
    "find_login_user (lgr_email p) (login_tenant p ctx) sa = (Inr (Some u0), sa)"
    "argon_verify A (us_password_hash u0) (lgr_password p) = Some True" "us_status u0 = U_ACTIVE"
    "u = u0\<lparr>us_last_login_at := Some (clock (proc s))\<rparr>"
    "working sb = working s" "proc sb = proc sa" "rls_user sb = Some (us_id u0)"
    "save_row users_table u sb = (Inr u, sc)"
    "issue_token_pair A u (Some md) None None sc = (Inr pair, sd)"
    "record_login_history (lgr_email p) (us_tenant u) (Some (us_id u)) True None md sd = (Inr (), se)"
    "committed s' = working se"
    "proc s' = (proc se)\<lparr>login_attempts := (login_attempts (proc se))(login_key p md := [])\<rparr>"
proof -
  let ?sa = "s\<lparr>rls_tenant := (case login_tenant p ctx of None \<Rightarrow> rls_tenant s | Some _ \<Rightarrow> login_tenant p ctx),
    proc := (proc s)\<lparr>login_attempts := (login_attempts (proc s))(login_key p md :=
      recent A (clock (proc s)) (login_attempts (proc s) (login_key p md)))\<rparr>\<rparr>"
  define rest where "rest u0 = bind_tx (set_current_user (us_id u0)) (\<lambda>_.
             bind_tx (set_tenant_if (us_tenant u0)) (\<lambda>_.
             bind_tx now_utc (\<lambda>now.
             bind_tx (save_row users_table (u0\<lparr>us_last_login_at := Some now\<rparr>)) (\<lambda>saved.
             bind_tx (issue_token_pair A saved (Some md) None None) (\<lambda>tokens.
             bind_tx (record_login_history (lgr_email p) (us_tenant u0) (Some (us_id u0)) True None md) (\<lambda>_.
             bind_tx commit_tx (\<lambda>_.
             bind_tx (reset_attempts (login_key p md)) (\<lambda>_.
             return_tx (saved, tokens)))))))))" for u0
  from assms obtain u0 where len: "length (recent A (clock (proc s)) (login_attempts (proc s) (login_key p md))) < login_rate_limit_attempts A"
    and found: "find_login_user (lgr_email p) (login_tenant p ctx) ?sa = (Inr (Some u0), ?sa)"
    and ok: "argon_verify A (us_password_hash u0) (lgr_password p) = Some True" "us_status u0 = U_ACTIVE"
    and rest: "rest u0 ?sa = (Inr (u, pair), s')"
    unfolding login_def Let_def login_tenant_def [symmetric] rest_def [symmetric]
    by (auto simp: bind_tx_Inr_iff set_tenant_if_run assert_allowed_run Let_def guard_Inr
        split: if_splits option.splits dest: find_login_user_Inr)
  define sb where "sb = ?sa\<lparr>rls_user := Some (us_id u0),
    rls_tenant := (case us_tenant u0 of None \<Rightarrow> rls_tenant (?sa\<lparr>rls_user := Some (us_id u0)\<rparr>)
      | Some _ \<Rightarrow> us_tenant u0)\<rparr>"
  have sb: "clock (proc sb) = clock (proc s)" by (simp add: sb_def)
  from rest obtain sc sd se where steps:
    "save_row users_table u sb = (Inr u, sc)" "u = u0\<lparr>us_last_login_at := Some (clock (proc s))\<rparr>"
    "issue_token_pair A u (Some md) None None sc = (Inr pair, sd)"
    "record_login_history (lgr_email p) (us_tenant u) (Some (us_id u)) True None md sd = (Inr (), se)"
    "s' = se\<lparr>committed := working se, rls_tenant := None, rls_user := None,
      proc := (proc se)\<lparr>login_attempts := (login_attempts (proc se))(login_key p md := [])\<rparr>\<rparr>"
    unfolding rest_def bind_step bind_query sb_def [symmetric] sb bind_store
    by (auto simp: bind_tx_Inr_iff basic_Inr_iff reset_attempts_run)
  show thesis
    by (rule that [OF refl _ _ _ _ _ _ found ok steps(2) _ _ _ steps(1,3,4)]) (simp_all add: len sb_def steps(5))
qed

text \<open>What a login does to the failures remembered for its key, when it does not succeed.\<close>

definition attempts_are :: "string \<Rightarrow> int list \<Rightarrow> int \<Rightarrow> identity_db session \<Rightarrow> bool" where
  "attempts_are key xs now s \<longleftrightarrow> login_attempts (proc s) key = xs \<and> clock (proc s) = now"

lemma attempts_tx: "tx_ok (attempts_are key xs now)"
  by (simp add: tx_ok_def keeps_def attempts_are_def tx_simps)

lemma attempts_rows: "rows_sat (attempts_are key xs now) T (\<lambda>_. True)"
  by (auto simp: rows_sat_def keeps_def attempts_are_def insert_row_def save_row_def)

lemma attempts_store [ensures_intros]:
  "ensures (attempts_are key xs now) storage_error (\<lambda>x. x = r) (insert_row T r)"
  "ensures (attempts_are key xs now) storage_error (\<lambda>x. x = r) (save_row T r)"
  by (rule ensures_store [OF attempts_rows]; simp)+

lemma attempts_issue:
  "ensures (attempts_are key xs now) storage_error (\<lambda>_. True) (issue_token_pair A u md family parent)"
  unfolding issue_token_pair_def build_scoped_token_def create_access_token_def link_parent_def
    record_login_session_def Let_def
  by (intro ensures_bind [where Q = "\<lambda>_. True"] ensures_any [OF attempts_store(1)] ensures_any [OF attempts_store(2)]
      ensures_done ensures_intros attempts_tx)

lemma attempts_history:
  "ensures (attempts_are key xs now) storage_error (\<lambda>_. True) (record_login_history e t i ok f md)"
  unfolding record_login_history_def
  by (intro ensures_bind [where Q = "\<lambda>_. True"] ensures_any [OF attempts_store(1)] ensures_done ensures_intros attempts_tx)

definition guess_answer :: "exc \<Rightarrow> bool" where
  "guess_answer e \<longleftrightarrow> e = Prep_Suite_Error ''invalid_credentials'' 401 \<or> e = Prep_Suite_Error ''user_not_active'' 403"

lemma guess_no_storage_error: "storage_error e \<Longrightarrow> \<not> guess_answer e"
  by (auto simp: storage_error_def guess_answer_def)

lemma reject_login_attempts:
  assumes "reject_login key email tenant i reason md code n s = (Inl e, s')"
  shows "login_attempts (proc s') key = login_attempts (proc s) key @ [clock (proc s)]"
proof -
  let ?xs = "login_attempts (proc s) key @ [clock (proc s)]"
  let ?t = "s\<lparr>proc := (proc s)\<lparr>login_attempts := (login_attempts (proc s))(key := ?xs)\<rparr>\<rparr>"
  have t: "attempts_are key ?xs (clock (proc s)) ?t" by (simp add: attempts_are_def)
  have en: "ensures (attempts_are key ?xs (clock (proc s))) (\<lambda>_. True) (\<lambda>_. True)
      (bind_tx (record_login_history email tenant i False (Some reason) md) (\<lambda>_. bind_tx commit_tx (\<lambda>_.
        (abort code n :: (identity_db, user \<times> token_pair) op))))"
    by (intro ensures_bind [where Q = "\<lambda>_. True"] ensures_of_keeps ensures_keeps [OF attempts_history]
        ensures_intros attempts_tx) simp_all
  have "reject_login key email tenant i reason md code n s =
      bind_tx (record_login_history email tenant i False (Some reason) md) (\<lambda>_. bind_tx commit_tx (\<lambda>_.
        abort code n)) ?t"
    by (simp add: reject_login_def bind_tx_run [of "record_failure key"] record_failure_run)
  from ensuresD(1) [OF en t assms [unfolded this]] show ?thesis by (simp add: attempts_are_def)
qed

lemma find_login_user_Inl:
  "find_login_user email tenant s = (Inl e, s') \<Longrightarrow> s' = s \<and> \<not> guess_answer e"
  by (auto simp: find_login_user_def user_get_by_email_def users_by_email_def bind_tx_Inl_iff tx_simps
      guess_answer_def split: option.splits if_splits)

lemma credentials_ok_Inl:
  "credentials_ok A pw found s = (Inl e, s') \<Longrightarrow> s' = s \<and> \<not> guess_answer e"
  by (auto simp: credentials_ok_def verify_password_def tx_simps guess_answer_def split: option.splits)

lemma login_refused:
  assumes "login A p ctx md s = (Inl e, s')"
    and xs: "xs = recent A (clock (proc s)) (login_attempts (proc s) (login_key p md))"
  shows "login_attempts (proc s') (login_key p md) = xs \<and> \<not> guess_answer e \<or>
    login_attempts (proc s') (login_key p md) = xs @ [clock (proc s)] \<and> length xs < login_rate_limit_attempts A"
proof -
  let ?key = "login_key p md" and ?now = "clock (proc s)"
  let ?sa = "s\<lparr>rls_tenant := (case login_tenant p ctx of None \<Rightarrow> rls_tenant s | Some _ \<Rightarrow> login_tenant p ctx),
    proc := (proc s)\<lparr>login_attempts := (login_attempts (proc s))(?key := xs)\<rparr>\<rparr>"
  define rest where "rest u0 = bind_tx (set_current_user (us_id u0)) (\<lambda>_.
             bind_tx (set_tenant_if (us_tenant u0)) (\<lambda>_.
             bind_tx now_utc (\<lambda>now.
             bind_tx (save_row users_table (u0\<lparr>us_last_login_at := Some now\<rparr>)) (\<lambda>saved.
             bind_tx (issue_token_pair A saved (Some md) None None) (\<lambda>tokens.
             bind_tx (record_login_history (lgr_email p) (us_tenant u0) (Some (us_id u0)) True None md) (\<lambda>_.
             bind_tx commit_tx (\<lambda>_.
             bind_tx (reset_attempts ?key) (\<lambda>_.
             return_tx (saved, tokens)))))))))" for u0
  have sa: "attempts_are ?key xs ?now ?sa" by (simp add: attempts_are_def)
  have rest: "attempts_are ?key xs ?now t \<and> storage_error x" if "rest u0 ?sa = (Inl x, t)" for u0 x t
  proof -
    define sb where "sb = ?sa\<lparr>rls_user := Some (us_id u0),
      rls_tenant := (case us_tenant u0 of None \<Rightarrow> rls_tenant (?sa\<lparr>rls_user := Some (us_id u0)\<rparr>)
        | Some _ \<Rightarrow> us_tenant u0)\<rparr>"
    have sb: "attempts_are ?key xs ?now sb" by (simp add: attempts_are_def sb_def)
    from that consider "save_row users_table (u0\<lparr>us_last_login_at := Some (clock (proc sb))\<rparr>) sb = (Inl x, t)"
      | saved t' where "save_row users_table (u0\<lparr>us_last_login_at := Some (clock (proc sb))\<rparr>) sb = (Inr saved, t')"
          "issue_token_pair A saved (Some md) None None t' = (Inl x, t)"
      | saved t' pair t'' where "save_row users_table (u0\<lparr>us_last_login_at := Some (clock (proc sb))\<rparr>) sb = (Inr saved, t')"
          "issue_token_pair A saved (Some md) None None t' = (Inr pair, t'')"
          "record_login_history (lgr_email p) (us_tenant u0) (Some (us_id u0)) True None md t'' = (Inl x, t)"
      unfolding rest_def bind_step bind_query sb_def [symmetric] bind_tx_Inl_iff [of "save_row _ _"]
        bind_tx_Inl_iff [of "issue_token_pair _ _ _ _ _"] bind_tx_Inl_iff [of "record_login_history _ _ _ _ _ _"]
      by (auto simp: bind_tx_run commit_tx_run reset_attempts_run return_tx_run)
    then show ?thesis
    proof cases
      case 1
      from ensuresD(1) [OF attempts_store(2) sb this] show ?thesis .
    next
      case 2
      from ensuresD(2) [OF attempts_store(2) sb this(1)] have "attempts_are ?key xs ?now t'" by simp
      from ensuresD(1) [OF attempts_issue this 2(2)] show ?thesis .
    next
      case 3
      from ensuresD(2) [OF attempts_store(2) sb this(1)] have "attempts_are ?key xs ?now t'" by simp
      from ensuresD(2) [OF attempts_issue this 3(2)] have "attempts_are ?key xs ?now t''" by simp
      from ensuresD(1) [OF attempts_history this 3(3)] show ?thesis .
    qed
  qed
  show ?thesis
  proof (cases "login_rate_limit_attempts A \<le> length xs")
    case True
    with assms(1) show ?thesis
      by (auto simp: login_def Let_def bind_step bind_tx_run [of "assert_allowed _ _"] assert_allowed_run xs guess_answer_def)
  next
    case False
    have "login A p ctx md s = (bind_tx (find_login_user (lgr_email p) (login_tenant p ctx)) (\<lambda>found.
         bind_tx (credentials_ok A (lgr_password p) found) (\<lambda>ok.
         case (if ok then found else None) of
           None \<Rightarrow> reject_login ?key (lgr_email p) (login_tenant p ctx) (map_option us_id found) ''invalid_credentials'' md
             ''invalid_credentials'' 401
         | Some u \<Rightarrow> if us_status u \<noteq> U_ACTIVE
           then reject_login ?key (lgr_email p) (us_tenant u) (Some (us_id u))
             (''user_'' @ user_status_value (us_status u)) md ''user_not_active'' 403
           else rest u))) ?sa"
      using False unfolding login_def Let_def login_tenant_def [symmetric] rest_def [symmetric]
      by (simp add: bind_step bind_tx_run [of "assert_allowed _ _"] assert_allowed_run Let_def xs)
    with assms(1) consider
        "find_login_user (lgr_email p) (login_tenant p ctx) ?sa = (Inl e, s')"
      | found t where "find_login_user (lgr_email p) (login_tenant p ctx) ?sa = (Inr found, t)"
          "credentials_ok A (lgr_password p) found t = (Inl e, s')"
      | found t i reason tenant code n where "find_login_user (lgr_email p) (login_tenant p ctx) ?sa = (Inr found, t)"
          "reject_login ?key (lgr_email p) tenant i reason md code n t = (Inl e, s')"
      | found t u where "find_login_user (lgr_email p) (login_tenant p ctx) ?sa = (Inr found, t)"
          "rest u t = (Inl e, s')"
      by (auto simp: bind_tx_Inl_iff split: option.splits if_splits)
    then show ?thesis
    proof cases
      case 1
      with sa show ?thesis by (auto dest!: find_login_user_Inl simp: attempts_are_def)
    next
      case 2
      with sa show ?thesis by (auto dest!: find_login_user_Inr credentials_ok_Inl simp: attempts_are_def)
    next
      case 3
      with sa False show ?thesis
        by (auto dest!: find_login_user_Inr reject_login_attempts simp: attempts_are_def)
    next
      case 4
      then have "rest u ?sa = (Inl e, s')" by (auto dest!: find_login_user_Inr)
      with rest show ?thesis by (auto simp: attempts_are_def dest: guess_no_storage_error)
    qed
  qed
qed

section \<open>Spent refresh tokens\<close>

text \<open>The requests of the access and tenancy services.\<close>

datatype identity_request =
    Register_Admin register_request
  | Log_In login_request "uuid option" request_metadata
  | Refresh string request_metadata
  | Log_Out uuid "string option" bool
  | Request_Reset string "uuid option"
  | Confirm_Reset string string
  | Invite uuid string "uuid option" "uuid option"
  | Accept_Invitation invitation_accept
  | Create_Role role_create
  | Assign_Role uuid "uuid option" uuid "uuid option"
  | Remove_Role uuid uuid "uuid option"
  | Matrix "uuid option"
  | Create_Tenant tenant_create
  | Create_Domain uuid tenant_domain_create
  | Add_Member uuid uuid tenant_user_status bool
  | Upsert_Catalog catalog_create
  | Seed_Catalog
  | Upsert_App uuid string tenant_app_upsert
  | Update_Settings tenant_context tenant_settings_update
  | Update_Branding tenant_context tenant_branding_update

fun identity_handle :: "auth \<Rightarrow> identity_request \<Rightarrow> (identity_db, unit) op" where
  "identity_handle A (Register_Admin q) = discard (register_institution_admin A q)"
| "identity_handle A (Log_In q t md) = discard (login A q t md)"
| "identity_handle A (Refresh tok md) = discard (refresh A tok md)"
| "identity_handle A (Log_Out i tok everywhere) = logout A i tok everywhere"
| "identity_handle A (Request_Reset email t) = discard (request_password_reset A email t)"
| "identity_handle A (Confirm_Reset tok pw) = confirm_password_reset A tok pw"
| "identity_handle A (Invite t email r actor) = discard (invite_user A t email r actor)"
| "identity_handle A (Accept_Invitation q) = discard (accept_invitation A q)"
| "identity_handle A (Create_Role q) = discard (create_custom_role q)"
| "identity_handle A (Assign_Role u t r actor) = discard (assign_role u t r actor True)"
| "identity_handle A (Remove_Role u r t) = remove_role u r t"
| "identity_handle A (Matrix t) = discard (permission_matrix t)"
| "identity_handle A (Create_Tenant q) = discard (create_tenant q)"
| "identity_handle A (Create_Domain t q) = discard (create_domain t q)"
| "identity_handle A (Add_Member t u st b) = discard (add_tenant_user t u st b)"
| "identity_handle A (Upsert_Catalog q) = discard (upsert_app_catalog q)"
| "identity_handle A Seed_Catalog = discard seed_default_app_catalog"
| "identity_handle A (Upsert_App t code q) = discard (upsert_tenant_app t code q)"
| "identity_handle A (Update_Settings ctx q) = discard (update_tenant_settings ctx q)"
| "identity_handle A (Update_Branding ctx q) = discard (update_tenant_branding ctx q)"

text \<open>A token that is stored and no longer active, and what of it never changes.\<close>

definition spent_row :: "refresh_token \<Rightarrow> refresh_token \<Rightarrow> bool" where
  "spent_row r0 r \<longleftrightarrow> (rt_id r = rt_id r0 \<or> rt_token_hash r = rt_token_hash r0 \<longrightarrow>
        rt_id r = rt_id r0 \<and> rt_token_hash r = rt_token_hash r0 \<and> rt_user r = rt_user r0 \<and>
        rt_tenant r = rt_tenant r0 \<and> rt_family r = rt_family r0 \<and> rt_status r \<noteq> RT_ACTIVE)"

definition spent_in :: "refresh_token \<Rightarrow> refresh_token list \<Rightarrow> bool" where
  "spent_in r0 rs \<longleftrightarrow> rt_id r0 \<in> rt_id ` set rs \<and> (\<forall>r\<in>set rs. spent_row r0 r)"

definition spent :: "refresh_token \<Rightarrow> identity_db \<Rightarrow> process \<Rightarrow> bool" where
  "spent r0 d p \<longleftrightarrow> spent_in r0 (refresh_tokens d)"

lemma spent_found:
  "both (spent r0) s \<Longrightarrow> r \<in> set (rows refresh_tokens_table s) \<Longrightarrow> spent_row r0 r"
  by (simp add: both_def spent_def spent_in_def identity_rows)

lemma spent_in_append:
  assumes "spent_in r0 rs" "\<forall>q\<in>set rs. rt_id q \<noteq> rt_id r \<and> rt_token_hash q \<noteq> rt_token_hash r"
  shows "spent_in r0 (rs @ [r])"
proof -
  from assms(1) obtain q where q: "q \<in> set rs" "rt_id q = rt_id r0" "spent_row r0 q" by (auto simp: spent_in_def)
  then have "rt_token_hash q = rt_token_hash r0" by (simp add: spent_row_def)
  with q(2) assms(2) [rule_format, OF q(1)] have "rt_id r \<noteq> rt_id r0" "rt_token_hash r \<noteq> rt_token_hash r0"
    by metis+
  with assms(1) show ?thesis by (simp add: spent_in_def spent_row_def)
qed

lemma spent_in_replace:
  assumes "spent_in r0 rs" "\<And>r. r \<in> set rs \<Longrightarrow> c r \<Longrightarrow> rt_id (f r) = rt_id r \<and> (spent_row r0 r \<longrightarrow> spent_row r0 (f r))"
  shows "spent_in r0 (replace_where c f rs)"
proof -
  have "map rt_id (replace_where c f rs) = map rt_id rs"
    by (rule map_replace_where_eq) (simp add: assms(2))
  then have "rt_id ` set (replace_where c f rs) = rt_id ` set rs" by (metis list.set_map)
  with assms show ?thesis by (auto simp: spent_in_def set_replace_where)
qed

lemma spent_insert [keeps_intros]: "keeps (both (spent r0)) (insert_row refresh_tokens_table r)"
  unfolding keeps_def
proof (intro allI impI)
  fix s assume s: "both (spent r0) s"
  show "both (spent r0) (snd (insert_row refresh_tokens_table r s))"
  proof (cases "\<exists>q\<in>set (refresh_tokens (working s)). rt_id q = rt_id r \<or> rt_token_hash q = rt_token_hash r")
    case True
    then show ?thesis using s by (auto simp: insert_row_def list_ex_iff identity_rows refresh_token_clash_def)
  next
    case False
    then have "spent_in r0 (refresh_tokens (working s) @ [r])"
      using s by (intro spent_in_append) (auto simp: both_def spent_def)
    then show ?thesis using s by (simp add: insert_row_def both_def spent_def)
  qed
qed

lemma spent_save [keeps_intros]:
  assumes "spent_row r0 r"
  shows "keeps (both (spent r0)) (save_row refresh_tokens_table r)"
  unfolding keeps_def
proof (intro allI impI)
  fix s assume s: "both (spent r0) s"
  then have "spent_in r0 (replace_where (\<lambda>q. rt_id q = rt_id r \<and> visible refresh_tokens_table s q) (\<lambda>_. r)
      (refresh_tokens (working s)))"
    by (intro spent_in_replace) (simp_all add: both_def spent_def assms)
  then show "both (spent r0) (snd (save_row refresh_tokens_table r s))"
    using s by (simp add: save_row_def both_def spent_def)
qed

lemma spent_update [keeps_intros]:
  assumes "\<And>r. rt_id (f r) = rt_id r \<and> (spent_row r0 r \<longrightarrow> spent_row r0 (f r))"
  shows "keeps (both (spent r0)) (update_where refresh_tokens_table c f)"
  unfolding keeps_def
proof (intro allI impI)
  fix s assume s: "both (spent r0) s"
  then have "spent_in r0 (replace_where (\<lambda>r. visible refresh_tokens_table s r \<and> c r) f (refresh_tokens (working s)))"
    by (intro spent_in_replace) (simp_all add: both_def spent_def assms)
  then show "both (spent r0) (snd (update_where refresh_tokens_table c f s))"
    using s by (simp add: update_where_def both_def spent_def)
qed

lemma spent_tx: "tx_ok (both (spent r0))"
  by (rule tx_ok_both) (simp add: proc_stable_def spent_def)

lemma spent_put_proc [keeps_intros]: "keeps (both (spent r0)) (put_proc f)"
  by (simp add: keeps_def both_def spent_def put_proc_def)

text \<open>The tables the assertion does not read.\<close>

lemma spent_tables [keeps_intros]:
  "table_ok (both (spent r0)) tenants_table" "table_ok (both (spent r0)) tenant_domains_table"
  "table_ok (both (spent r0)) app_catalog_table" "table_ok (both (spent r0)) tenant_apps_table"
  "table_ok (both (spent r0)) tenant_settings_rows_table" "table_ok (both (spent r0)) tenant_brandings_table"
  "table_ok (both (spent r0)) tenant_users_table" "table_ok (both (spent r0)) users_table"
  "table_ok (both (spent r0)) user_profiles_table" "table_ok (both (spent r0)) roles_table"
  "table_ok (both (spent r0)) permissions_table" "table_ok (both (spent r0)) role_permissions_table"
  "table_ok (both (spent r0)) user_roles_table" "table_ok (both (spent r0)) login_sessions_table"
  "table_ok (both (spent r0)) login_histories_table" "table_ok (both (spent r0)) password_reset_tokens_table"
  "table_ok (both (spent r0)) invitation_tokens_table"
  by (rule table_ok_both, simp add: framed_def spent_def)+

text \<open>A token that was read is stored again: what holds of every stored token holds of it.\<close>

lemma keeps_read_token:
  assumes "\<And>r. spent_row r0 r \<Longrightarrow> keeps (both (spent r0)) (f (Some r))" "keeps (both (spent r0)) (f None)"
  shows "keeps (both (spent r0)) (bind_tx (scalar refresh_tokens_table c) f)"
proof (rule keeps_bind_post [where Q = "\<lambda>x. \<forall>r. x = Some r \<longrightarrow> spent_row r0 r"])
  show "keeps (both (spent r0)) (f x)" if "\<forall>r. x = Some r \<longrightarrow> spent_row r0 r" for x
    using that assms by (cases x) auto
qed (auto simp: scalar_run intro: keeps_intros spent_found dest!: lookup_SomeD)

lemma spent_row_update [simp]:
  "spent_row r0 (r\<lparr>rt_replaced_by := x\<rparr>) = spent_row r0 r"
  "st \<noteq> RT_ACTIVE \<Longrightarrow> spent_row r0 r \<Longrightarrow> spent_row r0 (r\<lparr>rt_status := st, rt_revoked_at := t\<rparr>)"
  by (simp_all add: spent_row_def)

lemma spent_scope [keeps_intros]:
  "keeps (both (spent r0)) (set_tenant_if t)" "keeps (both (spent r0)) (apply_scope_from_token tok)"
  "keeps (both (spent r0)) (build_scoped_token t' u)" "keeps (both (spent r0)) (hash_password A pw)"
  "keeps (both (spent r0)) (find_login_user email t)" "keeps (both (spent r0)) (credentials_ok A pw' found)"
  "keeps (both (spent r0)) (create_access_token A i t ty)" "keeps (both (spent r0)) (user_get i)"
  "keeps (both (spent r0)) (get_tenant i)"
  unfolding set_tenant_if_def apply_scope_from_token_def build_scoped_token_def hash_password_def user_get_def
    find_login_user_def credentials_ok_def verify_password_def user_get_by_email_def users_by_email_def
    create_access_token_def get_tenant_def tenant_get_active_def
  by (intro keeps_intros keeps_both_current spent_tx)+

lemma spent_tokens [keeps_intros]:
  "keeps (both (spent r0)) (link_parent parent i)" "keeps (both (spent r0)) (revoke_for_user u)"
  "st \<noteq> RT_ACTIVE \<Longrightarrow> keeps (both (spent r0)) (revoke_family f st)"
  "keeps (both (spent r0)) (record_login_session u' r md)" "keeps (both (spent r0)) (record_login_history e t k ok fr md)"
  unfolding link_parent_def revoke_for_user_def revoke_family_def record_login_session_def record_login_history_def
  by (intro keeps_read_token keeps_intros spent_tx; simp)+

lemma spent_issue [keeps_intros]: "keeps (both (spent r0)) (issue_token_pair A u md family parent)"
  unfolding issue_token_pair_def Let_def by (intro keeps_intros spent_tx)

lemma keeps_case_pair [keeps_intros]:
  "(\<And>a b. keeps J (f a b)) \<Longrightarrow> keeps J ((\<lambda>(a, b). f a b) x)"
  by (cases x) simp

lemma spent_refresh: "keeps (both (spent r0)) (refresh A tok md)"
  unfolding refresh_def refresh_token_by_hash_def
  by (intro keeps_read_token keeps_intros spent_tx keeps_both_current; simp)

lemma spent_logout: "keeps (both (spent r0)) (logout A u tok everywhere)"
  unfolding logout_def refresh_token_by_hash_def
  by (intro keeps_read_token keeps_intros spent_tx keeps_both_current; simp)

lemma spent_roles [keeps_intros]:
  "keeps (both (spent r0)) ensure_default_permissions" "keeps (both (spent r0)) (replace_role_permissions r codes)"
  "keeps (both (spent r0)) (ensure_system_role t code name codes' b)" "keeps (both (spent r0)) (create_custom_role q)"
  "keeps (both (spent r0)) (assign_role u t' i actor c)" "keeps (both (spent r0)) (remove_role u i t')"
  "keeps (both (spent r0)) (permission_matrix t)"
  unfolding ensure_default_permissions_def ensure_permission_def replace_role_permissions_def ensure_system_role_def
    create_custom_role_def assign_role_def remove_role_def permission_matrix_def permission_get_by_code_def
    permissions_by_codes_def role_get_by_code_def role_get_def user_role_get_def permissions_all_def
    roles_for_tenant_def
  by (intro keeps_intros spent_tx keeps_both_current)+

lemma spent_accounts [keeps_intros]:
  "keeps (both (spent r0)) (reject_login key email t i reason md code n)" "keeps (both (spent r0)) (login A q ctx md)"
  "keeps (both (spent r0)) (request_password_reset A email t)" "keeps (both (spent r0)) (confirm_password_reset A tok pw)"
  "keeps (both (spent r0)) (register_institution_admin A rq)" "keeps (both (spent r0)) (invite_user A ti email ro actor)"
  "keeps (both (spent r0)) (accept_invitation A iq)"
  unfolding reject_login_def login_def request_password_reset_def confirm_password_reset_def
    register_institution_admin_def invite_user_def accept_invitation_def add_user_def add_membership_def Let_def
    assert_allowed_def record_failure_def reset_attempts_def reset_by_hash_def invitation_by_hash_def role_get_def
  by (intro keeps_intros spent_tx keeps_both_current)+

lemma keeps_app_ended [keeps_intros]: "keeps J (app_ended e now)"
  unfolding app_ended_def by (auto intro!: keeps_intros split: datetime.split)

lemma spent_tenancy [keeps_intros]:
  "keeps (both (spent r0)) (create_tenant tq)" "keeps (both (spent r0)) (create_domain ti dq)"
  "keeps (both (spent r0)) (add_tenant_user ti u st b)" "keeps (both (spent r0)) (upsert_app_catalog cq)"
  "keeps (both (spent r0)) (upsert_tenant_app ti code aq)"
  "keeps (both (spent r0)) (update_tenant_settings ctx sq)" "keeps (both (spent r0)) (update_tenant_branding ctx bq)"
  unfolding create_tenant_def create_domain_def add_tenant_user_def upsert_app_catalog_def upsert_tenant_app_def
    update_tenant_settings_def update_tenant_branding_def get_tenant_settings_def get_tenant_branding_def
    catalog_get_by_code_def tenant_app_get_def ensure_tenant_access_def Let_def
  by (intro keeps_intros spent_tx keeps_both_current)+

lemma spent_seed: "keeps (both (spent r0)) seed_default_app_catalog"
  unfolding seed_default_app_catalog_def by (intro keeps_intros)

lemma spent_handle: "keeps (both (spent r0)) (identity_handle A q)"
  by (cases q) (auto intro!: keeps_discard spent_refresh spent_logout spent_roles spent_accounts spent_tenancy spent_seed)

interpretation spent_tokens: service "identity_handle A" "spent r0"
proof
  fix d p q r d' p' assume "spent r0 d p" "serve (identity_handle A q) d p = (r, d', p')"
  then show "spent r0 d' p'" by (rule serve_both [OF spent_handle])
qed (simp add: spent_def)

text \<open>A successful refresh spends the token it was given.\<close>

lemma issue_keeps_spent:
  assumes "issue_token_pair A u md family parent s = (Inr pair, s')" "spent_in r0 (refresh_tokens (working s))"
  shows "spent_in r0 (refresh_tokens (working s'))"
proof -
  obtain f n s2 s3 where ins: "insert_row refresh_tokens_table (issued_token A u parent f n (proc s))
        (s\<lparr>proc := (proc s)\<lparr>secrets_drawn := Suc (secrets_drawn (proc s)), uuid_supply := Suc n\<rparr>\<rparr>) =
      (Inr (issued_token A u parent f n (proc s)), s2)"
    and link: "link_parent parent n s2 = (Inr (), s3)"
    and log: "log_session u (issued_token A u parent f n (proc s)) md s3 = (Inr (), s')"
    by (rule issue_token_pair_steps [OF assms(1)], rule that)
  from ins assms(2) have "spent_in r0 (refresh_tokens (working s2))"
    by (auto simp: insert_row_Inr_iff identity_rows refresh_token_clash_def intro!: spent_in_append)
  with link have "spent_in r0 (refresh_tokens (working s3))"
    by (auto simp: link_parent_def tx_inv identity_rows spent_in_def split: option.splits
        intro!: spent_in_replace [unfolded spent_in_def] dest!: lookup_SomeD)
  then show ?thesis by (simp add: log_session_frame [OF log])
qed

definition token_scope :: "string \<Rightarrow> (uuid option \<times> uuid option) option" where
  "token_scope token = (case split_scoped_token token of None \<Rightarrow> None
     | Some (tenant_part, user_part, _) \<Rightarrow>
         (case (token_part ''platform'' tenant_part, token_part ''public'' user_part) of
            (Some tenant, Some user_id) \<Rightarrow> Some (tenant, user_id) | _ \<Rightarrow> None))"

lemma apply_scope_run [tx_simps]:
  "apply_scope_from_token token s = (case token_scope token of
     None \<Rightarrow> (Inl (Prep_Suite_Error ''invalid_token'' 401), s)
   | Some (t, u) \<Rightarrow> (Inr (t, u), s\<lparr>rls_user := (case u of None \<Rightarrow> rls_user s | Some _ \<Rightarrow> u),
       rls_tenant := (case t of None \<Rightarrow> rls_tenant s | Some _ \<Rightarrow> t)\<rparr>))"
  by (cases s) (simp add: apply_scope_from_token_def token_scope_def tx_exec split: option.splits prod.splits)

text \<open>A token carries the scope it was built with.\<close>

lemma split_scoped_parts:
  "CHR ''.'' \<notin> set a \<Longrightarrow> CHR ''.'' \<notin> set b \<Longrightarrow>
   split_scoped_token (a @ CHR ''.'' # b @ CHR ''.'' # c) = Some (a, b, c)"
proof -
  assume a: "CHR ''.'' \<notin> set a" and b: "CHR ''.'' \<notin> set b"
  from a have "takeWhile (\<lambda>x. x \<noteq> CHR ''.'') a = a" "dropWhile (\<lambda>x. x \<noteq> CHR ''.'') a = []"
    by (auto simp: takeWhile_eq_all_conv dropWhile_eq_Nil_conv)
  moreover from b have "takeWhile (\<lambda>x. x \<noteq> CHR ''.'') b = b" "dropWhile (\<lambda>x. x \<noteq> CHR ''.'') b = []"
    by (auto simp: takeWhile_eq_all_conv dropWhile_eq_Nil_conv)
  ultimately show ?thesis
    unfolding split_scoped_token_def Let_def by (simp add: takeWhile_append dropWhile_append)
qed

lemma token_part_uuid:
  assumes "uuid_ok i" "uuid_parse absent = None"
  shows "token_part absent (uuid_str i) = Some (Some i)"
proof -
  have "uuid_str i \<noteq> absent" using assms uuid_parse_str [OF assms(1)] by auto
  then show ?thesis by (simp add: token_part_def uuid_parse_str assms(1))
qed

lemma token_scope_scoped:
  assumes "\<And>t. tenant = Some t \<Longrightarrow> uuid_ok t" "\<And>u. user_id = Some u \<Longrightarrow> uuid_ok u"
  shows "token_scope (scoped_token tenant user_id secret) = Some (tenant, user_id)"
proof -
  have absent: "uuid_parse ''platform'' = None" "uuid_parse ''public'' = None" by code_simp+
  have "token_part ''platform'' (case tenant of None \<Rightarrow> ''platform'' | Some t \<Rightarrow> uuid_str t) = Some tenant"
    using assms(1) absent by (cases tenant) (simp_all add: token_part_uuid, simp add: token_part_def)
  moreover have "token_part ''public'' (case user_id of None \<Rightarrow> ''public'' | Some u \<Rightarrow> uuid_str u) = Some user_id"
    using assms(2) absent by (cases user_id) (simp_all add: token_part_uuid, simp add: token_part_def)
  moreover have "split_scoped_token (scoped_token tenant user_id secret) =
      Some (case tenant of None \<Rightarrow> ''platform'' | Some t \<Rightarrow> uuid_str t,
        case user_id of None \<Rightarrow> ''public'' | Some u \<Rightarrow> uuid_str u, secret)"
    unfolding scoped_token_def append_Cons append_Nil
    by (rule split_scoped_parts) (auto simp: uuid_str_no_dot split: option.splits)
  ultimately show ?thesis by (simp add: token_scope_def)
qed

lemma bind_scope:
  "token_scope token = Some (t, u) \<Longrightarrow> bind_tx (apply_scope_from_token token) f s =
     f (t, u) (s\<lparr>rls_user := (case u of None \<Rightarrow> rls_user s | Some _ \<Rightarrow> u),
       rls_tenant := (case t of None \<Rightarrow> rls_tenant s | Some _ \<Rightarrow> t)\<rparr>)"
  by (simp add: bind_tx_run apply_scope_run)

lemma bind_commit:
  "bind_tx commit_tx f s = f () (s\<lparr>committed := working s, rls_tenant := None, rls_user := None\<rparr>)"
  by (simp add: bind_tx_run commit_tx_run)

lemma commit_abort_Inr [simp]: "bind_tx m (\<lambda>_. bind_tx commit_tx (\<lambda>_. abort c n)) s \<noteq> (Inr x, s')"
  by (auto simp: bind_tx_Inr_iff)

lemma refresh_steps:
  assumes "refresh A tok md s = (Inr (u, pair), s')"
  obtains r sa sb sc where
    "token_scope tok = Some (rt_tenant r, Some (rt_user r))" "working sa = working s" "proc sa = proc s"
    "r \<in> set (refresh_tokens (working s))" "rt_token_hash r = sha256_hex A tok" "rt_status r = RT_ACTIVE"
    "clock (proc s) < rt_expires_at r" "us_id u = rt_user r" "us_status u = U_ACTIVE"
    "save_row refresh_tokens_table (r\<lparr>rt_status := RT_ROTATED, rt_revoked_at := Some (clock (proc s))\<rparr>) sa =
      (Inr (r\<lparr>rt_status := RT_ROTATED, rt_revoked_at := Some (clock (proc s))\<rparr>), sb)"
    "issue_token_pair A u (Some md) (Some (rt_family r)) (Some (rt_id r)) sb = (Inr pair, sc)"
    "committed s' = working sc"
proof -
  from assms obtain t i where scope: "token_scope tok = Some (t, Some i)"
    unfolding refresh_def by (auto simp: bind_tx_Inr_iff apply_scope_run split: option.splits)
  define sa where "sa = s\<lparr>rls_user := Some i, rls_tenant := (case t of None \<Rightarrow> rls_tenant s | Some _ \<Rightarrow> t)\<rparr>"
  have sa: "working sa = working s" "proc sa = proc s" by (simp_all add: sa_def)
  from scope have run: "bind_tx (apply_scope_from_token tok) f s = f (t, Some i) sa"
    for f :: "uuid option \<times> uuid option \<Rightarrow> (identity_db, user \<times> token_pair) op"
    by (simp add: bind_scope sa_def)
  from assms obtain r where found: "lookup refresh_tokens_table (\<lambda>r. rt_token_hash r = sha256_hex A tok) sa = Some r"
    unfolding refresh_def run refresh_token_by_hash_def
    by (auto simp: bind_query split: option.splits)
  from assms obtain sb sc where guards: "rt_user r = i" "rt_tenant r = t" "rt_status r = RT_ACTIVE"
      "clock (proc sa) < rt_expires_at r" "us_status u = U_ACTIVE"
    and owner: "lookup users_table (\<lambda>u. us_id u = rt_user r) sa = Some u"
    and save: "save_row refresh_tokens_table (r\<lparr>rt_status := RT_ROTATED, rt_revoked_at := Some (clock (proc sa))\<rparr>) sa =
      (Inr (r\<lparr>rt_status := RT_ROTATED, rt_revoked_at := Some (clock (proc sa))\<rparr>), sb)"
    and issue: "issue_token_pair A u (Some md) (Some (rt_family r)) (Some (rt_id r)) sb = (Inr pair, sc)"
    and s': "committed s' = working sc"
    unfolding refresh_def run refresh_token_by_hash_def
    by (auto simp: bind_query found guard_Inr bind_store basic_Inr_iff split: if_splits option.splits
        simp: bind_tx_Inr_iff [where m = "issue_token_pair A v (Some md) f g" for v f g]
          bind_tx_Inr_iff [where m = commit_tx])
  show thesis
    using lookup_SomeD [OF found] lookup_SomeD [OF owner]
    by (intro that [OF _ sa _ _ _ _ _ guards(5) save [unfolded sa] issue s'])
      (use guards scope in \<open>simp_all add: identity_rows sa\<close>)
qed

lemma refresh_spends:
  assumes "refresh A tok md s = (Inr (u, pair), s')" "unique_rows refresh_tokens_table (refresh_tokens (working s))"
  obtains r where "token_scope tok = Some (rt_tenant r, Some (rt_user r))"
    "r \<in> set (refresh_tokens (working s))" "rt_token_hash r = sha256_hex A tok" "rt_status r = RT_ACTIVE"
    "clock (proc s) < rt_expires_at r" "us_id u = rt_user r" "us_status u = U_ACTIVE"
    "spent_in r (refresh_tokens (committed s'))"
proof -
  obtain r sa sb sc where scope: "token_scope tok = Some (rt_tenant r, Some (rt_user r))"
    and sa: "working sa = working s" "proc sa = proc s"
    and r: "r \<in> set (refresh_tokens (working s))" "rt_token_hash r = sha256_hex A tok" "rt_status r = RT_ACTIVE"
      "clock (proc s) < rt_expires_at r" and u: "us_id u = rt_user r" "us_status u = U_ACTIVE"
    and save: "save_row refresh_tokens_table (r\<lparr>rt_status := RT_ROTATED, rt_revoked_at := Some (clock (proc s))\<rparr>) sa =
      (Inr (r\<lparr>rt_status := RT_ROTATED, rt_revoked_at := Some (clock (proc s))\<rparr>), sb)"
    and issue: "issue_token_pair A u (Some md) (Some (rt_family r)) (Some (rt_id r)) sb = (Inr pair, sc)"
    and s': "committed s' = working sc"
    by (rule refresh_steps [OF assms(1)], rule that)
  let ?r = "r\<lparr>rt_status := RT_ROTATED, rt_revoked_at := Some (clock (proc s))\<rparr>"
  have rows: "refresh_tokens (working sb) = replace_where (\<lambda>q. rt_id q = rt_id r) (\<lambda>_. ?r) (refresh_tokens (working s))"
    using refresh_tokens_tbl.rows_save_unique [OF save] assms(2) by (simp add: identity_rows sa)
  have "spent_row r q" if "q \<in> set (refresh_tokens (working s))" "rt_id q \<noteq> rt_id r" for q
    using assms(2) that r(1) by (auto simp: unique_rows_def spent_row_def refresh_token_clash_def)
  moreover have "?r \<in> set (refresh_tokens (working sb))" using r(1) by (auto simp: rows set_replace_where)
  then have "rt_id r \<in> rt_id ` set (refresh_tokens (working sb))" by (rule rev_image_eqI) simp
  moreover have "spent_row r ?r" by (simp add: spent_row_def)
  ultimately have "spent_in r (refresh_tokens (working sb))"
    unfolding spent_in_def unfolding rows set_replace_where by blast
  then have "spent_in r (refresh_tokens (committed s'))"
    unfolding s' by (rule issue_keeps_spent [OF issue])
  with scope r u show thesis by (intro that)
qed

lemma spent_refused:
  assumes "spent_in r (refresh_tokens (working s))" "token_scope tok = Some (rt_tenant r, Some (rt_user r))"
    and "rt_token_hash r = sha256_hex A tok"
  obtains s' where "refresh A tok md s = (Inl (Prep_Suite_Error ''refresh_token_reuse_detected'' 401), s')"
    "\<And>q. q \<in> set (refresh_tokens (committed s')) \<Longrightarrow> rt_family q = rt_family r \<Longrightarrow> rt_user q = rt_user r \<Longrightarrow>
       rt_status q = RT_REUSED"
proof -
  define sa where "sa = s\<lparr>rls_user := Some (rt_user r),
    rls_tenant := (case rt_tenant r of None \<Rightarrow> rls_tenant s | Some _ \<Rightarrow> rt_tenant r)\<rparr>"
  have sa: "working sa = working s" "rls_user sa = Some (rt_user r)" by (simp_all add: sa_def)
  have run: "bind_tx (apply_scope_from_token tok) f s = f (rt_tenant r, Some (rt_user r)) sa"
    for f :: "uuid option \<times> uuid option \<Rightarrow> (identity_db, user \<times> token_pair) op"
    by (simp add: bind_scope [OF assms(2)] sa_def)
  from assms(1) obtain q0 where "q0 \<in> set (refresh_tokens (working s))" "rt_id q0 = rt_id r" "spent_row r q0"
    by (auto simp: spent_in_def)
  then have q0: "q0 \<in> set (rows refresh_tokens_table sa)" "rt_token_hash q0 = sha256_hex A tok" "rt_user q0 = rt_user r"
    using assms(3) by (simp_all add: identity_rows sa spent_row_def)
  then have "visible refresh_tokens_table sa q0" by (simp add: identity_visible own_or_self_def sa)
  with q0 obtain q where found: "lookup refresh_tokens_table (\<lambda>r. rt_token_hash r = sha256_hex A tok) sa = Some q"
    by (cases "lookup refresh_tokens_table (\<lambda>r. rt_token_hash r = sha256_hex A tok) sa") (auto dest: lookup_NoneD)
  from lookup_SomeD [OF found] have "q \<in> set (refresh_tokens (working s))" "rt_token_hash q = rt_token_hash r"
    by (simp_all add: identity_rows sa assms(3))
  moreover from this(1) assms(1) have "spent_row r q" by (simp add: spent_in_def)
  ultimately have q: "rt_user q = rt_user r" "rt_tenant q = rt_tenant r" "rt_status q \<noteq> RT_ACTIVE"
    "rt_family q = rt_family r" by (simp_all add: spent_row_def)
  let ?f = "\<lambda>r. r\<lparr>rt_status := RT_REUSED, rt_revoked_at := Some (clock (proc sa))\<rparr>"
  let ?c = "\<lambda>x. visible refresh_tokens_table sa x \<and> rt_family x = rt_family r"
  have "revoke_family (rt_family r) RT_REUSED sa =
      (Inr (), sa\<lparr>working := refresh_tokens_update (replace_where ?c ?f) (working sa)\<rparr>)"
    by (auto simp: revoke_family_def bind_query update_where_def list_ex_iff identity_visible identity_writable own_or_self_def)
  then have revoke: "bind_tx (revoke_family (rt_family r) RT_REUSED) f sa =
      f () (sa\<lparr>working := refresh_tokens_update (replace_where ?c ?f) (working sa)\<rparr>)"
    for f :: "unit \<Rightarrow> (identity_db, user \<times> token_pair) op"
    by (simp add: bind_tx_run)
  have "refresh A tok md s = (Inl (Prep_Suite_Error ''refresh_token_reuse_detected'' 401),
      sa\<lparr>working := refresh_tokens_update (replace_where ?c ?f) (working sa),
        committed := refresh_tokens_update (replace_where ?c ?f) (working sa), rls_tenant := None, rls_user := None\<rparr>)"
    unfolding refresh_def run refresh_token_by_hash_def
    by (simp add: bind_query found q revoke bind_commit abort_run)
  then show thesis
  proof (rule that)
    fix q assume "q \<in> set (refresh_tokens (committed (sa\<lparr>working := refresh_tokens_update (replace_where ?c ?f) (working sa),
        committed := refresh_tokens_update (replace_where ?c ?f) (working sa), rls_tenant := None, rls_user := None\<rparr>)))"
      "rt_family q = rt_family r" "rt_user q = rt_user r"
    then show "rt_status q = RT_REUSED"
      by (auto simp: set_replace_where identity_visible own_or_self_def sa)
  qed
qed

end
