(* ===== verification/Access_Props.thy ===== *)
theory Access_Props
  imports Access_Facts
begin

text \<open>
  The properties of PrepAccess and the witnesses that apply them to a tenant with one teacher.
\<close>

section \<open>A tenant with one teacher\<close>

definition sample_start :: int where
  "sample_start = 1700000000000000"

definition plain_auth :: auth where
  "plain_auth = \<lparr>sha256_hex = (\<lambda>s. s), argon_hash = (\<lambda>salt pw. pw), argon_verify = (\<lambda>h pw. Some (h = pw)),
     jwt_encode = (\<lambda>claims. case json_get claims ''jti'' JNull of JStr j \<Rightarrow> j | _ \<Rightarrow> []),
     jwt_decode = (\<lambda>now aud iss token. None), jwt_issuer = ''prepsuite'', jwt_audience = ''prepsuite-api'',
     access_token_ttl_minutes = 15, refresh_token_ttl_days = 30, password_reset_token_ttl_minutes = 30,
     invitation_token_ttl_days = 7, login_rate_limit_attempts = 5, login_rate_limit_window_seconds = 300\<rparr>"

definition sample_claims :: json where
  "sample_claims = access_claims plain_auth 2 (Some 1) TEACHER_USER 100 sample_start"

definition sample_auth :: auth where
  "sample_auth = plain_auth\<lparr>jwt_decode := (\<lambda>now aud iss token.
     if token = uuid_str 100 then Some sample_claims else None)\<rparr>"

definition sample_teacher_user :: user where
  "sample_teacher_user = \<lparr>us_id = 2, us_tenant = Some 1, us_email = ''t@x'', us_phone = None, us_password_hash = ''pw'',
     us_status = U_ACTIVE, us_user_type = TEACHER_USER, us_last_login_at = None, us_deleted_at = None\<rparr>"

definition sample_identity :: identity_db where
  "sample_identity = empty_identity_db\<lparr>users := [sample_teacher_user],
     roles := [\<lparr>ro_id = 3, ro_tenant = Some 1, ro_code = ''teacher'', ro_name = ''Teacher'', ro_description = None,
       ro_is_system = True, ro_is_default = True, ro_deleted_at = None\<rparr>],
     permissions := [\<lparr>pm_id = 4, pm_code = ''preplive.class.manage'', pm_app_code = ''preplive'', pm_resource = ''class'',
       pm_action = ''manage'', pm_is_active = True\<rparr>],
     role_permissions := [\<lparr>rp_id = 5, rp_tenant = Some 1, rp_role = 3, rp_permission = 4\<rparr>],
     user_roles := [\<lparr>ur_id = 6, ur_tenant = Some 1, ur_user = 2, ur_role = 3, ur_assigned_by = None,
       ur_assigned_at = 0\<rparr>]\<rparr>"

definition sample_desk :: process where
  "sample_desk = \<lparr>clock = sample_start, uuid_supply = 100, secret_source = (\<lambda>n. replicate n (CHR ''s'')),
     secrets_drawn = 0, event_log = [], login_attempts = (\<lambda>_. [])\<rparr>"

definition sample_metadata :: request_metadata where
  "sample_metadata = \<lparr>md_ip_address = Some ''10.0.0.7'', md_user_agent = None\<rparr>"

definition sample_login :: login_request where
  "sample_login = \<lparr>lgr_email = ''t@x'', lgr_password = ''pw'', lgr_tenant = Some 1\<rparr>"

lemmas sample_identity_defs = plain_auth_def sample_auth_def sample_teacher_user_def sample_identity_def
  sample_desk_def sample_metadata_def sample_login_def empty_identity_db_def sample_start_def

section \<open>Permissions\<close>

text \<open>
  C30. A request passes the permission check exactly when its token is accepted, names an active account
  of the tenant the token claims, and a role of that account in that tenant, neither deleted nor of another
  tenant, grants the active permission; the check reads the database and changes nothing.
\<close>

theorem request_admitted:
  "serve (require_permission A code credentials) d p = (Inr pr, d', p') \<longleftrightarrow> d' = d \<and> p' = p \<and>
    (\<exists>token u. credentials = Some token \<and> authenticates A d (clock p) token u \<and> granted d u code \<and>
      pr = \<lparr>pr_user = us_id u, pr_tenant = us_tenant u, pr_permissions = permission_codes d u\<rparr>)"
  by (rule require_permission_serve)

section \<open>Access tokens\<close>

lemma claimed_uuid_str: "uuid_ok i \<Longrightarrow> claimed (JStr (uuid_str i)) = Some (Some i)"
  by (simp add: claimed_def uuid_parse_str)

lemma account_unique:
  "unique_rows users_table (users d) \<Longrightarrow> u \<in> set (users d) \<Longrightarrow> us_deleted_at u = None \<Longrightarrow>
   account d (us_id u) = Some u"
  unfolding account_def
  by (rule first_opt_filter_unique) (auto dest: unique_rows_key)

text \<open>
  C31. The access token of a successful login authenticates its user: wherever PyJWT returns the claims that
  were signed, the next request is that of the account that logged in, in its own tenant.
\<close>

theorem login_token_authenticates:
  assumes login: "serve (login A q ctx md) d p = (Inr (u, pair), d', p')"
    and users: "unique_rows users_table (users d)"
    and ids: "uuid_ok (us_id u)" "\<And>t. us_tenant u = Some t \<Longrightarrow> uuid_ok t"
    and jwt: "\<And>c. c = access_claims A (us_id u) (us_tenant u) (us_user_type u) (uuid_supply p) (clock p) \<Longrightarrow>
      jwt_decode A (timestamp (clock p'')) (jwt_audience A) (jwt_issuer A) (jwt_encode A c) = Some c"
  shows "serve (get_current_user A (Some (tkp_access_token pair))) d' p'' = (Inr u, d', p'')"
proof -
  obtain s where run: "login A q ctx md (open_session d p) = (Inr (u, pair), s)" and d': "committed s = d'"
    using login by (auto simp: serve_iff)
  have opened: "working (open_session d p) = d" "proc (open_session d p) = p" by (simp_all add: open_session_def)
  obtain u0 sa sb sc sd se where
    sa: "working sa = d" "clock (proc sa) = clock p" "uuid_supply (proc sa) = uuid_supply p"
    and found: "find_login_user (lgr_email q) (login_tenant q ctx) sa = (Inr (Some u0), sa)"
    and active: "us_status u0 = U_ACTIVE" and u: "u = u0\<lparr>us_last_login_at := Some (clock p)\<rparr>"
    and sb: "working sb = d" "proc sb = proc sa"
    and save: "save_row users_table u sb = (Inr u, sc)"
    and issue: "issue_token_pair A u (Some md) None None sc = (Inr pair, sd)"
    and history: "record_login_history (lgr_email q) (us_tenant u) (Some (us_id u)) True None md sd = (Inr (), se)"
    and s: "committed s = working se"
    by (rule login_steps [OF run, unfolded opened], rule that)
  have "users d' = users (working sc)"
    by (simp add: d' [symmetric] s record_login_history_frame [OF history] issue_token_pair_frame [OF issue])
  moreover have "users (working sc) = replace_where (\<lambda>r. us_id r = us_id u) (\<lambda>_. u) (users d)"
    using users_tbl.rows_save_unique [OF save] users by (simp add: identity_rows sb)
  moreover have "u0 \<in> set (users d)" "us_deleted_at u0 = None"
    using find_login_user_Inr [OF found] by (simp_all add: sa)
  moreover have "unique_rows users_table (users (working sc))"
    using users_tbl.unique_save [OF save] users by (simp add: identity_rows sb)
  ultimately have account: "account d' (us_id u) = Some u"
    by (intro account_unique) (auto simp: u set_replace_where)
  have access: "tkp_access_token pair = jwt_encode A
      (access_claims A (us_id u) (us_tenant u) (us_user_type u) (uuid_supply p) (clock p))"
    using issue_token_pair_frame(7) [OF issue] save_row_session [OF save] by (simp add: sb sa)
  have status: "us_status u = U_ACTIVE" by (simp add: u active)
  have "authenticates A d' (clock p'') (tkp_access_token pair) u"
    unfolding authenticates_def access jwt [OF refl]
    using ids status by (cases "us_tenant u") (simp_all add: access_claims_def json_get_def account uuid_parse_str
        claimed_def)
  then show ?thesis
    by (auto simp: serve_iff get_current_user_Inr_iff open_session_def)
qed

text \<open>The teacher logs in and comes back a minute later.\<close>

theorem login_token_authenticates_witness:
  "\<exists>u pair d' p'. serve (login sample_auth sample_login None sample_metadata) sample_identity sample_desk =
      (Inr (u, pair), d', p') \<and>
     serve (get_current_user sample_auth (Some (tkp_access_token pair))) d' (p'\<lparr>clock := sample_start + 60000000\<rparr>) =
      (Inr u, d', p'\<lparr>clock := sample_start + 60000000\<rparr>)"
proof -
  have "\<exists>u pair d' p'. serve (login sample_auth sample_login None sample_metadata) sample_identity sample_desk =
      (Inr (u, pair), d', p') \<and> us_id u = 2 \<and> us_tenant u = Some 1 \<and> us_user_type u = TEACHER_USER"
    by (simp add: serve_def login_def set_tenant_if_def assert_allowed_def find_login_user_def user_get_by_email_def
        credentials_ok_def verify_password_def issue_token_pair_def build_scoped_token_def create_access_token_def
        link_parent_def record_login_session_def record_login_history_def reset_attempts_def Let_def open_session_def
        sample_identity_defs login_key_def tenant_filter_def tx_exec lookup_def insert_row_def save_row_def identity_rows
        identity_visible identity_writable policy_defs identity_clash_defs usec_per_second_def)
  then obtain u pair d' p' where
    run: "serve (login sample_auth sample_login None sample_metadata) sample_identity sample_desk = (Inr (u, pair), d', p')"
    and u: "us_id u = 2" "us_tenant u = Some 1" "us_user_type u = TEACHER_USER" by blast
  show ?thesis
  proof (intro exI conjI)
    show "serve (get_current_user sample_auth (Some (tkp_access_token pair))) d' (p'\<lparr>clock := sample_start + 60000000\<rparr>) =
      (Inr u, d', p'\<lparr>clock := sample_start + 60000000\<rparr>)"
      by (rule login_token_authenticates [OF run])
        (simp_all add: u unique_rows_def uuid_ok_def sample_claims_def access_claims_def json_get_def sample_identity_defs)
  qed (rule run)
qed

section \<open>The login rate limit\<close>

text \<open>Logins served one after the other, each at its own time; the answers.\<close>

fun login_run :: "auth \<Rightarrow> (int \<times> login_request \<times> uuid option \<times> request_metadata) list \<Rightarrow> identity_db \<Rightarrow>
    process \<Rightarrow> (exc + user \<times> token_pair) list" where
  "login_run A [] d p = []"
| "login_run A ((t, q, ctx, md) # qs) d p =
     (case serve (login A q ctx md) d (p\<lparr>clock := t\<rparr>) of (x, d', p') \<Rightarrow> x # login_run A qs d' p')"

definition guessed :: "exc + user \<times> token_pair \<Rightarrow> bool" where
  "guessed x \<longleftrightarrow> (case x of Inl e \<Rightarrow> guess_answer e | Inr _ \<Rightarrow> False)"

lemma guessed_Inl [simp]: "guessed (Inl e) = guess_answer e"
  by (simp add: guessed_def)

definition window :: "auth \<Rightarrow> int" where
  "window A = login_rate_limit_window_seconds A * usec_per_second"

lemma recent_keeps:
  assumes "now \<le> start + window A" "\<And>x. x \<in> set new \<Longrightarrow> start \<le> x"
  shows "\<exists>old'. recent A now (old @ new) = old' @ new"
proof -
  have "dropWhile (\<lambda>x. x < now - window A) new = new"
    unfolding dropWhile_eq_self_iff using assms(1) assms(2) [of "hd new"] by (cases new) auto
  then show ?thesis
    by (auto simp: recent_def window_def [symmetric] dropWhile_append split: if_splits
        intro: exI [of _ "[]"] exI [of _ "dropWhile (\<lambda>x. x < now - window A) old"])
qed

lemma guesses_left:
  assumes "\<And>t q ctx md. (t, q, ctx, md) \<in> set qs \<Longrightarrow> login_key q md = key \<and> start \<le> t \<and> t \<le> start + window A"
    and "\<And>x. x \<in> set (login_run A qs d p) \<Longrightarrow> \<exists>e. x = Inl e"
    and "login_attempts p key = old @ new" "\<And>x. x \<in> set new \<Longrightarrow> start \<le> x"
  shows "length (filter guessed (login_run A qs d p)) \<le> login_rate_limit_attempts A - length new"
  using assms
proof (induction qs arbitrary: d p old new)
  case Nil
  then show ?case by simp
next
  case (Cons entry qs)
  obtain t q ctx md where entry: "entry = (t, q, ctx, md)" by (cases entry) auto
  with Cons.prems(1) have key: "login_key q md = key" and t: "start \<le> t" "t \<le> start + window A" by auto
  obtain x d' p' where run: "serve (login A q ctx md) d (p\<lparr>clock := t\<rparr>) = (x, d', p')"
    by (metis prod_cases3)
  with Cons.prems(2) [of x] entry obtain e where x: "x = Inl e" by auto
  obtain old' where recent: "recent A t (old @ new) = old' @ new"
    using recent_keeps [OF t(2) Cons.prems(4)] by auto
  let ?s = "open_session d (p\<lparr>clock := t\<rparr>)"
  obtain s' where s': "login A q ctx md ?s = (Inl e, s')" "proc s' = p'"
    using run x by (auto simp: serve_iff)
  have "old' @ new = recent A (clock (proc ?s)) (login_attempts (proc ?s) (login_key q md))"
    using recent Cons.prems(3) by (simp add: open_session_def key)
  from login_refused [OF s'(1) this]
  have cases: "login_attempts p' key = old' @ new \<and> \<not> guess_answer e \<or>
      login_attempts p' key = old' @ (new @ [t]) \<and> length new < login_rate_limit_attempts A"
    using s'(2) by (auto simp: key open_session_def)
  have rest: "length (filter guessed (login_run A qs d' p')) \<le> login_rate_limit_attempts A - length new'"
    if "login_attempts p' key = old' @ new'" "\<And>x. x \<in> set new' \<Longrightarrow> start \<le> x" for new'
    by (rule Cons.IH [OF _ _ that]) (use Cons.prems(1,2) run entry in auto)
  from cases show ?case
  proof
    assume "login_attempts p' key = old' @ new \<and> \<not> guess_answer e"
    with rest [of new] Cons.prems(4) run x entry show ?thesis by simp
  next
    assume more: "login_attempts p' key = old' @ (new @ [t]) \<and> length new < login_rate_limit_attempts A"
    have "length (filter guessed (login_run A qs d' p')) \<le> login_rate_limit_attempts A - length (new @ [t])"
      by (rule rest) (use more t(1) Cons.prems(4) in auto)
    with more run x entry show ?thesis by auto
  qed
qed

text \<open>
  C32. Per key, that is e-mail address and caller's address: when the logins made under one key within one
  window of the rate limiter all fail, at most as many of them as the limit allows are answered with
  a refusal of the credentials or the account; the others never reach the password.  The bound is per
  key only: the caller's address is the one the request claims (\<open>X-Forwarded-For\<close> when it is there), so
  every forged address has a count of its own, and a login that succeeds resets the count.
\<close>

theorem login_guesses_bounded:
  assumes "\<And>t q ctx md. (t, q, ctx, md) \<in> set qs \<Longrightarrow> login_key q md = key \<and> start \<le> t \<and> t \<le> start + window A"
    and "\<And>x. x \<in> set (login_run A qs d p) \<Longrightarrow> \<exists>e. x = Inl e"
  shows "length (filter guessed (login_run A qs d p)) \<le> login_rate_limit_attempts A"
  by (rule order_trans [OF guesses_left [where start = start and key = key and new = "[]"]])
    (use assms in auto)

definition wrong_login :: "int \<times> login_request \<times> uuid option \<times> request_metadata" where
  "wrong_login = (sample_start, sample_login\<lparr>lgr_password := ''guess''\<rparr>, None, sample_metadata)"

text \<open>A limit of one failure: of three wrong passwords one is looked at.\<close>

theorem login_guesses_bounded_witness:
  "length (filter guessed (login_run (sample_auth\<lparr>login_rate_limit_attempts := 1\<rparr>) (replicate 3 wrong_login)
     sample_identity sample_desk)) \<le> 1"
proof -
  let ?A = "sample_auth\<lparr>login_rate_limit_attempts := 1\<rparr>"
  have "list_all (\<lambda>x. case x of Inl e \<Rightarrow> True | Inr _ \<Rightarrow> False) (login_run ?A (replicate 3 wrong_login) sample_identity sample_desk)"
    by (simp add: numeral_3_eq_3 wrong_login_def serve_def login_def set_tenant_if_def assert_allowed_def find_login_user_def
        user_get_by_email_def credentials_ok_def verify_password_def reject_login_def record_failure_def
        record_login_history_def Let_def open_session_def sample_identity_defs login_key_def tenant_filter_def tx_exec
        lookup_def insert_row_def identity_rows identity_visible identity_writable policy_defs
        identity_clash_defs usec_per_second_def)
  then have fails: "\<exists>e. x = Inl e" if "x \<in> set (login_run ?A (replicate 3 wrong_login) sample_identity sample_desk)" for x
    using that by (cases x) (auto simp: list_all_iff)
  have "length (filter guessed (login_run ?A (replicate 3 wrong_login) sample_identity sample_desk)) \<le>
      login_rate_limit_attempts ?A"
    by (rule login_guesses_bounded [where start = sample_start and key = "login_key sample_login sample_metadata",
        OF _ fails])
      (auto simp: wrong_login_def login_key_def window_def usec_per_second_def sample_auth_def plain_auth_def sample_login_def)
  then show ?thesis by simp
qed

section \<open>Rotation of refresh tokens\<close>

text \<open>
  C33. A refresh token is exchanged at most once.  When it was, it was stored, active and not expired; and
  whatever the services did since, presenting it again is answered with the detection of its reuse, after which
  every token of its family that belongs to the user is revoked.
\<close>

theorem refresh_token_single_use:
  assumes first: "serve (refresh A tok md) d0 p0 = (Inr (u, pair), d1, p1)"
    and stored: "unique_rows refresh_tokens_table (refresh_tokens d0)"
    and later: "reaches (identity_handle A) d1 p1 d2 p2"
    and again: "serve (refresh A tok md') d2 p2 = (answer, d3, p3)"
  shows "answer = Inl (Prep_Suite_Error ''refresh_token_reuse_detected'' 401) \<and>
    (\<exists>r\<in>set (refresh_tokens d0). rt_token_hash r = sha256_hex A tok \<and> rt_status r = RT_ACTIVE \<and>
       clock p0 < rt_expires_at r \<and> rt_user r = us_id u \<and>
       (\<forall>q\<in>set (refresh_tokens d3). rt_family q = rt_family r \<longrightarrow> rt_user q = us_id u \<longrightarrow> rt_status q = RT_REUSED))"
proof -
  have opened: "working (open_session d p) = d" "proc (open_session d p) = p" for d :: identity_db and p
    by (simp_all add: open_session_def)
  obtain s where run: "refresh A tok md (open_session d0 p0) = (Inr (u, pair), s)" "committed s = d1"
    using first by (auto simp: serve_iff)
  obtain r where scope: "token_scope tok = Some (rt_tenant r, Some (rt_user r))"
    and r: "r \<in> set (refresh_tokens d0)" "rt_token_hash r = sha256_hex A tok" "rt_status r = RT_ACTIVE"
      "clock p0 < rt_expires_at r" "us_id u = rt_user r"
    and spent: "spent_in r (refresh_tokens (committed s))"
    by (rule refresh_spends [OF run(1), unfolded opened, OF stored], rule that)
  have "spent r d2 p2"
    by (rule spent_tokens.reaches_good [OF later]) (use spent run(2) in \<open>simp add: spent_def\<close>)
  then have "spent_in r (refresh_tokens (working (open_session d2 p2)))" by (simp add: spent_def opened)
  note spent2 = this
  obtain s' where s': "refresh A tok md' (open_session d2 p2) =
        (Inl (Prep_Suite_Error ''refresh_token_reuse_detected'' 401), s')"
    and dead: "\<And>q. q \<in> set (refresh_tokens (committed s')) \<Longrightarrow> rt_family q = rt_family r \<Longrightarrow>
        rt_user q = rt_user r \<Longrightarrow> rt_status q = RT_REUSED"
    by (rule spent_refused [OF spent2 scope r(2)], rule that)
  from again s' have "answer = Inl (Prep_Suite_Error ''refresh_token_reuse_detected'' 401)" "d3 = committed s'"
    by (simp_all add: serve_iff)
  with r dead show ?thesis by (intro conjI bexI [of _ r]) simp_all
qed

text \<open>The teacher exchanges a token, changes nothing, and tries the old one again.\<close>

definition sample_token :: string where
  "sample_token = scoped_token (Some 1) (Some 2) ''first''"

definition sample_refreshable :: identity_db where
  "sample_refreshable = sample_identity\<lparr>refresh_tokens := [\<lparr>rt_id = 7, rt_tenant = Some 1, rt_user = 2,
     rt_token_hash = sample_token, rt_family = 8, rt_parent = None, rt_status = RT_ACTIVE,
     rt_expires_at = sample_start + 1, rt_revoked_at = None, rt_replaced_by = None\<rparr>]\<rparr>"

theorem refresh_token_single_use_witness:
  "\<exists>d1 p1 d3 p3. serve (refresh sample_auth sample_token sample_metadata) d1 p1 =
      (Inl (Prep_Suite_Error ''refresh_token_reuse_detected'' 401), d3, p3) \<and>
     (\<exists>x. serve (refresh sample_auth sample_token sample_metadata) sample_refreshable sample_desk = (Inr x, d1, p1))"
proof -
  have scope: "token_scope sample_token = Some (Some 1, Some 2)"
    unfolding sample_token_def by (rule token_scope_scoped) (auto simp: uuid_ok_def)
  then have "token_scope (uuid_str (Suc 0) @ CHR ''.'' # uuid_str 2 @ ''.first'') = Some (Some 1, Some 2)"
    by (simp add: sample_token_def scoped_token_def)
  note scope = this apply_scope_run
  have "\<exists>u pair d1 p1. serve (refresh sample_auth sample_token sample_metadata) sample_refreshable sample_desk =
      (Inr (u, pair), d1, p1)"
    by (simp add: serve_def refresh_def scope refresh_token_by_hash_def issue_token_pair_def
        build_scoped_token_run create_access_token_def link_parent_def record_login_session_def Let_def open_session_def
        sample_identity_defs sample_refreshable_def sample_token_def scoped_token_def tx_exec lookup_def insert_row_def
        save_row_def identity_rows identity_visible identity_writable policy_defs identity_clash_defs replace_where_def)
  then obtain u pair d1 p1 where
    run: "serve (refresh sample_auth sample_token sample_metadata) sample_refreshable sample_desk = (Inr (u, pair), d1, p1)"
    by blast
  obtain answer d3 p3 where again: "serve (refresh sample_auth sample_token sample_metadata) d1 p1 = (answer, d3, p3)"
    by (metis prod_cases3)
  have "answer = Inl (Prep_Suite_Error ''refresh_token_reuse_detected'' 401)"
    using refresh_token_single_use [OF run _ reaches.start again]
    by (simp add: sample_refreshable_def unique_rows_def)
  with run again show ?thesis by blast
qed

end
