(* ===== verification/People.thy ===== *)
theory People
  imports Pagination Identity_Model
begin

text \<open>
  PrepPeople (app/modules/people/service.py and repository.py): departments, employees with their
  profile, notes, documents and status history, and the assignments of teachers.  The accounts an
  employee may be linked to live in the identity tables; the operations that look one up take the
  list of accounts as an argument.
\<close>

section \<open>Payloads and answers\<close>

record department_create =
  dpc_name :: string
  dpc_code :: string
  dpc_description :: "string option"
  dpc_status :: department_status

record employee_profile_upsert =
  epu_job_title :: "string option"
  epu_bio :: "string option"
  epu_qualifications :: json
  epu_emergency_contact :: json
  epu_profile_data :: json

text \<open>The same payload inside an update: only the members the client sent are present.\<close>

record employee_profile_patch =
  epp_job_title :: "string option field"
  epp_bio :: "string option field"
  epp_qualifications :: "json field"
  epp_emergency_contact :: "json field"
  epp_profile_data :: "json field"

record employee_create =
  emc_user :: "uuid option"
  emc_department :: "uuid option"
  emc_employee_code :: string
  emc_first_name :: string
  emc_last_name :: "string option"
  emc_email :: "string option"
  emc_phone :: "string option"
  emc_employee_type :: employee_type
  emc_status :: employee_status
  emc_joined_at :: "int option"
  emc_profile :: "employee_profile_upsert option"

record employee_update =
  emu_user :: "uuid option field"
  emu_department :: "uuid option field"
  emu_employee_code :: "string option field"
  emu_first_name :: "string option field"
  emu_last_name :: "string option field"
  emu_email :: "string option field"
  emu_phone :: "string option field"
  emu_employee_type :: "employee_type option field"
  emu_status :: "employee_status option field"
  emu_joined_at :: "int option field"
  emu_status_change_reason :: "string option field"
  emu_profile :: "employee_profile_patch option field"

record employee_document_create =
  edc_title :: string
  edc_document_type :: "string option"
  edc_storage_key :: string
  edc_file_name :: "string option"
  edc_mime_type :: "string option"
  edc_size_bytes :: "int option"
  edc_metadata :: json

record employee_note_create =
  enc_body :: string
  enc_note_type :: "string option"
  enc_visibility :: employee_note_visibility

record teacher_assignment_create =
  tac_teacher :: uuid
  tac_course :: "uuid option"
  tac_batch :: "uuid option"
  tac_assignment_type :: string
  tac_starts_at :: "datetime option"
  tac_ends_at :: "datetime option"
  tac_status :: teacher_assignment_status

record employee_aggregate =
  ega_employee :: employee
  ega_profile :: "employee_profile option"
  ega_department :: "department option"
  ega_documents :: "employee_document list"
  ega_notes :: "employee_note list"
  ega_status_history :: "employee_status_history list"
  ega_teacher_assignments :: "teacher_assignment list"

record employee_event =
  eev_type :: string
  eev_id :: uuid
  eev_occurred_at :: int

record workload_read =
  tw_teacher :: uuid
  tw_active_assignment_count :: nat
  tw_course_count :: nat
  tw_batch_count :: nat
  tw_assignments :: "teacher_assignment list"

section \<open>Repositories\<close>

definition department_get_for_tenant :: "uuid \<Rightarrow> uuid \<Rightarrow> (db, department option) op" where
  "department_get_for_tenant tenant department_id = scalar departments_table
     (\<lambda>r. dp_tenant r = tenant \<and> dp_id r = department_id \<and> dp_deleted_at r = None)"

definition department_list_for_tenant ::
    "uuid \<Rightarrow> department_status option \<Rightarrow> string option \<Rightarrow> (db, department list) op" where
  "department_list_for_tenant tenant status search =
     bind_tx (select_rows departments_table (\<lambda>r. dp_tenant r = tenant \<and> dp_deleted_at r = None \<and>
       matches_filter status (dp_status r) \<and>
       matches_search search [Some (dp_name r), Some (dp_code r)])) (\<lambda>found.
     return_tx (sort_key (\<lambda>r. (dp_name r, - int (dp_id r))) found))"

definition employee_get_for_tenant :: "uuid \<Rightarrow> uuid \<Rightarrow> (db, employee option) op" where
  "employee_get_for_tenant tenant employee_id = scalar employees_table
     (\<lambda>r. em_tenant r = tenant \<and> em_id r = employee_id \<and> em_deleted_at r = None)"

datatype employee_sort = EMPLOYEE_BY_CREATED_AT | EMPLOYEE_BY_NAME | EMPLOYEE_BY_CODE

fun employee_apply_sort :: "employee_sort \<Rightarrow> employee list \<Rightarrow> employee list" where
  "employee_apply_sort EMPLOYEE_BY_NAME = sort_key (\<lambda>r. (em_first_name r, em_last_name r = None,
     case em_last_name r of None \<Rightarrow> [] | Some l \<Rightarrow> l, - int (em_id r)))"
| "employee_apply_sort EMPLOYEE_BY_CODE = sort_key (\<lambda>r. (em_employee_code r, - int (em_id r)))"
| "employee_apply_sort EMPLOYEE_BY_CREATED_AT = sort_key (\<lambda>r. (- em_created_at r, - int (em_id r)))"

definition employee_beyond :: "cursor \<Rightarrow> employee \<Rightarrow> bool" where
  "employee_beyond c r \<longleftrightarrow> em_created_at r < fst c \<or> (em_created_at r = fst c \<and> em_id r < snd c)"

definition employee_cursor :: "employee \<Rightarrow> cursor" where
  "employee_cursor r = (em_created_at r, em_id r)"

definition employee_list_for_tenant :: "uuid \<Rightarrow> nat \<Rightarrow> cursor option \<Rightarrow> employee_status option \<Rightarrow>
    employee_type option \<Rightarrow> uuid option \<Rightarrow> string option \<Rightarrow> employee_sort \<Rightarrow>
    (db, employee page) op" where
  "employee_list_for_tenant tenant limit cursor status employee_type department_id search order =
     bind_tx (select_rows employees_table (\<lambda>r. em_tenant r = tenant \<and> em_deleted_at r = None \<and>
       matches_filter status (em_status r) \<and> matches_filter employee_type (em_employee_type r) \<and>
       (case department_id of None \<Rightarrow> True | Some d \<Rightarrow> em_department r = Some d) \<and>
       matches_search search [Some (em_first_name r), em_last_name r, Some (em_employee_code r),
         em_email r, em_phone r] \<and>
       (case cursor of None \<Rightarrow> True | Some c \<Rightarrow> employee_beyond c r))) (\<lambda>found.
     return_tx (keyset_page limit employee_cursor (employee_apply_sort order found)))"

definition profile_get_by_employee :: "uuid \<Rightarrow> uuid \<Rightarrow> (db, employee_profile option) op" where
  "profile_get_by_employee tenant employee_id = scalar employee_profiles_table
     (\<lambda>r. ep_tenant r = tenant \<and> ep_employee r = employee_id)"

definition assignments_for_teacher :: "uuid \<Rightarrow> uuid \<Rightarrow> (db, teacher_assignment list) op" where
  "assignments_for_teacher tenant teacher_id =
     bind_tx (select_rows teacher_assignments_table
       (\<lambda>r. ta_tenant r = tenant \<and> ta_teacher r = teacher_id)) (\<lambda>found.
     return_tx (sort_key (\<lambda>r. (- ta_created_at r, - int (ta_id r))) found))"

section \<open>Shared steps\<close>

definition get_employee :: "tenant_context \<Rightarrow> uuid \<Rightarrow> (db, employee) op" where
  "get_employee ctx employee_id =
     bind_tx (require_tenant_id ctx) (\<lambda>tenant.
     some_or_404 ''employee_not_found'' (employee_get_for_tenant tenant employee_id))"

definition validate_department :: "uuid \<Rightarrow> uuid option \<Rightarrow> (db, unit) op" where
  "validate_department tenant department_id = (case department_id of None \<Rightarrow> return_tx ()
     | Some d \<Rightarrow> bind_tx (some_or_404 ''department_not_found'' (department_get_for_tenant tenant d))
         (\<lambda>_. return_tx ()))"

text \<open>The query on the accounts runs in the same session, under the policy of the users table.\<close>

definition account_found :: "user list \<Rightarrow> uuid \<Rightarrow> uuid \<Rightarrow> 'd session \<Rightarrow> bool" where
  "account_found accounts tenant u s \<longleftrightarrow> list_ex (\<lambda>r.
     using_policy users_table (rls_tenant s) (rls_user s) r \<and>
     us_tenant r = Some tenant \<and> us_id r = u \<and> us_deleted_at r = None) accounts"

definition validate_user_link :: "user list \<Rightarrow> uuid \<Rightarrow> uuid option \<Rightarrow> (db, unit) op" where
  "validate_user_link accounts tenant user_id = (case user_id of None \<Rightarrow> return_tx ()
     | Some u \<Rightarrow> (\<lambda>s. if account_found accounts tenant u s then return_tx () s
         else abort ''user_not_found'' 404 s))"

definition validate_batch :: "uuid \<Rightarrow> uuid option \<Rightarrow> (db, unit) op" where
  "validate_batch tenant batch_id = (case batch_id of None \<Rightarrow> return_tx ()
     | Some b \<Rightarrow> bind_tx (some_or_404 ''batch_not_found'' (scalar batches_table
         (\<lambda>r. bt_tenant r = tenant \<and> bt_id r = b \<and> bt_deleted_at r = None))) (\<lambda>_. return_tx ()))"

definition append_employee_history :: "employee \<Rightarrow> employee_status option \<Rightarrow> employee_status \<Rightarrow>
    string option \<Rightarrow> principal \<Rightarrow> (db, unit) op" where
  "append_employee_history e from_status to_status reason pr =
     bind_tx uuid4 (\<lambda>i. bind_tx now_utc (\<lambda>now.
     bind_tx (insert_row employee_status_histories_table
       \<lparr>eh_id = i, eh_tenant = em_tenant e, eh_employee = em_id e, eh_from_status = from_status,
        eh_to_status = to_status, eh_reason = reason, eh_changed_by = Some (pr_user pr),
        eh_created_at = now\<rparr>) (\<lambda>_.
     return_tx ())))"

definition full_patch :: "employee_profile_upsert \<Rightarrow> employee_profile_patch" where
  "full_patch p = \<lparr>epp_job_title = Assigned (epu_job_title p), epp_bio = Assigned (epu_bio p),
     epp_qualifications = Assigned (epu_qualifications p),
     epp_emergency_contact = Assigned (epu_emergency_contact p),
     epp_profile_data = Assigned (epu_profile_data p)\<rparr>"

definition apply_profile_patch :: "employee_profile_patch \<Rightarrow> employee_profile \<Rightarrow> employee_profile" where
  "apply_profile_patch p r = r
     \<lparr>ep_job_title := assign (epp_job_title p) (ep_job_title r),
      ep_bio := assign (epp_bio p) (ep_bio r),
      ep_qualifications := assign (epp_qualifications p) (ep_qualifications r),
      ep_emergency_contact := assign (epp_emergency_contact p) (ep_emergency_contact r),
      ep_profile_data := assign (epp_profile_data p) (ep_profile_data r)\<rparr>"

text \<open>A new profile takes the column defaults where the payload has no value.\<close>

definition upsert_profile ::
    "uuid \<Rightarrow> uuid \<Rightarrow> employee_profile_patch \<Rightarrow> (db, employee_profile) op" where
  "upsert_profile tenant employee_id p =
     bind_tx (profile_get_by_employee tenant employee_id) (\<lambda>found.
     case found of
       None \<Rightarrow> bind_tx uuid4 (\<lambda>i. insert_row employee_profiles_table (apply_profile_patch p
         \<lparr>ep_id = i, ep_tenant = tenant, ep_employee = employee_id, ep_job_title = None,
          ep_bio = None, ep_qualifications = JObj [], ep_emergency_contact = JObj [],
          ep_profile_data = JObj []\<rparr>))
     | Some r \<Rightarrow> save_row employee_profiles_table (apply_profile_patch p r))"

section \<open>Employees\<close>

definition list_employees :: "tenant_context \<Rightarrow> nat \<Rightarrow> cursor option \<Rightarrow> employee_status option \<Rightarrow>
    employee_type option \<Rightarrow> uuid option \<Rightarrow> string option \<Rightarrow> employee_sort \<Rightarrow>
    (db, employee page) op" where
  "list_employees ctx limit cursor status employee_type department_id search order =
     bind_tx (require_tenant_id ctx) (\<lambda>tenant.
     employee_list_for_tenant tenant limit cursor status employee_type department_id search order)"

definition new_employee :: "uuid \<Rightarrow> uuid \<Rightarrow> int \<Rightarrow> employee_create \<Rightarrow> employee" where
  "new_employee i tenant now p =
     \<lparr>em_id = i, em_tenant = tenant, em_user = emc_user p, em_department = emc_department p,
      em_employee_code = emc_employee_code p, em_first_name = emc_first_name p,
      em_last_name = emc_last_name p, em_email = emc_email p, em_phone = emc_phone p,
      em_employee_type = emc_employee_type p, em_status = emc_status p,
      em_joined_at = emc_joined_at p, em_deleted_at = None, em_created_at = now\<rparr>"

definition create_employee :: "user list \<Rightarrow> tenant_context \<Rightarrow> principal \<Rightarrow> employee_create \<Rightarrow>
    (db, employee) op" where
  "create_employee accounts ctx pr p =
     bind_tx (require_tenant_id ctx) (\<lambda>tenant.
     bind_tx (validate_user_link accounts tenant (emc_user p)) (\<lambda>_.
     bind_tx (validate_department tenant (emc_department p)) (\<lambda>_.
     bind_tx (on_conflict ''employee_conflict''
       (bind_tx uuid4 (\<lambda>i. bind_tx now_utc (\<lambda>now.
        bind_tx (insert_row employees_table (new_employee i tenant now p)) (\<lambda>e.
        bind_tx (case emc_profile p of None \<Rightarrow> return_tx ()
          | Some q \<Rightarrow> bind_tx (upsert_profile tenant (em_id e) (full_patch q))
              (\<lambda>_. return_tx ())) (\<lambda>_.
        bind_tx (append_employee_history e None (em_status e) (Some ''employee created'') pr) (\<lambda>_.
        bind_tx commit_tx (\<lambda>_.
        return_tx e)))))))) (\<lambda>e.
     bind_tx (publish_event ''employee.created'' ctx pr (em_id e)) (\<lambda>_.
     return_tx e)))))"

definition apply_employee_update :: "employee_update \<Rightarrow> employee \<Rightarrow> employee" where
  "apply_employee_update p e = e
     \<lparr>em_user := assign (emu_user p) (em_user e),
      em_department := assign (emu_department p) (em_department e),
      em_employee_code := assign_required (emu_employee_code p) (em_employee_code e),
      em_first_name := assign_required (emu_first_name p) (em_first_name e),
      em_last_name := assign (emu_last_name p) (em_last_name e),
      em_email := assign (emu_email p) (em_email e),
      em_phone := assign (emu_phone p) (em_phone e),
      em_employee_type := assign_required (emu_employee_type p) (em_employee_type e),
      em_status := assign_required (emu_status p) (em_status e),
      em_joined_at := assign (emu_joined_at p) (em_joined_at e)\<rparr>"

definition employee_update_null :: "employee_update \<Rightarrow> bool" where
  "employee_update_null p \<longleftrightarrow> is_null (emu_employee_code p) \<or> is_null (emu_first_name p) \<or>
     is_null (emu_employee_type p) \<or> is_null (emu_status p)"

definition employee_changes_status :: "employee_update \<Rightarrow> employee \<Rightarrow> bool" where
  "employee_changes_status p e \<longleftrightarrow> (case emu_status p of Unset \<Rightarrow> False | Assigned None \<Rightarrow> True
     | Assigned (Some v) \<Rightarrow> v \<noteq> em_status e)"

text \<open>
  The status history and the profile are flushed before the \<open>try\<close>; the first flush carries the
  pending changes of the employee with it.  \<open>profile: null\<close> is the same as no profile.
\<close>

definition update_employee :: "user list \<Rightarrow> tenant_context \<Rightarrow> principal \<Rightarrow> uuid \<Rightarrow>
    employee_update \<Rightarrow> (db, employee) op" where
  "update_employee accounts ctx pr employee_id p =
     bind_tx (require_tenant_id ctx) (\<lambda>tenant.
     bind_tx (get_employee ctx employee_id) (\<lambda>e.
     bind_tx (validate_user_link accounts tenant (assign (emu_user p) None)) (\<lambda>_.
     bind_tx (validate_department tenant (assign (emu_department p) None)) (\<lambda>_.
     let updated = apply_employee_update p e;
         reason = assign (emu_status_change_reason p) None;
         profile = assign (emu_profile p) None;
         flush = bind_tx (flush_update employees_table (employee_update_null p) updated)
           (\<lambda>_. return_tx ())
     in bind_tx (when_tx (employee_changes_status p e) (bind_tx flush (\<lambda>_.
          append_employee_history updated (Some (em_status e)) (em_status updated) reason pr))) (\<lambda>_.
        bind_tx (case profile of None \<Rightarrow> return_tx ()
          | Some q \<Rightarrow> bind_tx (when_tx (\<not> employee_changes_status p e) flush) (\<lambda>_.
              bind_tx (upsert_profile tenant (em_id e) q) (\<lambda>_. return_tx ()))) (\<lambda>_.
        bind_tx (on_conflict ''employee_conflict''
          (bind_tx (when_tx (\<not> employee_changes_status p e \<and> profile = None) flush)
            (\<lambda>_. commit_tx))) (\<lambda>_.
        bind_tx (publish_event ''employee.updated'' ctx pr (em_id e)) (\<lambda>_.
        return_tx updated))))))))"

definition get_employee_profile :: "tenant_context \<Rightarrow> uuid \<Rightarrow> (db, employee_aggregate) op" where
  "get_employee_profile ctx employee_id =
     bind_tx (get_employee ctx employee_id) (\<lambda>e.
     bind_tx (case em_department e of None \<Rightarrow> return_tx None
       | Some d \<Rightarrow> scalar departments_table (\<lambda>r. dp_id r = d)) (\<lambda>dep.
     bind_tx (scalar employee_profiles_table (\<lambda>r. ep_employee r = em_id e)) (\<lambda>prof.
     bind_tx (select_rows employee_documents_table (\<lambda>r. ed_employee r = em_id e)) (\<lambda>ds.
     bind_tx (select_rows employee_notes_table (\<lambda>r. ent_employee r = em_id e)) (\<lambda>ns.
     bind_tx (select_rows employee_status_histories_table (\<lambda>r. eh_employee r = em_id e)) (\<lambda>hs.
     bind_tx (select_rows teacher_assignments_table (\<lambda>r. ta_teacher r = em_id e)) (\<lambda>tas.
     return_tx \<lparr>ega_employee = e, ega_profile = prof, ega_department = dep,
       ega_documents = sort_key (\<lambda>r. - ed_created_at r) ds,
       ega_notes = sort_key (\<lambda>r. - ent_created_at r) ns,
       ega_status_history = sort_key (\<lambda>r. - eh_created_at r) hs,
       ega_teacher_assignments = sort_key (\<lambda>r. - ta_created_at r) tas\<rparr>)))))))"

definition employee_events :: "employee_aggregate \<Rightarrow> employee_event list" where
  "employee_events a = sort_key (\<lambda>v. - eev_occurred_at v)
     (\<lparr>eev_type = ''employee.created'', eev_id = em_id (ega_employee a),
        eev_occurred_at = em_created_at (ega_employee a)\<rparr>
      # map (\<lambda>h. \<lparr>eev_type = ''employee.status_changed'', eev_id = eh_id h,
          eev_occurred_at = eh_created_at h\<rparr>) (ega_status_history a)
      @ map (\<lambda>t. \<lparr>eev_type = ''teacher.assignment.created'', eev_id = ta_id t,
          eev_occurred_at = ta_created_at t\<rparr>) (ega_teacher_assignments a)
      @ map (\<lambda>n. \<lparr>eev_type = ''employee.note_added'', eev_id = ent_id n,
          eev_occurred_at = ent_created_at n\<rparr>) (ega_notes a)
      @ map (\<lambda>d. \<lparr>eev_type = ''employee.document_added'', eev_id = ed_id d,
          eev_occurred_at = ed_created_at d\<rparr>) (ega_documents a))"

definition employee_timeline :: "tenant_context \<Rightarrow> uuid \<Rightarrow> (db, employee_event list) op" where
  "employee_timeline ctx employee_id =
     bind_tx (get_employee_profile ctx employee_id) (\<lambda>a. return_tx (employee_events a))"

section \<open>Departments\<close>

definition create_department ::
    "tenant_context \<Rightarrow> principal \<Rightarrow> department_create \<Rightarrow> (db, department) op" where
  "create_department ctx pr p =
     bind_tx (require_tenant_id ctx) (\<lambda>tenant.
     bind_tx (on_conflict ''department_conflict''
       (bind_tx uuid4 (\<lambda>i.
        bind_tx (insert_row departments_table
          \<lparr>dp_id = i, dp_tenant = tenant, dp_name = dpc_name p, dp_code = dpc_code p,
           dp_description = dpc_description p, dp_status = dpc_status p, dp_deleted_at = None\<rparr>) (\<lambda>d.
        bind_tx commit_tx (\<lambda>_.
        return_tx d))))) (\<lambda>d.
     bind_tx (publish_event ''department.created'' ctx pr (dp_id d)) (\<lambda>_.
     return_tx d)))"

definition list_departments :: "tenant_context \<Rightarrow> department_status option \<Rightarrow> string option \<Rightarrow>
    (db, department list) op" where
  "list_departments ctx status search =
     bind_tx (require_tenant_id ctx) (\<lambda>tenant. department_list_for_tenant tenant status search)"

section \<open>Teachers, notes, documents\<close>

definition create_teacher_assignment :: "tenant_context \<Rightarrow> principal \<Rightarrow>
    teacher_assignment_create \<Rightarrow> (db, teacher_assignment) op" where
  "create_teacher_assignment ctx pr p =
     bind_tx (require_tenant_id ctx) (\<lambda>tenant.
     bind_tx (get_employee ctx (tac_teacher p)) (\<lambda>teacher.
     if em_employee_type teacher \<noteq> ET_TEACHER then abort ''employee_not_teacher'' 422
     else bind_tx (validate_batch tenant (tac_batch p)) (\<lambda>_.
       bind_tx uuid4 (\<lambda>i. bind_tx now_utc (\<lambda>now.
       bind_tx (insert_row teacher_assignments_table
         \<lparr>ta_id = i, ta_tenant = tenant, ta_teacher = tac_teacher p, ta_course = tac_course p,
          ta_batch = tac_batch p, ta_assignment_type = tac_assignment_type p,
          ta_starts_at = map_option instant (tac_starts_at p),
          ta_ends_at = map_option instant (tac_ends_at p), ta_status = tac_status p,
          ta_created_at = now\<rparr>) (\<lambda>a.
       bind_tx commit_tx (\<lambda>_.
       bind_tx (publish_event ''teacher.assignment.created'' ctx pr (ta_id a)) (\<lambda>_.
       return_tx a))))))))"

text \<open>\<open>len({item.course_id for item in active if item.course_id})\<close>\<close>

definition distinct_count :: "'a option list \<Rightarrow> nat" where
  "distinct_count xs = card (set (filter (\<lambda>x. x \<noteq> None) xs))"

definition workload_of :: "uuid \<Rightarrow> teacher_assignment list \<Rightarrow> workload_read" where
  "workload_of teacher assignments =
     (let active = filter (\<lambda>a. ta_status a = TA_ACTIVE) assignments in
      \<lparr>tw_teacher = teacher, tw_active_assignment_count = length active,
       tw_course_count = distinct_count (map ta_course active),
       tw_batch_count = distinct_count (map ta_batch active), tw_assignments = assignments\<rparr>)"

definition teacher_workload :: "tenant_context \<Rightarrow> uuid \<Rightarrow> (db, workload_read) op" where
  "teacher_workload ctx teacher_id =
     bind_tx (require_tenant_id ctx) (\<lambda>tenant.
     bind_tx (get_employee ctx teacher_id) (\<lambda>teacher.
     if em_employee_type teacher \<noteq> ET_TEACHER then abort ''employee_not_teacher'' 422
     else bind_tx (assignments_for_teacher tenant (em_id teacher)) (\<lambda>assignments.
       return_tx (workload_of (em_id teacher) assignments))))"

definition add_employee_note :: "tenant_context \<Rightarrow> principal \<Rightarrow> uuid \<Rightarrow> employee_note_create \<Rightarrow>
    (db, employee_note) op" where
  "add_employee_note ctx pr employee_id p =
     bind_tx (require_tenant_id ctx) (\<lambda>tenant.
     bind_tx (get_employee ctx employee_id) (\<lambda>e.
     bind_tx uuid4 (\<lambda>i. bind_tx now_utc (\<lambda>now.
     bind_tx (insert_row employee_notes_table
       \<lparr>ent_id = i, ent_tenant = tenant, ent_employee = em_id e, ent_author_user = Some (pr_user pr),
        ent_note_type = enc_note_type p, ent_body = enc_body p, ent_visibility = enc_visibility p,
        ent_created_at = now\<rparr>) (\<lambda>note.
     bind_tx commit_tx (\<lambda>_.
     bind_tx (publish_event ''employee.note_added'' ctx pr (em_id e)) (\<lambda>_.
     return_tx note)))))))"

definition add_employee_document :: "tenant_context \<Rightarrow> principal \<Rightarrow> uuid \<Rightarrow>
    employee_document_create \<Rightarrow> (db, employee_document) op" where
  "add_employee_document ctx pr employee_id p =
     bind_tx (require_tenant_id ctx) (\<lambda>tenant.
     bind_tx (get_employee ctx employee_id) (\<lambda>e.
     bind_tx uuid4 (\<lambda>i. bind_tx now_utc (\<lambda>now.
     bind_tx (insert_row employee_documents_table
       \<lparr>ed_id = i, ed_tenant = tenant, ed_employee = em_id e, ed_title = edc_title p,
        ed_document_type = edc_document_type p, ed_storage_key = edc_storage_key p,
        ed_file_name = edc_file_name p, ed_mime_type = edc_mime_type p,
        ed_size_bytes = edc_size_bytes p, ed_metadata = edc_metadata p,
        ed_uploaded_by = Some (pr_user pr), ed_deleted_at = None, ed_created_at = now\<rparr>) (\<lambda>doc.
     bind_tx commit_tx (\<lambda>_.
     bind_tx (publish_event ''employee.document_added'' ctx pr (em_id e)) (\<lambda>_.
     return_tx doc)))))))"

end
