(* ===== verification/People_Facts.thy ===== *)
theory People_Facts
  imports People Row_Rules
begin

text \<open>
  The requests of PrepPeople, the tables they write, and what every request guarantees: a failing
  request leaves no trace, the other tables are left alone.
\<close>

section \<open>Requests\<close>

text \<open>The pattern \<open>^[a-z0-9][a-z0-9_-]{1,78}[a-z0-9]$\<close> of a department code.\<close>

definition department_code_ok :: "string \<Rightarrow> bool" where
  "department_code_ok c \<longleftrightarrow> code_pattern 80 ''_-'' c"

definition department_create_valid :: "department_create \<Rightarrow> bool" where
  "department_create_valid p \<longleftrightarrow> text_within 1 160 (dpc_name p) \<and> department_code_ok (dpc_code p)"

definition employee_profile_upsert_valid :: "employee_profile_upsert \<Rightarrow> bool" where
  "employee_profile_upsert_valid p \<longleftrightarrow> if_some (text_within 0 160) (epu_job_title p)"

text \<open>
  The payloads hold the normalised values; the code of an employee was stripped after its length
  was checked, so that it may be empty.
\<close>

definition employee_create_valid :: "employee_create \<Rightarrow> bool" where
  "employee_create_valid p \<longleftrightarrow> text_within 0 80 (emc_employee_code p) \<and>
     text_within 1 120 (emc_first_name p) \<and> if_some (text_within 0 120) (emc_last_name p) \<and>
     if_some (text_within 0 32) (emc_phone p) \<and>
     if_some employee_profile_upsert_valid (emc_profile p)"

definition employee_update_valid :: "employee_update \<Rightarrow> bool" where
  "employee_update_valid p \<longleftrightarrow> if_given (text_within 0 80) (emu_employee_code p) \<and>
     if_given (text_within 1 120) (emu_first_name p) \<and>
     if_given (text_within 0 120) (emu_last_name p) \<and> if_given (text_within 0 32) (emu_phone p) \<and>
     if_given (text_within 0 500) (emu_status_change_reason p) \<and>
     if_given (\<lambda>q. if_given (text_within 0 160) (epp_job_title q)) (emu_profile p)"

definition employee_document_valid :: "employee_document_create \<Rightarrow> bool" where
  "employee_document_valid p \<longleftrightarrow> text_within 1 160 (edc_title p) \<and>
     if_some (text_within 0 80) (edc_document_type p) \<and> edc_storage_key p \<noteq> [] \<and>
     if_some (text_within 0 255) (edc_file_name p) \<and> if_some (text_within 0 120) (edc_mime_type p) \<and>
     if_some (\<lambda>n. 0 \<le> n) (edc_size_bytes p)"

definition employee_note_valid :: "employee_note_create \<Rightarrow> bool" where
  "employee_note_valid p \<longleftrightarrow> enc_body p \<noteq> [] \<and> if_some (text_within 0 80) (enc_note_type p)"

text \<open>
  A course or a batch is required; the comparison \<open>ends_at < starts_at\<close> of a naive with an aware
  time raises TypeError, which is not a validation error.
\<close>

definition teacher_assignment_fault :: "teacher_assignment_create \<Rightarrow> exc option" where
  "teacher_assignment_fault p =
     (let invalid = Some (Prep_Suite_Error ''validation_error'' 422) in
      if \<not> text_within 1 80 (tac_assignment_type p) \<or> (tac_course p = None \<and> tac_batch p = None)
      then invalid
      else case (tac_starts_at p, tac_ends_at p) of
        (Some (Naive a), Some (Naive b)) \<Rightarrow> if b < a then invalid else None
      | (Some (Aware a x), Some (Aware b y)) \<Rightarrow> if b - y < a - x then invalid else None
      | (Some _, Some _) \<Rightarrow> Some (Python_Error ''TypeError'')
      | _ \<Rightarrow> None)"

definition teacher_assignment_check :: "teacher_assignment_create \<Rightarrow> ('d, unit) op" where
  "teacher_assignment_check p =
     (case teacher_assignment_fault p of None \<Rightarrow> return_tx () | Some e \<Rightarrow> raise_tx e)"

datatype people_request =
    List_Employees nat "cursor option" "employee_status option" "employee_type option"
      "uuid option" "string option" employee_sort
  | Create_Employee employee_create
  | Get_Employee uuid
  | Update_Employee uuid employee_update
  | Get_Employee_Profile uuid
  | Employee_Timeline uuid
  | Create_Department department_create
  | List_Departments "department_status option" "string option"
  | Create_Teacher_Assignment teacher_assignment_create
  | Teacher_Workload uuid
  | Add_Employee_Note uuid employee_note_create
  | Add_Employee_Document uuid employee_document_create

fun people_exec :: "user list \<Rightarrow> tenant_context \<Rightarrow> principal \<Rightarrow> people_request \<Rightarrow>
    (db, unit) op" where
  "people_exec us ctx pr (List_Employees limit c status ty d search order) =
     discard (list_employees ctx limit c status ty d search order)"
| "people_exec us ctx pr (Create_Employee p) =
     validated (employee_create_valid p) (discard (create_employee us ctx pr p))"
| "people_exec us ctx pr (Get_Employee i) = discard (get_employee ctx i)"
| "people_exec us ctx pr (Update_Employee i p) =
     validated (employee_update_valid p) (discard (update_employee us ctx pr i p))"
| "people_exec us ctx pr (Get_Employee_Profile i) = discard (get_employee_profile ctx i)"
| "people_exec us ctx pr (Employee_Timeline i) = discard (employee_timeline ctx i)"
| "people_exec us ctx pr (Create_Department p) =
     validated (department_create_valid p) (discard (create_department ctx pr p))"
| "people_exec us ctx pr (List_Departments status search) =
     discard (list_departments ctx status search)"
| "people_exec us ctx pr (Create_Teacher_Assignment p) =
     bind_tx (teacher_assignment_check p) (\<lambda>_. discard (create_teacher_assignment ctx pr p))"
| "people_exec us ctx pr (Teacher_Workload i) = discard (teacher_workload ctx i)"
| "people_exec us ctx pr (Add_Employee_Note i p) =
     validated (employee_note_valid p) (discard (add_employee_note ctx pr i p))"
| "people_exec us ctx pr (Add_Employee_Document i p) =
     validated (employee_document_valid p) (discard (add_employee_document ctx pr i p))"

definition people_handle :: "user list \<Rightarrow> people_request call \<Rightarrow> (db, unit) op" where
  "people_handle us = handle_call (people_exec us)"

section \<open>Atomicity\<close>

lemmas people_read_defs = get_employee_def employee_get_for_tenant_def validate_department_def
  department_get_for_tenant_def validate_batch_def append_employee_history_def upsert_profile_def
  profile_get_by_employee_def list_employees_def employee_list_for_tenant_def
  get_employee_profile_def employee_timeline_def list_departments_def
  department_list_for_tenant_def teacher_workload_def assignments_for_teacher_def Let_def

lemma silent_assignment_check [atomic_intros]: "silent (teacher_assignment_check p)"
  unfolding teacher_assignment_check_def by (intro atomic_intros)

lemma keeps_assignment_check [keeps_intros]: "keeps J (teacher_assignment_check p)"
  unfolding teacher_assignment_check_def by (intro keeps_intros)

lemma validate_user_link_session: "snd (validate_user_link us t u s) = s"
  by (auto simp: validate_user_link_def tx_simps split: option.splits)

lemma keeps_user_link [keeps_intros]: "keeps J (validate_user_link us t u)"
  by (simp add: keeps_def validate_user_link_session)

lemma silent_user_link [atomic_intros]: "silent (validate_user_link us t u)"
  unfolding silent_keeps by (intro allI keeps_user_link)

lemma silent_people_reads [atomic_intros]:
  "silent (get_employee ctx i)" "silent (validate_department t d)" "silent (validate_batch t b)"
  "silent (append_employee_history e f to r pr)" "silent (upsert_profile t i p)"
  "silent (list_employees ctx limit c status ty d search order)"
  "silent (get_employee_profile ctx i)" "silent (employee_timeline ctx i)"
  "silent (list_departments ctx dstatus search)" "silent (teacher_workload ctx i)"
  unfolding people_read_defs by (intro atomic_intros)+

lemmas people_write_defs = create_employee_def update_employee_def create_department_def
  create_teacher_assignment_def add_employee_note_def add_employee_document_def Let_def

lemma atomic_people:
  "atomic (create_employee us ctx pr cp)" "atomic (update_employee us ctx pr i up)"
  "atomic (create_department ctx pr dp)" "atomic (create_teacher_assignment ctx pr tp)"
  "atomic (add_employee_note ctx pr i np)" "atomic (add_employee_document ctx pr i docp)"
  unfolding people_write_defs
  apply ((rule atomic_bind_silent, (intro atomic_intros; fail)[1])
    | rule atomic_rules | (rule atomic_silent, (intro atomic_intros; fail)[1])
    | rule atomic_bind_unfailing | (intro atomic_intros; fail)[1])+
  done

lemma atomic_people_handle: "atomic (people_handle us c)"
  unfolding people_handle_def
  by (rule atomic_handle_call, cases "cl_request c")
    (auto intro!: atomic_discard atomic_validated atomic_people
      atomic_bind_silent [OF silent_assignment_check] intro: atomic_silent atomic_intros)

section \<open>What a request leaves alone\<close>

definition people_tables_ok :: "(db session \<Rightarrow> bool) \<Rightarrow> bool" where
  "people_tables_ok J \<longleftrightarrow> table_ok J employees_table \<and> table_ok J departments_table \<and>
     table_ok J employee_profiles_table \<and> table_ok J employee_documents_table \<and>
     table_ok J employee_notes_table \<and> table_ok J employee_status_histories_table \<and>
     table_ok J teacher_assignments_table"

lemma keeps_people_reads [keeps_intros]:
  "keeps J (get_employee ctx i)" "keeps J (validate_department t d)" "keeps J (validate_batch t b)"
  "keeps J (list_employees ctx limit c status ty d search order)"
  "keeps J (get_employee_profile ctx i)" "keeps J (employee_timeline ctx i)"
  "keeps J (list_departments ctx dstatus search)" "keeps J (teacher_workload ctx i)"
  unfolding people_read_defs by (intro keeps_intros)+

lemma keeps_people_steps [keeps_intros]:
  assumes "tx_ok J" "people_tables_ok J"
  shows "keeps J (append_employee_history e f to r pr)" "keeps J (upsert_profile t i p)"
  unfolding people_read_defs
  by (intro keeps_intros; use assms in \<open>auto simp: people_tables_ok_def\<close>)+

lemma keeps_people:
  assumes "tx_ok J" "people_tables_ok J"
  shows "keeps J (create_employee us ctx pr cp)" "keeps J (update_employee us ctx pr i up)"
    "keeps J (create_department ctx pr dp)" "keeps J (create_teacher_assignment ctx pr tp)"
    "keeps J (add_employee_note ctx pr i np)" "keeps J (add_employee_document ctx pr i docp)"
  unfolding people_write_defs
  by (intro keeps_intros; use assms in \<open>auto simp: people_tables_ok_def\<close>)+

lemma keeps_people_handle:
  assumes "tx_ok J" "people_tables_ok J" "keeps J (set_current_tenant (cl_tenant c))"
  shows "keeps J (people_handle us c)"
  unfolding people_handle_def
proof (rule keeps_handle_call [OF assms(3)])
  show "keeps J (people_exec us (cl_context c) (cl_principal c) (cl_request c))"
    by (cases "cl_request c")
      (auto intro!: keeps_discard keeps_validated keeps_bind keeps_people_reads
        keeps_assignment_check keeps_people [OF assms(1,2)])
qed

lemma keeps_fresh_people: "keeps (fresh_from n) (people_handle us c)"
  by (rule keeps_people_handle)
    (auto simp: people_tables_ok_def tx_ok_fresh table_ok_fresh intro: keeps_intros)

end
