(* ===== verification/Learn.thy ===== *)
theory Learn
  imports Pagination
begin

text \<open>
  PrepLearn (app/modules/learn/service.py, repository.py and schemas.py): courses with their modules,
  lessons and resources, publication, reordering, and the assignment of batches and teachers.
\<close>

section \<open>Payloads and answers\<close>

text \<open>\<open>slugify\<close>: what is left of hyphens side by side becomes one.\<close>

fun squeeze_hyphens :: "string \<Rightarrow> string" where
  "squeeze_hyphens (a # b # cs) =
     (if a = CHR ''-'' \<and> b = CHR ''-'' then squeeze_hyphens (b # cs)
      else a # squeeze_hyphens (b # cs))"
| "squeeze_hyphens cs = cs"

definition slugify :: "string \<Rightarrow> string" where
  "slugify value = squeeze_hyphens (strip_hyphens (hyphenate False (lower (strip value))))"

text \<open>The pattern \<open>^[a-z0-9][a-z0-9-]{1,118}[a-z0-9]$\<close>.\<close>

definition slug_ok :: "string \<Rightarrow> bool" where
  "slug_ok s \<longleftrightarrow> code_pattern 120 ''-'' s"

record course_create =
  ccr_title :: string
  ccr_slug :: "string option"
  ccr_description :: "string option"
  ccr_category :: "string option"
  ccr_level :: "string option"
  ccr_visibility :: course_visibility

text \<open>\<open>slugify(self.slug or self.title)\<close>\<close>

definition course_create_slug :: "course_create \<Rightarrow> string" where
  "course_create_slug p = slugify (case ccr_slug p of None \<Rightarrow> ccr_title p
     | Some s \<Rightarrow> if s = [] then ccr_title p else s)"

record course_update =
  cup_title :: "string option field"
  cup_slug :: "string option field"
  cup_description :: "string option field"
  cup_category :: "string option field"
  cup_level :: "string option field"
  cup_visibility :: "course_visibility option field"
  cup_status :: "course_status option field"

definition course_update_slug :: "course_update \<Rightarrow> string option field" where
  "course_update_slug p = (case cup_slug p of
     Assigned (Some s) \<Rightarrow> Assigned (Some (slugify s)) | f \<Rightarrow> f)"

definition course_update_slug_ok :: "course_update \<Rightarrow> bool" where
  "course_update_slug_ok p \<longleftrightarrow> (case cup_slug p of
     Assigned (Some s) \<Rightarrow> slug_ok (slugify s) | _ \<Rightarrow> True)"

record module_create =
  mcr_title :: string
  mcr_description :: "string option"
  mcr_order_index :: "int option"

record module_update =
  mup_title :: "string option field"
  mup_description :: "string option field"
  mup_order_index :: "int option field"

record lesson_resource_create =
  xcr_title :: string
  xcr_resource_type :: lesson_resource_type
  xcr_url :: "string option"
  xcr_storage_key :: "string option"
  xcr_content_asset :: "uuid option"
  xcr_metadata :: json
  xcr_order_index :: "int option"

record lesson_create =
  lsc_title :: string
  lsc_lesson_type :: lesson_type
  lsc_content :: json
  lsc_duration_minutes :: "int option"
  lsc_order_index :: "int option"
  lsc_is_preview :: bool
  lsc_completion_rule :: json
  lsc_resources :: "lesson_resource_create list"

record lesson_update =
  lsu_title :: "string option field"
  lsu_lesson_type :: "lesson_type option field"
  lsu_content :: "json option field"
  lsu_duration_minutes :: "int option field"
  lsu_order_index :: "int option field"
  lsu_is_preview :: "bool option field"
  lsu_completion_rule :: "json option field"

record course_reorder =
  cro_modules :: "(uuid \<times> int) list"
  cro_lessons :: "(uuid \<times> int) list"

record lesson_read =
  lrd_lesson :: lesson
  lrd_resources :: "lesson_resource list"

record module_read =
  mrd_module :: course_module
  mrd_lessons :: "lesson_read list"

record course_detail =
  cdt_course :: course
  cdt_modules :: "module_read list"
  cdt_batches :: "course_batch list"
  cdt_teachers :: "course_teacher list"
  cdt_publish_history :: "course_publish_history list"
  cdt_prerequisites :: "course_prerequisite list"

section \<open>Repositories\<close>

definition course_get_for_tenant :: "uuid \<Rightarrow> uuid \<Rightarrow> (db, course option) op" where
  "course_get_for_tenant tenant course_id = scalar courses_table
     (\<lambda>r. co_tenant r = tenant \<and> co_id r = course_id \<and> co_deleted_at r = None)"

datatype course_sort = COURSE_BY_CREATED_AT | COURSE_BY_TITLE | COURSE_BY_SLUG

fun course_apply_sort :: "course_sort \<Rightarrow> course list \<Rightarrow> course list" where
  "course_apply_sort COURSE_BY_TITLE = sort_key (\<lambda>r. (co_title r, - int (co_id r)))"
| "course_apply_sort COURSE_BY_SLUG = sort_key (\<lambda>r. (co_slug r, - int (co_id r)))"
| "course_apply_sort COURSE_BY_CREATED_AT = sort_key (\<lambda>r. (- co_created_at r, - int (co_id r)))"

definition course_beyond :: "cursor \<Rightarrow> course \<Rightarrow> bool" where
  "course_beyond c r \<longleftrightarrow> co_created_at r < fst c \<or> (co_created_at r = fst c \<and> co_id r < snd c)"

definition course_cursor :: "course \<Rightarrow> cursor" where
  "course_cursor r = (co_created_at r, co_id r)"

definition course_list_for_tenant :: "uuid \<Rightarrow> nat \<Rightarrow> cursor option \<Rightarrow> course_status option \<Rightarrow>
    string option \<Rightarrow> course_sort \<Rightarrow> (db, course page) op" where
  "course_list_for_tenant tenant limit cursor status search order =
     bind_tx (select_rows courses_table (\<lambda>r. co_tenant r = tenant \<and> co_deleted_at r = None \<and>
       matches_filter status (co_status r) \<and>
       matches_search search [Some (co_title r), Some (co_slug r), co_description r,
         co_category r] \<and>
       (case cursor of None \<Rightarrow> True | Some c \<Rightarrow> course_beyond c r))) (\<lambda>found.
     return_tx (keyset_page limit course_cursor (course_apply_sort order found)))"

definition live_module_of :: "uuid \<Rightarrow> uuid \<Rightarrow> course_module \<Rightarrow> bool" where
  "live_module_of tenant course_id r \<longleftrightarrow>
     mo_tenant r = tenant \<and> mo_course r = course_id \<and> mo_deleted_at r = None"

definition live_lesson_of :: "uuid \<Rightarrow> uuid \<Rightarrow> lesson \<Rightarrow> bool" where
  "live_lesson_of tenant module_id r \<longleftrightarrow>
     ln_tenant r = tenant \<and> ln_module r = module_id \<and> ln_deleted_at r = None"

definition module_get_for_tenant :: "uuid \<Rightarrow> uuid \<Rightarrow> (db, course_module option) op" where
  "module_get_for_tenant tenant module_id = scalar course_modules_table
     (\<lambda>r. mo_tenant r = tenant \<and> mo_id r = module_id \<and> mo_deleted_at r = None)"

definition modules_for_course :: "uuid \<Rightarrow> uuid \<Rightarrow> (db, course_module list) op" where
  "modules_for_course tenant course_id =
     bind_tx (select_rows course_modules_table (live_module_of tenant course_id)) (\<lambda>found.
     return_tx (sort_key (\<lambda>r. (mo_order_index r, mo_id r)) found))"

text \<open>\<open>int(max(order_index) or 0) + 1\<close>; the maximum of no row is NULL.\<close>

definition after_max :: "int list \<Rightarrow> int" where
  "after_max indexes = (case indexes of [] \<Rightarrow> 0 | i # is \<Rightarrow> fold max is i) + 1"

definition module_next_order_index :: "uuid \<Rightarrow> uuid \<Rightarrow> (db, int) op" where
  "module_next_order_index tenant course_id =
     bind_tx (select_rows course_modules_table (live_module_of tenant course_id)) (\<lambda>found.
     return_tx (after_max (map mo_order_index found)))"

definition lesson_get_for_tenant :: "uuid \<Rightarrow> uuid \<Rightarrow> (db, lesson option) op" where
  "lesson_get_for_tenant tenant lesson_id = scalar lessons_table
     (\<lambda>r. ln_tenant r = tenant \<and> ln_id r = lesson_id \<and> ln_deleted_at r = None)"

definition lessons_for_module :: "uuid \<Rightarrow> uuid \<Rightarrow> (db, lesson list) op" where
  "lessons_for_module tenant module_id =
     bind_tx (select_rows lessons_table (live_lesson_of tenant module_id)) (\<lambda>found.
     return_tx (sort_key (\<lambda>r. (ln_order_index r, ln_id r)) found))"

definition lesson_next_order_index :: "uuid \<Rightarrow> uuid \<Rightarrow> (db, int) op" where
  "lesson_next_order_index tenant module_id =
     bind_tx (select_rows lessons_table (live_lesson_of tenant module_id)) (\<lambda>found.
     return_tx (after_max (map ln_order_index found)))"

definition course_batch_assignment :: "uuid \<Rightarrow> uuid \<Rightarrow> uuid \<Rightarrow> (db, course_batch option) op" where
  "course_batch_assignment tenant course_id batch_id = scalar course_batches_table
     (\<lambda>r. cb_tenant r = tenant \<and> cb_course r = course_id \<and> cb_batch r = batch_id)"

definition course_teacher_assignment ::
    "uuid \<Rightarrow> uuid \<Rightarrow> uuid \<Rightarrow> (db, course_teacher option) op" where
  "course_teacher_assignment tenant course_id teacher_id = scalar course_teachers_table
     (\<lambda>r. ct_tenant r = tenant \<and> ct_course r = course_id \<and> ct_teacher r = teacher_id)"

section \<open>Shared steps\<close>

definition get_course :: "tenant_context \<Rightarrow> uuid \<Rightarrow> (db, course) op" where
  "get_course ctx course_id =
     bind_tx (require_tenant_id ctx) (\<lambda>tenant.
     some_or_404 ''course_not_found'' (course_get_for_tenant tenant course_id))"

definition get_module_or_raise :: "uuid \<Rightarrow> uuid \<Rightarrow> (db, course_module) op" where
  "get_module_or_raise tenant module_id =
     some_or_404 ''module_not_found'' (module_get_for_tenant tenant module_id)"

definition get_lesson_or_raise :: "uuid \<Rightarrow> uuid \<Rightarrow> (db, lesson) op" where
  "get_lesson_or_raise tenant lesson_id =
     some_or_404 ''lesson_not_found'' (lesson_get_for_tenant tenant lesson_id)"

definition learn_validate_batch :: "uuid \<Rightarrow> uuid \<Rightarrow> (db, unit) op" where
  "learn_validate_batch tenant batch_id =
     bind_tx (some_or_404 ''batch_not_found'' (scalar batches_table
       (\<lambda>r. bt_tenant r = tenant \<and> bt_id r = batch_id \<and> bt_deleted_at r = None))) (\<lambda>_.
     return_tx ())"

definition validate_teacher :: "uuid \<Rightarrow> uuid \<Rightarrow> (db, unit) op" where
  "validate_teacher tenant teacher_id =
     bind_tx (some_or_404 ''teacher_not_found'' (scalar employees_table
       (\<lambda>r. em_tenant r = tenant \<and> em_id r = teacher_id \<and> em_deleted_at r = None))) (\<lambda>e.
     if em_employee_type e \<noteq> ET_TEACHER then abort ''employee_not_teacher'' 422
     else return_tx ())"

text \<open>The responses load the relations of a row and drop what is deleted.\<close>

definition read_lesson :: "lesson \<Rightarrow> (db, lesson_read) op" where
  "read_lesson l =
     bind_tx (select_rows lesson_resources_table
       (\<lambda>r. lx_lesson r = ln_id l \<and> lx_deleted_at r = None)) (\<lambda>found.
     return_tx \<lparr>lrd_lesson = l,
       lrd_resources = sort_key (\<lambda>r. (lx_order_index r, lx_id r)) found\<rparr>)"

definition read_module :: "course_module \<Rightarrow> (db, module_read) op" where
  "read_module m =
     bind_tx (select_rows lessons_table
       (\<lambda>r. ln_module r = mo_id m \<and> ln_deleted_at r = None)) (\<lambda>found.
     bind_tx (for_each read_lesson (sort_key (\<lambda>r. (ln_order_index r, ln_id r)) found)) (\<lambda>ls.
     return_tx \<lparr>mrd_module = m, mrd_lessons = ls\<rparr>))"

definition detail_response :: "course \<Rightarrow> (db, course_detail) op" where
  "detail_response c =
     bind_tx (select_rows course_modules_table
       (\<lambda>r. mo_course r = co_id c \<and> mo_deleted_at r = None)) (\<lambda>found.
     bind_tx (for_each read_module (sort_key (\<lambda>r. (mo_order_index r, mo_id r)) found)) (\<lambda>ms.
     bind_tx (select_rows course_batches_table (\<lambda>r. cb_course r = co_id c)) (\<lambda>bs.
     bind_tx (select_rows course_teachers_table (\<lambda>r. ct_course r = co_id c)) (\<lambda>ts.
     bind_tx (select_rows course_publish_histories_table (\<lambda>r. ph_course r = co_id c)) (\<lambda>hs.
     bind_tx (select_rows course_prerequisites_table (\<lambda>r. cp_course r = co_id c)) (\<lambda>ps.
     return_tx \<lparr>cdt_course = c, cdt_modules = ms,
       cdt_batches = sort_key cb_created_at bs, cdt_teachers = sort_key ct_created_at ts,
       cdt_publish_history = sort_key (\<lambda>r. - ph_published_at r) hs,
       cdt_prerequisites = sort_key cp_created_at ps\<rparr>))))))"

definition detail_response_for :: "uuid \<Rightarrow> uuid \<Rightarrow> (db, course_detail) op" where
  "detail_response_for tenant course_id =
     bind_tx (some_or_404 ''course_not_found'' (course_get_for_tenant tenant course_id)) detail_response"

definition module_response :: "uuid \<Rightarrow> uuid \<Rightarrow> (db, module_read) op" where
  "module_response tenant module_id = bind_tx (get_module_or_raise tenant module_id) read_module"

definition lesson_response :: "uuid \<Rightarrow> uuid \<Rightarrow> (db, lesson_read) op" where
  "lesson_response tenant lesson_id = bind_tx (get_lesson_or_raise tenant lesson_id) read_lesson"

section \<open>Courses\<close>

definition list_courses :: "tenant_context \<Rightarrow> nat \<Rightarrow> cursor option \<Rightarrow> course_status option \<Rightarrow>
    string option \<Rightarrow> course_sort \<Rightarrow> (db, course page) op" where
  "list_courses ctx limit cursor status search order =
     bind_tx (require_tenant_id ctx) (\<lambda>tenant.
     course_list_for_tenant tenant limit cursor status search order)"

definition create_course :: "tenant_context \<Rightarrow> principal \<Rightarrow> course_create \<Rightarrow> (db, course) op" where
  "create_course ctx pr p =
     bind_tx (require_tenant_id ctx) (\<lambda>tenant.
     bind_tx (on_conflict ''course_conflict''
       (bind_tx uuid4 (\<lambda>i. bind_tx now_utc (\<lambda>now.
        bind_tx (insert_row courses_table
          \<lparr>co_id = i, co_tenant = tenant, co_title = ccr_title p, co_slug = course_create_slug p,
           co_description = ccr_description p, co_category = ccr_category p,
           co_level = ccr_level p, co_status = C_DRAFT, co_visibility = ccr_visibility p,
           co_created_by = Some (pr_user pr), co_published_at = None, co_deleted_at = None,
           co_created_at = now\<rparr>) (\<lambda>c.
        bind_tx commit_tx (\<lambda>_.
        return_tx c)))))) (\<lambda>c.
     bind_tx (publish_event ''course.created'' ctx pr (co_id c)) (\<lambda>_.
     return_tx c)))"

definition get_detail :: "tenant_context \<Rightarrow> uuid \<Rightarrow> (db, course_detail) op" where
  "get_detail ctx course_id =
     bind_tx (require_tenant_id ctx) (\<lambda>tenant. detail_response_for tenant course_id)"

definition get_outline :: "tenant_context \<Rightarrow> uuid \<Rightarrow> (db, course \<times> module_read list) op" where
  "get_outline ctx course_id =
     bind_tx (get_detail ctx course_id) (\<lambda>d. return_tx (cdt_course d, cdt_modules d))"

definition apply_course_update :: "course_update \<Rightarrow> course \<Rightarrow> course" where
  "apply_course_update p c =
     (let assigned = c
        \<lparr>co_title := assign_required (cup_title p) (co_title c),
         co_slug := assign_required (course_update_slug p) (co_slug c),
         co_description := assign (cup_description p) (co_description c),
         co_category := assign (cup_category p) (co_category c),
         co_level := assign (cup_level p) (co_level c),
         co_visibility := assign_required (cup_visibility p) (co_visibility c)\<rparr>
      in case cup_status p of
           Assigned (Some C_ARCHIVED) \<Rightarrow> assigned\<lparr>co_status := C_ARCHIVED\<rparr>
         | Assigned (Some C_DRAFT) \<Rightarrow> assigned\<lparr>co_status := C_DRAFT, co_published_at := None\<rparr>
         | _ \<Rightarrow> assigned)"

definition course_update_null :: "course_update \<Rightarrow> bool" where
  "course_update_null p \<longleftrightarrow>
     is_null (cup_title p) \<or> is_null (cup_slug p) \<or> is_null (cup_visibility p)"

definition update_course ::
    "tenant_context \<Rightarrow> principal \<Rightarrow> uuid \<Rightarrow> course_update \<Rightarrow> (db, course) op" where
  "update_course ctx pr course_id p =
     bind_tx (get_course ctx course_id) (\<lambda>c.
     if cup_status p = Assigned (Some C_PUBLISHED) then abort ''course_publish_required'' 409
     else let updated = apply_course_update p c in
       bind_tx (on_conflict ''course_conflict''
         (bind_tx (flush_update courses_table (course_update_null p) updated) (\<lambda>_. commit_tx))) (\<lambda>_.
       bind_tx (publish_event ''course.updated'' ctx pr (co_id c)) (\<lambda>_.
       return_tx updated)))"

definition delete_course :: "tenant_context \<Rightarrow> principal \<Rightarrow> uuid \<Rightarrow> (db, unit) op" where
  "delete_course ctx pr course_id =
     bind_tx (get_course ctx course_id) (\<lambda>c. bind_tx now_utc (\<lambda>now.
     bind_tx (save_row courses_table (c\<lparr>co_deleted_at := Some now\<rparr>)) (\<lambda>_.
     bind_tx commit_tx (\<lambda>_.
     publish_event ''course.deleted'' ctx pr (co_id c)))))"

definition assert_publishable :: "course \<Rightarrow> (db, unit) op" where
  "assert_publishable c =
     bind_tx (modules_for_course (co_tenant c) (co_id c)) (\<lambda>ms.
     if ms = [] then abort ''course_publish_requirements_not_met'' 409
     else bind_tx (for_each (\<lambda>m.
         bind_tx (lessons_for_module (co_tenant c) (mo_id m)) (\<lambda>ls.
         if ls = [] then abort ''course_publish_requirements_not_met'' 409
         else return_tx ())) ms) (\<lambda>_.
       return_tx ()))"

text \<open>The flush updates the course before it inserts the history row, which refers to it.\<close>

definition publish_course ::
    "tenant_context \<Rightarrow> principal \<Rightarrow> uuid \<Rightarrow> string option \<Rightarrow> (db, course_detail) op" where
  "publish_course ctx pr course_id notes =
     bind_tx (get_course ctx course_id) (\<lambda>c.
     if co_status c = C_ARCHIVED then abort ''course_archived'' 409
     else bind_tx (assert_publishable c) (\<lambda>_. bind_tx now_utc (\<lambda>now.
       bind_tx (save_row courses_table
         (c\<lparr>co_status := C_PUBLISHED, co_published_at := Some now\<rparr>)) (\<lambda>_.
       bind_tx uuid4 (\<lambda>i.
       bind_tx (insert_row course_publish_histories_table
         \<lparr>ph_id = i, ph_tenant = co_tenant c, ph_course = co_id c,
          ph_published_by = Some (pr_user pr), ph_previous_status = Some (co_status c),
          ph_new_status = C_PUBLISHED, ph_published_at = now, ph_notes = notes\<rparr>) (\<lambda>_.
       bind_tx (detail_response_for (co_tenant c) (co_id c)) (\<lambda>detail.
       bind_tx commit_tx (\<lambda>_.
       bind_tx (publish_event ''course.published'' ctx pr (co_id c)) (\<lambda>_.
       return_tx detail)))))))))"

definition archive_course :: "tenant_context \<Rightarrow> principal \<Rightarrow> uuid \<Rightarrow> (db, course) op" where
  "archive_course ctx pr course_id =
     bind_tx (get_course ctx course_id) (\<lambda>c.
     bind_tx (save_row courses_table (c\<lparr>co_status := C_ARCHIVED\<rparr>)) (\<lambda>archived.
     bind_tx commit_tx (\<lambda>_.
     bind_tx (publish_event ''course.archived'' ctx pr (co_id c)) (\<lambda>_.
     return_tx archived))))"

section \<open>Modules and lessons\<close>

definition create_module ::
    "tenant_context \<Rightarrow> principal \<Rightarrow> uuid \<Rightarrow> module_create \<Rightarrow> (db, module_read) op" where
  "create_module ctx pr course_id p =
     bind_tx (require_tenant_id ctx) (\<lambda>tenant.
     bind_tx (get_course ctx course_id) (\<lambda>c.
     bind_tx (case mcr_order_index p of Some n \<Rightarrow> return_tx n
       | None \<Rightarrow> module_next_order_index tenant (co_id c)) (\<lambda>order_index.
     bind_tx (on_conflict ''module_order_conflict''
       (bind_tx uuid4 (\<lambda>i.
        bind_tx (insert_row course_modules_table
          \<lparr>mo_id = i, mo_tenant = tenant, mo_course = co_id c, mo_title = mcr_title p,
           mo_description = mcr_description p, mo_order_index = order_index,
           mo_deleted_at = None\<rparr>) (\<lambda>m.
        bind_tx (module_response tenant (mo_id m)) (\<lambda>response.
        bind_tx commit_tx (\<lambda>_.
        return_tx response)))))) (\<lambda>response.
     bind_tx (publish_event ''course.module.created'' ctx pr (mo_id (mrd_module response))) (\<lambda>_.
     return_tx response)))))"

definition apply_module_update :: "module_update \<Rightarrow> course_module \<Rightarrow> course_module" where
  "apply_module_update p m = m
     \<lparr>mo_title := assign_required (mup_title p) (mo_title m),
      mo_description := assign (mup_description p) (mo_description m),
      mo_order_index := assign_required (mup_order_index p) (mo_order_index m)\<rparr>"

definition module_update_null :: "module_update \<Rightarrow> bool" where
  "module_update_null p \<longleftrightarrow> is_null (mup_title p) \<or> is_null (mup_order_index p)"

definition update_module ::
    "tenant_context \<Rightarrow> principal \<Rightarrow> uuid \<Rightarrow> module_update \<Rightarrow> (db, module_read) op" where
  "update_module ctx pr module_id p =
     bind_tx (require_tenant_id ctx) (\<lambda>tenant.
     bind_tx (get_module_or_raise tenant module_id) (\<lambda>m.
     bind_tx (on_conflict ''module_order_conflict''
       (bind_tx (flush_update course_modules_table (module_update_null p)
          (apply_module_update p m)) (\<lambda>_.
        bind_tx (module_response tenant (mo_id m)) (\<lambda>response.
        bind_tx commit_tx (\<lambda>_.
        return_tx response))))) (\<lambda>response.
     bind_tx (publish_event ''course.module.updated'' ctx pr (mo_id m)) (\<lambda>_.
     return_tx response))))"

text \<open>\<open>resource_data.pop("order_index") or index\<close>\<close>

fun insert_resources :: "uuid \<Rightarrow> uuid \<Rightarrow> int \<Rightarrow> lesson_resource_create list \<Rightarrow> (db, unit) op" where
  "insert_resources tenant lesson_id index [] = return_tx ()"
| "insert_resources tenant lesson_id index (p # ps) =
     bind_tx uuid4 (\<lambda>i.
     bind_tx (insert_row lesson_resources_table
       \<lparr>lx_id = i, lx_tenant = tenant, lx_lesson = lesson_id, lx_title = xcr_title p,
        lx_resource_type = xcr_resource_type p, lx_url = xcr_url p,
        lx_storage_key = xcr_storage_key p, lx_content_asset = xcr_content_asset p,
        lx_metadata = xcr_metadata p,
        lx_order_index = (case xcr_order_index p of None \<Rightarrow> index
          | Some n \<Rightarrow> if n = 0 then index else n),
        lx_deleted_at = None\<rparr>) (\<lambda>_.
     insert_resources tenant lesson_id (index + 1) ps))"

text \<open>The lesson itself is flushed before the \<open>try\<close>: a duplicate position escapes as it is.\<close>

definition create_lesson ::
    "tenant_context \<Rightarrow> principal \<Rightarrow> uuid \<Rightarrow> lesson_create \<Rightarrow> (db, lesson_read) op" where
  "create_lesson ctx pr module_id p =
     bind_tx (require_tenant_id ctx) (\<lambda>tenant.
     bind_tx (get_module_or_raise tenant module_id) (\<lambda>m.
     bind_tx (case lsc_order_index p of Some n \<Rightarrow> return_tx n
       | None \<Rightarrow> lesson_next_order_index tenant (mo_id m)) (\<lambda>order_index.
     bind_tx uuid4 (\<lambda>i.
     bind_tx (insert_row lessons_table
       \<lparr>ln_id = i, ln_tenant = tenant, ln_module = mo_id m, ln_title = lsc_title p,
        ln_lesson_type = lsc_lesson_type p, ln_content = lsc_content p,
        ln_duration_minutes = lsc_duration_minutes p, ln_order_index = order_index,
        ln_is_preview = lsc_is_preview p, ln_completion_rule = lsc_completion_rule p,
        ln_deleted_at = None\<rparr>) (\<lambda>l.
     bind_tx (on_conflict ''lesson_order_conflict''
       (bind_tx (insert_resources tenant (ln_id l) 1 (lsc_resources p)) (\<lambda>_.
        bind_tx (lesson_response tenant (ln_id l)) (\<lambda>response.
        bind_tx commit_tx (\<lambda>_.
        return_tx response))))) (\<lambda>response.
     bind_tx (publish_event ''course.lesson.created'' ctx pr (ln_id l)) (\<lambda>_.
     return_tx response)))))))"

definition apply_lesson_update :: "lesson_update \<Rightarrow> lesson \<Rightarrow> lesson" where
  "apply_lesson_update p l = l
     \<lparr>ln_title := assign_required (lsu_title p) (ln_title l),
      ln_lesson_type := assign_required (lsu_lesson_type p) (ln_lesson_type l),
      ln_content := assign_required (lsu_content p) (ln_content l),
      ln_duration_minutes := assign (lsu_duration_minutes p) (ln_duration_minutes l),
      ln_order_index := assign_required (lsu_order_index p) (ln_order_index l),
      ln_is_preview := assign_required (lsu_is_preview p) (ln_is_preview l),
      ln_completion_rule := assign_required (lsu_completion_rule p) (ln_completion_rule l)\<rparr>"

definition lesson_update_null :: "lesson_update \<Rightarrow> bool" where
  "lesson_update_null p \<longleftrightarrow> is_null (lsu_title p) \<or> is_null (lsu_lesson_type p) \<or>
     is_null (lsu_order_index p) \<or> is_null (lsu_is_preview p)"

text \<open>
  An explicit null for a JSON column is stored as the JSON null, which the response model, a
  dictionary, then rejects.
\<close>

definition update_lesson ::
    "tenant_context \<Rightarrow> principal \<Rightarrow> uuid \<Rightarrow> lesson_update \<Rightarrow> (db, lesson_read) op" where
  "update_lesson ctx pr lesson_id p =
     bind_tx (require_tenant_id ctx) (\<lambda>tenant.
     bind_tx (get_lesson_or_raise tenant lesson_id) (\<lambda>l.
     bind_tx (on_conflict ''lesson_order_conflict''
       (bind_tx (flush_update lessons_table (lesson_update_null p)
          (apply_lesson_update p l)) (\<lambda>_.
        if is_null (lsu_content p) \<or> is_null (lsu_completion_rule p)
        then raise_tx (Python_Error ''ValidationError'')
        else bind_tx (lesson_response tenant (ln_id l)) (\<lambda>response.
          bind_tx commit_tx (\<lambda>_.
          return_tx response))))) (\<lambda>response.
     bind_tx (publish_event ''course.lesson.updated'' ctx pr (ln_id l)) (\<lambda>_.
     return_tx response))))"

section \<open>Reordering\<close>

text \<open>
  A flush sends the updates of one table in the order of the primary keys, and those of the
  modules before those of the lessons.
\<close>

definition flush_modules :: "(course_module \<times> int) list \<Rightarrow> (db, unit) op" where
  "flush_modules items =
     bind_tx (for_each (\<lambda>(m, n). save_row course_modules_table (m\<lparr>mo_order_index := n\<rparr>))
       (sort_key (\<lambda>(m, n). mo_id m) items)) (\<lambda>_. return_tx ())"

definition flush_lessons :: "(lesson \<times> int) list \<Rightarrow> (db, unit) op" where
  "flush_lessons items =
     bind_tx (for_each (\<lambda>(l, n). save_row lessons_table (l\<lparr>ln_order_index := n\<rparr>))
       (sort_key (\<lambda>(l, n). ln_id l) items)) (\<lambda>_. return_tx ())"

definition temporary_indexes :: "nat \<Rightarrow> int list" where
  "temporary_indexes n = map (\<lambda>i. 100000 + int i) [1..<Suc n]"

definition reorder_course ::
    "tenant_context \<Rightarrow> principal \<Rightarrow> uuid \<Rightarrow> course_reorder \<Rightarrow> (db, course_detail) op" where
  "reorder_course ctx pr course_id p =
     bind_tx (require_tenant_id ctx) (\<lambda>tenant.
     bind_tx (get_course ctx course_id) (\<lambda>c.
     if \<not> distinct (map fst (cro_modules p)) then abort ''duplicate_module_order'' 422
     else if \<not> distinct (map fst (cro_lessons p)) then abort ''duplicate_lesson_order'' 422
     else bind_tx (for_each (\<lambda>item. get_module_or_raise tenant (fst item)) (cro_modules p)) (\<lambda>ms.
       if list_ex (\<lambda>m. mo_course m \<noteq> co_id c) ms then abort ''module_not_found'' 404
       else bind_tx (for_each (\<lambda>item. get_lesson_or_raise tenant (fst item)) (cro_lessons p)) (\<lambda>ls.
         bind_tx (modules_for_course tenant (co_id c)) (\<lambda>course_modules.
         if list_ex (\<lambda>l. ln_module l \<notin> mo_id ` set course_modules) ls
         then abort ''lesson_not_found'' 404
         else bind_tx (flush_modules (zip ms (temporary_indexes (length ms)))) (\<lambda>_.
           bind_tx (flush_lessons (zip ls (temporary_indexes (length ls)))) (\<lambda>_.
           bind_tx (flush_modules (zip ms (map snd (cro_modules p)))) (\<lambda>_.
           bind_tx (flush_lessons (zip ls (map snd (cro_lessons p)))) (\<lambda>_.
           bind_tx (detail_response_for tenant (co_id c)) (\<lambda>detail.
           bind_tx commit_tx (\<lambda>_.
           bind_tx (publish_event ''course.reordered'' ctx pr (co_id c)) (\<lambda>_.
           return_tx detail)))))))))))) "

section \<open>Batches and teachers\<close>

definition learn_assign_batch ::
    "tenant_context \<Rightarrow> principal \<Rightarrow> uuid \<Rightarrow> uuid \<Rightarrow> (db, course_batch) op" where
  "learn_assign_batch ctx pr course_id batch_id =
     bind_tx (require_tenant_id ctx) (\<lambda>tenant.
     bind_tx (get_course ctx course_id) (\<lambda>c.
     bind_tx (learn_validate_batch tenant batch_id) (\<lambda>_.
     bind_tx (course_batch_assignment tenant (co_id c) batch_id) (\<lambda>existing.
     case existing of
       Some a \<Rightarrow> bind_tx (save_row course_batches_table (a\<lparr>cb_status := CA_ACTIVE\<rparr>)) (\<lambda>a'.
         bind_tx commit_tx (\<lambda>_. return_tx a'))
     | None \<Rightarrow> bind_tx uuid4 (\<lambda>i. bind_tx now_utc (\<lambda>now.
         bind_tx (insert_row course_batches_table
           \<lparr>cb_id = i, cb_tenant = tenant, cb_course = co_id c, cb_batch = batch_id,
            cb_status = CA_ACTIVE, cb_created_at = now\<rparr>) (\<lambda>a.
         bind_tx commit_tx (\<lambda>_.
         bind_tx (publish_event ''course.batch_assigned'' ctx pr (cb_id a)) (\<lambda>_.
         return_tx a)))))))))"

definition learn_assign_teacher ::
    "tenant_context \<Rightarrow> principal \<Rightarrow> uuid \<Rightarrow> uuid \<Rightarrow> (db, course_teacher) op" where
  "learn_assign_teacher ctx pr course_id teacher_id =
     bind_tx (require_tenant_id ctx) (\<lambda>tenant.
     bind_tx (get_course ctx course_id) (\<lambda>c.
     bind_tx (validate_teacher tenant teacher_id) (\<lambda>_.
     bind_tx (course_teacher_assignment tenant (co_id c) teacher_id) (\<lambda>existing.
     case existing of
       Some a \<Rightarrow> bind_tx (save_row course_teachers_table (a\<lparr>ct_status := CA_ACTIVE\<rparr>)) (\<lambda>a'.
         bind_tx commit_tx (\<lambda>_. return_tx a'))
     | None \<Rightarrow> bind_tx uuid4 (\<lambda>i. bind_tx now_utc (\<lambda>now.
         bind_tx (insert_row course_teachers_table
           \<lparr>ct_id = i, ct_tenant = tenant, ct_course = co_id c, ct_teacher = teacher_id,
            ct_status = CA_ACTIVE, ct_created_at = now\<rparr>) (\<lambda>a.
         bind_tx commit_tx (\<lambda>_.
         bind_tx (publish_event ''course.teacher_assigned'' ctx pr (ct_id a)) (\<lambda>_.
         return_tx a)))))))))"

end
