(* ===== verification/Learn_Facts.thy ===== *)
theory Learn_Facts
  imports Learn Row_Rules
begin

text \<open>
  The requests of PrepLearn, the tables they write, and what every request guarantees: a failing
  request leaves no trace, the other tables are left alone.
\<close>

section \<open>Requests\<close>

definition course_create_valid :: "course_create \<Rightarrow> bool" where
  "course_create_valid p \<longleftrightarrow> text_within 1 240 (ccr_title p) \<and>
     if_some (text_within 0 120) (ccr_slug p) \<and> if_some (text_within 0 120) (ccr_category p) \<and>
     if_some (text_within 0 80) (ccr_level p) \<and> slug_ok (course_create_slug p)"

definition course_update_valid :: "course_update \<Rightarrow> bool" where
  "course_update_valid p \<longleftrightarrow> if_given (text_within 1 240) (cup_title p) \<and>
     if_given (text_within 0 120) (cup_slug p) \<and> if_given (text_within 0 120) (cup_category p) \<and>
     if_given (text_within 0 80) (cup_level p) \<and> course_update_slug_ok p"

definition module_create_valid :: "module_create \<Rightarrow> bool" where
  "module_create_valid p \<longleftrightarrow> text_within 1 240 (mcr_title p) \<and>
     if_some (\<lambda>n. 0 \<le> n) (mcr_order_index p)"

definition module_update_valid :: "module_update \<Rightarrow> bool" where
  "module_update_valid p \<longleftrightarrow> if_given (text_within 1 240) (mup_title p) \<and>
     if_given (\<lambda>n. 0 \<le> n) (mup_order_index p)"

definition lesson_resource_valid :: "lesson_resource_create \<Rightarrow> bool" where
  "lesson_resource_valid p \<longleftrightarrow> text_within 1 240 (xcr_title p) \<and>
     if_some (\<lambda>n. 0 \<le> n) (xcr_order_index p)"

definition lesson_create_valid :: "lesson_create \<Rightarrow> bool" where
  "lesson_create_valid p \<longleftrightarrow> text_within 1 240 (lsc_title p) \<and>
     if_some (\<lambda>n. 0 \<le> n) (lsc_duration_minutes p) \<and> if_some (\<lambda>n. 0 \<le> n) (lsc_order_index p) \<and>
     length (lsc_resources p) \<le> 25 \<and> list_all lesson_resource_valid (lsc_resources p)"

definition lesson_update_valid :: "lesson_update \<Rightarrow> bool" where
  "lesson_update_valid p \<longleftrightarrow> if_given (text_within 1 240) (lsu_title p) \<and>
     if_given (\<lambda>n. 0 \<le> n) (lsu_duration_minutes p) \<and> if_given (\<lambda>n. 0 \<le> n) (lsu_order_index p)"

definition course_reorder_valid :: "course_reorder \<Rightarrow> bool" where
  "course_reorder_valid p \<longleftrightarrow> list_all (\<lambda>x. 0 \<le> snd x) (cro_modules p) \<and>
     list_all (\<lambda>x. 0 \<le> snd x) (cro_lessons p)"

datatype learn_request =
    List_Courses nat "cursor option" "course_status option" "string option" course_sort
  | Create_Course course_create
  | Get_Course_Detail uuid
  | Get_Course_Outline uuid
  | Update_Course uuid course_update
  | Delete_Course uuid
  | Publish_Course uuid "string option"
  | Archive_Course uuid
  | Create_Module uuid module_create
  | Update_Module uuid module_update
  | Create_Lesson uuid lesson_create
  | Update_Lesson uuid lesson_update
  | Reorder_Course uuid course_reorder
  | Assign_Course_Batch uuid uuid
  | Assign_Course_Teacher uuid uuid

fun learn_exec :: "tenant_context \<Rightarrow> principal \<Rightarrow> learn_request \<Rightarrow> (db, unit) op" where
  "learn_exec ctx pr (List_Courses limit c status search order) =
     discard (list_courses ctx limit c status search order)"
| "learn_exec ctx pr (Create_Course p) =
     validated (course_create_valid p) (discard (create_course ctx pr p))"
| "learn_exec ctx pr (Get_Course_Detail i) = discard (get_detail ctx i)"
| "learn_exec ctx pr (Get_Course_Outline i) = discard (get_outline ctx i)"
| "learn_exec ctx pr (Update_Course i p) =
     validated (course_update_valid p) (discard (update_course ctx pr i p))"
| "learn_exec ctx pr (Delete_Course i) = discard (delete_course ctx pr i)"
| "learn_exec ctx pr (Publish_Course i notes) = discard (publish_course ctx pr i notes)"
| "learn_exec ctx pr (Archive_Course i) = discard (archive_course ctx pr i)"
| "learn_exec ctx pr (Create_Module i p) =
     validated (module_create_valid p) (discard (create_module ctx pr i p))"
| "learn_exec ctx pr (Update_Module i p) =
     validated (module_update_valid p) (discard (update_module ctx pr i p))"
| "learn_exec ctx pr (Create_Lesson i p) =
     validated (lesson_create_valid p) (discard (create_lesson ctx pr i p))"
| "learn_exec ctx pr (Update_Lesson i p) =
     validated (lesson_update_valid p) (discard (update_lesson ctx pr i p))"
| "learn_exec ctx pr (Reorder_Course i p) =
     validated (course_reorder_valid p) (discard (reorder_course ctx pr i p))"
| "learn_exec ctx pr (Assign_Course_Batch i b) = discard (learn_assign_batch ctx pr i b)"
| "learn_exec ctx pr (Assign_Course_Teacher i e) = discard (learn_assign_teacher ctx pr i e)"

definition learn_handle :: "learn_request call \<Rightarrow> (db, unit) op" where
  "learn_handle = handle_call learn_exec"

section \<open>Atomicity\<close>

lemmas learn_read_defs = get_course_def course_get_for_tenant_def get_module_or_raise_def
  module_get_for_tenant_def get_lesson_or_raise_def lesson_get_for_tenant_def
  learn_validate_batch_def validate_teacher_def read_lesson_def read_module_def
  detail_response_def detail_response_for_def module_response_def lesson_response_def
  list_courses_def course_list_for_tenant_def get_detail_def get_outline_def
  modules_for_course_def lessons_for_module_def module_next_order_index_def
  lesson_next_order_index_def course_batch_assignment_def course_teacher_assignment_def
  assert_publishable_def Let_def

lemma silent_learn_reads [atomic_intros]:
  "silent (get_course ctx i)" "silent (get_module_or_raise t m)" "silent (get_lesson_or_raise t l)"
  "silent (learn_validate_batch t b)" "silent (validate_teacher t e)"
  "silent (detail_response_for t i)" "silent (module_response t m)" "silent (lesson_response t l)"
  "silent (list_courses ctx limit c status search order)" "silent (get_detail ctx i)"
  "silent (get_outline ctx i)" "silent (modules_for_course t i)"
  "silent (module_next_order_index t i)" "silent (lesson_next_order_index t m)"
  "silent (course_batch_assignment t i b)" "silent (course_teacher_assignment t i e)"
  "silent (assert_publishable co)"
  unfolding learn_read_defs by (intro atomic_intros)+

lemma keeps_learn_reads [keeps_intros]:
  "keeps J (get_course ctx i)" "keeps J (get_module_or_raise t m)" "keeps J (get_lesson_or_raise t l)"
  "keeps J (learn_validate_batch t b)" "keeps J (validate_teacher t e)"
  "keeps J (detail_response_for t i)" "keeps J (module_response t m)" "keeps J (lesson_response t l)"
  "keeps J (list_courses ctx limit c status search order)" "keeps J (get_detail ctx i)"
  "keeps J (get_outline ctx i)" "keeps J (modules_for_course t i)"
  "keeps J (module_next_order_index t i)" "keeps J (lesson_next_order_index t m)"
  "keeps J (course_batch_assignment t i b)" "keeps J (course_teacher_assignment t i e)"
  "keeps J (assert_publishable co)"
  unfolding learn_read_defs by (intro keeps_intros)+

lemma silent_insert_resources [atomic_intros]: "silent (insert_resources t l n ps)"
  by (induction t l n ps rule: insert_resources.induct) (simp_all add: atomic_intros)

lemma silent_flush_order [atomic_intros]: "silent (flush_modules items)" "silent (flush_lessons its)"
  unfolding flush_modules_def flush_lessons_def by (intro atomic_intros)+

lemmas learn_write_defs = create_course_def update_course_def delete_course_def
  publish_course_def archive_course_def create_module_def update_module_def create_lesson_def
  update_lesson_def reorder_course_def learn_assign_batch_def learn_assign_teacher_def Let_def

lemma atomic_learn:
  "atomic (create_course ctx pr cc)" "atomic (update_course ctx pr i cu)"
  "atomic (delete_course ctx pr i)" "atomic (publish_course ctx pr i notes)"
  "atomic (archive_course ctx pr i)" "atomic (create_module ctx pr i mc)"
  "atomic (update_module ctx pr i mu)" "atomic (create_lesson ctx pr i lc)"
  "atomic (update_lesson ctx pr i lu)" "atomic (reorder_course ctx pr i ro)"
  "atomic (learn_assign_batch ctx pr i b)" "atomic (learn_assign_teacher ctx pr i e)"
  unfolding learn_write_defs
  apply ((rule atomic_bind_silent, (intro atomic_intros; fail)[1])
    | rule atomic_rules | (rule atomic_silent, (intro atomic_intros; fail)[1])
    | rule atomic_bind_unfailing | (intro atomic_intros; fail)[1])+
  done

lemma atomic_learn_handle: "atomic (learn_handle c)"
  unfolding learn_handle_def
  by (rule atomic_handle_call, cases "cl_request c")
    (auto intro!: atomic_discard atomic_validated atomic_learn intro: atomic_silent atomic_intros)

section \<open>What a request leaves alone\<close>

definition learn_tables_ok :: "(db session \<Rightarrow> bool) \<Rightarrow> bool" where
  "learn_tables_ok J \<longleftrightarrow> table_ok J courses_table \<and> table_ok J course_modules_table \<and>
     table_ok J lessons_table \<and> table_ok J lesson_resources_table \<and>
     table_ok J course_publish_histories_table \<and> table_ok J course_batches_table \<and>
     table_ok J course_teachers_table"

lemma keeps_insert_resources [keeps_intros]:
  assumes "tx_ok J" "learn_tables_ok J"
  shows "keeps J (insert_resources t l n ps)"
  by (induction t l n ps rule: insert_resources.induct)
    (use assms in \<open>auto simp: learn_tables_ok_def intro!: keeps_intros\<close>)

lemma keeps_flush_order [keeps_intros]:
  assumes "tx_ok J" "learn_tables_ok J"
  shows "keeps J (flush_modules items)" "keeps J (flush_lessons its)"
  unfolding flush_modules_def flush_lessons_def
  by (intro keeps_intros; use assms in \<open>auto simp: learn_tables_ok_def\<close>)+

lemma keeps_learn:
  assumes "tx_ok J" "learn_tables_ok J"
  shows "keeps J (create_course ctx pr cc)" "keeps J (update_course ctx pr i cu)"
    "keeps J (delete_course ctx pr i)" "keeps J (publish_course ctx pr i notes)"
    "keeps J (archive_course ctx pr i)" "keeps J (create_module ctx pr i mc)"
    "keeps J (update_module ctx pr i mu)" "keeps J (create_lesson ctx pr i lc)"
    "keeps J (update_lesson ctx pr i lu)" "keeps J (reorder_course ctx pr i ro)"
    "keeps J (learn_assign_batch ctx pr i b)" "keeps J (learn_assign_teacher ctx pr i e)"
  unfolding learn_write_defs
  by (intro keeps_intros; use assms in \<open>auto simp: learn_tables_ok_def\<close>)+

lemma keeps_learn_handle:
  assumes "tx_ok J" "learn_tables_ok J" "keeps J (set_current_tenant (cl_tenant c))"
  shows "keeps J (learn_handle c)"
  unfolding learn_handle_def
proof (rule keeps_handle_call [OF assms(3)])
  show "keeps J (learn_exec (cl_context c) (cl_principal c) (cl_request c))"
    by (cases "cl_request c")
      (auto intro!: keeps_discard keeps_validated keeps_learn_reads keeps_learn [OF assms(1,2)])
qed

lemma keeps_fresh_learn: "keeps (fresh_from n) (learn_handle c)"
  by (rule keeps_learn_handle)
    (auto simp: learn_tables_ok_def tx_ok_fresh table_ok_fresh intro: keeps_intros)

end
