(* ===== verification/Question.thy ===== *)
theory Question
  imports Learn
begin

text \<open>
  PrepQuestion (app/modules/question/service.py, repository.py and schemas.py): topics, questions with
  their options and tags, question sets with their totals, and the generation of questions.
\<close>

section \<open>Payloads and answers\<close>

fun normalize_from :: "string set \<Rightarrow> string list \<Rightarrow> string list" where
  "normalize_from seen [] = []"
| "normalize_from seen (t # ts) =
     (let candidate = lower (strip t) in
      if candidate = [] \<or> candidate \<in> seen then normalize_from seen ts
      else candidate # normalize_from (insert candidate seen) ts)"

definition normalize_tags :: "string list \<Rightarrow> string list" where
  "normalize_tags tags = normalize_from {} tags"

record topic_create =
  tpc_name :: string
  tpc_slug :: "string option"
  tpc_description :: "string option"
  tpc_parent :: "uuid option"

definition topic_create_slug :: "topic_create \<Rightarrow> string" where
  "topic_create_slug p = slugify (case tpc_slug p of None \<Rightarrow> tpc_name p
     | Some s \<Rightarrow> if s = [] then tpc_name p else s)"

record question_create =
  qcr_topic :: uuid
  qcr_question_type :: question_type
  qcr_difficulty :: question_difficulty
  qcr_bloom_level :: "string option"
  qcr_body :: string
  qcr_explanation :: "string option"
  qcr_marks :: rat
  qcr_negative_marks :: rat
  qcr_metadata :: json
  qcr_status :: question_status
  qcr_options :: "option_draft list"
  qcr_tags :: "string list"

record question_update =
  qup_topic :: "uuid option field"
  qup_question_type :: "question_type option field"
  qup_difficulty :: "question_difficulty option field"
  qup_bloom_level :: "string option field"
  qup_body :: "string option field"
  qup_explanation :: "string option field"
  qup_marks :: "rat option field"
  qup_negative_marks :: "rat option field"
  qup_metadata :: "json option field"
  qup_status :: "question_status option field"
  qup_options :: "option_draft list option field"
  qup_tags :: "string list option field"

record question_read =
  qrd_question :: question
  qrd_options :: "question_option list"
  qrd_tags :: "string list"

record question_set_create =
  qsc_title :: string
  qsc_description :: "string option"
  qsc_status :: question_set_status

record question_set_item_create =
  qic_question :: uuid
  qic_order_index :: "int option"
  qic_marks_override :: "rat option"

record question_set_detail =
  qsd_set :: question_set
  qsd_items :: "(question_set_item \<times> question_read) list"

record ai_job_create =
  ajc_prompt :: string
  ajc_topic :: string
  ajc_difficulty :: question_difficulty
  ajc_question_type :: question_type
  ajc_count :: nat

record ai_job_approve =
  aja_topic :: "uuid option"
  aja_selected_indexes :: "int list option"
  aja_status :: question_status

section \<open>The rules of a question\<close>

definition optionless_type :: "question_type \<Rightarrow> bool" where
  "optionless_type ty \<longleftrightarrow> ty \<in> {SHORT_ANSWER, LONG_ANSWER, CODING, FILL_BLANK}"

text \<open>Whether so many options, so many of them correct, fit the type.\<close>

definition counts_fit :: "question_type \<Rightarrow> nat \<Rightarrow> nat \<Rightarrow> bool" where
  "counts_fit ty options correct =
     (if ty = MCQ then 2 \<le> options \<and> correct = 1
      else if ty = TRUE_FALSE then options = 2 \<and> correct = 1
      else if ty = MULTI_SELECT then 2 \<le> options \<and> 1 \<le> correct
      else \<not> (optionless_type ty \<and> 0 < options))"

definition question_fault :: "question_type \<Rightarrow> rat \<Rightarrow> rat \<Rightarrow> option_draft list \<Rightarrow> exc option" where
  "question_fault ty marks negative options =
     (if marks < negative then Some (Prep_Suite_Error ''invalid_question_marks'' 422)
      else if \<not> counts_fit ty (length options) (length (filter od_is_correct options))
      then Some (Prep_Suite_Error ''invalid_question_options'' 422)
      else if list_ex (\<lambda>d. od_order_index d = Some 0) options
      then Some (Prep_Suite_Error ''invalid_option_order'' 422)
      else None)"

definition validate_question_payload ::
    "question_type \<Rightarrow> rat \<Rightarrow> rat \<Rightarrow> option_draft list \<Rightarrow> ('d, unit) op" where
  "validate_question_payload ty marks negative options =
     (case question_fault ty marks negative options of None \<Rightarrow> return_tx () | Some e \<Rightarrow> raise_tx e)"

text \<open>\<open>ALLOWED_STATUS_TRANSITIONS\<close>\<close>

definition allowed_transition :: "question_status \<Rightarrow> question_status \<Rightarrow> bool" where
  "allowed_transition current requested \<longleftrightarrow> (case current of
     Q_DRAFT \<Rightarrow> requested \<in> {Q_DRAFT, Q_REVIEWED, Q_ARCHIVED}
   | Q_REVIEWED \<Rightarrow> requested \<in> {Q_DRAFT, Q_REVIEWED, Q_APPROVED, Q_ARCHIVED}
   | Q_APPROVED \<Rightarrow> requested \<in> {Q_REVIEWED, Q_APPROVED, Q_ARCHIVED}
   | Q_ARCHIVED \<Rightarrow> requested = Q_ARCHIVED)"

definition validate_status_transition :: "question_status \<Rightarrow> question_status \<Rightarrow> ('d, unit) op" where
  "validate_status_transition current requested =
     (if allowed_transition current requested then return_tx ()
      else abort ''invalid_question_status_transition'' 409)"

section \<open>Repositories\<close>

definition topic_get_for_tenant :: "uuid \<Rightarrow> uuid \<Rightarrow> (db, question_topic option) op" where
  "topic_get_for_tenant tenant topic_id = scalar question_topics_table
     (\<lambda>r. tp_tenant r = tenant \<and> tp_id r = topic_id)"

definition topic_get_by_slug :: "uuid \<Rightarrow> string \<Rightarrow> (db, question_topic option) op" where
  "topic_get_by_slug tenant slug = scalar question_topics_table
     (\<lambda>r. tp_tenant r = tenant \<and> tp_slug r = slug)"

definition topic_list_for_tenant ::
    "uuid \<Rightarrow> string option \<Rightarrow> bool \<Rightarrow> (db, question_topic list) op" where
  "topic_list_for_tenant tenant search include_archived =
     bind_tx (select_rows question_topics_table (\<lambda>r. tp_tenant r = tenant \<and>
       (include_archived \<or> tp_status r = TP_ACTIVE) \<and>
       matches_search search [Some (tp_name r), Some (tp_slug r), tp_description r])) (\<lambda>found.
     return_tx (sort_key (\<lambda>r. (tp_name r, tp_id r)) found))"

definition question_get_for_tenant :: "uuid \<Rightarrow> uuid \<Rightarrow> (db, question option) op" where
  "question_get_for_tenant tenant question_id = scalar questions_table
     (\<lambda>r. qu_tenant r = tenant \<and> qu_id r = question_id \<and> qu_deleted_at r = None)"

definition difficulty_text :: "question_difficulty \<Rightarrow> string" where
  "difficulty_text d = (case d of EASY \<Rightarrow> ''easy'' | MEDIUM \<Rightarrow> ''medium'' | HARD \<Rightarrow> ''hard'')"

definition question_status_text :: "question_status \<Rightarrow> string" where
  "question_status_text st = (case st of Q_DRAFT \<Rightarrow> ''draft'' | Q_REVIEWED \<Rightarrow> ''reviewed''
     | Q_APPROVED \<Rightarrow> ''approved'' | Q_ARCHIVED \<Rightarrow> ''archived'')"

datatype question_sort = QUESTION_BY_CREATED_AT | QUESTION_BY_DIFFICULTY | QUESTION_BY_STATUS

fun question_apply_sort :: "question_sort \<Rightarrow> question list \<Rightarrow> question list" where
  "question_apply_sort QUESTION_BY_DIFFICULTY =
     sort_key (\<lambda>r. (difficulty_text (qu_difficulty r), - int (qu_id r)))"
| "question_apply_sort QUESTION_BY_STATUS =
     sort_key (\<lambda>r. (question_status_text (qu_status r), - int (qu_id r)))"
| "question_apply_sort QUESTION_BY_CREATED_AT =
     sort_key (\<lambda>r. (- qu_created_at r, - int (qu_id r)))"

definition question_beyond :: "cursor \<Rightarrow> question \<Rightarrow> bool" where
  "question_beyond c r \<longleftrightarrow> qu_created_at r < fst c \<or> (qu_created_at r = fst c \<and> qu_id r < snd c)"

definition question_cursor :: "question \<Rightarrow> cursor" where
  "question_cursor r = (qu_created_at r, qu_id r)"

text \<open>\<open>if tag: statement.where(Question.tags.any(...))\<close>\<close>

definition tagged :: "string option \<Rightarrow> question_tag list \<Rightarrow> question \<Rightarrow> bool" where
  "tagged tag tags q \<longleftrightarrow> (case tag of None \<Rightarrow> True | Some t \<Rightarrow> t = [] \<or>
     list_ex (\<lambda>r. qt_question r = qu_id q \<and> qt_name r = lower (strip t)) tags)"

definition question_list_for_tenant :: "uuid \<Rightarrow> nat \<Rightarrow> cursor option \<Rightarrow> question_status option \<Rightarrow>
    question_difficulty option \<Rightarrow> question_type option \<Rightarrow> uuid option \<Rightarrow> string option \<Rightarrow>
    string option \<Rightarrow> question_sort \<Rightarrow> (db, question page) op" where
  "question_list_for_tenant tenant limit cursor status difficulty ty topic_id tag search order =
     bind_tx (select_rows question_tags_table (\<lambda>_. True)) (\<lambda>tags.
     bind_tx (select_rows questions_table (\<lambda>r. qu_tenant r = tenant \<and> qu_deleted_at r = None \<and>
       matches_filter status (qu_status r) \<and> matches_filter difficulty (qu_difficulty r) \<and>
       matches_filter ty (qu_question_type r) \<and> matches_filter topic_id (qu_topic r) \<and>
       tagged tag tags r \<and>
       matches_search search [Some (qu_body r), qu_explanation r, qu_bloom_level r] \<and>
       (case cursor of None \<Rightarrow> True | Some c \<Rightarrow> question_beyond c r))) (\<lambda>found.
     return_tx (keyset_page limit question_cursor (question_apply_sort order found))))"

definition question_set_get_for_tenant :: "uuid \<Rightarrow> uuid \<Rightarrow> (db, question_set option) op" where
  "question_set_get_for_tenant tenant set_id = scalar question_sets_table
     (\<lambda>r. qs_tenant r = tenant \<and> qs_id r = set_id \<and> qs_deleted_at r = None)"

definition question_set_beyond :: "cursor \<Rightarrow> question_set \<Rightarrow> bool" where
  "question_set_beyond c r \<longleftrightarrow> qs_created_at r < fst c \<or> (qs_created_at r = fst c \<and> qs_id r < snd c)"

definition question_set_cursor :: "question_set \<Rightarrow> cursor" where
  "question_set_cursor r = (qs_created_at r, qs_id r)"

definition question_set_list_for_tenant :: "uuid \<Rightarrow> nat \<Rightarrow> cursor option \<Rightarrow>
    question_set_status option \<Rightarrow> string option \<Rightarrow> bool \<Rightarrow> (db, question_set page) op" where
  "question_set_list_for_tenant tenant limit cursor status search by_title =
     bind_tx (select_rows question_sets_table (\<lambda>r. qs_tenant r = tenant \<and> qs_deleted_at r = None \<and>
       matches_filter status (qs_status r) \<and>
       matches_search search [Some (qs_title r), qs_description r] \<and>
       (case cursor of None \<Rightarrow> True | Some c \<Rightarrow> question_set_beyond c r))) (\<lambda>found.
     return_tx (keyset_page limit question_set_cursor
       (if by_title then sort_key (\<lambda>r. (qs_title r, - int (qs_id r))) found
        else sort_key (\<lambda>r. (- qs_created_at r, - int (qs_id r))) found)))"

definition set_item_get_for_tenant :: "uuid \<Rightarrow> uuid \<Rightarrow> (db, question_set_item option) op" where
  "set_item_get_for_tenant tenant item_id = scalar question_set_items_table
     (\<lambda>r. qi_tenant r = tenant \<and> qi_id r = item_id)"

definition set_item_assignment ::
    "uuid \<Rightarrow> uuid \<Rightarrow> uuid \<Rightarrow> (db, question_set_item option) op" where
  "set_item_assignment tenant set_id question_id = scalar question_set_items_table
     (\<lambda>r. qi_tenant r = tenant \<and> qi_set r = set_id \<and> qi_question r = question_id)"

definition item_of_set :: "uuid \<Rightarrow> uuid \<Rightarrow> question_set_item \<Rightarrow> bool" where
  "item_of_set tenant set_id r \<longleftrightarrow> qi_tenant r = tenant \<and> qi_set r = set_id"

definition items_for_set :: "uuid \<Rightarrow> uuid \<Rightarrow> (db, question_set_item list) op" where
  "items_for_set tenant set_id =
     bind_tx (select_rows question_set_items_table (item_of_set tenant set_id)) (\<lambda>found.
     return_tx (sort_key (\<lambda>r. (qi_order_index r, qi_id r)) found))"

definition set_item_next_order_index :: "uuid \<Rightarrow> uuid \<Rightarrow> (db, int) op" where
  "set_item_next_order_index tenant set_id =
     bind_tx (select_rows question_set_items_table (item_of_set tenant set_id)) (\<lambda>found.
     return_tx (after_max (map qi_order_index found)))"

definition ai_job_get_for_tenant :: "uuid \<Rightarrow> uuid \<Rightarrow> (db, ai_job option) op" where
  "ai_job_get_for_tenant tenant job_id = scalar ai_jobs_table
     (\<lambda>r. ai_tenant r = tenant \<and> ai_id r = job_id)"

section \<open>Shared steps\<close>

definition get_topic_or_raise :: "uuid \<Rightarrow> uuid \<Rightarrow> (db, question_topic) op" where
  "get_topic_or_raise tenant topic_id =
     some_or_404 ''question_topic_not_found'' (topic_get_for_tenant tenant topic_id)"

definition get_question_or_raise :: "uuid \<Rightarrow> uuid \<Rightarrow> (db, question) op" where
  "get_question_or_raise tenant question_id =
     some_or_404 ''question_not_found'' (question_get_for_tenant tenant question_id)"

definition get_question_set_or_raise :: "uuid \<Rightarrow> uuid \<Rightarrow> (db, question_set) op" where
  "get_question_set_or_raise tenant set_id =
     some_or_404 ''question_set_not_found'' (question_set_get_for_tenant tenant set_id)"

definition get_set_item_or_raise :: "uuid \<Rightarrow> uuid \<Rightarrow> (db, question_set_item) op" where
  "get_set_item_or_raise tenant item_id =
     some_or_404 ''question_set_item_not_found'' (set_item_get_for_tenant tenant item_id)"

definition get_ai_job_or_raise :: "uuid \<Rightarrow> uuid \<Rightarrow> (db, ai_job) op" where
  "get_ai_job_or_raise tenant job_id =
     some_or_404 ''ai_generation_job_not_found'' (ai_job_get_for_tenant tenant job_id)"

definition options_of :: "uuid \<Rightarrow> (db, question_option list) op" where
  "options_of question_id = select_rows question_options_table (\<lambda>r. qo_question r = question_id)"

definition tags_of :: "uuid \<Rightarrow> (db, question_tag list) op" where
  "tags_of question_id = select_rows question_tags_table (\<lambda>r. qt_question r = question_id)"

text \<open>\<open>_question_read\<close>: the options in their order, the names of the tags.\<close>

definition question_read_of ::
    "question \<Rightarrow> question_option list \<Rightarrow> question_tag list \<Rightarrow> question_read" where
  "question_read_of q options tags = \<lparr>qrd_question = q,
     qrd_options = sort_key (\<lambda>r. (qo_order_index r, qo_id r)) options,
     qrd_tags = map qt_name (sort_key qt_name tags)\<rparr>"

definition read_question :: "question \<Rightarrow> (db, question_read) op" where
  "read_question q =
     bind_tx (options_of (qu_id q)) (\<lambda>options.
     bind_tx (tags_of (qu_id q)) (\<lambda>tags.
     return_tx (question_read_of q options tags)))"

definition question_response :: "uuid \<Rightarrow> uuid \<Rightarrow> (db, question_read) op" where
  "question_response tenant question_id =
     bind_tx (get_question_or_raise tenant question_id) read_question"

text \<open>\<open>option_payload.order_index or index\<close>\<close>

fun insert_options :: "uuid \<Rightarrow> uuid \<Rightarrow> int \<Rightarrow> option_draft list \<Rightarrow> (db, unit) op" where
  "insert_options tenant question_id index [] = return_tx ()"
| "insert_options tenant question_id index (d # ds) =
     bind_tx uuid4 (\<lambda>i.
     bind_tx (insert_row question_options_table
       \<lparr>qo_id = i, qo_tenant = tenant, qo_question = question_id, qo_label = od_label d,
        qo_body = od_body d, qo_is_correct = od_is_correct d, qo_explanation = od_explanation d,
        qo_order_index = (case od_order_index d of None \<Rightarrow> index
          | Some n \<Rightarrow> if n = 0 then index else n)\<rparr>) (\<lambda>_.
     insert_options tenant question_id (index + 1) ds))"

fun insert_tags :: "uuid \<Rightarrow> uuid \<Rightarrow> string list \<Rightarrow> (db, unit) op" where
  "insert_tags tenant question_id [] = return_tx ()"
| "insert_tags tenant question_id (t # ts) =
     bind_tx uuid4 (\<lambda>i.
     bind_tx (insert_row question_tags_table
       \<lparr>qt_id = i, qt_tenant = tenant, qt_question = question_id, qt_name = t\<rparr>) (\<lambda>_.
     insert_tags tenant question_id ts))"

definition delete_options :: "uuid \<Rightarrow> uuid \<Rightarrow> (db, unit) op" where
  "delete_options tenant question_id = delete_where question_options_table
     (\<lambda>r. qo_tenant r = tenant \<and> qo_question r = question_id)"

definition delete_tags :: "uuid \<Rightarrow> uuid \<Rightarrow> (db, unit) op" where
  "delete_tags tenant question_id = delete_where question_tags_table
     (\<lambda>r. qt_tenant r = tenant \<and> qt_question r = question_id)"

text \<open>
  A new question: its row, then \<open>_replace_options\<close> and \<open>_replace_tags\<close>.  The statements that delete
  run at once, the pending rows go with the next flush, the options before the tags.  The columns
  of marks keep two decimals; the object in memory keeps what the payload gave.
\<close>

definition stored_question :: "question \<Rightarrow> question" where
  "stored_question q = q\<lparr>qu_marks := quantize2 (qu_marks q),
     qu_negative_marks := quantize2 (qu_negative_marks q)\<rparr>"

definition add_question ::
    "uuid \<Rightarrow> question \<Rightarrow> option_draft list \<Rightarrow> string list \<Rightarrow> (db, unit) op" where
  "add_question tenant q options tags =
     bind_tx (insert_row questions_table (stored_question q)) (\<lambda>_.
     bind_tx (delete_options tenant (qu_id q)) (\<lambda>_.
     bind_tx (delete_tags tenant (qu_id q)) (\<lambda>_.
     bind_tx (insert_options tenant (qu_id q) 1 options) (\<lambda>_.
     insert_tags tenant (qu_id q) (normalize_tags tags)))))"

section \<open>Topics\<close>

definition list_topics ::
    "tenant_context \<Rightarrow> string option \<Rightarrow> bool \<Rightarrow> (db, question_topic list) op" where
  "list_topics ctx search include_archived =
     bind_tx (require_tenant_id ctx) (\<lambda>tenant.
     topic_list_for_tenant tenant search include_archived)"

definition create_topic ::
    "tenant_context \<Rightarrow> principal \<Rightarrow> topic_create \<Rightarrow> (db, question_topic) op" where
  "create_topic ctx pr p =
     bind_tx (require_tenant_id ctx) (\<lambda>tenant.
     bind_tx (case tpc_parent p of None \<Rightarrow> return_tx ()
       | Some t \<Rightarrow> bind_tx (get_topic_or_raise tenant t) (\<lambda>_. return_tx ())) (\<lambda>_.
     bind_tx (on_conflict ''question_topic_conflict''
       (bind_tx uuid4 (\<lambda>i.
        bind_tx (insert_row question_topics_table
          \<lparr>tp_id = i, tp_tenant = tenant, tp_parent = tpc_parent p, tp_name = tpc_name p,
           tp_slug = topic_create_slug p, tp_description = tpc_description p,
           tp_status = TP_ACTIVE\<rparr>) (\<lambda>t.
        bind_tx commit_tx (\<lambda>_.
        return_tx t))))) (\<lambda>t.
     bind_tx (publish_event ''question.topic.created'' ctx pr (tp_id t)) (\<lambda>_.
     return_tx t))))"

section \<open>Questions\<close>

definition list_questions :: "tenant_context \<Rightarrow> nat \<Rightarrow> cursor option \<Rightarrow> question_status option \<Rightarrow>
    question_difficulty option \<Rightarrow> question_type option \<Rightarrow> uuid option \<Rightarrow> string option \<Rightarrow>
    string option \<Rightarrow> question_sort \<Rightarrow> (db, question_read list \<times> cursor option \<times> bool) op" where
  "list_questions ctx limit cursor status difficulty ty topic_id tag search order =
     bind_tx (require_tenant_id ctx) (\<lambda>tenant.
     bind_tx (question_list_for_tenant tenant limit cursor status difficulty ty topic_id tag search
       order) (\<lambda>found.
     bind_tx (for_each read_question (pg_items found)) (\<lambda>items.
     return_tx (items, pg_next found, pg_has_more found))))"

definition new_question :: "uuid \<Rightarrow> uuid \<Rightarrow> int \<Rightarrow> principal \<Rightarrow> question_create \<Rightarrow> question" where
  "new_question i tenant now pr p =
     \<lparr>qu_id = i, qu_tenant = tenant, qu_topic = qcr_topic p,
      qu_question_type = qcr_question_type p, qu_difficulty = qcr_difficulty p,
      qu_bloom_level = qcr_bloom_level p, qu_body = qcr_body p,
      qu_explanation = qcr_explanation p, qu_marks = qcr_marks p,
      qu_negative_marks = qcr_negative_marks p, qu_metadata = qcr_metadata p,
      qu_status = qcr_status p, qu_created_by = Some (pr_user pr), qu_deleted_at = None,
      qu_created_at = now\<rparr>"

definition create_question ::
    "tenant_context \<Rightarrow> principal \<Rightarrow> question_create \<Rightarrow> (db, question_read) op" where
  "create_question ctx pr p =
     bind_tx (require_tenant_id ctx) (\<lambda>tenant.
     bind_tx (get_topic_or_raise tenant (qcr_topic p)) (\<lambda>_.
     bind_tx (validate_question_payload (qcr_question_type p) (qcr_marks p) (qcr_negative_marks p)
       (qcr_options p)) (\<lambda>_.
     bind_tx (on_conflict ''question_conflict''
       (bind_tx uuid4 (\<lambda>i. bind_tx now_utc (\<lambda>now.
        let q = new_question i tenant now pr p in
        bind_tx (add_question tenant q (qcr_options p) (qcr_tags p)) (\<lambda>_.
        bind_tx (get_question_or_raise tenant i) (\<lambda>_.
        bind_tx (read_question q) (\<lambda>response.
        bind_tx commit_tx (\<lambda>_.
        return_tx response)))))))) (\<lambda>response.
     bind_tx (publish_event ''question.created'' ctx pr (qu_id (qrd_question response))) (\<lambda>_.
     return_tx response)))))"

definition get_question :: "tenant_context \<Rightarrow> uuid \<Rightarrow> (db, question_read) op" where
  "get_question ctx question_id =
     bind_tx (require_tenant_id ctx) (\<lambda>tenant. question_response tenant question_id)"

definition draft_of :: "question_option \<Rightarrow> option_draft" where
  "draft_of r = \<lparr>od_label = qo_label r, od_body = qo_body r, od_is_correct = qo_is_correct r,
     od_explanation = qo_explanation r, od_order_index = Some (qo_order_index r)\<rparr>"

definition apply_question_update :: "question_update \<Rightarrow> question \<Rightarrow> question" where
  "apply_question_update p q = q
     \<lparr>qu_topic := assign_required (qup_topic p) (qu_topic q),
      qu_question_type := assign_required (qup_question_type p) (qu_question_type q),
      qu_difficulty := assign_required (qup_difficulty p) (qu_difficulty q),
      qu_bloom_level := assign (qup_bloom_level p) (qu_bloom_level q),
      qu_body := assign_required (qup_body p) (qu_body q),
      qu_explanation := assign (qup_explanation p) (qu_explanation q),
      qu_marks := assign_required (qup_marks p) (qu_marks q),
      qu_negative_marks := assign_required (qup_negative_marks p) (qu_negative_marks q),
      qu_metadata := assign_required (qup_metadata p) (qu_metadata q),
      qu_status := assign_required (qup_status p) (qu_status q)\<rparr>"

definition question_update_null :: "question_update \<Rightarrow> bool" where
  "question_update_null p \<longleftrightarrow> is_null (qup_question_type p) \<or> is_null (qup_difficulty p) \<or>
     is_null (qup_body p) \<or> is_null (qup_marks p) \<or> is_null (qup_negative_marks p) \<or>
     is_null (qup_status p)"

text \<open>
  The options of an update arrive as dictionaries (\<open>model_dump\<close>), whose \<open>is_correct\<close> the validation
  reads as an attribute: AttributeError, unless the list is empty or the marks are refused first.
\<close>

definition validate_question_update ::
    "question_update \<Rightarrow> question \<Rightarrow> question_option list \<Rightarrow> ('d, unit) op" where
  "validate_question_update p q existing =
     (let ty = assign_required (qup_question_type p) (qu_question_type q);
          marks = assign_required (qup_marks p) (qu_marks q);
          negative = assign_required (qup_negative_marks p) (qu_negative_marks q)
      in case assign (qup_options p) None of
           None \<Rightarrow> validate_question_payload ty marks negative (map draft_of existing)
         | Some ds \<Rightarrow>
             if \<not> marks < negative \<and> ds \<noteq> [] then raise_tx (Python_Error ''AttributeError'')
             else validate_question_payload ty marks negative ds)"

text \<open>\<open>if "topic_id" in update_data\<close>: no topic has the identifier None.\<close>

definition check_new_topic :: "uuid \<Rightarrow> uuid option field \<Rightarrow> (db, unit) op" where
  "check_new_topic tenant f = (case f of Unset \<Rightarrow> return_tx ()
     | Assigned None \<Rightarrow> abort ''question_topic_not_found'' 404
     | Assigned (Some t) \<Rightarrow> bind_tx (get_topic_or_raise tenant t) (\<lambda>_. return_tx ()))"

text \<open>
  The response reads the options and tags the session loaded before they were replaced.  An
  explicit null for the metadata is stored as the JSON null, which the response model rejects.
\<close>

definition update_question ::
    "tenant_context \<Rightarrow> principal \<Rightarrow> uuid \<Rightarrow> question_update \<Rightarrow> (db, question_read) op" where
  "update_question ctx pr question_id p =
     bind_tx (require_tenant_id ctx) (\<lambda>tenant.
     bind_tx (get_question_or_raise tenant question_id) (\<lambda>q.
     bind_tx (options_of (qu_id q)) (\<lambda>options.
     bind_tx (tags_of (qu_id q)) (\<lambda>tags.
     bind_tx (validate_question_update p q options) (\<lambda>_.
     bind_tx (case assign (qup_status p) None of None \<Rightarrow> return_tx ()
       | Some st \<Rightarrow> validate_status_transition (qu_status q) st) (\<lambda>_.
     bind_tx (check_new_topic tenant (qup_topic p)) (\<lambda>_.
     let updated = apply_question_update p q in
     bind_tx (on_conflict ''question_conflict''
       (bind_tx (when_tx (assign (qup_options p) None \<noteq> None)
          (delete_options tenant (qu_id q))) (\<lambda>_.
        bind_tx (when_tx (assign (qup_tags p) None \<noteq> None) (delete_tags tenant (qu_id q))) (\<lambda>_.
        bind_tx (flush_update questions_table (question_update_null p)
          (stored_question updated)) (\<lambda>_.
        bind_tx (case assign (qup_tags p) None of None \<Rightarrow> return_tx ()
          | Some ts \<Rightarrow> insert_tags tenant (qu_id q) (normalize_tags ts)) (\<lambda>_.
        if is_null (qup_metadata p) then raise_tx (Python_Error ''ValidationError'')
        else bind_tx commit_tx (\<lambda>_.
          return_tx (question_read_of updated options tags)))))))) (\<lambda>response.
     bind_tx (publish_event ''question.updated'' ctx pr (qu_id q)) (\<lambda>_.
     return_tx response)))))))))"

section \<open>Question sets\<close>

definition create_question_set ::
    "tenant_context \<Rightarrow> principal \<Rightarrow> question_set_create \<Rightarrow> (db, question_set) op" where
  "create_question_set ctx pr p =
     bind_tx (require_tenant_id ctx) (\<lambda>tenant.
     bind_tx (on_conflict ''question_set_conflict''
       (bind_tx uuid4 (\<lambda>i. bind_tx now_utc (\<lambda>now.
        bind_tx (insert_row question_sets_table
          \<lparr>qs_id = i, qs_tenant = tenant, qs_title = qsc_title p,
           qs_description = qsc_description p, qs_total_marks = 0,
           qs_difficulty_distribution = JObj [], qs_topic_distribution = JObj [],
           qs_status = qsc_status p, qs_created_by = Some (pr_user pr), qs_deleted_at = None,
           qs_created_at = now\<rparr>) (\<lambda>qset.
        bind_tx commit_tx (\<lambda>_.
        return_tx qset)))))) (\<lambda>qset.
     bind_tx (publish_event ''question_set.created'' ctx pr (qs_id qset)) (\<lambda>_.
     return_tx qset)))"

definition list_question_sets :: "tenant_context \<Rightarrow> nat \<Rightarrow> cursor option \<Rightarrow>
    question_set_status option \<Rightarrow> string option \<Rightarrow> bool \<Rightarrow> (db, question_set page) op" where
  "list_question_sets ctx limit cursor status search by_title =
     bind_tx (require_tenant_id ctx) (\<lambda>tenant.
     question_set_list_for_tenant tenant limit cursor status search by_title)"

text \<open>\<open>item.question\<close>: the question an item refers to, deleted or not.\<close>

definition question_of_item :: "question_set_item \<Rightarrow> (db, question) op" where
  "question_of_item item =
     bind_tx (scalar questions_table (\<lambda>r. qu_id r = qi_question item)) (\<lambda>found.
     case found of None \<Rightarrow> raise_tx (Python_Error ''AttributeError'') | Some q \<Rightarrow> return_tx q)"

text \<open>The items as the session holds them: \<open>fresh\<close> was just added and keeps its unrounded marks.\<close>

definition in_memory :: "question_set_item option \<Rightarrow> question_set_item \<Rightarrow> question_set_item" where
  "in_memory fresh item = (case fresh of None \<Rightarrow> item
     | Some f \<Rightarrow> if qi_id f = qi_id item then f else item)"

definition item_marks :: "question_set_item \<times> question \<Rightarrow> rat" where
  "item_marks x = (case qi_marks_override (fst x) of None \<Rightarrow> qu_marks (snd x) | Some m \<Rightarrow> m)"

text \<open>\<open>dict(Counter(...))\<close>: the keys in the order of their first occurrence.\<close>

definition counter :: "string list \<Rightarrow> json" where
  "counter xs = JObj (map (\<lambda>x. (x, json_int (int (count_list xs x)))) (rev (remdups (rev xs))))"

definition recalculated :: "question_set \<Rightarrow> (question_set_item \<times> question) list \<Rightarrow> question_set" where
  "recalculated qset xs = qset
     \<lparr>qs_total_marks := sum_list (map item_marks xs),
      qs_difficulty_distribution := counter (map (\<lambda>x. difficulty_text (qu_difficulty (snd x))) xs),
      qs_topic_distribution := counter (map (\<lambda>x. uuid_str (qu_topic (snd x))) xs)\<rparr>"

definition recalculate_question_set ::
    "question_set_item option \<Rightarrow> question_set \<Rightarrow> (db, question_set) op" where
  "recalculate_question_set fresh qset =
     bind_tx (items_for_set (qs_tenant qset) (qs_id qset)) (\<lambda>items.
     bind_tx (for_each (\<lambda>item. bind_tx (question_of_item item) (\<lambda>q.
       return_tx (in_memory fresh item, q))) items) (\<lambda>xs.
     return_tx (recalculated qset xs)))"

definition stored_question_set :: "question_set \<Rightarrow> question_set" where
  "stored_question_set qset = qset\<lparr>qs_total_marks := quantize2 (qs_total_marks qset)\<rparr>"

definition read_set_items ::
    "question_set_item option \<Rightarrow> uuid \<Rightarrow> (db, (question_set_item \<times> question_read) list) op" where
  "read_set_items fresh set_id =
     bind_tx (select_rows question_set_items_table (\<lambda>r. qi_set r = set_id)) (\<lambda>items.
     for_each (\<lambda>item. bind_tx (question_of_item item) (\<lambda>q.
       bind_tx (read_question q) (\<lambda>r. return_tx (in_memory fresh item, r))))
       (sort_key (\<lambda>r. (qi_order_index r, qi_id r)) items))"

text \<open>The detail of a set the session holds in memory as \<open>qset\<close>.\<close>

definition question_set_response ::
    "question_set_item option \<Rightarrow> question_set \<Rightarrow> (db, question_set_detail) op" where
  "question_set_response fresh qset =
     bind_tx (get_question_set_or_raise (qs_tenant qset) (qs_id qset)) (\<lambda>_.
     bind_tx (read_set_items fresh (qs_id qset)) (\<lambda>items.
     return_tx \<lparr>qsd_set = qset, qsd_items = items\<rparr>))"

definition get_question_set :: "tenant_context \<Rightarrow> uuid \<Rightarrow> (db, question_set_detail) op" where
  "get_question_set ctx set_id =
     bind_tx (require_tenant_id ctx) (\<lambda>tenant.
     bind_tx (get_question_set_or_raise tenant set_id) (question_set_response None))"

definition add_question_set_item ::
    "tenant_context \<Rightarrow> principal \<Rightarrow> uuid \<Rightarrow> question_set_item_create \<Rightarrow>
     (db, question_set_detail) op" where
  "add_question_set_item ctx pr set_id p =
     bind_tx (require_tenant_id ctx) (\<lambda>tenant.
     bind_tx (get_question_set_or_raise tenant set_id) (\<lambda>qset.
     bind_tx (get_question_or_raise tenant (qic_question p)) (\<lambda>q.
     bind_tx (set_item_assignment tenant (qs_id qset) (qu_id q)) (\<lambda>existing.
     if existing \<noteq> None then abort ''question_set_item_conflict'' 409
     else bind_tx (case qic_order_index p of Some n \<Rightarrow> return_tx n
         | None \<Rightarrow> set_item_next_order_index tenant (qs_id qset)) (\<lambda>order_index.
       bind_tx (on_conflict ''question_set_item_conflict''
         (bind_tx uuid4 (\<lambda>i.
          let item = \<lparr>qi_id = i, qi_tenant = tenant, qi_set = qs_id qset, qi_question = qu_id q,
            qi_order_index = order_index, qi_marks_override = qic_marks_override p\<rparr> in
          bind_tx (insert_row question_set_items_table
            (item\<lparr>qi_marks_override := map_option quantize2 (qic_marks_override p)\<rparr>)) (\<lambda>_.
          bind_tx (recalculate_question_set (Some item) qset) (\<lambda>updated.
          bind_tx (question_set_response (Some item) updated) (\<lambda>response.
          bind_tx (save_row question_sets_table (stored_question_set updated)) (\<lambda>_.
          bind_tx commit_tx (\<lambda>_.
          return_tx (item, response))))))))) (\<lambda>(item, response).
       bind_tx (publish_event ''question_set.item_added'' ctx pr (qi_id item)) (\<lambda>_.
       return_tx response)))))))"

definition flush_set_items :: "(question_set_item \<times> int) list \<Rightarrow> (db, unit) op" where
  "flush_set_items items =
     bind_tx (for_each (\<lambda>(r, n). save_row question_set_items_table (r\<lparr>qi_order_index := n\<rparr>))
       (sort_key (\<lambda>(r, n). qi_id r) items)) (\<lambda>_. return_tx ())"

definition reorder_question_set ::
    "tenant_context \<Rightarrow> principal \<Rightarrow> uuid \<Rightarrow> (uuid \<times> int) list \<Rightarrow> (db, question_set_detail) op" where
  "reorder_question_set ctx pr set_id order =
     bind_tx (require_tenant_id ctx) (\<lambda>tenant.
     bind_tx (get_question_set_or_raise tenant set_id) (\<lambda>qset.
     if \<not> distinct (map fst order) then abort ''duplicate_question_set_item'' 422
     else bind_tx (for_each (\<lambda>x. get_set_item_or_raise tenant (fst x)) order) (\<lambda>items.
       if list_ex (\<lambda>r. qi_set r \<noteq> qs_id qset) items
       then abort ''question_set_item_not_found'' 404
       else bind_tx (flush_set_items (zip items (temporary_indexes (length items)))) (\<lambda>_.
         bind_tx (flush_set_items (zip items (map snd order))) (\<lambda>_.
         bind_tx (question_set_response None qset) (\<lambda>response.
         bind_tx commit_tx (\<lambda>_.
         bind_tx (publish_event ''question_set.reordered'' ctx pr (qs_id qset)) (\<lambda>_.
         return_tx response))))))))"

definition remove_question_set_item ::
    "tenant_context \<Rightarrow> principal \<Rightarrow> uuid \<Rightarrow> uuid \<Rightarrow> (db, question_set_detail) op" where
  "remove_question_set_item ctx pr set_id item_id =
     bind_tx (require_tenant_id ctx) (\<lambda>tenant.
     bind_tx (get_question_set_or_raise tenant set_id) (\<lambda>qset.
     bind_tx (get_set_item_or_raise tenant item_id) (\<lambda>item.
     if qi_set item \<noteq> qs_id qset then abort ''question_set_item_not_found'' 404
     else bind_tx (delete_where question_set_items_table (\<lambda>r. qi_id r = qi_id item)) (\<lambda>_.
       bind_tx (recalculate_question_set None qset) (\<lambda>updated.
       bind_tx (question_set_response None updated) (\<lambda>response.
       bind_tx (save_row question_sets_table (stored_question_set updated)) (\<lambda>_.
       bind_tx commit_tx (\<lambda>_.
       bind_tx (publish_event ''question_set.item_removed'' ctx pr item_id) (\<lambda>_.
       return_tx response)))))))))"

section \<open>Generated questions\<close>

definition option_draft_of :: "string \<Rightarrow> string \<Rightarrow> bool \<Rightarrow> option_draft" where
  "option_draft_of label body correct = \<lparr>od_label = Some label, od_body = body,
     od_is_correct = correct, od_explanation = None, od_order_index = None\<rparr>"

definition placeholder_options :: "question_type \<Rightarrow> option_draft list" where
  "placeholder_options ty = (case ty of
     MCQ \<Rightarrow> [option_draft_of ''A'' ''Generated correct answer'' True,
       option_draft_of ''B'' ''Generated distractor'' False]
   | MULTI_SELECT \<Rightarrow> [option_draft_of ''A'' ''Generated correct answer'' True,
       option_draft_of ''B'' ''Generated second correct answer'' True,
       option_draft_of ''C'' ''Generated distractor'' False]
   | TRUE_FALSE \<Rightarrow> [option_draft_of ''T'' ''True'' True, option_draft_of ''F'' ''False'' False]
   | _ \<Rightarrow> [])"

definition placeholder_generate :: "ai_job_create \<Rightarrow> ai_candidate list" where
  "placeholder_generate p = map (\<lambda>index.
     \<lparr>ac_body = Some (strip (ajc_prompt p) @ '' ('' @ strip (ajc_topic p) @ '' #'' @
        digits_of (Suc index) index @ '')''),
      ac_explanation = Some ''Placeholder generation output awaiting human review.'',
      ac_marks = 1, ac_negative_marks = 0, ac_options = placeholder_options (ajc_question_type p),
      ac_metadata = JObj [(''provider'', JStr ''placeholder''),
        (''candidate_index'', json_int (int index))],
      ac_tags = [''ai-generated'', slugify (ajc_topic p)]\<rparr>) [1..<Suc (ajc_count p)]"

text \<open>The provider is an argument of the service; \<open>placeholder_generate\<close> is the default.\<close>

definition create_ai_generation_job :: "(ai_job_create \<Rightarrow> ai_candidate list) \<Rightarrow>
    tenant_context \<Rightarrow> principal \<Rightarrow> ai_job_create \<Rightarrow> (db, ai_job) op" where
  "create_ai_generation_job generate ctx pr p =
     bind_tx (require_tenant_id ctx) (\<lambda>tenant.
     bind_tx uuid4 (\<lambda>i.
     bind_tx (insert_row ai_jobs_table
       \<lparr>ai_id = i, ai_tenant = tenant, ai_requested_by = Some (pr_user pr),
        ai_prompt = ajc_prompt p, ai_topic = ajc_topic p, ai_difficulty = ajc_difficulty p,
        ai_question_type = ajc_question_type p, ai_count = ajc_count p,
        ai_status = AI_COMPLETED, ai_output = generate p, ai_reviewed_at = None\<rparr>) (\<lambda>job.
     bind_tx commit_tx (\<lambda>_.
     bind_tx (publish_event ''question.ai_generation.completed'' ctx pr (ai_id job)) (\<lambda>_.
     return_tx job)))))"

definition get_ai_generation_job :: "tenant_context \<Rightarrow> uuid \<Rightarrow> (db, ai_job) op" where
  "get_ai_generation_job ctx job_id =
     bind_tx (require_tenant_id ctx) (\<lambda>tenant. get_ai_job_or_raise tenant job_id)"

definition resolve_ai_approval_topic ::
    "uuid \<Rightarrow> ai_job \<Rightarrow> uuid option \<Rightarrow> (db, question_topic) op" where
  "resolve_ai_approval_topic tenant job topic_id = (case topic_id of
     Some t \<Rightarrow> get_topic_or_raise tenant t
   | None \<Rightarrow> bind_tx (topic_get_by_slug tenant (slugify (ai_topic job))) (\<lambda>existing.
       case existing of
         Some t \<Rightarrow> return_tx t
       | None \<Rightarrow> bind_tx uuid4 (\<lambda>i. insert_row question_topics_table
           \<lparr>tp_id = i, tp_tenant = tenant, tp_parent = None, tp_name = ai_topic job,
            tp_slug = slugify (ai_topic job), tp_description = None, tp_status = TP_ACTIVE\<rparr>)))"

definition question_of_candidate :: "uuid \<Rightarrow> uuid \<Rightarrow> int \<Rightarrow> principal \<Rightarrow> ai_job \<Rightarrow> uuid \<Rightarrow>
    ai_candidate \<Rightarrow> question_status \<Rightarrow> question" where
  "question_of_candidate i tenant now pr job topic_id c st =
     \<lparr>qu_id = i, qu_tenant = tenant, qu_topic = topic_id, qu_question_type = ai_question_type job,
      qu_difficulty = ai_difficulty job, qu_bloom_level = None,
      qu_body = (case ac_body c of None \<Rightarrow> ai_prompt job | Some b \<Rightarrow> b),
      qu_explanation = ac_explanation c, qu_marks = ac_marks c,
      qu_negative_marks = ac_negative_marks c,
      qu_metadata = json_put (json_put (ac_metadata c) ''ai_generation_job_id''
        (JStr (uuid_str (ai_id job)))) ''source'' (JStr ''ai_generation''),
      qu_status = st, qu_created_by = Some (pr_user pr), qu_deleted_at = None,
      qu_created_at = now\<rparr>"

definition create_question_from_ai_candidate :: "uuid \<Rightarrow> principal \<Rightarrow> ai_job \<Rightarrow> uuid \<Rightarrow>
    ai_candidate \<Rightarrow> question_status \<Rightarrow> (db, question) op" where
  "create_question_from_ai_candidate tenant pr job topic_id c st =
     bind_tx (validate_question_payload (ai_question_type job) (ac_marks c) (ac_negative_marks c)
       (ac_options c)) (\<lambda>_.
     bind_tx uuid4 (\<lambda>i. bind_tx now_utc (\<lambda>now.
     let q = question_of_candidate i tenant now pr job topic_id c st in
     bind_tx (add_question tenant q (ac_options c) (ac_tags c)) (\<lambda>_.
     return_tx q))))"

text \<open>\<open>candidates[selected_index]\<close>: a negative index counts from the end.\<close>

definition list_index :: "'a list \<Rightarrow> int \<Rightarrow> 'a option" where
  "list_index xs i =
     (if 0 \<le> i \<and> i < int (length xs) then Some (xs ! nat i)
      else if - int (length xs) \<le> i \<and> i < 0 then Some (xs ! nat (int (length xs) + i))
      else None)"

definition selected_indexes :: "ai_job \<Rightarrow> ai_job_approve \<Rightarrow> int list" where
  "selected_indexes job p = (case aja_selected_indexes p of
     Some (i # is) \<Rightarrow> i # is | _ \<Rightarrow> map int [0..<length (ai_output job)])"

definition approve_ai_generation_job :: "tenant_context \<Rightarrow> principal \<Rightarrow> uuid \<Rightarrow> ai_job_approve \<Rightarrow>
    (db, ai_job \<times> question_read list) op" where
  "approve_ai_generation_job ctx pr job_id p =
     bind_tx (require_tenant_id ctx) (\<lambda>tenant.
     bind_tx (get_ai_job_or_raise tenant job_id) (\<lambda>job.
     if ai_status job = AI_APPROVED \<or> ai_reviewed_at job \<noteq> None
     then abort ''ai_generation_already_reviewed'' 409
     else if ai_status job \<noteq> AI_COMPLETED then abort ''ai_generation_not_ready'' 409
     else bind_tx (resolve_ai_approval_topic tenant job (aja_topic p)) (\<lambda>topic.
       if selected_indexes job p = [] then abort ''ai_generation_selection_required'' 422
       else bind_tx (for_each (\<lambda>index. case list_index (ai_output job) index of
             None \<Rightarrow> abort ''ai_generation_selection_invalid'' 422
           | Some c \<Rightarrow> create_question_from_ai_candidate tenant pr job (tp_id topic) c
               (aja_status p)) (selected_indexes job p)) (\<lambda>created.
         bind_tx now_utc (\<lambda>now.
         bind_tx (save_row ai_jobs_table
           (job\<lparr>ai_status := AI_APPROVED, ai_reviewed_at := Some now\<rparr>)) (\<lambda>reviewed.
         bind_tx (for_each (\<lambda>q. bind_tx (get_question_or_raise tenant (qu_id q))
           (\<lambda>_. read_question q)) created) (\<lambda>responses.
         bind_tx commit_tx (\<lambda>_.
         bind_tx (publish_event ''question.ai_generation.approved'' ctx pr (ai_id job)) (\<lambda>_.
         return_tx (reviewed, responses))))))))))"

end
