(* ===== verification/Question_Facts.thy ===== *)
theory Question_Facts
  imports Question Learn_Facts
begin

text \<open>
  The requests of PrepQuestion, the tables they write, and what every request guarantees: a failing
  request leaves no trace, the other tables are left alone.
\<close>

section \<open>Requests\<close>

text \<open>The pattern \<open>^[a-z0-9][a-z0-9-]{1,138}[a-z0-9]$\<close>.\<close>

definition topic_slug_ok :: "string \<Rightarrow> bool" where
  "topic_slug_ok s \<longleftrightarrow> code_pattern 140 ''-'' s"

definition topic_create_valid :: "topic_create \<Rightarrow> bool" where
  "topic_create_valid p \<longleftrightarrow> text_within 1 180 (tpc_name p) \<and>
     if_some (text_within 0 140) (tpc_slug p) \<and> topic_slug_ok (topic_create_slug p)"

definition option_draft_valid :: "option_draft \<Rightarrow> bool" where
  "option_draft_valid d \<longleftrightarrow> if_some (text_within 0 20) (od_label d) \<and> od_body d \<noteq> [] \<and>
     if_some (\<lambda>n. 0 \<le> n) (od_order_index d)"

definition question_create_valid :: "question_create \<Rightarrow> bool" where
  "question_create_valid p \<longleftrightarrow> if_some (text_within 0 80) (qcr_bloom_level p) \<and> qcr_body p \<noteq> [] \<and>
     0 < qcr_marks p \<and> 0 \<le> qcr_negative_marks p \<and> length (qcr_options p) \<le> 20 \<and>
     length (qcr_tags p) \<le> 25 \<and> list_all option_draft_valid (qcr_options p)"

definition question_update_valid :: "question_update \<Rightarrow> bool" where
  "question_update_valid p \<longleftrightarrow> if_given (text_within 0 80) (qup_bloom_level p) \<and>
     if_given (\<lambda>b. b \<noteq> []) (qup_body p) \<and> if_given (\<lambda>m. 0 < m) (qup_marks p) \<and>
     if_given (\<lambda>m. 0 \<le> m) (qup_negative_marks p) \<and>
     if_given (\<lambda>ds. length ds \<le> 20 \<and> list_all option_draft_valid ds) (qup_options p) \<and>
     if_given (\<lambda>ts. length ts \<le> 25) (qup_tags p)"

definition question_set_create_valid :: "question_set_create \<Rightarrow> bool" where
  "question_set_create_valid p \<longleftrightarrow> text_within 1 240 (qsc_title p)"

definition set_item_create_valid :: "question_set_item_create \<Rightarrow> bool" where
  "set_item_create_valid p \<longleftrightarrow> if_some (\<lambda>n. 0 \<le> n) (qic_order_index p) \<and>
     if_some (\<lambda>m. 0 < m) (qic_marks_override p)"

definition ai_job_create_valid :: "ai_job_create \<Rightarrow> bool" where
  "ai_job_create_valid p \<longleftrightarrow> ajc_prompt p \<noteq> [] \<and> text_within 1 180 (ajc_topic p) \<and>
     1 \<le> ajc_count p \<and> ajc_count p \<le> 50"

definition set_reorder_valid :: "(uuid \<times> int) list \<Rightarrow> bool" where
  "set_reorder_valid order \<longleftrightarrow> order \<noteq> [] \<and> list_all (\<lambda>x. 0 \<le> snd x) order"

datatype question_request =
    List_Topics "string option" bool
  | Create_Topic topic_create
  | List_Questions nat "cursor option" "question_status option" "question_difficulty option"
      "question_type option" "uuid option" "string option" "string option" question_sort
  | Create_Question question_create
  | Get_Question uuid
  | Update_Question uuid question_update
  | Create_Question_Set question_set_create
  | List_Question_Sets nat "cursor option" "question_set_status option" "string option" bool
  | Get_Question_Set uuid
  | Add_Set_Item uuid question_set_item_create
  | Reorder_Question_Set uuid "(uuid \<times> int) list"
  | Remove_Set_Item uuid uuid
  | Create_AI_Job ai_job_create
  | Get_AI_Job uuid
  | Approve_AI_Job uuid ai_job_approve

fun question_exec :: "tenant_context \<Rightarrow> principal \<Rightarrow> question_request \<Rightarrow> (db, unit) op" where
  "question_exec ctx pr (List_Topics search archived) = discard (list_topics ctx search archived)"
| "question_exec ctx pr (Create_Topic p) =
     validated (topic_create_valid p) (discard (create_topic ctx pr p))"
| "question_exec ctx pr (List_Questions limit c status difficulty ty topic tag search order) =
     discard (list_questions ctx limit c status difficulty ty topic tag search order)"
| "question_exec ctx pr (Create_Question p) =
     validated (question_create_valid p) (discard (create_question ctx pr p))"
| "question_exec ctx pr (Get_Question i) = discard (get_question ctx i)"
| "question_exec ctx pr (Update_Question i p) =
     validated (question_update_valid p) (discard (update_question ctx pr i p))"
| "question_exec ctx pr (Create_Question_Set p) =
     validated (question_set_create_valid p) (discard (create_question_set ctx pr p))"
| "question_exec ctx pr (List_Question_Sets limit c status search by_title) =
     discard (list_question_sets ctx limit c status search by_title)"
| "question_exec ctx pr (Get_Question_Set i) = discard (get_question_set ctx i)"
| "question_exec ctx pr (Add_Set_Item i p) =
     validated (set_item_create_valid p) (discard (add_question_set_item ctx pr i p))"
| "question_exec ctx pr (Reorder_Question_Set i order) =
     validated (set_reorder_valid order) (discard (reorder_question_set ctx pr i order))"
| "question_exec ctx pr (Remove_Set_Item i j) = discard (remove_question_set_item ctx pr i j)"
| "question_exec ctx pr (Create_AI_Job p) = validated (ai_job_create_valid p)
     (discard (create_ai_generation_job placeholder_generate ctx pr p))"
| "question_exec ctx pr (Get_AI_Job i) = discard (get_ai_generation_job ctx i)"
| "question_exec ctx pr (Approve_AI_Job i p) = discard (approve_ai_generation_job ctx pr i p)"

definition question_handle :: "question_request call \<Rightarrow> (db, unit) op" where
  "question_handle = handle_call question_exec"

section \<open>Atomicity\<close>

lemmas question_read_defs = get_topic_or_raise_def topic_get_for_tenant_def topic_get_by_slug_def
  get_question_or_raise_def question_get_for_tenant_def get_question_set_or_raise_def
  question_set_get_for_tenant_def get_set_item_or_raise_def set_item_get_for_tenant_def
  set_item_assignment_def set_item_next_order_index_def get_ai_job_or_raise_def
  ai_job_get_for_tenant_def options_of_def tags_of_def read_question_def question_response_def
  validate_question_payload_def validate_question_update_def validate_status_transition_def
  list_topics_def topic_list_for_tenant_def list_questions_def question_list_for_tenant_def
  get_question_def list_question_sets_def question_set_list_for_tenant_def
  question_of_item_def items_for_set_def recalculate_question_set_def read_set_items_def
  question_set_response_def get_question_set_def get_ai_generation_job_def Let_def

lemma silent_question_reads [atomic_intros]:
  "silent (get_topic_or_raise t i)" "silent (topic_get_by_slug t slug)"
  "silent (get_question_or_raise t i)" "silent (get_question_set_or_raise t i)"
  "silent (get_set_item_or_raise t i)" "silent (set_item_assignment t i j)"
  "silent (set_item_next_order_index t i)" "silent (get_ai_job_or_raise t i)"
  "silent (options_of i)" "silent (tags_of i)" "silent (read_question q)"
  "silent (validate_question_payload ty m n ds)" "silent (validate_question_update p q os)"
  "silent (validate_status_transition st st')" "silent (list_topics ctx search arch)"
  "silent (list_questions ctx limit c status difficulty qty topic tag search order)"
  "silent (get_question ctx i)" "silent (list_question_sets ctx limit c sstatus search by_title)"
  "silent (recalculate_question_set f qset)" "silent (question_set_response f qset)"
  "silent (get_question_set ctx i)" "silent (get_ai_generation_job ctx i)"
  unfolding question_read_defs by (intro atomic_intros)+

lemma keeps_question_reads [keeps_intros]:
  "keeps J (get_topic_or_raise t i)" "keeps J (topic_get_by_slug t slug)"
  "keeps J (get_question_or_raise t i)" "keeps J (get_question_set_or_raise t i)"
  "keeps J (get_set_item_or_raise t i)" "keeps J (set_item_assignment t i j)"
  "keeps J (set_item_next_order_index t i)" "keeps J (get_ai_job_or_raise t i)"
  "keeps J (options_of i)" "keeps J (tags_of i)" "keeps J (read_question q)"
  "keeps J (validate_question_payload ty m n ds)" "keeps J (validate_question_update p q os)"
  "keeps J (validate_status_transition st st')" "keeps J (list_topics ctx search arch)"
  "keeps J (list_questions ctx limit c status difficulty qty topic tag search order)"
  "keeps J (get_question ctx i)" "keeps J (list_question_sets ctx limit c sstatus search by_title)"
  "keeps J (recalculate_question_set f qset)" "keeps J (question_set_response f qset)"
  "keeps J (get_question_set ctx i)" "keeps J (get_ai_generation_job ctx i)"
  unfolding question_read_defs by (intro keeps_intros)+

lemma check_new_topic_rules [atomic_intros, keeps_intros]:
  "silent (check_new_topic t f)" "keeps J (check_new_topic t f)"
  unfolding check_new_topic_def
  by (cases f; cases "assign f None"; auto intro: atomic_intros keeps_intros split: option.splits)+

lemma silent_insert_options [atomic_intros]: "silent (insert_options t q n ds)"
  by (induction t q n ds rule: insert_options.induct) (simp_all add: atomic_intros)

lemma silent_insert_tags [atomic_intros]: "silent (insert_tags t q ts)"
  by (induction t q ts rule: insert_tags.induct) (simp_all add: atomic_intros)

lemma silent_question_steps [atomic_intros]:
  "silent (delete_options t q)" "silent (delete_tags t q)" "silent (add_question t qn ds ts)"
  "silent (flush_set_items items)" "silent (resolve_ai_approval_topic t job topic)"
  "silent (create_question_from_ai_candidate t pr job topic_id c st)"
  unfolding delete_options_def delete_tags_def add_question_def flush_set_items_def
    resolve_ai_approval_topic_def create_question_from_ai_candidate_def Let_def
  by (intro atomic_intros)+

lemmas question_write_defs = create_topic_def create_question_def update_question_def
  create_question_set_def add_question_set_item_def reorder_question_set_def
  remove_question_set_item_def create_ai_generation_job_def approve_ai_generation_job_def Let_def

lemma atomic_question:
  "atomic (create_topic ctx pr tc)" "atomic (create_question ctx pr qc)"
  "atomic (update_question ctx pr i qu)" "atomic (create_question_set ctx pr sc)"
  "atomic (add_question_set_item ctx pr i ic)" "atomic (reorder_question_set ctx pr i order)"
  "atomic (remove_question_set_item ctx pr i j)"
  "atomic (create_ai_generation_job generate ctx pr jc)"
  "atomic (approve_ai_generation_job ctx pr i ja)"
  unfolding question_write_defs
  apply ((rule atomic_bind_silent, (intro atomic_intros; fail)[1])
    | rule atomic_rules | (rule atomic_silent, (intro atomic_intros; fail)[1])
    | rule atomic_bind_unfailing | (intro atomic_intros; fail)[1])+
  done

lemma atomic_question_handle: "atomic (question_handle c)"
  unfolding question_handle_def
  by (rule atomic_handle_call, cases "cl_request c")
    (auto intro!: atomic_discard atomic_validated atomic_question intro: atomic_silent atomic_intros)

section \<open>What a request leaves alone\<close>

definition question_tables_ok :: "(db session \<Rightarrow> bool) \<Rightarrow> bool" where
  "question_tables_ok J \<longleftrightarrow> table_ok J question_topics_table \<and> table_ok J questions_table \<and>
     table_ok J question_options_table \<and> table_ok J question_tags_table \<and>
     table_ok J question_sets_table \<and> table_ok J question_set_items_table \<and>
     table_ok J ai_jobs_table"

lemma keeps_insert_options [keeps_intros]:
  assumes "tx_ok J" "table_ok J question_options_table"
  shows "keeps J (insert_options t q n ds)"
  by (induction t q n ds rule: insert_options.induct) (use assms in \<open>auto intro!: keeps_intros\<close>)

lemma keeps_insert_tags [keeps_intros]:
  assumes "tx_ok J" "table_ok J question_tags_table"
  shows "keeps J (insert_tags t q ts)"
  by (induction t q ts rule: insert_tags.induct) (use assms in \<open>auto intro!: keeps_intros\<close>)

lemma keeps_question_steps [keeps_intros]:
  assumes "tx_ok J" "question_tables_ok J"
  shows "keeps J (delete_options t q)" "keeps J (delete_tags t q)"
    "keeps J (add_question t qn ds ts)" "keeps J (flush_set_items items)"
    "keeps J (resolve_ai_approval_topic t job topic)"
    "keeps J (create_question_from_ai_candidate t pr job topic_id c st)"
  unfolding delete_options_def delete_tags_def add_question_def flush_set_items_def
    resolve_ai_approval_topic_def create_question_from_ai_candidate_def Let_def
  by (intro keeps_intros; use assms in \<open>auto simp: question_tables_ok_def\<close>)+

lemma keeps_question:
  assumes "tx_ok J" "question_tables_ok J"
  shows "keeps J (create_topic ctx pr tc)" "keeps J (create_question ctx pr qc)"
    "keeps J (update_question ctx pr i qu)" "keeps J (create_question_set ctx pr sc)"
    "keeps J (add_question_set_item ctx pr i ic)" "keeps J (reorder_question_set ctx pr i order)"
    "keeps J (remove_question_set_item ctx pr i j)"
    "keeps J (create_ai_generation_job generate ctx pr jc)"
    "keeps J (approve_ai_generation_job ctx pr i ja)"
  unfolding question_write_defs
  by (intro keeps_intros; use assms in \<open>auto simp: question_tables_ok_def\<close>)+

lemma keeps_question_handle:
  assumes "tx_ok J" "question_tables_ok J" "keeps J (set_current_tenant (cl_tenant c))"
  shows "keeps J (question_handle c)"
  unfolding question_handle_def
proof (rule keeps_handle_call [OF assms(3)])
  show "keeps J (question_exec (cl_context c) (cl_principal c) (cl_request c))"
    by (cases "cl_request c")
      (auto intro!: keeps_discard keeps_validated keeps_question_reads keeps_question [OF assms(1,2)])
qed

lemma keeps_fresh_question: "keeps (fresh_from n) (question_handle c)"
  by (rule keeps_question_handle)
    (auto simp: question_tables_ok_def tx_ok_fresh table_ok_fresh intro: keeps_intros)

end
