(* ===== verification/Settings.thy ===== *)
theory Settings
  imports Tenancy
begin

text \<open>
  PrepSettings (app/modules/settings/service.py and repository.py): general settings and branding of a
  tenant, the switch of an application, academic years, the default grading and attendance rules.
  A missing row is created by the first request that reads it.
\<close>

section \<open>Payloads and answers\<close>

record app_toggle =
  atg_enabled :: bool
  atg_settings :: "json option"

record app_settings_read =
  asr_app_code :: string
  asr_name :: "string option"
  asr_category :: "string option"
  asr_is_core :: bool
  asr_is_active :: bool
  asr_tenant_app_status :: "tenant_app_status option"
  asr_subscription_status :: "subscription_status option"
  asr_enabled_by_tenant :: bool
  asr_can_enable :: bool
  asr_starts_at :: "int option"
  asr_ends_at :: "int option"
  asr_config :: json
  asr_settings :: json

record academic_year_create =
  ayc_name :: string
  ayc_code :: string
  ayc_starts_on :: int
  ayc_ends_on :: int
  ayc_status :: academic_year_status
  ayc_is_current :: bool
  ayc_settings :: json

record academic_year_update =
  ayu_name :: "string option field"
  ayu_starts_on :: "int option field"
  ayu_ends_on :: "int option field"
  ayu_status :: "academic_year_status option field"
  ayu_is_current :: "bool option field"
  ayu_settings :: "json option field"

record grading_rule_update =
  gru_name :: "string option field"
  gru_grade_scale :: "json option field"
  gru_pass_percentage :: "rat option field"
  gru_rounding_strategy :: "string option field"
  gru_status :: "rule_status option field"

record attendance_rule_update =
  aru_name :: "string option field"
  aru_minimum_percentage :: "rat option field"
  aru_late_threshold_minutes :: "int option field"
  aru_absent_after_minutes :: "int option field"
  aru_rules :: "json option field"
  aru_status :: "rule_status option field"

section \<open>Repositories\<close>

definition academic_year_get :: "uuid \<Rightarrow> uuid \<Rightarrow> (identity_db, academic_year option) op" where
  "academic_year_get tenant i = scalar academic_years_table
     (\<lambda>r. ay_tenant r = tenant \<and> ay_id r = i \<and> ay_deleted_at r = None)"

definition academic_year_list :: "uuid \<Rightarrow> (identity_db, academic_year list) op" where
  "academic_year_list tenant =
     bind_tx (select_rows academic_years_table (\<lambda>r. ay_tenant r = tenant \<and> ay_deleted_at r = None))
       (\<lambda>found.
     return_tx (sort_key (\<lambda>r. (\<not> ay_is_current r, - ay_starts_on r, ay_name r)) found))"

definition current_year_of :: "uuid \<Rightarrow> academic_year \<Rightarrow> bool" where
  "current_year_of tenant r \<longleftrightarrow> ay_tenant r = tenant \<and> ay_is_current r \<and> ay_deleted_at r = None"

definition clear_current :: "uuid \<Rightarrow> uuid option \<Rightarrow> (identity_db, unit) op" where
  "clear_current tenant except_id = update_where academic_years_table
     (\<lambda>r. current_year_of tenant r \<and> Some (ay_id r) \<noteq> except_id) (\<lambda>r. r\<lparr>ay_is_current := False\<rparr>)"

definition grading_rule_default :: "uuid \<Rightarrow> (identity_db, grading_rule option) op" where
  "grading_rule_default tenant = scalar grading_rules_table
     (\<lambda>r. gr_tenant r = tenant \<and> gr_is_default r \<and> gr_deleted_at r = None)"

definition attendance_rule_default :: "uuid \<Rightarrow> (identity_db, attendance_rule option) op" where
  "attendance_rule_default tenant = scalar attendance_rules_table
     (\<lambda>r. ar_tenant r = tenant \<and> ar_is_default r \<and> ar_deleted_at r = None)"

definition app_setting_get :: "uuid \<Rightarrow> string \<Rightarrow> (identity_db, app_setting option) op" where
  "app_setting_get tenant code = scalar app_settings_table
     (\<lambda>r. ast_tenant r = tenant \<and> ast_app_code r = code)"

definition app_setting_list :: "uuid \<Rightarrow> (identity_db, app_setting list) op" where
  "app_setting_list tenant =
     bind_tx (select_rows app_settings_table (\<lambda>r. ast_tenant r = tenant)) (\<lambda>found.
     return_tx (sort_key ast_app_code found))"

text \<open>
  Get or create: the insert is committed at once, which ends the transaction and with it the
  tenant of the session; \<open>set_current_tenant_in_session\<close> sets it again.
\<close>

definition get_or_insert :: "(identity_db, 'r) table \<Rightarrow> uuid \<Rightarrow> 'r option \<Rightarrow> (uuid \<Rightarrow> 'r) \<Rightarrow>
    (identity_db, 'r) op" where
  "get_or_insert T tenant found fresh = (case found of Some r \<Rightarrow> return_tx r
     | None \<Rightarrow> bind_tx uuid4 (\<lambda>i.
         bind_tx (insert_row T (fresh i)) (\<lambda>r.
         bind_tx commit_tx (\<lambda>_.
         bind_tx (set_current_tenant tenant) (\<lambda>_.
         return_tx r)))))"

section \<open>General settings and branding\<close>

definition get_general_settings :: "tenant_context \<Rightarrow> (identity_db, tenant_settings) op" where
  "get_general_settings ctx =
     bind_tx (require_tenant_id ctx) (\<lambda>tenant.
     bind_tx (scalar tenant_settings_rows_table (\<lambda>r. tst_tenant r = tenant)) (\<lambda>found.
     bind_tx (get_or_insert tenant_settings_rows_table tenant found (\<lambda>i.
       \<lparr>tst_id = i, tst_tenant = tenant, tst_timezone = ''UTC'', tst_locale = ''en'',
        tst_general_settings = JObj [], tst_notification_preferences = JObj []\<rparr>)) (\<lambda>r.
     bind_tx (ensure_tenant_access (tst_tenant r) ctx) (\<lambda>_.
     return_tx r))))"

definition update_general_settings :: "tenant_context \<Rightarrow> principal \<Rightarrow> tenant_settings_update \<Rightarrow>
    (identity_db, tenant_settings) op" where
  "update_general_settings ctx pr p =
     bind_tx (get_general_settings ctx) (\<lambda>r.
     bind_tx (flush_update tenant_settings_rows_table
       (is_null (tsu_timezone p) \<or> is_null (tsu_locale p))
       (r\<lparr>tst_timezone := assign_required (tsu_timezone p) (tst_timezone r),
          tst_locale := assign_required (tsu_locale p) (tst_locale r),
          tst_general_settings := json_assign (tsu_general_settings p) (tst_general_settings r),
          tst_notification_preferences :=
            json_assign (tsu_notification_preferences p) (tst_notification_preferences r)\<rparr>)) (\<lambda>saved.
     bind_tx commit_tx (\<lambda>_.
     bind_tx (publish_event ''prepsettings.general.updated'' ctx pr (tst_id saved)) (\<lambda>_.
     return_tx saved))))"

definition get_branding :: "tenant_context \<Rightarrow> (identity_db, tenant_branding) op" where
  "get_branding ctx =
     bind_tx (require_tenant_id ctx) (\<lambda>tenant.
     bind_tx (scalar tenant_brandings_table (\<lambda>r. tb_tenant r = tenant)) (\<lambda>found.
     bind_tx (get_or_insert tenant_brandings_table tenant found (\<lambda>i.
       \<lparr>tb_id = i, tb_tenant = tenant, tb_logo_url = None, tb_primary_color = None,
        tb_secondary_color = None, tb_accent_color = None, tb_branding_settings = JObj []\<rparr>)) (\<lambda>r.
     bind_tx (ensure_tenant_access (tb_tenant r) ctx) (\<lambda>_.
     return_tx r))))"

definition update_branding :: "tenant_context \<Rightarrow> principal \<Rightarrow> tenant_branding_update \<Rightarrow>
    (identity_db, tenant_branding) op" where
  "update_branding ctx pr p =
     bind_tx (get_branding ctx) (\<lambda>r.
     bind_tx (save_row tenant_brandings_table
       (r\<lparr>tb_logo_url := assign (tbu_logo_url p) (tb_logo_url r),
          tb_primary_color := assign (tbu_primary_color p) (tb_primary_color r),
          tb_secondary_color := assign (tbu_secondary_color p) (tb_secondary_color r),
          tb_accent_color := assign (tbu_accent_color p) (tb_accent_color r),
          tb_branding_settings := json_assign (tbu_branding_settings p) (tb_branding_settings r)\<rparr>))
       (\<lambda>saved.
     bind_tx commit_tx (\<lambda>_.
     bind_tx (publish_event ''prepsettings.branding.updated'' ctx pr (tb_id saved)) (\<lambda>_.
     return_tx saved))))"

section \<open>Applications\<close>

definition paid_subscription :: "tenant_app \<Rightarrow> bool" where
  "paid_subscription a \<longleftrightarrow>
     tap_subscription_status a = SUB_ACTIVE \<or> tap_subscription_status a = SUB_TRIAL"

definition available_app :: "catalog_app option \<Rightarrow> bool" where
  "available_app c \<longleftrightarrow> (case c of None \<Rightarrow> False | Some a \<Rightarrow> ca_is_active a)"

definition can_enable :: "tenant_app option \<Rightarrow> catalog_app option \<Rightarrow> int \<Rightarrow> bool" where
  "can_enable app entry now = (case app of None \<Rightarrow> False
     | Some a \<Rightarrow> available_app entry \<and> tap_status a \<noteq> APP_LOCKED \<and> paid_subscription a \<and>
         (case tap_ends_at a of None \<Rightarrow> True | Some e \<Rightarrow> now \<le> e))"

definition app_settings_response :: "string \<Rightarrow> catalog_app option \<Rightarrow> tenant_app option \<Rightarrow>
    app_setting option \<Rightarrow> int \<Rightarrow> app_settings_read" where
  "app_settings_response code entry app setting now =
     \<lparr>asr_app_code = code, asr_name = map_option ca_name entry,
      asr_category = map_option ca_category entry,
      asr_is_core = (case entry of None \<Rightarrow> False | Some c \<Rightarrow> ca_is_core c),
      asr_is_active = (case entry of None \<Rightarrow> False | Some c \<Rightarrow> ca_is_active c),
      asr_tenant_app_status = map_option tap_status app,
      asr_subscription_status = map_option tap_subscription_status app,
      asr_enabled_by_tenant = (case setting of Some r \<Rightarrow> ast_enabled_by_tenant r
        | None \<Rightarrow> (case app of None \<Rightarrow> False
            | Some a \<Rightarrow> tap_status a = APP_ENABLED \<or> tap_status a = APP_TRIAL)),
      asr_can_enable = can_enable app entry now,
      asr_starts_at = (case app of None \<Rightarrow> None | Some a \<Rightarrow> tap_starts_at a),
      asr_ends_at = (case app of None \<Rightarrow> None | Some a \<Rightarrow> tap_ends_at a),
      asr_config = (case app of None \<Rightarrow> JObj [] | Some a \<Rightarrow> tap_config a),
      asr_settings = (case setting of None \<Rightarrow> JObj [] | Some r \<Rightarrow> ast_settings r)\<rparr>"

text \<open>A dictionary keyed by code: of two rows with one code the later one counts.\<close>

definition by_code :: "('r \<Rightarrow> string) \<Rightarrow> 'r list \<Rightarrow> string \<Rightarrow> 'r option" where
  "by_code code rs c = first_opt (rev (filter (\<lambda>r. code r = c) rs))"

definition list_app_settings :: "tenant_context \<Rightarrow> (identity_db, app_settings_read list) op" where
  "list_app_settings ctx =
     bind_tx (require_tenant_id ctx) (\<lambda>tenant.
     bind_tx list_app_catalog (\<lambda>entries.
     bind_tx (select_rows tenant_apps_table (\<lambda>r. tap_tenant r = tenant)) (\<lambda>apps.
     bind_tx (app_setting_list tenant) (\<lambda>settings.
     bind_tx now_utc (\<lambda>now.
     return_tx (map (\<lambda>code. app_settings_response code (by_code ca_code entries code)
         (by_code tap_app_code (sort_key tap_app_code apps) code)
         (by_code ast_app_code settings code) now)
       (sort (remdups (map ca_code entries @ map tap_app_code apps @
         map ast_app_code settings)))))))))"

definition assert_subscription_allows_enable ::
    "tenant_app \<Rightarrow> catalog_app option \<Rightarrow> (identity_db, unit) op" where
  "assert_subscription_allows_enable app entry =
     (if \<not> available_app entry then abort ''app_not_available'' 403
      else if \<not> paid_subscription app then abort ''app_subscription_required'' 403
      else bind_tx now_utc (\<lambda>now.
        if (case tap_ends_at app of None \<Rightarrow> False | Some e \<Rightarrow> e < now)
        then abort ''app_subscription_expired'' 403 else return_tx ()))"

definition get_or_create_app_setting ::
    "uuid \<Rightarrow> string \<Rightarrow> uuid \<Rightarrow> (identity_db, app_setting) op" where
  "get_or_create_app_setting tenant code actor =
     bind_tx (app_setting_get tenant code) (\<lambda>found. case found of Some r \<Rightarrow> return_tx r
     | None \<Rightarrow> bind_tx uuid4 (\<lambda>i. insert_row app_settings_table
         \<lparr>ast_id = i, ast_tenant = tenant, ast_app_code = code, ast_enabled_by_tenant = False,
          ast_settings = JObj [], ast_updated_by = Some actor\<rparr>))"

definition toggle_app :: "tenant_context \<Rightarrow> principal \<Rightarrow> string \<Rightarrow> app_toggle \<Rightarrow>
    (identity_db, app_settings_read) op" where
  "toggle_app ctx pr app_code p =
     bind_tx (require_tenant_id ctx) (\<lambda>tenant.
     let code = lower (strip app_code) in
     bind_tx (tenant_app_get tenant code) (\<lambda>found. case found of
       None \<Rightarrow> abort ''app_subscription_required'' 403
     | Some app \<Rightarrow>
       bind_tx (catalog_get_by_code code) (\<lambda>entry.
       bind_tx (get_or_create_app_setting tenant code (pr_user pr)) (\<lambda>setting.
       if tap_status app = APP_LOCKED then abort ''app_locked'' 403
       else bind_tx (when_tx (atg_enabled p) (assert_subscription_allows_enable app entry)) (\<lambda>_.
         bind_tx (save_row tenant_apps_table (app\<lparr>tap_status :=
           if \<not> atg_enabled p then APP_DISABLED
           else if tap_subscription_status app = SUB_TRIAL then APP_TRIAL else APP_ENABLED\<rparr>)) (\<lambda>app'.
         bind_tx (save_row app_settings_table (setting\<lparr>ast_enabled_by_tenant := atg_enabled p,
           ast_updated_by := Some (pr_user pr),
           ast_settings := (case atg_settings p of None \<Rightarrow> ast_settings setting
             | Some v \<Rightarrow> v)\<rparr>)) (\<lambda>setting'.
         bind_tx commit_tx (\<lambda>_.
         bind_tx (publish_event ''prepsettings.app_toggled'' ctx pr (tap_id app')) (\<lambda>_.
         bind_tx now_utc (\<lambda>now.
         return_tx (app_settings_response code entry (Some app') (Some setting') now))))))))))) "

section \<open>Academic years\<close>

definition list_academic_years :: "tenant_context \<Rightarrow> (identity_db, academic_year list) op" where
  "list_academic_years ctx = bind_tx (require_tenant_id ctx) academic_year_list"

definition create_academic_year :: "tenant_context \<Rightarrow> principal \<Rightarrow> academic_year_create \<Rightarrow>
    (identity_db, academic_year) op" where
  "create_academic_year ctx pr p =
     bind_tx (require_tenant_id ctx) (\<lambda>tenant.
     bind_tx (when_tx (ayc_is_current p) (clear_current tenant None)) (\<lambda>_.
     bind_tx (on_conflict ''academic_year_conflict''
       (bind_tx uuid4 (\<lambda>i.
        bind_tx (insert_row academic_years_table
          \<lparr>ay_id = i, ay_tenant = tenant, ay_name = ayc_name p, ay_code = ayc_code p,
           ay_starts_on = ayc_starts_on p, ay_ends_on = ayc_ends_on p, ay_status = ayc_status p,
           ay_is_current = ayc_is_current p, ay_settings = ayc_settings p,
           ay_deleted_at = None\<rparr>) (\<lambda>y.
        bind_tx commit_tx (\<lambda>_.
        return_tx y))))) (\<lambda>y.
     bind_tx (publish_event ''prepsettings.academic_year.created'' ctx pr (ay_id y)) (\<lambda>_.
     return_tx y))))"

definition apply_academic_year_update ::
    "academic_year_update \<Rightarrow> academic_year \<Rightarrow> academic_year" where
  "apply_academic_year_update p y = y
     \<lparr>ay_name := assign_required (ayu_name p) (ay_name y),
      ay_starts_on := assign_required (ayu_starts_on p) (ay_starts_on y),
      ay_ends_on := assign_required (ayu_ends_on p) (ay_ends_on y),
      ay_status := assign_required (ayu_status p) (ay_status y),
      ay_is_current := assign_required (ayu_is_current p) (ay_is_current y),
      ay_settings := json_assign (ayu_settings p) (ay_settings y)\<rparr>"

text \<open>An explicit null for a date is compared with the other one: TypeError.\<close>

definition update_academic_year :: "tenant_context \<Rightarrow> principal \<Rightarrow> uuid \<Rightarrow>
    academic_year_update \<Rightarrow> (identity_db, academic_year) op" where
  "update_academic_year ctx pr year_id p =
     bind_tx (require_tenant_id ctx) (\<lambda>tenant.
     bind_tx (some_or_404 ''academic_year_not_found'' (academic_year_get tenant year_id)) (\<lambda>y.
     let updated = apply_academic_year_update p y in
     if is_null (ayu_starts_on p) \<or> is_null (ayu_ends_on p)
     then raise_tx (Python_Error ''TypeError'')
     else if ay_ends_on updated \<le> ay_starts_on updated
     then abort ''invalid_academic_year_dates'' 422
     else bind_tx (when_tx (ayu_is_current p = Assigned (Some True))
         (clear_current tenant (Some (ay_id y)))) (\<lambda>_.
       bind_tx (flush_update academic_years_table
         (is_null (ayu_name p) \<or> is_null (ayu_status p) \<or> is_null (ayu_is_current p)) updated) (\<lambda>_.
       bind_tx commit_tx (\<lambda>_.
       bind_tx (publish_event ''prepsettings.academic_year.updated'' ctx pr (ay_id y)) (\<lambda>_.
       return_tx updated))))))"

section \<open>Rules\<close>

definition get_grading_rule :: "tenant_context \<Rightarrow> (identity_db, grading_rule) op" where
  "get_grading_rule ctx =
     bind_tx (require_tenant_id ctx) (\<lambda>tenant.
     bind_tx (grading_rule_default tenant) (\<lambda>found.
     get_or_insert grading_rules_table tenant found (\<lambda>i.
       \<lparr>gr_id = i, gr_tenant = tenant, gr_code = ''default'', gr_name = ''Default grading'',
        gr_grade_scale = JObj [], gr_pass_percentage = None, gr_rounding_strategy = None,
        gr_status = RULE_ACTIVE, gr_is_default = True, gr_deleted_at = None\<rparr>)))"

definition update_grading_rule :: "tenant_context \<Rightarrow> principal \<Rightarrow> grading_rule_update \<Rightarrow>
    (identity_db, grading_rule) op" where
  "update_grading_rule ctx pr p =
     bind_tx (get_grading_rule ctx) (\<lambda>r.
     bind_tx (flush_update grading_rules_table (is_null (gru_name p) \<or> is_null (gru_status p))
       (r\<lparr>gr_name := assign_required (gru_name p) (gr_name r),
          gr_grade_scale := json_assign (gru_grade_scale p) (gr_grade_scale r),
          gr_pass_percentage :=
            map_option quantize2 (assign (gru_pass_percentage p) (gr_pass_percentage r)),
          gr_rounding_strategy := assign (gru_rounding_strategy p) (gr_rounding_strategy r),
          gr_status := assign_required (gru_status p) (gr_status r)\<rparr>)) (\<lambda>saved.
     bind_tx commit_tx (\<lambda>_.
     bind_tx (publish_event ''prepsettings.grading_rules.updated'' ctx pr (gr_id saved)) (\<lambda>_.
     return_tx saved))))"

definition get_attendance_rule :: "tenant_context \<Rightarrow> (identity_db, attendance_rule) op" where
  "get_attendance_rule ctx =
     bind_tx (require_tenant_id ctx) (\<lambda>tenant.
     bind_tx (attendance_rule_default tenant) (\<lambda>found.
     get_or_insert attendance_rules_table tenant found (\<lambda>i.
       \<lparr>ar_id = i, ar_tenant = tenant, ar_code = ''default'', ar_name = ''Default attendance'',
        ar_minimum_percentage = None, ar_late_threshold_minutes = None,
        ar_absent_after_minutes = None, ar_rules = JObj [], ar_status = RULE_ACTIVE,
        ar_is_default = True, ar_deleted_at = None\<rparr>)))"

definition update_attendance_rule :: "tenant_context \<Rightarrow> principal \<Rightarrow> attendance_rule_update \<Rightarrow>
    (identity_db, attendance_rule) op" where
  "update_attendance_rule ctx pr p =
     bind_tx (get_attendance_rule ctx) (\<lambda>r.
     bind_tx (flush_update attendance_rules_table (is_null (aru_name p) \<or> is_null (aru_status p))
       (r\<lparr>ar_name := assign_required (aru_name p) (ar_name r),
          ar_minimum_percentage :=
            map_option quantize2 (assign (aru_minimum_percentage p) (ar_minimum_percentage r)),
          ar_late_threshold_minutes :=
            assign (aru_late_threshold_minutes p) (ar_late_threshold_minutes r),
          ar_absent_after_minutes := assign (aru_absent_after_minutes p) (ar_absent_after_minutes r),
          ar_rules := json_assign (aru_rules p) (ar_rules r),
          ar_status := assign_required (aru_status p) (ar_status r)\<rparr>)) (\<lambda>saved.
     bind_tx commit_tx (\<lambda>_.
     bind_tx (publish_event ''prepsettings.attendance_rules.updated'' ctx pr (ar_id saved)) (\<lambda>_.
     return_tx saved))))"

end
