(* ===== verification/Settings_Facts.thy ===== *)
theory Settings_Facts
  imports Settings Row_Rules
begin

text \<open>
  What PrepSettings guarantees: a tenant has at most one current academic year, and switching an
  application on or off is what the gate in front of its requests obeys.
\<close>

section \<open>Requests\<close>

definition general_update_valid :: "tenant_settings_update \<Rightarrow> bool" where
  "general_update_valid p \<longleftrightarrow> if_given (text_within 1 80) (tsu_timezone p) \<and>
     if_given (text_within 1 16) (tsu_locale p)"

definition branding_update_valid :: "tenant_branding_update \<Rightarrow> bool" where
  "branding_update_valid p \<longleftrightarrow> if_given (text_within 0 32) (tbu_primary_color p) \<and>
     if_given (text_within 0 32) (tbu_secondary_color p) \<and>
     if_given (text_within 0 32) (tbu_accent_color p)"

definition academic_year_create_valid :: "academic_year_create \<Rightarrow> bool" where
  "academic_year_create_valid p \<longleftrightarrow> text_within 1 160 (ayc_name p) \<and>
     code_pattern 80 ''_-'' (ayc_code p) \<and> ayc_starts_on p < ayc_ends_on p"

definition academic_year_update_valid :: "academic_year_update \<Rightarrow> bool" where
  "academic_year_update_valid p \<longleftrightarrow> if_given (text_within 1 160) (ayu_name p) \<and>
     (case (ayu_starts_on p, ayu_ends_on p) of
        (Assigned (Some a), Assigned (Some b)) \<Rightarrow> a < b | _ \<Rightarrow> True)"

definition grading_rule_update_valid :: "grading_rule_update \<Rightarrow> bool" where
  "grading_rule_update_valid p \<longleftrightarrow> if_given (text_within 1 160) (gru_name p) \<and>
     if_given (\<lambda>q. 0 \<le> q \<and> q \<le> 100) (gru_pass_percentage p) \<and>
     if_given (text_within 0 40) (gru_rounding_strategy p)"

definition attendance_rule_update_valid :: "attendance_rule_update \<Rightarrow> bool" where
  "attendance_rule_update_valid p \<longleftrightarrow> if_given (text_within 1 160) (aru_name p) \<and>
     if_given (\<lambda>q. 0 \<le> q \<and> q \<le> 100) (aru_minimum_percentage p) \<and>
     if_given (\<lambda>n. 0 \<le> n) (aru_late_threshold_minutes p) \<and>
     if_given (\<lambda>n. 0 \<le> n) (aru_absent_after_minutes p)"

datatype settings_request =
    Get_General
  | Update_General tenant_settings_update
  | Get_Branding
  | Change_Branding tenant_branding_update
  | List_Apps
  | Toggle_App string app_toggle
  | List_Academic_Years
  | Create_Academic_Year academic_year_create
  | Update_Academic_Year uuid academic_year_update
  | Get_Grading_Rule
  | Update_Grading_Rule grading_rule_update
  | Get_Attendance_Rule
  | Update_Attendance_Rule attendance_rule_update

fun settings_exec :: "tenant_context \<Rightarrow> principal \<Rightarrow> settings_request \<Rightarrow>
    (identity_db, unit) op" where
  "settings_exec ctx pr Get_General = discard (get_general_settings ctx)"
| "settings_exec ctx pr (Update_General p) =
     validated (general_update_valid p) (discard (update_general_settings ctx pr p))"
| "settings_exec ctx pr Get_Branding = discard (get_branding ctx)"
| "settings_exec ctx pr (Change_Branding p) =
     validated (branding_update_valid p) (discard (update_branding ctx pr p))"
| "settings_exec ctx pr List_Apps = discard (list_app_settings ctx)"
| "settings_exec ctx pr (Toggle_App code p) = discard (toggle_app ctx pr code p)"
| "settings_exec ctx pr List_Academic_Years = discard (list_academic_years ctx)"
| "settings_exec ctx pr (Create_Academic_Year p) =
     validated (academic_year_create_valid p) (discard (create_academic_year ctx pr p))"
| "settings_exec ctx pr (Update_Academic_Year i p) =
     validated (academic_year_update_valid p) (discard (update_academic_year ctx pr i p))"
| "settings_exec ctx pr Get_Grading_Rule = discard (get_grading_rule ctx)"
| "settings_exec ctx pr (Update_Grading_Rule p) =
     validated (grading_rule_update_valid p) (discard (update_grading_rule ctx pr p))"
| "settings_exec ctx pr Get_Attendance_Rule = discard (get_attendance_rule ctx)"
| "settings_exec ctx pr (Update_Attendance_Rule p) =
     validated (attendance_rule_update_valid p) (discard (update_attendance_rule ctx pr p))"

definition settings_handle :: "settings_request call \<Rightarrow> (identity_db, unit) op" where
  "settings_handle = handle_call settings_exec"

section \<open>What a request leaves alone\<close>

lemmas settings_read_defs = ensure_tenant_access_def list_app_catalog_def app_setting_list_def
  list_app_settings_def academic_year_list_def list_academic_years_def academic_year_get_def
  grading_rule_default_def attendance_rule_default_def tenant_app_get_def catalog_get_by_code_def
  app_setting_get_def assert_subscription_allows_enable_def Let_def

lemma silent_settings_reads [atomic_intros]:
  "silent (ensure_tenant_access t ctx)" "silent (list_app_settings ctx)"
  "silent (list_academic_years ctx)" "silent (academic_year_get t i)"
  "silent (clear_current t x)"
  unfolding settings_read_defs clear_current_def by (intro atomic_intros)+

lemma keeps_settings_reads [keeps_intros]:
  "keeps J (ensure_tenant_access t ctx)" "keeps J (list_app_settings ctx)"
  "keeps J (list_academic_years ctx)" "keeps J (academic_year_get t i)"
  "keeps J (grading_rule_default t)" "keeps J (attendance_rule_default t)"
  "keeps J (tenant_app_get t c)" "keeps J (catalog_get_by_code c)" "keeps J (app_setting_get t c)"
  "keeps J (assert_subscription_allows_enable a e)"
  unfolding settings_read_defs by (intro keeps_intros)+

definition settings_tables_ok :: "(identity_db session \<Rightarrow> bool) \<Rightarrow> bool" where
  "settings_tables_ok J \<longleftrightarrow> table_ok J tenant_settings_rows_table \<and>
     table_ok J tenant_brandings_table \<and> table_ok J tenant_apps_table \<and>
     table_ok J app_settings_table \<and> table_ok J grading_rules_table \<and>
     table_ok J attendance_rules_table"

lemma keeps_get_or_insert [keeps_intros]:
  assumes "tx_ok J" "table_ok J T" "keeps J (set_current_tenant t)"
  shows "keeps J (get_or_insert T t found fresh)"
  unfolding get_or_insert_def by (intro keeps_intros; use assms in auto)

lemma keeps_settings_steps [keeps_intros]:
  assumes "tx_ok J" "settings_tables_ok J" "\<And>t. keeps J (set_current_tenant t)"
  shows "keeps J (get_general_settings ctx)" "keeps J (get_branding ctx)"
    "keeps J (get_grading_rule ctx)" "keeps J (get_attendance_rule ctx)"
    "keeps J (get_or_create_app_setting t c u)"
  unfolding get_general_settings_def get_branding_def get_grading_rule_def get_attendance_rule_def
    get_or_create_app_setting_def
  by (intro keeps_intros; use assms in \<open>auto simp: settings_tables_ok_def\<close>)+

lemma keeps_settings:
  assumes "tx_ok J" "settings_tables_ok J" "\<And>t. keeps J (set_current_tenant t)"
  shows "keeps J (update_general_settings ctx pr gp)" "keeps J (update_branding ctx pr bp)"
    "keeps J (toggle_app ctx pr code tp)" "keeps J (update_grading_rule ctx pr gru)"
    "keeps J (update_attendance_rule ctx pr aru)"
  unfolding update_general_settings_def update_branding_def toggle_app_def update_grading_rule_def
    update_attendance_rule_def Let_def
  by (intro keeps_intros; use assms in \<open>auto simp: settings_tables_ok_def\<close>)+

lemma keeps_academic_years:
  assumes "tx_ok J" "table_ok J academic_years_table"
  shows "keeps J (create_academic_year ctx pr cp)" "keeps J (update_academic_year ctx pr i up)"
  unfolding create_academic_year_def update_academic_year_def clear_current_def Let_def
  by (intro keeps_intros; use assms in auto)+

lemma atomic_academic_years:
  "atomic (create_academic_year ctx pr cp)" "atomic (update_academic_year ctx pr i up)"
  unfolding create_academic_year_def update_academic_year_def Let_def
  apply ((rule atomic_bind_silent, (intro atomic_intros; fail)[1])
    | rule atomic_rules | (rule atomic_silent, (intro atomic_intros; fail)[1])
    | rule atomic_bind_unfailing | (intro atomic_intros; fail)[1])+
  done

section \<open>At most one current academic year\<close>

definition current_year :: "academic_year \<Rightarrow> bool" where
  "current_year y \<longleftrightarrow> ay_is_current y \<and> ay_deleted_at y = None"

definition single_current :: "academic_year list \<Rightarrow> bool" where
  "single_current ys \<longleftrightarrow> (\<forall>x\<in>set ys. \<forall>y\<in>set ys.
     current_year x \<and> current_year y \<and> ay_tenant x = ay_tenant y \<longrightarrow> ay_id x = ay_id y)"

lemma current_year_of_iff: "current_year_of t r \<longleftrightarrow> ay_tenant r = t \<and> current_year r"
  by (auto simp: current_year_of_def current_year_def)

lemma single_currentD:
  "single_current ys \<Longrightarrow> x \<in> set ys \<Longrightarrow> y \<in> set ys \<Longrightarrow> current_year x \<Longrightarrow> current_year y \<Longrightarrow>
   ay_tenant x = ay_tenant y \<Longrightarrow> ay_id x = ay_id y"
  unfolding single_current_def by blast

lemma single_currentI:
  "(\<And>x y. x \<in> set ys \<Longrightarrow> y \<in> set ys \<Longrightarrow> current_year x \<Longrightarrow> current_year y \<Longrightarrow>
     ay_tenant x = ay_tenant y \<Longrightarrow> ay_id x = ay_id y) \<Longrightarrow> single_current ys"
  unfolding single_current_def by blast

text \<open>The years that stay current after \<open>clear_current\<close>.\<close>

definition cleared :: "uuid \<Rightarrow> uuid option \<Rightarrow> academic_year list \<Rightarrow> academic_year list" where
  "cleared t x = replace_where (\<lambda>r. current_year_of t r \<and> Some (ay_id r) \<noteq> x)
     (\<lambda>r. r\<lparr>ay_is_current := False\<rparr>)"

lemma cleared_current:
  "y \<in> set (cleared t x ys) \<Longrightarrow> current_year y \<Longrightarrow>
   y \<in> set ys \<and> (ay_tenant y = t \<longrightarrow> Some (ay_id y) = x)"
  by (auto simp: cleared_def set_replace_where current_year_of_iff current_year_def)

lemma single_current_cleared: "single_current ys \<Longrightarrow> single_current (cleared t x ys)"
  by (rule single_currentI) (meson cleared_current single_currentD)

lemma clear_current_run:
  assumes "clear_current t x s = (r, s')" "rls_tenant s = Some t"
  shows "s' = s\<lparr>working := academic_years_update (cleared t x) (working s)\<rparr>"
proof -
  have "(\<lambda>r. visible academic_years_table s r \<and> current_year_of t r \<and> Some (ay_id r) \<noteq> x) =
      (\<lambda>r. current_year_of t r \<and> Some (ay_id r) \<noteq> x)"
    using assms(2) by (auto simp: identity_visible own_def current_year_of_iff)
  moreover have "writable academic_years_table s (q\<lparr>ay_is_current := False\<rparr>)"
    if "visible academic_years_table s q" for q
    using that by (simp add: identity_visible identity_writable own_def)
  ultimately show ?thesis
    using assms(1)
    by (auto simp: clear_current_def update_where_def cleared_def list_ex_iff split: if_splits)
qed

text \<open>The years a successful request leaves behind.\<close>

lemma create_academic_yearE:
  assumes "create_academic_year ctx pr p s = (Inr y, s')"
  obtains t where "ay_tenant y = t" "ay_is_current y = ayc_is_current p"
    "academic_years (committed s') = (if ayc_is_current p
       then cleared t None (academic_years (working s)) else academic_years (working s)) @ [y]"
proof -
  from assms obtain t u where ctx: "ctx_tenant ctx = Some t"
    and clear: "when_tx (ayc_is_current p) (clear_current t None) s = (Inr (), u)"
    and own: "rls_tenant u = Some t" and y: "ay_tenant y = t" "ay_is_current y = ayc_is_current p"
    and d: "academic_years (committed s') = academic_years (working u) @ [y]"
    by (auto simp: create_academic_year_def bind_tx_Inr_iff basic_Inr_iff insert_row_Inr_iff
        publish_event_run identity_writable own_def simp del: when_tx_run)
  have "rls_tenant s = Some t"
    using clear own
    by (auto simp: when_tx_run clear_current_def update_where_Inr_iff split: if_splits)
  then have "academic_years (working u) = (if ayc_is_current p
       then cleared t None (academic_years (working s)) else academic_years (working s))"
    using clear by (auto simp: when_tx_run dest: clear_current_run split: if_splits)
  with that y d show thesis by metis
qed

lemma update_academic_yearE:
  assumes "update_academic_year ctx pr i p s = (Inr y, s')"
  obtains old t where "old \<in> set (academic_years (working s))" "y = apply_academic_year_update p old"
    "ay_tenant old = t" "academic_years (committed s') = replace_where
       (\<lambda>q. ay_id q = ay_id y \<and> ay_tenant q = t) (\<lambda>_. y) (if ayu_is_current p = Assigned (Some True)
       then cleared t (Some (ay_id old)) (academic_years (working s))
       else academic_years (working s))"
proof -
  let ?set = "ayu_is_current p = Assigned (Some True)"
  from assms obtain t old where ctx: "ctx_tenant ctx = Some t" and
    old: "lookup academic_years_table (\<lambda>r. ay_tenant r = t \<and> ay_id r = i \<and> ay_deleted_at r = None) s =
      Some old" and y: "y = apply_academic_year_update p old"
    by (auto simp: update_academic_year_def academic_year_get_def Let_def bind_tx_Inr_iff
        split: if_splits)
  from assms ctx old y obtain u where
    clear: "when_tx ?set (clear_current t (Some (ay_id old))) s = (Inr (), u)"
    and d: "academic_years (committed s') = replace_where
      (\<lambda>q. ay_id q = ay_id y \<and> visible academic_years_table u q) (\<lambda>_. y) (academic_years (working u))"
    by (cases ?set) (auto simp: update_academic_year_def academic_year_get_def Let_def
        bind_tx_Inr_iff basic_Inr_iff flush_update_Inr_iff save_row_Inr_iff publish_event_run
        identity_rows when_tx_run split: if_splits)
  from lookup_SomeD [OF old] have own: "old \<in> set (academic_years (working s))" "ay_tenant old = t"
      "rls_tenant s = Some t"
    by (auto simp: identity_rows identity_visible own_def)
  have u: "rls_tenant u = rls_tenant s"
    using clear by (auto simp: when_tx_run clear_current_def update_where_Inr_iff split: if_splits)
  have "academic_years (working u) = (if ?set then cleared t (Some (ay_id old)) (academic_years (working s))
      else academic_years (working s))"
    using clear own(3) by (auto simp: when_tx_run dest: clear_current_run split: if_splits)
  moreover have "(\<lambda>q. ay_id q = ay_id y \<and> visible academic_years_table u q) =
      (\<lambda>q. ay_id q = ay_id y \<and> ay_tenant q = t)"
    using own(3) u by (auto simp: identity_visible own_def)
  ultimately show thesis using that [OF own(1) y own(2)] d by simp
qed

lemma create_academic_year_single:
  assumes "create_academic_year ctx pr p s = (Inr y, s')" "single_current (academic_years (working s))"
  shows "single_current (academic_years (committed s'))"
proof -
  let ?ys = "academic_years (working s)"
  from assms(1) obtain t where y: "ay_tenant y = t" "ay_is_current y = ayc_is_current p"
    and d: "academic_years (committed s') = (if ayc_is_current p then cleared t None ?ys else ?ys) @ [y]"
    by (rule create_academic_yearE)
  have none: "\<not> current_year q" if "q \<in> set (cleared t None ?ys)" "ay_tenant q = t" for q
    using cleared_current [OF that(1)] that(2) by auto
  show ?thesis
  proof (cases "ayc_is_current p")
    case True
    have "single_current (cleared t None ?ys @ [y])"
      unfolding single_current_def
    proof (intro ballI impI, elim conjE)
      fix a b
      assume ab: "a \<in> set (cleared t None ?ys @ [y])" "b \<in> set (cleared t None ?ys @ [y])"
        "current_year a" "current_year b" "ay_tenant a = ay_tenant b"
      with none y(1) have "a = y \<longleftrightarrow> b = y" by auto
      with ab single_currentD [OF single_current_cleared [OF assms(2), of t None], of a b]
      show "ay_id a = ay_id b" by auto
    qed
    with True show ?thesis by (simp add: d)
  next
    case False
    then have y: "\<not> current_year y" using y by (simp add: current_year_def)
    show ?thesis
    proof (rule single_currentI)
      fix a b assume ab: "a \<in> set (academic_years (committed s'))" "b \<in> set (academic_years (committed s'))"
        "current_year a" "current_year b" "ay_tenant a = ay_tenant b"
      with y False have "a \<in> set ?ys" "b \<in> set ?ys" by (auto simp: d)
      then show "ay_id a = ay_id b" by (rule single_currentD [OF assms(2) _ _ ab(3-5)])
    qed
  qed
qed

lemma apply_academic_year_update_key [simp]:
  "ay_id (apply_academic_year_update p y) = ay_id y"
  "ay_tenant (apply_academic_year_update p y) = ay_tenant y"
  "ay_deleted_at (apply_academic_year_update p y) = ay_deleted_at y"
  "ay_is_current (apply_academic_year_update p y) =
     assign_required (ayu_is_current p) (ay_is_current y)"
  by (simp_all add: apply_academic_year_update_def)

lemma update_academic_year_single:
  assumes "update_academic_year ctx pr i p s = (Inr y, s')" "single_current (academic_years (working s))"
  shows "single_current (academic_years (committed s'))"
proof -
  let ?ys = "academic_years (working s)"
  from assms(1) obtain old t where old: "old \<in> set ?ys" "y = apply_academic_year_update p old"
      "ay_tenant old = t"
    and d: "academic_years (committed s') = replace_where (\<lambda>q. ay_id q = ay_id y \<and> ay_tenant q = t)
      (\<lambda>_. y) (if ayu_is_current p = Assigned (Some True) then cleared t (Some (ay_id old)) ?ys else ?ys)"
    by (rule update_academic_yearE)
  let ?zs = "if ayu_is_current p = Assigned (Some True) then cleared t (Some (ay_id old)) ?ys else ?ys"
  have zs: "single_current ?zs" using assms(2) by (simp add: single_current_cleared)
  have same: "ay_id q = ay_id y"
    if "q \<in> set ?zs" "current_year q" "ay_tenant q = t" "current_year y" for q
  proof (cases "ayu_is_current p = Assigned (Some True)")
    case True
    with that(1) have "q \<in> set (cleared t (Some (ay_id old)) ?ys)" by simp
    from cleared_current [OF this that(2)] that(3) old(2) show ?thesis by simp
  next
    case False
    with that(4) old(2) have "current_year old"
      by (cases "ayu_is_current p"; cases "assign (ayu_is_current p) None")
        (auto simp: current_year_def)
    moreover from False that(1) have "q \<in> set ?ys" by simp
    ultimately have "ay_id q = ay_id old"
      using single_currentD [OF assms(2) _ old(1) that(2)] that(3) old(3) by simp
    then show ?thesis by (simp add: old(2))
  qed
  have y: "ay_tenant y = t" "ay_id y = ay_id old" using old by simp_all
  show ?thesis
  proof (rule single_currentI)
    fix a b assume ab: "a \<in> set (academic_years (committed s'))" "b \<in> set (academic_years (committed s'))"
      "current_year a" "current_year b" "ay_tenant a = ay_tenant b"
    then have "a = y \<or> a \<in> set ?zs" "b = y \<or> b \<in> set ?zs" unfolding d set_replace_where by blast+
    then consider "a = y" "b = y" | "a = y" "b \<in> set ?zs" | "a \<in> set ?zs" "b = y"
      | "a \<in> set ?zs" "b \<in> set ?zs" by blast
    then show "ay_id a = ay_id b"
    proof cases
      case 1 then show ?thesis by simp
    next
      case 2 with ab y(1) same [of b] show ?thesis by simp
    next
      case 3 with ab y(1) same [of a] show ?thesis by simp
    next
      case 4 then show ?thesis by (rule single_currentD [OF zs _ _ ab(3-5)])
    qed
  qed
qed

definition settings_inv :: "identity_db \<Rightarrow> process \<Rightarrow> bool" where
  "settings_inv d p \<longleftrightarrow> single_current (academic_years d)"

lemma proc_stable_settings_inv: "proc_stable settings_inv"
  by (simp add: proc_stable_def settings_inv_def)

lemma settings_frame:
  "tx_ok (both settings_inv)" "settings_tables_ok (both settings_inv)"
  "keeps (both settings_inv) (set_current_tenant t)"
  by (simp_all add: tx_ok_both proc_stable_settings_inv settings_tables_ok_def table_ok_both
      framed_def settings_inv_def keeps_both_current)

lemma settings_serve_inv:
  assumes "settings_inv d p" "serve (settings_handle c) d p = (r, d', p')"
  shows "settings_inv d' p'"
proof -
  note run = assms(2) [unfolded settings_handle_def]
  note frame = serve_call_frame [where P = settings_inv, OF _ assms(1) run]
  have ok: "settings_inv d' p'"
    if "atomic (settings_exec (cl_context c) (cl_principal c) (cl_request c))"
      "keeps (fresh_from (uuid_supply p)) (settings_exec (cl_context c) (cl_principal c) (cl_request c))"
      "\<And>x s. settings_exec (cl_context c) (cl_principal c) (cl_request c)
        ((open_session d p)\<lparr>rls_tenant := Some (cl_tenant c)\<rparr>) = (Inr x, s) \<Longrightarrow>
        settings_inv (committed s) (proc s)"
    by (rule serve_call_ok [where P = settings_inv, OF
          atomic_handle_call [where exec = settings_exec, OF that(1)]
          keeps_handle_call [where exec = settings_exec, OF keeps_fresh_current(1) that(2)] proc_stable_settings_inv assms(1) that(3) run])
  note years = keeps_academic_years [OF tx_ok_fresh table_ok_fresh]
  show ?thesis
  proof (cases "cl_request c")
    case (Create_Academic_Year q)
    then show ?thesis
      by (intro ok)
        (use assms(1) in \<open>auto simp: validated_Inr discard_Inr settings_inv_def
          intro!: atomic_validated atomic_discard atomic_academic_years keeps_validated keeps_discard years
          dest: create_academic_year_single\<close>)
  next
    case (Update_Academic_Year i q)
    then show ?thesis
      by (intro ok)
        (use assms(1) in \<open>auto simp: validated_Inr discard_Inr settings_inv_def
          intro!: atomic_validated atomic_discard atomic_academic_years keeps_validated keeps_discard years
          dest: update_academic_year_single\<close>)
  qed (auto intro!: frame keeps_discard keeps_validated keeps_settings_reads keeps_settings
      keeps_settings_steps settings_frame)
qed

interpretation settings_service: service settings_handle settings_inv
proof
  show "settings_inv d p \<Longrightarrow> serve (settings_handle c) d p = (r, d', p') \<Longrightarrow> settings_inv d' p'"
    for d p c r d' p'
    by (rule settings_serve_inv)
  show "settings_inv d p \<Longrightarrow> clock p \<le> t \<Longrightarrow> settings_inv d (p\<lparr>clock := t\<rparr>)" for d p t
    by (simp add: settings_inv_def)
qed

end
