(* ===== verification/Settings_Props.thy ===== *)
theory Settings_Props
  imports Settings_Facts Sample
begin

text \<open>
  The properties of PrepSettings: one current academic year per tenant, and a switch the gate of the
  applications obeys.
\<close>

text \<open>
  C34. In every reachable state two current academic years of a tenant (not deleted) are the same:
  making a year current, on creation or by an update, takes the mark from the others.
\<close>

theorem single_current_year:
  assumes "reaches settings_handle d0 p0 d p" "single_current (academic_years d0)"
    and "x \<in> set (academic_years d)" "y \<in> set (academic_years d)"
    and "current_year x" "current_year y" "ay_tenant x = ay_tenant y"
  shows "ay_id x = ay_id y"
proof -
  have "settings_inv d p"
    by (rule settings_service.reaches_good [OF assms(1)]) (simp add: settings_inv_def assms(2))
  then show ?thesis unfolding settings_inv_def by (rule single_currentD [OF _ assms(3-7)])
qed

definition sample_year :: "string \<Rightarrow> academic_year_create" where
  "sample_year code = \<lparr>ayc_name = code, ayc_code = code, ayc_starts_on = 0, ayc_ends_on = 365,
     ayc_status = AY_ACTIVE, ayc_is_current = True, ayc_settings = JObj []\<rparr>"

theorem single_current_year_witness:
  "\<exists>d p x. reaches settings_handle empty_identity_db sample_proc d p \<and>
     length (academic_years d) = 2 \<and> x \<in> set (academic_years d) \<and> current_year x \<and>
     ay_code x = ''y2027'' \<and> ay_id (last (academic_years d)) = ay_id x"
proof -
  let ?m = "serve (settings_handle (sample_call (Create_Academic_Year (sample_year ''y2026''))))
    empty_identity_db sample_proc"
  let ?n = "serve (settings_handle (sample_call (Create_Academic_Year (sample_year ''y2027''))))
    (fst (snd ?m)) (snd (snd ?m))"
  obtain d p where n: "d = fst (snd ?n)" "p = snd (snd ?n)" by blast
  let ?P = "\<lambda>x. current_year x \<and> ay_tenant x = 1 \<and> ay_code x = ''y2027''"
  have ys: "length (academic_years d) = 2" "list_ex ?P (academic_years d)"
    "current_year (last (academic_years d))" "ay_tenant (last (academic_years d)) = 1"
    unfolding n by code_simp+
  from ys(2) obtain x where x: "x \<in> set (academic_years d)" "?P x"
    unfolding list_ex_iff by (elim bexE)
  have run: "reaches settings_handle empty_identity_db sample_proc d p"
    unfolding n by (rule reaches_next [OF reaches_once])
  have last: "last (academic_years d) \<in> set (academic_years d)"
    using ys(1) by (intro last_in_set) auto
  have "ay_id (last (academic_years d)) = ay_id x"
    by (rule single_current_year [OF run _ last x(1) ys(3)])
      (use x(2) ys(4) in \<open>simp_all add: empty_identity_db_def single_current_def\<close>)
  with run ys(1) x show ?thesis by (intro exI [of _ d] exI [of _ p] exI [of _ x] conjI) simp_all
qed

section \<open>The switch and the gate\<close>

lemma get_or_create_app_setting_Inr:
  assumes "get_or_create_app_setting t code u s = (Inr r, s')"
  shows "tenant_apps (working s') = tenant_apps (working s) \<and> rls_tenant s' = rls_tenant s"
  using assms
  by (auto simp: get_or_create_app_setting_def app_setting_get_def tx_inv identity_rows
      split: option.splits)

lemma assert_allows_Inr:
  "assert_subscription_allows_enable app entry s = (Inr u, s') \<longleftrightarrow>
     available_app entry \<and> paid_subscription app \<and>
     (case tap_ends_at app of None \<Rightarrow> True | Some e \<Rightarrow> clock (proc s) \<le> e) \<and> s' = s"
  by (auto simp: assert_subscription_allows_enable_def tx_inv split: option.splits)

lemma asr_ends_at_response [simp]:
  "asr_ends_at (app_settings_response code entry (Some a) setting now) = tap_ends_at a"
  by (simp add: app_settings_response_def)

lemma toggle_appE:
  assumes "toggle_app ctx pr code p s = (Inr r, s')"
  obtains t app st where "ctx_tenant ctx = Some t" "rls_tenant s = Some t"
    "lookup tenant_apps_table (\<lambda>r. tap_tenant r = t \<and> tap_app_code r = lower (strip code)) s = Some app"
    "st = (if \<not> atg_enabled p then APP_DISABLED
       else if tap_subscription_status app = SUB_TRIAL then APP_TRIAL else APP_ENABLED)"
    "atg_enabled p \<longrightarrow> paid_subscription app" "asr_ends_at r = tap_ends_at app"
    "tenant_apps (committed s') = replace_where
       (\<lambda>q. tap_id q = tap_id app \<and> tap_tenant q = t) (\<lambda>_. app\<lparr>tap_status := st\<rparr>) (tenant_apps (working s))"
    "\<forall>q\<in>set (tenant_apps (working s)). tap_id q \<noteq> tap_id app \<longrightarrow>
       \<not> tenant_app_clash q (app\<lparr>tap_status := st\<rparr>)"
proof -
  from assms obtain t where ctx: "ctx_tenant ctx = Some t"
    by (auto simp: toggle_app_def bind_tx_Inr_iff)
  from assms ctx obtain app where app:
    "lookup tenant_apps_table (\<lambda>r. tap_tenant r = t \<and> tap_app_code r = lower (strip code)) s = Some app"
    by (auto simp: toggle_app_def tenant_app_get_def tx_inv Let_def split: option.splits)
  from lookup_SomeD [OF app] have own: "rls_tenant s = Some t" "tap_tenant app = t"
    by (auto simp: identity_visible own_def)
  let ?st = "if \<not> atg_enabled p then APP_DISABLED
     else if tap_subscription_status app = SUB_TRIAL then APP_TRIAL else APP_ENABLED"
  let ?app = "app\<lparr>tap_status := ?st\<rparr>"
  have "\<exists>setting u v w x row. get_or_create_app_setting t (lower (strip code)) (pr_user pr) s = (Inr setting, u) \<and>
      when_tx (atg_enabled p) (assert_subscription_allows_enable app
        (lookup app_catalog_table (\<lambda>r. ca_code r = lower (strip code)) s)) u = (Inr (), v) \<and>
      save_row tenant_apps_table ?app v = (Inr ?app, w) \<and>
      save_row app_settings_table row w = (Inr row, x) \<and> committed s' = working x \<and>
      asr_ends_at r = tap_ends_at app"
    using assms
    by (cases "tap_status app = APP_LOCKED"; clarsimp simp: toggle_app_def tenant_app_get_def
        catalog_get_by_code_def bind_query ctx app Let_def bind_tx_Inr_iff basic_Inr_iff(1,6)
        split del: if_split)
      (frule save_row_value [where T = tenant_apps_table], frule save_row_value [where T = app_settings_table],
        fastforce split del: if_split)
  then obtain setting u v w x row where
    got: "get_or_create_app_setting t (lower (strip code)) (pr_user pr) s = (Inr setting, u)"
    and rest: "when_tx (atg_enabled p) (assert_subscription_allows_enable app
        (lookup app_catalog_table (\<lambda>r. ca_code r = lower (strip code)) s)) u = (Inr (), v)"
    and save: "save_row tenant_apps_table ?app v = (Inr ?app, w)"
    and aux: "save_row app_settings_table row w = (Inr row, x)" and d: "committed s' = working x"
    and r: "asr_ends_at r = tap_ends_at app"
    by (elim exE conjE)
  note same = get_or_create_app_setting_Inr [OF got]
  have v: "v = u" "atg_enabled p \<longrightarrow> paid_subscription app"
    using rest by (auto simp: when_tx_run assert_allows_Inr split: if_splits)
  have "(\<lambda>q. tap_id q = tap_id app \<and> visible tenant_apps_table u q) =
      (\<lambda>q. tap_id q = tap_id app \<and> tap_tenant q = t)"
    using same own(1) by (auto simp: identity_visible own_def)
  with save same v(1) have w: "tenant_apps (working w) = replace_where
       (\<lambda>q. tap_id q = tap_id app \<and> tap_tenant q = t) (\<lambda>_. ?app) (tenant_apps (working s))"
    and free: "\<forall>q\<in>set (tenant_apps (working s)). tap_id q \<noteq> tap_id app \<longrightarrow> \<not> tenant_app_clash q ?app"
    by (simp_all add: save_row_Inr_iff identity_rows)
  from aux have "tenant_apps (working x) = tenant_apps (working w)"
    by (auto simp: save_row_Inr_iff)
  with w d show thesis
    by (intro that [OF ctx own(1) app refl v(2) r _ free]) simp
qed

text \<open>
  C40. After a successful switch of an application the gate in front of its requests follows it: at
  any later time a request passes exactly when the application was switched on and its
  subscription has not ended, and is answered with 403 otherwise.
\<close>

theorem toggle_app_obeyed:
  assumes "serve (scoped t (toggle_app ctx pr code p)) d0 p0 = (Inr r, d, q)"
    and "unique_rows tenant_apps_table (tenant_apps d0)"
  shows "fst (serve (scoped t (require_app_enabled ctx (lower (strip code)))) d (q\<lparr>clock := now\<rparr>)) =
    (if atg_enabled p \<and> (case asr_ends_at r of None \<Rightarrow> True | Some e \<Rightarrow> now \<le> e) then Inr ()
     else Inl (Prep_Suite_Error ''app_disabled'' 403))"
proof -
  let ?s = "(open_session d0 p0)\<lparr>rls_tenant := Some t\<rparr>"
  let ?u = "(open_session d (q\<lparr>clock := now\<rparr>))\<lparr>rls_tenant := Some t\<rparr>"
  let ?P = "\<lambda>r. tap_tenant r = t \<and> tap_app_code r = lower (strip code)"
  from assms(1) obtain s' where run: "toggle_app ctx pr code p ?s = (Inr r, s')" and d: "committed s' = d"
    by (auto simp: serve_def scoped_run split: prod.splits)
  from run obtain app st where ctx: "ctx_tenant ctx = Some t" and app: "lookup tenant_apps_table ?P ?s = Some app"
    and st: "st = (if \<not> atg_enabled p then APP_DISABLED
       else if tap_subscription_status app = SUB_TRIAL then APP_TRIAL else APP_ENABLED)"
    and paid: "atg_enabled p \<longrightarrow> paid_subscription app" and r: "asr_ends_at r = tap_ends_at app"
    and rows: "tenant_apps d = replace_where (\<lambda>q. tap_id q = tap_id app \<and> tap_tenant q = t)
      (\<lambda>_. app\<lparr>tap_status := st\<rparr>) (tenant_apps d0)"
    and free: "\<forall>q\<in>set (tenant_apps d0). tap_id q \<noteq> tap_id app \<longrightarrow>
       \<not> tenant_app_clash q (app\<lparr>tap_status := st\<rparr>)"
    by (elim toggle_appE) (auto simp: d)
  let ?app = "app\<lparr>tap_status := st\<rparr>"
  from lookup_SomeD [OF app] have own: "app \<in> set (tenant_apps d0)" "?P app"
    by (auto simp: identity_rows open_session_def)
  have unique: "unique_rows tenant_apps_table (tenant_apps d)"
    using tenant_apps_tbl.unique_replace [of "tenant_apps d0" ?app "\<lambda>q. tap_tenant q = t"] assms(2) free
    by (simp add: rows)
  have mem: "?app \<in> set (tenant_apps d)"
    using own by (auto simp: rows set_replace_where)
  have "lookup tenant_apps_table ?P ?u = Some ?app"
  proof (rule lookup_unique)
    show "?app \<in> set (rows tenant_apps_table ?u)" using mem by (simp add: identity_rows open_session_def)
    show "visible tenant_apps_table ?u ?app" "?P ?app" using own(2) by (simp_all add: identity_visible own_def)
    fix q assume q: "q \<in> set (rows tenant_apps_table ?u)" "?P q"
    then have "tenant_app_clash q ?app" using own(2) by (simp add: tenant_app_clash_def)
    with unique_rows_clash [OF unique _ mem] q(1) show "q = ?app" by (simp add: identity_rows open_session_def)
  qed
  then show ?thesis
    using ctx st paid r
    by (auto simp: serve_def scoped_run require_app_enabled_def is_app_enabled_def tenant_app_get_def
        tx_exec app_usable_def paid_subscription_def split: option.splits)
qed

definition sample_apps_db :: identity_db where
  "sample_apps_db = empty_identity_db
     \<lparr>app_catalog := [\<lparr>ca_id = 50, ca_code = ''preplive'', ca_name = ''PrepLive'',
        ca_description = None, ca_category = ''learning'', ca_is_core = False, ca_is_active = True\<rparr>],
      tenant_apps := [\<lparr>tap_id = 51, tap_tenant = 1, tap_app_code = ''preplive'',
        tap_status = APP_DISABLED, tap_subscription_status = SUB_ACTIVE, tap_starts_at = None,
        tap_ends_at = Some 5000, tap_config = JObj []\<rparr>]\<rparr>"

theorem toggle_app_obeyed_witness:
  "\<exists>r d q. serve (scoped 1 (toggle_app sample_ctx sample_pr '' PrepLive ''
       \<lparr>atg_enabled = True, atg_settings = None\<rparr>)) sample_apps_db sample_proc = (Inr r, d, q) \<and>
     fst (serve (scoped 1 (require_app_enabled sample_ctx ''preplive'')) d (q\<lparr>clock := 4000\<rparr>)) = Inr () \<and>
     fst (serve (scoped 1 (require_app_enabled sample_ctx ''preplive'')) d (q\<lparr>clock := 6000\<rparr>)) =
       Inl (Prep_Suite_Error ''app_disabled'' 403)"
proof -
  let ?m = "serve (scoped 1 (toggle_app sample_ctx sample_pr '' PrepLive ''
    \<lparr>atg_enabled = True, atg_settings = None\<rparr>)) sample_apps_db sample_proc"
  have ok: "\<not> isl (fst ?m)" "asr_ends_at (projr (fst ?m)) = Some 5000" by code_simp+
  obtain r d q where run: "?m = (Inr r, d, q)" and r: "asr_ends_at r = Some 5000"
    using serve_Inr [OF ok(1)] ok(2) by blast
  have code: "lower (strip '' PrepLive '') = ''preplive''" by code_simp
  have "unique_rows tenant_apps_table (tenant_apps sample_apps_db)"
    by (simp add: sample_apps_db_def unique_rows_def)
  note gate = toggle_app_obeyed [OF run this, unfolded code r]
  show ?thesis
    by (rule exI [of _ r], rule exI [of _ d], rule exI [of _ q])
      (use run gate [of 4000] gate [of 6000] in simp)
qed

end
