(* ===== verification/Tenant_View.thy ===== *)
theory Tenant_View
  imports Row_Rules
begin

text \<open>
  What one tenant can see of the database, and the assertion that a session scoped to another
  tenant leaves it alone.
\<close>

definition tenant_view :: "uuid \<Rightarrow> db \<Rightarrow> db" where
  "tenant_view b d = \<lparr>students = filter (\<lambda>r. st_tenant r = b) (students d),
     guardians = filter (\<lambda>r. gu_tenant r = b) (guardians d),
     student_guardians = filter (\<lambda>r. sg_tenant r = b) (student_guardians d),
     batches = filter (\<lambda>r. bt_tenant r = b) (batches d),
     batch_students = filter (\<lambda>r. bs_tenant r = b) (batch_students d),
     student_enrollments = filter (\<lambda>r. en_tenant r = b) (student_enrollments d),
     student_notes = filter (\<lambda>r. no_tenant r = b) (student_notes d),
     student_documents = filter (\<lambda>r. doc_tenant r = b) (student_documents d),
     student_status_histories = filter (\<lambda>r. sh_tenant r = b) (student_status_histories d),
     employees = filter (\<lambda>r. em_tenant r = b) (employees d),
     teacher_assignments = filter (\<lambda>r. ta_tenant r = b) (teacher_assignments d),
     courses = filter (\<lambda>r. co_tenant r = b) (courses d),
     course_batches = filter (\<lambda>r. cb_tenant r = b) (course_batches d),
     course_teachers = filter (\<lambda>r. ct_tenant r = b) (course_teachers d),
     questions = filter (\<lambda>r. qu_tenant r = b) (questions d),
     question_options = filter (\<lambda>r. qo_tenant r = b) (question_options d),
     question_tags = filter (\<lambda>r. qt_tenant r = b) (question_tags d),
     question_sets = filter (\<lambda>r. qs_tenant r = b) (question_sets d),
     question_set_items = filter (\<lambda>r. qi_tenant r = b) (question_set_items d),
     assessments = filter (\<lambda>r. as_tenant r = b) (assessments d),
     assessment_sections = filter (\<lambda>r. sec_tenant r = b) (assessment_sections d),
     assessment_questions = filter (\<lambda>r. aq_tenant r = b) (assessment_questions d),
     assessment_attempts = filter (\<lambda>r. at_tenant r = b) (assessment_attempts d),
     assessment_answers = filter (\<lambda>r. an_tenant r = b) (assessment_answers d),
     assessment_evaluations = filter (\<lambda>r. evl_tenant r = b) (assessment_evaluations d),
     assessment_results = filter (\<lambda>r. rs_tenant r = b) (assessment_results d),
     evaluation_comments = filter (\<lambda>r. cm_tenant r = b) (evaluation_comments d),
     student_attendance_sessions = filter (\<lambda>r. sas_tenant r = b) (student_attendance_sessions d),
     student_attendance_records = filter (\<lambda>r. sar_tenant r = b) (student_attendance_records d),
     employee_attendance_records = filter (\<lambda>r. ear_tenant r = b) (employee_attendance_records d),
     attendance_correction_requests = filter (\<lambda>r. acr_tenant r = b) (attendance_correction_requests d),
     live_classes = filter (\<lambda>r. lc_tenant r = b) (live_classes d),
     live_class_participants = filter (\<lambda>r. lp_tenant r = b) (live_class_participants d),
     live_class_attendance_snapshots = filter (\<lambda>r. lsn_tenant r = b) (live_class_attendance_snapshots d),
     live_class_recordings = filter (\<lambda>r. lr_tenant r = b) (live_class_recordings d),
     live_class_events = filter (\<lambda>r. le_tenant r = b) (live_class_events d),
     departments = filter (\<lambda>r. dp_tenant r = b) (departments d),
     employee_profiles = filter (\<lambda>r. ep_tenant r = b) (employee_profiles d),
     employee_documents = filter (\<lambda>r. ed_tenant r = b) (employee_documents d),
     employee_status_histories = filter (\<lambda>r. eh_tenant r = b) (employee_status_histories d),
     employee_notes = filter (\<lambda>r. ent_tenant r = b) (employee_notes d),
     course_modules = filter (\<lambda>r. mo_tenant r = b) (course_modules d),
     lessons = filter (\<lambda>r. ln_tenant r = b) (lessons d),
     lesson_resources = filter (\<lambda>r. lx_tenant r = b) (lesson_resources d),
     course_publish_histories = filter (\<lambda>r. ph_tenant r = b) (course_publish_histories d),
     course_prerequisites = filter (\<lambda>r. cp_tenant r = b) (course_prerequisites d),
     question_topics = filter (\<lambda>r. tp_tenant r = b) (question_topics d),
     ai_jobs = filter (\<lambda>r. ai_tenant r = b) (ai_jobs d)\<rparr>"

text \<open>A session of a tenant other than \<open>b\<close>, or of none, in which \<open>b\<close> still sees \<open>v\<close>.\<close>

definition apart :: "('d \<Rightarrow> 'v) \<Rightarrow> uuid \<Rightarrow> 'v \<Rightarrow> 'd session \<Rightarrow> bool" where
  "apart view b v s \<longleftrightarrow> rls_tenant s \<noteq> Some b \<and> view (working s) = v \<and> view (committed s) = v"

lemma tx_ok_apart: "tx_ok (apart view b v)"
  by (auto simp: tx_ok_def keeps_def apart_def tx_simps)

context tenant_owned begin

lemma table_ok_apart:
  assumes view: "\<And>f d. filter (\<lambda>r. tenant_of r = b) (f (rows_of T d)) =
      filter (\<lambda>r. tenant_of r = b) (rows_of T d) \<Longrightarrow> view (upd_rows T f d) = view d"
  shows "table_ok (apart view b v) T"
proof -
  let ?own = "filter (\<lambda>r. tenant_of r = b)"
  have insert: "keeps (apart view b v) (insert_row T r)" for r
    by (auto simp: keeps_def apart_def insert_row_def writable_iff intro!: view [THEN trans])
  have save: "keeps (apart view b v) (save_row T r)" for r
    by (auto simp: keeps_def apart_def save_row_def writable_iff visible_iff
        intro!: view [THEN trans] filter_replace_where_out)
  have update: "keeps (apart view b v) (update_where T c f)" for c f
    by (auto simp: keeps_def apart_def update_where_def writable_iff visible_iff list_ex_iff rows_def
        intro!: view [THEN trans] filter_replace_where_out)
  have out: "?own (filter (\<lambda>r. \<not> (visible T s r \<and> c r)) xs) = ?own xs" if "rls_tenant s \<noteq> Some b" for s c xs
    using that by (auto simp: visible_iff intro: filter_cong)
  have delete: "keeps (apart view b v) (delete_where T c)" for c
  proof -
    have "view (upd_rows T (filter (\<lambda>r. \<not> (visible T s r \<and> c r))) d) = view d"
      if "rls_tenant s \<noteq> Some b" for s d
      by (rule view) (rule out [OF that])
    then show ?thesis by (simp add: keeps_def apart_def delete_where_def)
  qed
  show ?thesis unfolding table_ok_def using insert save update delete by blast
qed

end

lemma students_apart: "table_ok (apart (tenant_view b) b v) students_table"
  by (rule students_tbl.table_ok_apart) (simp add: tenant_view_def)

lemma guardians_apart: "table_ok (apart (tenant_view b) b v) guardians_table"
  by (rule guardians_tbl.table_ok_apart) (simp add: tenant_view_def)

lemma student_guardians_apart: "table_ok (apart (tenant_view b) b v) student_guardians_table"
  by (rule student_guardians_tbl.table_ok_apart) (simp add: tenant_view_def)

lemma batches_apart: "table_ok (apart (tenant_view b) b v) batches_table"
  by (rule batches_tbl.table_ok_apart) (simp add: tenant_view_def)

lemma batch_students_apart: "table_ok (apart (tenant_view b) b v) batch_students_table"
  by (rule batch_students_tbl.table_ok_apart) (simp add: tenant_view_def)

lemma student_enrollments_apart: "table_ok (apart (tenant_view b) b v) student_enrollments_table"
  by (rule student_enrollments_tbl.table_ok_apart) (simp add: tenant_view_def)

lemma student_notes_apart: "table_ok (apart (tenant_view b) b v) student_notes_table"
  by (rule student_notes_tbl.table_ok_apart) (simp add: tenant_view_def)

lemma student_documents_apart: "table_ok (apart (tenant_view b) b v) student_documents_table"
  by (rule student_documents_tbl.table_ok_apart) (simp add: tenant_view_def)

lemma student_status_histories_apart: "table_ok (apart (tenant_view b) b v) student_status_histories_table"
  by (rule student_status_histories_tbl.table_ok_apart) (simp add: tenant_view_def)

lemma employees_apart: "table_ok (apart (tenant_view b) b v) employees_table"
  by (rule employees_tbl.table_ok_apart) (simp add: tenant_view_def)

lemma teacher_assignments_apart: "table_ok (apart (tenant_view b) b v) teacher_assignments_table"
  by (rule teacher_assignments_tbl.table_ok_apart) (simp add: tenant_view_def)

lemma courses_apart: "table_ok (apart (tenant_view b) b v) courses_table"
  by (rule courses_tbl.table_ok_apart) (simp add: tenant_view_def)

lemma course_batches_apart: "table_ok (apart (tenant_view b) b v) course_batches_table"
  by (rule course_batches_tbl.table_ok_apart) (simp add: tenant_view_def)

lemma course_teachers_apart: "table_ok (apart (tenant_view b) b v) course_teachers_table"
  by (rule course_teachers_tbl.table_ok_apart) (simp add: tenant_view_def)

lemma questions_apart: "table_ok (apart (tenant_view b) b v) questions_table"
  by (rule questions_tbl.table_ok_apart) (simp add: tenant_view_def)

lemma question_options_apart: "table_ok (apart (tenant_view b) b v) question_options_table"
  by (rule question_options_tbl.table_ok_apart) (simp add: tenant_view_def)

lemma question_tags_apart: "table_ok (apart (tenant_view b) b v) question_tags_table"
  by (rule question_tags_tbl.table_ok_apart) (simp add: tenant_view_def)

lemma question_sets_apart: "table_ok (apart (tenant_view b) b v) question_sets_table"
  by (rule question_sets_tbl.table_ok_apart) (simp add: tenant_view_def)

lemma question_set_items_apart: "table_ok (apart (tenant_view b) b v) question_set_items_table"
  by (rule question_set_items_tbl.table_ok_apart) (simp add: tenant_view_def)

lemma assessments_apart: "table_ok (apart (tenant_view b) b v) assessments_table"
  by (rule assessments_tbl.table_ok_apart) (simp add: tenant_view_def)

lemma assessment_sections_apart: "table_ok (apart (tenant_view b) b v) assessment_sections_table"
  by (rule assessment_sections_tbl.table_ok_apart) (simp add: tenant_view_def)

lemma assessment_questions_apart: "table_ok (apart (tenant_view b) b v) assessment_questions_table"
  by (rule assessment_questions_tbl.table_ok_apart) (simp add: tenant_view_def)

lemma assessment_attempts_apart: "table_ok (apart (tenant_view b) b v) assessment_attempts_table"
  by (rule assessment_attempts_tbl.table_ok_apart) (simp add: tenant_view_def)

lemma assessment_answers_apart: "table_ok (apart (tenant_view b) b v) assessment_answers_table"
  by (rule assessment_answers_tbl.table_ok_apart) (simp add: tenant_view_def)

lemma assessment_evaluations_apart: "table_ok (apart (tenant_view b) b v) assessment_evaluations_table"
  by (rule assessment_evaluations_tbl.table_ok_apart) (simp add: tenant_view_def)

lemma assessment_results_apart: "table_ok (apart (tenant_view b) b v) assessment_results_table"
  by (rule assessment_results_tbl.table_ok_apart) (simp add: tenant_view_def)

lemma evaluation_comments_apart: "table_ok (apart (tenant_view b) b v) evaluation_comments_table"
  by (rule evaluation_comments_tbl.table_ok_apart) (simp add: tenant_view_def)

lemma student_attendance_sessions_apart: "table_ok (apart (tenant_view b) b v) student_attendance_sessions_table"
  by (rule student_attendance_sessions_tbl.table_ok_apart) (simp add: tenant_view_def)

lemma student_attendance_records_apart: "table_ok (apart (tenant_view b) b v) student_attendance_records_table"
  by (rule student_attendance_records_tbl.table_ok_apart) (simp add: tenant_view_def)

lemma employee_attendance_records_apart: "table_ok (apart (tenant_view b) b v) employee_attendance_records_table"
  by (rule employee_attendance_records_tbl.table_ok_apart) (simp add: tenant_view_def)

lemma attendance_correction_requests_apart: "table_ok (apart (tenant_view b) b v) attendance_correction_requests_table"
  by (rule attendance_correction_requests_tbl.table_ok_apart) (simp add: tenant_view_def)

lemma live_classes_apart: "table_ok (apart (tenant_view b) b v) live_classes_table"
  by (rule live_classes_tbl.table_ok_apart) (simp add: tenant_view_def)

lemma live_class_participants_apart: "table_ok (apart (tenant_view b) b v) live_class_participants_table"
  by (rule live_class_participants_tbl.table_ok_apart) (simp add: tenant_view_def)

lemma live_class_attendance_snapshots_apart: "table_ok (apart (tenant_view b) b v) live_class_attendance_snapshots_table"
  by (rule live_class_attendance_snapshots_tbl.table_ok_apart) (simp add: tenant_view_def)

lemma live_class_recordings_apart: "table_ok (apart (tenant_view b) b v) live_class_recordings_table"
  by (rule live_class_recordings_tbl.table_ok_apart) (simp add: tenant_view_def)

lemma live_class_events_apart: "table_ok (apart (tenant_view b) b v) live_class_events_table"
  by (rule live_class_events_tbl.table_ok_apart) (simp add: tenant_view_def)

lemma departments_apart: "table_ok (apart (tenant_view b) b v) departments_table"
  by (rule departments_tbl.table_ok_apart) (simp add: tenant_view_def)

lemma employee_profiles_apart: "table_ok (apart (tenant_view b) b v) employee_profiles_table"
  by (rule employee_profiles_tbl.table_ok_apart) (simp add: tenant_view_def)

lemma employee_documents_apart: "table_ok (apart (tenant_view b) b v) employee_documents_table"
  by (rule employee_documents_tbl.table_ok_apart) (simp add: tenant_view_def)

lemma employee_status_histories_apart: "table_ok (apart (tenant_view b) b v) employee_status_histories_table"
  by (rule employee_status_histories_tbl.table_ok_apart) (simp add: tenant_view_def)

lemma employee_notes_apart: "table_ok (apart (tenant_view b) b v) employee_notes_table"
  by (rule employee_notes_tbl.table_ok_apart) (simp add: tenant_view_def)

lemma course_modules_apart: "table_ok (apart (tenant_view b) b v) course_modules_table"
  by (rule course_modules_tbl.table_ok_apart) (simp add: tenant_view_def)

lemma lessons_apart: "table_ok (apart (tenant_view b) b v) lessons_table"
  by (rule lessons_tbl.table_ok_apart) (simp add: tenant_view_def)

lemma lesson_resources_apart: "table_ok (apart (tenant_view b) b v) lesson_resources_table"
  by (rule lesson_resources_tbl.table_ok_apart) (simp add: tenant_view_def)

lemma course_publish_histories_apart: "table_ok (apart (tenant_view b) b v) course_publish_histories_table"
  by (rule course_publish_histories_tbl.table_ok_apart) (simp add: tenant_view_def)

lemma course_prerequisites_apart: "table_ok (apart (tenant_view b) b v) course_prerequisites_table"
  by (rule course_prerequisites_tbl.table_ok_apart) (simp add: tenant_view_def)

lemma question_topics_apart: "table_ok (apart (tenant_view b) b v) question_topics_table"
  by (rule question_topics_tbl.table_ok_apart) (simp add: tenant_view_def)

lemma ai_jobs_apart: "table_ok (apart (tenant_view b) b v) ai_jobs_table"
  by (rule ai_jobs_tbl.table_ok_apart) (simp add: tenant_view_def)

lemmas tables_apart =
  students_apart guardians_apart student_guardians_apart batches_apart batch_students_apart
  student_enrollments_apart student_notes_apart student_documents_apart
  student_status_histories_apart employees_apart teacher_assignments_apart courses_apart
  course_batches_apart course_teachers_apart questions_apart question_options_apart
  question_tags_apart question_sets_apart question_set_items_apart assessments_apart
  assessment_sections_apart assessment_questions_apart assessment_attempts_apart
  assessment_answers_apart assessment_evaluations_apart assessment_results_apart
  evaluation_comments_apart student_attendance_sessions_apart student_attendance_records_apart
  employee_attendance_records_apart attendance_correction_requests_apart live_classes_apart
  live_class_participants_apart live_class_attendance_snapshots_apart
  live_class_recordings_apart live_class_events_apart departments_apart employee_profiles_apart
  employee_documents_apart employee_status_histories_apart employee_notes_apart
  course_modules_apart lessons_apart lesson_resources_apart course_publish_histories_apart
  course_prerequisites_apart question_topics_apart ai_jobs_apart

end
