(* ===== verification/Suite.thy ===== *)
theory Suite
  imports Students_Facts People_Facts Learn_Facts Question_Facts Assess_Facts Attend_Facts Live_Facts
    Tenant_View
begin

text \<open>
  The services that share the database, behind one interface: a request of any of them, the
  application it belongs to and the permission its endpoint asks for (the routers under
  app/modules).
\<close>

section \<open>Requests\<close>

datatype suite_request =
    Students_Request students_request
  | People_Request people_request
  | Learn_Request learn_request
  | Question_Request question_request
  | Assess_Request assess_request
  | Attend_Request attend_request
  | Live_Request live_request

text \<open>
  A request runs in a session scoped to \<open>t\<close>, with the context and the principal its endpoint
  received.
\<close>

fun suite_handle :: "user list \<Rightarrow> uuid \<Rightarrow> tenant_context \<Rightarrow> principal \<Rightarrow> suite_request \<Rightarrow>
    (db, unit) op" where
  "suite_handle us t ctx pr (Students_Request q) = students_handle
     \<lparr>cl_tenant = t, cl_context = ctx, cl_principal = pr, cl_request = q\<rparr>"
| "suite_handle us t ctx pr (People_Request q) = people_handle us
     \<lparr>cl_tenant = t, cl_context = ctx, cl_principal = pr, cl_request = q\<rparr>"
| "suite_handle us t ctx pr (Learn_Request q) = learn_handle
     \<lparr>cl_tenant = t, cl_context = ctx, cl_principal = pr, cl_request = q\<rparr>"
| "suite_handle us t ctx pr (Question_Request q) = question_handle
     \<lparr>cl_tenant = t, cl_context = ctx, cl_principal = pr, cl_request = q\<rparr>"
| "suite_handle us t ctx pr (Assess_Request q) = assess_handle
     \<lparr>cl_tenant = t, cl_context = ctx, cl_principal = pr, cl_request = q\<rparr>"
| "suite_handle us t ctx pr (Attend_Request q) = attend_handle
     \<lparr>cl_tenant = t, cl_context = ctx, cl_principal = pr, cl_request = q\<rparr>"
| "suite_handle us t ctx pr (Live_Request q) = live_handle
     \<lparr>cl_tenant = t, cl_context = ctx, cl_principal = pr, cl_request = q\<rparr>"

section \<open>Endpoints\<close>

fun students_permission :: "students_request \<Rightarrow> string" where
  "students_permission (List_Students _ _ _ _ _ _) = ''prepstudents.student.read''"
| "students_permission (Create_Student _) = ''prepstudents.student.create''"
| "students_permission (Bulk_Import_Students _) = ''prepstudents.student.import''"
| "students_permission (Get_Student _) = ''prepstudents.student.read''"
| "students_permission (Update_Student _ _) = ''prepstudents.student.update''"
| "students_permission (Delete_Student _) = ''prepstudents.student.delete''"
| "students_permission (Get_Profile _) = ''prepstudents.student.read''"
| "students_permission (Timeline _) = ''prepstudents.student.read''"
| "students_permission (Add_Guardian _ _) = ''prepstudents.student.update''"
| "students_permission (Add_Note _ _) = ''prepstudents.student.update''"
| "students_permission (Add_Document _ _) = ''prepstudents.student.update''"
| "students_permission (Enroll_Student _ _) = ''prepstudents.student.update''"
| "students_permission (Create_Batch _) = ''prepstudents.batch.manage''"
| "students_permission (List_Batches _ _) = ''prepstudents.batch.manage''"
| "students_permission (Get_Batch _) = ''prepstudents.batch.manage''"
| "students_permission (Update_Batch _ _) = ''prepstudents.batch.manage''"
| "students_permission (Assign_Student _ _) = ''prepstudents.batch.manage''"
| "students_permission (Remove_Student _ _) = ''prepstudents.batch.manage''"

fun people_permission :: "people_request \<Rightarrow> string" where
  "people_permission (Create_Employee _) = ''preppeople.employee.create''"
| "people_permission (Update_Employee _ _) = ''preppeople.employee.update''"
| "people_permission (Create_Department _) = ''preppeople.department.manage''"
| "people_permission (Create_Teacher_Assignment _) = ''preppeople.teacher_assignment.manage''"
| "people_permission (Add_Employee_Note _ _) = ''preppeople.employee.update''"
| "people_permission (Add_Employee_Document _ _) = ''preppeople.employee.update''"
| "people_permission (List_Employees _ _ _ _ _ _ _) = ''preppeople.employee.read''"
| "people_permission (Get_Employee _) = ''preppeople.employee.read''"
| "people_permission (Get_Employee_Profile _) = ''preppeople.employee.read''"
| "people_permission (Employee_Timeline _) = ''preppeople.employee.read''"
| "people_permission (List_Departments _ _) = ''preppeople.employee.read''"
| "people_permission (Teacher_Workload _) = ''preppeople.employee.read''"

fun learn_permission :: "learn_request \<Rightarrow> string" where
  "learn_permission (List_Courses _ _ _ _ _) = ''preplearn.course.read''"
| "learn_permission (Get_Course_Detail _) = ''preplearn.course.read''"
| "learn_permission (Get_Course_Outline _) = ''preplearn.course.read''"
| "learn_permission (Create_Course _) = ''preplearn.course.create''"
| "learn_permission (Delete_Course _) = ''preplearn.course.delete''"
| "learn_permission (Publish_Course _ _) = ''preplearn.course.publish''"
| "learn_permission (Assign_Course_Batch _ _) = ''preplearn.course.assign''"
| "learn_permission (Assign_Course_Teacher _ _) = ''preplearn.course.assign''"
| "learn_permission (Update_Course _ _) = ''preplearn.course.update''"
| "learn_permission (Archive_Course _) = ''preplearn.course.update''"
| "learn_permission (Create_Module _ _) = ''preplearn.course.update''"
| "learn_permission (Update_Module _ _) = ''preplearn.course.update''"
| "learn_permission (Create_Lesson _ _) = ''preplearn.course.update''"
| "learn_permission (Update_Lesson _ _) = ''preplearn.course.update''"
| "learn_permission (Reorder_Course _ _) = ''preplearn.course.update''"

fun question_permission :: "question_request \<Rightarrow> string" where
  "question_permission (List_Topics _ _) = ''prepquestion.question.read''"
| "question_permission (List_Questions _ _ _ _ _ _ _ _ _) = ''prepquestion.question.read''"
| "question_permission (Get_Question _) = ''prepquestion.question.read''"
| "question_permission (Create_Topic _) = ''prepquestion.question.manage''"
| "question_permission (Create_Question _) = ''prepquestion.question.manage''"
| "question_permission (Update_Question _ _) = ''prepquestion.question.manage''"
| "question_permission (Create_Question_Set _) = ''prepquestion.question_set.manage''"
| "question_permission (List_Question_Sets _ _ _ _ _) = ''prepquestion.question_set.manage''"
| "question_permission (Get_Question_Set _) = ''prepquestion.question_set.manage''"
| "question_permission (Add_Set_Item _ _) = ''prepquestion.question_set.manage''"
| "question_permission (Reorder_Question_Set _ _) = ''prepquestion.question_set.manage''"
| "question_permission (Remove_Set_Item _ _) = ''prepquestion.question_set.manage''"
| "question_permission (Create_AI_Job _) = ''prepquestion.ai_generation.manage''"
| "question_permission (Get_AI_Job _) = ''prepquestion.ai_generation.manage''"
| "question_permission (Approve_AI_Job _ _) = ''prepquestion.ai_generation.manage''"

fun assess_permission :: "assess_request \<Rightarrow> string" where
  "assess_permission (Create_Assessment _) = ''prepassess.assessment.create''"
| "assess_permission (List_Assessments _ _ _ _ _ _ _ _) = ''prepassess.assessment.read''"
| "assess_permission (Get_Assessment _) = ''prepassess.assessment.read''"
| "assess_permission (Analytics _) = ''prepassess.assessment.read''"
| "assess_permission (Update_Assessment _ _) = ''prepassess.assessment.update''"
| "assess_permission (Schedule_Assessment _ _) = ''prepassess.assessment.schedule''"
| "assess_permission (Publish_Assessment _ _) = ''prepassess.assessment.publish''"
| "assess_permission (Start_Attempt _ _) = ''prepassess.attempt.manage''"
| "assess_permission (Submit_Answer _ _) = ''prepassess.attempt.manage''"
| "assess_permission (Submit_Attempt _ _) = ''prepassess.attempt.manage''"
| "assess_permission (Evaluation_Queue _) = ''prepassess.evaluation.manage''"
| "assess_permission (Evaluate_Answer _ _) = ''prepassess.evaluation.manage''"
| "assess_permission (Publish_Results _) = ''prepassess.result.publish''"

fun attend_permission :: "attend_request \<Rightarrow> string" where
  "attend_permission (Create_Student_Session _) = ''prepattend.student.manage''"
| "attend_permission (Mark_Student_Records _ _) = ''prepattend.student.manage''"
| "attend_permission (Update_Student_Record _ _) = ''prepattend.student.manage''"
| "attend_permission (Student_Summary _ _ _ _) = ''prepattend.attendance.read''"
| "attend_permission (Employee_Summary _ _ _) = ''prepattend.attendance.read''"
| "attend_permission (Employee_Check_In _) = ''prepattend.employee.manage''"
| "attend_permission (Employee_Check_Out _) = ''prepattend.employee.manage''"
| "attend_permission (Create_Correction _) = ''prepattend.correction.manage''"
| "attend_permission (Approve_Correction _ _) = ''prepattend.correction.manage''"

fun live_permission :: "live_request \<Rightarrow> string" where
  "live_permission (Schedule_Class _) = ''preplive.class.schedule''"
| "live_permission (List_Classes _ _ _ _ _ _ _ _) = ''preplive.class.read''"
| "live_permission (Get_Class _) = ''preplive.class.read''"
| "live_permission (Get_By_Code _) = ''preplive.class.read''"
| "live_permission (Update_Class _ _) = ''preplive.class.manage''"
| "live_permission (Cancel_Class _ _) = ''preplive.class.manage''"
| "live_permission (Open_Class _) = ''preplive.class.manage''"
| "live_permission (End_Class _) = ''preplive.class.manage''"
| "live_permission (Validate_Access _ _) = ''preplive.access.validate''"
| "live_permission (Capture_Events _ _) = ''preplive.attendance.sync''"
| "live_permission (Add_Recording _ _) = ''preplive.recording.manage''"

fun route_permission :: "suite_request \<Rightarrow> string" where
  "route_permission (Students_Request q) = students_permission q"
| "route_permission (People_Request q) = people_permission q"
| "route_permission (Learn_Request q) = learn_permission q"
| "route_permission (Question_Request q) = question_permission q"
| "route_permission (Assess_Request q) = assess_permission q"
| "route_permission (Attend_Request q) = attend_permission q"
| "route_permission (Live_Request q) = live_permission q"

fun route_app :: "suite_request \<Rightarrow> string" where
  "route_app (Students_Request _) = ''prepstudents''"
| "route_app (People_Request _) = ''preppeople''"
| "route_app (Learn_Request _) = ''preplearn''"
| "route_app (Question_Request _) = ''prepquestion''"
| "route_app (Assess_Request _) = ''prepassess''"
| "route_app (Attend_Request _) = ''prepattend''"
| "route_app (Live_Request _) = ''preplive''"

section \<open>What every request guarantees\<close>

lemma atomic_suite_handle: "atomic (suite_handle us t ctx pr q)"
  by (cases q) (simp_all add: atomic_students_handle atomic_people_handle atomic_learn_handle
      atomic_question_handle atomic_assess_handle atomic_attend_handle atomic_live_handle)

lemma keeps_suite_apart:
  assumes "t \<noteq> b"
  shows "keeps (apart (tenant_view b) b v) (suite_handle us t ctx pr q)"
proof -
  have current: "keeps (apart (tenant_view b) b v) (set_current_tenant t)"
    using assms by (simp add: keeps_def apart_def set_current_tenant_run)
  note ok = tx_ok_apart tables_apart current
  show ?thesis
    by (cases q) (auto intro!: keeps_students_handle keeps_people_handle keeps_learn_handle
        keeps_question_handle keeps_assess_handle keeps_attend_handle keeps_live_handle
      simp: ok student_tables_ok_def batch_tables_ok_def people_tables_ok_def learn_tables_ok_def
        question_tables_ok_def assess_tables_ok_def record_tables_ok_def live_tables_ok_def)
qed

end
