(* ===== verification/Routes.thy ===== *)
theory Routes
  imports Suite Access_Facts Settings_Facts
begin

text \<open>
  A request from its headers to the database.  FastAPI resolves the dependencies of the router, then
  those of the endpoint, then its parameters, each once and all on one session: which tenant the
  session ends up scoped to depends on that order.  The credentials the scheme HTTPBearer of FastAPI
  takes from a header are a parameter.
\<close>

section \<open>Dependencies\<close>

text \<open>
  Routers with \<open>require_app_enabled(app)\<close>: the session is scoped to the tenant of the headers, the
  gate is asked, then the token of the caller scopes the session to the tenant of the account.
\<close>

definition enter_app :: "auth \<Rightarrow> (string option \<Rightarrow> string option) \<Rightarrow> string \<Rightarrow> string \<Rightarrow>
    request_headers \<Rightarrow> (identity_db, tenant_context \<times> principal) op" where
  "enter_app A bearer app code hs =
     with_tenant_session A hs (\<lambda>ctx.
     bind_tx (require_app_enabled ctx app) (\<lambda>_.
     bind_tx (require_permission A code (bearer (hd_authorization hs))) (\<lambda>pr.
     return_tx (ctx, pr))))"

text \<open>
  The router of the settings asks for the permission first, so that the tenant of the headers is the
  last to scope the session.
\<close>

definition enter_settings :: "auth \<Rightarrow> (string option \<Rightarrow> string option) \<Rightarrow> request_headers \<Rightarrow>
    (identity_db, tenant_context \<times> principal) op" where
  "enter_settings A bearer hs =
     bind_tx (require_permission A ''prepsettings.settings.manage'' (bearer (hd_authorization hs))) (\<lambda>pr.
     with_tenant_session A hs (\<lambda>ctx. return_tx (ctx, pr)))"

section \<open>Requests\<close>

text \<open>
  The identity tables and the others are one database: the second part of the request goes on with
  the settings, the clock and the process the first part left.
\<close>

definition serve_suite :: "auth \<Rightarrow> (string option \<Rightarrow> string option) \<Rightarrow> request_headers \<Rightarrow>
    suite_request \<Rightarrow> identity_db \<Rightarrow> db \<Rightarrow> process \<Rightarrow> (exc + unit) \<times> db \<times> process" where
  "serve_suite A bearer hs q di d p =
     (case enter_app A bearer (route_app q) (route_permission q) hs (open_session di p) of
        (Inl e, s) \<Rightarrow> (Inl e, d, proc s)
      | (Inr (ctx, pr), s) \<Rightarrow>
          (case suite_handle (users di) (the (rls_tenant s)) ctx pr q
             ((open_session d (proc s))\<lparr>rls_tenant := rls_tenant s, rls_user := rls_user s\<rparr>) of
             (r, t) \<Rightarrow> (r, committed t, proc t)))"

definition serve_settings :: "auth \<Rightarrow> (string option \<Rightarrow> string option) \<Rightarrow> request_headers \<Rightarrow>
    settings_request \<Rightarrow> identity_db \<Rightarrow> process \<Rightarrow> (exc + unit) \<times> identity_db \<times> process" where
  "serve_settings A bearer hs q = serve (bind_tx (enter_settings A bearer hs) (\<lambda>(ctx, pr).
     settings_exec ctx pr q))"

section \<open>What the dependencies establish\<close>

text \<open>Resolving the tenant reads the database and sets at most the current user.\<close>

definition only_user :: "'d session \<Rightarrow> 'd session \<Rightarrow> bool" where
  "only_user s0 s \<longleftrightarrow> (\<exists>u. s = s0\<lparr>rls_user := u\<rparr>)"

lemma only_user_refl: "only_user s s"
  unfolding only_user_def by (rule exI [of _ "rls_user s"]) simp

lemma keeps_set_user: "keeps (only_user s0) (set_current_user i)"
  by (auto simp: keeps_def only_user_def set_current_user_run)

lemma keeps_claims [keeps_intros]:
  "keeps J (parse_uuid_header v)" "keeps J (claimed_uuid h c)" "keeps J (get_bearer_token hdr)"
  "keeps J (decode_access_token A token)" "keeps J (claim_uuid v')"
  by (auto simp: parse_uuid_header_def claimed_uuid_def get_bearer_token_def decode_access_token_def
      claim_uuid_def Let_def intro!: keeps_intros split: json.splits option.splits)

lemma keeps_resolve [keeps_intros]: "keeps J (resolve_tenant h)"
  unfolding resolve_tenant_def resolve_subdomain_def resolve_member_def tenant_get_active_def
    tenant_get_by_slug_def tenant_get_by_domain_def get_active_membership_def
  by (intro keeps_intros)

lemma keeps_tenant_context: "keeps (only_user s0) (get_tenant_context A hs)"
  unfolding get_tenant_context_def Let_def by (intro keeps_intros keeps_set_user)

lemma tenant_context_run:
  assumes "get_tenant_context A hs s = (r, s')"
  obtains i where "s' = s\<lparr>rls_user := i\<rparr>"
  using keepsD [OF keeps_tenant_context only_user_refl assms] unfolding only_user_def by blast


text \<open>
  The tenant the headers name: by the identifier in X-Tenant-ID or in the claims of the token; failing
  that by the slug in X-Tenant-Slug; failing that by the domain, by the subdomain of the host, or as a
  tenant the named user is an active member of.
\<close>

definition header_claims :: "auth \<Rightarrow> int \<Rightarrow> request_headers \<Rightarrow> json" where
  "header_claims A now hs = (case hd_authorization hs of None \<Rightarrow> JObj [] | Some h \<Rightarrow> if h = [] then JObj []
     else the (jwt_decode A (timestamp now) (jwt_audience A) (jwt_issuer A)
       (drop (Suc (length (takeWhile (\<lambda>c. c \<noteq> CHR '' '') h))) h)))"

definition named_uuid :: "string option \<Rightarrow> json \<Rightarrow> uuid option" where
  "named_uuid header claim = (if given header then uuid_parse (the header)
     else case claim of JStr t \<Rightarrow> if t = [] then None else uuid_parse t | _ \<Rightarrow> None)"

definition named_domain :: "request_headers \<Rightarrow> string option" where
  "named_domain hs = (if given (hd_tenant_domain hs) then map_option lower (hd_tenant_domain hs)
     else if given (request_host hs) then map_option lower (request_host hs) else None)"

definition headers_name :: "auth \<Rightarrow> request_headers \<Rightarrow> identity_db \<Rightarrow> int \<Rightarrow> uuid \<Rightarrow> bool" where
  "headers_name A hs d now b \<longleftrightarrow>
     (let tenant = named_uuid (hd_tenant_id hs) (json_get (header_claims A now hs) ''tid'' JNull);
          user = named_uuid (hd_user_id hs) (json_get (header_claims A now hs) ''sub'' JNull);
          active = (\<lambda>P. \<exists>r\<in>set (tenants d). tn_id r = b \<and> tn_deleted_at r = None \<and> P r)
      in case tenant of
           Some i \<Rightarrow> i = b \<and> active (\<lambda>_. True)
         | None \<Rightarrow> if given (hd_tenant_slug hs)
             then active (\<lambda>r. Some (tn_slug r) = map_option lower (hd_tenant_slug hs))
             else active (\<lambda>r. \<exists>x\<in>set (tenant_domains d). td_tenant x = b \<and> Some (td_domain x) = named_domain hs) \<or>
               active (\<lambda>r. Some (tn_slug r) = extract_subdomain (request_host hs)) \<or>
               (\<exists>m\<in>set (tenant_users d). tu_tenant m = b \<and> tu_status m = TU_ACTIVE \<and> Some (tu_user m) = user))"

lemma parse_header_Inr: "parse_uuid_header v s = (Inr x, s') \<longleftrightarrow>
    s' = s \<and> (if given v then uuid_parse (the v) = x \<and> x \<noteq> None else x = None)"
  by (auto simp: parse_uuid_header_def tx_exec split: option.splits)

lemma parse_header_same: "parse_uuid_header v s = (Inr x, s') \<Longrightarrow> s' = s"
  by (simp add: parse_header_Inr)

lemma claimed_uuid_Inr:
  assumes "parse_uuid_header v s = (Inr h, t)" "claimed_uuid h claim t' = (Inr x, t'')"
  shows "x = named_uuid v claim \<and> t'' = t'"
  using assms by (auto simp: claimed_uuid_def named_uuid_def parse_header_Inr tx_exec given_def
      split: option.splits json.splits if_splits)

lemma context_of:
  "ctx_tenant (context_from_tenant found source slug domain) = Some b \<longleftrightarrow> (\<exists>r. found = Some r \<and> tn_id r = b)"
  by (auto simp: context_from_tenant_def unresolved_def split: option.splits)

text \<open>Steps of the resolution: what each of them finds.\<close>

lemma resolve_member_named:
  assumes "resolve_member h s = (Inr ctx, s')" "ctx_tenant ctx = Some b"
  shows "\<exists>m\<in>set (tenant_users (working s)). tu_tenant m = b \<and> tu_status m = TU_ACTIVE \<and> Some (tu_user m) = rh_user h"
proof -
  from assms obtain u m where u: "rh_user h = Some u" "tu_tenant m = b"
    and m: "first_opt (sort_key tu_created_at (filter (\<lambda>r. visible tenant_users_table s r \<and> tu_user r = u \<and>
      tu_status r = TU_ACTIVE) (rows tenant_users_table s))) = Some m"
    by (auto simp: resolve_member_def get_active_membership_def unresolved_def tx_exec split: option.splits)
  from first_opt_SomeD [OF m] u show ?thesis by (auto simp: identity_rows)
qed

lemma named_row:
  assumes "lookup tenants_table (\<lambda>r. P r \<and> tn_deleted_at r = None) s = Some r" "tn_id r = b"
  shows "\<exists>r\<in>set (tenants (working s)). tn_id r = b \<and> tn_deleted_at r = None \<and> P r"
  using lookup_SomeD [OF assms(1)] assms(2) by (auto simp: identity_rows)

lemma resolve_subdomain_named:
  assumes "resolve_subdomain h s = (Inr ctx, s')" "ctx_tenant ctx = Some b"
  shows "(\<exists>r\<in>set (tenants (working s)). tn_id r = b \<and> tn_deleted_at r = None \<and> Some (tn_slug r) = rh_subdomain h) \<or>
      (\<exists>m\<in>set (tenant_users (working s)). tu_tenant m = b \<and> tu_status m = TU_ACTIVE \<and> Some (tu_user m) = rh_user h)"
proof (cases "given (rh_subdomain h)")
  case False
  with assms show ?thesis using resolve_member_named by (auto simp: resolve_subdomain_def)
next
  case True
  let ?found = "lookup tenants_table (\<lambda>r. tn_slug r = the (rh_subdomain h) \<and> tn_deleted_at r = None) s"
  show ?thesis
  proof (cases ?found)
    case None
    with True assms have "resolve_member h s = (Inr ctx, s')"
      by (simp add: resolve_subdomain_def tenant_get_by_slug_def tx_exec)
    from resolve_member_named [OF this assms(2)] show ?thesis ..
  next
    case (Some r)
    with True assms have "tn_id r = b"
      by (auto simp: resolve_subdomain_def tenant_get_by_slug_def tx_exec context_from_tenant_def)
    from named_row [OF Some this] True show ?thesis by (auto simp: given_def)
  qed
qed

lemma resolve_tenant_named:
  assumes "resolve_tenant h s = (Inr ctx, s')" "ctx_tenant ctx = Some b"
  shows "case rh_tenant h of
      Some i \<Rightarrow> i = b \<and> (\<exists>r\<in>set (tenants (working s)). tn_id r = b \<and> tn_deleted_at r = None)
    | None \<Rightarrow> if given (rh_slug h)
        then \<exists>r\<in>set (tenants (working s)). tn_id r = b \<and> tn_deleted_at r = None \<and> Some (tn_slug r) = rh_slug h
        else (\<exists>r\<in>set (tenants (working s)). tn_id r = b \<and> tn_deleted_at r = None \<and>
               (\<exists>x\<in>set (tenant_domains (working s)). td_tenant x = b \<and> Some (td_domain x) = rh_domain h)) \<or>
          (\<exists>r\<in>set (tenants (working s)). tn_id r = b \<and> tn_deleted_at r = None \<and> Some (tn_slug r) = rh_subdomain h) \<or>
          (\<exists>m\<in>set (tenant_users (working s)). tu_tenant m = b \<and> tu_status m = TU_ACTIVE \<and> Some (tu_user m) = rh_user h)"
proof (cases "rh_tenant h")
  case (Some i)
  with assms obtain r where "lookup tenants_table (\<lambda>r. tn_id r = i \<and> tn_deleted_at r = None) s = Some r" "tn_id r = b"
    by (auto simp: resolve_tenant_def tenant_get_active_def tx_exec context_of)
  from named_row [OF this] Some show ?thesis by auto
next
  case None
  show ?thesis
  proof (cases "given (rh_slug h)")
    case True
    with None assms obtain r where
      "lookup tenants_table (\<lambda>r. tn_slug r = the (rh_slug h) \<and> tn_deleted_at r = None) s = Some r" "tn_id r = b"
      by (auto simp: resolve_tenant_def tenant_get_by_slug_def tx_exec context_of)
    from named_row [OF this] None True show ?thesis by (auto simp: given_def)
  next
    case slug: False
    let ?ds = "filter (\<lambda>r. visible tenant_domains_table s r \<and> td_domain r = the (rh_domain h)) (rows tenant_domains_table s)"
    let ?found = "lookup tenants_table (\<lambda>r. tn_deleted_at r = None \<and> list_ex (\<lambda>d. td_tenant d = tn_id r) ?ds) s"
    show ?thesis
    proof (cases "given (rh_domain h) \<and> ?found \<noteq> None")
      case True
      then obtain r where r: "?found = Some r" by auto
      with True None slug assms have "tn_id r = b"
        by (auto simp: resolve_tenant_def tenant_get_by_domain_def tx_exec context_from_tenant_def)
      with lookup_SomeD [OF r] True have "\<exists>r\<in>set (tenants (working s)). tn_id r = b \<and> tn_deleted_at r = None \<and>
          (\<exists>x\<in>set (tenant_domains (working s)). td_tenant x = b \<and> Some (td_domain x) = rh_domain h)"
        by (intro bexI [of _ r]) (auto simp: identity_rows list_ex_iff given_def)
      with None slug show ?thesis by simp
    next
      case False
      with None slug assms have "resolve_subdomain h s = (Inr ctx, s')"
        by (auto simp: resolve_tenant_def tenant_get_by_domain_def tx_exec split: if_splits)
      from resolve_subdomain_named [OF this assms(2)] None slug show ?thesis by simp
    qed
  qed
qed

lemma tenant_context_named:
  assumes "get_tenant_context A hs s = (Inr ctx, s')" "ctx_tenant ctx = Some b"
  shows "headers_name A hs (working s) (clock (proc s)) b"
proof -
  let ?claims = "header_claims A (clock (proc s)) hs"
  have bearer: "t = s \<and> payload = ?claims"
    if "get_bearer_token (hd_authorization hs) s = (Inr token, u)"
      "(case token of None \<Rightarrow> return_tx (JObj []) | Some t \<Rightarrow> decode_access_token A t) u = (Inr payload, t)" for token u payload t
    using that by (auto simp: get_bearer_token_def header_claims_def Let_def tx_exec decode_access_token_Inr_iff
        split: option.splits if_splits)
  have user: "working t = working u"
    if "(case i of None \<Rightarrow> return_tx () | Some v \<Rightarrow> set_current_user v) u = (Inr x, t)" for i u x t
    using that by (auto simp: tx_exec set_current_user_run split: option.splits)
  let ?tenant = "named_uuid (hd_tenant_id hs) (json_get ?claims ''tid'' JNull)"
  let ?user = "named_uuid (hd_user_id hs) (json_get ?claims ''sub'' JNull)"
  let ?domain = "if given (hd_tenant_domain hs) then lower_header (hd_tenant_domain hs)
    else if given (request_host hs) then map_option lower (request_host hs) else None"
  from assms(1) obtain token s1 payload s2 ht s3 hu s4 tenant s5 i s6 x t where
    tok: "get_bearer_token (hd_authorization hs) s = (Inr token, s1)"
      "(case token of None \<Rightarrow> return_tx (JObj []) | Some t \<Rightarrow> decode_access_token A t) s1 = (Inr payload, s2)"
    and ht: "parse_uuid_header (hd_tenant_id hs) s2 = (Inr ht, s3)"
    and hu: "parse_uuid_header (hd_user_id hs) s3 = (Inr hu, s4)"
    and ct: "claimed_uuid ht (json_get payload ''tid'' JNull) s4 = (Inr tenant, s5)"
    and cu: "claimed_uuid hu (json_get payload ''sub'' JNull) s5 = (Inr i, s6)"
    and set: "(case i of None \<Rightarrow> return_tx () | Some v \<Rightarrow> set_current_user v) s6 = (Inr x, t)"
    and resolve: "resolve_tenant \<lparr>rh_tenant = tenant, rh_slug = lower_header (hd_tenant_slug hs), rh_domain = ?domain,
        rh_subdomain = extract_subdomain (request_host hs), rh_user = i\<rparr> t = (Inr ctx, s')"
    unfolding get_tenant_context_def Let_def bind_tx_Inr_iff by blast
  have named: "tenant = ?tenant" "i = ?user" and same: "s6 = s"
    using bearer [OF tok] claimed_uuid_Inr [OF ht ct] claimed_uuid_Inr [OF hu cu] parse_header_same [OF ht]
      parse_header_same [OF hu] by simp_all
  note set = set [unfolded named same] and resolve = resolve [unfolded named]
  have slug: "given (lower_header v) = given v" "given v \<Longrightarrow> lower_header v = map_option lower v" for v
    by (auto simp: lower_header_def given_def lower_def)
  have domain: "?domain = named_domain hs" by (simp add: named_domain_def slug(2))
  from resolve_tenant_named [OF resolve assms(2)] show ?thesis
    unfolding headers_name_def Let_def user [OF set] resolution_hints.select_convs slug(1) domain
    by (cases ?tenant; cases "given (hd_tenant_slug hs)") (simp_all add: slug(2))
qed

definition scoped_by :: "uuid option \<Rightarrow> uuid option \<Rightarrow> uuid option" where
  "scoped_by t current = (case t of None \<Rightarrow> current | Some _ \<Rightarrow> t)"

lemma get_current_user_run:
  "get_current_user A credentials s = (Inr u, s') \<longleftrightarrow>
    (\<exists>token. credentials = Some token \<and> authenticates A (working s) (clock (proc s)) token u) \<and>
    s' = s\<lparr>rls_user := Some (us_id u), rls_tenant := scoped_by (us_tenant u) (rls_tenant s)\<rparr>"
proof (cases credentials)
  case None
  then show ?thesis by (simp add: get_current_user_def)
next
  case (Some token)
  have scope: "set_tenant_if t (s\<lparr>rls_user := v\<rparr>) =
      (Inr (), s\<lparr>rls_user := v, rls_tenant := scoped_by t (rls_tenant s)\<rparr>)" for t v
    by (cases t) (simp_all add: set_tenant_if_run scoped_by_def)
  have own: "user_get i (s\<lparr>rls_user := Some i, rls_tenant := t\<rparr>) =
      (Inr (account (working s) i), s\<lparr>rls_user := Some i, rls_tenant := t\<rparr>)" for i t
    by (subst user_get_self) simp_all
  have run: "get_current_user A credentials s = (Inr u, s') \<longleftrightarrow> (\<exists>payload i t.
      jwt_decode A (timestamp (clock (proc s))) (jwt_audience A) (jwt_issuer A) token = Some payload \<and>
      json_get payload ''typ'' JNull = JStr ''access'' \<and>
      claimed (json_get payload ''sub'' JNull) = Some (Some i) \<and>
      claimed (json_get payload ''tid'' JNull) = Some t \<and>
      account (working s) i = Some u \<and> us_deleted_at u = None \<and> us_status u = U_ACTIVE \<and> us_tenant u = t \<and>
      s' = s\<lparr>rls_user := Some i, rls_tenant := scoped_by t (rls_tenant s)\<rparr>)"
    unfolding Some get_current_user_def
    by (auto simp add: bind_tx_Inr_iff decode_access_token_Inr_iff set_current_user_run scope own guard_Inr)
  show ?thesis
    unfolding run authenticates_def by (auto simp: Some dest: accountD split: option.splits)
qed

lemma keeps_permissions: "keeps J (set_tenant_if t) \<Longrightarrow> keeps J (current_permissions i t)"
  unfolding current_permissions_def list_permission_codes_def tenant_filter_def Let_def
  by (intro keeps_intros)

text \<open>
  A role assigned to an account grants a permission.  Unlike \<open>granted\<close> it does not say in which
  tenant the role is defined: an account of no tenant is given every role the session sees.
\<close>

definition given_permission :: "identity_db \<Rightarrow> user \<Rightarrow> string \<Rightarrow> bool" where
  "given_permission d u code \<longleftrightarrow>
     (\<exists>a\<in>set (user_roles d). ur_user a = us_id u \<and> ur_tenant a = us_tenant u \<and>
     (\<exists>r\<in>set (roles d). ur_role a = ro_id r \<and> ro_deleted_at r = None \<and>
     (\<exists>g\<in>set (role_permissions d). ro_id r = rp_role g \<and>
     (\<exists>p\<in>set (permissions d). rp_permission g = pm_id p \<and> pm_is_active p \<and> code = pm_code p))))"

lemma listed_permission:
  assumes "list_permission_codes (us_id u) (us_tenant u) s = (Inr codes, s')" "code \<in> set codes"
  shows "given_permission (working s) u code"
proof -
  from assms obtain x g r a where "x \<in> set (permissions (working s))" "pm_is_active x" "code = pm_code x"
    "g \<in> set (role_permissions (working s))" "rp_permission g = pm_id x" "r \<in> set (roles (working s))"
    "ro_deleted_at r = None" "ro_id r = rp_role g" "a \<in> set (user_roles (working s))"
    "ur_user a = us_id u" "ur_tenant a = us_tenant u" "ur_role a = ro_id r"
    unfolding list_permission_codes_def
    by (auto simp: bind_tx_run select_rows_run return_tx_run tenant_filter_def list_ex_iff identity_rows)
  then show ?thesis unfolding given_permission_def by blast
qed

lemma permission_run:
  assumes "require_permission A code credentials s = (Inr pr, s')"
  obtains token u where "credentials = Some token" "authenticates A (working s) (clock (proc s)) token u"
    "pr_user pr = us_id u" "pr_tenant pr = us_tenant u"
    "s' = s\<lparr>rls_user := Some (us_id u), rls_tenant := scoped_by (us_tenant u) (rls_tenant s)\<rparr>"
    "us_tenant u \<noteq> None \<Longrightarrow> granted (working s) u code" "given_permission (working s) u code"
proof -
  from assms obtain u codes t where user: "get_current_user A credentials s = (Inr u, t)"
    and perms: "bind_tx (set_tenant_if (us_tenant u)) (\<lambda>_. current_permissions (us_id u) (us_tenant u)) t =
      (Inr codes, s')"
    and pr: "pr = \<lparr>pr_user = us_id u, pr_tenant = us_tenant u, pr_permissions = codes\<rparr>" "code \<in> set codes"
    by (auto simp: require_permission_def get_current_principal_def bind_tx_Inr_iff guard_Inr)
  from user obtain token where token: "credentials = Some token"
    "authenticates A (working s) (clock (proc s)) token u"
    and t: "t = s\<lparr>rls_user := Some (us_id u), rls_tenant := scoped_by (us_tenant u) (rls_tenant s)\<rparr>"
    unfolding get_current_user_run by blast
  have "scoped_by (us_tenant u) (rls_tenant t) = rls_tenant t"
    by (simp add: t scoped_by_def split: option.splits)
  then have "set_tenant_if (us_tenant u) t = (Inr (), t)"
    by (cases "us_tenant u") (auto simp: set_tenant_if_run scoped_by_def t)
  with perms have run: "current_permissions (us_id u) (us_tenant u) t = (Inr codes, s')"
    by (simp add: bind_tx_run)
  have "keeps (\<lambda>r. r = t) (set_tenant_if (us_tenant u))"
    using \<open>set_tenant_if (us_tenant u) t = (Inr (), t)\<close> by (simp add: keeps_def)
  from keepsD [OF keeps_permissions [OF this] refl run] have same: "s' = t" .
  moreover have "granted (working s) u code" if "us_tenant u \<noteq> None"
  proof -
    have "current_permissions (us_id u) (us_tenant u) t = (Inr (permission_codes (working t) u), t)"
      by (rule current_permissions_run) (use that in \<open>auto simp: t scoped_by_def\<close>)
    then have "codes = permission_codes (working t) u" unfolding run by (simp only: prod.inject sum.inject)
    with pr(2) have "code \<in> set (permission_codes (working t) u)" by (simp only:)
    then show ?thesis by (simp add: permission_codes_granted t)
  qed
  moreover have "given_permission (working s) u code"
    using run \<open>set_tenant_if (us_tenant u) t = (Inr (), t)\<close> pr(2) listed_permission [of u t codes s' code]
    by (simp add: current_permissions_def bind_tx_run t)
  ultimately show thesis using that [OF token] pr(1) t by simp
qed

text \<open>The application an endpoint belongs to is open to a tenant at a time.\<close>

definition app_open :: "identity_db \<Rightarrow> uuid \<Rightarrow> string \<Rightarrow> int \<Rightarrow> bool" where
  "app_open d tenant code now \<longleftrightarrow> list_ex (\<lambda>a. tap_tenant a = tenant \<and> tap_app_code a = code \<and>
     app_usable a now) (tenant_apps d)"

lemma app_enabled_run:
  assumes "require_app_enabled ctx app s = (Inr (), s')" "ctx_tenant ctx = Some tenant"
  shows "s' = s" "app_open (working s) tenant app (clock (proc s))"
proof -
  from assms obtain a where a: "lookup tenant_apps_table (\<lambda>r. tap_tenant r = tenant \<and> tap_app_code r = app) s = Some a"
      "app_usable a (clock (proc s))" and same: "s' = s"
    by (auto simp: require_app_enabled_def is_app_enabled_def tenant_app_get_def tx_exec
        split: option.splits if_splits)
  from lookup_SomeD [OF a(1)] a(2) same show "s' = s" "app_open (working s) tenant app (clock (proc s))"
    by (auto simp: app_open_def list_ex_iff identity_rows)
qed

text \<open>
  Past the dependencies of an application the session is scoped to the tenant of the account, or to
  the tenant of the headers when the account belongs to none.
\<close>

lemma enter_app_run:
  assumes "enter_app A bearer app code hs s = (Inr (ctx, pr), s')"
  obtains token u tenant where "bearer (hd_authorization hs) = Some token"
    "authenticates A (working s) (clock (proc s)) token u" "pr_user pr = us_id u" "pr_tenant pr = us_tenant u"
    "us_tenant u \<noteq> None \<Longrightarrow> granted (working s) u code" "given_permission (working s) u code"
    "ctx_tenant ctx = Some tenant" "app_open (working s) tenant app (clock (proc s))"
    "s' = s\<lparr>rls_user := Some (us_id u), rls_tenant := scoped_by (us_tenant u) (Some tenant)\<rparr>"
    "headers_name A hs (working s) (clock (proc s)) tenant"
proof -
  from assms obtain tenant v where ctx: "get_tenant_context A hs s = (Inr ctx, v)" "ctx_tenant ctx = Some tenant"
    and app: "require_app_enabled ctx app (v\<lparr>rls_tenant := Some tenant\<rparr>) =
      (Inr (), v\<lparr>rls_tenant := Some tenant\<rparr>)"
    and perm: "require_permission A code (bearer (hd_authorization hs)) (v\<lparr>rls_tenant := Some tenant\<rparr>) =
      (Inr pr, s')"
    by (auto simp: enter_app_def with_tenant_session_def bind_tx_Inr_iff set_current_tenant_run
        dest: app_enabled_run(1))
  obtain i where v: "v = s\<lparr>rls_user := i\<rparr>" using tenant_context_run [OF ctx(1)] .
  from app_enabled_run(2) [OF app ctx(2)] have "app_open (working s) tenant app (clock (proc s))"
    by (simp add: v)
  with permission_run [OF perm] ctx(2) tenant_context_named [OF ctx] show thesis
    by (rule_tac permission_run [OF perm]) (rule that, assumption, auto simp: v)
qed

text \<open>
  Past those of the settings it is scoped to the tenant of the headers, whatever tenant the account
  belongs to.
\<close>

lemma enter_settings_run:
  assumes "enter_settings A bearer hs s = (Inr (ctx, pr), s')"
  obtains token u tenant i where "bearer (hd_authorization hs) = Some token"
    "authenticates A (working s) (clock (proc s)) token u" "pr_user pr = us_id u" "pr_tenant pr = us_tenant u"
    "us_tenant u \<noteq> None \<Longrightarrow> granted (working s) u ''prepsettings.settings.manage''"
    "ctx_tenant ctx = Some tenant" "s' = s\<lparr>rls_user := i, rls_tenant := Some tenant\<rparr>"
proof -
  from assms obtain v w tenant where
    perm: "require_permission A ''prepsettings.settings.manage'' (bearer (hd_authorization hs)) s = (Inr pr, v)"
    and ctx: "get_tenant_context A hs v = (Inr ctx, w)" "ctx_tenant ctx = Some tenant"
    and s': "s' = w\<lparr>rls_tenant := Some tenant\<rparr>"
    by (auto simp: enter_settings_def with_tenant_session_def bind_tx_Inr_iff set_current_tenant_run)
  obtain i where w: "w = v\<lparr>rls_user := i\<rparr>" using tenant_context_run [OF ctx(1)] .
  show thesis
    by (rule permission_run [OF perm]) (rule that [of _ _ tenant i], assumption+, simp_all add: ctx s' w)
qed

lemma keeps_enter_app: "keeps (\<lambda>s. proc s = p) (enter_app A bearer app code hs)"
proof -
  have user: "keeps (\<lambda>s. proc s = p) (set_current_user i)" for i
    by (simp add: keeps_def set_current_user_run)
  have tenant: "keeps (\<lambda>s. proc s = p) (set_current_tenant i)" for i
    by (simp add: keeps_def set_current_tenant_run)
  note [keeps_intros] = user tenant
  show ?thesis
    unfolding enter_app_def with_tenant_session_def get_tenant_context_def require_app_enabled_def
      is_app_enabled_def tenant_app_get_def require_permission_def get_current_principal_def
      get_current_user_def set_tenant_if_def user_get_def Let_def require_tenant_id_def
    by (intro keeps_intros keeps_permissions) (auto intro!: keeps_intros simp: set_tenant_if_def)
qed

end
