(* ===== verification/Access_Routes.thy ===== *)
theory Access_Routes
  imports Routes
begin

text \<open>
  The endpoints of PrepAccess, of the platform and of the tenant (app/modules/access/router.py and
  app/modules/tenancy/router.py): the dependencies each of them asks for, the validation of its
  payload and the operation it calls.  The syntax of an e-mail address is checked by a library and
  left out.
\<close>

section \<open>PrepAccess\<close>

text \<open>What the server knows of the client, and the headers it reads the metadata from.\<close>

record request_origin =
  og_client :: "string option"
  og_forwarded_for :: "string option"
  og_user_agent :: "string option"

definition get_request_metadata :: "request_origin \<Rightarrow> request_metadata" where
  "get_request_metadata g = \<lparr>md_ip_address = (if given (og_forwarded_for g)
       then map_option (takeWhile (\<lambda>c. c \<noteq> CHR '','')) (og_forwarded_for g) else og_client g),
     md_user_agent = og_user_agent g\<rparr>"

definition register_valid :: "register_request \<Rightarrow> bool" where
  "register_valid q \<longleftrightarrow> text_within 10 256 (rgr_password q) \<and> text_within 1 120 (rgr_first_name q) \<and>
     if_some (text_within 0 120) (rgr_last_name q) \<and> if_some (text_within 0 32) (rgr_phone q)"

definition login_valid :: "login_request \<Rightarrow> bool" where
  "login_valid q \<longleftrightarrow> text_within 1 256 (lgr_password q)"

definition token_valid :: "string \<Rightarrow> bool" where
  "token_valid t \<longleftrightarrow> 20 \<le> length t"

definition accept_valid :: "invitation_accept \<Rightarrow> bool" where
  "accept_valid q \<longleftrightarrow> token_valid (iva_token q) \<and> text_within 10 256 (iva_password q) \<and>
     text_within 1 120 (iva_first_name q) \<and> if_some (text_within 0 120) (iva_last_name q)"

definition role_create_valid :: "role_create \<Rightarrow> bool" where
  "role_create_valid q \<longleftrightarrow> code_pattern 120 ''_-'' (rcr_code q) \<and> text_within 1 160 (rcr_name q)"

datatype access_route =
    Register_Route register_request
  | Login_Route login_request
  | Refresh_Route string
  | Logout_Route "string option" bool
  | Request_Reset_Route string "uuid option"
  | Confirm_Reset_Route string string
  | Invite_Route uuid string "uuid option"
  | Accept_Route invitation_accept
  | Create_Role_Route role_create
  | Assign_Role_Route uuid "uuid option" uuid
  | Remove_Role_Route uuid uuid
  | Matrix_Route
  | Current_User_Route
  | Current_Permissions_Route

fun access_endpoint :: "auth \<Rightarrow> (string option \<Rightarrow> string option) \<Rightarrow> request_headers \<Rightarrow>
    request_origin \<Rightarrow> access_route \<Rightarrow> (identity_db, unit) op" where
  "access_endpoint A bearer hs g (Register_Route q) =
     validated (register_valid q) (discard (register_institution_admin A q))"
| "access_endpoint A bearer hs g (Login_Route q) = bind_tx (get_tenant_context A hs) (\<lambda>ctx.
     validated (login_valid q) (discard (login A q (ctx_tenant ctx) (get_request_metadata g))))"
| "access_endpoint A bearer hs g (Refresh_Route token) =
     validated (token_valid token) (discard (refresh A token (get_request_metadata g)))"
| "access_endpoint A bearer hs g (Logout_Route token everywhere) =
     bind_tx (get_current_user A (bearer (hd_authorization hs))) (\<lambda>u.
     validated (if_some token_valid token) (logout A (us_id u) token everywhere))"
| "access_endpoint A bearer hs g (Request_Reset_Route email tenant) =
     discard (request_password_reset A email tenant)"
| "access_endpoint A bearer hs g (Confirm_Reset_Route token password) =
     validated (token_valid token \<and> text_within 10 256 password) (confirm_password_reset A token password)"
| "access_endpoint A bearer hs g (Invite_Route tenant email role_id) =
     bind_tx (require_permission A ''prepaccess.user.invite'' (bearer (hd_authorization hs))) (\<lambda>pr.
     discard (invite_user A tenant email role_id (Some (pr_user pr))))"
| "access_endpoint A bearer hs g (Accept_Route q) =
     validated (accept_valid q) (discard (accept_invitation A q))"
| "access_endpoint A bearer hs g (Create_Role_Route q) =
     bind_tx (require_permission A ''prepaccess.role.manage'' (bearer (hd_authorization hs))) (\<lambda>_.
     validated (role_create_valid q) (discard (create_custom_role q)))"
| "access_endpoint A bearer hs g (Assign_Role_Route user_id tenant role_id) =
     bind_tx (require_permission A ''prepaccess.role.manage'' (bearer (hd_authorization hs))) (\<lambda>pr.
     discard (assign_role user_id tenant role_id (Some (pr_user pr)) True))"
| "access_endpoint A bearer hs g (Remove_Role_Route user_id role_id) =
     bind_tx (require_permission A ''prepaccess.role.manage'' (bearer (hd_authorization hs))) (\<lambda>_.
     bind_tx (get_tenant_context A hs) (\<lambda>ctx.
     remove_role user_id role_id (ctx_tenant ctx)))"
| "access_endpoint A bearer hs g Matrix_Route =
     bind_tx (require_permission A ''prepaccess.permission.read'' (bearer (hd_authorization hs))) (\<lambda>pr.
     discard (permission_matrix (pr_tenant pr)))"
| "access_endpoint A bearer hs g Current_User_Route =
     discard (get_current_user A (bearer (hd_authorization hs)))"
| "access_endpoint A bearer hs g Current_Permissions_Route =
     discard (get_current_principal A (bearer (hd_authorization hs)))"

section \<open>Platform and tenant\<close>

definition tenant_create_valid :: "tenant_create \<Rightarrow> bool" where
  "tenant_create_valid p \<longleftrightarrow> text_within 1 255 (tcr_name p) \<and> if_some (text_within 0 255) (tcr_legal_name p) \<and>
     code_pattern 80 ''-'' (tcr_slug p) \<and> if_some (text_within 0 80) (tcr_plan_type p) \<and>
     if_some (text_within 0 255) (tcr_primary_domain p)"

definition domain_create_valid :: "tenant_domain_create \<Rightarrow> bool" where
  "domain_create_valid p \<longleftrightarrow> text_within 1 255 (dcr_domain p)"

definition catalog_create_valid :: "catalog_create \<Rightarrow> bool" where
  "catalog_create_valid p \<longleftrightarrow> code_pattern 80 ''_-'' (kcr_code p) \<and> text_within 1 160 (kcr_name p) \<and>
     text_within 1 80 (kcr_category p)"

datatype tenancy_route =
    Create_Tenant_Route tenant_create
  | Get_Tenant_Route uuid
  | Create_Domain_Route uuid tenant_domain_create
  | List_Catalog_Route
  | Upsert_Catalog_Route catalog_create
  | Seed_Catalog_Route
  | Upsert_App_Route uuid string tenant_app_upsert
  | Add_Member_Route uuid uuid tenant_user_status bool
  | Current_Tenant_Route
  | List_Apps_Route
  | Get_Settings_Route
  | Update_Settings_Route tenant_settings_update
  | Get_Branding_Route
  | Update_Branding_Route tenant_branding_update

text \<open>The endpoints of the platform ask for nothing; those of the tenant for a tenant in the headers.\<close>

fun tenancy_endpoint :: "auth \<Rightarrow> request_headers \<Rightarrow> tenancy_route \<Rightarrow> (identity_db, unit) op" where
  "tenancy_endpoint A hs (Create_Tenant_Route p) =
     validated (tenant_create_valid p) (discard (create_tenant p))"
| "tenancy_endpoint A hs (Get_Tenant_Route t) = discard (get_tenant t)"
| "tenancy_endpoint A hs (Create_Domain_Route t p) =
     validated (domain_create_valid p) (discard (create_domain t p))"
| "tenancy_endpoint A hs List_Catalog_Route = discard list_app_catalog"
| "tenancy_endpoint A hs (Upsert_Catalog_Route p) =
     validated (catalog_create_valid p) (discard (upsert_app_catalog p))"
| "tenancy_endpoint A hs Seed_Catalog_Route = discard seed_default_app_catalog"
| "tenancy_endpoint A hs (Upsert_App_Route t code p) = discard (upsert_tenant_app t (lower code) p)"
| "tenancy_endpoint A hs (Add_Member_Route t u st primary) = discard (add_tenant_user t u st primary)"
| "tenancy_endpoint A hs Current_Tenant_Route = with_tenant_session A hs (\<lambda>ctx.
     bind_tx (require_tenant_id ctx) (\<lambda>t. discard (get_tenant t)))"
| "tenancy_endpoint A hs List_Apps_Route =
     with_tenant_session A hs (\<lambda>ctx. discard (list_tenant_apps ctx))"
| "tenancy_endpoint A hs Get_Settings_Route =
     with_tenant_session A hs (\<lambda>ctx. discard (get_tenant_settings ctx))"
| "tenancy_endpoint A hs (Update_Settings_Route p) = with_tenant_session A hs (\<lambda>ctx.
     validated (general_update_valid p) (discard (update_tenant_settings ctx p)))"
| "tenancy_endpoint A hs Get_Branding_Route =
     with_tenant_session A hs (\<lambda>ctx. discard (get_tenant_branding ctx))"
| "tenancy_endpoint A hs (Update_Branding_Route p) = with_tenant_session A hs (\<lambda>ctx.
     validated (branding_update_valid p) (discard (update_tenant_branding ctx p)))"

end
