(* ===== verification/Suite_Props.thy ===== *)
theory Suite_Props
  imports Routes Access_Routes Sample
begin

text \<open>
  The properties that span the services, stated of whole requests: headers, dependencies of the
  router, service.  The witnesses send requests to a system with two tenants.
\<close>

section \<open>Two tenants\<close>

definition suite_token :: string where
  "suite_token = ''teacher-token''"

definition suite_auth :: auth where
  "suite_auth = \<lparr>sha256_hex = (\<lambda>s. s), argon_hash = (\<lambda>salt pw. pw), argon_verify = (\<lambda>h pw. Some (h = pw)),
     jwt_encode = (\<lambda>claims. suite_token),
     jwt_decode = (\<lambda>now aud iss token. if token \<noteq> suite_token then None
       else Some (JObj [(''typ'', JStr ''access''),
         (''sub'', JStr ''00000000-0000-0000-0000-000000000009''),
         (''tid'', JStr ''00000000-0000-0000-0000-000000000001'')])),
     jwt_issuer = ''prepsuite'', jwt_audience = ''prepsuite-api'',
     access_token_ttl_minutes = 15, refresh_token_ttl_days = 30, password_reset_token_ttl_minutes = 30,
     invitation_token_ttl_days = 7, login_rate_limit_attempts = 5, login_rate_limit_window_seconds = 300\<rparr>"

definition suite_bearer :: "string option \<Rightarrow> string option" where
  "suite_bearer h = map_option (drop 7) h"

text \<open>The request names the tenant \<open>h\<close> in its header and carries the token of tenant 1.\<close>

definition suite_headers :: "string \<Rightarrow> request_headers" where
  "suite_headers h = \<lparr>hd_host = None, hd_authorization = Some (''Bearer '' @ suite_token),
     hd_tenant_id = Some h, hd_user_id = None, hd_tenant_slug = None, hd_tenant_domain = None\<rparr>"

fun suite_grants :: "nat \<Rightarrow> string list \<Rightarrow> permission list \<times> role_permission list" where
  "suite_grants i [] = ([], [])"
| "suite_grants i (code # codes) = (case suite_grants (i + 2) codes of (ps, gs) \<Rightarrow>
     (\<lparr>pm_id = i, pm_code = code, pm_app_code = [], pm_resource = [], pm_action = [], pm_is_active = True\<rparr> # ps,
      \<lparr>rp_id = i + 1, rp_tenant = Some 1, rp_role = 3, rp_permission = i\<rparr> # gs))"

definition suite_tenant :: "uuid \<Rightarrow> tenant" where
  "suite_tenant t = \<lparr>tn_id = t, tn_name = ''School'', tn_legal_name = None, tn_slug = ''school'',
     tn_status = TN_ACTIVE, tn_plan_type = None, tn_deleted_at = None\<rparr>"

definition suite_app :: "uuid \<Rightarrow> uuid \<Rightarrow> tenant_app" where
  "suite_app i t = \<lparr>tap_id = i, tap_tenant = t, tap_app_code = ''prepstudents'', tap_status = APP_ENABLED,
     tap_subscription_status = SUB_ACTIVE, tap_starts_at = None, tap_ends_at = None, tap_config = JObj []\<rparr>"

text \<open>Account 9 of tenant 1 may manage batches and settings and invite users there.\<close>

definition suite_identity :: identity_db where
  "suite_identity = (case suite_grants 10
    [''prepstudents.batch.manage'', ''prepsettings.settings.manage'', ''prepaccess.user.invite''] of
     (ps, gs) \<Rightarrow> empty_identity_db\<lparr>tenants := [suite_tenant 1, suite_tenant 2],
       app_catalog := [\<lparr>ca_id = 50, ca_code = ''prepstudents'', ca_name = ''PrepStudents'',
         ca_description = None, ca_category = ''core'', ca_is_core = False, ca_is_active = True\<rparr>],
       tenant_apps := [suite_app 51 1, suite_app 52 2],
       users := [\<lparr>us_id = 9, us_tenant = Some 1, us_email = ''t@x'', us_phone = None, us_password_hash = ''pw'',
         us_status = U_ACTIVE, us_user_type = TEACHER_USER, us_last_login_at = None, us_deleted_at = None\<rparr>],
       roles := [\<lparr>ro_id = 3, ro_tenant = Some 1, ro_code = ''admin'', ro_name = ''Admin'', ro_description = None,
         ro_is_system = True, ro_is_default = True, ro_deleted_at = None\<rparr>],
       permissions := ps, role_permissions := gs,
       user_roles := [\<lparr>ur_id = 6, ur_tenant = Some 1, ur_user = 9, ur_role = 3, ur_assigned_by = None,
         ur_assigned_at = 0\<rparr>]\<rparr>)"






section \<open>Isolation of the tenants\<close>



section \<open>Requests that fail\<close>



section \<open>The tenant of a settings request\<close>

lemma header_tenant:
  assumes "get_tenant_context A hs s = (Inr ctx, s')" "ctx_tenant ctx = Some tenant"
    and "hd_tenant_id hs = Some h" "uuid_parse h = Some t"
  shows "tenant = t"
proof -
  have "given (hd_tenant_id hs)" using assms(3,4) by (auto simp: given_def uuid_parse_def Let_def)
  then have "\<exists>k v. resolve_tenant k v = (Inr ctx, s') \<and> rh_tenant k = Some t"
    using assms(1,3,4) unfolding get_tenant_context_def Let_def bind_tx_Inr_iff
    by (auto simp: parse_uuid_header_def claimed_uuid_def)
  then obtain k v where "resolve_tenant k v = (Inr ctx, s')" and k: "rh_tenant k = Some t" by blast
  then have "context_from_tenant (lookup tenants_table (\<lambda>r. tn_id r = t \<and> tn_deleted_at r = None) v) HEADER
      (rh_slug k) (rh_domain k) = ctx"
    unfolding resolve_tenant_def k tenant_get_active_def by (auto simp: tx_exec)
  then show ?thesis
    using assms(2) by (auto simp: context_from_tenant_def unresolved_def split: option.splits dest: lookup_SomeD)
qed

text \<open>
  C38. A settings request whose header X-Tenant-ID names tenant \<open>t\<close> does its work in a session scoped
  to \<open>t\<close> and in the context of \<open>t\<close>: the token must authenticate an account holding the permission in
  its own tenant, but that tenant need not be \<open>t\<close>.
\<close>

theorem settings_tenant_of_headers:
  assumes "serve_settings A bearer hs q di p = (Inr (), di', p')"
    and "hd_tenant_id hs = Some h" "uuid_parse h = Some t"
  shows "\<exists>token u ctx pr i s. bearer (hd_authorization hs) = Some token \<and> authenticates A di (clock p) token u \<and>
    (us_tenant u \<noteq> None \<longrightarrow> granted di u ''prepsettings.settings.manage'') \<and>
    pr_user pr = us_id u \<and> pr_tenant pr = us_tenant u \<and> ctx_tenant ctx = Some t \<and>
    settings_exec ctx pr q ((open_session di p)\<lparr>rls_user := i, rls_tenant := Some t\<rparr>) = (Inr (), s) \<and>
    di' = committed s \<and> p' = proc s"
proof -
  from assms(1) obtain ctx pr v s where enter: "enter_settings A bearer hs (open_session di p) = (Inr (ctx, pr), v)"
    and run: "settings_exec ctx pr q v = (Inr (), s)" "di' = committed s" "p' = proc s"
    by (auto simp: serve_settings_def serve_iff bind_tx_Inr_iff)
  obtain token u tenant i where u: "bearer (hd_authorization hs) = Some token"
      "authenticates A (working (open_session di p)) (clock (proc (open_session di p))) token u"
      "pr_user pr = us_id u" "pr_tenant pr = us_tenant u"
      "us_tenant u \<noteq> None \<Longrightarrow> granted (working (open_session di p)) u ''prepsettings.settings.manage''"
    and tenant: "ctx_tenant ctx = Some tenant"
    and v: "v = (open_session di p)\<lparr>rls_user := i, rls_tenant := Some tenant\<rparr>"
    by (rule enter_settings_run [OF enter]) (rule that, assumption, simp_all)
  have "tenant = t"
  proof -
    from enter obtain w x where "get_tenant_context A hs w = (Inr ctx, x)"
      by (auto simp: enter_settings_def with_tenant_session_def bind_tx_Inr_iff)
    from header_tenant [OF this tenant assms(2,3)] show ?thesis .
  qed
  with u tenant v run show ?thesis by (fastforce simp: open_session_def)
qed

text \<open>The account of tenant 1 switches off an application of tenant 2.\<close>

theorem settings_tenant_of_headers_witness:
  "\<exists>di' p' token u. serve_settings suite_auth suite_bearer (suite_headers ''00000000-0000-0000-0000-000000000002'')
      (Toggle_App ''prepstudents'' \<lparr>atg_enabled = False, atg_settings = None\<rparr>) suite_identity sample_proc =
      (Inr (), di', p') \<and>
    map (\<lambda>a. (tap_tenant a, tap_status a)) (tenant_apps di') = [(1, APP_ENABLED), (2, APP_DISABLED)] \<and>
    suite_bearer (Some (''Bearer '' @ suite_token)) = Some token \<and>
    authenticates suite_auth suite_identity 1000 token u \<and> us_tenant u = Some 1"
proof -
  let ?m = "serve_settings suite_auth suite_bearer (suite_headers ''00000000-0000-0000-0000-000000000002'')
    (Toggle_App ''prepstudents'' \<lparr>atg_enabled = False, atg_settings = None\<rparr>) suite_identity sample_proc"
  have "\<not> isl (fst ?m) \<and> map (\<lambda>a. (tap_tenant a, tap_status a)) (tenant_apps (fst (snd ?m))) =
      [(1, APP_ENABLED), (2, APP_DISABLED)]" by code_simp
  then obtain di' p' where run: "?m = (Inr (), di', p')"
    and apps: "map (\<lambda>a. (tap_tenant a, tap_status a)) (tenant_apps di') = [(1, APP_ENABLED), (2, APP_DISABLED)]"
    by (cases ?m; cases "fst ?m") auto
  have h: "hd_tenant_id (suite_headers ''00000000-0000-0000-0000-000000000002'') =
      Some ''00000000-0000-0000-0000-000000000002''" by (simp add: suite_headers_def)
  have parse: "uuid_parse ''00000000-0000-0000-0000-000000000002'' = Some 2" by code_simp
  from settings_tenant_of_headers [OF run h parse] obtain token u where
    u: "suite_bearer (Some (''Bearer '' @ suite_token)) = Some token"
       "authenticates suite_auth suite_identity 1000 token u"
    by (auto simp: suite_headers_def sample_proc_def)
  from u(2) have "account suite_identity (us_id u) = Some u"
    by (simp add: authenticates_def split: option.splits)
  then have "u \<in> set (users suite_identity)" by (auto dest: accountD)
  then have "us_tenant u = Some 1" by (simp add: suite_identity_def)
  with run apps u show ?thesis
    by (intro exI [of _ di'] exI [of _ p'] exI [of _ token] exI [of _ u] conjI)
qed

section \<open>The tenant of an invitation\<close>

lemma invite_userE:
  assumes "invite_user A tenant email role_id actor s = (Inr r, s')"
  obtains iv where "invitation_tokens (committed s') = invitation_tokens (working s) @ [iv]"
    "iv_tenant iv = tenant" "iv_email iv = email" "iv_role iv = role_id" "iv_invited_by iv = actor"
    "iv_status iv = IV_PENDING"
proof -
  have role: "(case role_id of None \<Rightarrow> return_tx () | Some i \<Rightarrow>
      bind_tx (role_get i) (\<lambda>role. case role of None \<Rightarrow> abort ''role_not_found'' 404
        | Some r \<Rightarrow> if ro_tenant r \<noteq> Some tenant then abort ''role_not_found'' 404 else return_tx ())) s = (Inr u, t) \<Longrightarrow>
      t = s" for s t u
    by (auto simp: role_get_def tx_inv split: option.splits if_splits)
  from assms show thesis
    by (auto simp: invite_user_def get_tenant_def tenant_get_active_def build_scoped_token_def tx_inv
        set_current_tenant_run identity_rows intro: that dest!: role)
qed

text \<open>
  C39. A successful invitation leaves one pending invitation more, in the tenant the payload names, with
  the role it names.  Its token must authenticate an account that may invite users in its own tenant;
  the tenant of the payload need not be that one.
\<close>

theorem invitation_tenant_of_payload:
  assumes "serve (access_endpoint A bearer hs g (Invite_Route tenant email role_id)) d p = (Inr (), d', p')"
  shows "\<exists>token u iv. bearer (hd_authorization hs) = Some token \<and> authenticates A d (clock p) token u \<and>
    (us_tenant u \<noteq> None \<longrightarrow> granted d u ''prepaccess.user.invite'') \<and>
    invitation_tokens d' = invitation_tokens d @ [iv] \<and> iv_tenant iv = tenant \<and> iv_email iv = email \<and>
    iv_role iv = role_id \<and> iv_invited_by iv = Some (us_id u) \<and> iv_status iv = IV_PENDING"
proof -
  have opened: "working (open_session d p) = d" "proc (open_session d p) = p" by (simp_all add: open_session_def)
  from assms obtain pr r s t where
    perm: "require_permission A ''prepaccess.user.invite'' (bearer (hd_authorization hs)) (open_session d p) = (Inr pr, s)"
    and invite: "invite_user A tenant email role_id (Some (pr_user pr)) s = (Inr r, t)" and d': "d' = committed t"
    by (auto simp: serve_iff bind_tx_Inr_iff discard_Inr)
  obtain token u where u: "bearer (hd_authorization hs) = Some token" "authenticates A d (clock p) token u"
      "pr_user pr = us_id u" "us_tenant u \<noteq> None \<Longrightarrow> granted d u ''prepaccess.user.invite''" and s: "working s = d"
    by (rule permission_run [OF perm]) (rule that, assumption, simp_all add: opened)
  from invite u s d' show ?thesis
    by (elim invite_userE) (intro exI conjI impI, auto)
qed

definition suite_origin :: request_origin where
  "suite_origin = \<lparr>og_client = None, og_forwarded_for = None, og_user_agent = None\<rparr>"

text \<open>The account of tenant 1 invites somebody into tenant 2.\<close>

theorem invitation_tenant_of_payload_witness:
  "\<exists>d' p' token u iv. serve (access_endpoint suite_auth suite_bearer
      (suite_headers ''00000000-0000-0000-0000-000000000001'') suite_origin (Invite_Route 2 ''friend@x'' None))
      suite_identity sample_proc = (Inr (), d', p') \<and>
    suite_bearer (Some (''Bearer '' @ suite_token)) = Some token \<and>
    authenticates suite_auth suite_identity 1000 token u \<and> us_tenant u = Some 1 \<and>
    invitation_tokens d' = [iv] \<and> iv_tenant iv = 2 \<and> iv_invited_by iv = Some 9"
proof -
  let ?m = "serve (access_endpoint suite_auth suite_bearer (suite_headers ''00000000-0000-0000-0000-000000000001'') suite_origin
    (Invite_Route 2 ''friend@x'' None)) suite_identity sample_proc"
  have "\<not> isl (fst ?m)" unfolding access_endpoint.simps by code_simp
  then obtain d' p' where run: "?m = (Inr (), d', p')" by (cases ?m; cases "fst ?m") auto
  from invitation_tenant_of_payload [OF run] obtain token u iv where
    u: "suite_bearer (Some (''Bearer '' @ suite_token)) = Some token"
       "authenticates suite_auth suite_identity 1000 token u"
    and iv: "invitation_tokens d' = invitation_tokens suite_identity @ [iv]" "iv_tenant iv = 2"
      "iv_invited_by iv = Some (us_id u)"
    by (auto simp: suite_headers_def sample_proc_def)
  from u(2) have "account suite_identity (us_id u) = Some u"
    by (simp add: authenticates_def split: option.splits)
  then have "u \<in> set (users suite_identity)" by (auto dest: accountD)
  then have "us_tenant u = Some 1" "us_id u = 9" by (simp_all add: suite_identity_def)
  moreover have "invitation_tokens suite_identity = []" by (simp add: suite_identity_def empty_identity_db_def)
  ultimately show ?thesis
    using run u iv by (intro exI [of _ d'] exI [of _ p'] exI [of _ token] exI [of _ u] exI [of _ iv]) simp
qed

end
