(* ===== verification/Learn_Inv.thy ===== *)
theory Learn_Inv
  imports Learn_Facts Row_Rules
begin

text \<open>
  A published course has content and a record of its publication: an invariant of the requests of
  PrepLearn, in whatever order courses, modules and lessons are written.
\<close>

section \<open>The invariant\<close>

text \<open>The course has a module with a lesson, and its publication is on record.\<close>

definition course_ready :: "db \<Rightarrow> uuid \<Rightarrow> bool" where
  "course_ready d i \<longleftrightarrow> (\<exists>m\<in>set (course_modules d). \<exists>l\<in>set (lessons d).
       mo_course m = i \<and> mo_deleted_at m = None \<and> ln_module l = mo_id m \<and> ln_deleted_at l = None) \<and>
     (\<exists>h\<in>set (course_publish_histories d). ph_course h = i \<and> ph_new_status h = C_PUBLISHED)"

definition course_ok :: "db \<Rightarrow> course \<Rightarrow> bool" where
  "course_ok d c \<longleftrightarrow> co_status c = C_PUBLISHED \<longrightarrow> co_published_at c \<noteq> None \<and> course_ready d (co_id c)"

definition courses_inv :: "db \<Rightarrow> process \<Rightarrow> bool" where
  "courses_inv d p \<longleftrightarrow> (\<forall>c\<in>set (courses d). course_ok d c) \<and>
     unique_rows course_modules_table (course_modules d) \<and> unique_rows lessons_table (lessons d)"

section \<open>Content stays\<close>

definition module_stays :: "course_module \<Rightarrow> course_module \<Rightarrow> bool" where
  "module_stays m m' \<longleftrightarrow> mo_course m' = mo_course m \<and> mo_deleted_at m' = mo_deleted_at m"

definition lesson_stays :: "lesson \<Rightarrow> lesson \<Rightarrow> bool" where
  "lesson_stays l l' \<longleftrightarrow> ln_module l' = ln_module l \<and> ln_deleted_at l' = ln_deleted_at l"

abbreviation modules_stay :: "db \<Rightarrow> db \<Rightarrow> bool" where
  "modules_stay \<equiv> rows_stay course_modules_table module_stays"

abbreviation lessons_stay :: "db \<Rightarrow> db \<Rightarrow> bool" where
  "lessons_stay \<equiv> rows_stay lessons_table lesson_stays"

text \<open>
  What has happened since \<open>d0\<close>: every published course was ready then; modules, lessons and the
  records of publications are still there.
\<close>

definition content_kept :: "db \<Rightarrow> db \<Rightarrow> process \<Rightarrow> bool" where
  "content_kept d0 d p \<longleftrightarrow> (\<forall>c\<in>set (courses d). course_ok d0 c) \<and>
     set (course_publish_histories d0) \<subseteq> set (course_publish_histories d) \<and>
     modules_stay d0 d \<and> lessons_stay d0 d"

lemma course_ready_later:
  assumes "content_kept d0 d p" "course_ready d0 i"
  shows "course_ready d i"
proof -
  from assms(2) obtain m l where m: "m \<in> set (course_modules d0)" "mo_course m = i" "mo_deleted_at m = None"
    and l: "l \<in> set (lessons d0)" "ln_module l = mo_id m" "ln_deleted_at l = None"
    and h: "\<exists>h\<in>set (course_publish_histories d0). ph_course h = i \<and> ph_new_status h = C_PUBLISHED"
    unfolding course_ready_def by blast
  have "\<exists>m'\<in>set (course_modules d). mo_id m' = mo_id m \<and> module_stays m m'"
    using rows_stayD [of course_modules_table module_stays d0 d m] assms(1) m(1) by (simp add: content_kept_def)
  moreover have "\<exists>l'\<in>set (lessons d). ln_id l' = ln_id l \<and> lesson_stays l l'"
    using rows_stayD [of lessons_table lesson_stays d0 d l] assms(1) l(1) by (simp add: content_kept_def)
  ultimately show ?thesis
    using m l h assms(1) unfolding course_ready_def content_kept_def module_stays_def lesson_stays_def by fastforce
qed

lemma content_kept_inv: "content_kept d0 d p \<Longrightarrow> courses_inv d p"
  using course_ready_later [of d0 d p]
  by (auto simp: courses_inv_def course_ok_def content_kept_def rows_stay_def)

lemma content_kept_refl: "courses_inv d p \<Longrightarrow> content_kept d d p"
  by (auto simp: courses_inv_def content_kept_def module_stays_def lesson_stays_def intro!: rows_stay_refl)

section \<open>Operations that keep the content\<close>

abbreviation content_J :: "db \<Rightarrow> db session \<Rightarrow> bool" where
  "content_J d0 \<equiv> both (content_kept d0)"

lemma proc_stable_content: "proc_stable (content_kept d0)" "proc_stable courses_inv"
  by (simp_all add: proc_stable_def content_kept_def courses_inv_def)

lemma content_tx: "tx_ok (content_J d0)" "keeps (content_J d0) rollback_tx"
  using tx_ok_both [OF proc_stable_content(1)] by (simp_all add: tx_ok_def)

lemma content_frames:
  "table_ok (content_J d0) lesson_resources_table" "table_ok (content_J d0) course_batches_table"
  "table_ok (content_J d0) course_teachers_table"
  by (simp_all add: table_ok_both framed_def content_kept_def rows_stay_def)

lemma content_courses: "rows_sat (content_J d0) courses_table (course_ok d0)"
  by (rule courses_tbl.rows_sat_both [where R = "\<lambda>d p. set (course_publish_histories d0) \<subseteq>
      set (course_publish_histories d) \<and> modules_stay d0 d \<and> lessons_stay d0 d"])
    (auto simp: content_kept_def framed_def rows_stay_def)

lemma content_modules:
  "keeps (content_J d0) (insert_row course_modules_table m)"
  "\<forall>q\<in>set (course_modules d0). mo_id q = mo_id m \<longrightarrow> module_stays q m \<Longrightarrow>
   keeps (content_J d0) (save_row course_modules_table m)"
  by (rule course_modules_tbl.keeps_rows_stay [where stays = module_stays and ?d0.0 = d0 and
        R = "\<lambda>d p. (\<forall>c\<in>set (courses d). course_ok d0 c) \<and> set (course_publish_histories d0) \<subseteq>
          set (course_publish_histories d) \<and> lessons_stay d0 d"];
      auto simp: content_kept_def framed_def rows_stay_def)+

lemma content_lessons:
  "keeps (content_J d0) (insert_row lessons_table l)"
  "\<forall>q\<in>set (lessons d0). ln_id q = ln_id l \<longrightarrow> lesson_stays q l \<Longrightarrow>
   keeps (content_J d0) (save_row lessons_table l)"
  by (rule lessons_tbl.keeps_rows_stay [where stays = lesson_stays and ?d0.0 = d0 and
        R = "\<lambda>d p. (\<forall>c\<in>set (courses d). course_ok d0 c) \<and> set (course_publish_histories d0) \<subseteq>
          set (course_publish_histories d) \<and> modules_stay d0 d"];
      auto simp: content_kept_def framed_def rows_stay_def)+

text \<open>What the queries find has stayed, and so has what is written from it.\<close>

definition module_ok :: "db \<Rightarrow> course_module \<Rightarrow> bool" where
  "module_ok d0 m \<longleftrightarrow> (\<forall>q\<in>set (course_modules d0). mo_id q = mo_id m \<longrightarrow> module_stays q m)"

definition lesson_ok :: "db \<Rightarrow> lesson \<Rightarrow> bool" where
  "lesson_ok d0 l \<longleftrightarrow> (\<forall>q\<in>set (lessons d0). ln_id q = ln_id l \<longrightarrow> lesson_stays q l)"

lemma content_found:
  "ensures (content_J d0) any_error (course_ok d0) (get_course ctx i)"
  "ensures (content_J d0) any_error (module_ok d0) (get_module_or_raise t j)"
  "ensures (content_J d0) any_error (lesson_ok d0) (get_lesson_or_raise t k)"
proof -
  have modules: "both (content_kept d0) s \<Longrightarrow> m \<in> set (rows course_modules_table s) \<Longrightarrow> module_ok d0 m"
    and lessons: "both (content_kept d0) s \<Longrightarrow> l \<in> set (rows lessons_table s) \<Longrightarrow> lesson_ok d0 l" for s m l
    by (auto simp: both_def content_kept_def rows_stay_def module_ok_def lesson_ok_def rows_def)
  show "ensures (content_J d0) any_error (course_ok d0) (get_course ctx i)"
    unfolding get_course_def course_get_for_tenant_def
    by (rule ensures_bind, rule ensures_require, simp, rule ensures_weaken, rule ensures_404 [OF content_courses]) simp_all
  show "ensures (content_J d0) any_error (module_ok d0) (get_module_or_raise t j)"
    unfolding get_module_or_raise_def module_get_for_tenant_def
    by (rule ensures_weaken, rule ensures_found(2) [where Q = "module_ok d0"]) (auto dest: modules)
  show "ensures (content_J d0) any_error (lesson_ok d0) (get_lesson_or_raise t k)"
    unfolding get_lesson_or_raise_def lesson_get_for_tenant_def
    by (rule ensures_weaken, rule ensures_found(2) [where Q = "lesson_ok d0"]) (auto dest: lessons)
qed

lemma content_store:
  "course_ok d0 c \<Longrightarrow> ensures (content_J d0) any_error (\<lambda>x. x = c) (save_row courses_table c)"
  "course_ok d0 c \<Longrightarrow> ensures (content_J d0) any_error (\<lambda>x. x = c) (insert_row courses_table c)"
  "module_ok d0 m \<Longrightarrow> ensures (content_J d0) any_error (\<lambda>_. True) (save_row course_modules_table m)"
  "lesson_ok d0 l \<Longrightarrow> ensures (content_J d0) any_error (\<lambda>_. True) (save_row lessons_table l)"
  by (auto intro!: ensures_store [OF content_courses] ensures_keeping content_modules(2) content_lessons(2)
      simp: module_ok_def lesson_ok_def)

text \<open>Fields that do not matter.\<close>

lemma content_fields [simp]:
  "course_ok d0 (c\<lparr>co_deleted_at := x\<rparr>) = course_ok d0 c"
  "course_ok d0 (c\<lparr>co_status := C_ARCHIVED\<rparr>)"
  "module_ok d0 (m\<lparr>mo_order_index := n\<rparr>) = module_ok d0 m"
  "module_ok d0 (apply_module_update mp m) = module_ok d0 m"
  "lesson_ok d0 (l\<lparr>ln_order_index := n\<rparr>) = lesson_ok d0 l"
  "lesson_ok d0 (apply_lesson_update lp l) = lesson_ok d0 l"
  by (simp_all add: course_ok_def module_ok_def lesson_ok_def module_stays_def lesson_stays_def
      apply_module_update_def apply_lesson_update_def)

lemma course_ok_update:
  "course_ok d0 c \<Longrightarrow> cup_status p \<noteq> Assigned (Some C_PUBLISHED) \<Longrightarrow> course_ok d0 (apply_course_update p c)"
  by (auto simp: course_ok_def apply_course_update_def Let_def split: field.splits option.splits course_status.splits)

lemmas content_rules = ensures_bind [OF content_found(1)] ensures_bind [OF content_found(2)]
  ensures_bind [OF content_found(3)]

lemma content_keeps:
  "keeps (content_J d0) (create_course ctx pr cc)" "keeps (content_J d0) (create_module ctx pr i mc)"
  "keeps (content_J d0) (create_lesson ctx pr i lc)" "keeps (content_J d0) (learn_assign_batch ctx pr i b)"
  "keeps (content_J d0) (learn_assign_teacher ctx pr i e)"
proof -
  have course: "keeps (content_J d0) (insert_row courses_table c)" if "co_status c = C_DRAFT" for c
    by (rule ensures_keeps [OF content_store(2)]) (simp add: course_ok_def that)
  have resources: "keeps (content_J d0) (insert_resources t l n ps)" for t l n ps
    by (induction t l n ps rule: insert_resources.induct)
      (auto intro!: keeps_intros content_tx content_frames)
  show "keeps (content_J d0) (create_course ctx pr cc)"
    unfolding create_course_def
    by (intro keeps_intros content_tx course) simp
  show "keeps (content_J d0) (create_module ctx pr i mc)" "keeps (content_J d0) (create_lesson ctx pr i lc)"
    "keeps (content_J d0) (learn_assign_batch ctx pr i b)" "keeps (content_J d0) (learn_assign_teacher ctx pr i e)"
    unfolding create_module_def create_lesson_def learn_assign_batch_def learn_assign_teacher_def
    by (intro keeps_bind keeps_on_conflict keeps_intros content_tx content_frames content_modules(1) content_lessons(1)
      resources)+
qed

lemma content_reads:
  "ensures (content_J d0) any_error (\<lambda>_. True) (detail_response_for t i)"
  "ensures (content_J d0) any_error (\<lambda>_. True) (module_response t i)"
  "ensures (content_J d0) any_error (\<lambda>_. True) (lesson_response t i)"
  "ensures (content_J d0) any_error (\<lambda>_. True) (modules_for_course t i)"
  by (rule ensures_keeping, rule keeps_learn_reads)+

lemma content_flush:
  "\<forall>m\<in>set ms. module_ok d0 m \<Longrightarrow>
   ensures (content_J d0) any_error (\<lambda>_. True) (flush_modules (zip ms ns))"
  "\<forall>l\<in>set ls. lesson_ok d0 l \<Longrightarrow>
   ensures (content_J d0) any_error (\<lambda>_. True) (flush_lessons (zip ls ns))"
  unfolding flush_modules_def flush_lessons_def
  by (rule ensures_bind, rule ensures_for_each [where Q = "\<lambda>_. True"], auto intro!: content_store ensures_done
      dest: set_zip_leftD)+

lemma content_course_changes:
  "ensures (content_J d0) any_error (\<lambda>_. True) (update_course ctx pr i p)"
  "ensures (content_J d0) any_error (\<lambda>_. True) (delete_course ctx pr i)"
  "ensures (content_J d0) any_error (\<lambda>_. True) (archive_course ctx pr i)"
proof -
  show "ensures (content_J d0) any_error (\<lambda>_. True) (update_course ctx pr i p)"
    unfolding update_course_def Let_def flush_update_def
    apply (rule content_rules(1), rule ensures_if, rule ensures_abort, simp)
    apply (rule ensures_bind [where Q = "\<lambda>_. True"], rule ensures_on_conflict)
       apply (rule ensures_bind [where Q = "\<lambda>_. True"], rule ensures_if, rule ensures_raise, simp,
        rule ensures_any, rule content_store, rule course_ok_update, assumption+)
       apply (rule ensures_tx content_tx | simp)+
    apply (rule ensures_bind, (rule ensures_tx content_tx ensures_done)+)
    done
  show "ensures (content_J d0) any_error (\<lambda>_. True) (delete_course ctx pr i)"
    "ensures (content_J d0) any_error (\<lambda>_. True) (archive_course ctx pr i)"
    unfolding delete_course_def archive_course_def
    by (rule content_rules(1), ((rule ensures_bind, rule ensures_tx content_tx content_store)
      | rule ensures_tx content_tx content_store ensures_done | simp)+)+
qed

lemma content_updates:
  "ensures (content_J d0) any_error (\<lambda>_. True) (update_module ctx pr i mu)"
  "ensures (content_J d0) any_error (\<lambda>_. True) (update_lesson ctx pr i lu)"
proof -
  have m: "ensures (content_J d0) any_error (\<lambda>_. True) (flush_update course_modules_table b m)" if "module_ok d0 m" for b m
    unfolding flush_update_def by (intro ensures_if ensures_raise content_store(3) that) simp
  have l: "ensures (content_J d0) any_error (\<lambda>_. True) (flush_update lessons_table b l)" if "lesson_ok d0 l" for b l
    unfolding flush_update_def by (intro ensures_if ensures_raise content_store(4) that) simp
  show "ensures (content_J d0) any_error (\<lambda>_. True) (update_module ctx pr i mu)"
    unfolding update_module_def
    apply (rule ensures_bind, rule ensures_require, simp)
    apply (rule content_rules(2), rule ensures_bind [where Q = "\<lambda>_. True"], rule ensures_on_conflict)
       apply (rule ensures_bind, rule m, simp)
       apply ((rule ensures_bind, rule content_reads ensures_tx content_tx) | rule ensures_done content_tx ensures_tx | simp)+
    done
  show "ensures (content_J d0) any_error (\<lambda>_. True) (update_lesson ctx pr i lu)"
    unfolding update_lesson_def
    apply (rule ensures_bind, rule ensures_require, simp)
    apply (rule content_rules(3), rule ensures_bind [where Q = "\<lambda>_. True"], rule ensures_on_conflict)
       apply (rule ensures_bind, rule l, simp)
       apply (rule ensures_if, rule ensures_raise, simp)
       apply ((rule ensures_bind, rule content_reads ensures_tx content_tx) | rule ensures_done content_tx ensures_tx | simp)+
    done
qed

lemma content_reorder: "ensures (content_J d0) any_error (\<lambda>_. True) (reorder_course ctx pr i p)"
  unfolding reorder_course_def
  apply (rule ensures_bind, rule ensures_require, simp)
  apply (rule content_rules(1))
  apply (rule ensures_if, rule ensures_abort, simp)+
  apply (rule ensures_bind, rule ensures_for_each, rule content_found(2))
  apply (rule ensures_if, rule ensures_abort, simp)
  apply (rule ensures_bind, rule ensures_for_each, rule content_found(3))
  apply (rule ensures_bind, rule content_reads)
  apply (rule ensures_if, rule ensures_abort, simp)
  apply ((rule ensures_bind, rule content_reads ensures_tx content_tx content_flush, assumption?)
      | rule ensures_done content_tx ensures_tx)+
  done

section \<open>Publishing\<close>

lemma content_of_course:
  "modules_for_course t i s = (Inr ms, s') \<Longrightarrow>
    s' = s \<and> set ms \<subseteq> {m \<in> set (course_modules (working s)). mo_course m = i \<and> mo_deleted_at m = None}"
  "lessons_for_module t j s = (Inr ls, s') \<Longrightarrow>
    s' = s \<and> set ls \<subseteq> {l \<in> set (lessons (working s)). ln_module l = j \<and> ln_deleted_at l = None}"
  by (auto simp: modules_for_course_def lessons_for_module_def live_module_of_def live_lesson_of_def tx_inv
      select_rows_run)

lemma lessons_checked:
  assumes "for_each (\<lambda>m. bind_tx (lessons_for_module t (mo_id m)) (\<lambda>ls. if ls = [] then abort e n else return_tx ()))
      ms s = (Inr us, s')"
  shows "s' = s \<and> (\<forall>m\<in>set ms. \<exists>l\<in>set (lessons (working s)). ln_module l = mo_id m \<and> ln_deleted_at l = None)"
  using assms
proof (induction ms arbitrary: s us)
  case (Cons m ms)
  then show ?case
    by (auto simp: tx_inv neq_Nil_conv split: if_splits dest!: Cons.IH content_of_course(2))
qed simp

lemma publish_reads:
  "get_course ctx i s = (Inr c, s') \<Longrightarrow> s' = s \<and> co_id c = i"
  "assert_publishable c s = (Inr u, s') \<Longrightarrow> s' = s \<and> (\<exists>m\<in>set (course_modules (working s)).
     \<exists>l\<in>set (lessons (working s)). mo_course m = co_id c \<and> mo_deleted_at m = None \<and>
       ln_module l = mo_id m \<and> ln_deleted_at l = None)"
proof -
  show "get_course ctx i s = (Inr c, s') \<Longrightarrow> s' = s \<and> co_id c = i"
    by (auto simp: get_course_def course_get_for_tenant_def tx_inv dest!: lookup_SomeD)
  assume "assert_publishable c s = (Inr u, s')"
  then obtain m ms t v us where ms: "modules_for_course (co_tenant c) (co_id c) s = (Inr (m # ms), t)"
    and ls: "for_each (\<lambda>m. bind_tx (lessons_for_module (co_tenant c) (mo_id m)) (\<lambda>ls.
      if ls = [] then abort ''course_publish_requirements_not_met'' 409 else return_tx ())) (m # ms) t = (Inr us, v)"
    and v: "s' = v"
    by (auto simp: assert_publishable_def bind_tx_Inr_iff neq_Nil_conv simp del: for_each.simps split: if_splits)
  from content_of_course(1) [OF ms] lessons_checked [OF ls] v
  show "s' = s \<and> (\<exists>m\<in>set (course_modules (working s)). \<exists>l\<in>set (lessons (working s)). mo_course m = co_id c \<and>
      mo_deleted_at m = None \<and> ln_module l = mo_id m \<and> ln_deleted_at l = None)"
    by auto
qed

lemma publish_courseE:
  assumes "publish_course ctx pr i remark s = (Inr r, s')"
  obtains c h where "co_id c = i" "courses (committed s') = replace_where (\<lambda>q. co_id q = i \<and> rls_tenant s = Some (co_tenant q))
      (\<lambda>_. c\<lparr>co_status := C_PUBLISHED, co_published_at := Some (clock (proc s))\<rparr>) (courses (working s))"
    "course_publish_histories (committed s') = course_publish_histories (working s) @ [h]" "ph_course h = i"
    "ph_new_status h = C_PUBLISHED" "course_modules (committed s') = course_modules (working s)"
    "lessons (committed s') = lessons (working s)"
    "\<exists>m\<in>set (course_modules (working s)). \<exists>l\<in>set (lessons (working s)). mo_course m = i \<and> mo_deleted_at m = None \<and>
       ln_module l = mo_id m \<and> ln_deleted_at l = None"
proof -
  have detail: "detail_response_for t j u = (Inr x, u') \<Longrightarrow> u' = u" for t j u x u'
  proof -
    assume run: "detail_response_for t j u = (Inr x, u')"
    have "keeps (\<lambda>v. v = u) (detail_response_for t j)" by (rule keeps_learn_reads)
    from keepsD [OF this refl run] show "u' = u" .
  qed
  from assms obtain c u h a b e where
    c: "get_course ctx i s = (Inr c, s)" and ready: "assert_publishable c s = (Inr (), s)"
    and save: "save_row courses_table (c\<lparr>co_status := C_PUBLISHED, co_published_at := Some (clock (proc s))\<rparr>) s = (Inr a, b)"
    and insert: "\<exists>i. insert_row course_publish_histories_table h (b\<lparr>proc := i\<rparr>) = (Inr u, e)"
      "ph_course h = co_id c" "ph_new_status h = C_PUBLISHED"
    and s': "committed s' = working e"
    apply (clarsimp simp: publish_course_def bind_tx_Inr_iff basic_Inr_iff split: if_splits)
    apply (frule publish_reads(1) [THEN conjunct1], frule publish_reads(2) [THEN conjunct1], drule detail, hypsubst)
    apply (rule that, assumption, assumption, assumption, rule exI, assumption, simp_all)
    done
  show thesis
    by (rule that [of c h]) (use publish_reads(1) [OF c] publish_reads(2) [OF ready] save insert s' in
      \<open>auto simp: save_row_Inr_iff insert_row_Inr_iff\<close>)
qed

lemma course_published:
  assumes "publish_course ctx pr i remark s = (Inr r, s')" "courses_inv (working s) (proc s)"
  shows "courses_inv (committed s') (proc s')"
  using assms(1)
proof (rule publish_courseE)
  fix c h
  let ?d = "working s" and ?e = "committed s'"
  assume c: "co_id c = i" and cs: "courses ?e = replace_where (\<lambda>q. co_id q = i \<and> rls_tenant s = Some (co_tenant q))
      (\<lambda>_. c\<lparr>co_status := C_PUBLISHED, co_published_at := Some (clock (proc s))\<rparr>) (courses ?d)"
    and h: "course_publish_histories ?e = course_publish_histories ?d @ [h]" "ph_course h = i"
      "ph_new_status h = C_PUBLISHED"
    and same: "course_modules ?e = course_modules ?d" "lessons ?e = lessons ?d"
    and content: "\<exists>m\<in>set (course_modules ?d). \<exists>l\<in>set (lessons ?d). mo_course m = i \<and> mo_deleted_at m = None \<and>
       ln_module l = mo_id m \<and> ln_deleted_at l = None"
  have "course_ready ?e i" using content h unfolding course_ready_def same by auto
  moreover have "course_ready ?e j" if "course_ready ?d j" for j
    using that unfolding course_ready_def same h by auto
  ultimately show ?thesis
    using assms(2) c same by (auto simp: courses_inv_def course_ok_def cs set_replace_where)
qed

section \<open>The requests\<close>

lemma courses_serve_inv:
  assumes "courses_inv d p" "serve (learn_handle c) d p = (r, d', p')"
  shows "courses_inv d' p'"
proof -
  note run = assms(2) [unfolded learn_handle_def]
  note ok = serve_call_ok [OF atomic_learn_handle [unfolded learn_handle_def]
      keeps_fresh_learn [unfolded learn_handle_def] proc_stable_content(2) assms(1) _ run]
  note frame = content_kept_inv [OF serve_call_frame [where P = "content_kept d",
        OF _ content_kept_refl [OF assms(1)] run]]
  show ?thesis
  proof (cases "cl_request c")
    case (Publish_Course i remark)
    then show ?thesis
      by (intro ok) (use assms(1) in \<open>auto simp: discard_Inr dest: course_published\<close>)
  qed (auto intro!: frame keeps_discard keeps_validated keeps_learn_reads content_keeps
      ensures_keeps [OF content_course_changes(1)] ensures_keeps [OF content_course_changes(2)]
      ensures_keeps [OF content_course_changes(3)] ensures_keeps [OF content_updates(1)]
      ensures_keeps [OF content_updates(2)] ensures_keeps [OF content_reorder])
qed

interpretation course_service: service learn_handle courses_inv
proof
  show "courses_inv d p \<Longrightarrow> serve (learn_handle c) d p = (r, d', p') \<Longrightarrow> courses_inv d' p'"
    for d p c r d' p'
    by (rule courses_serve_inv)
  show "courses_inv d p \<Longrightarrow> clock p \<le> t \<Longrightarrow> courses_inv d (p\<lparr>clock := t\<rparr>)" for d p t
    by (simp add: courses_inv_def)
qed

end
