(* ===== verification/Question_Inv.thy ===== *)
theory Question_Inv
  imports Question_Facts
begin

text \<open>
  The options of every stored question fit its type: an invariant of the requests of PrepQuestion,
  the approval of generated questions included.
\<close>

section \<open>The invariant\<close>

definition well_typed :: "question \<Rightarrow> question_option list \<Rightarrow> bool" where
  "well_typed q os \<longleftrightarrow> qu_negative_marks q \<le> qu_marks q \<and>
     counts_fit (qu_question_type q) (length os) (length (filter qo_is_correct os)) \<and>
     list_all (\<lambda>r. qo_tenant r = qu_tenant q) os"

definition options_in :: "question_option list \<Rightarrow> uuid \<Rightarrow> question_option list" where
  "options_in rs i = filter (\<lambda>r. qo_question r = i) rs"

definition typed_rows :: "question list \<Rightarrow> question_option list \<Rightarrow> uuid \<Rightarrow> bool" where
  "typed_rows qs rs n \<longleftrightarrow> unique_rows questions_table qs \<and> (\<forall>q\<in>set qs. qu_id q < n) \<and>
     (\<forall>r\<in>set rs. qo_question r < n) \<and> (\<forall>q\<in>set qs. well_typed q (options_in rs (qu_id q)))"

definition questions_inv :: "db \<Rightarrow> process \<Rightarrow> bool" where
  "questions_inv d p \<longleftrightarrow> typed_rows (questions d) (question_options d) (uuid_supply p)"

lemma typed_rows_later: "typed_rows qs rs m \<Longrightarrow> m \<le> n \<Longrightarrow> typed_rows qs rs n"
  unfolding typed_rows_def by force

lemma proc_stable_questions_inv: "proc_stable questions_inv"
  unfolding proc_stable_def questions_inv_def by (blast intro: typed_rows_later)

text \<open>What the validation of a payload establishes.\<close>

lemma validate_payload_Inr_iff [simp]:
  "validate_question_payload ty marks negative ds s = (Inr u, s') \<longleftrightarrow> s' = s \<and> negative \<le> marks \<and>
     counts_fit ty (length ds) (length (filter od_is_correct ds)) \<and>
     \<not> list_ex (\<lambda>d. od_order_index d = Some 0) ds"
  by (auto simp: validate_question_payload_def question_fault_def tx_simps split: if_splits)

lemma correct_counts:
  "map f xs = map g ys \<Longrightarrow> length xs = length ys \<and> length (filter f xs) = length (filter g ys)"
proof (induction xs arbitrary: ys)
  case (Cons x xs)
  then show ?case by (cases ys) auto
qed simp

section \<open>New questions\<close>

text \<open>The options stored for a question.\<close>

definition stored_options :: "uuid \<Rightarrow> uuid \<Rightarrow> option_draft list \<Rightarrow> question_option list \<Rightarrow> bool" where
  "stored_options tenant i ds os \<longleftrightarrow> list_all (\<lambda>r. qo_tenant r = tenant \<and> qo_question r = i) os \<and>
     map qo_is_correct os = map od_is_correct ds"

text \<open>The rows a step leaves alone.\<close>

definition question_frame :: "db session \<Rightarrow> db session \<Rightarrow> bool" where
  "question_frame s s' \<longleftrightarrow> questions (working s') = questions (working s) \<and> committed s' = committed s \<and>
     rls_tenant s' = rls_tenant s \<and> uuid_supply (proc s) \<le> uuid_supply (proc s')"

lemma insert_options_Inr:
  assumes "insert_options tenant i n ds s = (Inr (), s')"
  shows "question_frame s s' \<and> (\<exists>os. question_options (working s') = question_options (working s) @ os \<and>
    stored_options tenant i ds os)"
  using assms
proof (induction ds arbitrary: n s)
  case Nil
  then show ?case by (auto simp: question_frame_def stored_options_def)
next
  case (Cons d ds)
  then show ?case
    by (clarsimp simp: tx_inv) (drule Cons.IH, auto simp: question_frame_def stored_options_def)
qed

lemma insert_tags_Inr:
  assumes "insert_tags tenant i ts s = (Inr (), s')"
  shows "question_frame s s' \<and> question_options (working s') = question_options (working s)"
  using assms
proof (induction ts arbitrary: s)
  case Nil
  then show ?case by (simp add: question_frame_def)
next
  case (Cons t ts)
  from Cons.prems obtain v where "question_frame s v" "question_options (working v) = question_options (working s)"
    and rest: "insert_tags tenant i ts v = (Inr (), s')"
    by (clarsimp simp: tx_inv) (rule that [rotated 2], assumption, simp_all add: question_frame_def)
  with Cons.IH [OF rest] show ?case by (auto simp: question_frame_def)
qed

lemma delete_rows_Inr:
  "delete_options tenant i s = (Inr u, s') \<Longrightarrow> question_frame s s' \<and> question_options (working s') =
     filter (\<lambda>r. \<not> (rls_tenant s = Some (qo_tenant r) \<and> qo_tenant r = tenant \<and> qo_question r = i))
       (question_options (working s))"
  "delete_tags tenant i s = (Inr u, s') \<Longrightarrow> question_frame s s' \<and>
     question_options (working s') = question_options (working s)"
  by (auto simp: delete_options_def delete_tags_def delete_where_def question_frame_def)

lemma add_question_Inr:
  assumes "add_question tenant q ds ts s = (Inr u, s')"
    and "\<forall>r\<in>set (question_options (working s)). qo_question r \<noteq> qu_id q"
  obtains os where "questions (working s') = questions (working s) @ [stored_question q]"
    "\<forall>r\<in>set (questions (working s)). qu_id r \<noteq> qu_id q"
    "question_options (working s') = question_options (working s) @ os" "stored_options tenant (qu_id q) ds os"
    "rls_tenant s' = rls_tenant s" "uuid_supply (proc s) \<le> uuid_supply (proc s')"
proof -
  from assms(1) obtain a b c e where
    a: "insert_row questions_table (stored_question q) s = (Inr (stored_question q), a)"
    and b: "delete_options tenant (qu_id q) a = (Inr (), b)"
    and c: "delete_tags tenant (qu_id q) b = (Inr (), c)"
    and e: "insert_options tenant (qu_id q) 1 ds c = (Inr (), e)"
    and s': "insert_tags tenant (qu_id q) (normalize_tags ts) e = (Inr (), s')"
    by (clarsimp simp: add_question_def bind_tx_Inr_iff) (frule insert_row_value, rule that, simp_all)
  have a': "questions (working a) = questions (working s) @ [stored_question q]"
      "question_options (working a) = question_options (working s)"
      "\<forall>r\<in>set (questions (working s)). qu_id r \<noteq> qu_id q"
      "rls_tenant a = rls_tenant s" "proc a = proc s"
    using a by (auto simp: insert_row_Inr_iff stored_question_def)
  have "question_options (working b) = question_options (working s)"
    using delete_rows_Inr(1) [OF b] assms(2) a'(2) by (auto intro!: filter_True)
  with a' delete_rows_Inr(1) [OF b] delete_rows_Inr(2) [OF c] insert_options_Inr [OF e] insert_tags_Inr [OF s']
  show thesis by (auto simp: question_frame_def intro!: that)
qed

lemma stored_question_sel [simp]:
  "qu_id (stored_question q) = qu_id q" "qu_tenant (stored_question q) = qu_tenant q"
  "qu_question_type (stored_question q) = qu_question_type q"
  "qu_marks (stored_question q) = quantize2 (qu_marks q)"
  "qu_negative_marks (stored_question q) = quantize2 (qu_negative_marks q)"
  by (simp_all add: stored_question_def)

lemma typed_rows_added:
  assumes "typed_rows qs rs n" "qu_id q = n" "stored_options (qu_tenant q) n ds os"
    and "qu_negative_marks q \<le> qu_marks q"
    and "counts_fit (qu_question_type q) (length ds) (length (filter od_is_correct ds))"
  shows "typed_rows (qs @ [stored_question q]) (rs @ os) (Suc n)"
proof -
  have fresh: "options_in rs n = []" using assms(1) by (auto simp: typed_rows_def options_in_def filter_empty_conv)
  have own: "options_in os n = os" "i < n \<Longrightarrow> options_in os i = []" for i
    using assms(3) by (auto simp: stored_options_def options_in_def list_all_iff filter_empty_conv intro!: filter_True)
  have split: "options_in (rs @ os) i = options_in rs i @ options_in os i" for i by (simp add: options_in_def)
  have "well_typed (stored_question q) os"
    using assms(3-5) correct_counts [of qo_is_correct os od_is_correct ds]
    by (simp add: well_typed_def stored_options_def quantize2_mono list_all_iff)
  moreover have "unique_rows questions_table (qs @ [stored_question q])"
    using assms(1,2) by (intro questions_tbl.unique_append) (auto simp: typed_rows_def)
  ultimately show ?thesis
    using assms(1-3) unfolding typed_rows_def split
    by (auto simp: own fresh stored_options_def list_all_iff less_Suc_eq)
qed

section \<open>The requests\<close>

lemma questions_inv_added:
  assumes "add_question (qu_tenant q) q ds ts (s\<lparr>proc := p\<rparr>) = (Inr (), s')"
    and "questions_inv (working s) (proc s)" "qu_id q = uuid_supply (proc s)" "uuid_supply p = Suc (qu_id q)"
    and "qu_negative_marks q \<le> qu_marks q"
    and "counts_fit (qu_question_type q) (length ds) (length (filter od_is_correct ds))"
  shows "questions_inv (working s') (proc s')"
proof (rule add_question_Inr [OF assms(1)])
  show "\<forall>r\<in>set (question_options (working (s\<lparr>proc := p\<rparr>))). qo_question r \<noteq> qu_id q"
    using assms(2,3) by (auto simp: questions_inv_def typed_rows_def)
  fix os
  assume a: "questions (working s') = questions (working (s\<lparr>proc := p\<rparr>)) @ [stored_question q]"
    "question_options (working s') = question_options (working (s\<lparr>proc := p\<rparr>)) @ os"
    "stored_options (qu_tenant q) (qu_id q) ds os" "uuid_supply (proc (s\<lparr>proc := p\<rparr>)) \<le> uuid_supply (proc s')"
  show ?thesis
    unfolding questions_inv_def a
    by (rule typed_rows_later [OF typed_rows_added [where n = "uuid_supply (proc s)"]])
      (use assms(2-6) a(3,4) in \<open>auto simp: questions_inv_def\<close>)
qed

lemma question_reads_same:
  "get_topic_or_raise t i s = (Inr x, s') \<Longrightarrow> s' = s" "get_question_or_raise t i s = (Inr q, s') \<Longrightarrow> s' = s"
  "read_question qn s = (Inr r, s') \<Longrightarrow> s' = s"
  by (auto simp: question_read_defs tx_inv)

lemma question_created:
  assumes "create_question ctx pr p s = (Inr r, s')" "questions_inv (working s) (proc s)"
  shows "questions_inv (committed s') (proc s')"
proof -
  let ?p = "(proc s)\<lparr>uuid_supply := Suc (uuid_supply (proc s))\<rparr>"
  from assms(1) obtain tenant v where
    valid: "qcr_negative_marks p \<le> qcr_marks p"
      "counts_fit (qcr_question_type p) (length (qcr_options p)) (length (filter od_is_correct (qcr_options p)))"
    and add: "add_question tenant (new_question (uuid_supply (proc s)) tenant (clock (proc s)) pr p)
      (qcr_options p) (qcr_tags p) (s\<lparr>proc := ?p\<rparr>) = (Inr (), v)"
    and s': "committed s' = working v" "uuid_supply (proc s') = uuid_supply (proc v)"
    by (auto simp: create_question_def Let_def tx_inv dest!: question_reads_same)
  have "questions_inv (working v) (proc v)"
    by (rule questions_inv_added [where q = "new_question (uuid_supply (proc s)) tenant (clock (proc s)) pr p" and s = s
        and p = ?p])
      (use add assms(2) valid in \<open>simp_all add: new_question_def\<close>)
  with s' show ?thesis by (simp add: questions_inv_def)
qed

lemma update_reads_same:
  "options_of i s = (Inr os, s') \<Longrightarrow> s' = s" "tags_of i s = (Inr ts, s') \<Longrightarrow> s' = s"
  "check_new_topic t f s = (Inr u, s') \<Longrightarrow> s' = s"
  "validate_question_update p q options s = (Inr u, s') \<Longrightarrow> s' = s"
  "(case x of None \<Rightarrow> return_tx () | Some st \<Rightarrow> validate_status_transition current st) s = (Inr u, s') \<Longrightarrow> s' = s"
  "require_tenant_id ctx s = (Inr tenant, s') \<Longrightarrow> s' = s"
  by (auto simp: options_of_def tags_of_def check_new_topic_def validate_question_update_def Let_def
      validate_status_transition_def tx_inv select_rows_run dest: question_reads_same
      split: field.splits option.splits if_splits)

text \<open>An update leaves the options, or refuses all but an empty list of new ones.\<close>

lemma update_questionE:
  assumes "update_question ctx pr i p s = (Inr r, s')"
  obtains old q os where "old \<in> set (questions (working s))" "q = apply_question_update p old"
    "rls_tenant s = Some (qu_tenant old)" "qu_negative_marks q \<le> qu_marks q"
    "counts_fit (qu_question_type q) (length os) (length (filter qo_is_correct os))"
    "os = (if assign (qup_options p) None = None then
       filter (\<lambda>r. qo_tenant r = qu_tenant old) (options_in (question_options (working s)) (qu_id old)) else [])"
    "questions (committed s') = replace_where (\<lambda>r. qu_id r = qu_id q \<and> qu_tenant r = qu_tenant old)
       (\<lambda>_. stored_question q) (questions (working s))"
    "question_options (committed s') = (if assign (qup_options p) None = None then question_options (working s)
       else filter (\<lambda>r. \<not> (qo_tenant r = qu_tenant old \<and> qo_question r = qu_id old)) (question_options (working s)))"
    "uuid_supply (proc s) \<le> uuid_supply (proc s')"
proof -
  from assms obtain tenant old options a b c e f u1 u2 u3 u4 where
    old: "get_question_or_raise tenant i s = (Inr old, s)"
    and options: "options_of (qu_id old) s = (Inr options, s)"
    and valid: "validate_question_update p old options s = (Inr u1, s)"
    and gone: "when_tx (assign (qup_options p) None \<noteq> None) (delete_options tenant (qu_id old)) s = (Inr u2, a)"
    and tags: "when_tx (assign (qup_tags p) None \<noteq> None) (delete_tags tenant (qu_id old)) a = (Inr u3, b)"
    and save: "flush_update questions_table (question_update_null p)
      (stored_question (apply_question_update p old)) b = (Inr c, e)"
    and new: "(case assign (qup_tags p) None of None \<Rightarrow> return_tx ()
      | Some ts \<Rightarrow> insert_tags tenant (qu_id old) (normalize_tags ts)) e = (Inr u4, f)"
    and s': "committed s' = working f" "uuid_supply (proc s') = uuid_supply (proc f)"
    apply (simp only: update_question_def Let_def bind_tx_Inr_iff on_conflict_Inr_iff)
    apply (elim exE conjE)
    apply (frule update_reads_same(6), hypsubst, frule question_reads_same(2), hypsubst,
        frule update_reads_same(1), hypsubst, frule update_reads_same(2), hypsubst,
        frule update_reads_same(4), hypsubst, frule update_reads_same(5), hypsubst,
        frule update_reads_same(3), hypsubst)
    apply (rule that, assumption+)
     apply (auto simp: tx_inv split: if_splits)
    done
  from old have found: "old \<in> set (questions (working s))" "rls_tenant s = Some (qu_tenant old)" "tenant = qu_tenant old"
    by (auto simp: get_question_or_raise_def question_get_for_tenant_def dest!: questions_tbl.lookup_own)
  have os: "options = filter (\<lambda>r. qo_tenant r = qu_tenant old) (options_in (question_options (working s)) (qu_id old))"
    using options found(2) by (auto simp: options_of_def select_rows_run options_in_def intro: filter_cong)
  let ?q = "apply_question_update p old"
  have key: "qu_id ?q = qu_id old" by (simp add: apply_question_update_def)
  have a: "questions (working a) = questions (working s)" "rls_tenant a = rls_tenant s"
      "uuid_supply (proc s) \<le> uuid_supply (proc a)"
      "question_options (working a) = (if assign (qup_options p) None = None then question_options (working s)
        else filter (\<lambda>r. \<not> (qo_tenant r = qu_tenant old \<and> qo_question r = qu_id old)) (question_options (working s)))"
    using gone delete_rows_Inr(1) [of tenant "qu_id old" s u2 a] found(2,3)
    by (auto simp: when_tx_run question_frame_def intro!: filter_cong split: if_splits)
  have b: "question_frame a b" "question_options (working b) = question_options (working a)"
    using tags delete_rows_Inr(2) [of tenant "qu_id old" a u3 b]
    by (auto simp: when_tx_run question_frame_def split: if_splits)
  have f: "question_frame e f" "question_options (working f) = question_options (working e)"
    using new insert_tags_Inr [of tenant "qu_id old" _ e f]
    by (auto simp: question_frame_def split: option.splits)
  have fits: "qu_negative_marks ?q \<le> qu_marks ?q"
      "counts_fit (qu_question_type ?q) (length (if assign (qup_options p) None = None then options else []))
        (length (filter qo_is_correct (if assign (qup_options p) None = None then options else [])))"
    using valid by (auto simp: validate_question_update_def Let_def apply_question_update_def draft_of_def
        filter_map o_def split: option.splits if_splits)
  have e: "questions (working e) = replace_where (\<lambda>r. qu_id r = qu_id ?q \<and> qu_tenant r = qu_tenant old)
       (\<lambda>_. stored_question ?q) (questions (working s))"
      "question_options (working e) = question_options (working b)" "proc e = proc b"
    using save a b found(2) by (auto simp: flush_update_Inr_iff save_row_Inr_iff question_frame_def replace_where_def)
  show thesis
    by (rule that [OF found(1) refl found(2) fits])
      (use a b e f s' in \<open>simp_all add: os question_frame_def\<close>)
qed

lemma question_updated:
  assumes "update_question ctx pr i p s = (Inr r, s')" "questions_inv (working s) (proc s)"
  shows "questions_inv (committed s') (proc s')"
  using assms(1)
proof (rule update_questionE)
  fix old q os
  assume old: "old \<in> set (questions (working s))" and q: "q = apply_question_update p old"
    and fits: "qu_negative_marks q \<le> qu_marks q"
      "counts_fit (qu_question_type q) (length os) (length (filter qo_is_correct os))"
    and os: "os = (if assign (qup_options p) None = None then
       filter (\<lambda>r. qo_tenant r = qu_tenant old) (options_in (question_options (working s)) (qu_id old)) else [])"
    and qs: "questions (committed s') = replace_where (\<lambda>r. qu_id r = qu_id q \<and> qu_tenant r = qu_tenant old)
       (\<lambda>_. stored_question q) (questions (working s))"
    and rs: "question_options (committed s') = (if assign (qup_options p) None = None then question_options (working s)
       else filter (\<lambda>r. \<not> (qo_tenant r = qu_tenant old \<and> qo_question r = qu_id old)) (question_options (working s)))"
    and later: "uuid_supply (proc s) \<le> uuid_supply (proc s')"
  let ?qs = "questions (working s)" and ?rs = "question_options (working s)" and ?n = "uuid_supply (proc s)"
  have key: "qu_id q = qu_id old" "qu_tenant q = qu_tenant old" by (simp_all add: q apply_question_update_def)
  note inv = assms(2) [unfolded questions_inv_def typed_rows_def]
  have whole: "list_all (\<lambda>r. qo_tenant r = qu_tenant old) (options_in ?rs (qu_id old))"
    using inv old by (auto simp: well_typed_def)
  then have os': "options_in (question_options (committed s')) (qu_id old) = os"
    unfolding os rs by (auto simp: options_in_def list_all_iff filter_empty_conv intro!: filter_cong)
  have others: "options_in (question_options (committed s')) j = options_in ?rs j" if "j \<noteq> qu_id old" for j
    using that unfolding rs by (auto simp: options_in_def intro!: filter_cong)
  have "well_typed (stored_question q) os"
    using fits whole by (auto simp: well_typed_def key os quantize2_mono list_all_iff)
  moreover have "unique_rows questions_table (questions (committed s'))"
    using questions_tbl.unique_replace [of ?qs "stored_question q" "\<lambda>r. qu_tenant r = qu_tenant old"] inv
    by (simp add: qs)
  moreover have "well_typed r (options_in (question_options (committed s')) (qu_id r))"
    if "r \<in> set (questions (committed s'))" for r
  proof (cases "qu_id r = qu_id old")
    case True
    with that old inv \<open>well_typed (stored_question q) os\<close> show ?thesis
      by (auto simp: qs set_replace_where key os' dest: unique_rows_key [of questions_table])
  next
    case False
    with that inv show ?thesis by (auto simp: qs set_replace_where key others)
  qed
  moreover have "\<forall>r\<in>set (questions (committed s')). qu_id r < ?n"
    using inv old by (auto simp: qs set_replace_where key)
  moreover have "\<forall>r\<in>set (question_options (committed s')). qo_question r < ?n"
    using inv by (auto simp: rs)
  ultimately have "typed_rows (questions (committed s')) (question_options (committed s')) ?n"
    by (simp add: typed_rows_def)
  then show ?thesis
    unfolding questions_inv_def by (rule typed_rows_later [OF _ later])
qed

section \<open>Generated questions\<close>

lemma candidate_typed:
  assumes "create_question_from_ai_candidate tenant pr job topic c st s = (Inr q, s')"
    and "questions_inv (working s) (proc s)"
  shows "questions_inv (working s') (proc s')"
proof -
  let ?p = "(proc s)\<lparr>uuid_supply := Suc (uuid_supply (proc s))\<rparr>"
  let ?q = "question_of_candidate (uuid_supply (proc s)) tenant (clock (proc s)) pr job topic c st"
  from assms(1) have add: "add_question tenant ?q (ac_options c) (ac_tags c) (s\<lparr>proc := ?p\<rparr>) = (Inr (), s')"
    and valid: "ac_negative_marks c \<le> ac_marks c"
      "counts_fit (ai_question_type job) (length (ac_options c)) (length (filter od_is_correct (ac_options c)))"
    by (auto simp: create_question_from_ai_candidate_def Let_def tx_inv)
  show ?thesis
    by (rule questions_inv_added [where q = ?q and s = s and p = ?p])
      (use add assms(2) valid in \<open>simp_all add: question_of_candidate_def\<close>)
qed

lemma candidates_typed:
  assumes "for_each (\<lambda>index. case f index of None \<Rightarrow> abort e n
      | Some c \<Rightarrow> create_question_from_ai_candidate tenant pr job topic c st) indexes s = (Inr qs, s')"
    and "questions_inv (working s) (proc s)"
  shows "questions_inv (working s') (proc s')"
  using assms
proof (induction indexes arbitrary: s qs)
  case (Cons index indexes)
  then show ?case by (auto simp: bind_tx_Inr_iff split: option.splits dest!: candidate_typed)
qed simp

lemma questions_inv_rows:
  "questions d' = questions d \<Longrightarrow> question_options d' = question_options d \<Longrightarrow>
   uuid_supply p \<le> uuid_supply p' \<Longrightarrow> questions_inv d p \<Longrightarrow> questions_inv d' p'"
  by (auto simp: questions_inv_def intro: typed_rows_later)

lemma approval_reads_same:
  "for_each (\<lambda>q. bind_tx (get_question_or_raise t (qu_id q)) (\<lambda>_. read_question q)) qs s = (Inr rs, s') \<Longrightarrow> s' = s"
proof (induction qs arbitrary: s rs)
  case (Cons q qs)
  then show ?case by (auto simp: bind_tx_Inr_iff dest!: question_reads_same)
qed simp

lemma job_approved:
  assumes "approve_ai_generation_job ctx pr i p s = (Inr r, s')" "questions_inv (working s) (proc s)"
  shows "questions_inv (committed s') (proc s')"
proof -
  from assms(1) obtain tenant job a topic b qs c d e where
    topic: "resolve_ai_approval_topic tenant job (aja_topic p) s = (Inr topic, a)"
    and made: "for_each (\<lambda>index. case list_index (ai_output job) index of
        None \<Rightarrow> abort ''ai_generation_selection_invalid'' 422
      | Some c \<Rightarrow> create_question_from_ai_candidate tenant pr job (tp_id topic) c (aja_status p))
      (selected_indexes job p) a = (Inr qs, b)"
    and save: "save_row ai_jobs_table c b = (Inr d, e)"
    and s': "committed s' = working e" "uuid_supply (proc s') = uuid_supply (proc e)"
    by (clarsimp simp: approve_ai_generation_job_def bind_tx_Inr_iff basic_Inr_iff get_ai_job_or_raise_def
        ai_job_get_for_tenant_def split: if_split_asm split del: if_split)
      (drule approval_reads_same, rule that, assumption+, simp_all)
  have "questions_inv (working a) (proc a)"
    using topic assms(2) by (auto simp: resolve_ai_approval_topic_def get_topic_or_raise_def topic_get_for_tenant_def
        topic_get_by_slug_def tx_inv split: option.splits elim!: questions_inv_rows [rotated 3])
  from candidates_typed [OF made this] save s' show ?thesis
    by (auto simp: save_row_Inr_iff elim!: questions_inv_rows [rotated 3])
qed

lemma keeps_question_sets:
  assumes "tx_ok J" "table_ok J question_topics_table" "table_ok J question_sets_table"
    "table_ok J question_set_items_table" "table_ok J ai_jobs_table"
  shows "keeps J (create_topic ctx pr tc)" "keeps J (create_question_set ctx pr sc)"
    "keeps J (add_question_set_item ctx pr i ic)" "keeps J (reorder_question_set ctx pr i order)"
    "keeps J (remove_question_set_item ctx pr i j)"
    "keeps J (create_ai_generation_job generate ctx pr jc)"
  unfolding question_write_defs flush_set_items_def
  by (intro keeps_intros; use assms in auto)+

lemma question_frames:
  "tx_ok (both questions_inv)" "table_ok (both questions_inv) question_topics_table"
  "table_ok (both questions_inv) question_sets_table" "table_ok (both questions_inv) question_set_items_table"
  "table_ok (both questions_inv) ai_jobs_table"
  by (simp_all add: tx_ok_both proc_stable_questions_inv table_ok_both framed_def questions_inv_def)

lemma questions_serve_inv:
  assumes "questions_inv d p" "serve (question_handle c) d p = (r, d', p')"
  shows "questions_inv d' p'"
proof -
  note run = assms(2) [unfolded question_handle_def]
  note ok = serve_call_ok [OF atomic_question_handle [unfolded question_handle_def]
      keeps_fresh_question [unfolded question_handle_def] proc_stable_questions_inv assms(1) _ run]
  note frame = serve_call_frame [where P = questions_inv, OF _ assms(1) run]
  show ?thesis
  proof (cases "cl_request c")
    case (Create_Question q)
    then show ?thesis
      by (intro ok) (use assms(1) in \<open>auto simp: validated_Inr discard_Inr dest: question_created\<close>)
  next
    case (Update_Question i q)
    then show ?thesis
      by (intro ok) (use assms(1) in \<open>auto simp: validated_Inr discard_Inr dest: question_updated\<close>)
  next
    case (Approve_AI_Job i q)
    then show ?thesis
      by (intro ok) (use assms(1) in \<open>auto simp: discard_Inr dest: job_approved\<close>)
  qed (auto intro!: frame keeps_discard keeps_validated keeps_question_reads keeps_question_sets [OF question_frames])
qed

interpretation question_service: service question_handle questions_inv
proof
  show "questions_inv d p \<Longrightarrow> serve (question_handle c) d p = (r, d', p') \<Longrightarrow> questions_inv d' p'"
    for d p c r d' p'
    by (rule questions_serve_inv)
  show "questions_inv d p \<Longrightarrow> clock p \<le> t \<Longrightarrow> questions_inv d (p\<lparr>clock := t\<rparr>)" for d p t
    by (rule proc_stableD [OF proc_stable_questions_inv]) auto
qed

end
