(* ===== verification/People_Inv.thy ===== *)
theory People_Inv
  imports People_Facts
begin

text \<open>
  The status history explains the status of every employee: its rows form a chain of changes from the
  creation to the current status.  An invariant of the requests of PrepPeople.
\<close>

section \<open>The invariant\<close>

text \<open>Read in order, the changes lead from \<open>status\<close>, none before the creation, to \<open>current\<close>.\<close>

fun changes_lead :: "employee_status option \<Rightarrow> employee_status_history list \<Rightarrow> employee_status \<Rightarrow> bool" where
  "changes_lead status [] current \<longleftrightarrow> status = Some current"
| "changes_lead status (h # hs) current \<longleftrightarrow>
     eh_from_status h = status \<and> changes_lead (Some (eh_to_status h)) hs current"

lemma changes_lead_append:
  "changes_lead status hs current \<Longrightarrow> eh_from_status h = Some current \<Longrightarrow>
   changes_lead status (hs @ [h]) (eh_to_status h)"
  by (induction hs arbitrary: status) auto

definition changes_of :: "employee_status_history list \<Rightarrow> uuid \<Rightarrow> employee_status_history list" where
  "changes_of hs i = filter (\<lambda>h. eh_employee h = i) hs"

definition explained_rows :: "employee list \<Rightarrow> employee_status_history list \<Rightarrow> uuid \<Rightarrow> bool" where
  "explained_rows es hs n \<longleftrightarrow> unique_rows employees_table es \<and> (\<forall>e\<in>set es. em_id e < n) \<and>
     (\<forall>h\<in>set hs. eh_employee h < n) \<and>
     (\<forall>e\<in>set es. changes_lead None (changes_of hs (em_id e)) (em_status e))"

definition employees_inv :: "db \<Rightarrow> process \<Rightarrow> bool" where
  "employees_inv d p \<longleftrightarrow> explained_rows (employees d) (employee_status_histories d) (uuid_supply p)"

lemma explained_later: "explained_rows es hs m \<Longrightarrow> m \<le> n \<Longrightarrow> explained_rows es hs n"
  unfolding explained_rows_def by force

lemma proc_stable_employees_inv: "proc_stable employees_inv"
  unfolding proc_stable_def employees_inv_def by (blast intro: explained_later)

section \<open>New employees\<close>

lemma explained_created:
  assumes "explained_rows es hs n" "em_id e = n" "\<forall>q\<in>set es. \<not> employee_clash q e"
    and "eh_employee h = n" "eh_from_status h = None" "eh_to_status h = em_status e"
  shows "explained_rows (es @ [e]) (hs @ [h]) (Suc n)"
proof -
  have "changes_of hs n = []" using assms(1) by (auto simp: explained_rows_def changes_of_def filter_empty_conv)
  then have "changes_lead None (changes_of (hs @ [h]) n) (em_status e)"
    using assms(4-6) by (simp add: changes_of_def)
  moreover have "changes_of (hs @ [h]) i = changes_of hs i" if "i < n" for i
    using that assms(4) by (simp add: changes_of_def)
  moreover have "unique_rows employees_table (es @ [e])"
    using assms(1-3) by (intro employees_tbl.unique_append) (auto simp: explained_rows_def)
  ultimately show ?thesis
    using assms(1,2,4) by (auto simp: explained_rows_def less_Suc_eq)
qed

text \<open>The steps that touch neither employees nor their histories.\<close>

definition people_frame :: "db session \<Rightarrow> db session \<Rightarrow> bool" where
  "people_frame s s' \<longleftrightarrow> employees (working s') = employees (working s) \<and>
     employee_status_histories (working s') = employee_status_histories (working s) \<and>
     rls_tenant s' = rls_tenant s \<and> uuid_supply (proc s) \<le> uuid_supply (proc s')"

lemma people_frame_refl [simp]: "people_frame s s"
  by (simp add: people_frame_def)

lemma upsert_profile_frame: "upsert_profile t i p s = (Inr r, s') \<Longrightarrow> people_frame s s'"
  by (auto simp: upsert_profile_def profile_get_by_employee_def tx_inv people_frame_def split: option.splits)

lemma profile_frame:
  "(case q of None \<Rightarrow> return_tx () | Some x \<Rightarrow> bind_tx (upsert_profile t i (f x)) (\<lambda>_. return_tx ())) s = (Inr u, s') \<Longrightarrow>
   people_frame s s'"
  by (auto simp: tx_inv split: option.splits dest: upsert_profile_frame)

lemma append_historyE:
  assumes "append_employee_history e st st' reason pr s = (Inr u, s')"
  obtains h where "employee_status_histories (working s') = employee_status_histories (working s) @ [h]"
    "eh_employee h = em_id e" "eh_from_status h = st" "eh_to_status h = st'"
    "employees (working s') = employees (working s)" "rls_tenant s' = rls_tenant s"
    "uuid_supply (proc s) \<le> uuid_supply (proc s')"
  using assms by (auto simp: append_employee_history_def tx_inv)

lemma people_reads_same:
  "require_tenant_id ctx s = (Inr tenant, s') \<Longrightarrow> s' = s"
  "validate_user_link us tenant i s = (Inr u, s') \<Longrightarrow> s' = s"
  "validate_department tenant i s = (Inr u, s') \<Longrightarrow> s' = s"
  "get_employee ctx j s = (Inr e, s') \<Longrightarrow> s' = s"
  by (auto simp: validate_user_link_def validate_department_def department_get_for_tenant_def get_employee_def
      employee_get_for_tenant_def tx_inv split: option.splits if_splits)

lemma employee_created:
  assumes "create_employee us ctx pr p s = (Inr e, s')" "employees_inv (working s) (proc s)"
  shows "employees_inv (committed s') (proc s')"
proof -
  let ?p = "(proc s)\<lparr>uuid_supply := Suc (uuid_supply (proc s))\<rparr>"
  from assms(1) obtain tenant a b c u where
    a: "insert_row employees_table (new_employee (uuid_supply (proc s)) tenant (clock (proc s)) p)
      (s\<lparr>proc := ?p\<rparr>) = (Inr e, a)"
    and prof: "(case emc_profile p of None \<Rightarrow> return_tx () | Some q \<Rightarrow>
      bind_tx (upsert_profile tenant (em_id e) (full_patch q)) (\<lambda>_. return_tx ())) a = (Inr u, b)"
    and c: "append_employee_history e None (em_status e) (Some ''employee created'') pr b = (Inr (), c)"
    and s': "committed s' = working c" "uuid_supply (proc s') = uuid_supply (proc c)"
    apply (simp only: create_employee_def bind_tx_Inr_iff on_conflict_Inr_iff)
    apply (elim exE conjE)
    apply (frule people_reads_same(1), hypsubst, frule people_reads_same(2), hypsubst,
        frule people_reads_same(3), hypsubst)
    apply (clarsimp simp: tx_inv)
    done
  note b = profile_frame [OF prof]
  let ?n = "uuid_supply (proc s)"
  from a have e: "em_id e = ?n" "\<forall>q\<in>set (employees (working s)). \<not> employee_clash q e"
      "employees (working a) = employees (working s) @ [e]" "uuid_supply (proc a) = Suc ?n"
      "employee_status_histories (working a) = employee_status_histories (working s)"
    by (auto simp: insert_row_Inr_iff new_employee_def)
  show ?thesis
    using c
  proof (rule append_historyE)
    fix h
    assume h: "employee_status_histories (working c) = employee_status_histories (working b) @ [h]"
      "eh_employee h = em_id e" "eh_from_status h = None" "eh_to_status h = em_status e"
      "employees (working c) = employees (working b)" "uuid_supply (proc b) \<le> uuid_supply (proc c)"
    have "explained_rows (employees (working s) @ [e]) (employee_status_histories (working s) @ [h]) (Suc ?n)"
      using assms(2) e h by (intro explained_created) (simp_all add: employees_inv_def)
    then show ?thesis
      using b e h s' by (auto simp: employees_inv_def people_frame_def elim: explained_later)
  qed
qed

section \<open>Updates\<close>

text \<open>Exactly one of the three branches flushes the employee; the first one writes the history.\<close>

lemma employee_flushed:
  assumes "bind_tx (flush_update employees_table b e) (\<lambda>_. return_tx ()) s = (Inr u, s')"
    "rls_tenant s = Some (em_tenant old)"
  shows "\<not> b \<and> (\<forall>q\<in>set (employees (working s)). em_id q \<noteq> em_id e \<longrightarrow> \<not> employee_clash q e) \<and>
    employees (working s') =
      replace_where (\<lambda>r. em_id r = em_id e \<and> em_tenant r = em_tenant old) (\<lambda>_. e) (employees (working s)) \<and>
    employee_status_histories (working s') = employee_status_histories (working s) \<and>
    rls_tenant s' = rls_tenant s \<and> proc s' = proc s"
  using assms by (auto simp: flush_update_Inr_iff tx_inv replace_where_def)

lemma update_employeeE:
  assumes "update_employee us ctx pr i p s = (Inr e, s')"
  obtains old where "old \<in> set (employees (working s))" "e = apply_employee_update p old"
    "employees (committed s') = replace_where (\<lambda>r. em_id r = em_id e \<and> em_tenant r = em_tenant old)
       (\<lambda>_. e) (employees (working s))"
    "if em_status e = em_status old
     then employee_status_histories (committed s') = employee_status_histories (working s)
     else \<exists>h. employee_status_histories (committed s') = employee_status_histories (working s) @ [h] \<and>
       eh_employee h = em_id old \<and> eh_from_status h = Some (em_status old) \<and> eh_to_status h = em_status e"
    "\<forall>q\<in>set (employees (working s)). em_id q \<noteq> em_id e \<longrightarrow> \<not> employee_clash q e"
    "uuid_supply (proc s) \<le> uuid_supply (proc s')"
proof -
  let ?e = "\<lambda>old. apply_employee_update p old"
  let ?flush = "\<lambda>old. bind_tx (flush_update employees_table (employee_update_null p) (?e old)) (\<lambda>_. return_tx ())"
  from assms obtain tenant old a b c u1 u2 u3 where
    old: "get_employee ctx i s = (Inr old, s)"
    and a: "when_tx (employee_changes_status p old) (bind_tx (?flush old) (\<lambda>_. append_employee_history (?e old)
      (Some (em_status old)) (em_status (?e old)) (assign (emu_status_change_reason p) None) pr)) s = (Inr u1, a)"
    and b: "(case assign (emu_profile p) None of None \<Rightarrow> return_tx ()
      | Some q \<Rightarrow> bind_tx (when_tx (\<not> employee_changes_status p old) (?flush old)) (\<lambda>_.
          bind_tx (upsert_profile tenant (em_id old) q) (\<lambda>_. return_tx ()))) a = (Inr u2, b)"
    and c: "when_tx (\<not> employee_changes_status p old \<and> assign (emu_profile p) None = None) (?flush old) b = (Inr u3, c)"
    and e: "e = ?e old"
    and s': "committed s' = working c" "uuid_supply (proc s') = uuid_supply (proc c)"
    apply (simp only: update_employee_def Let_def bind_tx_Inr_iff on_conflict_Inr_iff return_tx_run)
    apply (elim exE conjE)
    apply (frule people_reads_same(1), hypsubst, frule people_reads_same(4), hypsubst,
        frule people_reads_same(2), hypsubst, frule people_reads_same(3), hypsubst)
    apply (simp only: prod.inject sum.inject)
    apply (elim conjE, hypsubst)
    apply (rule that, assumption+)
      apply (auto simp: tx_inv)
    done
  from old have found: "old \<in> set (employees (working s))" "rls_tenant s = Some (em_tenant old)"
    by (auto simp: get_employee_def employee_get_for_tenant_def tx_inv dest!: employees_tbl.lookup_own)
  have key: "em_id e = em_id old" by (simp add: e apply_employee_update_def)
  show thesis
  proof (cases "employee_changes_status p old")
    case True
    with a obtain u0 v where f: "?flush old s = (Inr u0, v)"
      and h: "append_employee_history e (Some (em_status old)) (em_status e)
        (assign (emu_status_change_reason p) None) pr v = (Inr u1, a)"
      by (auto simp: when_tx_run bind_tx_Inr_iff [where m = "?flush old"] e)
    note v = employee_flushed [OF f found(2), folded e]
    have changed: "em_status e \<noteq> em_status old"
      using True v by (auto simp: e employee_changes_status_def apply_employee_update_def employee_update_null_def
          is_null_def split: field.splits option.splits)
    have "people_frame a c"
      using b c True by (auto simp: when_tx_run return_tx_run tx_inv split: option.splits dest: upsert_profile_frame)
    with h v changed s' show thesis
      by (elim append_historyE) (rule that [OF found(1) e], auto simp: people_frame_def key)
  next
    case False
    have same: "em_status e = em_status old"
      using False by (auto simp: e employee_changes_status_def apply_employee_update_def split: field.splits option.splits)
    from False a have "a = s" by (simp add: when_tx_run return_tx_run)
    with b c False obtain u0 v where f: "?flush old s = (Inr u0, v)" and "people_frame v c"
      by (auto simp: when_tx_run return_tx_run bind_tx_Inr_iff split: option.splits dest: upsert_profile_frame)
    with employee_flushed [OF f found(2), folded e] same s' show thesis
      by (intro that [OF found(1) e]) (auto simp: people_frame_def)
  qed
qed

lemma explained_updated:
  assumes "explained_rows es hs n" "old \<in> set es" "em_id e = em_id old" "em_tenant e = em_tenant old"
    and "es' = replace_where (\<lambda>r. em_id r = em_id e \<and> em_tenant r = em_tenant old) (\<lambda>_. e) es"
    and "changes_lead None (changes_of hs' (em_id old)) (em_status e)"
    and "\<And>j. j \<noteq> em_id old \<Longrightarrow> changes_of hs' j = changes_of hs j"
    and "\<forall>h\<in>set hs'. eh_employee h < n" "unique_rows employees_table es'"
  shows "explained_rows es' hs' n"
proof -
  have "changes_lead None (changes_of hs' (em_id r)) (em_status r)" if "r \<in> set es'" for r
  proof (cases "em_id r = em_id old")
    case True
    with that assms show ?thesis
      by (auto simp: explained_rows_def set_replace_where dest: unique_rows_key [of employees_table])
  next
    case False
    with that assms show ?thesis by (auto simp: explained_rows_def set_replace_where)
  qed
  moreover have "\<forall>r\<in>set es'. em_id r < n"
    using assms(1-3,5) by (auto simp: explained_rows_def set_replace_where)
  ultimately show ?thesis using assms(8,9) by (simp add: explained_rows_def)
qed

lemma employee_updated:
  assumes "update_employee us ctx pr i p s = (Inr e, s')" "employees_inv (working s) (proc s)"
  shows "employees_inv (committed s') (proc s')"
  using assms(1)
proof (rule update_employeeE)
  fix old
  let ?n = "uuid_supply (proc s)" and ?hs = "employee_status_histories (working s)"
  let ?hs' = "employee_status_histories (committed s')"
  assume old: "old \<in> set (employees (working s))" and e: "e = apply_employee_update p old"
    and es: "employees (committed s') = replace_where (\<lambda>r. em_id r = em_id e \<and> em_tenant r = em_tenant old)
       (\<lambda>_. e) (employees (working s))"
    and hs: "if em_status e = em_status old then ?hs' = ?hs
     else \<exists>h. ?hs' = ?hs @ [h] \<and> eh_employee h = em_id old \<and> eh_from_status h = Some (em_status old) \<and>
       eh_to_status h = em_status e"
    and free: "\<forall>q\<in>set (employees (working s)). em_id q \<noteq> em_id e \<longrightarrow> \<not> employee_clash q e"
    and later: "?n \<le> uuid_supply (proc s')"
  have key: "em_id e = em_id old" "em_tenant e = em_tenant old" by (simp_all add: e apply_employee_update_def)
  note inv = assms(2) [unfolded employees_inv_def]
  have led: "changes_lead None (changes_of ?hs (em_id old)) (em_status old)" "em_id old < ?n"
      "\<forall>h\<in>set ?hs. eh_employee h < ?n"
    using inv old by (auto simp: explained_rows_def)
  have history: "changes_lead None (changes_of ?hs' (em_id old)) (em_status e) \<and>
     (\<forall>j. j \<noteq> em_id old \<longrightarrow> changes_of ?hs' j = changes_of ?hs j) \<and> (\<forall>h\<in>set ?hs'. eh_employee h < ?n)"
  proof (cases "em_status e = em_status old")
    case True
    with hs led show ?thesis by simp
  next
    case False
    with hs obtain h where h: "?hs' = ?hs @ [h]" "eh_employee h = em_id old" "eh_from_status h = Some (em_status old)"
        "eh_to_status h = em_status e"
      by auto
    from changes_lead_append [OF led(1) h(3)] led(2,3) show ?thesis
      unfolding h(1) by (auto simp: changes_of_def h(2,4))
  qed
  have "unique_rows employees_table (employees (committed s'))"
    using employees_tbl.unique_replace [of "employees (working s)" e "\<lambda>r. em_tenant r = em_tenant old"] inv free
    by (simp add: es explained_rows_def)
  then have "explained_rows (employees (committed s')) ?hs' ?n"
    using history by (intro explained_updated [OF inv old key es]) blast+
  then show ?thesis unfolding employees_inv_def by (rule explained_later [OF _ later])
qed

section \<open>The requests\<close>

lemma people_frames:
  "tx_ok (both employees_inv)" "table_ok (both employees_inv) departments_table"
  "table_ok (both employees_inv) employee_documents_table" "table_ok (both employees_inv) employee_notes_table"
  "table_ok (both employees_inv) teacher_assignments_table"
  by (simp_all add: tx_ok_both proc_stable_employees_inv table_ok_both framed_def employees_inv_def)

lemma keeps_other_people:
  "keeps (both employees_inv) (create_department ctx pr dp)"
  "keeps (both employees_inv) (create_teacher_assignment ctx pr tp)"
  "keeps (both employees_inv) (add_employee_note ctx pr i np)"
  "keeps (both employees_inv) (add_employee_document ctx pr i docp)"
  unfolding people_write_defs by (intro keeps_intros people_frames)+

lemma people_serve_inv:
  assumes "employees_inv d p" "serve (people_handle us c) d p = (r, d', p')"
  shows "employees_inv d' p'"
proof -
  note run = assms(2) [unfolded people_handle_def]
  note ok = serve_call_ok [OF atomic_people_handle [unfolded people_handle_def]
      keeps_fresh_people [unfolded people_handle_def] proc_stable_employees_inv assms(1) _ run]
  note frame = serve_call_frame [where P = employees_inv, OF _ assms(1) run]
  show ?thesis
  proof (cases "cl_request c")
    case (Create_Employee q)
    then show ?thesis
      by (intro ok) (use assms(1) in \<open>auto simp: validated_Inr discard_Inr dest: employee_created\<close>)
  next
    case (Update_Employee i q)
    then show ?thesis
      by (intro ok) (use assms(1) in \<open>auto simp: validated_Inr discard_Inr dest: employee_updated\<close>)
  qed (rule frame; simp; intro keeps_discard keeps_validated keeps_bind keeps_assignment_check keeps_people_reads
      keeps_other_people)+
qed

interpretation people_service: service "people_handle us" employees_inv for us
proof
  show "employees_inv d' p'" if "employees_inv d p" "serve (people_handle us q) d p = (r, d', p')" for d p q r d' p'
    by (rule people_serve_inv [OF that])
  show "employees_inv d (p\<lparr>clock := t\<rparr>)" if "employees_inv d p" for d p t
    using that by (simp add: employees_inv_def)
qed

end
