(* ===== verification/Content_Props.thy ===== *)
theory Content_Props
  imports Learn_Inv Question_Inv People_Inv Sample
begin

text \<open>
  The properties of PrepLearn, PrepQuestion and PrepPeople: what is published has content, what is asked
  is well typed, what became of an employee is on record.
\<close>

section \<open>Courses\<close>

text \<open>
  C35. Whatever requests PrepLearn answers, in whatever order, a published course carries the time of
  its publication, has a module with a lesson that are not deleted, and its publication is on record.
\<close>

theorem published_courses_ready:
  assumes "courses_inv d0 p0" "reaches learn_handle d0 p0 d p"
    and "c \<in> set (courses d)" "co_status c = C_PUBLISHED"
  shows "co_published_at c \<noteq> None \<and> course_ready d (co_id c)"
  using course_service.reaches_good [OF assms(2,1)] assms(3,4) by (auto simp: courses_inv_def course_ok_def)

definition sample_courses_db :: db where
  "sample_courses_db = empty_db\<lparr>
     courses := [\<lparr>co_id = 10, co_tenant = 1, co_title = ''Maths'', co_slug = ''maths'', co_description = None,
       co_category = None, co_level = None, co_status = C_DRAFT, co_visibility = CV_PRIVATE, co_created_by = None,
       co_published_at = None, co_deleted_at = None, co_created_at = 0\<rparr>],
     course_modules := [\<lparr>mo_id = 11, mo_tenant = 1, mo_course = 10, mo_title = ''Numbers'', mo_description = None,
       mo_order_index = 1, mo_deleted_at = None\<rparr>],
     lessons := [\<lparr>ln_id = 12, ln_tenant = 1, ln_module = 11, ln_title = ''One'', ln_lesson_type = LT_VIDEO,
       ln_content = JObj [], ln_duration_minutes = None, ln_order_index = 1, ln_is_preview = False,
       ln_completion_rule = JObj [], ln_deleted_at = None\<rparr>]\<rparr>"

text \<open>The course is published, then its module is moved.\<close>

theorem published_courses_ready_witness:
  "\<exists>d p. reaches learn_handle sample_courses_db sample_proc d p \<and> map co_status (courses d) = [C_PUBLISHED] \<and>
     map mo_order_index (course_modules d) = [7] \<and> course_ready d 10"
proof -
  let ?m = "serve (learn_handle (sample_call (Publish_Course 10 None))) sample_courses_db sample_proc"
  let ?n = "serve (learn_handle (sample_call (Reorder_Course 10 \<lparr>cro_modules = [(11, 7)], cro_lessons = []\<rparr>)))
    (fst (snd ?m)) (snd (snd ?m))"
  obtain d p where n: "d = fst (snd ?n)" "p = snd (snd ?n)" by blast
  have d: "map (\<lambda>c. (co_id c, co_status c)) (courses d) = [(10, C_PUBLISHED)]" "map mo_order_index (course_modules d) = [7]"
    unfolding n by code_simp+
  have r: "reaches learn_handle sample_courses_db sample_proc d p"
    unfolding n by (rule reaches_next [OF reaches_once])
  have "courses_inv sample_courses_db sample_proc"
    by (simp add: courses_inv_def course_ok_def sample_courses_db_def unique_rows_def)
  from published_courses_ready [OF this r] d r show ?thesis by auto
qed

section \<open>Questions\<close>

text \<open>
  C36. Whatever requests PrepQuestion answers, the approval of generated questions included, every stored
  question is well typed: its options belong to its tenant and fit its type in number and in the number
  of correct ones, and a wrong answer costs no more than a right one earns.
\<close>

theorem stored_questions_well_typed:
  assumes "questions_inv d0 p0" "reaches question_handle d0 p0 d p" "q \<in> set (questions d)"
  shows "well_typed q (options_in (question_options d) (qu_id q))"
  using question_service.reaches_good [OF assms(2,1)] assms(3) by (auto simp: questions_inv_def typed_rows_def)

definition sample_topics_db :: db where
  "sample_topics_db = empty_db\<lparr>question_topics := [\<lparr>tp_id = 10, tp_tenant = 1, tp_parent = None,
     tp_name = ''Maths'', tp_slug = ''maths'', tp_description = None, tp_status = TP_ACTIVE\<rparr>]\<rparr>"

definition sample_question_request :: "bool \<Rightarrow> question_request" where
  "sample_question_request second = Create_Question \<lparr>qcr_topic = 10, qcr_question_type = MCQ,
     qcr_difficulty = EASY, qcr_bloom_level = None, qcr_body = ''1 + 1'', qcr_explanation = None,
     qcr_marks = 2, qcr_negative_marks = 1, qcr_metadata = JObj [], qcr_status = Q_DRAFT,
     qcr_options = [option_draft_of ''A'' ''2'' True, option_draft_of ''B'' ''3'' second], qcr_tags = []\<rparr>"

text \<open>A question with two correct options is refused, one with a single correct option is stored.\<close>

theorem stored_questions_well_typed_witness:
  "\<exists>d p q. reaches question_handle sample_topics_db sample_proc d p \<and> questions d = [q] \<and>
     qu_question_type q = MCQ \<and> well_typed q (options_in (question_options d) (qu_id q))"
proof -
  let ?m = "serve (question_handle (sample_call (sample_question_request True))) sample_topics_db sample_proc"
  let ?n = "serve (question_handle (sample_call (sample_question_request False))) (fst (snd ?m)) (snd (snd ?m))"
  obtain d p where n: "d = fst (snd ?n)" "p = snd (snd ?n)" by blast
  have "map qu_question_type (questions d) = [MCQ]"
    unfolding n by code_simp
  then obtain q where q: "questions d = [q]" "qu_question_type q = MCQ" by auto
  have r: "reaches question_handle sample_topics_db sample_proc d p"
    unfolding n by (rule reaches_next [OF reaches_once])
  have "questions_inv sample_topics_db sample_proc"
    by (simp add: questions_inv_def typed_rows_def sample_topics_db_def empty_db_def unique_rows_def)
  from stored_questions_well_typed [OF this r] q r show ?thesis by auto
qed

section \<open>Employees\<close>

text \<open>
  C37. Whatever requests PrepPeople answers, in whatever order, the status history of every employee read
  in order is an unbroken chain of changes: it starts with the creation, each change begins at the status
  the one before ended at, and the last one ends at the employee's current status.
\<close>

theorem employee_history_explains_status:
  assumes "employees_inv d0 p0" "reaches (people_handle us) d0 p0 d p" "e \<in> set (employees d)"
  shows "changes_lead None (changes_of (employee_status_histories d) (em_id e)) (em_status e)"
  using people_service.reaches_good [OF assms(2,1)] assms(3) by (auto simp: employees_inv_def explained_rows_def)

definition sample_employee_request :: people_request where
  "sample_employee_request = Create_Employee \<lparr>emc_user = None, emc_department = None, emc_employee_code = ''E1'',
     emc_first_name = ''Ada'', emc_last_name = None, emc_email = None, emc_phone = None,
     emc_employee_type = ET_TEACHER, emc_status = EM_ACTIVE, emc_joined_at = None, emc_profile = None\<rparr>"

definition sample_employee_patch :: "employee_status option field \<Rightarrow> string option field \<Rightarrow> people_request" where
  "sample_employee_patch status name = Update_Employee 100 \<lparr>emu_user = Unset, emu_department = Unset,
     emu_employee_code = Unset, emu_first_name = name, emu_last_name = Unset, emu_email = Unset, emu_phone = Unset,
     emu_employee_type = Unset, emu_status = status, emu_joined_at = Unset, emu_status_change_reason = Unset,
     emu_profile = Unset\<rparr>"

text \<open>An employee is created, goes on leave, is given another first name.\<close>

theorem employee_history_explains_status_witness:
  "\<exists>d p e. reaches (people_handle []) empty_db sample_proc d p \<and> employees d = [e] \<and> em_first_name e = ''Eve'' \<and>
     em_status e = EM_ON_LEAVE \<and> map eh_to_status (employee_status_histories d) = [EM_ACTIVE, EM_ON_LEAVE] \<and>
     changes_lead None (changes_of (employee_status_histories d) (em_id e)) EM_ON_LEAVE"
proof -
  let ?run = "\<lambda>q d p. serve (people_handle [] (sample_call q)) d p"
  let ?a = "?run sample_employee_request empty_db sample_proc"
  let ?b = "?run (sample_employee_patch (Assigned (Some EM_ON_LEAVE)) Unset) (fst (snd ?a)) (snd (snd ?a))"
  let ?c = "?run (sample_employee_patch Unset (Assigned (Some ''Eve''))) (fst (snd ?b)) (snd (snd ?b))"
  obtain d p where n: "d = fst (snd ?c)" "p = snd (snd ?c)" by blast
  have d: "map (\<lambda>e. (em_first_name e, em_status e)) (employees d) = [(''Eve'', EM_ON_LEAVE)]"
      "map eh_to_status (employee_status_histories d) = [EM_ACTIVE, EM_ON_LEAVE]"
    unfolding n by code_simp+
  then obtain e where e: "employees d = [e]" "em_first_name e = ''Eve''" "em_status e = EM_ON_LEAVE" by auto
  have r: "reaches (people_handle []) empty_db sample_proc d p"
    unfolding n by (rule reaches_next [OF reaches_next [OF reaches_once]])
  have "employees_inv empty_db sample_proc"
    by (simp add: employees_inv_def explained_rows_def empty_db_def unique_rows_def)
  from employee_history_explains_status [OF this r, of e] d(2) e r show ?thesis by auto
qed

end
