(* ===== verification/Spec2Isabelle.thy ===== *)
theory Spec2Isabelle
  imports Students_Props Assess_Props Attend_Props Live_Props Access_Props People_Facts Learn_Facts
    Question_Facts Settings_Props Suite_Props Content_Props
begin

text \<open>
  PrepSuite is the backend of a suite of applications for teaching institutions, a FastAPI service
  over PostgreSQL (src/app).  Institutions are tenants that share one database; row level security
  keeps their rows apart.  This development models the services of the suite, the tables they write,
  and the way a request gets from its headers to a service, and proves what they guarantee.

  \<^bold>\<open>The parts and how they interact.\<close>  A router resolves the dependencies of its endpoint
  (the tenant the headers name, the gate of the application, the account of the token and its
  permissions), all on one database session, and calls one operation of a service.  The operation
  reads and writes rows through the session, commits, and hands a domain event to the dispatcher.
  The services do not call each other, except that PrepAccess uses the service of the tenants; they
  share rows: PrepAssess copies the question sets of PrepQuestion and asks PrepStudents' tables for
  the members of a batch, PrepAttend and PrepLive ask them too, PrepLive and PrepLearn read the
  employees of PrepPeople, PrepPeople the accounts of PrepAccess.

  \<^bold>\<open>Foundations.\<close>
  \<^item> \<open>Prelude\<close>: lists as tables, rounding to two decimals, the rule collections.  \<open>Py_Values\<close>:
    identifiers and their text, slugs and codes, JSON, aware and naive datetimes.
  \<^item> \<open>Txn\<close>: one session against the database.  An operation maps a session (the committed database,
    the working copy of the transaction, the tenant and user that row level security reads, and the
    process with its clock, its supply of identifiers and secrets, its event log and its record of
    failed logins) to an exception or a value and the next session.  A table is a record of its rows,
    its key, its policies and its unique constraints; an INSERT or UPDATE that a policy or a constraint
    forbids raises.  \<open>serve\<close> runs an operation in a fresh session and keeps what it committed.
  \<^item> \<open>Txn_Rules\<close>: execution and inversion of operations; \<open>keeps\<close>, an assertion every step preserves;
    \<open>atomic\<close>, an operation that raises has committed nothing and published nothing; the locale
    \<open>lawful_table\<close> for the laws of a table, interpreted for every table in \<open>Schema\<close> and
    \<open>Identity_Model\<close>; the locale \<open>service\<close> for an invariant of all requests, with the states a
    sequence of requests and ticks of the clock reaches; each service with an invariant interprets
    it on its own handler.  \<open>Row_Rules\<close>: \<open>ensures\<close>, a calculus for assertions that hold between any two
    steps, and rows that stay what they were.
  \<^item> \<open>Platform\<close>: tenant context, principal, partial updates, events, search.  \<open>Pagination\<close>: the pages
    of a sorted table and the loop that follows their cursors, with the locale of a page source.
  \<^item> \<open>Schema\<close> (rows in \<open>Students_Model\<close> and the other theories named \<open>_Model\<close>): the tables of the
    seven services; \<open>Identity_Model\<close>: those of tenants, accounts and settings.

  \<^bold>\<open>Services.\<close>  For each package app/modules/x there is a theory X with one definition per function
  of service.py and repository.py, in their order and under their names, and a theory X_Facts with the
  datatype of its requests, their validation (schemas.py), the handler that runs them in a session
  scoped to a tenant, atomicity, and what a request leaves alone.
  \<^item> \<open>Students\<close>: a batch never has more members than its capacity; a bulk import reports each item once;
    the status history; the cursor pages of the default order return every student once, with or
    without a filter by batch.
  \<^item> \<open>Assess\<close> (\<open>Assess_Steps\<close>, \<open>Assess_Inv\<close>, \<open>Assess_Rows\<close>): automatic evaluation, bounds of the scores,
    every evaluated attempt has exactly one result, under its own keys and with its score, a
    submission is evaluated exactly when every question is, attempts only advance, analytics.
  \<^item> \<open>Attend\<close>: marking refines an assignment on the attendance sheet; the refusals of locked and cancelled sessions; uniqueness and
    readability of the records; the review of corrections; exact summaries.
  \<^item> \<open>Live\<close> (\<open>Live_Inv\<close>, \<open>Live_Access\<close>): the state machine of a class, one participant per identity, the
    admission rule as a predicate and the decision that equals it, the codes of the classes; when a
    class can be ended, with the seconds of its participants kept to the 32 bits of their column.
  \<^item> \<open>Learn\<close> (\<open>Learn_Inv\<close>): published courses have content.  \<open>Question\<close> (\<open>Question_Inv\<close>): stored questions
    fit their type.  \<open>People\<close> (\<open>People_Inv\<close>): the status history explains the status of an employee.
  \<^item> \<open>Security\<close>, \<open>Tenancy\<close>, \<open>Access\<close>: tokens and hashes, the resolution of the tenant, roles and
    permissions, logins and their rate limit, rotation of refresh tokens.  \<open>Settings\<close>: one current
    academic year per tenant, the switch of an application and the gate that obeys it.

  \<^bold>\<open>The whole.\<close>  \<open>Tenant_View\<close> is what a tenant sees of the tables.  \<open>Suite\<close> puts the seven services
  behind one request type, with the application and the permission of each endpoint.  \<open>Routes\<close> and
  \<open>Access_Routes\<close> model the routers.  \<open>Suite_Props\<close> states the properties of whole requests: no request
  changes what a tenant sees unless its account belongs to the tenant, or to the platform and its headers
  name the tenant; a request that fails leaves no trace; and, where the
  code is weaker than it means to be, that the settings follow the tenant of the headers and an
  invitation the tenant of its payload.  The theories named \<open>_Props\<close> hold the properties with a concrete
  instance of each, evaluated on the databases of \<open>Sample\<close> and of the theories themselves.

  \<^bold>\<open>Bounds and fuel.\<close>  The search for the code of a class makes at most eight draws, as the code does,
  and its termination is a theorem.  The loop that follows the cursors takes as many steps as its fuel
  says; one more than there are rows is enough, whatever the size of a page, and the theorem on the
  pages says so.  Every other recursion is structural.

  \<^bold>\<open>Parameters.\<close>  SHA-256, argon2 and PyJWT are fields of the record \<open>auth\<close>, with the configuration;
  theorems that need a law of them (a signed token decodes to its claims) assume it by name.  The
  credentials FastAPI takes from a header are an argument, \<open>bearer\<close>; the provider of generated
  questions is an argument of its operation, with the placeholder of the repository as its default in
  the requests; the accounts are an argument of PrepPeople.

  \<^bold>\<open>Not modelled.\<close>
  \<^item> Foreign keys, the ranges of INTEGER columns and the lengths of VARCHAR columns beyond what the
    schemas check, except the durations PrepLive computes and stores (\<open>int32\<close>); the order in which PostgreSQL returns rows without ORDER BY is the order of insertion.
  \<^item> Concurrency: requests run one after the other.  Two requests that interleave between a check and
    its write are outside the theorems.
  \<^item> The text of cursors and of network addresses, e-mail syntax, URLs, characters beyond 8 bits and
    their case, the forms of \<open>uuid.UUID\<close> other than plain and hyphenated hexadecimal digits.  Payloads
    are those pydantic has normalised.
  \<^item> The columns \<open>updated_at\<close>, and \<open>created_at\<close> where nothing reads it; audit snapshots of the settings are
    reduced to the event; the tables no operation uses (integrations of a tenant, attendance policies,
    invitations to live classes, submissions of assignments).
  \<^item> Output of a provider of questions that is not of the agreed shape.
  \<^item> Migrations other than the policies, the HTTP client of the live runtime, logging, configuration,
    caches, middleware: they keep no state the services read.
\<close>

end
